(* ===== verification/Prelude.thy ===== *)
theory Prelude
  imports Main
begin

text \<open>
  Shared vocabulary of the development.

  Every service method of the backend is an asynchronous function that reads and writes the
  database and may throw.  It is modelled as an \<open>action\<close>: a function from the state to a
  result and the next state, where the result is \<open>Inl e\<close> for a thrown error \<open>e\<close> and
  \<open>Inr x\<close> for a returned value \<open>x\<close>.  The state is kept when an error is thrown, because a
  throw in the middle of a handler does not undo the statements before it; only
  \<open>atomic\<close>, the model of \<open>prisma.$transaction\<close>, rolls the state back.

  The weakest-precondition calculus \<open>wp\<close> runs an action symbolically by rewriting with the
  collection \<open>wp_simps\<close>; table updates are the list operations at the end of the theory.
\<close>

section \<open>Absent values\<close>

text \<open>\<open>x ?? d\<close>, with a default and with an older value, and the test \<open>if (x)\<close> of an optional string.\<close>

definition orElse :: "'a option \<Rightarrow> 'a \<Rightarrow> 'a" where
  "orElse x d = (case x of None \<Rightarrow> d | Some y \<Rightarrow> y)"

definition keptOr :: "'a option \<Rightarrow> 'a option \<Rightarrow> 'a option" where
  "keptOr x old = (case x of None \<Rightarrow> old | Some v \<Rightarrow> Some v)"

definition truthy :: "string option \<Rightarrow> bool" where
  "truthy x = (case x of None \<Rightarrow> False | Some v \<Rightarrow> v \<noteq> [])"

section \<open>Actions\<close>

type_synonym ('s, 'e, 'a) action = "'s \<Rightarrow> ('e + 'a) \<times> 's"

definition return :: "'a \<Rightarrow> ('s, 'e, 'a) action" where
  "return x = (\<lambda>s. (Inr x, s))"

definition throw :: "'e \<Rightarrow> ('s, 'e, 'a) action" where
  "throw e = (\<lambda>s. (Inl e, s))"

definition bind :: "('s, 'e, 'a) action \<Rightarrow> ('a \<Rightarrow> ('s, 'e, 'b) action) \<Rightarrow> ('s, 'e, 'b) action" where
  "bind m f = (\<lambda>s. case m s of (Inl e, s') \<Rightarrow> (Inl e, s') | (Inr x, s') \<Rightarrow> f x s')"

abbreviation andThen :: "('s, 'e, 'a) action \<Rightarrow> ('s, 'e, 'b) action \<Rightarrow> ('s, 'e, 'b) action" where
  "andThen m k \<equiv> bind m (\<lambda>_. k)"

definition gets :: "('s \<Rightarrow> 'a) \<Rightarrow> ('s, 'e, 'a) action" where
  "gets f = (\<lambda>s. (Inr (f s), s))"

definition modify :: "('s \<Rightarrow> 's) \<Rightarrow> ('s, 'e, unit) action" where
  "modify f = (\<lambda>s. (Inr (), f s))"

text \<open>\<open>ensure c e\<close> is the guard \<open>if (!c) throw e\<close>; \<open>orThrow\<close> is the null check after a lookup.\<close>

definition ensure :: "bool \<Rightarrow> 'e \<Rightarrow> ('s, 'e, unit) action" where
  "ensure c e = (if c then return () else throw e)"

definition orThrow :: "'a option \<Rightarrow> 'e \<Rightarrow> ('s, 'e, 'a) action" where
  "orThrow x e = (case x of None \<Rightarrow> throw e | Some y \<Rightarrow> return y)"

definition onlyIf :: "bool \<Rightarrow> ('s, 'e, unit) action \<Rightarrow> ('s, 'e, unit) action" where
  "onlyIf c m = (if c then m else return ())"

text \<open>\<open>prisma.$transaction(async (tx) => ...)\<close>: all or nothing.\<close>

definition atomic :: "('s, 'e, 'a) action \<Rightarrow> ('s, 'e, 'a) action" where
  "atomic m = (\<lambda>s. case m s of (Inl e, _) \<Rightarrow> (Inl e, s) | (Inr x, s') \<Rightarrow> (Inr x, s'))"

text \<open>\<open>try m catch (e) { h e }\<close>.\<close>

definition tryCatch :: "('s, 'e, 'a) action \<Rightarrow> ('e \<Rightarrow> ('s, 'e, 'a) action) \<Rightarrow> ('s, 'e, 'a) action" where
  "tryCatch m h = (\<lambda>s. case m s of (Inl e, s') \<Rightarrow> h e s' | (Inr x, s') \<Rightarrow> (Inr x, s'))"

text \<open>
  \<open>Promise.all([m, n])\<close>: both are started, so the effects of \<open>n\<close> happen even when \<open>m\<close>
  rejects; the first rejection is the result.
\<close>

definition both :: "('s, 'e, 'a) action \<Rightarrow> ('s, 'e, 'b) action \<Rightarrow> ('s, 'e, 'a \<times> 'b) action" where
  "both m n = (\<lambda>s. case m s of (r, s') \<Rightarrow> case n s' of (q, s'') \<Rightarrow>
     ((case r of Inl e \<Rightarrow> Inl e | Inr x \<Rightarrow> (case q of Inl e \<Rightarrow> Inl e | Inr y \<Rightarrow> Inr (x, y))), s''))"

fun forEach :: "'a list \<Rightarrow> ('a \<Rightarrow> ('s, 'e, unit) action) \<Rightarrow> ('s, 'e, unit) action" where
  "forEach [] f = return ()"
| "forEach (x # xs) f = andThen (f x) (forEach xs f)"

section \<open>Symbolic execution\<close>

named_theorems wp_simps \<open>equations that run an action symbolically\<close>

definition wp :: "('s, 'e, 'a) action \<Rightarrow> ('a \<Rightarrow> 's \<Rightarrow> bool) \<Rightarrow> ('e \<Rightarrow> 's \<Rightarrow> bool) \<Rightarrow> 's \<Rightarrow> bool" where
  "wp m Q E s = (case m s of (Inl e, s') \<Rightarrow> E e s' | (Inr x, s') \<Rightarrow> Q x s')"

lemma wp_return [wp_simps]: "wp (return x) Q E s = Q x s"
  by (simp add: wp_def return_def)

lemma wp_throw [wp_simps]: "wp (throw e) Q E s = E e s"
  by (simp add: wp_def throw_def)

lemma wp_bind [wp_simps]: "wp (bind m f) Q E s = wp m (\<lambda>x. wp (f x) Q E) E s"
  by (simp add: wp_def bind_def split: prod.splits sum.splits)

lemma wp_gets [wp_simps]: "wp (gets f) Q E s = Q (f s) s"
  by (simp add: wp_def gets_def)

lemma wp_modify [wp_simps]: "wp (modify f) Q E s = Q () (f s)"
  by (simp add: wp_def modify_def)

lemma wp_ensure [wp_simps]: "wp (ensure c e) Q E s = (if c then Q () s else E e s)"
  by (simp add: ensure_def wp_return wp_throw)

lemma wp_orThrow [wp_simps]:
  "wp (orThrow x e) Q E s = (case x of None \<Rightarrow> E e s | Some y \<Rightarrow> Q y s)"
  by (simp add: orThrow_def wp_return wp_throw split: option.splits)

lemma wp_onlyIf [wp_simps]: "wp (onlyIf c m) Q E s = (if c then wp m Q E s else Q () s)"
  by (simp add: onlyIf_def wp_return)

lemma wp_atomic [wp_simps]: "wp (atomic m) Q E s = wp m Q (\<lambda>e _. E e s) s"
  by (simp add: wp_def atomic_def split: prod.splits sum.splits)

lemma wp_tryCatch [wp_simps]: "wp (tryCatch m h) Q E s = wp m Q (\<lambda>e. wp (h e) Q E) s"
  by (simp add: wp_def tryCatch_def split: prod.splits sum.splits)

lemma wp_both [wp_simps]:
  "wp (both m n) Q E s =
     wp m (\<lambda>x. wp n (\<lambda>y. Q (x, y)) E) (\<lambda>e. wp n (\<lambda>_. E e) (\<lambda>_. E e)) s"
  by (simp add: wp_def both_def split: prod.splits sum.splits)

lemma wp_if [wp_simps]: "wp (if c then m else n) Q E s = (if c then wp m Q E s else wp n Q E s)"
  by simp

lemma wp_case_option [wp_simps]:
  "wp (case x of None \<Rightarrow> m | Some y \<Rightarrow> f y) Q E s =
     (case x of None \<Rightarrow> wp m Q E s | Some y \<Rightarrow> wp (f y) Q E s)"
  by (simp split: option.splits)

lemma wp_case_prod [wp_simps]:
  "wp (case p of (x, y) \<Rightarrow> f x y) Q E s = (case p of (x, y) \<Rightarrow> wp (f x y) Q E s)"
  by (simp split: prod.splits)

lemma wp_let [wp_simps]: "wp (let x = t in f x) Q E s = wp (f t) Q E s"
  by (simp add: Let_def)

text \<open>Consequence: how the contract of a called operation is used inside its caller.\<close>

lemma wp_conseq:
  assumes "wp m Q E s" and "\<And>x t. Q x t \<Longrightarrow> Q' x t" and "\<And>e t. E e t \<Longrightarrow> E' e t"
  shows "wp m Q' E' s"
  using assms by (auto simp: wp_def split: prod.splits sum.splits)

lemma wp_conj: "wp m Q E s \<Longrightarrow> wp m Q' E' s \<Longrightarrow> wp m (\<lambda>x t. Q x t \<and> Q' x t) (\<lambda>e t. E e t \<and> E' e t) s"
  by (auto simp: wp_def split: prod.splits sum.splits)

lemma wp_Inr: "wp m Q E s \<Longrightarrow> m s = (Inr x, t) \<Longrightarrow> Q x t"
  by (simp add: wp_def)

lemma wp_Inl: "wp m Q E s \<Longrightarrow> m s = (Inl e, t) \<Longrightarrow> E e t"
  by (simp add: wp_def)

lemma wp_iff: "wp m Q E s \<longleftrightarrow> (\<forall>x t. m s = (Inr x, t) \<longrightarrow> Q x t) \<and> (\<forall>e t. m s = (Inl e, t) \<longrightarrow> E e t)"
  by (auto simp: wp_def split: prod.splits sum.splits)

text \<open>A returning run, taken apart step by step.\<close>

lemma bind_InrE:
  assumes "bind m f s = (Inr y, u)"
  obtains x t where "m s = (Inr x, t)" "f x t = (Inr y, u)"
  using assms by (auto simp: bind_def split: prod.splits sum.splits)

lemma gets_InrE: "gets f s = (Inr y, u) \<Longrightarrow> (u = s \<Longrightarrow> y = f s \<Longrightarrow> P) \<Longrightarrow> P"
  by (auto simp: gets_def)

lemma ensure_InrE: "ensure c e s = (Inr y, u) \<Longrightarrow> (u = s \<Longrightarrow> c \<Longrightarrow> P) \<Longrightarrow> P"
  by (auto simp: ensure_def return_def throw_def split: if_splits)

lemma orThrow_InrE: "orThrow x e s = (Inr y, u) \<Longrightarrow> (u = s \<Longrightarrow> x = Some y \<Longrightarrow> P) \<Longrightarrow> P"
  by (auto simp: orThrow_def return_def throw_def split: option.splits)

lemma return_InrE: "return x s = (Inr y, u) \<Longrightarrow> (u = s \<Longrightarrow> y = x \<Longrightarrow> P) \<Longrightarrow> P"
  by (auto simp: return_def)

lemma modify_InrE: "modify f s = (Inr y, u) \<Longrightarrow> (u = f s \<Longrightarrow> P) \<Longrightarrow> P"
  by (auto simp: modify_def)

lemmas run_elims = bind_InrE gets_InrE ensure_InrE orThrow_InrE return_InrE modify_InrE

lemma bind_assoc: "bind (bind m f) g = bind m (\<lambda>x. bind (f x) g)"
  by (rule ext) (simp add: bind_def split: prod.splits sum.splits)

lemma bind_return: "bind (return x) f = f x"
  by (rule ext) (simp add: bind_def return_def)

text \<open>Whether a run returns; its value and the state it leaves, for closed inputs.\<close>

definition succeeds :: "('s, 'e, 'a) action \<Rightarrow> 's \<Rightarrow> bool" where
  "succeeds m s = (case fst (m s) of Inl _ \<Rightarrow> False | Inr _ \<Rightarrow> True)"

definition result :: "('s, 'e, 'a) action \<Rightarrow> 's \<Rightarrow> 'a" where
  "result m s = projr (fst (m s))"

definition after :: "('s, 'e, 'a) action \<Rightarrow> 's \<Rightarrow> 's" where
  "after m s = snd (m s)"

lemma succeeds_run: "succeeds m s \<Longrightarrow> m s = (Inr (result m s), after m s)"
  by (cases "m s") (auto simp: succeeds_def result_def after_def split: sum.splits)

text \<open>The run of a handler: both components, as one equation, for evaluating closed inputs.\<close>

lemmas action_defs = return_def throw_def bind_def gets_def modify_def ensure_def orThrow_def
  onlyIf_def atomic_def tryCatch_def both_def

text \<open>Running a handler on a closed state, one call at a time: continuations wait for their value.\<close>

named_theorems run_simps \<open>equations that run an action on a given state\<close>

lemma run_cong: "m = m' \<Longrightarrow> bind m f = bind m' f"
  by simp

lemma run_bind [run_simps]:
  fixes f :: "'a \<Rightarrow> ('s, 'e, 'b) action" and k :: "unit \<Rightarrow> ('s, 'e, 'b) action"
  shows "bind (return x) f s = f x s"
    "bind (throw e) f s = (Inl e, s)"
    "bind (gets g) f s = f (g s) s"
    "bind (modify h) k s = k () (h s)"
    "bind (ensure c e) k s = (if c then k () s else (Inl e, s))"
    "bind (orThrow y e) f s = (case y of None \<Rightarrow> (Inl e, s) | Some z \<Rightarrow> f z s)"
    "bind (bind m l) f s = bind m (\<lambda>x. bind (l x) f) s"
    "bind (onlyIf c u) k s = (if c then bind u k s else k () s)"
    "bind (atomic n) f s = (case n s of (Inl e, _) \<Rightarrow> (Inl e, s) | (Inr x, t) \<Rightarrow> f x t)"
    "bind (tryCatch n j) f s = (case n s of (Inl e, t) \<Rightarrow> bind (j e) f t | (Inr x, t) \<Rightarrow> f x t)"
  by (simp_all add: action_defs split: option.split prod.split sum.split)

lemma run_cases [run_simps]:
  "bind (if c then m else n) f s = (if c then bind m f s else bind n f s)"
  "bind (case y of None \<Rightarrow> m | Some z \<Rightarrow> k z) f s = (case y of None \<Rightarrow> bind m f s | Some z \<Rightarrow> bind (k z) f s)"
  "bind (case p of (a, b) \<Rightarrow> g a b) f s = (case p of (a, b) \<Rightarrow> bind (g a b) f s)"
  by (simp_all split: option.split prod.split)

lemma run_last [run_simps]:
  "return x s = (Inr x, s)" "throw e s = (Inl e, s)" "gets g s = (Inr (g s), s)" "modify h s = (Inr (), h s)"
  "ensure c e s = (if c then Inr () else Inl e, s)"
  "orThrow o' e s = (case o' of None \<Rightarrow> Inl e | Some y \<Rightarrow> Inr y, s)"
  "onlyIf c u s = (if c then u s else (Inr (), s))"
  by (simp_all add: action_defs split: option.split)

section \<open>Invariants of actions\<close>

text \<open>An action keeps \<open>I\<close> whether it returns or throws.\<close>

definition keeps :: "('s \<Rightarrow> bool) \<Rightarrow> ('s, 'e, 'a) action \<Rightarrow> bool" where
  "keeps I m \<longleftrightarrow> (\<forall>s. I s \<longrightarrow> I (snd (m s)))"

lemma wp_final_state: "wp m (\<lambda>_. I) (\<lambda>_. I) s \<longleftrightarrow> I (snd (m s))"
  by (cases "m s"; cases "fst (m s)") (auto simp: wp_def)

lemma keeps_iff_wp: "keeps I m \<longleftrightarrow> (\<forall>s. I s \<longrightarrow> wp m (\<lambda>_. I) (\<lambda>_. I) s)"
  by (simp add: keeps_def wp_final_state)

lemma keepsD: "keeps I m \<Longrightarrow> I s \<Longrightarrow> I (snd (m s))"
  by (simp add: keeps_def)

lemma keeps_wp: "keeps I m \<Longrightarrow> I s \<Longrightarrow> wp m (\<lambda>_. I) (\<lambda>_. I) s"
  by (simp add: keeps_iff_wp)

named_theorems keeps_intros \<open>rules that build an invariant proof from the parts of a handler\<close>

lemma keeps_return [keeps_intros]: "keeps I (return x)"
  by (simp add: keeps_def return_def)

lemma keeps_throw [keeps_intros]: "keeps I (throw e)"
  by (simp add: keeps_def throw_def)

lemma keeps_gets [keeps_intros]: "keeps I (gets f)"
  by (simp add: keeps_def gets_def)

lemma keeps_ensure [keeps_intros]: "keeps I (ensure c e)"
  by (simp add: ensure_def keeps_return keeps_throw)

lemma keeps_orThrow [keeps_intros]: "keeps I (orThrow x e)"
  by (simp add: orThrow_def keeps_return keeps_throw split: option.splits)

lemma keeps_modify: "(\<And>s. I s \<Longrightarrow> I (f s)) \<Longrightarrow> keeps I (modify f)"
  by (simp add: keeps_def modify_def)

lemma keeps_bind [keeps_intros]: "keeps I m \<Longrightarrow> (\<And>x. keeps I (f x)) \<Longrightarrow> keeps I (bind m f)"
  by (force simp: keeps_def bind_def split: prod.splits sum.splits)

lemma keeps_atomic [keeps_intros]: "keeps I m \<Longrightarrow> keeps I (atomic m)"
  by (force simp: keeps_def atomic_def split: prod.splits sum.splits)

lemma keeps_tryCatch [keeps_intros]:
  "keeps I m \<Longrightarrow> (\<And>e. keeps I (h e)) \<Longrightarrow> keeps I (tryCatch m h)"
  by (force simp: keeps_def tryCatch_def split: prod.splits sum.splits)

lemma keeps_both [keeps_intros]: "keeps I m \<Longrightarrow> keeps I n \<Longrightarrow> keeps I (both m n)"
  by (force simp: keeps_def both_def split: prod.splits sum.splits)

lemma keeps_onlyIf [keeps_intros]: "(c \<Longrightarrow> keeps I m) \<Longrightarrow> keeps I (onlyIf c m)"
  by (simp add: onlyIf_def keeps_return)

lemma keeps_if [keeps_intros]:
  "(c \<Longrightarrow> keeps I m) \<Longrightarrow> (\<not> c \<Longrightarrow> keeps I n) \<Longrightarrow> keeps I (if c then m else n)"
  by simp

lemma keeps_case_option [keeps_intros]:
  "keeps I m \<Longrightarrow> (\<And>y. keeps I (f y)) \<Longrightarrow> keeps I (case x of None \<Rightarrow> m | Some y \<Rightarrow> f y)"
  by (simp split: option.splits)

lemma keeps_case_prod [keeps_intros]:
  "(\<And>x y. keeps I (f x y)) \<Longrightarrow> keeps I (case p of (x, y) \<Rightarrow> f x y)"
  by (simp split: prod.splits)

lemma keeps_forEach [keeps_intros]: "(\<And>x. keeps I (f x)) \<Longrightarrow> keeps I (forEach xs f)"
  by (induction xs) (auto intro: keeps_intros)

text \<open>\<open>returns P m\<close>: every value \<open>m\<close> returns satisfies \<open>P\<close>.\<close>

definition returns :: "('a \<Rightarrow> bool) \<Rightarrow> ('s, 'e, 'a) action \<Rightarrow> bool" where
  "returns P m \<longleftrightarrow> (\<forall>s x t. m s = (Inr x, t) \<longrightarrow> P x)"

lemma keeps_bind_returns:
  assumes "keeps I m" and "returns P m" and "\<And>x. P x \<Longrightarrow> keeps I (f x)"
  shows "keeps I (bind m f)"
  using assms unfolding keeps_def returns_def bind_def
  by (auto split: prod.splits sum.splits) (metis snd_conv)+

section \<open>Tables\<close>

text \<open>
  A table is the list of its rows, oldest first.  \<open>findFirst\<close> is \<open>List.find\<close>;
  \<open>updateWhere\<close> is \<open>update\<close>/\<open>updateMany\<close>; \<open>countWhere\<close> is \<open>count\<close> and the
  \<open>count\<close> that \<open>updateMany\<close> returns.
\<close>

definition updateWhere :: "('r \<Rightarrow> bool) \<Rightarrow> ('r \<Rightarrow> 'r) \<Rightarrow> 'r list \<Rightarrow> 'r list" where
  "updateWhere P f t = map (\<lambda>r. if P r then f r else r) t"

definition countWhere :: "('r \<Rightarrow> bool) \<Rightarrow> 'r list \<Rightarrow> nat" where
  "countWhere P t = length (filter P t)"

lemma length_updateWhere [simp]: "length (updateWhere P f t) = length t"
  by (simp add: updateWhere_def)

lemma updateWhere_Nil [simp]: "updateWhere P f [] = []"
  by (simp add: updateWhere_def)

lemma updateWhere_Cons [simp]:
  "updateWhere P f (r # t) = (if P r then f r else r) # updateWhere P f t"
  by (simp add: updateWhere_def)

lemma set_updateWhere: "set (updateWhere P f t) = (\<lambda>r. if P r then f r else r) ` set t"
  by (simp add: updateWhere_def)

lemma map_updateWhere_same:
  "(\<And>r. P r \<Longrightarrow> g (f r) = g r) \<Longrightarrow> map g (updateWhere P f t) = map g t"
  by (induction t) auto

lemma updateWhere_cong:
  assumes "\<And>r. r \<in> set t \<Longrightarrow> P r \<longleftrightarrow> Q r" and "\<And>r. r \<in> set t \<Longrightarrow> P r \<Longrightarrow> f r = g r"
  shows "updateWhere P f t = updateWhere Q g t"
  using assms unfolding updateWhere_def by (intro map_cong) auto

lemma updateWhere_none: "(\<And>r. r \<in> set t \<Longrightarrow> \<not> P r) \<Longrightarrow> updateWhere P f t = t"
  by (induction t) auto

lemma countWhere_zero: "countWhere P t = 0 \<longleftrightarrow> (\<forall>r \<in> set t. \<not> P r)"
  by (auto simp: countWhere_def filter_empty_conv)

lemma find_SomeD: "List.find P t = Some r \<Longrightarrow> r \<in> set t \<and> P r"
  by (auto simp: find_Some_iff)

lemma find_NoneD: "List.find P t = None \<Longrightarrow> r \<in> set t \<Longrightarrow> \<not> P r"
  by (auto simp: find_None_iff)

lemma find_append: "List.find P (t @ u) = (case List.find P t of None \<Rightarrow> List.find P u | Some r \<Rightarrow> Some r)"
  by (induction t) auto

text \<open>With a unique key, a lookup finds exactly the row that holds the key.\<close>

lemma find_key:
  "distinct (map key t) \<Longrightarrow> r \<in> set t \<Longrightarrow> List.find (\<lambda>x. key x = key r) t = Some r"
  by (induction t) (auto simp: image_iff)

lemma find_key_iff:
  "distinct (map key t) \<Longrightarrow> List.find (\<lambda>x. key x = k) t = Some r \<longleftrightarrow> r \<in> set t \<and> key r = k"
  by (auto dest: find_SomeD find_key)

lemma find_updateWhere_key:
  assumes "\<And>r. key (f r) = key r"
  shows "List.find (\<lambda>x. key x = k) (updateWhere (\<lambda>x. key x = k) f t)
       = map_option f (List.find (\<lambda>x. key x = k) t)"
  by (induction t) (auto simp: assms)

lemma find_updateWhere_other:
  assumes "\<And>r. P r \<Longrightarrow> key (f r) = key r" and "\<And>r. key r = k \<Longrightarrow> \<not> P r"
  shows "List.find (\<lambda>x. key x = k) (updateWhere P f t) = List.find (\<lambda>x. key x = k) t"
  by (induction t) (use assms in auto)

lemma find_map_key:
  assumes "\<And>r. key (f r) = key r"
  shows "List.find (\<lambda>x. key x = k) (map f t) = map_option f (List.find (\<lambda>x. key x = k) t)"
  by (induction t) (auto simp: assms)

lemma find_map_inv:
  assumes "\<And>r. P (f r) \<longleftrightarrow> P r"
  shows "List.find P (map f t) = map_option f (List.find P t)"
  by (induction t) (auto simp: assms)

lemma sum_list_map_add:
  fixes g h :: "'a \<Rightarrow> 'b::comm_monoid_add"
  shows "sum_list (map (\<lambda>x. g x + h x) xs) = sum_list (map g xs) + sum_list (map h xs)"
  by (rule sum_list_addf)

lemma sum_list_delta:
  fixes c :: "'b::comm_monoid_add"
  assumes "distinct (map key xs)"
  shows "sum_list (map (\<lambda>x. if key x = k then c else 0) xs) = (if k \<in> key ` set xs then c else 0)"
  using assms by (induction xs) (auto simp: image_iff)

end
