(* ===== verification/Money.thy ===== *)
theory Money
  imports Prelude Complex_Main
begin

text \<open>
  Money is an exact decimal, modelled as a rational number: \<open>Prisma.Decimal\<close> (decimal.js) adds,
  subtracts and multiplies the amounts of this program exactly (every product has far fewer than
  the significant digits decimal.js keeps).  The theory holds the three roundings of the code:
  \<open>roundMoney\<close> (pricing.service.ts), the scale of a \<open>@db.Decimal(18, 2)\<close> column
  (schema.prisma; PostgreSQL rounds a stored value half away from zero), and the conversions
  \<open>toKobo\<close>/\<open>fromKobo\<close> of payments.service.ts, with the facts the ledger needs:
  whole-cent amounts are closed under sums and differences and are fixed by every rounding.
\<close>

section \<open>Rounding\<close>

text \<open>Round to the nearest integer, a tie away from zero.\<close>

definition halfUp :: "rat \<Rightarrow> int" where
  "halfUp x = (if 0 \<le> x then \<lfloor>x + 1 / 2\<rfloor> else - \<lfloor>1 / 2 - x\<rfloor>)"

text \<open>\<open>value.toDecimalPlaces(2, Prisma.Decimal.ROUND_HALF_UP)\<close>.\<close>

definition roundMoney :: "rat \<Rightarrow> rat" where
  "roundMoney value = of_int (halfUp (value * 100)) / 100"

text \<open>What a \<open>Decimal(18, 2)\<close> (or \<open>Decimal(10, 2)\<close>) column holds after a value is written to it.\<close>

definition scale2 :: "rat \<Rightarrow> rat" where
  "scale2 value = of_int (halfUp (value * 100)) / 100"

definition toKobo :: "rat \<Rightarrow> int" where
  "toKobo nairaAmount = \<lfloor>nairaAmount * 100 + 1 / 2\<rfloor>"

definition fromKobo :: "int \<Rightarrow> rat" where
  "fromKobo kobo = of_int kobo / 100"

section \<open>Whole cents\<close>

definition is_cents :: "rat \<Rightarrow> bool" where
  "is_cents x \<longleftrightarrow> of_int \<lfloor>x * 100\<rfloor> = x * 100"

lemma is_cents_iff: "is_cents x \<longleftrightarrow> (\<exists>k::int. x = of_int k / 100)"
proof (rule iffI)
  assume "is_cents x"
  then have "x * 100 = of_int \<lfloor>x * 100\<rfloor>" unfolding is_cents_def by (rule sym)
  then have "x = of_int \<lfloor>x * 100\<rfloor> / 100" by linarith
  then show "\<exists>k::int. x = of_int k / 100" by blast
next
  assume "\<exists>k::int. x = of_int k / 100"
  then obtain k :: int where k: "x = of_int k / 100" by blast
  show "is_cents x" by (simp add: is_cents_def k)
qed

lemma is_cents_fraction [simp, intro]: "is_cents (of_int k / 100)"
  by (auto simp: is_cents_iff)

lemma is_cents_of_int [simp, intro]: "is_cents (of_int k)"
proof -
  have "(of_int k :: rat) = of_int (k * 100) / 100" by simp
  then show ?thesis unfolding is_cents_iff by blast
qed

lemma is_cents_0 [simp, intro]: "is_cents 0"
  using is_cents_of_int [of 0] by simp

lemma is_cents_add [intro]: "is_cents x \<Longrightarrow> is_cents y \<Longrightarrow> is_cents (x + y)"
  unfolding is_cents_iff by (metis add_divide_distrib of_int_add)

lemma is_cents_diff [intro]: "is_cents x \<Longrightarrow> is_cents y \<Longrightarrow> is_cents (x - y)"
  unfolding is_cents_iff by (metis diff_divide_distrib of_int_diff)

lemma is_cents_uminus [intro]: "is_cents x \<Longrightarrow> is_cents (- x)"
  using is_cents_diff [of 0 x] by simp

lemma is_cents_min [intro]: "is_cents x \<Longrightarrow> is_cents y \<Longrightarrow> is_cents (min x y)"
  by (simp add: min_def)

lemma is_cents_sum_list: "(\<And>x. x \<in> set xs \<Longrightarrow> is_cents (f x)) \<Longrightarrow> is_cents (sum_list (map f xs))"
  by (induction xs) auto

lemma halfUp_of_int [simp]: "halfUp (of_int k) = k"
proof (cases "0 \<le> k")
  case True
  then show ?thesis by (simp add: halfUp_def floor_eq_iff)
next
  case False
  have "\<lfloor>1 / 2 - (of_int k :: rat)\<rfloor> = - k" by (simp add: floor_eq_iff)
  with False show ?thesis by (simp add: halfUp_def)
qed

lemma halfUp_mono: "x \<le> y \<Longrightarrow> halfUp x \<le> halfUp y"
proof -
  assume le: "x \<le> y"
  consider "0 \<le> x" | "x < 0" "0 \<le> y" | "y < 0" by linarith
  then show ?thesis
  proof cases
    case 1
    with le show ?thesis by (simp add: halfUp_def floor_mono)
  next
    case 2
    have "0 \<le> \<lfloor>1 / 2 - x\<rfloor>" and "0 \<le> \<lfloor>y + 1 / 2\<rfloor>" using 2 by simp_all
    then have "- \<lfloor>1 / 2 - x\<rfloor> \<le> \<lfloor>y + 1 / 2\<rfloor>" by linarith
    with 2 show ?thesis by (simp add: halfUp_def)
  next
    case 3
    with le show ?thesis by (simp add: halfUp_def floor_mono)
  qed
qed

lemma halfUp_error: "\<bar>of_int (halfUp x) - x\<bar> \<le> 1 / 2"
proof (cases "0 \<le> x")
  case True
  then have "of_int (halfUp x) = (of_int \<lfloor>x + 1 / 2\<rfloor> :: rat)" by (simp add: halfUp_def)
  moreover have "of_int \<lfloor>x + 1 / 2\<rfloor> \<le> x + 1 / 2" and "x + 1 / 2 < of_int \<lfloor>x + 1 / 2\<rfloor> + 1"
    by linarith+
  ultimately show ?thesis by linarith
next
  case False
  then have "of_int (halfUp x) = - (of_int \<lfloor>1 / 2 - x\<rfloor> :: rat)" by (simp add: halfUp_def)
  moreover have "of_int \<lfloor>1 / 2 - x\<rfloor> \<le> 1 / 2 - x" and "1 / 2 - x < of_int \<lfloor>1 / 2 - x\<rfloor> + 1"
    by linarith+
  ultimately show ?thesis by linarith
qed

lemma scale2_eq_roundMoney: "scale2 = roundMoney"
  by (rule ext) (simp add: scale2_def roundMoney_def)

lemma roundMoney_cents [simp, intro]: "is_cents (roundMoney x)"
  by (simp add: roundMoney_def)

lemma scale2_cents [simp, intro]: "is_cents (scale2 x)"
  by (simp add: scale2_def)

lemma roundMoney_fixed [simp]: "is_cents x \<Longrightarrow> roundMoney x = x"
  by (auto simp: is_cents_iff roundMoney_def)

lemma scale2_fixed [simp]: "is_cents x \<Longrightarrow> scale2 x = x"
  by (simp add: scale2_eq_roundMoney)

lemma roundMoney_mono: "x \<le> y \<Longrightarrow> roundMoney x \<le> roundMoney y"
  by (simp add: roundMoney_def divide_right_mono halfUp_mono)

lemma roundMoney_nonneg: "0 \<le> x \<Longrightarrow> 0 \<le> roundMoney x"
  using roundMoney_mono [of 0 x] by simp

lemma roundMoney_le_cents: "x \<le> y \<Longrightarrow> is_cents y \<Longrightarrow> roundMoney x \<le> y"
  using roundMoney_mono [of x y] by simp

lemma roundMoney_error: "\<bar>roundMoney x - x\<bar> \<le> 1 / 200"
proof -
  have "roundMoney x = of_int (halfUp (x * 100)) / 100" by (simp add: roundMoney_def)
  then show ?thesis using halfUp_error [of "x * 100"] by linarith
qed

section \<open>Kobo\<close>

lemma fromKobo_cents [simp, intro]: "is_cents (fromKobo k)"
  by (simp add: fromKobo_def)

lemma toKobo_fromKobo [simp]: "toKobo (fromKobo k) = k"
  by (simp add: toKobo_def fromKobo_def floor_eq_iff)

lemma fromKobo_toKobo: "is_cents x \<Longrightarrow> fromKobo (toKobo x) = x"
  unfolding is_cents_iff by (metis fromKobo_def toKobo_fromKobo)

lemma fromKobo_nonneg [simp]: "0 \<le> fromKobo k \<longleftrightarrow> 0 \<le> k"
  by (simp add: fromKobo_def)

end
