(* ===== verification/Schema.thy ===== *)
theory Schema
  imports Money
begin

text \<open>
  The data model of prisma/schema.prisma: its enums as datatypes (the constructors keep their
  names, so \<open>RideStatus.ACCEPTED\<close> reads as in the code), its models as records, and the whole
  database as one record \<open>db\<close> of tables, each the list of its rows, oldest first.  Next to the
  tables \<open>db\<close> holds the Redis keys the services cache in, the clock, the supply of random
  identifiers (\<open>@default(uuid())\<close> and \<open>randomBytes\<close>), and the outbox of messages the
  services push to sockets, phones, mailboxes and timers.  Instants are milliseconds.  Names of
  columns carry the initials of their model.
\<close>

section \<open>Enums\<close>

text \<open>Enums whose constructors also occur in a later one come first; they are written qualified.\<close>

datatype SavedPlaceLabel = HOME | WORK | OTHER

datatype PreferredLanguage = EN | HA | YO | IG

datatype NotificationChannel = IN_APP | PUSH | SMS | EMAIL

datatype KycDocumentType = LICENSE | VEHICLE_REGISTRATION | ROADWORTHINESS | HACKNEY_PERMIT

datatype KycStatus = PENDING | APPROVED | REJECTED

datatype KycVerificationType = FACIAL | GOVERNMENT_ID

datatype GuarantorStatus = INVITED | SUBMITTED | VERIFIED | REJECTED

datatype ChargingStationStatus = OPERATIONAL | AVAILABLE | BUSY | MAINTENANCE | OFFLINE

datatype SolarLeadStatus = NEW | CONTACTED | QUALIFIED | SITE_VISIT | CONVERTED | CLOSED | AVAILABLE

datatype TicketStatus = OPEN | IN_PROGRESS | ESCALATED | RESOLVED | CLOSED

datatype TicketPriority = LOW | MEDIUM | HIGH | URGENT

datatype PartnerOfferAudience = RIDER | DRIVER | BOTH

datatype ReportType = RIDERS | DRIVERS | RIDES | LOGISTICS | BUSINESS | KILOWATT | FINANCE | SUPPORT

datatype ReportFormat = CSV | PDF | XLSX

datatype ScheduleFrequency = DAILY | WEEKLY | MONTHLY

datatype UserRole = RIDER | DRIVER | BUSINESS_ADMIN | BUSINESS_STAFF | SUPPORT_AGENT | ADMIN | SUPER_ADMIN

datatype UserStatus = PENDING_VERIFICATION | ACTIVE | SUSPENDED

datatype AccountType = RIDER_WALLET | DRIVER_WALLET | DRIVER_COMMISSION_PAYABLE | BUSINESS_WALLET
  | BUSINESS_CREDIT_PAYABLE | PLATFORM_REVENUE | PLATFORM_GATEWAY_CLEARING
  | PLATFORM_PROMO_LIABILITY | PLATFORM_REFERRAL_PAYABLE | PLATFORM_TAX_PAYABLE

datatype LedgerDirection = DEBIT | CREDIT

datatype TransactionType = WALLET_TOPUP | WALLET_WITHDRAWAL | RIDE_PAYMENT_WALLET | RIDE_PAYMENT_CASH
  | DELIVERY_PAYMENT_WALLET | DELIVERY_PAYMENT_CASH | BUSINESS_DELIVERY_ACCRUAL
  | COMMISSION_SETTLEMENT | BUSINESS_INVOICE_PAYMENT | REFUND | PROMO_REDEMPTION
  | REFERRAL_PAYOUT | KILOWATT_PAYMENT | MANUAL_ADJUSTMENT

datatype TransactionStatus = PENDING | COMPLETED | FAILED | REVERSED

datatype TopUpMethod = CARD | SAVED_CARD | BANK_TRANSFER

datatype TopUpPurpose = TOPUP | CARD_SETUP

datatype TopUpStatus = PENDING | COMPLETED | FAILED

datatype RideStatus = REQUESTED | DISPATCHING | ACCEPTED | ARRIVED | IN_PROGRESS | COMPLETED
  | CANCELLED | NO_DRIVERS_FOUND

datatype RidePaymentMethod = WALLET | CASH | BUSINESS_INVOICE

datatype TariffServiceType = RIDE | PACKAGE | FREIGHT

datatype RideOfferStatus = PENDING | ACCEPTED | DECLINED | EXPIRED

datatype DriverAvailability = OFFLINE | ONLINE | ON_TRIP

datatype DriverServiceMode = RIDES | LOGISTICS

datatype PromoType = PERCENTAGE | FLAT

datatype PromoApplicableService = RIDE | DELIVERY | KILOWATT

datatype InviteStatus = PENDING | ACCEPTED | REVOKED

datatype SocialProvider = GOOGLE | APPLE

datatype DeliveryStatus = SCHEDULED | REQUESTED | DISPATCHING | ACCEPTED | PICKED_UP | COMPLETED
  | CANCELLED | NO_DRIVERS_FOUND

datatype DeliveryOfferStatus = PENDING | ACCEPTED | DECLINED | EXPIRED

datatype DeliveryStopStatus = PENDING | COMPLETED

datatype DeliveryServiceType = PACKAGE | FREIGHT

datatype PackageSize = SMALL | MEDIUM | LARGE | EXTRA_LARGE

datatype ProofOfDeliveryType = OTP | SIGNATURE | PHOTO

datatype BusinessStatus = ACTIVE | SUSPENDED | INACTIVE

datatype InvoiceStatus = PENDING | PAID | OVERDUE

datatype ReferralRedemptionStatus = PENDING | QUALIFIED | PAID

datatype BatterySwapReservationStatus = CONFIRMED | COMPLETED | CANCELLED

datatype BatterySwapStationStatus = AVAILABLE | MAINTENANCE | UNAVAILABLE

datatype OtpPurpose = REGISTRATION | LOGIN | EMAIL_VERIFICATION | PASSWORD_RESET

text \<open>The eight ride statuses are a finite type, so a statement about all of them evaluates.\<close>

instantiation RideStatus :: enum
begin

definition "enum_RideStatus = [RideStatus.REQUESTED, RideStatus.DISPATCHING, RideStatus.ACCEPTED,
  RideStatus.ARRIVED, RideStatus.IN_PROGRESS, RideStatus.COMPLETED, RideStatus.CANCELLED,
  RideStatus.NO_DRIVERS_FOUND]"

definition "enum_all_RideStatus P \<longleftrightarrow> P RideStatus.REQUESTED \<and> P RideStatus.DISPATCHING
  \<and> P RideStatus.ACCEPTED \<and> P RideStatus.ARRIVED \<and> P RideStatus.IN_PROGRESS
  \<and> P RideStatus.COMPLETED \<and> P RideStatus.CANCELLED \<and> P RideStatus.NO_DRIVERS_FOUND"

definition "enum_ex_RideStatus P \<longleftrightarrow> P RideStatus.REQUESTED \<or> P RideStatus.DISPATCHING
  \<or> P RideStatus.ACCEPTED \<or> P RideStatus.ARRIVED \<or> P RideStatus.IN_PROGRESS
  \<or> P RideStatus.COMPLETED \<or> P RideStatus.CANCELLED \<or> P RideStatus.NO_DRIVERS_FOUND"

instance
proof
  fix P :: "RideStatus \<Rightarrow> bool"
  show "(UNIV :: RideStatus set) = set enum_class.enum"
    using RideStatus.exhaust by (auto simp: enum_RideStatus_def)
  show "distinct (enum_class.enum :: RideStatus list)"
    by (simp add: enum_RideStatus_def)
  show "enum_class.enum_all P \<longleftrightarrow> Ball UNIV P"
    unfolding enum_all_RideStatus_def Ball_def by (metis UNIV_I RideStatus.exhaust)
  show "enum_class.enum_ex P \<longleftrightarrow> Bex UNIV P"
    unfolding enum_ex_RideStatus_def Bex_def by (metis UNIV_I RideStatus.exhaust)
qed

end

section \<open>Errors\<close>

text \<open>
  The exceptions the services throw, with their message; \<open>RecordNotFound\<close> is Prisma's P2025
  (\<open>findUniqueOrThrow\<close>, \<open>update\<close> of a missing row), \<open>UniqueViolation\<close> its P2002,
  \<open>InternalError\<close> a plain \<open>Error\<close> or \<open>TypeError\<close>, and \<open>UpstreamError\<close> whatever a
  third-party client rejects with.
\<close>

datatype error = NotFoundException string | ConflictException string | BadRequestException string
  | ForbiddenException string | UnauthorizedException string | ServiceUnavailableException string
  | BadGatewayException string
  | RecordNotFound | UniqueViolation | InternalError string | UpstreamError string

text \<open>An \<open>HttpException\<close> is one of the seven NestJS exceptions above.\<close>

fun isHttpException :: "error \<Rightarrow> bool" where
  "isHttpException (NotFoundException _) = True"
| "isHttpException (ConflictException _) = True"
| "isHttpException (BadRequestException _) = True"
| "isHttpException (ForbiddenException _) = True"
| "isHttpException (UnauthorizedException _) = True"
| "isHttpException (ServiceUnavailableException _) = True"
| "isHttpException (BadGatewayException _) = True"
| "isHttpException RecordNotFound = False"
| "isHttpException UniqueViolation = False"
| "isHttpException (InternalError _) = False"
| "isHttpException (UpstreamError _) = False"

fun errorMessage :: "error \<Rightarrow> string" where
  "errorMessage (NotFoundException m) = m"
| "errorMessage (ConflictException m) = m"
| "errorMessage (BadRequestException m) = m"
| "errorMessage (ForbiddenException m) = m"
| "errorMessage (UnauthorizedException m) = m"
| "errorMessage (ServiceUnavailableException m) = m"
| "errorMessage (BadGatewayException m) = m"
| "errorMessage RecordNotFound = ''Record not found''"
| "errorMessage UniqueViolation = ''Unique constraint failed''"
| "errorMessage (InternalError m) = m"
| "errorMessage (UpstreamError m) = m"

section \<open>Models\<close>

type_synonym instant = int
type_synonym metadata = "(string \<times> string) list"

record user =
  usr_id :: string
  usr_publicId :: string
  usr_firstName :: string
  usr_lastName :: string
  usr_email :: "string option"
  usr_emailVerifiedAt :: "instant option"
  usr_pendingEmail :: "string option"
  usr_phone :: string
  usr_passwordHash :: "string option"
  usr_role :: UserRole
  usr_status :: UserStatus
  usr_businessId :: "string option"
  usr_profilePhotoUrl :: "string option"
  usr_preferredLanguage :: PreferredLanguage
  usr_nextOfKinName :: "string option"
  usr_nextOfKinPhone :: "string option"
  usr_createdAt :: instant

record otpCode =
  otp_id :: string
  otp_userId :: string
  otp_codeHash :: string
  otp_purpose :: OtpPurpose
  otp_expiresAt :: instant
  otp_consumedAt :: "instant option"
  otp_attempts :: nat
  otp_createdAt :: instant

record refreshToken =
  rt_id :: string
  rt_userId :: string
  rt_tokenHash :: string
  rt_revokedAt :: "instant option"
  rt_expiresAt :: instant
  rt_deviceLabel :: "string option"
  rt_userAgent :: "string option"
  rt_ipAddress :: "string option"
  rt_lastUsedAt :: "instant option"
  rt_createdAt :: instant

record account =
  acc_id :: string
  acc_type :: AccountType
  acc_ownerId :: "string option"
  acc_currency :: string
  acc_balance :: rat

record ledgerEntry =
  le_accountId :: string
  le_direction :: LedgerDirection
  le_amount :: rat
  le_balanceAfter :: rat

record transaction =
  tx_id :: string
  tx_type :: TransactionType
  tx_status :: TransactionStatus
  tx_reference :: string
  tx_idempotencyKey :: "string option"
  tx_amount :: rat
  tx_currency :: string
  tx_metadata :: "metadata option"
  tx_reversesTransactionId :: "string option"
  tx_entries :: "ledgerEntry list"
  tx_completedAt :: "instant option"
  tx_createdAt :: instant

record driverStatus =
  ds_userId :: string
  ds_availability :: DriverAvailability
  ds_serviceMode :: DriverServiceMode
  ds_vehicleType :: "string option"
  ds_unsettledCashRideCount :: nat

record ride =
  rd_id :: string
  rd_riderId :: string
  rd_driverId :: "string option"
  rd_status :: RideStatus
  rd_vehicleType :: string
  rd_paymentMethod :: RidePaymentMethod
  rd_pickupLat :: rat
  rd_pickupLng :: rat
  rd_pickupAddress :: string
  rd_dropoffLat :: rat
  rd_dropoffLng :: rat
  rd_dropoffAddress :: string
  rd_serviceAreaId :: "string option"
  rd_distanceKm :: "rat option"
  rd_durationMinutes :: "int option"
  rd_estimatedFare :: "rat option"
  rd_finalFare :: "rat option"
  rd_commissionAmount :: "rat option"
  rd_subtotalFare :: "rat option"
  rd_promoDiscount :: "rat option"
  rd_taxAmount :: "rat option"
  rd_cancelledById :: "string option"
  rd_cancellationReason :: "string option"
  rd_cancellationFee :: "rat option"
  rd_transactionId :: "string option"
  rd_shareToken :: "string option"
  rd_requestedAt :: instant
  rd_acceptedAt :: "instant option"
  rd_arrivedAt :: "instant option"
  rd_startedAt :: "instant option"
  rd_completedAt :: "instant option"
  rd_cancelledAt :: "instant option"

record rideOffer =
  ro_id :: string
  ro_rideId :: string
  ro_driverId :: string
  ro_status :: RideOfferStatus
  ro_expiresAt :: instant
  ro_respondedAt :: "instant option"
  ro_createdAt :: instant

record rideRating =
  rr_rideId :: string
  rr_rating :: int
  rr_comment :: "string option"

record tariff =
  tf_id :: string
  tf_vehicleType :: string
  tf_serviceAreaId :: "string option"
  tf_baseFare :: rat
  tf_perKmRate :: rat
  tf_perMinuteRate :: rat
  tf_minimumFare :: rat
  tf_cancellationFee :: rat
  tf_currency :: string
  tf_isActive :: bool
  tf_serviceType :: "TariffServiceType option"
  tf_displayName :: "string option"
  tf_description :: "string option"
  tf_sortOrder :: int
  tf_durationMultiplier :: rat

record commissionRule =
  cr_id :: string
  cr_serviceType :: string
  cr_vehicleType :: "string option"
  cr_rate :: rat
  cr_isActive :: bool

record promo =
  pm_id :: string
  pm_code :: string
  pm_type :: PromoType
  pm_value :: rat
  pm_maxDiscount :: "rat option"
  pm_usageLimitTotal :: "nat option"
  pm_usageLimitPerUser :: "nat option"
  pm_validFrom :: instant
  pm_validUntil :: instant
  pm_applicableServices :: "PromoApplicableService list"
  pm_isActive :: bool
  pm_isFeatured :: bool

record promoRedemption =
  pr_promoId :: string
  pr_userId :: string
  pr_service :: PromoApplicableService
  pr_referenceId :: string
  pr_discountAmount :: rat

record idempotencyKey =
  ik_key :: string
  ik_requestHash :: string
  ik_responseBody :: string
  ik_expiresAt :: instant

record paymentCard =
  pc_id :: string
  pc_userId :: string
  pc_authorizationCode :: string
  pc_signature :: string
  pc_last4 :: string
  pc_brand :: string
  pc_expMonth :: string
  pc_expYear :: string
  pc_bank :: "string option"
  pc_isDefault :: bool
  pc_createdAt :: instant

record topUpRequest =
  tu_reference :: string
  tu_userId :: string
  tu_amount :: rat
  tu_method :: TopUpMethod
  tu_purpose :: TopUpPurpose
  tu_status :: TopUpStatus
  tu_saveCard :: bool
  tu_cardId :: "string option"
  tu_cardLast4 :: "string option"
  tu_cardBrand :: "string option"
  tu_bankName :: "string option"
  tu_accountNumber :: "string option"
  tu_accountName :: "string option"
  tu_accountExpiresAt :: "instant option"
  tu_failureReason :: "string option"
  tu_completedAt :: "instant option"
  tu_createdAt :: instant

record withdrawalRequest =
  wr_id :: string
  wr_driverId :: string
  wr_amount :: rat
  wr_settledCommission :: rat
  wr_status :: TransactionStatus
  wr_transactionId :: "string option"
  wr_gatewayReference :: "string option"
  wr_bankAccountId :: string
  wr_completedAt :: "instant option"

record serviceArea =
  sa_id :: string
  sa_name :: string
  sa_polygon :: "(rat \<times> rat) list list"
  sa_isActive :: bool

record staffInvite =
  si_id :: string
  si_email :: string
  si_roles :: "string list"
  si_tokenHash :: string
  si_status :: InviteStatus
  si_expiresAt :: instant
  si_revokedAt :: "instant option"
  si_acceptedAt :: "instant option"
  si_invitedById :: string
  si_acceptedUserId :: "string option"

record staffRole =
  sr_id :: string
  sr_name :: string
  sr_permissions :: "string list"

record socialIdentity =
  sy_provider :: SocialProvider
  sy_providerUserId :: string
  sy_userId :: string
  sy_email :: "string option"

record delivery =
  dv_id :: string
  dv_senderId :: string
  dv_driverId :: "string option"
  dv_businessId :: "string option"
  dv_status :: DeliveryStatus
  dv_vehicleType :: string
  dv_paymentMethod :: RidePaymentMethod
  dv_pickupLat :: rat
  dv_pickupLng :: rat
  dv_pickupAddress :: string
  dv_serviceAreaId :: "string option"
  dv_serviceType :: DeliveryServiceType
  dv_packageDescription :: string
  dv_packageValue :: "rat option"
  dv_weightKg :: "rat option"
  dv_packageSize :: "PackageSize option"
  dv_isFragile :: bool
  dv_deliveryNotes :: "string option"
  dv_scheduledFor :: "instant option"
  dv_receiverName :: string
  dv_receiverPhone :: string
  dv_distanceKm :: "rat option"
  dv_durationMinutes :: "int option"
  dv_estimatedFare :: "rat option"
  dv_finalFare :: "rat option"
  dv_commissionAmount :: "rat option"
  dv_subtotalFare :: "rat option"
  dv_promoDiscount :: "rat option"
  dv_taxAmount :: "rat option"
  dv_trackingToken :: string
  dv_receiverOtpHash :: "string option"
  dv_receiverOtpVerifiedAt :: "instant option"
  dv_podType :: "ProofOfDeliveryType option"
  dv_podFileKey :: "string option"
  dv_podSubmittedAt :: "instant option"
  dv_cancelledById :: "string option"
  dv_cancellationReason :: "string option"
  dv_cancellationFee :: "rat option"
  dv_transactionId :: "string option"
  dv_requestedAt :: instant
  dv_acceptedAt :: "instant option"
  dv_arrivedAtPickupAt :: "instant option"
  dv_pickedUpAt :: "instant option"
  dv_arrivedAtDropoffAt :: "instant option"
  dv_completedAt :: "instant option"
  dv_cancelledAt :: "instant option"
  dv_disputeReason :: "string option"
  dv_disputeResolution :: "string option"
  dv_disputeResolvedById :: "string option"
  dv_disputeResolvedAt :: "instant option"

record deliveryStop =
  st_deliveryId :: string
  st_sequence :: nat
  st_lat :: rat
  st_lng :: rat
  st_address :: string
  st_status :: DeliveryStopStatus
  st_completedAt :: "instant option"

record deliveryOffer =
  do_id :: string
  do_deliveryId :: string
  do_driverId :: string
  do_status :: DeliveryOfferStatus
  do_expiresAt :: instant
  do_respondedAt :: "instant option"

record business =
  bz_id :: string
  bz_publicId :: string
  bz_name :: string
  bz_registrationNumber :: "string option"
  bz_contactEmail :: "string option"
  bz_contactPhone :: "string option"
  bz_status :: BusinessStatus
  bz_creditLimit :: rat

record businessTeamInvite =
  bi_id :: string
  bi_email :: string
  bi_businessId :: string
  bi_role :: UserRole
  bi_tokenHash :: string
  bi_status :: InviteStatus
  bi_expiresAt :: instant
  bi_acceptedAt :: "instant option"
  bi_invitedById :: string
  bi_acceptedUserId :: "string option"

record invoice =
  iv_id :: string
  iv_businessId :: string
  iv_deliveryId :: "string option"
  iv_amount :: rat
  iv_commissionAmount :: rat
  iv_description :: string
  iv_status :: InvoiceStatus
  iv_dueAt :: instant
  iv_paidAt :: "instant option"
  iv_transactionId :: "string option"
  iv_createdAt :: instant

record referralCode =
  rc_id :: string
  rc_userId :: string
  rc_code :: string

record referralRedemption =
  rf_id :: string
  rf_referralCodeId :: string
  rf_referrerId :: string
  rf_referredUserId :: string
  rf_status :: ReferralRedemptionStatus
  rf_earningsAmount :: rat
  rf_paidAt :: "instant option"
  rf_transactionId :: "string option"

record batterySwapStation =
  bs_id :: string
  bs_name :: string
  bs_address :: string
  bs_lat :: rat
  bs_lng :: rat
  bs_totalSlots :: int
  bs_availableBatteries :: int
  bs_pricePerSwap :: rat
  bs_status :: BatterySwapStationStatus
  bs_isActive :: bool

record batterySwapReservation =
  br_id :: string
  br_userId :: string
  br_stationId :: string
  br_status :: BatterySwapReservationStatus
  br_amount :: rat
  br_transactionId :: "string option"
  br_createdAt :: instant

record savedPlace =
  pl_id :: string
  pl_userId :: string
  pl_label :: SavedPlaceLabel
  pl_name :: "string option"
  pl_address :: string
  pl_lat :: rat
  pl_lng :: rat

record driverVehicle =
  vh_id :: string
  vh_driverId :: string
  vh_make :: string
  vh_model :: string
  vh_color :: string
  vh_plateNumber :: string
  vh_year :: "int option"
  vh_photoUrl :: "string option"

record notification =
  nt_id :: string
  nt_userId :: string
  nt_category :: string
  nt_title :: string
  nt_body :: string
  nt_readAt :: "instant option"
  nt_campaignId :: "string option"

record notificationPreference =
  np_userId :: string
  np_category :: string
  np_channel :: NotificationChannel
  np_enabled :: bool

record deviceToken =
  dt_userId :: string
  dt_token :: string
  dt_platform :: string

record notificationCampaign =
  nc_id :: string
  nc_title :: string
  nc_body :: string
  nc_category :: string
  nc_role :: "UserRole option"
  nc_userIds :: "string list"
  nc_scheduledFor :: "instant option"
  nc_createdById :: string
  nc_sentAt :: "instant option"
  nc_createdAt :: instant

record kycDocument =
  kd_id :: string
  kd_driverId :: string
  kd_type :: KycDocumentType
  kd_fileKey :: string
  kd_status :: KycStatus
  kd_rejectionReason :: "string option"
  kd_reviewedById :: "string option"
  kd_reviewedAt :: "instant option"
  kd_createdAt :: instant

record kycVerification =
  kv_id :: string
  kv_driverId :: string
  kv_type :: KycVerificationType
  kv_providerReference :: "string option"
  kv_status :: KycStatus
  kv_rawResult :: "string option"

record guarantor =
  gu_id :: string
  gu_driverId :: string
  gu_fullName :: "string option"
  gu_email :: "string option"
  gu_phone :: "string option"
  gu_relationship :: "string option"
  gu_address :: "string option"
  gu_occupation :: "string option"
  gu_idType :: "string option"
  gu_idNumber :: "string option"
  gu_idDocumentKey :: "string option"
  gu_proofOfAddressKey :: "string option"
  gu_status :: GuarantorStatus
  gu_tokenHash :: string
  gu_expiresAt :: instant
  gu_submittedAt :: "instant option"
  gu_reviewedById :: "string option"
  gu_reviewedAt :: "instant option"
  gu_rejectionReason :: "string option"

record supportTicket =
  sk_id :: string
  sk_userId :: string
  sk_subject :: string
  sk_category :: string
  sk_status :: TicketStatus
  sk_priority :: TicketPriority
  sk_assignedToId :: "string option"
  sk_escalatedAt :: "instant option"
  sk_resolvedAt :: "instant option"
  sk_resolvedById :: "string option"
  sk_createdAt :: instant

record ticketMessage =
  tm_id :: string
  tm_ticketId :: string
  tm_authorId :: string
  tm_body :: string

record chargingStation =
  cs_id :: string
  cs_name :: string
  cs_address :: string
  cs_lat :: rat
  cs_lng :: rat
  cs_chargerTypes :: "string list"
  cs_connectorCount :: int
  cs_availableBays :: "int option"
  cs_speedKw :: rat
  cs_pricePerKwh :: rat
  cs_status :: ChargingStationStatus
  cs_isActive :: bool

record solarAssessment =
  sl_id :: string
  sl_userId :: "string option"
  sl_address :: string
  sl_lat :: "rat option"
  sl_lng :: "rat option"
  sl_monthlyBillEstimate :: "rat option"
  sl_propertyType :: "string option"
  sl_notes :: "string option"
  sl_contactName :: "string option"
  sl_contactPhone :: "string option"
  sl_contactEmail :: "string option"
  sl_systemSizeKw :: "rat option"
  sl_energyNeed :: "string option"
  sl_status :: SolarLeadStatus
  sl_assignedRepId :: "string option"
  sl_createdAt :: instant

record fleetPartner =
  fp_id :: string
  fp_name :: string
  fp_contactEmail :: "string option"
  fp_contactPhone :: "string option"

record partnerOffer =
  po_id :: string
  po_title :: string
  po_description :: string
  po_partnerName :: string
  po_audience :: PartnerOfferAudience
  po_isActive :: bool
  po_validFrom :: "instant option"
  po_validUntil :: "instant option"

record auditLog =
  al_actorId :: "string option"
  al_action :: string
  al_targetType :: string
  al_targetId :: "string option"
  al_createdAt :: instant

record scheduledReport =
  sq_id :: string
  sq_type :: ReportType
  sq_format :: ReportFormat
  sq_frequency :: ScheduleFrequency
  sq_recipientEmail :: string
  sq_createdById :: string
  sq_isActive :: bool
  sq_lastRunAt :: "instant option"

section \<open>The outside\<close>

text \<open>What the services send out: socket events, messages, and work left to a timer or a later tick.\<close>

datatype effect =
    EmitRideStatus string RideStatus
  | EmitRideLocation string rat rat
  | EmitOffer string string
  | EmitOfferTaken string string
  | EmitOfferCancelled string string
  | NotifyUser string string string
  | SmsOtp string string
  | SmsMessage string string
  | EmailVerificationCode string string
  | EmailResetLink string string
  | EmailReceipt string
  | EmailStaffInvite string "string list" string
  | EmailTeamInvite string string string
  | EmailGuarantorInvite string string string
  | PushToDevices "string list" string string
  | FanOutCampaignAt instant string
  | RepeatReport string string
  | EmailDocument string string string string
  | UploadObject string
  | EmitDeliveryStatus string string
  | EmitDeliveryLocation string rat rat
  | EmitDeliveryOffer string string
  | EmitDeliveryOfferTaken string string
  | EmitDeliveryOfferCancelled string string
  | StartDeliveryDispatchLater string
  | ExpireDeliveryRoundAt instant string
  | StartDispatchLater string
  | ExpireRoundAt instant string

section \<open>The database\<close>

record db =
  now :: instant
  uuids :: "nat \<Rightarrow> string"
  uuidsUsed :: nat
  outbox :: "effect list"
  users :: "user list"
  otpCodes :: "otpCode list"
  refreshTokens :: "refreshToken list"
  accounts :: "account list"
  transactions :: "transaction list"
  driverStatuses :: "driverStatus list"
  rides :: "ride list"
  rideOffers :: "rideOffer list"
  rideRatings :: "rideRating list"
  tariffs :: "tariff list"
  commissionRules :: "commissionRule list"
  promos :: "promo list"
  promoRedemptions :: "promoRedemption list"
  idempotencyKeys :: "idempotencyKey list"
  paymentCards :: "paymentCard list"
  topUpRequests :: "topUpRequest list"
  withdrawalRequests :: "withdrawalRequest list"
  serviceAreas :: "serviceArea list"
  platformConfig :: "(string \<times> rat) list"
  cachedTariffs :: "(tariff list \<times> instant) option"
  cachedCommissions :: "(commissionRule list \<times> instant) option"
  cachedAreas :: "(serviceArea list \<times> instant) option"
  cachedConfig :: "(string \<times> rat \<times> instant) list"
  driversGeo :: "(string \<times> rat \<times> rat) list"
  staffInvites :: "staffInvite list"
  staffRoles :: "staffRole list"
  permissionKeys :: "string list"
  userRoles :: "(string \<times> string) list"
  directPermissions :: "(string \<times> string) list"
  socialIdentities :: "socialIdentity list"
  auditLogs :: "auditLog list"
  deliveries :: "delivery list"
  deliveryStops :: "deliveryStop list"
  deliveryOffers :: "deliveryOffer list"
  businesses :: "business list"
  businessInvites :: "businessTeamInvite list"
  invoices :: "invoice list"
  referralCodes :: "referralCode list"
  referralRedemptions :: "referralRedemption list"
  swapStations :: "batterySwapStation list"
  swapReservations :: "batterySwapReservation list"
  scheduleJobs :: "(string \<times> instant) list"
  savedPlaces :: "savedPlace list"
  driverVehicles :: "driverVehicle list"
  notifications :: "notification list"
  notificationPreferences :: "notificationPreference list"
  deviceTokens :: "deviceToken list"
  campaigns :: "notificationCampaign list"
  kycDocuments :: "kycDocument list"
  kycVerifications :: "kycVerification list"
  guarantors :: "guarantor list"
  supportTickets :: "supportTicket list"
  ticketMessages :: "ticketMessage list"
  chargingStations :: "chargingStation list"
  solarAssessments :: "solarAssessment list"
  fleetPartners :: "fleetPartner list"
  fleetDrivers :: "(string \<times> string) list"
  partnerOffers :: "partnerOffer list"
  offerClaims :: "(string \<times> string) list"
  scheduledReports :: "scheduledReport list"

text \<open>A database with no rows, at instant 0, whose \<open>n\<close>-th identifier is \<open>n\<close> times the letter u.\<close>

definition emptyDb :: db where
  "emptyDb = \<lparr>now = 0, uuids = (\<lambda>n. replicate n CHR ''u''), uuidsUsed = 0, outbox = [],
     users = [], otpCodes = [], refreshTokens = [], accounts = [], transactions = [],
     driverStatuses = [], rides = [], rideOffers = [], rideRatings = [], tariffs = [],
     commissionRules = [], promos = [], promoRedemptions = [], idempotencyKeys = [],
     paymentCards = [], topUpRequests = [], withdrawalRequests = [], serviceAreas = [],
     platformConfig = [], cachedTariffs = None, cachedCommissions = None, cachedAreas = None,
     cachedConfig = [], driversGeo = [],
     staffInvites = [], staffRoles = [], permissionKeys = [], userRoles = [], directPermissions = [],
     socialIdentities = [], auditLogs = [], deliveries = [], deliveryStops = [], deliveryOffers = [],
     businesses = [], businessInvites = [], invoices = [], referralCodes = [], referralRedemptions = [],
     swapStations = [], swapReservations = [], scheduleJobs = [], savedPlaces = [], driverVehicles = [], notifications = [],
     notificationPreferences = [], deviceTokens = [], campaigns = [], kycDocuments = [], kycVerifications = [],
     guarantors = [], supportTickets = [], ticketMessages = [], chargingStations = [], solarAssessments = [],
     fleetPartners = [], fleetDrivers = [], partnerOffers = [], offerClaims = [], scheduledReports = []\<rparr>"

type_synonym 'a op = "(db, error, 'a) action"

section \<open>Fresh identifiers and messages\<close>

text \<open>
  The next value of the random supply: a row's \<open>@default(uuid())\<close>, or a token of
  \<open>generateSecureToken\<close>.  \<open>uuidsOk\<close> is what the code relies on: values never repeat.
\<close>

definition freshId :: "string op" where
  "freshId = (\<lambda>s. (Inr (uuids s (uuidsUsed s)), s\<lparr>uuidsUsed := Suc (uuidsUsed s)\<rparr>))"

definition usedIds :: "db \<Rightarrow> string set" where
  "usedIds s = uuids s ` {..<uuidsUsed s}"

definition uuidsOk :: "db \<Rightarrow> bool" where
  "uuidsOk s \<longleftrightarrow> inj (uuids s)"

definition push :: "effect \<Rightarrow> unit op" where
  "push e = modify (\<lambda>s. s\<lparr>outbox := outbox s @ [e]\<rparr>)"

lemma wp_freshId [wp_simps]:
  "wp freshId Q E s = Q (uuids s (uuidsUsed s)) (s\<lparr>uuidsUsed := Suc (uuidsUsed s)\<rparr>)"
  by (simp add: wp_def freshId_def)

lemma wp_push [wp_simps]: "wp (push e) Q E s = Q () (s\<lparr>outbox := outbox s @ [e]\<rparr>)"
  by (simp add: push_def wp_simps)

lemma usedIds_Suc: "usedIds (s\<lparr>uuidsUsed := Suc (uuidsUsed s)\<rparr>) = insert (uuids s (uuidsUsed s)) (usedIds s)"
  by (simp add: usedIds_def lessThan_Suc)

lemma freshId_unused: "uuidsOk s \<Longrightarrow> uuids s (uuidsUsed s) \<notin> usedIds s"
  by (auto simp: usedIds_def uuidsOk_def inj_eq)

lemma uuidsOk_emptyDb [simp]: "uuidsOk emptyDb"
  by (auto simp: uuidsOk_def emptyDb_def inj_def dest: arg_cong [where f = length])

end
