(* ===== verification/Pricing.thy ===== *)
theory Pricing
  imports Schema "HOL-Library.AList"
begin

text \<open>
  Tariffs, commission rules and platform settings: src/pricing/pricing.service.ts,
  src/platform-config/platform-config.service.ts and src/service-areas.  The three services keep
  their tables behind a Redis cache with a time to live (\<open>getJson\<close>/\<open>setJson\<close>/\<open>del\<close> of
  src/redis/redis.service.ts); a cache entry is the cached value with the instant it expires.
  Decimal arithmetic is exact here; decimal.js keeps 20 significant digits.
\<close>

section \<open>The cache\<close>

definition fresh :: "db \<Rightarrow> ('v \<times> instant) option \<Rightarrow> 'v option" where
  "fresh s entry = (case entry of None \<Rightarrow> None | Some (v, expiry) \<Rightarrow> if now s < expiry then Some v else None)"

definition CACHE_TTL_SECONDS :: int where
  "CACHE_TTL_SECONDS = 60 * 60"

definition CONFIG_TTL_SECONDS :: int where
  "CONFIG_TTL_SECONDS = 300"

section \<open>Platform settings\<close>

definition getConfig :: "string \<Rightarrow> rat \<Rightarrow> rat op" where
  "getConfig key defaultValue =
     bind (gets (\<lambda>s. fresh s (map_of (cachedConfig s) key))) (\<lambda>cached.
     case cached of
       Some value \<Rightarrow> return value
     | None \<Rightarrow>
         bind (gets (\<lambda>s. map_of (platformConfig s) key)) (\<lambda>row.
         let value = (case row of Some v \<Rightarrow> v | None \<Rightarrow> defaultValue) in
         andThen (modify (\<lambda>s. s\<lparr>cachedConfig :=
                    AList.update key (value, now s + CONFIG_TTL_SECONDS * 1000) (cachedConfig s)\<rparr>))
         (return value)))"

definition setConfig :: "string \<Rightarrow> rat \<Rightarrow> unit op" where
  "setConfig key value =
     andThen (modify (\<lambda>s. s\<lparr>platformConfig := AList.update key value (platformConfig s)\<rparr>))
     (modify (\<lambda>s. s\<lparr>cachedConfig := AList.delete key (cachedConfig s)\<rparr>))"

section \<open>Tariffs\<close>

definition getActiveTariffs :: "tariff list op" where
  "getActiveTariffs =
     bind (gets (\<lambda>s. fresh s (cachedTariffs s))) (\<lambda>cached.
     case cached of
       Some ts \<Rightarrow> return ts
     | None \<Rightarrow>
         bind (gets (\<lambda>s. filter tf_isActive (tariffs s))) (\<lambda>ts.
         andThen (modify (\<lambda>s. s\<lparr>cachedTariffs := Some (ts, now s + CACHE_TTL_SECONDS * 1000)\<rparr>))
         (return ts)))"

definition invalidateTariffCache :: "unit op" where
  "invalidateTariffCache = modify (\<lambda>s. s\<lparr>cachedTariffs := None\<rparr>)"

definition tariffScore :: "string option \<Rightarrow> TariffServiceType option \<Rightarrow> tariff \<Rightarrow> nat" where
  "tariffScore area serviceType t =
     (if serviceType \<noteq> None \<and> tf_serviceType t = serviceType then 2 else 0)
     + (if area \<noteq> None \<and> tf_serviceAreaId t = area then 1 else 0)"

definition tariffCandidate :: "string \<Rightarrow> string option \<Rightarrow> TariffServiceType option \<Rightarrow> tariff \<Rightarrow> bool" where
  "tariffCandidate vehicleType area serviceType t \<longleftrightarrow>
     tf_vehicleType t = vehicleType
     \<and> (tf_serviceAreaId t = area \<or> tf_serviceAreaId t = None)
     \<and> (serviceType = None \<or> tf_serviceType t = serviceType \<or> tf_serviceType t = None)"

text \<open>\<open>sort((a, b) => key(a) - key(b))\<close>: stable, smallest key first; the score is negated.\<close>

definition resolveTariff :: "tariff list \<Rightarrow> string \<Rightarrow> string option \<Rightarrow> TariffServiceType option \<Rightarrow> tariff option" where
  "resolveTariff ts vehicleType area serviceType =
     (case sort_key (\<lambda>t. - int (tariffScore area serviceType t))
             (filter (tariffCandidate vehicleType area serviceType) ts) of
        [] \<Rightarrow> None | t # _ \<Rightarrow> Some t)"

definition getActiveTariff :: "string \<Rightarrow> string option \<Rightarrow> TariffServiceType option \<Rightarrow> tariff op" where
  "getActiveTariff vehicleType serviceAreaId serviceType =
     bind getActiveTariffs (\<lambda>ts.
     orThrow (resolveTariff ts vehicleType serviceAreaId serviceType)
       (NotFoundException (''No active tariff for vehicle type '' @ vehicleType)))"

text \<open>\<open>[...new Set(xs)]\<close> keeps the first occurrence of each element: \<open>remdups\<close> from the right.\<close>

definition uniqueInOrder :: "'a list \<Rightarrow> 'a list" where
  "uniqueInOrder xs = rev (remdups (rev xs))"

definition listActiveTariffsForService :: "TariffServiceType \<Rightarrow> string option \<Rightarrow> tariff list op" where
  "listActiveTariffsForService serviceType serviceAreaId =
     bind getActiveTariffs (\<lambda>ts.
     let vehicleTypes = uniqueInOrder (map tf_vehicleType
           (filter (\<lambda>t. tf_serviceType t = Some serviceType \<or> tf_serviceType t = None) ts))
     in return (sort_key tf_sortOrder
          (List.map_filter (\<lambda>v. resolveTariff ts v serviceAreaId (Some serviceType)) vehicleTypes)))"

definition estimateTripMinutes :: "tariff \<Rightarrow> int \<Rightarrow> int" where
  "estimateTripMinutes t routeDurationMinutes =
     max 1 \<lceil>tf_durationMultiplier t * of_int routeDurationMinutes\<rceil>"

definition calculateFare :: "tariff \<Rightarrow> rat \<Rightarrow> int \<Rightarrow> rat" where
  "calculateFare t distanceKm durationMinutes =
     (let distanceCost = tf_perKmRate t * distanceKm;
          timeCost = tf_perMinuteRate t * of_int durationMinutes;
          fare = tf_baseFare t + distanceCost + timeCost
      in roundMoney (max fare (tf_minimumFare t)))"

record tariffDto =
  td_vehicleType :: string
  td_serviceAreaId :: "string option"
  td_serviceType :: "TariffServiceType option"
  td_baseFare :: rat
  td_perKmRate :: rat
  td_perMinuteRate :: rat
  td_minimumFare :: rat
  td_cancellationFee :: rat
  td_currency :: "string option"
  td_displayName :: "string option"
  td_description :: "string option"
  td_sortOrder :: "int option"
  td_durationMultiplier :: "rat option"

definition createTariff :: "tariffDto \<Rightarrow> tariff op" where
  "createTariff dto =
     bind (gets (\<lambda>s. List.find (\<lambda>t. tf_vehicleType t = td_vehicleType dto
              \<and> tf_serviceAreaId t = td_serviceAreaId dto
              \<and> tf_serviceType t = td_serviceType dto \<and> tf_isActive t) (tariffs s))) (\<lambda>conflict.
     andThen (ensure (conflict = None)
       (ConflictException ''An active tariff already exists for this vehicle type, service type and service area - deactivate it first''))
     (bind freshId (\<lambda>i.
      let t = \<lparr>tf_id = i, tf_vehicleType = td_vehicleType dto, tf_serviceAreaId = td_serviceAreaId dto,
               tf_baseFare = scale2 (td_baseFare dto), tf_perKmRate = scale2 (td_perKmRate dto),
               tf_perMinuteRate = scale2 (td_perMinuteRate dto), tf_minimumFare = scale2 (td_minimumFare dto),
               tf_cancellationFee = scale2 (td_cancellationFee dto), tf_currency = orElse (td_currency dto) ''NGN'',
               tf_isActive = True, tf_serviceType = td_serviceType dto, tf_displayName = td_displayName dto,
               tf_description = td_description dto, tf_sortOrder = orElse (td_sortOrder dto) 0,
               tf_durationMultiplier = scale2 (orElse (td_durationMultiplier dto) 1)\<rparr>
      in andThen (modify (\<lambda>s. s\<lparr>tariffs := tariffs s @ [t]\<rparr>))
         (andThen invalidateTariffCache (return t)))))"

definition findTariffOrThrow :: "string \<Rightarrow> tariff op" where
  "findTariffOrThrow i =
     bind (gets (\<lambda>s. List.find (\<lambda>t. tf_id t = i) (tariffs s))) (\<lambda>t.
     orThrow t (NotFoundException ''Tariff not found''))"

text \<open>\<open>Partial<...>\<close> of the DTO: an absent column keeps its value.\<close>

record tariffPatch =
  tp_vehicleType :: "string option"
  tp_serviceAreaId :: "string option"
  tp_serviceType :: "TariffServiceType option"
  tp_baseFare :: "rat option"
  tp_perKmRate :: "rat option"
  tp_perMinuteRate :: "rat option"
  tp_minimumFare :: "rat option"
  tp_cancellationFee :: "rat option"
  tp_currency :: "string option"
  tp_displayName :: "string option"
  tp_description :: "string option"
  tp_sortOrder :: "int option"
  tp_durationMultiplier :: "rat option"

definition patched :: "rat option \<Rightarrow> rat \<Rightarrow> rat" where
  "patched x old = (case x of None \<Rightarrow> old | Some v \<Rightarrow> scale2 v)"

definition patchTariff :: "tariffPatch \<Rightarrow> tariff \<Rightarrow> tariff" where
  "patchTariff p t =
     \<lparr>tf_id = tf_id t, tf_vehicleType = orElse (tp_vehicleType p) (tf_vehicleType t),
      tf_serviceAreaId = keptOr (tp_serviceAreaId p) (tf_serviceAreaId t),
      tf_baseFare = patched (tp_baseFare p) (tf_baseFare t), tf_perKmRate = patched (tp_perKmRate p) (tf_perKmRate t),
      tf_perMinuteRate = patched (tp_perMinuteRate p) (tf_perMinuteRate t),
      tf_minimumFare = patched (tp_minimumFare p) (tf_minimumFare t),
      tf_cancellationFee = patched (tp_cancellationFee p) (tf_cancellationFee t),
      tf_currency = orElse (tp_currency p) (tf_currency t), tf_isActive = tf_isActive t,
      tf_serviceType = keptOr (tp_serviceType p) (tf_serviceType t),
      tf_displayName = keptOr (tp_displayName p) (tf_displayName t),
      tf_description = keptOr (tp_description p) (tf_description t),
      tf_sortOrder = orElse (tp_sortOrder p) (tf_sortOrder t),
      tf_durationMultiplier = patched (tp_durationMultiplier p) (tf_durationMultiplier t)\<rparr>"

text \<open>\<open>prisma.tariff.update\<close>: writes the row and returns it.\<close>

definition writeTariff :: "string \<Rightarrow> (tariff \<Rightarrow> tariff) \<Rightarrow> tariff op" where
  "writeTariff i f =
     andThen (modify (\<lambda>s. s\<lparr>tariffs := updateWhere (\<lambda>t. tf_id t = i) f (tariffs s)\<rparr>))
     (bind (gets (\<lambda>s. List.find (\<lambda>t. tf_id t = i) (tariffs s))) (\<lambda>t. orThrow t RecordNotFound))"

definition updateTariff :: "string \<Rightarrow> tariffPatch \<Rightarrow> tariff op" where
  "updateTariff i dto =
     andThen (findTariffOrThrow i)
     (bind (writeTariff i (patchTariff dto)) (\<lambda>t. andThen invalidateTariffCache (return t)))"

definition deactivateTariff :: "string \<Rightarrow> tariff op" where
  "deactivateTariff i =
     andThen (findTariffOrThrow i)
     (bind (writeTariff i (\<lambda>t. t\<lparr>tf_isActive := False\<rparr>)) (\<lambda>t. andThen invalidateTariffCache (return t)))"

section \<open>Commission rules\<close>

definition getActiveCommissionRules :: "commissionRule list op" where
  "getActiveCommissionRules =
     bind (gets (\<lambda>s. fresh s (cachedCommissions s))) (\<lambda>cached.
     case cached of
       Some rs \<Rightarrow> return rs
     | None \<Rightarrow>
         bind (gets (\<lambda>s. filter cr_isActive (commissionRules s))) (\<lambda>rs.
         andThen (modify (\<lambda>s. s\<lparr>cachedCommissions := Some (rs, now s + CACHE_TTL_SECONDS * 1000)\<rparr>))
         (return rs)))"

definition invalidateCommissionCache :: "unit op" where
  "invalidateCommissionCache = modify (\<lambda>s. s\<lparr>cachedCommissions := None\<rparr>)"

definition resolveCommission :: "commissionRule list \<Rightarrow> string \<Rightarrow> string option \<Rightarrow> commissionRule option" where
  "resolveCommission rules serviceType vehicleType =
     (case List.find (\<lambda>r. cr_serviceType r = serviceType \<and> cr_vehicleType r = vehicleType) rules of
        Some r \<Rightarrow> Some r
      | None \<Rightarrow> List.find (\<lambda>r. cr_serviceType r = serviceType \<and> cr_vehicleType r = None) rules)"

definition getActiveCommissionRate :: "string \<Rightarrow> string option \<Rightarrow> commissionRule op" where
  "getActiveCommissionRate serviceType vehicleType =
     bind getActiveCommissionRules (\<lambda>rules.
     orThrow (resolveCommission rules serviceType vehicleType)
       (NotFoundException (''No active commission rule for service type '' @ serviceType)))"

text \<open>\<open>Decimal(5, 4)\<close>, the column of a rate.\<close>

definition scale4 :: "rat \<Rightarrow> rat" where
  "scale4 value = of_int (halfUp (value * 10000)) / 10000"

definition createCommissionRule :: "string \<Rightarrow> string option \<Rightarrow> rat \<Rightarrow> commissionRule op" where
  "createCommissionRule serviceType vehicleType rate =
     bind (gets (\<lambda>s. List.find (\<lambda>r. cr_serviceType r = serviceType \<and> cr_vehicleType r = vehicleType \<and> cr_isActive r)
                       (commissionRules s))) (\<lambda>conflict.
     andThen (ensure (conflict = None)
       (ConflictException ''An active commission rule already exists for this service type and vehicle type''))
     (andThen (ensure (\<not> (rate < 0 \<or> 1 < rate)) (BadRequestException ''rate must be between 0 and 1''))
     (bind freshId (\<lambda>i.
      let r = \<lparr>cr_id = i, cr_serviceType = serviceType, cr_vehicleType = vehicleType, cr_rate = scale4 rate, cr_isActive = True\<rparr>
      in andThen (modify (\<lambda>s. s\<lparr>commissionRules := commissionRules s @ [r]\<rparr>))
         (andThen invalidateCommissionCache (return r))))))"

definition updateCommissionRule :: "string \<Rightarrow> string option \<Rightarrow> string option \<Rightarrow> rat option \<Rightarrow> bool option \<Rightarrow> commissionRule op" where
  "updateCommissionRule i serviceType vehicleType rate isActive =
     bind (gets (\<lambda>s. List.find (\<lambda>r. cr_id r = i) (commissionRules s))) (\<lambda>existing.
     andThen (ensure (existing \<noteq> None) (NotFoundException ''Commission rule not found''))
     (andThen (modify (\<lambda>s. s\<lparr>commissionRules := updateWhere (\<lambda>r. cr_id r = i)
         (\<lambda>r. r\<lparr>cr_serviceType := orElse serviceType (cr_serviceType r),
                  cr_vehicleType := keptOr vehicleType (cr_vehicleType r),
                  cr_rate := (case rate of None \<Rightarrow> cr_rate r | Some x \<Rightarrow> scale4 x),
                  cr_isActive := orElse isActive (cr_isActive r)\<rparr>) (commissionRules s)\<rparr>))
     (bind (gets (\<lambda>s. List.find (\<lambda>r. cr_id r = i) (commissionRules s))) (\<lambda>found.
      bind (orThrow found RecordNotFound) (\<lambda>r.
      andThen invalidateCommissionCache (return r))))))"

section \<open>Fares\<close>

record fareBreakdown =
  fb_subtotal :: rat
  fb_promoDiscount :: rat
  fb_tax :: rat
  fb_total :: rat

definition getTaxRate :: "rat op" where
  "getTaxRate = getConfig ''fareTaxRate'' 0"

definition fareBreakdownAt :: "rat \<Rightarrow> rat \<Rightarrow> rat \<Rightarrow> fareBreakdown" where
  "fareBreakdownAt rate subtotal promoDiscount =
     (let roundedSubtotal = roundMoney subtotal;
          discount = roundMoney (min promoDiscount roundedSubtotal);
          taxable = roundedSubtotal - discount;
          tax = roundMoney (taxable * rate)
      in \<lparr>fb_subtotal = roundedSubtotal, fb_promoDiscount = discount, fb_tax = tax, fb_total = taxable + tax\<rparr>)"

definition buildFareBreakdown :: "rat \<Rightarrow> rat \<Rightarrow> fareBreakdown op" where
  "buildFareBreakdown subtotal promoDiscount =
     bind getTaxRate (\<lambda>rate. return (fareBreakdownAt rate subtotal promoDiscount))"

section \<open>Service areas\<close>

text \<open>
  Ray casting on the outer ring; \<open>yi > lat\<close> and \<open>yj > lat\<close> differ in an intersecting edge, so
  the division is never by zero there.  The edges are (ring[0], ring[n-1]), (ring[1], ring[0]), ...
\<close>

definition edgeIntersects :: "rat \<times> rat \<Rightarrow> (rat \<times> rat) \<times> (rat \<times> rat) \<Rightarrow> bool" where
  "edgeIntersects p e = (case (p, e) of ((lng, lat), ((xi, yi), (xj, yj))) \<Rightarrow>
     (lat < yi) \<noteq> (lat < yj) \<and> lng < (xj - xi) * (lat - yi) / (yj - yi) + xi)"

definition ringEdges :: "(rat \<times> rat) list \<Rightarrow> ((rat \<times> rat) \<times> (rat \<times> rat)) list" where
  "ringEdges ring = zip ring (last ring # butlast ring)"

definition isPointInPolygon :: "rat \<times> rat \<Rightarrow> (rat \<times> rat) list list \<Rightarrow> bool" where
  "isPointInPolygon p coordinates =
     fold (\<lambda>e inside. if edgeIntersects p e then \<not> inside else inside) (ringEdges (hd coordinates)) False"

definition getActiveAreas :: "serviceArea list op" where
  "getActiveAreas =
     bind (gets (\<lambda>s. fresh s (cachedAreas s))) (\<lambda>cached.
     case cached of
       Some areas \<Rightarrow> return areas
     | None \<Rightarrow>
         bind (gets (\<lambda>s. filter sa_isActive (serviceAreas s))) (\<lambda>areas.
         andThen (modify (\<lambda>s. s\<lparr>cachedAreas := Some (areas, now s + CACHE_TTL_SECONDS * 1000)\<rparr>))
         (return areas)))"

text \<open>\<open>{ isServiceable, serviceArea }\<close>: serviceable is having a matching area.\<close>

definition validateLocation :: "rat \<Rightarrow> rat \<Rightarrow> serviceArea option op" where
  "validateLocation lat lng =
     bind getActiveAreas (\<lambda>areas.
     return (List.find (\<lambda>a. isPointInPolygon (lng, lat) (sa_polygon a)) areas))"

definition normalizePolygon :: "(rat \<times> rat) list list \<Rightarrow> (rat \<times> rat) list list op" where
  "normalizePolygon coordinates =
     (case coordinates of
        [] \<Rightarrow> throw (BadRequestException ''Polygon ring must have at least 4 points (3 unique + closing point)'')
      | ring # _ \<Rightarrow>
          andThen (ensure (\<not> length ring < 4)
            (BadRequestException ''Polygon ring must have at least 4 points (3 unique + closing point)''))
          (return [if hd ring = last ring then ring else ring @ [hd ring]]))"

definition invalidateAreaCache :: "unit op" where
  "invalidateAreaCache = modify (\<lambda>s. s\<lparr>cachedAreas := None\<rparr>)"

definition createArea :: "string \<Rightarrow> (rat \<times> rat) list list \<Rightarrow> bool option \<Rightarrow> serviceArea op" where
  "createArea name coordinates isActive =
     bind (normalizePolygon coordinates) (\<lambda>polygon.
     bind freshId (\<lambda>i.
     let a = \<lparr>sa_id = i, sa_name = name, sa_polygon = polygon, sa_isActive = orElse isActive True\<rparr>
     in andThen (modify (\<lambda>s. s\<lparr>serviceAreas := serviceAreas s @ [a]\<rparr>))
        (andThen invalidateAreaCache (return a))))"

definition findAreaOrThrow :: "string \<Rightarrow> serviceArea op" where
  "findAreaOrThrow i =
     bind (gets (\<lambda>s. List.find (\<lambda>a. sa_id a = i) (serviceAreas s))) (\<lambda>a.
     orThrow a (NotFoundException ''Service area not found''))"

definition updateArea :: "string \<Rightarrow> string option \<Rightarrow> (rat \<times> rat) list list option \<Rightarrow> bool option \<Rightarrow> serviceArea op" where
  "updateArea i name coordinates isActive =
     andThen (findAreaOrThrow i)
     (bind (case coordinates of None \<Rightarrow> return None | Some c \<Rightarrow> bind (normalizePolygon c) (\<lambda>p. return (Some p))) (\<lambda>polygon.
      andThen (modify (\<lambda>s. s\<lparr>serviceAreas := updateWhere (\<lambda>a. sa_id a = i)
                 (\<lambda>a. a\<lparr>sa_name := orElse name (sa_name a), sa_polygon := orElse polygon (sa_polygon a),
                          sa_isActive := orElse isActive (sa_isActive a)\<rparr>) (serviceAreas s)\<rparr>))
      (bind (findAreaOrThrow i) (\<lambda>a. andThen invalidateAreaCache (return a)))))"

text \<open>
  \<open>prisma.serviceArea.delete\<close>: the foreign keys of tariffs and rides are ON DELETE SET NULL
  (prisma/migrations/20260828090051 and 20260828093439), so the rows that point at the area stay
  and point nowhere.
\<close>

definition clearArea :: "string \<Rightarrow> string option \<Rightarrow> string option" where
  "clearArea i area = (if area = Some i then None else area)"

definition removeArea :: "string \<Rightarrow> unit op" where
  "removeArea i =
     andThen (findAreaOrThrow i)
     (andThen (modify (\<lambda>s. s\<lparr>serviceAreas := filter (\<lambda>a. sa_id a \<noteq> i) (serviceAreas s),
         tariffs := map (\<lambda>t. t\<lparr>tf_serviceAreaId := clearArea i (tf_serviceAreaId t)\<rparr>) (tariffs s),
         rides := map (\<lambda>r. r\<lparr>rd_serviceAreaId := clearArea i (rd_serviceAreaId r)\<rparr>) (rides s)\<rparr>))
      invalidateAreaCache)"

end
