(* ===== verification/Promo.thy ===== *)
theory Promo
  imports Pricing
begin

text \<open>
  Promo codes, src/promo/promo.service.ts: eligibility and discount of a code for a fare
  (\<open>validate\<close>, which records nothing), the redemption recorded once a booking exists, and the
  administration of codes.  \<open>Quote\<close> and \<open>Rides\<close> call \<open>validatePromo\<close>.
\<close>

text \<open>\<open>String.toUpperCase\<close> on ASCII letters.\<close>

definition toUpper :: "char \<Rightarrow> char" where
  "toUpper c = (let n = (of_char c :: nat) in if 97 \<le> n \<and> n \<le> 122 then char_of (n - 32) else c)"

definition toUpperCase :: "string \<Rightarrow> string" where
  "toUpperCase s = map toUpper s"

fun serviceName :: "PromoApplicableService \<Rightarrow> string" where
  "serviceName PromoApplicableService.RIDE = ''RIDE''"
| "serviceName PromoApplicableService.DELIVERY = ''DELIVERY''"
| "serviceName PromoApplicableService.KILOWATT = ''KILOWATT''"

record validateResult =
  vr_promoId :: string
  vr_discountAmount :: rat
  vr_finalAmount :: rat

definition redemptionsOf :: "db \<Rightarrow> string \<Rightarrow> nat" where
  "redemptionsOf s promoId = countWhere (\<lambda>r. pr_promoId r = promoId) (promoRedemptions s)"

definition redemptionsBy :: "db \<Rightarrow> string \<Rightarrow> string \<Rightarrow> nat" where
  "redemptionsBy s promoId userId =
     countWhere (\<lambda>r. pr_promoId r = promoId \<and> pr_userId r = userId) (promoRedemptions s)"

text \<open>\<open>if (limit)\<close>: neither null nor zero.\<close>

definition limited :: "nat option \<Rightarrow> bool" where
  "limited l = (case l of None \<Rightarrow> False | Some n \<Rightarrow> n \<noteq> 0)"

definition discountOf :: "promo \<Rightarrow> rat \<Rightarrow> rat" where
  "discountOf p fareAmount =
     (case pm_type p of
        PERCENTAGE \<Rightarrow>
          (let d = fareAmount * pm_value p / 100 in
           case pm_maxDiscount p of None \<Rightarrow> d | Some m \<Rightarrow> if m < d then m else d)
      | FLAT \<Rightarrow> min (pm_value p) fareAmount)"

definition validatePromo :: "string \<Rightarrow> PromoApplicableService \<Rightarrow> rat \<Rightarrow> string \<Rightarrow> validateResult op" where
  "validatePromo code service fareAmount userId =
     bind (gets (\<lambda>s. List.find (\<lambda>p. pm_code p = toUpperCase code) (promos s))) (\<lambda>found.
     bind (orThrow found (NotFoundException ''Promo code not found'')) (\<lambda>p.
     andThen (ensure (pm_isActive p) (NotFoundException ''Promo code not found''))
     (bind (gets now) (\<lambda>t.
     andThen (ensure (\<not> (t < pm_validFrom p \<or> pm_validUntil p < t))
               (BadRequestException ''This promo code is not currently valid''))
     (andThen (ensure (service \<in> set (pm_applicableServices p))
               (BadRequestException (''This promo code does not apply to '' @ serviceName service)))
     (andThen (onlyIf (limited (pm_usageLimitTotal p))
        (bind (gets (\<lambda>s. redemptionsOf s (pm_id p))) (\<lambda>totalRedemptions.
         ensure (\<not> the (pm_usageLimitTotal p) \<le> totalRedemptions)
           (ConflictException ''This promo code has reached its usage limit''))))
     (andThen (onlyIf (limited (pm_usageLimitPerUser p))
        (bind (gets (\<lambda>s. redemptionsBy s (pm_id p) userId)) (\<lambda>userRedemptions.
         ensure (\<not> the (pm_usageLimitPerUser p) \<le> userRedemptions)
           (ConflictException ''You have already used this promo code the maximum number of times''))))
     (return \<lparr>vr_promoId = pm_id p, vr_discountAmount = discountOf p fareAmount,
              vr_finalAmount = fareAmount - discountOf p fareAmount\<rparr>))))))))"

definition recordRedemption :: "string \<Rightarrow> string \<Rightarrow> PromoApplicableService \<Rightarrow> string \<Rightarrow> rat \<Rightarrow> unit op" where
  "recordRedemption promoId userId service referenceId discountAmount =
     modify (\<lambda>s. s\<lparr>promoRedemptions := promoRedemptions s @
       [\<lparr>pr_promoId = promoId, pr_userId = userId, pr_service = service, pr_referenceId = referenceId,
         pr_discountAmount = scale2 discountAmount\<rparr>]\<rparr>)"

definition listFeatured :: "promo list op" where
  "listFeatured = gets (\<lambda>s. take 10 (sort_key pm_validUntil
     (filter (\<lambda>p. pm_isActive p \<and> pm_isFeatured p \<and> pm_validFrom p \<le> now s \<and> now s \<le> pm_validUntil p) (promos s))))"

record promoDto =
  pd_code :: string
  pd_type :: PromoType
  pd_value :: rat
  pd_maxDiscount :: "rat option"
  pd_usageLimitTotal :: "nat option"
  pd_usageLimitPerUser :: "nat option"
  pd_validFrom :: instant
  pd_validUntil :: instant
  pd_applicableServices :: "PromoApplicableService list"
  pd_isFeatured :: "bool option"

definition createPromo :: "promoDto \<Rightarrow> promo op" where
  "createPromo dto =
     bind (gets (\<lambda>s. List.find (\<lambda>p. pm_code p = toUpperCase (pd_code dto)) (promos s))) (\<lambda>existing.
     andThen (ensure (existing = None) (ConflictException ''A promo with this code already exists''))
     (bind freshId (\<lambda>i.
      let p = \<lparr>pm_id = i, pm_code = toUpperCase (pd_code dto), pm_type = pd_type dto, pm_value = scale2 (pd_value dto),
               pm_maxDiscount = map_option scale2 (pd_maxDiscount dto),
               pm_usageLimitTotal = pd_usageLimitTotal dto,
               pm_usageLimitPerUser = Some (orElse (pd_usageLimitPerUser dto) 1),
               pm_validFrom = pd_validFrom dto, pm_validUntil = pd_validUntil dto,
               pm_applicableServices = pd_applicableServices dto, pm_isActive = True,
               pm_isFeatured = orElse (pd_isFeatured dto) False\<rparr>
      in andThen (modify (\<lambda>s. s\<lparr>promos := promos s @ [p]\<rparr>)) (return p))))"

definition findPromoOrThrow :: "string \<Rightarrow> promo op" where
  "findPromoOrThrow i =
     bind (gets (\<lambda>s. List.find (\<lambda>p. pm_id p = i) (promos s))) (\<lambda>p.
     orThrow p (NotFoundException ''Promo not found''))"

text \<open>The redemptions' foreign key is ON DELETE RESTRICT (prisma/migrations/20260828153007).\<close>

definition deletePromo :: "string \<Rightarrow> unit op" where
  "deletePromo i =
     andThen (findPromoOrThrow i)
     (bind (gets (\<lambda>s. redemptionsOf s i)) (\<lambda>n.
      andThen (ensure (n = 0) (InternalError ''Foreign key constraint violated''))
      (modify (\<lambda>s. s\<lparr>promos := filter (\<lambda>p. pm_id p \<noteq> i) (promos s)\<rparr>))))"

definition getRedemptionStats :: "string \<Rightarrow> (nat \<times> rat \<times> promoRedemption list) op" where
  "getRedemptionStats i =
     andThen (findPromoOrThrow i)
     (gets (\<lambda>s. let rs = filter (\<lambda>r. pr_promoId r = i) (promoRedemptions s)
                in (length rs, sum_list (map pr_discountAmount rs), rev rs)))"

section \<open>What a valid code means\<close>

lemma wp_validatePromo:
  "wp (validatePromo code service fare userId)
     (\<lambda>v t. t = s \<and> (\<exists>p \<in> set (promos s). pm_code p = toUpperCase code \<and> vr_promoId v = pm_id p \<and> pm_isActive p
        \<and> pm_validFrom p \<le> now s \<and> now s \<le> pm_validUntil p \<and> service \<in> set (pm_applicableServices p)
        \<and> vr_discountAmount v = discountOf p fare \<and> vr_finalAmount v = fare - discountOf p fare
        \<and> (limited (pm_usageLimitTotal p) \<longrightarrow> redemptionsOf s (pm_id p) < the (pm_usageLimitTotal p))
        \<and> (limited (pm_usageLimitPerUser p) \<longrightarrow> redemptionsBy s (pm_id p) userId < the (pm_usageLimitPerUser p))))
     (\<lambda>e t. t = s \<and> isHttpException e) s"
proof (cases "List.find (\<lambda>p. pm_code p = toUpperCase code) (promos s)")
  case (Some p)
  then have "p \<in> set (promos s) \<and> pm_code p = toUpperCase code" by (rule find_SomeD)
  with Some show ?thesis by (auto simp: validatePromo_def wp_simps intro!: bexI [of _ p])
qed (simp add: validatePromo_def wp_simps)

text \<open>No code is redeemed beyond its limits.\<close>

definition promoLimitsOk :: "db \<Rightarrow> bool" where
  "promoLimitsOk s \<longleftrightarrow> distinct (map pm_id (promos s)) \<and> (\<forall>p \<in> set (promos s).
     (limited (pm_usageLimitTotal p) \<longrightarrow> redemptionsOf s (pm_id p) \<le> the (pm_usageLimitTotal p))
     \<and> (limited (pm_usageLimitPerUser p) \<longrightarrow> (\<forall>u. redemptionsBy s (pm_id p) u \<le> the (pm_usageLimitPerUser p))))"

lemma redemptions_append:
  "redemptionsOf (s\<lparr>promoRedemptions := promoRedemptions s @ [r]\<rparr>) i
     = redemptionsOf s i + (if pr_promoId r = i then 1 else 0)"
  "redemptionsBy (s\<lparr>promoRedemptions := promoRedemptions s @ [r]\<rparr>) i u
     = redemptionsBy s i u + (if pr_promoId r = i \<and> pr_userId r = u then 1 else 0)"
  by (simp_all add: redemptionsOf_def redemptionsBy_def countWhere_def)

lemma promoLimitsOk_redeem:
  assumes ok: "promoLimitsOk s" and p: "p \<in> set (promos s)" "pr_promoId r = pm_id p" "pr_userId r = userId"
    and total: "limited (pm_usageLimitTotal p) \<Longrightarrow> redemptionsOf s (pm_id p) < the (pm_usageLimitTotal p)"
    and user: "limited (pm_usageLimitPerUser p) \<Longrightarrow> redemptionsBy s (pm_id p) userId < the (pm_usageLimitPerUser p)"
  shows "promoLimitsOk (s\<lparr>promoRedemptions := promoRedemptions s @ [r]\<rparr>)"
proof -
  have only: "q = p" if "q \<in> set (promos s)" "pm_id q = pm_id p" for q
    using ok p that by (metis promoLimitsOk_def find_key option.inject)
  then show ?thesis
    using ok p total user unfolding promoLimitsOk_def redemptions_append by (fastforce simp: Suc_le_eq)
qed

lemma discountOf_bounds:
  assumes "0 \<le> fare" and "0 \<le> pm_value p" and "\<And>m. pm_maxDiscount p = Some m \<Longrightarrow> 0 \<le> m"
    and "pm_type p = PERCENTAGE \<Longrightarrow> pm_value p \<le> 100"
  shows "0 \<le> discountOf p fare" and "discountOf p fare \<le> fare"
proof -
  have pc: "fare * pm_value p / 100 \<le> fare" if "pm_type p = PERCENTAGE"
    using mult_left_mono [OF assms(4) [OF that] assms(1)] by (simp add: field_simps)
  show "0 \<le> discountOf p fare"
    using assms by (auto simp: discountOf_def Let_def split: PromoType.splits option.splits)
  show "discountOf p fare \<le> fare"
    using assms pc by (auto simp: discountOf_def Let_def split: PromoType.splits option.splits)
qed

end
