(* ===== verification/Quote.thy ===== *)
theory Quote
  imports Promo
begin

text \<open>
  The fare quote, src/pricing/quote.service.ts: one route priced for every vehicle type on offer
  (or just one), with the promo and tax rules of a booking, and the cheapest option recommended.
\<close>

record vehicleQuote =
  vq_vehicleType :: string
  vq_displayName :: string
  vq_description :: "string option"
  vq_currency :: string
  vq_subtotal :: rat
  vq_promoDiscount :: rat
  vq_tax :: rat
  vq_total :: rat
  vq_estimatedFare :: rat
  vq_tripMinutes :: int
  vq_recommended :: bool

text \<open>\<open>QuotePromoInput\<close>: code, user and service; \<open>PromoOutcome\<close>: code, applied, message.\<close>

type_synonym promoInput = "string \<times> string \<times> PromoApplicableService"
type_synonym promoOutcome = "string \<times> bool \<times> string option"

definition toQuote :: "tariff \<Rightarrow> fareBreakdown \<Rightarrow> int \<Rightarrow> vehicleQuote" where
  "toQuote t fare routeMinutes =
     \<lparr>vq_vehicleType = tf_vehicleType t, vq_displayName = orElse (tf_displayName t) (tf_vehicleType t),
      vq_description = tf_description t, vq_currency = tf_currency t, vq_subtotal = fb_subtotal fare,
      vq_promoDiscount = fb_promoDiscount fare, vq_tax = fb_tax fare, vq_total = fb_total fare,
      vq_estimatedFare = fb_total fare, vq_tripMinutes = estimateTripMinutes t routeMinutes,
      vq_recommended = False\<rparr>"

text \<open>A promo that does not apply costs its discount, never the quote; other errors propagate.\<close>

definition tryPromo :: "promoInput \<Rightarrow> rat \<Rightarrow> (rat \<times> bool \<times> string option) op" where
  "tryPromo promo fare = (case promo of (code, userId, service) \<Rightarrow>
     tryCatch
       (bind (validatePromo code service fare userId) (\<lambda>r. return (vr_discountAmount r, True, None)))
       (\<lambda>err. if isHttpException err then return (0, False, Some (errorMessage err)) else throw err))"

fun quoteLoop :: "promoInput option \<Rightarrow> rat \<Rightarrow> int \<Rightarrow> tariff list \<Rightarrow> promoOutcome option \<Rightarrow> vehicleQuote list
    \<Rightarrow> (vehicleQuote list \<times> promoOutcome option) op" where
  "quoteLoop promo distanceKm durationMinutes [] promoOutcome quotes = return (quotes, promoOutcome)"
| "quoteLoop promo distanceKm durationMinutes (t # ts) promoOutcome quotes =
     (let subtotal = calculateFare t distanceKm durationMinutes in
     bind (case promo of
             None \<Rightarrow> return (0, promoOutcome)
           | Some p \<Rightarrow>
               bind (tryPromo p subtotal) (\<lambda>(discount, applied, message).
               return (discount,
                 case promoOutcome of Some o' \<Rightarrow> Some o' | None \<Rightarrow> Some (toUpperCase (fst p), applied, message))))
       (\<lambda>(discount, outcome).
     bind (buildFareBreakdown subtotal discount) (\<lambda>breakdown.
     quoteLoop promo distanceKm durationMinutes ts outcome (quotes @ [toQuote t breakdown durationMinutes]))))"

text \<open>
  \<open>quotes.reduce((min, q) => !min || q.total < min.total ? q : min)\<close>, on positions because the
  chosen object is then mutated.
\<close>

definition cheaper :: "nat \<times> vehicleQuote \<Rightarrow> (nat \<times> vehicleQuote) option \<Rightarrow> (nat \<times> vehicleQuote) option" where
  "cheaper iq m = (case m of None \<Rightarrow> Some iq
     | Some jb \<Rightarrow> if vq_total (snd iq) < vq_total (snd jb) then Some iq else Some jb)"

definition cheapestIndex :: "vehicleQuote list \<Rightarrow> nat option" where
  "cheapestIndex qs = map_option fst (fold cheaper (enumerate 0 qs) None)"

definition markCheapest :: "vehicleQuote list \<Rightarrow> vehicleQuote list" where
  "markCheapest qs = (case cheapestIndex qs of None \<Rightarrow> qs
     | Some i \<Rightarrow> qs[i := (qs ! i)\<lparr>vq_recommended := True\<rparr>])"

definition quoteVehicles :: "TariffServiceType \<Rightarrow> string option \<Rightarrow> rat \<Rightarrow> int \<Rightarrow> string option \<Rightarrow> promoInput option
    \<Rightarrow> (vehicleQuote list \<times> promoOutcome option) op" where
  "quoteVehicles serviceType serviceAreaId distanceKm durationMinutes vehicleType promo =
     bind (case vehicleType of
             Some v \<Rightarrow> bind (getActiveTariff v serviceAreaId (Some serviceType)) (\<lambda>t. return [t])
           | None \<Rightarrow> listActiveTariffsForService serviceType serviceAreaId) (\<lambda>ts.
     bind (quoteLoop promo distanceKm durationMinutes ts None []) (\<lambda>(quotes, promoOutcome).
     return (markCheapest quotes, promoOutcome)))"

section \<open>The cheapest option\<close>

lemma cheapest_fold:
  "\<exists>iq. fold cheaper xs (Some jb) = Some iq \<and> iq \<in> insert jb (set xs)
     \<and> (\<forall>kr \<in> insert jb (set xs). vq_total (snd iq) \<le> vq_total (snd kr))"
proof (induction xs arbitrary: jb)
  case (Cons x xs)
  show ?case
  proof (cases "vq_total (snd x) < vq_total (snd jb)")
    case True
    with Cons.IH [of x] show ?thesis by (auto simp: cheaper_def)
  next
    case False
    with Cons.IH [of jb] show ?thesis by (auto simp: cheaper_def)
  qed
qed simp

lemma cheapestIndex_min:
  assumes "qs \<noteq> []"
  shows "\<exists>i. cheapestIndex qs = Some i \<and> i < length qs \<and> (\<forall>q \<in> set qs. vq_total (qs ! i) \<le> vq_total q)"
proof -
  obtain p ps where ps: "enumerate 0 qs = p # ps" using assms by (cases qs) auto
  then have set: "set (enumerate 0 qs) = insert p (set ps)" by simp
  obtain i q where iq: "fold cheaper (enumerate 0 qs) None = Some (i, q)" "(i, q) \<in> set (enumerate 0 qs)"
    "\<forall>kr \<in> set (enumerate 0 qs). vq_total q \<le> vq_total (snd kr)"
    using cheapest_fold [of ps p] unfolding set by (auto simp: ps cheaper_def)
  have "vq_total (qs ! i) \<le> vq_total r" if r: "r \<in> set qs" for r
  proof -
    obtain k where "k < length qs" "qs ! k = r" using r by (auto simp: in_set_conv_nth)
    then have "(k, r) \<in> set (enumerate 0 qs)" by (simp add: in_set_enumerate_eq)
    with iq(2) iq(3) [THEN bspec, of "(k, r)"] show ?thesis by (auto simp: in_set_enumerate_eq)
  qed
  then show ?thesis using iq(1,2) by (auto simp: cheapestIndex_def in_set_enumerate_eq)
qed

end
