(* ===== verification/Dispatch.thy ===== *)
theory Dispatch
  imports Pricing
begin

text \<open>
  Matching a ride to a driver, src/rides/dispatch.service.ts: driver availability, the search for
  nearby drivers, the round of offers, and the race for a ride.  Redis GEOSEARCH is the parameter
  \<open>geosearch\<close>: given the positions, a point and a limit it returns drivers with their
  distance, nearest first.  The timer that expires a round is the message \<open>ExpireRoundAt\<close>, and
  \<open>expireRoundIfUnresolved\<close> what it runs.
\<close>

type_synonym geosearch = "(string \<times> rat \<times> rat) list \<Rightarrow> rat \<Rightarrow> rat \<Rightarrow> nat \<Rightarrow> (string \<times> rat) list"

definition OFFER_TTL_MS :: int where
  "OFFER_TTL_MS = 15000"

definition MAX_CANDIDATES :: nat where
  "MAX_CANDIDATES = 5"

section \<open>Rows\<close>

definition findRide :: "string \<Rightarrow> ride option op" where
  "findRide i = gets (\<lambda>s. List.find (\<lambda>r. rd_id r = i) (rides s))"

text \<open>\<open>prisma.ride.update\<close>: one row by id, returned as written.\<close>

definition updateRide :: "string \<Rightarrow> (ride \<Rightarrow> ride) \<Rightarrow> ride op" where
  "updateRide i f =
     andThen (modify (\<lambda>s. s\<lparr>rides := updateWhere (\<lambda>r. rd_id r = i) f (rides s)\<rparr>))
     (bind (findRide i) (\<lambda>r. orThrow r RecordNotFound))"

definition updateRideMany :: "(ride \<Rightarrow> bool) \<Rightarrow> (ride \<Rightarrow> ride) \<Rightarrow> nat op" where
  "updateRideMany P f =
     bind (gets (\<lambda>s. countWhere P (rides s))) (\<lambda>n.
     andThen (modify (\<lambda>s. s\<lparr>rides := updateWhere P f (rides s)\<rparr>)) (return n))"

definition updateOffers :: "(rideOffer \<Rightarrow> bool) \<Rightarrow> (rideOffer \<Rightarrow> rideOffer) \<Rightarrow> unit op" where
  "updateOffers P f = modify (\<lambda>s. s\<lparr>rideOffers := updateWhere P f (rideOffers s)\<rparr>)"

definition resolveOffer :: "RideOfferStatus \<Rightarrow> instant \<Rightarrow> rideOffer \<Rightarrow> rideOffer" where
  "resolveOffer st t ro = ro\<lparr>ro_status := st, ro_respondedAt := Some t\<rparr>"

section \<open>Drivers\<close>

definition getMaxUnsettledCashRides :: "rat op" where
  "getMaxUnsettledCashRides = getConfig ''maxUnsettledCashRides'' 3"

definition setDriverStatus :: "string \<Rightarrow> DriverAvailability \<Rightarrow> string option \<Rightarrow> DriverServiceMode option \<Rightarrow> unit op" where
  "setDriverStatus driverId availability vehicleType serviceMode =
     bind (gets (\<lambda>s. List.find (\<lambda>d. ds_userId d = driverId) (driverStatuses s))) (\<lambda>existing.
     andThen
       (case existing of
          Some _ \<Rightarrow> modify (\<lambda>s. s\<lparr>driverStatuses := updateWhere (\<lambda>d. ds_userId d = driverId)
            (\<lambda>d. d\<lparr>ds_availability := availability,
                     ds_vehicleType := (if truthy vehicleType then vehicleType else ds_vehicleType d),
                     ds_serviceMode := orElse serviceMode (ds_serviceMode d)\<rparr>) (driverStatuses s)\<rparr>)
        | None \<Rightarrow> modify (\<lambda>s. s\<lparr>driverStatuses := driverStatuses s @
            [\<lparr>ds_userId = driverId, ds_availability = availability, ds_serviceMode = orElse serviceMode RIDES,
              ds_vehicleType = vehicleType, ds_unsettledCashRideCount = 0\<rparr>]\<rparr>))
     (onlyIf (availability = OFFLINE)
       (modify (\<lambda>s. s\<lparr>driversGeo := AList.delete driverId (driversGeo s)\<rparr>))))"

definition pushLocation :: "string \<Rightarrow> rat \<Rightarrow> rat \<Rightarrow> unit op" where
  "pushLocation driverId lat lng =
     andThen (modify (\<lambda>s. s\<lparr>driversGeo := AList.update driverId (lat, lng) (driversGeo s)\<rparr>))
     (bind (gets (\<lambda>s. List.find (\<lambda>r. rd_driverId r = Some driverId
              \<and> rd_status r \<in> {RideStatus.ACCEPTED, RideStatus.ARRIVED, RideStatus.IN_PROGRESS}) (rides s))) (\<lambda>activeRide.
      case activeRide of
        Some r \<Rightarrow> push (EmitRideLocation (rd_id r) lat lng)
      | None \<Rightarrow>
          bind (gets (\<lambda>s. List.find (\<lambda>d. dv_driverId d = Some driverId
                  \<and> dv_status d \<in> {DeliveryStatus.ACCEPTED, DeliveryStatus.PICKED_UP}) (deliveries s))) (\<lambda>activeDelivery.
          case activeDelivery of
            Some d \<Rightarrow> push (EmitDeliveryLocation (dv_id d) lat lng)
          | None \<Rightarrow> return ())))"

definition getDriverPosition :: "string \<Rightarrow> (rat \<times> rat) option op" where
  "getDriverPosition driverId = gets (\<lambda>s. map_of (driversGeo s) driverId)"

text \<open>The two nested loops of \<open>nearestDriverDistances\<close>; the map is kept as an association list.\<close>

definition noteVehicle :: "string option \<Rightarrow> rat \<Rightarrow> string \<Rightarrow> (string \<times> rat) list \<Rightarrow> (string \<times> rat) list" where
  "noteVehicle driverVehicle away vehicleType nearest =
     (if map_of nearest vehicleType = None \<and> (driverVehicle = None \<or> driverVehicle = Some vehicleType)
      then nearest @ [(vehicleType, away)] else nearest)"

fun nearestLoop :: "(string \<times> string option) list \<Rightarrow> string list \<Rightarrow> (string \<times> rat) list \<Rightarrow> (string \<times> rat) list
    \<Rightarrow> (string \<times> rat) list" where
  "nearestLoop vehicleOf vehicleTypes [] nearest = nearest"
| "nearestLoop vehicleOf vehicleTypes ((driverId, away) # results) nearest =
     (case map_of vehicleOf driverId of
        None \<Rightarrow> nearestLoop vehicleOf vehicleTypes results nearest
      | Some driverVehicle \<Rightarrow>
          (let nearest' = fold (noteVehicle driverVehicle away) vehicleTypes nearest in
           if length nearest' = length vehicleTypes then nearest'
           else nearestLoop vehicleOf vehicleTypes results nearest'))"

definition nearestDriverDistances :: "geosearch \<Rightarrow> rat \<Rightarrow> rat \<Rightarrow> string list \<Rightarrow> DriverServiceMode \<Rightarrow> (string \<times> rat) list op" where
  "nearestDriverDistances geosearch lat lng vehicleTypes serviceMode =
     bind (gets (\<lambda>s. geosearch (driversGeo s) lat lng 50)) (\<lambda>results.
     bind (gets (\<lambda>s. map (\<lambda>d. (ds_userId d, ds_vehicleType d))
             (filter (\<lambda>d. ds_userId d \<in> fst ` set results \<and> ds_availability d = ONLINE
                        \<and> ds_serviceMode d = serviceMode) (driverStatuses s)))) (\<lambda>vehicleOf.
     return (nearestLoop vehicleOf vehicleTypes results [])))"

definition eligibleDriver :: "string \<Rightarrow> RidePaymentMethod \<Rightarrow> rat \<Rightarrow> driverStatus \<Rightarrow> bool" where
  "eligibleDriver vehicleType paymentMethod maxUnsettledCashRides d \<longleftrightarrow>
     ds_availability d = ONLINE \<and> ds_serviceMode d = RIDES
     \<and> (ds_vehicleType d = Some vehicleType \<or> ds_vehicleType d = None)
     \<and> (paymentMethod = CASH \<longrightarrow> of_nat (ds_unsettledCashRideCount d) < maxUnsettledCashRides)"

definition findNearbyDrivers :: "geosearch \<Rightarrow> rat \<Rightarrow> rat \<Rightarrow> string \<Rightarrow> nat \<Rightarrow> RidePaymentMethod \<Rightarrow> rat \<Rightarrow> string list op" where
  "findNearbyDrivers geosearch lat lng vehicleType limit paymentMethod maxUnsettledCashRides =
     bind (gets (\<lambda>s. map fst (geosearch (driversGeo s) lat lng (limit * 4)))) (\<lambda>results.
     bind (gets (\<lambda>s. map ds_userId (filter (\<lambda>d. ds_userId d \<in> set results
              \<and> eligibleDriver vehicleType paymentMethod maxUnsettledCashRides d) (driverStatuses s)))) (\<lambda>eligibleIds.
     return (take limit (filter (\<lambda>i. i \<in> set eligibleIds) results))))"

section \<open>The round of offers\<close>

definition resolveNoDrivers :: "string \<Rightarrow> unit op" where
  "resolveNoDrivers rideId =
     bind (updateRideMany (\<lambda>r. rd_id r = rideId \<and> rd_status r \<in> {RideStatus.REQUESTED, RideStatus.DISPATCHING})
             (\<lambda>r. r\<lparr>rd_status := RideStatus.NO_DRIVERS_FOUND\<rparr>)) (\<lambda>count.
     onlyIf (0 < count) (push (EmitRideStatus rideId RideStatus.NO_DRIVERS_FOUND)))"

fun createOffers :: "string \<Rightarrow> instant \<Rightarrow> string list \<Rightarrow> unit op" where
  "createOffers rideId expiresAt [] = return ()"
| "createOffers rideId expiresAt (d # ds) =
     bind (gets (\<lambda>s. List.find (\<lambda>ro. ro_rideId ro = rideId \<and> ro_driverId ro = d) (rideOffers s))) (\<lambda>dup.
     andThen (ensure (dup = None) UniqueViolation)
     (bind freshId (\<lambda>i.
     andThen (modify (\<lambda>s. s\<lparr>rideOffers := rideOffers s @
        [\<lparr>ro_id = i, ro_rideId = rideId, ro_driverId = d, ro_status = RideOfferStatus.PENDING,
          ro_expiresAt = expiresAt, ro_respondedAt = None, ro_createdAt = now s\<rparr>]\<rparr>))
     (createOffers rideId expiresAt ds))))"

definition startDispatch :: "geosearch \<Rightarrow> string \<Rightarrow> unit op" where
  "startDispatch geosearch rideId =
     bind (findRide rideId) (\<lambda>found.
     case found of
       None \<Rightarrow> return ()
     | Some r \<Rightarrow>
         if rd_status r \<noteq> RideStatus.REQUESTED then return () else
         andThen (updateRide rideId (\<lambda>r. r\<lparr>rd_status := RideStatus.DISPATCHING\<rparr>))
         (bind getMaxUnsettledCashRides (\<lambda>maxUnsettledCashRides.
         bind (findNearbyDrivers geosearch (rd_pickupLat r) (rd_pickupLng r) (rd_vehicleType r) MAX_CANDIDATES
                 (rd_paymentMethod r) maxUnsettledCashRides) (\<lambda>candidates.
         if candidates = [] then resolveNoDrivers rideId else
         bind (gets (\<lambda>s. now s + OFFER_TTL_MS)) (\<lambda>expiresAt.
         andThen (atomic (createOffers rideId expiresAt candidates))
         (andThen (forEach candidates (\<lambda>d. push (EmitOffer d rideId)))
         (push (ExpireRoundAt expiresAt rideId))))))))"

definition expireRoundIfUnresolved :: "string \<Rightarrow> unit op" where
  "expireRoundIfUnresolved rideId =
     bind (findRide rideId) (\<lambda>found.
     case found of
       None \<Rightarrow> return ()
     | Some r \<Rightarrow>
         if rd_status r \<noteq> RideStatus.DISPATCHING then return () else
         bind (gets now) (\<lambda>t.
         andThen (updateOffers (\<lambda>ro. ro_rideId ro = rideId \<and> ro_status ro = RideOfferStatus.PENDING)
                    (resolveOffer RideOfferStatus.EXPIRED t))
         (resolveNoDrivers rideId)))"

definition resolveNoDriversIfAllResolved :: "string \<Rightarrow> unit op" where
  "resolveNoDriversIfAllResolved rideId =
     bind (findRide rideId) (\<lambda>found.
     case found of
       None \<Rightarrow> return ()
     | Some r \<Rightarrow>
         if rd_status r \<noteq> RideStatus.DISPATCHING then return () else
         bind (gets (\<lambda>s. countWhere (\<lambda>ro. ro_rideId ro = rideId \<and> ro_status ro = RideOfferStatus.PENDING) (rideOffers s))) (\<lambda>pending.
         onlyIf (pending = 0) (resolveNoDrivers rideId)))"

section \<open>Accepting and declining\<close>

definition findOffer :: "string \<Rightarrow> string \<Rightarrow> rideOffer option op" where
  "findOffer rideId driverId =
     gets (\<lambda>s. List.find (\<lambda>ro. ro_rideId ro = rideId \<and> ro_driverId ro = driverId) (rideOffers s))"

definition unsettledCount :: "db \<Rightarrow> string \<Rightarrow> nat" where
  "unsettledCount s driverId =
     (case List.find (\<lambda>d. ds_userId d = driverId) (driverStatuses s) of
        None \<Rightarrow> 0 | Some d \<Rightarrow> ds_unsettledCashRideCount d)"

text \<open>
  \<open>acceptOffer\<close> in three parts, because two drivers may run it at the same time: the checks, the
  claim (one atomic UPDATE ... WHERE), and what the winner does next.
\<close>

definition acceptChecks :: "string \<Rightarrow> string \<Rightarrow> rideOffer op" where
  "acceptChecks driverId rideId =
     bind (findOffer rideId driverId) (\<lambda>found.
     bind (orThrow found (NotFoundException ''Offer not found'')) (\<lambda>offer.
     bind (gets now) (\<lambda>t.
     andThen (ensure (\<not> (ro_status offer \<noteq> RideOfferStatus.PENDING \<or> ro_expiresAt offer < t))
                (ConflictException ''This offer is no longer available''))
     (bind (findRide rideId) (\<lambda>preview.
      bind (orThrow preview RecordNotFound) (\<lambda>ridePreview.
      andThen (onlyIf (rd_paymentMethod ridePreview = CASH)
        (bind (gets (\<lambda>s. unsettledCount s driverId)) (\<lambda>count.
         bind getMaxUnsettledCashRides (\<lambda>maxUnsettledCashRides.
         ensure (\<not> maxUnsettledCashRides \<le> of_nat count)
           (ForbiddenException ''Outstanding cash-ride commission must be cleared before accepting another cash ride'')))))
      (return offer)))))))"

definition claimRide :: "string \<Rightarrow> string \<Rightarrow> nat op" where
  "claimRide driverId rideId =
     bind (gets now) (\<lambda>t.
     updateRideMany (\<lambda>r. rd_id r = rideId \<and> rd_status r = RideStatus.DISPATCHING \<and> rd_driverId r = None)
       (\<lambda>r. r\<lparr>rd_status := RideStatus.ACCEPTED, rd_driverId := Some driverId, rd_acceptedAt := Some t\<rparr>))"

definition acceptLost :: "rideOffer \<Rightarrow> ride op" where
  "acceptLost offer =
     bind (gets now) (\<lambda>t.
     andThen (updateOffers (\<lambda>ro. ro_id ro = ro_id offer) (resolveOffer RideOfferStatus.EXPIRED t))
     (throw (ConflictException ''Another driver already accepted this ride'')))"

definition acceptWon :: "string \<Rightarrow> string \<Rightarrow> rideOffer \<Rightarrow> ride op" where
  "acceptWon driverId rideId offer =
     bind (gets now) (\<lambda>t.
     andThen (updateOffers (\<lambda>ro. ro_id ro = ro_id offer) (resolveOffer RideOfferStatus.ACCEPTED t))
     (bind (gets (\<lambda>s. filter (\<lambda>ro. ro_rideId ro = rideId \<and> ro_driverId ro \<noteq> driverId
              \<and> ro_status ro = RideOfferStatus.PENDING) (rideOffers s))) (\<lambda>otherOffers.
      andThen (updateOffers (\<lambda>ro. ro_rideId ro = rideId \<and> ro_driverId ro \<noteq> driverId \<and> ro_status ro = RideOfferStatus.PENDING)
                 (resolveOffer RideOfferStatus.EXPIRED t))
      (andThen (setDriverStatus driverId ON_TRIP None None)
      (bind (findRide rideId) (\<lambda>found.
       bind (orThrow found RecordNotFound) (\<lambda>r.
       bind (gets (\<lambda>s. List.find (\<lambda>u. usr_id u = driverId) (users s))) (\<lambda>foundDriver.
       bind (orThrow foundDriver RecordNotFound) (\<lambda>driver.
       andThen (push (EmitRideStatus rideId RideStatus.ACCEPTED))
       (andThen (forEach otherOffers (\<lambda>other. push (EmitOfferTaken (ro_driverId other) rideId)))
       (andThen (push (NotifyUser (rd_riderId r) ''Your ride is on the way''
                   (usr_firstName driver @ '' is on the way to your pickup location.'')))
       (return r))))))))))))"

definition acceptOffer :: "string \<Rightarrow> string \<Rightarrow> ride op" where
  "acceptOffer driverId rideId =
     bind (acceptChecks driverId rideId) (\<lambda>offer.
     bind (claimRide driverId rideId) (\<lambda>claimed.
     if claimed = 0 then acceptLost offer else acceptWon driverId rideId offer))"

definition declineOffer :: "string \<Rightarrow> string \<Rightarrow> rideOffer op" where
  "declineOffer driverId rideId =
     bind (findOffer rideId driverId) (\<lambda>found.
     bind (orThrow found (NotFoundException ''Offer not found'')) (\<lambda>offer.
     if ro_status offer \<noteq> RideOfferStatus.PENDING then return offer else
     bind (gets now) (\<lambda>t.
     andThen (updateOffers (\<lambda>ro. ro_id ro = ro_id offer) (resolveOffer RideOfferStatus.DECLINED t))
     (andThen (resolveNoDriversIfAllResolved rideId)
     (return (resolveOffer RideOfferStatus.DECLINED t offer))))))"

end
