(* ===== verification/Ledger.thy ===== *)
theory Ledger
  imports Schema
begin

text \<open>
  The double-entry ledger, src/wallet/wallet.service.ts: the accounts and transactions tables, the
  posting routine every wallet movement goes through, and the movements themselves, one
  definition per method of \<open>WalletService\<close>.  \<open>ledgerOk\<close> is the invariant of the two
  tables.  A balance change is written to a \<open>Decimal(18, 2)\<close> column, so it is rounded by
  \<open>scale2\<close>.
\<close>

section \<open>Posting\<close>

record ledgerEntryInput =
  li_accountId :: string
  li_direction :: LedgerDirection
  li_amount :: rat

record postTransactionParams =
  pt_type :: TransactionType
  pt_reference :: string
  pt_idempotencyKey :: "string option"
  pt_amount :: rat
  pt_currency :: "string option"
  pt_metadata :: "metadata option"
  pt_entries :: "ledgerEntryInput list"
  pt_reversesTransactionId :: "string option"

abbreviation debit :: "string \<Rightarrow> rat \<Rightarrow> ledgerEntryInput" where
  "debit i amount \<equiv> \<lparr>li_accountId = i, li_direction = DEBIT, li_amount = amount\<rparr>"

abbreviation credit :: "string \<Rightarrow> rat \<Rightarrow> ledgerEntryInput" where
  "credit i amount \<equiv> \<lparr>li_accountId = i, li_direction = CREDIT, li_amount = amount\<rparr>"

definition findTransactionByReference :: "string \<Rightarrow> transaction option op" where
  "findTransactionByReference reference =
     gets (\<lambda>s. List.find (\<lambda>t. tx_reference t = reference) (transactions s))"

definition findAccountOrThrow :: "string \<Rightarrow> account op" where
  "findAccountOrThrow i =
     bind (gets (\<lambda>s. List.find (\<lambda>a. acc_id a = i) (accounts s))) (\<lambda>a. orThrow a RecordNotFound)"

definition totalOf :: "LedgerDirection \<Rightarrow> ledgerEntryInput list \<Rightarrow> rat" where
  "totalOf d es = sum_list (map li_amount (filter (\<lambda>e. li_direction e = d) es))"

text \<open>\<open>data: { balance: { increment: d } }\<close> on one account.\<close>

definition incrementBalance :: "(account \<Rightarrow> bool) \<Rightarrow> rat \<Rightarrow> unit op" where
  "incrementBalance P d =
     modify (\<lambda>s. s\<lparr>accounts := updateWhere P (\<lambda>a. a\<lparr>acc_balance := scale2 (acc_balance a + d)\<rparr>) (accounts s)\<rparr>)"

text \<open>The loop body of \<open>postTransactionEntries\<close>; it returns the balance it leaves behind.\<close>

definition applyEntry :: "ledgerEntryInput \<Rightarrow> rat op" where
  "applyEntry e =
     bind (findAccountOrThrow (li_accountId e)) (\<lambda>account.
     andThen
       (if li_direction e = DEBIT then
          (if acc_ownerId account = None then
             incrementBalance (\<lambda>a. acc_id a = li_accountId e) (- li_amount e)
           else
             bind (gets (\<lambda>s. countWhere (\<lambda>a. acc_id a = li_accountId e \<and> li_amount e \<le> acc_balance a) (accounts s))) (\<lambda>count.
             andThen
               (incrementBalance (\<lambda>a. acc_id a = li_accountId e \<and> li_amount e \<le> acc_balance a) (- li_amount e))
               (ensure (count \<noteq> 0) (ConflictException (''Insufficient balance on account '' @ li_accountId e)))))
        else incrementBalance (\<lambda>a. acc_id a = li_accountId e) (li_amount e))
     (bind (findAccountOrThrow (li_accountId e)) (\<lambda>updated.
     return (acc_balance updated))))"

fun applyEntries :: "ledgerEntryInput list \<Rightarrow> (string \<rightharpoonup> rat) \<Rightarrow> (string \<rightharpoonup> rat) op" where
  "applyEntries [] balancesAfter = return balancesAfter"
| "applyEntries (e # es) balancesAfter =
     bind (applyEntry e) (\<lambda>b. applyEntries es (balancesAfter(li_accountId e \<mapsto> b)))"

text \<open>\<open>tx.transaction.create\<close>, with the three unique columns of the table.\<close>

definition createTransaction :: "postTransactionParams \<Rightarrow> (string \<rightharpoonup> rat) \<Rightarrow> transaction op" where
  "createTransaction p balancesAfter =
     bind (gets transactions) (\<lambda>txs.
     andThen (ensure
       ((\<forall>t \<in> set txs. tx_reference t \<noteq> pt_reference p)
        \<and> (pt_idempotencyKey p \<noteq> None \<longrightarrow> (\<forall>t \<in> set txs. tx_idempotencyKey t \<noteq> pt_idempotencyKey p))
        \<and> (pt_reversesTransactionId p \<noteq> None \<longrightarrow>
             (\<forall>t \<in> set txs. tx_reversesTransactionId t \<noteq> pt_reversesTransactionId p)))
       UniqueViolation)
     (bind freshId (\<lambda>i.
     bind (gets now) (\<lambda>completedAt.
     let t = \<lparr>tx_id = i, tx_type = pt_type p, tx_status = TransactionStatus.COMPLETED,
              tx_reference = pt_reference p, tx_idempotencyKey = pt_idempotencyKey p,
              tx_amount = scale2 (pt_amount p),
              tx_currency = (case pt_currency p of None \<Rightarrow> ''NGN'' | Some c \<Rightarrow> c),
              tx_metadata = pt_metadata p,
              tx_reversesTransactionId = pt_reversesTransactionId p,
              tx_entries = map (\<lambda>e. \<lparr>le_accountId = li_accountId e, le_direction = li_direction e,
                                     le_amount = scale2 (li_amount e),
                                     le_balanceAfter = the (balancesAfter (li_accountId e))\<rparr>) (pt_entries p),
              tx_completedAt = Some completedAt, tx_createdAt = completedAt\<rparr>
     in andThen (modify (\<lambda>s. s\<lparr>transactions := transactions s @ [t]\<rparr>)) (return t)))))"

definition postTransactionEntries :: "postTransactionParams \<Rightarrow> transaction op" where
  "postTransactionEntries p =
     bind (findTransactionByReference (pt_reference p)) (\<lambda>existing.
     case existing of
       Some t \<Rightarrow> return t
     | None \<Rightarrow>
         andThen (ensure (totalOf DEBIT (pt_entries p) = totalOf CREDIT (pt_entries p))
                         (InternalError ''Unbalanced ledger entries''))
         (bind (applyEntries (pt_entries p) Map.empty) (\<lambda>balancesAfter.
          createTransaction p balancesAfter)))"

definition postTransaction :: "postTransactionParams \<Rightarrow> transaction op" where
  "postTransaction p = atomic (postTransactionEntries p)"

section \<open>Accounts\<close>

definition getOrCreateUserAccount :: "string \<Rightarrow> AccountType \<Rightarrow> account op" where
  "getOrCreateUserAccount ownerId ty =
     bind (gets (\<lambda>s. List.find (\<lambda>a. acc_ownerId a = Some ownerId \<and> acc_type a = ty) (accounts s))) (\<lambda>found.
     case found of
       Some a \<Rightarrow> return a
     | None \<Rightarrow> bind freshId (\<lambda>i.
         let a = \<lparr>acc_id = i, acc_type = ty, acc_ownerId = Some ownerId,
                  acc_currency = ''NGN'', acc_balance = 0\<rparr>
         in andThen (modify (\<lambda>s. s\<lparr>accounts := accounts s @ [a]\<rparr>)) (return a)))"

definition getPlatformAccount :: "AccountType \<Rightarrow> account op" where
  "getPlatformAccount ty =
     bind (gets (\<lambda>s. List.find (\<lambda>a. acc_ownerId a = None \<and> acc_type a = ty) (accounts s))) (\<lambda>account.
     orThrow account (NotFoundException ''Platform account has not been seeded''))"

text \<open>The params of a movement with no client key, default currency and no reversal.\<close>

abbreviation params :: "TransactionType \<Rightarrow> string \<Rightarrow> rat \<Rightarrow> metadata option \<Rightarrow> ledgerEntryInput list \<Rightarrow> postTransactionParams" where
  "params ty reference amount metadata entries \<equiv>
     \<lparr>pt_type = ty, pt_reference = reference, pt_idempotencyKey = None, pt_amount = amount,
      pt_currency = None, pt_metadata = metadata, pt_entries = entries,
      pt_reversesTransactionId = None\<rparr>"

section \<open>Movements\<close>

definition topUp :: "string \<Rightarrow> rat \<Rightarrow> string \<Rightarrow> string option \<Rightarrow> metadata option \<Rightarrow> transaction op" where
  "topUp userId amount reference idempotencyKey metadata =
     bind (both (getOrCreateUserAccount userId RIDER_WALLET)
                (getPlatformAccount PLATFORM_GATEWAY_CLEARING)) (\<lambda>(riderAccount, clearing).
     postTransaction
       ((params WALLET_TOPUP reference amount metadata
           [debit (acc_id clearing) amount, credit (acc_id riderAccount) amount])
        \<lparr>pt_idempotencyKey := idempotencyKey\<rparr>))"

definition taxEntries :: "rat \<Rightarrow> ledgerEntryInput list op" where
  "taxEntries taxAmount =
     (if taxAmount \<le> 0 then return []
      else bind (getPlatformAccount PLATFORM_TAX_PAYABLE) (\<lambda>taxPayable.
           return [credit (acc_id taxPayable) taxAmount]))"

definition payForRide :: "string \<Rightarrow> string \<Rightarrow> rat \<Rightarrow> rat \<Rightarrow> string \<Rightarrow> metadata option \<Rightarrow> rat \<Rightarrow> transaction op" where
  "payForRide riderId driverId fareAmount commissionAmount reference metadata taxAmount =
     (let driverAmount = fareAmount - commissionAmount - taxAmount in
     bind (both (getOrCreateUserAccount riderId RIDER_WALLET)
            (both (getOrCreateUserAccount driverId DRIVER_WALLET)
                  (getPlatformAccount PLATFORM_REVENUE))) (\<lambda>(riderAccount, driverAccount, platformRevenue).
     bind (taxEntries taxAmount) (\<lambda>taxLines.
     postTransaction (params RIDE_PAYMENT_WALLET reference fareAmount metadata
       ([debit (acc_id riderAccount) fareAmount,
         credit (acc_id driverAccount) driverAmount,
         credit (acc_id platformRevenue) commissionAmount] @ taxLines)))))"

definition payForDelivery :: "string \<Rightarrow> string \<Rightarrow> rat \<Rightarrow> rat \<Rightarrow> string \<Rightarrow> metadata option \<Rightarrow> rat \<Rightarrow> transaction op" where
  "payForDelivery senderId driverId fareAmount commissionAmount reference metadata taxAmount =
     (let driverAmount = fareAmount - commissionAmount - taxAmount in
     bind (both (getOrCreateUserAccount senderId RIDER_WALLET)
            (both (getOrCreateUserAccount driverId DRIVER_WALLET)
                  (getPlatformAccount PLATFORM_REVENUE))) (\<lambda>(senderAccount, driverAccount, platformRevenue).
     bind (taxEntries taxAmount) (\<lambda>taxLines.
     postTransaction (params DELIVERY_PAYMENT_WALLET reference fareAmount metadata
       ([debit (acc_id senderAccount) fareAmount,
         credit (acc_id driverAccount) driverAmount,
         credit (acc_id platformRevenue) commissionAmount] @ taxLines)))))"

definition updateCashRideCount :: "string \<Rightarrow> (nat \<Rightarrow> nat) \<Rightarrow> unit op" where
  "updateCashRideCount driverId f =
     modify (\<lambda>s. s\<lparr>driverStatuses := updateWhere (\<lambda>d. ds_userId d = driverId)
       (\<lambda>d. d\<lparr>ds_unsettledCashRideCount := f (ds_unsettledCashRideCount d)\<rparr>) (driverStatuses s)\<rparr>)"

definition recordCashDeliveryCommission :: "string \<Rightarrow> rat \<Rightarrow> string \<Rightarrow> metadata option \<Rightarrow> transaction op" where
  "recordCashDeliveryCommission driverId amount reference metadata =
     bind (both (getPlatformAccount PLATFORM_GATEWAY_CLEARING)
                (getOrCreateUserAccount driverId DRIVER_COMMISSION_PAYABLE)) (\<lambda>(clearing, payable).
     bind (findTransactionByReference reference) (\<lambda>alreadyProcessed.
     bind (postTransaction (params DELIVERY_PAYMENT_CASH reference amount metadata
       [debit (acc_id clearing) amount, credit (acc_id payable) amount])) (\<lambda>tx.
     andThen (onlyIf (alreadyProcessed = None) (updateCashRideCount driverId Suc))
     (return tx))))"

definition recordCashRideCommission :: "string \<Rightarrow> rat \<Rightarrow> string \<Rightarrow> metadata option \<Rightarrow> transaction op" where
  "recordCashRideCommission driverId amount reference metadata =
     bind (both (getPlatformAccount PLATFORM_GATEWAY_CLEARING)
                (getOrCreateUserAccount driverId DRIVER_COMMISSION_PAYABLE)) (\<lambda>(clearing, payable).
     bind (findTransactionByReference reference) (\<lambda>alreadyProcessed.
     bind (postTransaction (params RIDE_PAYMENT_CASH reference amount metadata
       [debit (acc_id clearing) amount, credit (acc_id payable) amount])) (\<lambda>tx.
     andThen (onlyIf (alreadyProcessed = None) (updateCashRideCount driverId Suc))
     (return tx))))"

definition settleCommission :: "string \<Rightarrow> rat \<Rightarrow> string \<Rightarrow> metadata option \<Rightarrow> transaction op" where
  "settleCommission driverId amount reference metadata =
     bind (both (getOrCreateUserAccount driverId DRIVER_COMMISSION_PAYABLE)
                (getPlatformAccount PLATFORM_REVENUE)) (\<lambda>(payable, platformRevenue).
     bind (findTransactionByReference reference) (\<lambda>alreadyProcessed.
     bind (postTransaction (params COMMISSION_SETTLEMENT reference amount metadata
       [debit (acc_id payable) amount, credit (acc_id platformRevenue) amount])) (\<lambda>tx.
     andThen (onlyIf (alreadyProcessed = None)
       (bind (findAccountOrThrow (acc_id payable)) (\<lambda>updated.
        onlyIf (acc_balance updated = 0) (updateCashRideCount driverId (\<lambda>_. 0)))))
     (return tx))))"

definition chargeBusinessForDelivery :: "string \<Rightarrow> rat \<Rightarrow> string \<Rightarrow> metadata option \<Rightarrow> transaction op" where
  "chargeBusinessForDelivery businessId amount reference metadata =
     bind (both (getPlatformAccount PLATFORM_GATEWAY_CLEARING)
                (getOrCreateUserAccount businessId BUSINESS_CREDIT_PAYABLE)) (\<lambda>(clearing, payable).
     postTransaction (params BUSINESS_DELIVERY_ACCRUAL reference amount metadata
       [debit (acc_id clearing) amount, credit (acc_id payable) amount]))"

definition payInvoice :: "string \<Rightarrow> string \<Rightarrow> rat \<Rightarrow> rat \<Rightarrow> string \<Rightarrow> metadata option \<Rightarrow> rat \<Rightarrow> transaction op" where
  "payInvoice businessId driverId fareAmount commissionAmount reference metadata taxAmount =
     (let driverAmount = fareAmount - commissionAmount - taxAmount in
     bind (taxEntries taxAmount) (\<lambda>taxLines.
     bind (both (getOrCreateUserAccount businessId BUSINESS_WALLET)
            (both (getOrCreateUserAccount driverId DRIVER_WALLET)
              (both (getPlatformAccount PLATFORM_REVENUE)
                (both (getOrCreateUserAccount businessId BUSINESS_CREDIT_PAYABLE)
                      (getPlatformAccount PLATFORM_GATEWAY_CLEARING)))))
       (\<lambda>(wallet, driverAccount, platformRevenue, payable, clearing).
     atomic
       (bind (postTransactionEntries (params BUSINESS_INVOICE_PAYMENT reference fareAmount metadata
          ([debit (acc_id wallet) fareAmount,
            credit (acc_id driverAccount) driverAmount,
            credit (acc_id platformRevenue) commissionAmount] @ taxLines))) (\<lambda>paymentTx.
        andThen (postTransactionEntries (params BUSINESS_INVOICE_PAYMENT (reference @ '':settlement'') fareAmount None
          [debit (acc_id payable) fareAmount, credit (acc_id clearing) fareAmount]))
        (return paymentTx))))))"

definition requestWithdrawal :: "string \<Rightarrow> rat \<Rightarrow> string \<Rightarrow> metadata option \<Rightarrow> transaction op" where
  "requestWithdrawal driverId amount reference metadata =
     bind (both (getOrCreateUserAccount driverId DRIVER_WALLET)
                (getPlatformAccount PLATFORM_GATEWAY_CLEARING)) (\<lambda>(driverAccount, clearing).
     postTransaction (params WALLET_WITHDRAWAL reference amount metadata
       [debit (acc_id driverAccount) amount, credit (acc_id clearing) amount]))"

definition payForKilowattService :: "string \<Rightarrow> rat \<Rightarrow> string \<Rightarrow> metadata option \<Rightarrow> transaction op" where
  "payForKilowattService userId amount reference metadata =
     bind (both (getOrCreateUserAccount userId RIDER_WALLET)
                (getPlatformAccount PLATFORM_REVENUE)) (\<lambda>(userAccount, platformRevenue).
     postTransaction (params KILOWATT_PAYMENT reference amount metadata
       [debit (acc_id userAccount) amount, credit (acc_id platformRevenue) amount]))"

definition recordReferralAccrual :: "rat \<Rightarrow> string \<Rightarrow> metadata option \<Rightarrow> transaction op" where
  "recordReferralAccrual amount reference metadata =
     bind (both (getPlatformAccount PLATFORM_GATEWAY_CLEARING)
                (getPlatformAccount PLATFORM_REFERRAL_PAYABLE)) (\<lambda>(clearing, payable).
     postTransaction (params REFERRAL_PAYOUT reference amount metadata
       [debit (acc_id clearing) amount, credit (acc_id payable) amount]))"

definition payReferralPayout :: "string \<Rightarrow> AccountType \<Rightarrow> rat \<Rightarrow> string \<Rightarrow> metadata option \<Rightarrow> transaction op" where
  "payReferralPayout referrerId referrerAccountType amount reference metadata =
     bind (both (getPlatformAccount PLATFORM_REFERRAL_PAYABLE)
                (getOrCreateUserAccount referrerId referrerAccountType)) (\<lambda>(payable, referrerAccount).
     postTransaction (params REFERRAL_PAYOUT reference amount metadata
       [debit (acc_id payable) amount, credit (acc_id referrerAccount) amount]))"

fun flipDirection :: "LedgerDirection \<Rightarrow> LedgerDirection" where
  "flipDirection DEBIT = CREDIT"
| "flipDirection CREDIT = DEBIT"

text \<open>The reversing posting: the lines of the original with their direction flipped.\<close>

definition refundParams :: "transaction \<Rightarrow> string \<Rightarrow> postTransactionParams" where
  "refundParams original reason =
     \<lparr>pt_type = REFUND, pt_reference = ''refund:'' @ tx_id original, pt_idempotencyKey = None,
      pt_amount = tx_amount original, pt_currency = Some (tx_currency original),
      pt_metadata = Some [(''reason'', reason)],
      pt_entries = map (\<lambda>e. \<lparr>li_accountId = le_accountId e,
                               li_direction = flipDirection (le_direction e),
                               li_amount = le_amount e\<rparr>) (tx_entries original),
      pt_reversesTransactionId = Some (tx_id original)\<rparr>"

definition refund :: "string \<Rightarrow> string \<Rightarrow> transaction op" where
  "refund originalTransactionId reason = atomic
     (bind (gets (\<lambda>s. List.find (\<lambda>t. tx_id t = originalTransactionId) (transactions s))) (\<lambda>found.
      bind (orThrow found (NotFoundException ''Transaction not found'')) (\<lambda>original.
      andThen (ensure (tx_status original \<noteq> TransactionStatus.REVERSED)
                (ConflictException ''Transaction has already been refunded''))
      (andThen (ensure (tx_status original = TransactionStatus.COMPLETED)
                (ConflictException ''Only completed transactions can be refunded''))
      (bind (postTransactionEntries (refundParams original reason)) (\<lambda>refundTx.
       andThen (modify (\<lambda>s. s\<lparr>transactions := updateWhere (\<lambda>t. tx_id t = tx_id original)
                  (\<lambda>t. t\<lparr>tx_status := TransactionStatus.REVERSED\<rparr>) (transactions s)\<rparr>))
       (return refundTx)))))))"

definition getTransactionsForAccount :: "string \<Rightarrow> nat \<Rightarrow> nat \<Rightarrow> transaction list op" where
  "getTransactionsForAccount accountId count skip =
     gets (\<lambda>s. take count (drop skip (rev
       (map (\<lambda>t. t\<lparr>tx_entries := filter (\<lambda>e. le_accountId e = accountId) (tx_entries t)\<rparr>)
         (filter (\<lambda>t. \<exists>e \<in> set (tx_entries t). le_accountId e = accountId) (transactions s))))))"

end
