(* ===== verification/Trip.thy ===== *)
theory Trip
  imports Dispatch Ledger
begin

text \<open>
  A trip from the driver's acceptance to its end: src/rides/trip.service.ts and
  src/rides/cancellation.service.ts.  The driver's transitions check the status and then write it;
  \<open>completeTrip\<close> pays through the ledger before it marks the ride completed; a cancellation by
  the rider of a committed driver is charged through the ledger too.  The formatter of naira
  amounts (\<open>toLocaleString\<close>) is the parameter \<open>naira\<close>, and \<open>Decimal.toString\<close> the parameter \<open>shown\<close>.
\<close>

fun statusName :: "RideStatus \<Rightarrow> string" where
  "statusName RideStatus.REQUESTED = ''REQUESTED''"
| "statusName RideStatus.DISPATCHING = ''DISPATCHING''"
| "statusName RideStatus.ACCEPTED = ''ACCEPTED''"
| "statusName RideStatus.ARRIVED = ''ARRIVED''"
| "statusName RideStatus.IN_PROGRESS = ''IN_PROGRESS''"
| "statusName RideStatus.COMPLETED = ''COMPLETED''"
| "statusName RideStatus.CANCELLED = ''CANCELLED''"
| "statusName RideStatus.NO_DRIVERS_FOUND = ''NO_DRIVERS_FOUND''"

section \<open>Transitions by the driver\<close>

text \<open>The read half and the write half of \<open>transitionAsDriver\<close>; nothing locks the row between them.\<close>

definition transitionCheck :: "string \<Rightarrow> string \<Rightarrow> RideStatus \<Rightarrow> RideStatus \<Rightarrow> unit op" where
  "transitionCheck driverId rideId fromStatus toStatus =
     bind (findRide rideId) (\<lambda>found.
     bind (orThrow found (NotFoundException ''Ride not found'')) (\<lambda>r.
     andThen (ensure (rd_driverId r = Some driverId) (ForbiddenException ''You are not the driver on this ride''))
     (ensure (rd_status r = fromStatus)
       (BadRequestException (''Cannot move to '' @ statusName toStatus @ '' from status '' @ statusName (rd_status r))))))"

definition transitionWrite :: "string \<Rightarrow> RideStatus \<Rightarrow> (ride \<Rightarrow> ride) \<Rightarrow> ride op" where
  "transitionWrite rideId toStatus extraData =
     updateRide rideId (\<lambda>r. extraData (r\<lparr>rd_status := toStatus\<rparr>))"

definition transitionAsDriver :: "string \<Rightarrow> string \<Rightarrow> RideStatus \<Rightarrow> RideStatus \<Rightarrow> (ride \<Rightarrow> ride) \<Rightarrow> ride op" where
  "transitionAsDriver driverId rideId fromStatus toStatus extraData =
     andThen (transitionCheck driverId rideId fromStatus toStatus) (transitionWrite rideId toStatus extraData)"

definition markArrived :: "string \<Rightarrow> string \<Rightarrow> ride op" where
  "markArrived driverId rideId =
     bind (gets now) (\<lambda>t.
     bind (transitionAsDriver driverId rideId RideStatus.ACCEPTED RideStatus.ARRIVED (\<lambda>r. r\<lparr>rd_arrivedAt := Some t\<rparr>)) (\<lambda>r.
     andThen (push (EmitRideStatus rideId RideStatus.ARRIVED))
     (andThen (push (NotifyUser (rd_riderId r) ''Your driver has arrived''
        ''Confirm the plate number, vehicle and driver before getting in.''))
     (return r))))"

definition startTrip :: "string \<Rightarrow> string \<Rightarrow> ride op" where
  "startTrip driverId rideId =
     bind (gets now) (\<lambda>t.
     bind (transitionAsDriver driverId rideId RideStatus.ARRIVED RideStatus.IN_PROGRESS (\<lambda>r. r\<lparr>rd_startedAt := Some t\<rparr>)) (\<lambda>r.
     andThen (push (EmitRideStatus rideId RideStatus.IN_PROGRESS))
     (return r)))"

section \<open>Completion\<close>

text \<open>\<open>address.split(',')[0]\<close>.\<close>

definition firstPart :: "string \<Rightarrow> string" where
  "firstPart address = takeWhile (\<lambda>c. c \<noteq> CHR '','') address"

definition rideReference :: "string \<Rightarrow> string" where
  "rideReference rideId = ''ride:'' @ rideId"

text \<open>The non-awaited receipt: only to a verified address, and its failure is only logged.\<close>

definition emailReceipt :: "string \<Rightarrow> unit op" where
  "emailReceipt rideId =
     bind (findRide rideId) (\<lambda>found.
     bind (orThrow found RecordNotFound) (\<lambda>r.
     bind (gets (\<lambda>s. List.find (\<lambda>u. usr_id u = rd_riderId r) (users s))) (\<lambda>foundRider.
     bind (orThrow foundRider RecordNotFound) (\<lambda>rider.
     case usr_email rider of
       None \<Rightarrow> return ()
     | Some email \<Rightarrow>
         if email = [] \<or> usr_emailVerifiedAt rider = None \<or> rd_finalFare r = None then return ()
         else push (EmailReceipt email)))))"

definition commissionOn :: "rat \<Rightarrow> rat \<Rightarrow> rat \<Rightarrow> rat" where
  "commissionOn finalFare taxAmount rate = roundMoney ((finalFare - taxAmount) * rate)"

text \<open>The payment of a completed ride, by wallet or as commission on cash; returns \<open>transactionId\<close>.\<close>

definition settleRide :: "(rat \<Rightarrow> string) \<Rightarrow> string \<Rightarrow> ride \<Rightarrow> rat \<Rightarrow> rat \<Rightarrow> rat \<Rightarrow> string option op" where
  "settleRide shown driverId r finalFare commissionAmount taxAmount =
     (if rd_paymentMethod r = WALLET then
        bind (payForRide (rd_riderId r) driverId finalFare commissionAmount (rideReference (rd_id r)) None taxAmount) (\<lambda>tx.
        return (Some (tx_id tx)))
      else
        bind (recordCashRideCommission driverId (commissionAmount + taxAmount) (rideReference (rd_id r) @ '':commission'')
                (if 0 < taxAmount then Some [(''commission'', shown commissionAmount), (''tax'', shown taxAmount)] else None)) (\<lambda>_.
        return None))"

definition completeTrip :: "(rat \<Rightarrow> string) \<Rightarrow> (rat \<Rightarrow> string) \<Rightarrow> string \<Rightarrow> string \<Rightarrow> ride op" where
  "completeTrip naira shown driverId rideId =
     bind (findRide rideId) (\<lambda>found.
     bind (orThrow found (NotFoundException ''Ride not found'')) (\<lambda>r.
     andThen (ensure (rd_driverId r = Some driverId) (ForbiddenException ''You are not the driver on this ride''))
     (andThen (ensure (rd_status r = RideStatus.IN_PROGRESS)
        (BadRequestException (''Cannot complete a ride in status '' @ statusName (rd_status r))))
     (bind (orThrow (rd_estimatedFare r) (InternalError ''finalFare is null'')) (\<lambda>finalFare.
      let taxAmount = orElse (rd_taxAmount r) 0 in
      bind (getActiveCommissionRate ''RIDE'' (Some (rd_vehicleType r))) (\<lambda>rule.
      let commissionAmount = commissionOn finalFare taxAmount (cr_rate rule) in
      bind (settleRide shown driverId r finalFare commissionAmount taxAmount) (\<lambda>transactionId.
      bind (gets now) (\<lambda>t.
      bind (updateRide rideId (\<lambda>r. r\<lparr>rd_status := RideStatus.COMPLETED, rd_finalFare := Some (scale2 finalFare),
              rd_commissionAmount := Some (scale2 commissionAmount), rd_completedAt := Some t,
              rd_transactionId := keptOr transactionId (rd_transactionId r)\<rparr>)) (\<lambda>completed.
      andThen (setDriverStatus driverId ONLINE None None)
      (andThen (push (if rd_paymentMethod r = WALLET
         then NotifyUser (rd_riderId r) ''Payment successful''
                (naira finalFare @ '' was paid for your ride to '' @ firstPart (rd_dropoffAddress r) @ ''.'')
         else NotifyUser (rd_riderId r) ''Trip completed''
                (''You've arrived at '' @ firstPart (rd_dropoffAddress r) @ ''. Pay '' @ naira finalFare @ '' in cash.'')))
      (andThen (tryCatch (emailReceipt rideId) (\<lambda>_. return ()))
      (andThen (push (EmitRideStatus rideId RideStatus.COMPLETED))
      (return completed)))))))))))))"

section \<open>The receipt\<close>

record receipt =
  rcp_rideId :: string
  rcp_rider :: string
  rcp_driver :: "string option"
  rcp_pickupAddress :: string
  rcp_dropoffAddress :: string
  rcp_distanceKm :: "rat option"
  rcp_durationMinutes :: "int option"
  rcp_fare :: "rat option"
  rcp_subtotalFare :: "rat option"
  rcp_promoDiscount :: "rat option"
  rcp_taxAmount :: "rat option"
  rcp_commission :: "rat option"
  rcp_paymentMethod :: RidePaymentMethod
  rcp_completedAt :: "instant option"

definition fullNameOf :: "user \<Rightarrow> string" where
  "fullNameOf u = usr_firstName u @ '' '' @ usr_lastName u"

definition userById :: "db \<Rightarrow> string option \<Rightarrow> user option" where
  "userById s i = (case i of None \<Rightarrow> None | Some v \<Rightarrow> List.find (\<lambda>u. usr_id u = v) (users s))"

definition getReceipt :: "string \<Rightarrow> string \<Rightarrow> receipt op" where
  "getReceipt userId rideId =
     bind (findRide rideId) (\<lambda>found.
     bind (orThrow found (NotFoundException ''Ride not found'')) (\<lambda>r.
     andThen (ensure (\<not> (rd_riderId r \<noteq> userId \<and> rd_driverId r \<noteq> Some userId))
                (ForbiddenException ''You are not a participant on this ride''))
     (andThen (ensure (rd_status r = RideStatus.COMPLETED)
                (BadRequestException ''Receipt is only available for completed rides''))
     (bind (gets (\<lambda>s. (userById s (Some (rd_riderId r)), userById s (rd_driverId r)))) (\<lambda>(foundRider, driver).
      bind (orThrow foundRider RecordNotFound) (\<lambda>rider.
      return \<lparr>rcp_rideId = rd_id r, rcp_rider = fullNameOf rider, rcp_driver = map_option fullNameOf driver,
              rcp_pickupAddress = rd_pickupAddress r, rcp_dropoffAddress = rd_dropoffAddress r,
              rcp_distanceKm = rd_distanceKm r, rcp_durationMinutes = rd_durationMinutes r,
              rcp_fare = rd_finalFare r, rcp_subtotalFare = rd_subtotalFare r, rcp_promoDiscount = rd_promoDiscount r,
              rcp_taxAmount = rd_taxAmount r, rcp_commission = rd_commissionAmount r,
              rcp_paymentMethod = rd_paymentMethod r, rcp_completedAt = rd_completedAt r\<rparr>))))))"

section \<open>Cancellation\<close>

definition cancellableStatuses :: "RideStatus list" where
  "cancellableStatuses = [RideStatus.REQUESTED, RideStatus.DISPATCHING, RideStatus.NO_DRIVERS_FOUND,
     RideStatus.ACCEPTED, RideStatus.ARRIVED]"

definition driverCommittedStatuses :: "RideStatus list" where
  "driverCommittedStatuses = [RideStatus.ACCEPTED, RideStatus.ARRIVED]"

text \<open>The fee charged to a rider who cancels a committed driver; unlike a fare its commission is not rounded.\<close>

definition chargeCancellation :: "ride \<Rightarrow> string \<Rightarrow> rat op" where
  "chargeCancellation r driverId =
     bind (getActiveTariff (rd_vehicleType r) (rd_serviceAreaId r) (Some TariffServiceType.RIDE)) (\<lambda>t.
     bind (getActiveCommissionRate ''RIDE'' (Some (rd_vehicleType r))) (\<lambda>rule.
     let commissionAmount = tf_cancellationFee t * cr_rate rule in
     bind (payForRide (rd_riderId r) driverId (tf_cancellationFee t) commissionAmount
             (rideReference (rd_id r) @ '':cancellation'') None 0) (\<lambda>_.
     return (tf_cancellationFee t))))"

definition voidOffers :: "string \<Rightarrow> unit op" where
  "voidOffers rideId =
     bind (gets (\<lambda>s. filter (\<lambda>ro. ro_rideId ro = rideId \<and> ro_status ro = RideOfferStatus.PENDING) (rideOffers s))) (\<lambda>pendingOffers.
     bind (gets now) (\<lambda>t.
     andThen (updateOffers (\<lambda>ro. ro_rideId ro = rideId \<and> ro_status ro = RideOfferStatus.PENDING)
                (resolveOffer RideOfferStatus.EXPIRED t))
     (forEach pendingOffers (\<lambda>offer. push (EmitOfferCancelled (ro_driverId offer) rideId)))))"

definition cancel :: "string \<Rightarrow> string \<Rightarrow> string option \<Rightarrow> ride op" where
  "cancel userId rideId reason =
     bind (findRide rideId) (\<lambda>found.
     bind (orThrow found (NotFoundException ''Ride not found'')) (\<lambda>r.
     andThen (ensure (\<not> (rd_riderId r \<noteq> userId \<and> rd_driverId r \<noteq> Some userId))
                (ForbiddenException ''You are not a participant on this ride''))
     (andThen (ensure (rd_status r \<in> set cancellableStatuses)
                (BadRequestException (''Cannot cancel a ride in status '' @ statusName (rd_status r))))
     (bind (case rd_driverId r of
              Some driverId \<Rightarrow>
                if rd_status r \<in> set driverCommittedStatuses \<and> userId = rd_riderId r
                then chargeCancellation r driverId else return 0
            | None \<Rightarrow> return 0) (\<lambda>cancellationFee.
      andThen (onlyIf (rd_status r = RideStatus.DISPATCHING) (voidOffers rideId))
      (andThen (case rd_driverId r of
                  Some driverId \<Rightarrow> setDriverStatus driverId ONLINE None None
                | None \<Rightarrow> return ())
      (bind (gets now) (\<lambda>t.
      bind (updateRide rideId (\<lambda>r. r\<lparr>rd_status := RideStatus.CANCELLED, rd_cancelledById := Some userId,
              rd_cancellationReason := keptOr reason (rd_cancellationReason r),
              rd_cancellationFee := Some (scale2 cancellationFee), rd_cancelledAt := Some t\<rparr>)) (\<lambda>cancelled.
      andThen (push (EmitRideStatus rideId RideStatus.CANCELLED))
      (return cancelled))))))))))"

definition listCancellations :: "nat \<Rightarrow> nat \<Rightarrow> ride list op" where
  "listCancellations count skip = gets (\<lambda>s. take count (drop skip
     (sort_key (\<lambda>r. - orElse (rd_cancelledAt r) 0) (filter (\<lambda>r. rd_status r = RideStatus.CANCELLED) (rides s)))))"

end
