(* ===== verification/Rides.thy ===== *)
theory Rides
  imports Quote Trip
begin

text \<open>
  Booking and viewing rides, src/rides/rides.service.ts.  The Google Distance Matrix call is the
  parameter \<open>matrix\<close> (\<open>None\<close> when it is not configured) and the haversine estimate, which uses
  floating-point trigonometry, the parameter \<open>approximate\<close>; both give a distance in km and whole
  minutes.  Dispatching a new ride is not awaited: it is the message \<open>StartDispatchLater\<close>.
\<close>

type_synonym leg = "rat \<times> rat \<times> rat \<times> rat"
type_synonym distanceMatrix = "(leg \<Rightarrow> error + rat \<times> int) option"

definition getDistance :: "distanceMatrix \<Rightarrow> (leg \<Rightarrow> rat \<times> int) \<Rightarrow> leg \<Rightarrow> rat \<times> int" where
  "getDistance matrix approximate l =
     (case matrix of
        None \<Rightarrow> approximate l
      | Some m \<Rightarrow> (case m l of Inr d \<Rightarrow> d | Inl _ \<Rightarrow> approximate l))"

record estimate =
  es_isServiceable :: bool
  es_distanceKm :: rat
  es_durationMinutes :: int
  es_currency :: string
  es_options :: "(vehicleQuote \<times> int option) list"
  es_promo :: "promoOutcome option"
  es_estimatedFare :: "rat option"

definition pickupEta :: "(string \<times> rat) list \<Rightarrow> rat \<Rightarrow> vehicleQuote \<Rightarrow> int option" where
  "pickupEta nearest speedKmh q =
     (case map_of nearest (vq_vehicleType q) of
        None \<Rightarrow> None
      | Some km \<Rightarrow> Some (max 1 \<lceil>(km / speedKmh) * 60\<rceil>))"

definition estimateFare :: "geosearch \<Rightarrow> distanceMatrix \<Rightarrow> (leg \<Rightarrow> rat \<times> int) \<Rightarrow> leg \<Rightarrow> string option
    \<Rightarrow> string option \<Rightarrow> string option \<Rightarrow> estimate op" where
  "estimateFare geosearch matrix approximate l vehicleType promoCode userId =
     (let (pickupLat, pickupLng, _) = l; (km, minutes) = getDistance matrix approximate l in
     bind (validateLocation pickupLat pickupLng) (\<lambda>area.
     bind (quoteVehicles TariffServiceType.RIDE (map_option sa_id area) km minutes
             (if truthy vehicleType then vehicleType else None)
             (if truthy promoCode \<and> truthy userId
              then Some (the promoCode, the userId, PromoApplicableService.RIDE) else None)) (\<lambda>(quotes, promoOutcome).
     bind (both (nearestDriverDistances geosearch pickupLat pickupLng (map vq_vehicleType quotes) RIDES)
                (getConfig ''pickupEtaSpeedKmh'' 20)) (\<lambda>(nearest, speedKmh).
     return
       \<lparr>es_isServiceable = (area \<noteq> None), es_distanceKm = km, es_durationMinutes = minutes,
        es_currency = (case quotes of [] \<Rightarrow> ''NGN'' | q # _ \<Rightarrow> vq_currency q),
        es_options = map (\<lambda>q. (q, pickupEta nearest speedKmh q)) quotes,
        es_promo = (if truthy promoCode \<and> \<not> truthy userId
                    then Some (toUpperCase (the promoCode), False, Some ''Sign in to apply a promo code'')
                    else promoOutcome),
        es_estimatedFare = (if truthy vehicleType
                            then (case quotes of [] \<Rightarrow> None | q # _ \<Rightarrow> Some (vq_total q)) else None)\<rparr>))))"

section \<open>Booking\<close>

record rideDto =
  rx_pickupLat :: rat
  rx_pickupLng :: rat
  rx_pickupAddress :: string
  rx_dropoffLat :: rat
  rx_dropoffLng :: rat
  rx_dropoffAddress :: string
  rx_vehicleType :: string
  rx_paymentMethod :: "RidePaymentMethod option"
  rx_promoCode :: "string option"

definition legOf :: "rideDto \<Rightarrow> leg" where
  "legOf dto = (rx_pickupLat dto, rx_pickupLng dto, rx_dropoffLat dto, rx_dropoffLng dto)"

definition newRide :: "string \<Rightarrow> string \<Rightarrow> rideDto \<Rightarrow> string \<Rightarrow> rat \<times> int \<Rightarrow> fareBreakdown \<Rightarrow> instant \<Rightarrow> ride" where
  "newRide i riderId dto areaId d fare t =
     \<lparr>rd_id = i, rd_riderId = riderId, rd_driverId = None, rd_status = RideStatus.REQUESTED,
      rd_vehicleType = rx_vehicleType dto, rd_paymentMethod = orElse (rx_paymentMethod dto) WALLET,
      rd_pickupLat = rx_pickupLat dto, rd_pickupLng = rx_pickupLng dto, rd_pickupAddress = rx_pickupAddress dto,
      rd_dropoffLat = rx_dropoffLat dto, rd_dropoffLng = rx_dropoffLng dto, rd_dropoffAddress = rx_dropoffAddress dto,
      rd_serviceAreaId = Some areaId, rd_distanceKm = Some (scale2 (fst d)), rd_durationMinutes = Some (snd d),
      rd_estimatedFare = Some (scale2 (fb_total fare)), rd_finalFare = None, rd_commissionAmount = None,
      rd_subtotalFare = Some (scale2 (fb_subtotal fare)), rd_promoDiscount = Some (scale2 (fb_promoDiscount fare)),
      rd_taxAmount = Some (scale2 (fb_tax fare)), rd_cancelledById = None, rd_cancellationReason = None,
      rd_cancellationFee = None, rd_transactionId = None, rd_shareToken = None, rd_requestedAt = t,
      rd_acceptedAt = None, rd_arrivedAt = None, rd_startedAt = None, rd_completedAt = None, rd_cancelledAt = None\<rparr>"

definition createRide :: "distanceMatrix \<Rightarrow> (leg \<Rightarrow> rat \<times> int) \<Rightarrow> string \<Rightarrow> rideDto \<Rightarrow> ride op" where
  "createRide matrix approximate riderId dto =
     andThen (ensure (rx_paymentMethod dto \<noteq> Some BUSINESS_INVOICE)
                (BadRequestException ''Business invoice payment is only available for deliveries''))
     (bind (validateLocation (rx_pickupLat dto) (rx_pickupLng dto)) (\<lambda>foundArea.
      bind (orThrow foundArea (BadRequestException ''Pickup location is outside our service area'')) (\<lambda>area.
      let d = getDistance matrix approximate (legOf dto) in
      bind (getActiveTariff (rx_vehicleType dto) (Some (sa_id area)) (Some TariffServiceType.RIDE)) (\<lambda>tariff.
      let subtotal = calculateFare tariff (fst d) (snd d) in
      bind (if truthy (rx_promoCode dto)
            then bind (validatePromo (the (rx_promoCode dto)) PromoApplicableService.RIDE subtotal riderId) (\<lambda>v.
                 return (Some (vr_promoId v), vr_discountAmount v))
            else return (None, 0)) (\<lambda>(promoId, discount).
      bind (buildFareBreakdown subtotal discount) (\<lambda>fare.
      bind freshId (\<lambda>i.
      bind (gets now) (\<lambda>t.
      let r = newRide i riderId dto (sa_id area) d fare t in
      andThen (modify (\<lambda>s. s\<lparr>rides := rides s @ [r]\<rparr>))
      (andThen (case promoId of
                  Some p \<Rightarrow> recordRedemption p riderId PromoApplicableService.RIDE i (fb_promoDiscount fare)
                | None \<Rightarrow> return ())
      (andThen (push (StartDispatchLater i))
      (return r)))))))))))"

section \<open>Views and ratings\<close>

definition liveRideStatuses :: "RideStatus list" where
  "liveRideStatuses = [RideStatus.ACCEPTED, RideStatus.ARRIVED, RideStatus.IN_PROGRESS]"

definition endedRideStatuses :: "RideStatus list" where
  "endedRideStatuses = [RideStatus.COMPLETED, RideStatus.CANCELLED, RideStatus.NO_DRIVERS_FOUND]"

definition findRideForParticipant :: "string \<Rightarrow> string \<Rightarrow> ride op" where
  "findRideForParticipant userId rideId =
     bind (findRide rideId) (\<lambda>found.
     bind (orThrow found (NotFoundException ''Ride not found'')) (\<lambda>r.
     andThen (ensure (\<not> (rd_riderId r \<noteq> userId \<and> rd_driverId r \<noteq> Some userId))
                (ForbiddenException ''You are not a participant on this ride''))
     (return r)))"

definition listRides :: "string \<Rightarrow> bool \<Rightarrow> nat \<Rightarrow> nat \<Rightarrow> ride list op" where
  "listRides userId asRider count skip = gets (\<lambda>s. take count (drop skip (rev
     (filter (\<lambda>r. if asRider then rd_riderId r = userId else rd_driverId r = Some userId) (rides s)))))"

definition rateRide :: "string \<Rightarrow> string \<Rightarrow> int \<Rightarrow> string option \<Rightarrow> rideRating op" where
  "rateRide riderId rideId rating comment =
     bind (findRide rideId) (\<lambda>found.
     bind (orThrow found (NotFoundException ''Ride not found'')) (\<lambda>r.
     andThen (ensure (rd_riderId r = riderId) (ForbiddenException ''Only the rider on this ride can rate it''))
     (andThen (ensure (rd_status r = RideStatus.COMPLETED) (BadRequestException ''Only completed rides can be rated''))
     (bind (gets (\<lambda>s. List.find (\<lambda>x. rr_rideId x = rideId) (rideRatings s))) (\<lambda>existing.
      case existing of
        Some old \<Rightarrow>
          (let new = old\<lparr>rr_rating := rating, rr_comment := keptOr comment (rr_comment old)\<rparr> in
           andThen (modify (\<lambda>s. s\<lparr>rideRatings := updateWhere (\<lambda>x. rr_rideId x = rideId) (\<lambda>_. new) (rideRatings s)\<rparr>))
           (return new))
      | None \<Rightarrow>
          (let new = \<lparr>rr_rideId = rideId, rr_rating = rating, rr_comment = comment\<rparr> in
           andThen (modify (\<lambda>s. s\<lparr>rideRatings := rideRatings s @ [new]\<rparr>)) (return new)))))))"

definition shareRide :: "string \<Rightarrow> string \<Rightarrow> string op" where
  "shareRide riderId rideId =
     bind (findRideForParticipant riderId rideId) (\<lambda>r.
     andThen (ensure (rd_riderId r = riderId) (ForbiddenException ''Only the rider can share this ride''))
     (andThen (ensure (rd_status r \<notin> set endedRideStatuses)
                (BadRequestException ''This ride has ended and can no longer be shared''))
     (case rd_shareToken r of
        Some token \<Rightarrow> return token
      | None \<Rightarrow> bind freshId (\<lambda>token.
          andThen (updateRide rideId (\<lambda>r. r\<lparr>rd_shareToken := Some token\<rparr>)) (return token)))))"

record sharedRide =
  sr_status :: RideStatus
  sr_pickupAddress :: string
  sr_dropoffAddress :: string
  sr_driverFirstName :: "string option"
  sr_driverPosition :: "(rat \<times> rat) option"
  sr_requestedAt :: instant
  sr_startedAt :: "instant option"
  sr_completedAt :: "instant option"

definition getSharedRide :: "string \<Rightarrow> sharedRide op" where
  "getSharedRide shareToken =
     bind (gets (\<lambda>s. List.find (\<lambda>r. rd_shareToken r = Some shareToken) (rides s))) (\<lambda>found.
     bind (orThrow found (NotFoundException ''Tracking link not found'')) (\<lambda>r.
     bind (if rd_driverId r \<noteq> None \<and> rd_status r \<notin> set endedRideStatuses
           then bind (gets (\<lambda>s. userById s (rd_driverId r))) (\<lambda>u.
                bind (orThrow u (NotFoundException ''Driver not found'')) (\<lambda>card. return (Some (usr_firstName card))))
           else return None) (\<lambda>driver.
     bind (case rd_driverId r of
             Some d \<Rightarrow> if rd_status r \<in> set liveRideStatuses then getDriverPosition d else return None
           | None \<Rightarrow> return None) (\<lambda>position.
     return \<lparr>sr_status = rd_status r, sr_pickupAddress = rd_pickupAddress r, sr_dropoffAddress = rd_dropoffAddress r,
             sr_driverFirstName = driver, sr_driverPosition = position, sr_requestedAt = rd_requestedAt r,
             sr_startedAt = rd_startedAt r, sr_completedAt = rd_completedAt r\<rparr>))))"

text \<open>The figure the admin ride page shows as the driver's earnings (src/rides/admin-rides.service.ts).\<close>

definition driverEarnings :: "ride \<Rightarrow> rat option" where
  "driverEarnings r = (case (rd_finalFare r, rd_commissionAmount r) of
     (Some fare, Some commission) \<Rightarrow> Some (fare - commission) | _ \<Rightarrow> None)"

end
