(* ===== verification/RideLife.thy ===== *)
theory RideLife
  imports Rides
begin

text \<open>
  The life of a ride.  \<open>rideStep\<close> is the state machine of the README's trip flow as a relation on
  statuses; \<open>rideEvent\<close> lists every operation of the backend that may touch a ride row, and
  \<open>reachable\<close> the databases any interleaving of whole operations can produce.  Every operation
  moves every ride only along the state machine, and reachable databases satisfy \<open>ridesOk\<close>.
\<close>

section \<open>The state machine\<close>

inductive rideStep :: "RideStatus \<Rightarrow> RideStatus \<Rightarrow> bool" where
  dispatch: "rideStep RideStatus.REQUESTED RideStatus.DISPATCHING"
| accept: "rideStep RideStatus.DISPATCHING RideStatus.ACCEPTED"
| noDrivers: "rideStep RideStatus.DISPATCHING RideStatus.NO_DRIVERS_FOUND"
| arrive: "rideStep RideStatus.ACCEPTED RideStatus.ARRIVED"
| start: "rideStep RideStatus.ARRIVED RideStatus.IN_PROGRESS"
| complete: "rideStep RideStatus.IN_PROGRESS RideStatus.COMPLETED"
| cancel: "st \<in> set cancellableStatuses \<Longrightarrow> rideStep st RideStatus.CANCELLED"

inductive_cases rideStepE: "rideStep st st'"

inductive_simps rideStep_from_completed [simp]: "rideStep RideStatus.COMPLETED st"
inductive_simps rideStep_from_cancelled [simp]: "rideStep RideStatus.CANCELLED st"

lemma cancellable_simps [simp]:
  "RideStatus.COMPLETED \<notin> set cancellableStatuses" "RideStatus.CANCELLED \<notin> set cancellableStatuses"
  "RideStatus.IN_PROGRESS \<notin> set cancellableStatuses"
  by (simp_all add: cancellableStatuses_def)

text \<open>What may happen to a row: the status moves along the machine, a driver once assigned stays, and
  the rider, the payment method and the price are those of the booking.\<close>

definition advances :: "ride \<Rightarrow> ride \<Rightarrow> bool" where
  "advances r r' \<longleftrightarrow> rd_id r' = rd_id r \<and> rd_riderId r' = rd_riderId r
     \<and> rd_paymentMethod r' = rd_paymentMethod r \<and> rd_estimatedFare r' = rd_estimatedFare r
     \<and> rd_taxAmount r' = rd_taxAmount r \<and> rd_subtotalFare r' = rd_subtotalFare r \<and> rd_promoDiscount r' = rd_promoDiscount r
     \<and> (rd_driverId r \<noteq> None \<longrightarrow> rd_driverId r' = rd_driverId r)
     \<and> (rd_status r = rd_status r' \<or> rideStep\<^sup>+\<^sup>+ (rd_status r) (rd_status r'))"

lemma advances_refl [simp, intro]: "advances r r"
  by (simp add: advances_def)

lemma advances_trans [trans]: "advances r r' \<Longrightarrow> advances r' r'' \<Longrightarrow> advances r r''"
  unfolding advances_def by (elim conjE) (auto dest: tranclp_trans)

definition rideOk :: "ride \<Rightarrow> bool" where
  "rideOk r \<longleftrightarrow>
     (rd_status r \<in> {RideStatus.ACCEPTED, RideStatus.ARRIVED, RideStatus.IN_PROGRESS, RideStatus.COMPLETED} \<longrightarrow> rd_driverId r \<noteq> None)
     \<and> (rd_status r \<in> {RideStatus.REQUESTED, RideStatus.DISPATCHING, RideStatus.NO_DRIVERS_FOUND} \<longrightarrow> rd_driverId r = None)
     \<and> (rd_status r = RideStatus.COMPLETED \<longleftrightarrow> rd_completedAt r \<noteq> None)
     \<and> (rd_status r = RideStatus.CANCELLED \<longleftrightarrow> rd_cancelledAt r \<noteq> None)
     \<and> (rd_status r = RideStatus.COMPLETED \<longrightarrow> rd_finalFare r = rd_estimatedFare r)
     \<and> (\<exists>total sub disc tax. rd_estimatedFare r = Some total \<and> rd_subtotalFare r = Some sub
          \<and> rd_promoDiscount r = Some disc \<and> rd_taxAmount r = Some tax
          \<and> total = sub - disc + tax \<and> is_cents total \<and> is_cents tax)"

definition ridesOk :: "db \<Rightarrow> bool" where
  "ridesOk s \<longleftrightarrow> uuidsOk s \<and> distinct (map rd_id (rides s)) \<and> rd_id ` set (rides s) \<subseteq> usedIds s
     \<and> (\<forall>r \<in> set (rides s). rideOk r)"

text \<open>The rides of \<open>t\<close> are those of \<open>s\<close>, advanced, followed by new ones.\<close>

definition ridesAdvance :: "db \<Rightarrow> db \<Rightarrow> bool" where
  "ridesAdvance s t \<longleftrightarrow> (\<exists>old new. rides t = old @ new \<and> list_all2 advances (rides s) old)"

lemma ridesAdvance_same [intro]: "rides t = rides s \<Longrightarrow> ridesAdvance s t"
  unfolding ridesAdvance_def by (intro exI [of _ "rides s"] exI [of _ "[]"]) (simp add: list_all2_refl)

lemma ridesAdvance_trans: "ridesAdvance s t \<Longrightarrow> ridesAdvance t u \<Longrightarrow> ridesAdvance s u"
proof -
  assume "ridesAdvance s t" and "ridesAdvance t u"
  then obtain old new old' new' where t: "rides t = old @ new" "list_all2 advances (rides s) old"
    and u: "rides u = old' @ new'" "list_all2 advances (old @ new) old'"
    by (auto simp: ridesAdvance_def)
  then obtain a b where "old' = a @ b" "list_all2 advances old a" by (auto simp: list_all2_append1)
  moreover have "list_all2 advances (rides s) a"
    using list_all2_trans [where ?P1.0 = advances and ?P2.0 = advances and ?P3.0 = advances, OF _ t(2) \<open>list_all2 advances old a\<close>]
      advances_trans by blast
  ultimately show ?thesis unfolding ridesAdvance_def by (intro exI [of _ a] exI [of _ "b @ new'"]) (simp add: u)
qed

section \<open>Parts that leave the rides alone\<close>

text \<open>\<open>outside R U n\<close>: the rides are \<open>R\<close> and at least \<open>n\<close> identifiers of \<open>U\<close> are drawn.\<close>

definition outside :: "ride list \<Rightarrow> (nat \<Rightarrow> string) \<Rightarrow> nat \<Rightarrow> db \<Rightarrow> bool" where
  "outside R U n s \<longleftrightarrow> rides s = R \<and> uuids s = U \<and> n \<le> uuidsUsed s"

lemma wp_outside:
  assumes "\<And>R U n. keeps (outside R U n) m"
    and "\<And>x t. rides t = rides s \<Longrightarrow> uuids t = uuids s \<Longrightarrow> uuidsUsed s \<le> uuidsUsed t \<Longrightarrow> Q x t"
    and "\<And>e t. rides t = rides s \<Longrightarrow> uuids t = uuids s \<Longrightarrow> uuidsUsed s \<le> uuidsUsed t \<Longrightarrow> E e t"
  shows "wp m Q E s"
  by (rule wp_conseq [OF keeps_wp [OF assms(1), of "rides s" "uuids s" "uuidsUsed s" s]])
     (auto simp: outside_def intro: assms(2,3))

lemma outside_freshId [keeps_intros]: "keeps (outside R U n) freshId"
  by (simp add: keeps_def freshId_def outside_def)

lemma outside_modify [keeps_intros]:
  "(\<And>s. rides (f s) = rides s \<and> uuids (f s) = uuids s \<and> uuidsUsed (f s) = uuidsUsed s) \<Longrightarrow> keeps (outside R U n) (modify f)"
  by (simp add: keeps_def modify_def outside_def)

lemma outside_push [keeps_intros]: "keeps (outside R U n) (push e)"
  unfolding push_def by (rule outside_modify) simp

lemma outside_applyEntries [keeps_intros]: "keeps (outside R U n) (applyEntries es b)"
  by (induction es arbitrary: b)
     (auto simp: applyEntry_def findAccountOrThrow_def incrementBalance_def intro!: keeps_intros)

lemma outside_postTransaction [keeps_intros]: "keeps (outside R U n) (postTransaction p)"
  unfolding postTransaction_def postTransactionEntries_def findTransactionByReference_def createTransaction_def Let_def
  by (intro keeps_intros; simp)

lemma outside_accounts [keeps_intros]:
  "keeps (outside R U n) (getOrCreateUserAccount i ty)" "keeps (outside R U n) (getPlatformAccount ty)"
  unfolding getOrCreateUserAccount_def getPlatformAccount_def Let_def by (intro keeps_intros; simp)+

lemma outside_payForRide [keeps_intros]: "keeps (outside R U n) (payForRide a b f c r md tax)"
  unfolding payForRide_def taxEntries_def Let_def by (intro keeps_intros)

lemma outside_cash [keeps_intros]: "keeps (outside R U n) (recordCashRideCommission d x r md)"
  unfolding recordCashRideCommission_def findTransactionByReference_def updateCashRideCount_def by (intro keeps_intros; simp)

lemma outside_getConfig [keeps_intros]: "keeps (outside R U n) (getConfig k d)"
  unfolding getConfig_def Let_def by (intro keeps_intros; simp)

lemma outside_pricing [keeps_intros]:
  "keeps (outside R U n) (getActiveTariff v a st)" "keeps (outside R U n) (getActiveCommissionRate sv w)"
  "keeps (outside R U n) (buildFareBreakdown x y)" "keeps (outside R U n) (validateLocation lat lng)"
  unfolding getActiveTariff_def getActiveTariffs_def getActiveCommissionRate_def getActiveCommissionRules_def
    buildFareBreakdown_def getTaxRate_def validateLocation_def getActiveAreas_def
  by (intro keeps_intros; simp)+

lemma outside_promo [keeps_intros]:
  "keeps (outside R U n) (validatePromo c sv x u)" "keeps (outside R U n) (recordRedemption p u sv r x)"
  unfolding validatePromo_def recordRedemption_def by (intro keeps_intros; simp)+

lemma outside_drivers [keeps_intros]:
  "keeps (outside R U n) (setDriverStatus d a v m)" "keeps (outside R U n) (updateOffers P f)"
  unfolding setDriverStatus_def updateOffers_def by (intro keeps_intros; simp)+

lemma outside_findRide [keeps_intros]: "keeps (outside R U n) (findRide i)"
  unfolding findRide_def by (intro keeps_intros)

lemma outside_createOffers [keeps_intros]: "keeps (outside R U n) (createOffers i t ds)"
  by (induction ds) (auto intro!: keeps_intros)

lemma outside_ride_parts [keeps_intros]:
  "keeps (outside R U n) (emailReceipt i)" "keeps (outside R U n) (settleRide shown d r f c tax)"
  "keeps (outside R U n) (chargeCancellation r d)" "keeps (outside R U n) (voidOffers i)"
  "keeps (outside R U n) (acceptChecks d i)" "keeps (outside R U n) (acceptLost ro)" "keeps (outside R U n) (acceptWon d i ro)"
  unfolding emailReceipt_def settleRide_def chargeCancellation_def voidOffers_def acceptChecks_def acceptLost_def
    acceptWon_def findOffer_def getMaxUnsettledCashRides_def Let_def
  by (intro keeps_intros)+

section \<open>Parts that move rides\<close>

text \<open>\<open>progress m\<close>: run in a sound database, \<open>m\<close> advances the rides and leaves it sound.\<close>

definition progress :: "'a op \<Rightarrow> bool" where
  "progress m \<longleftrightarrow> (\<forall>s. ridesOk s \<longrightarrow> wp m (\<lambda>_ t. ridesOk t \<and> ridesAdvance s t) (\<lambda>_ t. ridesOk t \<and> ridesAdvance s t) s)"

lemma ridesOk_same:
  assumes "ridesOk s" "rides t = rides s" "uuids t = uuids s" "uuidsUsed s \<le> uuidsUsed t"
  shows "ridesOk t \<and> ridesAdvance s t"
proof -
  have "usedIds s \<subseteq> usedIds t" using assms(3,4) by (auto simp: usedIds_def)
  then show ?thesis using assms by (auto simp: ridesOk_def uuidsOk_def)
qed

lemma ridesOk_update:
  assumes ok: "ridesOk s" and f: "\<And>r. r \<in> set (rides s) \<Longrightarrow> P r \<Longrightarrow> advances r (f r) \<and> rideOk (f r)"
    and t: "rides t = updateWhere P f (rides s)" "uuids t = uuids s" "uuidsUsed s \<le> uuidsUsed t"
  shows "ridesOk t \<and> ridesAdvance s t"
proof -
  have adv: "list_all2 advances (rides s) (updateWhere P f (rides s))"
    using f by (auto simp: updateWhere_def list_all2_map2 intro!: list_all2_refl list.rel_refl_strong)
  then have ids: "map rd_id (rides t) = map rd_id (rides s)"
    unfolding t(1) by (induction rule: list_all2_induct) (simp_all add: advances_def)
  have used: "usedIds s \<subseteq> usedIds t" using t(2,3) by (auto simp: usedIds_def)
  have "rd_id ` set (rides t) = rd_id ` set (rides s)" by (metis ids set_map)
  moreover have "\<forall>r \<in> set (rides t). rideOk r" using ok f unfolding t(1) set_updateWhere by (auto simp: ridesOk_def)
  ultimately have "ridesOk t" using ok used ids t(2) by (auto simp: ridesOk_def uuidsOk_def)
  moreover have "ridesAdvance s t" using adv t(1) unfolding ridesAdvance_def by (metis append_Nil2)
  ultimately show ?thesis by blast
qed

lemma progress_outside:
  assumes "\<And>R U n. keeps (outside R U n) m"
  shows "progress m"
  unfolding progress_def
  by (intro allI impI wp_outside assms) (auto dest: ridesOk_same)

lemma wp_then_progress:
  assumes "wp m (\<lambda>_ u. ridesOk u \<and> ridesAdvance s u) (\<lambda>_ u. ridesOk u \<and> ridesAdvance s u) t" and "\<And>x. progress (f x)"
  shows "wp (bind m f) (\<lambda>_ u. ridesOk u \<and> ridesAdvance s u) (\<lambda>_ u. ridesOk u \<and> ridesAdvance s u) t"
  unfolding wp_bind
proof (rule wp_conseq [OF assms(1)])
  fix x u assume u: "ridesOk u \<and> ridesAdvance s u"
  then have "wp (f x) (\<lambda>_ t. ridesOk t \<and> ridesAdvance u t) (\<lambda>_ t. ridesOk t \<and> ridesAdvance u t) u"
    using assms(2) [of x] unfolding progress_def by blast
  then show "wp (f x) (\<lambda>_ u. ridesOk u \<and> ridesAdvance s u) (\<lambda>_ u. ridesOk u \<and> ridesAdvance s u) u"
    by (rule wp_conseq) (use u ridesAdvance_trans in blast)+
qed

lemma progress_bind: "progress m \<Longrightarrow> (\<And>x. progress (f x)) \<Longrightarrow> progress (bind m f)"
  unfolding progress_def [of "bind m f"] by (intro allI impI wp_then_progress) (simp_all add: progress_def)

lemma progress_onlyIf: "(c \<Longrightarrow> progress m) \<Longrightarrow> progress (onlyIf c m)"
  unfolding onlyIf_def by (simp add: progress_outside keeps_return)

text \<open>Writing the row found before, after parts that leave the rides alone.\<close>

lemma wp_updateFound:
  assumes ok: "ridesOk s" and found: "List.find (\<lambda>r. rd_id r = i) (rides s) = Some r"
    and t: "rides t = rides s" "uuids t = uuids s" "uuidsUsed s \<le> uuidsUsed t"
    and f: "advances r (f r)" "rideOk (f r)"
  shows "wp (updateRide i f) (\<lambda>_ u. ridesOk u \<and> ridesAdvance s u) (\<lambda>_ u. ridesOk u \<and> ridesAdvance s u) t"
proof -
  have r: "r \<in> set (rides s)" "rd_id r = i" using find_SomeD [OF found] by auto
  have only: "q = r" if "q \<in> set (rides s)" "rd_id q = i" for q
    using ok that r by (metis ridesOk_def find_key option.inject)
  have "ridesOk u \<and> ridesAdvance s u" if "u = t\<lparr>rides := updateWhere (\<lambda>r. rd_id r = i) f (rides t)\<rparr>" for u
    by (rule ridesOk_update [OF ok, where P = "\<lambda>r. rd_id r = i" and f = f]) (use only f t that in auto)
  then show ?thesis by (simp add: updateRide_def findRide_def wp_simps split: option.splits)
qed

section \<open>Every operation advances the rides\<close>

abbreviation sound :: "db \<Rightarrow> 'x \<Rightarrow> db \<Rightarrow> bool" where
  "sound s x u \<equiv> ridesOk u \<and> ridesAdvance s u"

lemma sound_refl: "ridesOk s \<Longrightarrow> sound s x s"
  by auto

lemma rideStep_plus: "rideStep st st' \<Longrightarrow> rideStep\<^sup>+\<^sup>+ st st'"
  by (rule tranclp.r_into_trancl)

lemmas ride_moves = dispatch accept noDrivers arrive start complete cancel

lemma findRide_rideOk: "ridesOk s \<Longrightarrow> List.find (\<lambda>r. rd_id r = i) (rides s) = Some r \<Longrightarrow> rideOk r"
  by (auto simp: ridesOk_def dest: find_SomeD)

lemma wp_transition:
  assumes ok: "ridesOk s" and step: "\<And>r. rideOk r \<Longrightarrow> rd_status r = st \<Longrightarrow> rd_driverId r \<noteq> None \<Longrightarrow>
      advances r (f (r\<lparr>rd_status := st'\<rparr>)) \<and> rideOk (f (r\<lparr>rd_status := st'\<rparr>))"
  shows "wp (transitionAsDriver d i st st' f) (sound s) (sound s) s"
proof (cases "List.find (\<lambda>r. rd_id r = i) (rides s)")
  case None
  then show ?thesis using ok by (simp add: transitionAsDriver_def transitionCheck_def findRide_def wp_simps sound_refl)
next
  case (Some r)
  have "wp (updateRide i (\<lambda>r. f (r\<lparr>rd_status := st'\<rparr>))) (sound s) (sound s) s"
    if "rd_driverId r = Some d" "rd_status r = st"
    by (rule wp_updateFound [OF ok Some]) (use step [OF findRide_rideOk [OF ok Some]] that in auto)
  then show ?thesis using Some ok
    by (simp add: transitionAsDriver_def transitionCheck_def transitionWrite_def findRide_def wp_simps sound_refl)
qed

lemma progress_markArrived: "progress (markArrived d i)"
  unfolding progress_def markArrived_def wp_bind [where m = "gets now"] wp_gets
proof (intro allI impI, rule wp_then_progress)
  fix s assume ok: "ridesOk s"
  show "wp (transitionAsDriver d i RideStatus.ACCEPTED RideStatus.ARRIVED (\<lambda>r. r\<lparr>rd_arrivedAt := Some (now s)\<rparr>)) (sound s) (sound s) s"
    by (rule wp_transition [OF ok]) (auto simp: advances_def rideOk_def intro: rideStep_plus ride_moves)
qed (intro progress_outside keeps_intros)

lemma progress_startTrip: "progress (startTrip d i)"
  unfolding progress_def startTrip_def wp_bind [where m = "gets now"] wp_gets
proof (intro allI impI, rule wp_then_progress)
  fix s assume ok: "ridesOk s"
  show "wp (transitionAsDriver d i RideStatus.ARRIVED RideStatus.IN_PROGRESS (\<lambda>r. r\<lparr>rd_startedAt := Some (now s)\<rparr>)) (sound s) (sound s) s"
    by (rule wp_transition [OF ok]) (auto simp: advances_def rideOk_def intro: rideStep_plus ride_moves)
qed (intro progress_outside keeps_intros)

lemma progress_updateRideMany:
  assumes "ridesOk s" and "\<And>r. r \<in> set (rides s) \<Longrightarrow> P r \<Longrightarrow> rideOk r \<Longrightarrow> advances r (f r) \<and> rideOk (f r)"
  shows "wp (updateRideMany P f) (sound s) (sound s) s"
proof -
  have "\<And>r. r \<in> set (rides s) \<Longrightarrow> rideOk r" using assms(1) by (simp add: ridesOk_def)
  then have "sound s x (s\<lparr>rides := updateWhere P f (rides s)\<rparr>)" for x
    by (intro ridesOk_update [OF assms(1), where P = P and f = f] assms(2)) simp_all
  then show ?thesis by (simp add: updateRideMany_def wp_simps)
qed

lemma progress_claimRide: "progress (claimRide d i)"
  unfolding progress_def claimRide_def wp_bind wp_gets
  by (intro allI impI progress_updateRideMany)
     (auto simp: advances_def rideOk_def intro: rideStep_plus ride_moves)

lemma progress_acceptOffer: "progress (acceptOffer d i)"
  unfolding acceptOffer_def
  by (intro progress_bind progress_claimRide) (auto intro!: progress_outside keeps_intros)

text \<open>\<open>resolveNoDrivers\<close> is only run on a ride that is dispatching.\<close>

lemma progress_resolveNoDrivers:
  assumes ok: "ridesOk s" and st: "\<And>r. r \<in> set (rides s) \<Longrightarrow> rd_id r = i \<Longrightarrow> rd_status r \<noteq> RideStatus.REQUESTED"
  shows "wp (resolveNoDrivers i) (sound s) (sound s) s"
  unfolding resolveNoDrivers_def
proof (rule wp_then_progress)
  show "wp (updateRideMany (\<lambda>r. rd_id r = i \<and> rd_status r \<in> {RideStatus.REQUESTED, RideStatus.DISPATCHING})
          (\<lambda>r. r\<lparr>rd_status := RideStatus.NO_DRIVERS_FOUND\<rparr>)) (sound s) (sound s) s"
  proof (rule progress_updateRideMany [OF ok])
    fix r assume "r \<in> set (rides s)" "rd_id r = i \<and> rd_status r \<in> {RideStatus.REQUESTED, RideStatus.DISPATCHING}" "rideOk r"
    moreover from this st have "rd_status r = RideStatus.DISPATCHING" by auto
    ultimately show "advances r (r\<lparr>rd_status := RideStatus.NO_DRIVERS_FOUND\<rparr>) \<and> rideOk (r\<lparr>rd_status := RideStatus.NO_DRIVERS_FOUND\<rparr>)"
      by (auto simp: advances_def rideOk_def intro: rideStep_plus ride_moves)
  qed
qed (intro progress_onlyIf progress_outside keeps_intros)

text \<open>After a part that leaves the rides alone, the rest is judged in the new state.\<close>

lemma wp_outside_then:
  assumes "\<And>R U n. keeps (outside R U n) m" and ok: "ridesOk s"
    and "\<And>x t. rides t = rides s \<Longrightarrow> ridesOk t \<Longrightarrow> wp (f x) (sound t) (sound t) t"
  shows "wp (bind m f) (sound s) (sound s) s"
  unfolding wp_bind
proof (rule wp_outside [OF assms(1)])
  fix x and t :: db assume t: "rides t = rides s" "uuids t = uuids s" "uuidsUsed s \<le> uuidsUsed t"
  then have "ridesOk t" using ridesOk_same [OF ok] by blast
  with assms(3) t(1) have "wp (f x) (sound t) (sound t) t" by blast
  then show "wp (f x) (sound s) (sound s) t" by (rule wp_conseq) (use t(1) in \<open>auto simp: ridesAdvance_def\<close>)
next
  fix e and t :: db assume "rides t = rides s" "uuids t = uuids s" "uuidsUsed s \<le> uuidsUsed t"
  then show "sound s e t" by (rule ridesOk_same [OF ok])
qed

lemma status_of_found:
  assumes ok: "ridesOk s" and "List.find (\<lambda>r. rd_id r = i) (rides s) = Some r" and "q \<in> set (rides s)" "rd_id q = i"
  shows "q = r"
  using assms by (metis find_SomeD find_key option.inject ridesOk_def)

lemma progress_expireRound: "progress (expireRoundIfUnresolved i)"
  unfolding progress_def
proof (intro allI impI)
  fix s assume ok: "ridesOk s"
  show "wp (expireRoundIfUnresolved i) (sound s) (sound s) s"
  proof (cases "List.find (\<lambda>r. rd_id r = i) (rides s)")
    case (Some r)
    have "wp (andThen (updateOffers (\<lambda>ro. ro_rideId ro = i \<and> ro_status ro = RideOfferStatus.PENDING)
                    (resolveOffer RideOfferStatus.EXPIRED (now s))) (resolveNoDrivers i)) (sound s) (sound s) s"
      if st: "rd_status r = RideStatus.DISPATCHING"
    proof (rule wp_outside_then [OF _ ok])
      fix t assume "rides t = rides s" "ridesOk t"
      then show "wp (resolveNoDrivers i) (sound t) (sound t) t"
        by (intro progress_resolveNoDrivers) (use status_of_found [OF ok Some] st in auto)
    qed (rule keeps_intros)
    then show ?thesis using Some ok
      by (simp add: expireRoundIfUnresolved_def findRide_def sound_refl wp_bind wp_gets wp_if wp_return)
  qed (use ok in \<open>simp add: expireRoundIfUnresolved_def findRide_def wp_simps sound_refl\<close>)
qed

lemma progress_resolveIfAll: "progress (resolveNoDriversIfAllResolved i)"
  unfolding progress_def
proof (intro allI impI)
  fix s assume ok: "ridesOk s"
  show "wp (resolveNoDriversIfAllResolved i) (sound s) (sound s) s"
  proof (cases "List.find (\<lambda>r. rd_id r = i) (rides s)")
    case (Some r)
    have "wp (resolveNoDrivers i) (sound s) (sound s) s" if st: "rd_status r = RideStatus.DISPATCHING"
      by (rule progress_resolveNoDrivers [OF ok]) (use status_of_found [OF ok Some] st in auto)
    then show ?thesis using Some ok
      by (simp add: resolveNoDriversIfAllResolved_def findRide_def sound_refl wp_bind wp_gets wp_if wp_return wp_onlyIf)
  qed (use ok in \<open>simp add: resolveNoDriversIfAllResolved_def findRide_def wp_simps sound_refl\<close>)
qed

lemma progress_if: "(c \<Longrightarrow> progress m) \<Longrightarrow> (\<not> c \<Longrightarrow> progress n) \<Longrightarrow> progress (if c then m else n)"
  by simp

lemma progress_declineOffer: "progress (declineOffer d i)"
  unfolding declineOffer_def findOffer_def
  by (intro progress_bind progress_if progress_resolveIfAll)
     (intro progress_outside keeps_intros)+

lemma progress_startDispatch: "progress (startDispatch g i)"
  unfolding progress_def
proof (intro allI impI)
  fix s assume ok: "ridesOk s"
  show "wp (startDispatch g i) (sound s) (sound s) s"
  proof (cases "List.find (\<lambda>r. rd_id r = i) (rides s)")
    case (Some r)
    let ?go = "\<lambda>r. r\<lparr>rd_status := RideStatus.DISPATCHING\<rparr>"
    let ?t = "s\<lparr>rides := updateWhere (\<lambda>r. rd_id r = i) ?go (rides s)\<rparr>"
    let ?rest = "bind getMaxUnsettledCashRides (\<lambda>maxUnsettledCashRides.
         bind (findNearbyDrivers g (rd_pickupLat r) (rd_pickupLng r) (rd_vehicleType r) MAX_CANDIDATES
                 (rd_paymentMethod r) maxUnsettledCashRides) (\<lambda>candidates.
         if candidates = [] then resolveNoDrivers i else
         bind (gets (\<lambda>s. now s + OFFER_TTL_MS)) (\<lambda>expiresAt.
         andThen (atomic (createOffers i expiresAt candidates))
         (andThen (forEach candidates (\<lambda>d. push (EmitOffer d i)))
         (push (ExpireRoundAt expiresAt i))))))"
    have found: "List.find (\<lambda>r. rd_id r = i) (rides ?t) = Some (?go r)"
      using Some by (simp add: find_updateWhere_key)
    have upd: "sound s x ?t" if "rd_status r = RideStatus.REQUESTED" for x
    proof (rule ridesOk_update [OF ok, where P = "\<lambda>r. rd_id r = i" and f = ?go])
      fix q assume "q \<in> set (rides s)" "rd_id q = i"
      then have "q = r" by (rule status_of_found [OF ok Some])
      moreover have "advances r (?go r) \<and> rideOk (?go r)"
        using findRide_rideOk [OF ok Some] that by (auto simp: advances_def rideOk_def intro: rideStep_plus ride_moves)
      ultimately show "advances q (?go q) \<and> rideOk (?go q)" by simp
    qed simp_all
    have rest: "wp ?rest (sound ?t) (sound ?t) ?t" if "ridesOk ?t"
    proof (rule wp_outside_then [OF _ that], goal_cases)
      case 1
      show ?case unfolding getMaxUnsettledCashRides_def by (rule keeps_intros)
    next
      case (2 m t)
      show ?case
      proof (rule wp_outside_then [OF _ 2(2)], goal_cases)
        case 1
        show ?case unfolding findNearbyDrivers_def by (intro keeps_intros)
      next
        case (2 cs u)
        have u: "rides u = updateWhere (\<lambda>r. rd_id r = i) ?go (rides s)" using 2(1) \<open>rides t = rides ?t\<close> by simp
        have noDrivers: "wp (resolveNoDrivers i) (sound u) (sound u) u"
        proof (rule progress_resolveNoDrivers [OF 2(2)])
          fix q assume "q \<in> set (rides u)" "rd_id q = i"
          then obtain p where "q = (if rd_id p = i then ?go p else p)" unfolding u set_updateWhere by (elim imageE)
          with \<open>rd_id q = i\<close> show "rd_status q \<noteq> RideStatus.REQUESTED" by (cases "rd_id p = i") simp_all
        qed
        have "progress (bind (gets (\<lambda>s. now s + OFFER_TTL_MS)) (\<lambda>expiresAt.
         andThen (atomic (createOffers i expiresAt cs))
         (andThen (forEach cs (\<lambda>d. push (EmitOffer d i)))
         (push (ExpireRoundAt expiresAt i)))))" by (intro progress_outside keeps_intros)
        with 2(2) noDrivers show ?case unfolding progress_def by simp
      qed
    qed
    show ?thesis
    proof (cases "rd_status r = RideStatus.REQUESTED")
      case True
      have go: "wp (updateRide i ?go) (\<lambda>_ t. t = ?t) (\<lambda>_ _. False) s"
        using found by (simp add: updateRide_def findRide_def wp_simps)
      have t: "ridesOk ?t" "ridesAdvance s ?t" using upd [OF True] by blast+
      have "wp ?rest (sound s) (sound s) ?t"
        by (rule wp_conseq [OF rest [OF t(1)]]) (use t(2) ridesAdvance_trans in blast)+
      then have "wp (andThen (updateRide i ?go) ?rest) (sound s) (sound s) s"
        unfolding wp_bind [where m = "updateRide i ?go"] by (intro wp_conseq [OF go]) simp_all
      then show ?thesis using Some True
        by (simp only: startDispatch_def findRide_def wp_bind [where m = "gets _"] wp_gets option.simps(5)
            simp_thms if_False)
    next
      case False
      then show ?thesis using Some ok by (simp add: startDispatch_def findRide_def wp_simps sound_refl)
    qed
  qed (use ok in \<open>simp add: startDispatch_def findRide_def wp_simps sound_refl\<close>)
qed

text \<open>Reading a handler from the top, one guard at a time.\<close>

lemma wp_read: "wp (f (g s)) Q E s \<Longrightarrow> wp (bind (gets g) f) Q E s"
  by (simp add: wp_simps)

lemma wp_guard: "(c \<Longrightarrow> wp m Q E s) \<Longrightarrow> (\<not> c \<Longrightarrow> E e s) \<Longrightarrow> wp (andThen (ensure c e) m) Q E s"
  by (simp add: wp_simps)

lemma wp_present: "(\<And>x. o' = Some x \<Longrightarrow> wp (f x) Q E s) \<Longrightarrow> (o' = None \<Longrightarrow> E e s) \<Longrightarrow> wp (bind (orThrow o' e) f) Q E s"
  by (simp add: wp_simps split: option.split)

lemma wp_findRide: "wp (f (List.find (\<lambda>r. rd_id r = i) (rides s))) Q E s \<Longrightarrow> wp (bind (findRide i) f) Q E s"
  by (simp add: findRide_def wp_simps)

lemma rideOk_fares:
  assumes "rideOk r"
  obtains total sub disc tax where "rd_estimatedFare r = Some total" "rd_subtotalFare r = Some sub"
    "rd_promoDiscount r = Some disc" "rd_taxAmount r = Some tax" "total = sub - disc + tax" "is_cents total" "is_cents tax"
  using assms unfolding rideOk_def by (elim conjE exE)

lemma advances_complete:
  assumes "rideOk r" and "rd_status r = RideStatus.IN_PROGRESS" and "rd_estimatedFare r = Some fare"
    and r': "r' = r\<lparr>rd_status := RideStatus.COMPLETED, rd_finalFare := Some (scale2 fare), rd_commissionAmount := c,
                    rd_completedAt := Some t, rd_transactionId := tid\<rparr>"
  shows "advances r r' \<and> rideOk r'"
proof -
  have "scale2 fare = fare" using assms(3) by (rule_tac rideOk_fares [OF assms(1)]) simp
  moreover have "rideStep\<^sup>+\<^sup>+ (rd_status r) RideStatus.COMPLETED" unfolding assms(2) by (intro rideStep_plus complete)
  ultimately show ?thesis using assms(1-3) unfolding r' by (simp add: advances_def rideOk_def)
qed

lemma progress_completeTrip: "progress (completeTrip naira shown d i)"
  unfolding progress_def completeTrip_def
proof (intro allI impI wp_findRide wp_present wp_guard)
  fix s r fare
  assume ok: "ridesOk s" and found: "List.find (\<lambda>r. rd_id r = i) (rides s) = Some r"
    and st: "rd_status r = RideStatus.IN_PROGRESS" "rd_estimatedFare r = Some fare"
  have main: "wp (bind (getActiveCommissionRate ''RIDE'' (Some (rd_vehicleType r))) (\<lambda>rule.
        bind (settleRide shown d r fare (commissionOn fare tax (cr_rate rule)) tax) (\<lambda>transactionId.
        bind (gets now) (\<lambda>t.
        bind (updateRide i (\<lambda>r. r\<lparr>rd_status := RideStatus.COMPLETED, rd_finalFare := Some (scale2 fare),
              rd_commissionAmount := Some (scale2 (commissionOn fare tax (cr_rate rule))), rd_completedAt := Some t,
              rd_transactionId := keptOr transactionId (rd_transactionId r)\<rparr>)) k)))) (sound s) (sound s) s"
    if k: "\<And>x. progress (k x)" for tax k
  proof (rule wp_outside_then [OF _ ok], goal_cases)
    case (2 rule t)
    show ?case
    proof (rule wp_outside_then [OF _ 2(2)], goal_cases)
      case (2 tid u)
      have u: "List.find (\<lambda>r. rd_id r = i) (rides u) = Some r" using 2(1) \<open>rides t = rides s\<close> found by simp
      show ?case
        by (rule wp_read, rule wp_then_progress [OF wp_updateFound [OF 2(2) u] k])
           (use advances_complete [OF findRide_rideOk [OF ok found] st refl] in auto)
    qed (rule keeps_intros)
  qed (rule keeps_intros)
  show "wp (let taxAmount = orElse (rd_taxAmount r) 0 in
      bind (getActiveCommissionRate ''RIDE'' (Some (rd_vehicleType r))) (\<lambda>rule.
      let commissionAmount = commissionOn fare taxAmount (cr_rate rule) in
      bind (settleRide shown d r fare commissionAmount taxAmount) (\<lambda>transactionId.
      bind (gets now) (\<lambda>t.
      bind (updateRide i (\<lambda>r. r\<lparr>rd_status := RideStatus.COMPLETED, rd_finalFare := Some (scale2 fare),
              rd_commissionAmount := Some (scale2 commissionAmount), rd_completedAt := Some t,
              rd_transactionId := keptOr transactionId (rd_transactionId r)\<rparr>)) (\<lambda>completed.
      andThen (setDriverStatus d ONLINE None None)
      (andThen (push (if rd_paymentMethod r = WALLET
         then NotifyUser (rd_riderId r) ''Payment successful''
                (naira fare @ '' was paid for your ride to '' @ firstPart (rd_dropoffAddress r) @ ''.'')
         else NotifyUser (rd_riderId r) ''Trip completed''
                (''You've arrived at '' @ firstPart (rd_dropoffAddress r) @ ''. Pay '' @ naira fare @ '' in cash.'')))
      (andThen (tryCatch (emailReceipt i) (\<lambda>_. return ()))
      (andThen (push (EmitRideStatus i RideStatus.COMPLETED))
      (return completed))))))))) (sound s) (sound s) s"
    unfolding Let_def by (rule main) (intro progress_outside keeps_intros)
qed (erule sound_refl)+

lemma advances_cancel:
  assumes "rideOk r" and "rd_status r \<in> set cancellableStatuses"
    and r': "r' = r\<lparr>rd_status := RideStatus.CANCELLED, rd_cancelledById := u, rd_cancellationReason := x,
                    rd_cancellationFee := f, rd_cancelledAt := Some t\<rparr>"
  shows "advances r r' \<and> rideOk r'"
proof -
  have "rideStep\<^sup>+\<^sup>+ (rd_status r) RideStatus.CANCELLED" using assms(2) by (intro rideStep_plus cancel)
  moreover have "rd_status r \<noteq> RideStatus.COMPLETED" using assms(2) by auto
  ultimately show ?thesis using assms(1) unfolding r' by (simp add: advances_def rideOk_def)
qed

lemma progress_cancel: "progress (cancel userId i reason)"
  unfolding progress_def cancel_def
proof (intro allI impI wp_findRide wp_present wp_guard, goal_cases)
  case (1 s r)
  note adv = advances_cancel [OF findRide_rideOk [OF 1(1,2)] 1(4) refl]
  show ?case
  proof (rule wp_outside_then [OF _ 1(1)], goal_cases)
    case (2 fee t)
    show ?case
    proof (rule wp_outside_then [OF _ 2(2)], goal_cases)
      case (2 x u)
      show ?case
      proof (rule wp_outside_then [OF _ 2(2)], goal_cases)
        case (2 y v)
        have v: "List.find (\<lambda>r. rd_id r = i) (rides v) = Some r"
          using 2(1) \<open>rides u = rides t\<close> \<open>rides t = rides s\<close> 1(2) by simp
        show ?case
          by (rule wp_read, rule wp_then_progress [OF wp_updateFound [OF 2(2) v]])
             (use adv in \<open>auto intro: progress_outside keeps_intros\<close>)
      qed (intro keeps_intros)
    qed (intro keeps_intros)
  qed (intro keeps_intros)
qed (erule sound_refl)+

lemma wp_returns: "returns P m \<Longrightarrow> wp m (\<lambda>x _. P x) (\<lambda>_ _. True) s"
  unfolding returns_def wp_iff by blast

lemma wp_outside_returns:
  assumes "\<And>R U n. keeps (outside R U n) m" and "returns P m" and ok: "ridesOk s"
    and "\<And>x t. P x \<Longrightarrow> rides t = rides s \<Longrightarrow> ridesOk t \<Longrightarrow> wp (f x) (sound t) (sound t) t"
  shows "wp (bind m f) (sound s) (sound s) s"
  unfolding wp_bind
proof (rule wp_conseq [OF wp_conj [OF wp_returns [OF assms(2)] keeps_wp [OF assms(1), of "rides s" "uuids s" "uuidsUsed s" s]]])
  fix x t assume t: "P x \<and> outside (rides s) (uuids s) (uuidsUsed s) t"
  then have "ridesOk t" "rides t = rides s" using ridesOk_same [OF ok] by (auto simp: outside_def)
  with assms(4) t have "wp (f x) (sound t) (sound t) t" by blast
  then show "wp (f x) (sound s) (sound s) t"
    by (rule wp_conseq) (use \<open>rides t = rides s\<close> in \<open>auto simp: ridesAdvance_def\<close>)
next
  fix e t assume "True \<and> outside (rides s) (uuids s) (uuidsUsed s) t"
  then show "sound s e t" using ridesOk_same [OF ok] by (auto simp: outside_def)
qed (simp add: outside_def)

definition goodBreakdown :: "fareBreakdown \<Rightarrow> bool" where
  "goodBreakdown b \<longleftrightarrow> fb_total b = fb_subtotal b - fb_promoDiscount b + fb_tax b
     \<and> is_cents (fb_subtotal b) \<and> is_cents (fb_promoDiscount b) \<and> is_cents (fb_tax b)"

lemma returns_buildFareBreakdown: "returns goodBreakdown (buildFareBreakdown x y)"
  by (auto simp: returns_def buildFareBreakdown_def bind_def return_def fareBreakdownAt_def goodBreakdown_def Let_def
      split: prod.splits sum.splits)

lemma rideOk_new: "goodBreakdown b \<Longrightarrow> rideOk (newRide i u dto a d b t)"
proof -
  assume b: "goodBreakdown b"
  then have "is_cents (fb_total b)" by (simp add: goodBreakdown_def is_cents_add is_cents_diff)
  then show ?thesis using b by (simp add: goodBreakdown_def rideOk_def newRide_def)
qed

lemma wp_newRide:
  assumes ok: "ridesOk s" and b: "goodBreakdown b" and k: "\<And>i t. progress (k i t)"
  shows "wp (bind freshId (\<lambda>i. bind (gets now) (\<lambda>t.
      andThen (modify (\<lambda>s. s\<lparr>rides := rides s @ [newRide i u dto a d b t]\<rparr>)) (k i t)))) (sound s) (sound s) s"
proof -
  let ?r = "newRide (uuids s (uuidsUsed s)) u dto a d b (now s)"
  let ?t = "s\<lparr>uuidsUsed := Suc (uuidsUsed s), rides := rides s @ [?r]\<rparr>"
  have fresh: "uuids s (uuidsUsed s) \<notin> usedIds s" using ok freshId_unused by (simp add: ridesOk_def)
  have id: "rd_id ?r = uuids s (uuidsUsed s)" by (simp add: newRide_def)
  have "usedIds ?t = insert (uuids s (uuidsUsed s)) (usedIds s)" by (simp add: usedIds_def lessThan_Suc)
  then have "ridesOk ?t" using ok fresh rideOk_new [OF b] id by (auto simp: ridesOk_def uuidsOk_def)
  moreover have "ridesAdvance s ?t"
    unfolding ridesAdvance_def by (intro exI [of _ "rides s"] exI [of _ "[?r]"]) (simp add: list_all2_refl)
  ultimately have "wp (k (uuids s (uuidsUsed s)) (now s)) (sound s) (sound s) ?t"
    using wp_then_progress [of "return ()" s ?t "\<lambda>_. k (uuids s (uuidsUsed s)) (now s)"] k by (simp add: wp_simps)
  then show ?thesis by (simp add: wp_simps)
qed

lemma keeps_if' [keeps_intros]: "keeps I m \<Longrightarrow> keeps I n \<Longrightarrow> keeps I (if c then m else n)"
  by simp

lemma progress_createRide: "progress (createRide matrix approximate u dto)"
  unfolding progress_def createRide_def Let_def
proof (intro allI impI wp_guard, goal_cases)
  case (1 s)
  show ?case
  proof (rule wp_outside_then [OF _ 1(1)], goal_cases)
    case (2 found t)
    show ?case
    proof (rule wp_outside_then [OF _ 2(2)], goal_cases)
      case (2 area t)
      show ?case
      proof (rule wp_outside_then [OF _ 2(2)], goal_cases)
        case (2 tariff t)
        show ?case
        proof (rule wp_outside_then [OF _ 2(2)], goal_cases)
          case (2 p t)
          obtain promoId discount where p: "p = (promoId, discount)" by (cases p)
          show ?case unfolding p prod.case
          proof (rule wp_outside_returns [OF _ returns_buildFareBreakdown 2(2)], goal_cases)
            case (2 b t)
            show ?case by (rule wp_newRide [OF 2(3,1)]) (intro progress_outside keeps_intros)
          qed (intro keeps_intros)
        qed (intro keeps_intros)
      qed (intro keeps_intros)
    qed (intro keeps_intros)
  qed (intro keeps_intros)
qed (erule sound_refl)+

lemma progress_shareRide: "progress (shareRide u i)"
  unfolding progress_def shareRide_def findRideForParticipant_def bind_assoc bind_return
proof (intro allI impI wp_findRide wp_present wp_guard, goal_cases)
  case (1 s r)
  have share: "advances r (r\<lparr>rd_shareToken := tok\<rparr>) \<and> rideOk (r\<lparr>rd_shareToken := tok\<rparr>)" for tok
    using findRide_rideOk [OF 1(1,2)] by (simp add: advances_def rideOk_def)
  show ?case
  proof (cases "rd_shareToken r")
    case None
    show ?thesis unfolding None option.case
    proof (rule wp_outside_then [OF _ 1(1)], goal_cases)
      case (2 token t)
      have t: "List.find (\<lambda>r. rd_id r = i) (rides t) = Some r" using 2(1) 1(2) by simp
      show ?case
        by (rule wp_then_progress [OF wp_updateFound [OF 2(2) t]])
           (use share in \<open>auto intro: progress_outside keeps_intros\<close>)
    qed (rule keeps_intros)
  qed (use 1(1) in \<open>simp add: wp_return sound_refl\<close>)
qed (erule sound_refl)+

lemma progress_rateRide: "progress (rateRide u i n c)"
  unfolding rateRide_def findRide_def Let_def
  by (intro progress_outside keeps_intros; simp)

lemma progress_setDriverStatus: "progress (setDriverStatus d a v m)"
  by (intro progress_outside keeps_intros)

lemma progress_pushLocation: "progress (pushLocation d lat lng)"
  unfolding pushLocation_def by (intro progress_outside keeps_intros; simp)

section \<open>Reachable databases\<close>

text \<open>The services a run depends on.\<close>

record world =
  wd_geosearch :: geosearch
  wd_matrix :: distanceMatrix
  wd_approximate :: "leg \<Rightarrow> rat \<times> int"
  wd_naira :: "rat \<Rightarrow> string"
  wd_shown :: "rat \<Rightarrow> string"

datatype rideEvent =
    Book string rideDto
  | Dispatch string
  | ExpireRound string
  | Accept string string
  | Decline string string
  | Arrive string string
  | Start string string
  | Complete string string
  | Cancel string string "string option"
  | Share string string
  | Rate string string int "string option"
  | SetStatus string DriverAvailability "string option" "DriverServiceMode option"
  | Location string rat rat
  | Pass nat

fun runRideEvent :: "world \<Rightarrow> rideEvent \<Rightarrow> unit op" where
  "runRideEvent w (Book u dto) = bind (createRide (wd_matrix w) (wd_approximate w) u dto) (\<lambda>_. return ())"
| "runRideEvent w (Dispatch i) = startDispatch (wd_geosearch w) i"
| "runRideEvent w (ExpireRound i) = expireRoundIfUnresolved i"
| "runRideEvent w (Accept d i) = bind (acceptOffer d i) (\<lambda>_. return ())"
| "runRideEvent w (Decline d i) = bind (declineOffer d i) (\<lambda>_. return ())"
| "runRideEvent w (Arrive d i) = bind (markArrived d i) (\<lambda>_. return ())"
| "runRideEvent w (Start d i) = bind (startTrip d i) (\<lambda>_. return ())"
| "runRideEvent w (Complete d i) = bind (completeTrip (wd_naira w) (wd_shown w) d i) (\<lambda>_. return ())"
| "runRideEvent w (Cancel u i reason) = bind (Trip.cancel u i reason) (\<lambda>_. return ())"
| "runRideEvent w (Share u i) = bind (shareRide u i) (\<lambda>_. return ())"
| "runRideEvent w (Rate u i n c) = bind (rateRide u i n c) (\<lambda>_. return ())"
| "runRideEvent w (SetStatus d a v m) = setDriverStatus d a v m"
| "runRideEvent w (Location d lat lng) = pushLocation d lat lng"
| "runRideEvent w (Pass n) = modify (\<lambda>s. s\<lparr>now := now s + int n\<rparr>)"

lemma progress_runRideEvent: "progress (runRideEvent w e)"
  by (cases e)
     (auto intro!: progress_bind [OF _ progress_outside [OF keeps_return]] progress_createRide progress_startDispatch
        progress_expireRound progress_acceptOffer progress_declineOffer progress_markArrived progress_startTrip
        progress_completeTrip progress_cancel progress_shareRide progress_rateRide progress_setDriverStatus
        progress_pushLocation progress_outside [OF outside_modify])

text \<open>Any interleaving of whole operations from a database with no rides yet.\<close>

inductive reachable :: "world \<Rightarrow> db \<Rightarrow> bool" for w where
  init: "uuidsOk s \<Longrightarrow> rides s = [] \<Longrightarrow> reachable w s"
| step: "reachable w s \<Longrightarrow> reachable w (snd (runRideEvent w e s))"

lemma event_progress:
  assumes "ridesOk s"
  shows "ridesOk (snd (runRideEvent w e s)) \<and> ridesAdvance s (snd (runRideEvent w e s))"
proof -
  have "wp (runRideEvent w e) (sound s) (sound s) s"
    using progress_runRideEvent [of w e] assms unfolding progress_def by (elim allE [of _ s] impE)
  then show ?thesis by (rule wp_final_state [where I = "\<lambda>t. ridesOk t \<and> ridesAdvance s t", THEN iffD1])
qed

lemma reachable_ridesOk: "reachable w s \<Longrightarrow> ridesOk s"
proof (induction rule: reachable.induct)
  case (init s)
  then show ?case by (simp add: ridesOk_def)
next
  case (step s e)
  then show ?case using event_progress by blast
qed

end
