(* ===== verification/LedgerLaws.thy ===== *)
theory LedgerLaws
  imports Ledger
begin

text \<open>
  What the ledger promises.  \<open>ledgerOk\<close> says that ids and references are unique, that no
  user-owned account is overdrawn, that every stored transaction is balanced and made of
  whole-cent, non-negative lines on existing accounts, and that every balance is exactly the sum
  of the lines posted to its account.  The theory proves that posting keeps it and computes the
  effect of a posting on every balance.
\<close>

section \<open>The invariant\<close>

fun signed :: "LedgerDirection \<Rightarrow> rat \<Rightarrow> rat" where
  "signed DEBIT x = - x"
| "signed CREDIT x = x"

definition netOn :: "ledgerEntryInput list \<Rightarrow> string \<Rightarrow> rat" where
  "netOn es i = sum_list (map (\<lambda>e. if li_accountId e = i then signed (li_direction e) (li_amount e) else 0) es)"

definition lineNet :: "ledgerEntry list \<Rightarrow> string \<Rightarrow> rat" where
  "lineNet es i = sum_list (map (\<lambda>e. if le_accountId e = i then signed (le_direction e) (le_amount e) else 0) es)"

definition postedOn :: "transaction list \<Rightarrow> string \<Rightarrow> rat" where
  "postedOn txs i = sum_list (map (\<lambda>t. lineNet (tx_entries t) i) txs)"

definition lineSum :: "ledgerEntry list \<Rightarrow> rat" where
  "lineSum es = sum_list (map (\<lambda>e. signed (le_direction e) (le_amount e)) es)"

definition goodEntries :: "ledgerEntryInput list \<Rightarrow> bool" where
  "goodEntries es \<longleftrightarrow> (\<forall>e \<in> set es. is_cents (li_amount e) \<and> 0 \<le> li_amount e)"

definition accountIds :: "db \<Rightarrow> string set" where
  "accountIds s = acc_id ` set (accounts s)"

definition accountsOk :: "db \<Rightarrow> bool" where
  "accountsOk s \<longleftrightarrow> distinct (map acc_id (accounts s)) \<and> accountIds s \<subseteq> usedIds s
     \<and> (\<forall>a \<in> set (accounts s). is_cents (acc_balance a))
     \<and> (\<forall>a \<in> set (accounts s). acc_ownerId a \<noteq> None \<longrightarrow> 0 \<le> acc_balance a)"

definition linesOk :: "db \<Rightarrow> transaction \<Rightarrow> bool" where
  "linesOk s t \<longleftrightarrow> lineSum (tx_entries t) = 0
     \<and> (\<forall>e \<in> set (tx_entries t). is_cents (le_amount e) \<and> 0 \<le> le_amount e \<and> le_accountId e \<in> accountIds s)"

definition transactionsOk :: "db \<Rightarrow> bool" where
  "transactionsOk s \<longleftrightarrow> distinct (map tx_id (transactions s)) \<and> tx_id ` set (transactions s) \<subseteq> usedIds s
     \<and> distinct (map tx_reference (transactions s)) \<and> (\<forall>t \<in> set (transactions s). linesOk s t)"

definition reconciled :: "db \<Rightarrow> bool" where
  "reconciled s \<longleftrightarrow> (\<forall>a \<in> set (accounts s). acc_balance a = postedOn (transactions s) (acc_id a))"

definition ledgerOk :: "db \<Rightarrow> bool" where
  "ledgerOk s \<longleftrightarrow> uuidsOk s \<and> accountsOk s \<and> transactionsOk s \<and> reconciled s"

lemmas ledgerOk_defs = ledgerOk_def accountsOk_def transactionsOk_def reconciled_def linesOk_def
  accountIds_def

definition balanceOf :: "db \<Rightarrow> string \<Rightarrow> rat option" where
  "balanceOf s i = map_option acc_balance (List.find (\<lambda>a. acc_id a = i) (accounts s))"

lemma ledgerOk_emptyDb [simp]: "ledgerOk emptyDb"
  by (simp add: ledgerOk_defs emptyDb_def usedIds_def) (simp add: uuidsOk_emptyDb [unfolded emptyDb_def])

lemma netOn_Nil [simp]: "netOn [] i = 0"
  by (simp add: netOn_def)

lemma netOn_Cons [simp]:
  "netOn (e # es) i = (if li_accountId e = i then signed (li_direction e) (li_amount e) else 0) + netOn es i"
  by (simp add: netOn_def)

lemma netOn_append [simp]: "netOn (es @ fs) i = netOn es i + netOn fs i"
  by (simp add: netOn_def)

lemma totals_signed:
  "sum_list (map (\<lambda>e. signed (li_direction e) (li_amount e)) es) = totalOf CREDIT es - totalOf DEBIT es"
proof (induction es)
  case (Cons e es)
  then show ?case by (cases "li_direction e") (simp_all add: totalOf_def)
qed (simp add: totalOf_def)

section \<open>One entry\<close>

definition bumped :: "(string \<Rightarrow> rat) \<Rightarrow> account list \<Rightarrow> account list" where
  "bumped d accs = map (\<lambda>a. a\<lparr>acc_balance := acc_balance a + d (acc_id a)\<rparr>) accs"

lemma map_bumped [simp]: "map acc_id (bumped d accs) = map acc_id accs"
  by (simp add: bumped_def)

lemma bumped_bumped: "bumped d (bumped e accs) = bumped (\<lambda>i. e i + d i) accs"
  by (simp add: bumped_def add.assoc)

lemma bumped_zero [simp]: "bumped (\<lambda>_. 0) accs = accs"
  by (simp add: bumped_def)

definition fundsOk :: "account list \<Rightarrow> bool" where
  "fundsOk accs \<longleftrightarrow> (\<forall>a \<in> set accs. acc_ownerId a \<noteq> None \<longrightarrow> 0 \<le> acc_balance a)"

definition centsOk :: "account list \<Rightarrow> bool" where
  "centsOk accs \<longleftrightarrow> (\<forall>a \<in> set accs. is_cents (acc_balance a))"

text \<open>What one iteration of the posting loop does when it does not throw.\<close>

lemma wp_applyEntry:
  assumes ids: "distinct (map acc_id (accounts s))" and cents: "centsOk (accounts s)"
    and e: "is_cents (li_amount e)" "0 \<le> li_amount e"
  shows "wp (applyEntry e)
    (\<lambda>b t. t = s\<lparr>accounts := bumped (netOn [e]) (accounts s)\<rparr> \<and> li_accountId e \<in> acc_id ` set (accounts s)
          \<and> centsOk (accounts t) \<and> (fundsOk (accounts s) \<longrightarrow> fundsOk (accounts t))
          \<and> balanceOf t (li_accountId e) = Some b)
    (\<lambda>_ _. True) s"
proof (cases "List.find (\<lambda>a. acc_id a = li_accountId e) (accounts s)")
  case None
  then show ?thesis by (simp add: applyEntry_def findAccountOrThrow_def wp_simps)
next
  case (Some a)
  let ?i = "li_accountId e"
  let ?x = "signed (li_direction e) (li_amount e)"
  let ?t = "s\<lparr>accounts := bumped (netOn [e]) (accounts s)\<rparr>"
  have a: "a \<in> set (accounts s)" "acc_id a = ?i" using find_SomeD [OF Some] by auto
  have mem: "?i \<in> acc_id ` set (accounts s)" using a by force
  note run = applyEntry_def findAccountOrThrow_def incrementBalance_def wp_simps Some balanceOf_def mem
  have only: "b = a" if "b \<in> set (accounts s)" "acc_id b = ?i" for b
    using ids a that by (metis find_key option.inject)
  have centsx: "is_cents ?x" using e by (cases "li_direction e") auto
  have upd: "updateWhere (\<lambda>a. acc_id a = ?i) (\<lambda>a. a\<lparr>acc_balance := scale2 (acc_balance a + ?x)\<rparr>) (accounts s)
           = bumped (netOn [e]) (accounts s)"
    unfolding updateWhere_def bumped_def
    by (rule map_cong) (use cents centsx in \<open>auto simp: centsOk_def is_cents_add\<close>)
  have find': "List.find (\<lambda>a. acc_id a = ?i) (bumped (netOn [e]) (accounts s))
             = Some (a\<lparr>acc_balance := acc_balance a + ?x\<rparr>)"
    unfolding bumped_def using Some a by (simp add: find_map_key)
  have cents': "centsOk (bumped (netOn [e]) (accounts s))"
    using cents centsx by (auto simp: centsOk_def bumped_def)
  have funds': "fundsOk (bumped (netOn [e]) (accounts s))"
    if "fundsOk (accounts s)" "acc_ownerId a \<noteq> None \<longrightarrow> 0 \<le> acc_balance a + ?x"
    using that only by (auto simp: fundsOk_def bumped_def)
  show ?thesis
  proof (cases "li_direction e")
    case CREDIT
    then have upd': "updateWhere (\<lambda>a. acc_id a = ?i) (\<lambda>a. a\<lparr>acc_balance := scale2 (acc_balance a + li_amount e)\<rparr>) (accounts s)
           = bumped (netOn [e]) (accounts s)" using upd by simp
    have "fundsOk (accounts s) \<longrightarrow> fundsOk (bumped (netOn [e]) (accounts s))"
      using funds' a e CREDIT by (auto simp: fundsOk_def)
    with CREDIT show ?thesis
      by (simp add: run upd' find' cents')
  next
    case DEBIT
    then have upd': "updateWhere (\<lambda>a. acc_id a = ?i) (\<lambda>a. a\<lparr>acc_balance := scale2 (acc_balance a - li_amount e)\<rparr>) (accounts s)
           = bumped (netOn [e]) (accounts s)" using upd by simp
    show ?thesis
    proof (cases "acc_ownerId a")
      case None
      then have "fundsOk (accounts s) \<longrightarrow> fundsOk (bumped (netOn [e]) (accounts s))"
        using funds' by simp
      with DEBIT None show ?thesis
        by (simp add: run upd' find' cents')
    next
      case (Some owner)
      show ?thesis
      proof (cases "li_amount e \<le> acc_balance a")
        case True
        have "updateWhere (\<lambda>a. acc_id a = ?i \<and> li_amount e \<le> acc_balance a)
                (\<lambda>a. a\<lparr>acc_balance := scale2 (acc_balance a - li_amount e)\<rparr>) (accounts s)
            = bumped (netOn [e]) (accounts s)"
          unfolding upd' [symmetric] by (rule updateWhere_cong) (use only True in auto)
        moreover have "fundsOk (accounts s) \<longrightarrow> fundsOk (bumped (netOn [e]) (accounts s))"
          using funds' True DEBIT by simp
        ultimately show ?thesis using DEBIT Some
          by (simp add: run find' cents')
      next
        case False
        then have "countWhere (\<lambda>a. acc_id a = ?i \<and> li_amount e \<le> acc_balance a) (accounts s) = 0"
          using only by (auto simp: countWhere_zero)
        with DEBIT Some show ?thesis
          by (simp add: run)
      qed
    qed
  qed
qed

section \<open>A posting\<close>

lemma balanceOf_bumped:
  "balanceOf (s\<lparr>accounts := bumped d (accounts s)\<rparr>) i = map_option (\<lambda>x. x + d i) (balanceOf s i)"
  unfolding balanceOf_def bumped_def
  by (simp add: find_map_key option.map_comp comp_def)
     (auto intro!: map_option_cong dest: find_SomeD)

text \<open>The posting loop from \<open>s\<close> to \<open>t\<close>: every touched account moved by its net amount.\<close>

definition applied :: "ledgerEntryInput list \<Rightarrow> db \<Rightarrow> (string \<rightharpoonup> rat) \<Rightarrow> (string \<rightharpoonup> rat) \<Rightarrow> db \<Rightarrow> bool" where
  "applied es s b b' t \<longleftrightarrow> t = s\<lparr>accounts := bumped (netOn es) (accounts s)\<rparr>
     \<and> li_accountId ` set es \<subseteq> accountIds s
     \<and> centsOk (accounts t) \<and> (fundsOk (accounts s) \<longrightarrow> fundsOk (accounts t))
     \<and> (\<forall>i. b' i = (if i \<in> li_accountId ` set es then balanceOf t i else b i))"

lemma netOn_untouched: "i \<notin> li_accountId ` set es \<Longrightarrow> netOn es i = 0"
  by (induction es) auto

lemma accountIds_bumped [simp]: "accountIds (s\<lparr>accounts := bumped d (accounts s)\<rparr>) = accountIds s"
  by (simp add: accountIds_def bumped_def image_image)

lemma applied_Cons:
  assumes e: "applied [e] s b b' t" and es: "applied es t b' b'' u"
  shows "applied (e # es) s b b'' u"
proof -
  have t: "t = s\<lparr>accounts := bumped (netOn [e]) (accounts s)\<rparr>" using e by (simp add: applied_def)
  have "bumped (netOn es) (bumped (netOn [e]) (accounts s)) = bumped (netOn (e # es)) (accounts s)"
    by (simp add: bumped_def add.assoc)
  then have u: "u = s\<lparr>accounts := bumped (netOn (e # es)) (accounts s)\<rparr>"
    using es t by (simp add: applied_def)
  have u': "u = t\<lparr>accounts := bumped (netOn es) (accounts t)\<rparr>" using es by (simp add: applied_def)
  have b: "b'' i = (if i \<in> li_accountId ` set (e # es) then balanceOf u i else b i)" for i
  proof (cases "i \<in> li_accountId ` set es")
    case False
    then have "balanceOf u i = balanceOf t i"
      unfolding u' by (simp add: balanceOf_bumped netOn_untouched option.map_ident)
    with False e es show ?thesis by (auto simp: applied_def)
  qed (use es in \<open>simp add: applied_def\<close>)
  have "accountIds t = accountIds s" unfolding t by simp
  moreover have "li_accountId e \<in> accountIds s" "li_accountId ` set es \<subseteq> accountIds t"
    using e es by (simp_all add: applied_def)
  ultimately have ids: "li_accountId ` set (e # es) \<subseteq> accountIds s" by simp
  have cents: "centsOk (accounts u)" and funds: "fundsOk (accounts s) \<longrightarrow> fundsOk (accounts u)"
    using e es unfolding applied_def by blast+
  show ?thesis unfolding applied_def using u ids cents funds b by blast
qed

lemma wp_applyEntries:
  assumes "distinct (map acc_id (accounts s))" and "centsOk (accounts s)" and "goodEntries es"
  shows "wp (applyEntries es b) (\<lambda>b' t. applied es s b b' t) (\<lambda>_ _. True) s"
  using assms
proof (induction es arbitrary: s b)
  case Nil
  have "bumped (netOn []) (accounts s) = accounts s" by (simp add: bumped_def)
  with Nil show ?case by (simp add: wp_simps applied_def)
next
  case (Cons e es)
  have good: "is_cents (li_amount e)" "0 \<le> li_amount e" "goodEntries es"
    using Cons.prems(3) by (auto simp: goodEntries_def)
  have "wp (applyEntry e) (\<lambda>x t. applied [e] s b (b(li_accountId e \<mapsto> x)) t) (\<lambda>_ _. True) s"
    by (rule wp_conseq [OF wp_applyEntry]) (use Cons.prems good in \<open>auto simp: applied_def accountIds_def\<close>)
  then show ?case unfolding applyEntries.simps wp_bind
  proof (rule wp_conseq)
    fix x t assume one: "applied [e] s b (b(li_accountId e \<mapsto> x)) t"
    then have t: "t = s\<lparr>accounts := bumped (netOn [e]) (accounts s)\<rparr>" "centsOk (accounts t)"
      unfolding applied_def by blast+
    have "wp (applyEntries es (b(li_accountId e \<mapsto> x)))
            (\<lambda>b' u. applied es t (b(li_accountId e \<mapsto> x)) b' u) (\<lambda>_ _. True) t"
      by (rule Cons.IH) (use t Cons.prems(1) good(3) in simp_all)
    then show "wp (applyEntries es (b(li_accountId e \<mapsto> x))) (\<lambda>b' u. applied (e # es) s b b' u) (\<lambda>_ _. True) t"
      by (rule wp_conseq) (auto intro: applied_Cons [OF one] simp del: fun_upd_apply)
  qed simp
qed

section \<open>The stored transaction\<close>

text \<open>
  What a posting of \<open>p\<close> records: a new completed transaction whose lines are the entries of
  \<open>p\<close>, each with the balance its account has after the posting.
\<close>

definition records :: "postTransactionParams \<Rightarrow> db \<Rightarrow> db \<Rightarrow> transaction \<Rightarrow> bool" where
  "records p s u t \<longleftrightarrow>
     t = \<lparr>tx_id = uuids s (uuidsUsed s), tx_type = pt_type p, tx_status = TransactionStatus.COMPLETED,
              tx_reference = pt_reference p, tx_idempotencyKey = pt_idempotencyKey p,
              tx_amount = scale2 (pt_amount p),
              tx_currency = (case pt_currency p of None \<Rightarrow> ''NGN'' | Some c \<Rightarrow> c),
              tx_metadata = pt_metadata p, tx_reversesTransactionId = pt_reversesTransactionId p,
              tx_entries = map (\<lambda>e. \<lparr>le_accountId = li_accountId e, le_direction = li_direction e,
                                     le_amount = li_amount e,
                                     le_balanceAfter = the (balanceOf u (li_accountId e))\<rparr>) (pt_entries p),
              tx_completedAt = Some (now s), tx_createdAt = now s\<rparr>"

text \<open>
  \<open>posted p s u t\<close>: from \<open>s\<close> to \<open>u\<close>, the entries of \<open>p\<close> moved the balances and
  \<open>t\<close> is the transaction that recorded them; nothing else changed but one identifier drawn.
\<close>

definition posted :: "postTransactionParams \<Rightarrow> db \<Rightarrow> db \<Rightarrow> transaction \<Rightarrow> bool" where
  "posted p s u t \<longleftrightarrow>
     u = s\<lparr>accounts := bumped (netOn (pt_entries p)) (accounts s), uuidsUsed := Suc (uuidsUsed s),
           transactions := transactions s @ [t]\<rparr>
     \<and> records p s u t \<and> li_accountId ` set (pt_entries p) \<subseteq> accountIds s
     \<and> totalOf DEBIT (pt_entries p) = totalOf CREDIT (pt_entries p)
     \<and> (\<forall>t' \<in> set (transactions s). tx_reference t' \<noteq> pt_reference p)
     \<and> centsOk (accounts u) \<and> (fundsOk (accounts s) \<longrightarrow> fundsOk (accounts u))"

lemma records_fields:
  assumes "records p s u t"
  shows "tx_id t = uuids s (uuidsUsed s)" and "tx_reference t = pt_reference p"
    and "tx_status t = TransactionStatus.COMPLETED" and "tx_amount t = scale2 (pt_amount p)"
    and "tx_reversesTransactionId t = pt_reversesTransactionId p"
    and "tx_entries t = map (\<lambda>e. \<lparr>le_accountId = li_accountId e, le_direction = li_direction e,
        le_amount = li_amount e, le_balanceAfter = the (balanceOf u (li_accountId e))\<rparr>) (pt_entries p)"
  by (insert assms, unfold records_def, erule ssubst, simp)+

lemma wp_createTransaction:
  assumes a: "applied (pt_entries p) s0 Map.empty b s" and good: "goodEntries (pt_entries p)"
    and bal: "totalOf DEBIT (pt_entries p) = totalOf CREDIT (pt_entries p)"
  shows "wp (createTransaction p b) (\<lambda>t u. posted p s0 u t) (\<lambda>_ _. True) s"
proof -
  have s: "s = s0\<lparr>accounts := bumped (netOn (pt_entries p)) (accounts s0)\<rparr>"
    and b: "\<And>i. b i = (if i \<in> li_accountId ` set (pt_entries p) then balanceOf s i else None)"
    and rest: "li_accountId ` set (pt_entries p) \<subseteq> accountIds s0" "centsOk (accounts s)"
      "fundsOk (accounts s0) \<longrightarrow> fundsOk (accounts s)"
    using a unfolding applied_def by blast+
  have lines: "map (\<lambda>e. \<lparr>le_accountId = li_accountId e, le_direction = li_direction e,
        le_amount = scale2 (li_amount e), le_balanceAfter = the (b (li_accountId e))\<rparr>) (pt_entries p)
      = map (\<lambda>e. \<lparr>le_accountId = li_accountId e, le_direction = li_direction e,
        le_amount = li_amount e, le_balanceAfter = the (balanceOf s (li_accountId e))\<rparr>) (pt_entries p)"
    using good by (intro map_cong) (auto simp: b goodEntries_def)
  have same: "balanceOf (s\<lparr>uuidsUsed := n, transactions := ts\<rparr>) i = balanceOf s i" for n ts i
    by (simp add: balanceOf_def)
  have shape: "s\<lparr>uuidsUsed := n, transactions := ts\<rparr>
      = s0\<lparr>accounts := bumped (netOn (pt_entries p)) (accounts s0), uuidsUsed := n, transactions := ts\<rparr>" for n ts
    unfolding s by simp
  have "transactions s = transactions s0" "uuidsUsed s = uuidsUsed s0" "now s = now s0" "uuids s = uuids s0"
    unfolding s by simp_all
  then show ?thesis
    unfolding createTransaction_def
    using rest bal
    by (simp add: wp_simps Let_def lines) (auto simp: posted_def records_def same shape [symmetric])
qed

lemma wp_postTransactionEntries:
  assumes ok: "ledgerOk s" and good: "goodEntries (pt_entries p)"
  shows "wp (postTransactionEntries p)
    (\<lambda>t u. case List.find (\<lambda>t. tx_reference t = pt_reference p) (transactions s) of
             Some t' \<Rightarrow> t = t' \<and> u = s | None \<Rightarrow> posted p s u t) (\<lambda>_ _. True) s"
proof -
  have "distinct (map acc_id (accounts s))" "centsOk (accounts s)"
    using ok by (auto simp: ledgerOk_defs centsOk_def)
  then show ?thesis unfolding postTransactionEntries_def
    by (auto simp: findTransactionByReference_def wp_simps split: option.splits
          intro!: wp_conseq [OF wp_applyEntries] wp_createTransaction good)
qed

section \<open>Posting keeps the invariant\<close>

lemma lineNet_entries:
  "lineNet (map (\<lambda>e. \<lparr>le_accountId = li_accountId e, le_direction = li_direction e,
                     le_amount = li_amount e, le_balanceAfter = f e\<rparr>) es) i = netOn es i"
  by (induction es) (simp_all add: lineNet_def netOn_def)

lemma lineSum_entries:
  "lineSum (map (\<lambda>e. \<lparr>le_accountId = li_accountId e, le_direction = li_direction e,
                     le_amount = li_amount e, le_balanceAfter = f e\<rparr>) es)
   = totalOf CREDIT es - totalOf DEBIT es"
  unfolding totals_signed [symmetric] by (induction es) (simp_all add: lineSum_def)

lemma posted_ledgerOk:
  assumes ok: "ledgerOk s" and p: "posted p s u t" and good: "goodEntries (pt_entries p)"
  shows "ledgerOk u"
proof -
  have u: "u = s\<lparr>accounts := bumped (netOn (pt_entries p)) (accounts s), uuidsUsed := Suc (uuidsUsed s),
                 transactions := transactions s @ [t]\<rparr>"
    and ids: "li_accountId ` set (pt_entries p) \<subseteq> accountIds s"
    and bal: "totalOf DEBIT (pt_entries p) = totalOf CREDIT (pt_entries p)"
    and ref: "\<forall>t' \<in> set (transactions s). tx_reference t' \<noteq> pt_reference p"
    and cents: "centsOk (accounts u)" and funds: "fundsOk (accounts s) \<longrightarrow> fundsOk (accounts u)"
    using p unfolding posted_def by blast+
  have "records p s u t" using p unfolding posted_def by blast
  note t = records_fields [OF this]
  have accIds: "accountIds u = accountIds s" unfolding u by (simp add: accountIds_def bumped_def image_image)
  have used: "usedIds u = insert (tx_id t) (usedIds s)" unfolding u t(1)
    by (simp add: usedIds_def lessThan_Suc)
  have fresh: "tx_id t \<notin> usedIds s" using ok freshId_unused by (simp add: ledgerOk_def t(1))
  have "uuidsOk u" using ok unfolding u by (simp add: ledgerOk_def uuidsOk_def)
  moreover have "accountsOk u"
    using ok cents funds used accIds
    by (auto simp: ledgerOk_def accountsOk_def centsOk_def fundsOk_def) (simp add: u)
  moreover have "transactionsOk u"
  proof -
    have "linesOk u t"
      using good ids by (auto simp: linesOk_def accIds t(6) lineSum_entries bal goodEntries_def)
    moreover have "linesOk u t'" if "t' \<in> set (transactions s)" for t'
      using ok that by (auto simp: ledgerOk_def transactionsOk_def linesOk_def accIds)
    moreover have "transactions u = transactions s @ [t]" unfolding u by simp
    ultimately show ?thesis
      using ok ref fresh used by (auto simp: ledgerOk_def transactionsOk_def t(2))
  qed
  moreover have "reconciled u"
    using ok unfolding u
    by (auto simp: ledgerOk_def reconciled_def bumped_def postedOn_def t(6) lineNet_entries)
  ultimately show ?thesis by (simp add: ledgerOk_def)
qed

end
