(* ===== verification/LedgerMoves.thy ===== *)
theory LedgerMoves
  imports LedgerLaws
begin

text \<open>
  The contract of \<open>WalletService\<close> towards the rest of the backend.  Abstractly the ledger is a
  function \<open>holding\<close> from (owner, account type) to an amount, and a movement is a list of signed
  changes to it.  The locale \<open>ledger_movement\<close> states what every movement method promises, and
  each method is shown to satisfy it; the consequences (replaying is harmless, money is neither
  made nor lost) are proved once, from the contract.
\<close>

section \<open>Holdings\<close>

type_synonym accountKey = "string option \<times> AccountType"

definition keyOf :: "account \<Rightarrow> accountKey" where
  "keyOf a = (acc_ownerId a, acc_type a)"

definition accountFor :: "db \<Rightarrow> accountKey \<Rightarrow> account option" where
  "accountFor s k = List.find (\<lambda>a. keyOf a = k) (accounts s)"

definition holding :: "db \<Rightarrow> accountKey \<Rightarrow> rat" where
  "holding s k = (case accountFor s k of None \<Rightarrow> 0 | Some a \<Rightarrow> acc_balance a)"

definition changeOn :: "(accountKey \<times> rat) list \<Rightarrow> accountKey \<Rightarrow> rat" where
  "changeOn ms k = sum_list (map (\<lambda>(k', x). if k' = k then x else 0) ms)"

definition hasReference :: "db \<Rightarrow> string \<Rightarrow> bool" where
  "hasReference s r \<longleftrightarrow> (\<exists>t \<in> set (transactions s). tx_reference t = r)"

lemma changeOn_simps [simp]:
  "changeOn [] k = 0"
  "changeOn ((k', x) # ms) k = (if k' = k then x else 0) + changeOn ms k"
  "changeOn (ms @ ns) k = changeOn ms k + changeOn ns k"
  by (simp_all add: changeOn_def)

section \<open>Opening accounts\<close>

text \<open>\<open>grown s t\<close>: \<open>t\<close> is \<open>s\<close> with empty accounts opened.\<close>

definition grown :: "db \<Rightarrow> db \<Rightarrow> bool" where
  "grown s t \<longleftrightarrow> (\<exists>new n. t = s\<lparr>accounts := accounts s @ new, uuidsUsed := n\<rparr>
     \<and> (\<forall>a \<in> set new. acc_balance a = 0))"

lemma grown_refl [simp, intro]: "grown s s"
  unfolding grown_def by (rule exI [of _ "[]"], rule exI [of _ "uuidsUsed s"]) simp

lemma grown_trans [trans]: "grown s t \<Longrightarrow> grown t u \<Longrightarrow> grown s u"
  unfolding grown_def
proof (elim exE conjE)
  fix new n new' n'
  assume "t = s\<lparr>accounts := accounts s @ new, uuidsUsed := n\<rparr>" "\<forall>a\<in>set new. acc_balance a = 0"
    and "u = t\<lparr>accounts := accounts t @ new', uuidsUsed := n'\<rparr>" "\<forall>a\<in>set new'. acc_balance a = 0"
  then have "u = s\<lparr>accounts := accounts s @ (new @ new'), uuidsUsed := n'\<rparr>
      \<and> (\<forall>a \<in> set (new @ new'). acc_balance a = 0)" by auto
  then show "\<exists>new n. u = s\<lparr>accounts := accounts s @ new, uuidsUsed := n\<rparr> \<and> (\<forall>a\<in>set new. acc_balance a = 0)"
    by blast
qed

lemma grown_transactions [simp]: "grown s t \<Longrightarrow> transactions t = transactions s"
  by (auto simp: grown_def)

lemma grown_driverStatuses: "grown s t \<Longrightarrow> driverStatuses t = driverStatuses s"
  by (auto simp: grown_def)

lemma grown_accountFor: "grown s t \<Longrightarrow> accountFor s k = Some a \<Longrightarrow> accountFor t k = Some a"
  by (auto simp: grown_def accountFor_def find_append)

lemma grown_holding: "grown s t \<Longrightarrow> holding t k = holding s k"
proof -
  assume "grown s t"
  then obtain new n where t: "t = s\<lparr>accounts := accounts s @ new, uuidsUsed := n\<rparr>"
    and new: "\<And>a. a \<in> set new \<Longrightarrow> acc_balance a = 0" unfolding grown_def by blast
  have "acc_balance a = 0" if "List.find (\<lambda>a. keyOf a = k) new = Some a" for a
    using new find_SomeD [OF that] by blast
  then show ?thesis unfolding t holding_def accountFor_def by (auto simp: find_append split: option.splits)
qed

lemma wp_getPlatformAccount:
  "wp (getPlatformAccount ty) (\<lambda>a t. t = s \<and> accountFor s (None, ty) = Some a) (\<lambda>_ t. t = s) s"
  by (auto simp: getPlatformAccount_def accountFor_def keyOf_def wp_simps split: option.splits)

lemma sum_list_map_zero: "(\<And>x. x \<in> set xs \<Longrightarrow> f x = (0::rat)) \<Longrightarrow> sum_list (map f xs) = 0"
  by (induction xs) simp_all

lemma lineNet_untouched: "\<forall>e \<in> set es. le_accountId e \<noteq> i \<Longrightarrow> lineNet es i = 0"
  by (induction es) (simp_all add: lineNet_def)

lemma opened_ledgerOk:
  assumes ok: "ledgerOk s" and a: "acc_id a = uuids s (uuidsUsed s)" "acc_balance a = 0"
  shows "ledgerOk (s\<lparr>uuidsUsed := Suc (uuidsUsed s), accounts := accounts s @ [a]\<rparr>)" (is "ledgerOk ?u")
proof -
  have fresh: "acc_id a \<notin> usedIds s" using ok freshId_unused by (simp add: ledgerOk_def a)
  have used: "usedIds ?u = insert (acc_id a) (usedIds s)" by (simp add: usedIds_def lessThan_Suc a)
  have ids: "accountIds ?u = insert (acc_id a) (accountIds s)" by (auto simp: accountIds_def)
  have notin: "acc_id a \<notin> accountIds s" using ok fresh by (auto simp: ledgerOk_def accountsOk_def)
  then have "lineNet (tx_entries t) (acc_id a) = 0" if "t \<in> set (transactions s)" for t
    using ok that by (intro lineNet_untouched) (metis ledgerOk_def transactionsOk_def linesOk_def)
  then have zero: "postedOn (transactions s) (acc_id a) = 0"
    unfolding postedOn_def by (simp add: sum_list_map_zero)
  have "accountsOk ?u" using ok notin a(2) unfolding ledgerOk_def accountsOk_def ids used
    by (auto simp: accountIds_def)
  moreover have "transactionsOk ?u" using ok unfolding ledgerOk_def transactionsOk_def linesOk_def ids used
    by auto
  moreover have "reconciled ?u" using ok zero a(2) by (auto simp: ledgerOk_def reconciled_def)
  moreover have "uuidsOk ?u" using ok by (simp add: ledgerOk_def uuidsOk_def)
  ultimately show ?thesis by (simp add: ledgerOk_def)
qed

lemma wp_getOrCreateUserAccount:
  assumes "ledgerOk s"
  shows "wp (getOrCreateUserAccount owner ty)
    (\<lambda>a t. ledgerOk t \<and> grown s t \<and> accountFor t (Some owner, ty) = Some a) (\<lambda>_ _. False) s"
proof (cases "accountFor s (Some owner, ty)")
  case None
  then have none: "List.find (\<lambda>a. acc_ownerId a = Some owner \<and> acc_type a = ty) (accounts s) = None"
    by (simp add: accountFor_def keyOf_def)
  have "grown s (s\<lparr>uuidsUsed := Suc (uuidsUsed s), accounts := accounts s @ [a]\<rparr>)" if "acc_balance a = 0" for a
    using that unfolding grown_def by (intro exI [of _ "[a]"] exI [of _ "Suc (uuidsUsed s)"]) simp
  then show ?thesis
    by (simp add: getOrCreateUserAccount_def wp_simps none Let_def accountFor_def keyOf_def find_append
          opened_ledgerOk [OF assms])
next
  case (Some a)
  then show ?thesis using assms
    by (simp add: getOrCreateUserAccount_def wp_simps accountFor_def keyOf_def)
qed

section \<open>Movements\<close>

text \<open>The entries of a posting, matched with the signed changes they make to the holdings.\<close>

definition entriesFor :: "db \<Rightarrow> ledgerEntryInput list \<Rightarrow> (accountKey \<times> rat) list \<Rightarrow> bool" where
  "entriesFor s = list_all2 (\<lambda>e m. (\<exists>a. accountFor s (fst m) = Some a \<and> li_accountId e = acc_id a)
     \<and> snd m = signed (li_direction e) (li_amount e))"

lemma entriesFor_simps [simp]:
  "entriesFor s [] []"
  "entriesFor s (e # es) ((k, x) # ms) \<longleftrightarrow> (\<exists>a. accountFor s k = Some a \<and> li_accountId e = acc_id a)
     \<and> x = signed (li_direction e) (li_amount e) \<and> entriesFor s es ms"
  by (auto simp: entriesFor_def)

lemma entriesFor_append: "entriesFor s es ms \<Longrightarrow> entriesFor s es' ms' \<Longrightarrow> entriesFor s (es @ es') (ms @ ms')"
  by (simp add: entriesFor_def list_all2_appendI)

lemma entriesFor_grown: "entriesFor s es ms \<Longrightarrow> grown s t \<Longrightarrow> entriesFor t es ms"
  unfolding entriesFor_def by (erule list_all2_mono) (auto dest: grown_accountFor)

lemma changeOn_netOn:
  assumes ids: "distinct (map acc_id (accounts s))" and es: "entriesFor s es ms"
  shows "(case accountFor s k of None \<Rightarrow> 0 | Some a \<Rightarrow> netOn es (acc_id a)) = changeOn ms k"
  using es unfolding entriesFor_def
proof (induction rule: list_all2_induct)
  case (Cons e es m ms)
  obtain b where b: "accountFor s (fst m) = Some b" "li_accountId e = acc_id b" using Cons.hyps by blast
  have eq: "acc_id b = acc_id a \<longleftrightarrow> fst m = k" if "accountFor s k = Some a" for a
  proof
    assume "acc_id b = acc_id a"
    moreover have "a \<in> set (accounts s)" "b \<in> set (accounts s)" "keyOf a = k" "keyOf b = fst m"
      using that b unfolding accountFor_def by (auto dest: find_SomeD)
    ultimately show "fst m = k" using ids by (metis find_key option.inject)
  qed (use that b in simp)
  show ?case
    using Cons.IH Cons.hyps(1) b eq by (cases m) (auto split: option.splits)
qed (simp add: changeOn_def split: option.splits)

lemma holding_bumped:
  assumes "distinct (map acc_id (accounts s))" and "entriesFor s es ms"
  shows "holding (s\<lparr>accounts := bumped (netOn es) (accounts s), uuidsUsed := n, transactions := ts\<rparr>) k
       = holding s k + changeOn ms k"
  unfolding changeOn_netOn [OF assms, symmetric]
  by (simp add: holding_def accountFor_def bumped_def keyOf_def find_map_inv split: option.splits)

text \<open>
  \<open>sameLedger s u\<close>: no movement happened; \<open>moved ms r s u t\<close>: exactly one transaction, \<open>t\<close>
  with reference \<open>r\<close>, was recorded and the holdings changed by \<open>ms\<close>; \<open>outcome\<close> is what a
  movement method may do when it returns.
\<close>

definition sameLedger :: "db \<Rightarrow> db \<Rightarrow> bool" where
  "sameLedger s u \<longleftrightarrow> ledgerOk u \<and> transactions u = transactions s \<and> (\<forall>k. holding u k = holding s k)"

text \<open>What a recorded transaction did to a holding.\<close>

definition effectOn :: "db \<Rightarrow> transaction \<Rightarrow> accountKey \<Rightarrow> rat" where
  "effectOn s t k = (case accountFor s k of None \<Rightarrow> 0 | Some a \<Rightarrow> lineNet (tx_entries t) (acc_id a))"

definition moved :: "(accountKey \<times> rat) list \<Rightarrow> string \<Rightarrow> db \<Rightarrow> db \<Rightarrow> transaction \<Rightarrow> bool" where
  "moved ms r s u t \<longleftrightarrow> ledgerOk u \<and> transactions u = transactions s @ [t] \<and> tx_reference t = r
     \<and> tx_status t = TransactionStatus.COMPLETED \<and> (\<forall>k. holding u k = holding s k + changeOn ms k)
     \<and> (\<forall>k. effectOn u t k = changeOn ms k)"

definition outcome :: "(accountKey \<times> rat) list \<Rightarrow> string \<Rightarrow> db \<Rightarrow> db \<Rightarrow> transaction \<Rightarrow> bool" where
  "outcome ms r s u t \<longleftrightarrow>
     (case List.find (\<lambda>t. tx_reference t = r) (transactions s) of
        Some t' \<Rightarrow> t = t' \<and> sameLedger s u | None \<Rightarrow> moved ms r s u t)"

lemma sameLedger_grown: "ledgerOk t \<Longrightarrow> grown s t \<Longrightarrow> sameLedger s t"
  by (simp add: sameLedger_def grown_holding)

lemma hasReference_find: "hasReference s r \<longleftrightarrow> List.find (\<lambda>t. tx_reference t = r) (transactions s) \<noteq> None"
  by (auto simp: hasReference_def find_None_iff)

text \<open>The two states have the same accounts, whatever their balances, and the same driver statuses.\<close>

definition sameAccounts :: "db \<Rightarrow> db \<Rightarrow> bool" where
  "sameAccounts s u \<longleftrightarrow> accountIds u = accountIds s \<and> driverStatuses u = driverStatuses s
     \<and> (\<forall>k. map_option acc_id (accountFor u k) = map_option acc_id (accountFor s k))"

lemma sameAccounts_refl [simp]: "sameAccounts s s"
  by (simp add: sameAccounts_def)

lemma sameAccounts_bumped:
  "sameAccounts s (s\<lparr>accounts := bumped d (accounts s), uuidsUsed := n, transactions := ts\<rparr>)"
  by (simp add: sameAccounts_def accountIds_def accountFor_def bumped_def image_image keyOf_def find_map_inv
      option.map_comp comp_def)

lemma sameAccounts_accountFor:
  "sameAccounts s u \<Longrightarrow> accountFor s k = Some a \<Longrightarrow> \<exists>b. accountFor u k = Some b \<and> acc_id b = acc_id a"
  unfolding sameAccounts_def by (metis map_option_eq_Some option.simps(9))

lemma wp_movement:
  assumes ok: "ledgerOk s'" and g: "grown s s'" and good: "goodEntries (pt_entries p)"
    and es: "entriesFor s' (pt_entries p) ms"
  shows "wp (postTransactionEntries p)
           (\<lambda>t u. outcome ms (pt_reference p) s u t \<and> sameAccounts s' u) (\<lambda>_ _. True) s'"
proof (rule wp_conseq [OF wp_postTransactionEntries [OF ok good]])
  fix t u
  let ?found = "List.find (\<lambda>t. tx_reference t = pt_reference p) (transactions s)"
  assume u: "case List.find (\<lambda>t. tx_reference t = pt_reference p) (transactions s') of
      Some t' \<Rightarrow> t = t' \<and> u = s' | None \<Rightarrow> posted p s' u t"
  show "outcome ms (pt_reference p) s u t \<and> sameAccounts s' u"
  proof (cases ?found)
    case (Some t')
    then show ?thesis using u g ok by (simp add: outcome_def sameLedger_grown)
  next
    case None
    then have p: "posted p s' u t" using u g by simp
    then have shape: "u = s'\<lparr>accounts := bumped (netOn (pt_entries p)) (accounts s'),
        uuidsUsed := Suc (uuidsUsed s'), transactions := transactions s' @ [t]\<rparr>"
      and rec: "records p s' u t" unfolding posted_def by blast+
    have ids: "distinct (map acc_id (accounts s'))" using ok by (simp add: ledgerOk_defs)
    have "holding u k = holding s k + changeOn ms k" for k
      unfolding shape holding_bumped [OF ids es] by (simp add: grown_holding [OF g])
    moreover have "transactions u = transactions s @ [t]" unfolding shape using g by simp
    moreover have "sameAccounts s' u" unfolding shape by (rule sameAccounts_bumped)
    moreover have "effectOn u t k = changeOn ms k" for k
      unfolding changeOn_netOn [OF ids es, symmetric] effectOn_def shape
      by (simp add: accountFor_def bumped_def keyOf_def find_map_inv records_fields(6) [OF rec] lineNet_entries
            split: option.splits)
    ultimately show ?thesis
      using None posted_ledgerOk [OF ok p good] records_fields(2,3) [OF rec]
      by (simp add: outcome_def moved_def)
  qed
qed simp

lemma wp_posting:
  assumes "ledgerOk s'" and "grown s s'" and "goodEntries (pt_entries p)" and "entriesFor s' (pt_entries p) ms"
  shows "wp (postTransaction p)
           (\<lambda>t u. outcome ms (pt_reference p) s u t \<and> sameAccounts s' u) (\<lambda>_ u. u = s') s'"
  unfolding postTransaction_def wp_atomic by (rule wp_conseq [OF wp_movement [OF assms]]) simp_all

section \<open>The contract\<close>

text \<open>
  What every movement method promises its callers.  \<open>valid\<close> is what the callers guarantee of
  the arguments, \<open>reference\<close> the reference the transaction is stored under, \<open>moves\<close> the
  signed changes of the holdings.
\<close>

locale ledger_movement =
  fixes valid :: "'p \<Rightarrow> bool"
    and run :: "'p \<Rightarrow> transaction op"
    and reference :: "'p \<Rightarrow> string"
    and moves :: "'p \<Rightarrow> (accountKey \<times> rat) list"
  assumes contract: "valid p \<Longrightarrow> ledgerOk s
      \<Longrightarrow> wp (run p) (\<lambda>t u. outcome (moves p) (reference p) s u t) (\<lambda>_ u. sameLedger s u) s"
    and balanced: "valid p \<Longrightarrow> sum_list (map snd (moves p)) = 0"
begin

lemma keeps_ledger: "valid p \<Longrightarrow> keeps ledgerOk (run p)"
  unfolding keeps_iff_wp
  by (intro allI impI, erule wp_conseq [OF contract])
     (auto simp: outcome_def sameLedger_def moved_def split: option.splits)

lemma failure_moves_nothing:
  "valid p \<Longrightarrow> ledgerOk s \<Longrightarrow> run p s = (Inl e, u) \<Longrightarrow> sameLedger s u"
  by (rule wp_Inl [OF contract])

lemma first_run:
  "valid p \<Longrightarrow> ledgerOk s \<Longrightarrow> \<not> hasReference s (reference p) \<Longrightarrow> run p s = (Inr t, u)
     \<Longrightarrow> moved (moves p) (reference p) s u t"
  by (drule (2) wp_Inr [OF contract]) (simp add: outcome_def hasReference_find)

text \<open>A retry with the same reference returns the recorded transaction and moves nothing.\<close>

lemma replay:
  assumes "valid p" "ledgerOk s" "run p s = (Inr t, u)" "run p u = (Inr t', v)"
  shows "t' = t \<and> sameLedger u v"
proof -
  have 1: "outcome (moves p) (reference p) s u t" by (rule wp_Inr [OF contract]) (use assms in auto)
  then have "ledgerOk u" by (auto simp: outcome_def sameLedger_def moved_def split: option.splits)
  with assms have 2: "outcome (moves p) (reference p) u v t'" by (intro wp_Inr [OF contract]) auto
  have "List.find (\<lambda>t. tx_reference t = reference p) (transactions u) = Some t"
    using 1 by (auto simp: outcome_def sameLedger_def moved_def find_append split: option.splits)
  with 2 show ?thesis by (simp add: outcome_def)
qed

end

section \<open>The methods satisfy it\<close>

text \<open>How a movement opens the accounts it needs, one account at a time.\<close>

lemma wp_open:
  assumes "ledgerOk s" and "grown s0 s"
    and "\<And>a t. ledgerOk t \<Longrightarrow> grown s0 t \<Longrightarrow> grown s t \<Longrightarrow> accountFor t (Some owner, ty) = Some a \<Longrightarrow> Q a t"
  shows "wp (getOrCreateUserAccount owner ty) Q E s"
  by (rule wp_conseq [OF wp_getOrCreateUserAccount [OF assms(1)]])
     (use assms(2,3) grown_trans in blast)+

lemma wp_platform:
  assumes "\<And>a. accountFor s (None, ty) = Some a \<Longrightarrow> Q a s" and "\<And>e. E e s"
  shows "wp (getPlatformAccount ty) Q E s"
  by (rule wp_conseq [OF wp_getPlatformAccount]) (use assms in auto)

definition cents :: "rat \<Rightarrow> bool" where
  "cents x \<longleftrightarrow> is_cents x \<and> 0 \<le> x"

definition platform :: "AccountType \<Rightarrow> accountKey" where
  "platform ty = (None, ty)"

definition owned :: "string \<Rightarrow> AccountType \<Rightarrow> accountKey" where
  "owned u ty = (Some u, ty)"

definition transferMoves :: "accountKey \<Rightarrow> accountKey \<Rightarrow> rat \<Rightarrow> (accountKey \<times> rat) list" where
  "transferMoves src dst x = [(src, - x), (dst, x)]"

lemmas move_defs = cents_def platform_def owned_def transferMoves_def

lemma transferMoves_balanced: "sum_list (map snd (transferMoves k l x)) = 0"
  by (simp add: transferMoves_def)

lemmas open_simps = wp_simps goodEntries_def grown_accountFor sameLedger_grown

text \<open>\<open>finish\<close>: the last step of a movement, its posting, given the accounts it opened.\<close>

lemma wp_finish:
  assumes "ledgerOk t" and "grown s t" and "goodEntries (pt_entries p)" and "entriesFor t (pt_entries p) ms"
    and "r = pt_reference p"
  shows "wp (postTransaction p) (\<lambda>x u. outcome ms r s u x) (\<lambda>_ u. sameLedger s u) t"
  unfolding assms(5) by (rule wp_conseq [OF wp_posting [OF assms(1-4)]]) (use assms sameLedger_grown in auto)

definition taxMoves :: "rat \<Rightarrow> (accountKey \<times> rat) list" where
  "taxMoves taxAmount = (if taxAmount \<le> 0 then [] else [(platform PLATFORM_TAX_PAYABLE, taxAmount)])"

lemma wp_taxEntries:
  assumes "cents taxAmount"
    and "\<And>es. goodEntries es \<Longrightarrow> entriesFor s es (taxMoves taxAmount) \<Longrightarrow> Q es s" and "\<And>e. E e s"
  shows "wp (taxEntries taxAmount) Q E s"
  using assms(1) unfolding taxEntries_def
  by (auto simp: wp_simps taxMoves_def move_defs goodEntries_def intro!: wp_platform assms(2,3))

lemma goodEntries_append [simp]: "goodEntries (es @ fs) \<longleftrightarrow> goodEntries es \<and> goodEntries fs"
  by (auto simp: goodEntries_def)

lemma goodEntries_Cons [simp]:
  "goodEntries (e # es) \<longleftrightarrow> is_cents (li_amount e) \<and> 0 \<le> li_amount e \<and> goodEntries es"
  "goodEntries []"
  by (auto simp: goodEntries_def)

text \<open>
  A priced movement: the payer is debited the fare; the driver, the platform and the tax account
  share it.  \<open>validSplit\<close> is what the callers guarantee of the three amounts.
\<close>

definition validSplit :: "rat \<Rightarrow> rat \<Rightarrow> rat \<Rightarrow> bool" where
  "validSplit fare commission tax \<longleftrightarrow> cents fare \<and> cents commission \<and> cents tax \<and> commission + tax \<le> fare"

definition splitMoves :: "accountKey \<Rightarrow> accountKey \<Rightarrow> rat \<Rightarrow> rat \<Rightarrow> rat \<Rightarrow> (accountKey \<times> rat) list" where
  "splitMoves payer driver fare commission tax =
     [(payer, - fare), (driver, fare - commission - tax), (platform PLATFORM_REVENUE, commission)]
     @ taxMoves tax"

lemma validSplit_driver:
  assumes "validSplit fare commission tax"
  shows "is_cents (fare - commission - tax)" and "commission + tax \<le> fare"
  using assms by (auto simp: validSplit_def cents_def intro!: is_cents_diff)

lemma splitMoves_balanced:
  "validSplit fare commission tax \<Longrightarrow> sum_list (map snd (splitMoves payer driver fare commission tax)) = 0"
  by (auto simp: splitMoves_def taxMoves_def validSplit_def cents_def)

lemma wp_split_payment:
  assumes v: "validSplit fare commission tax" and ok: "ledgerOk s"
  shows "wp (bind (both (getOrCreateUserAccount payer ty)
            (both (getOrCreateUserAccount driverId DRIVER_WALLET) (getPlatformAccount PLATFORM_REVENUE)))
          (\<lambda>(payerAccount, driverAccount, platformRevenue).
            bind (taxEntries tax) (\<lambda>taxLines.
            postTransaction (params txType r fare md
              ([debit (acc_id payerAccount) fare, credit (acc_id driverAccount) (fare - commission - tax),
                credit (acc_id platformRevenue) commission] @ taxLines)))))
       (\<lambda>t u. outcome (splitMoves (owned payer ty) (owned driverId DRIVER_WALLET) fare commission tax) r s u t)
       (\<lambda>_ u. sameLedger s u) s"
  unfolding wp_bind wp_both split_def fst_conv snd_conv
proof (rule wp_open [OF ok grown_refl], rule wp_open, assumption+, rule wp_platform)
  fix payerAccount t driverAccount u revenue
  assume a: "grown s t" "ledgerOk u" "grown s u" "grown t u"
    "accountFor t (Some payer, ty) = Some payerAccount" "accountFor u (Some driverId, DRIVER_WALLET) = Some driverAccount"
    "accountFor u (None, PLATFORM_REVENUE) = Some revenue"
  show "wp (taxEntries tax) (\<lambda>x. wp (postTransaction (params txType r fare md
              ([debit (acc_id payerAccount) fare, credit (acc_id driverAccount) (fare - commission - tax),
                credit (acc_id revenue) commission] @ x)))
           (\<lambda>t u. outcome (splitMoves (owned payer ty) (owned driverId DRIVER_WALLET) fare commission tax) r s u t)
           (\<lambda>_ u. sameLedger s u)) (\<lambda>_ u. sameLedger s u) u"
  proof (rule wp_taxEntries)
    fix es assume es: "goodEntries es" "entriesFor u es (taxMoves tax)"
    show "wp (postTransaction (params txType r fare md
              ([debit (acc_id payerAccount) fare, credit (acc_id driverAccount) (fare - commission - tax),
                credit (acc_id revenue) commission] @ es)))
           (\<lambda>t u. outcome (splitMoves (owned payer ty) (owned driverId DRIVER_WALLET) fare commission tax) r s u t)
           (\<lambda>_ u. sameLedger s u) u"
      by (rule wp_finish [OF a(2,3)])
         (use a es v validSplit_driver [OF v] grown_accountFor [OF a(4,5)] in
           \<open>simp_all add: splitMoves_def entriesFor_append platform_def owned_def validSplit_def cents_def\<close>)
  qed (use a v in \<open>auto simp: sameLedger_grown validSplit_def\<close>)
qed (use sameLedger_grown in auto)

text \<open>A movement between an owned account and another account, opened in either order.\<close>

lemma wp_owned_platform:
  assumes a: "cents amount" and ok: "ledgerOk s"
    and p: "\<And>a b. pt_reference (p a b) = r"
    and e: "\<And>a b. (pt_entries (p a b) = [debit (acc_id a) amount, credit (acc_id b) amount]
              \<and> ms = transferMoves (owned u ty) (platform ty') amount)
            \<or> (pt_entries (p a b) = [debit (acc_id b) amount, credit (acc_id a) amount]
              \<and> ms = transferMoves (platform ty') (owned u ty) amount)"
  shows "wp (bind (both (getOrCreateUserAccount u ty) (getPlatformAccount ty')) (\<lambda>(a, b). postTransaction (p a b)))
       (\<lambda>t u. outcome ms r s u t) (\<lambda>_ u. sameLedger s u) s"
    and "wp (bind (both (getPlatformAccount ty') (getOrCreateUserAccount u ty)) (\<lambda>(b, a). postTransaction (p a b)))
       (\<lambda>t u. outcome ms r s u t) (\<lambda>_ u. sameLedger s u) s"
proof -
  have fin: "wp (postTransaction (p a b)) (\<lambda>t u. outcome ms r s u t) (\<lambda>_ u. sameLedger s u) t"
    if "ledgerOk t" "grown s t" "accountFor t (Some u, ty) = Some a" "accountFor t (None, ty') = Some b" for a b t
    by (rule wp_finish [OF that(1,2)])
       (use that(3,4) assms(1) e [of a b] p in \<open>auto simp: move_defs\<close>)
  show "wp (bind (both (getOrCreateUserAccount u ty) (getPlatformAccount ty')) (\<lambda>(a, b). postTransaction (p a b)))
       (\<lambda>t u. outcome ms r s u t) (\<lambda>_ u. sameLedger s u) s"
    unfolding wp_bind wp_both split_def fst_conv snd_conv
    by (rule wp_open [OF ok grown_refl], rule wp_platform) (auto intro: fin sameLedger_grown)
  have err: "wp (getOrCreateUserAccount u ty) (\<lambda>_ u. sameLedger s u) (\<lambda>_ u. sameLedger s u) s"
    by (rule wp_open [OF ok grown_refl]) (simp add: sameLedger_grown)
  show "wp (bind (both (getPlatformAccount ty') (getOrCreateUserAccount u ty)) (\<lambda>(b, a). postTransaction (p a b)))
       (\<lambda>t u. outcome ms r s u t) (\<lambda>_ u. sameLedger s u) s"
    unfolding wp_bind wp_both split_def fst_conv snd_conv
    by (rule wp_platform, rule wp_open [OF ok grown_refl]) (auto intro: fin err dest: grown_accountFor)
qed

lemma ledgerOk_cong:
  assumes "accounts t = accounts s" "transactions t = transactions s" "uuids t = uuids s" "uuidsUsed t = uuidsUsed s"
  shows "ledgerOk t = ledgerOk s"
  using assms by (simp add: ledgerOk_defs uuidsOk_def usedIds_def)

lemma outcome_cong:
  assumes "accounts v = accounts u" "transactions v = transactions u" "uuids v = uuids u" "uuidsUsed v = uuidsUsed u"
  shows "outcome ms r s v t = outcome ms r s u t" "sameLedger s v = sameLedger s u"
  using assms ledgerOk_cong [OF assms]
  by (auto simp: outcome_def sameLedger_def moved_def effectOn_def holding_def accountFor_def split: option.splits)

lemma outcome_driverStatuses [simp]:
  "outcome ms r s (u\<lparr>driverStatuses := d\<rparr>) t = outcome ms r s u t"
  "sameLedger s (u\<lparr>driverStatuses := d\<rparr>) = sameLedger s u"
  by (rule outcome_cong; simp)+

lemma accountFor_cong: "accounts v = accounts u \<Longrightarrow> accountFor v k = accountFor u k"
  by (simp add: accountFor_def)

text \<open>
  The cash-trip counter: a recorded commission counts one trip; a settlement that leaves nothing
  payable starts the count again.  \<open>countedCash\<close> and \<open>countedSettlement\<close> are the driver
  statuses after the two, when the movement was not a replay.
\<close>

definition countedCash :: "db \<Rightarrow> string \<Rightarrow> string \<Rightarrow> driverStatus list" where
  "countedCash s driverId r =
     (if hasReference s r then driverStatuses s
      else updateWhere (\<lambda>d. ds_userId d = driverId)
             (\<lambda>d. d\<lparr>ds_unsettledCashRideCount := Suc (ds_unsettledCashRideCount d)\<rparr>) (driverStatuses s))"

definition countedSettlement :: "db \<Rightarrow> db \<Rightarrow> string \<Rightarrow> string \<Rightarrow> driverStatus list" where
  "countedSettlement s u driverId r =
     (if hasReference s r \<or> holding u (owned driverId DRIVER_COMMISSION_PAYABLE) \<noteq> 0 then driverStatuses s
      else updateWhere (\<lambda>d. ds_userId d = driverId)
             (\<lambda>d. d\<lparr>ds_unsettledCashRideCount := 0\<rparr>) (driverStatuses s))"

lemma wp_cash_commission:
  assumes a: "cents amount" and ok: "ledgerOk s"
  shows "wp (bind (both (getPlatformAccount PLATFORM_GATEWAY_CLEARING)
                (getOrCreateUserAccount driverId DRIVER_COMMISSION_PAYABLE)) (\<lambda>(clearing, payable).
     bind (findTransactionByReference r) (\<lambda>alreadyProcessed.
     bind (postTransaction (params ty r amount md
       [debit (acc_id clearing) amount, credit (acc_id payable) amount])) (\<lambda>tx.
     andThen (onlyIf (alreadyProcessed = None) (updateCashRideCount driverId Suc))
     (return tx)))))
    (\<lambda>t u. outcome (transferMoves (platform PLATFORM_GATEWAY_CLEARING) (owned driverId DRIVER_COMMISSION_PAYABLE) amount) r s u t
       \<and> driverStatuses u = countedCash s driverId r)
    (\<lambda>_ u. sameLedger s u) s"
  (is "wp _ (\<lambda>t u. outcome ?ms r s u t \<and> ?counted u) _ _")
proof -
  have fin: "wp (postTransaction (params ty r amount md [debit (acc_id c) amount, credit (acc_id p) amount]))
     (\<lambda>tx. wp (andThen (onlyIf (List.find (\<lambda>t. tx_reference t = r) (transactions t) = None)
            (updateCashRideCount driverId Suc)) (return tx))
        (\<lambda>t u. outcome ?ms r s u t \<and> ?counted u) (\<lambda>_ u. sameLedger s u)) (\<lambda>_ u. sameLedger s u) t"
    if "ledgerOk t" "grown s t" "accountFor t (None, PLATFORM_GATEWAY_CLEARING) = Some c"
       "accountFor t (Some driverId, DRIVER_COMMISSION_PAYABLE) = Some p" for c p t
    by (rule wp_conseq [OF wp_posting [OF that(1,2), where ms = ?ms]])
       (use that(3,4) a grown_transactions [OF that(2)] grown_driverStatuses [OF that(2)] sameLedger_grown [OF that(1,2)] in
         \<open>auto simp: move_defs wp_simps updateCashRideCount_def countedCash_def hasReference_find sameAccounts_def\<close>)
  have err: "wp (getOrCreateUserAccount driverId ty') (\<lambda>_ u. sameLedger s u) (\<lambda>_ u. sameLedger s u) s" for ty'
    by (rule wp_open [OF ok grown_refl]) (simp add: sameLedger_grown)
  show ?thesis
    unfolding wp_bind wp_both split_def fst_conv snd_conv findTransactionByReference_def wp_gets
    by (rule wp_platform, rule wp_open [OF ok grown_refl], rule fin [unfolded wp_bind])
       (assumption | erule (1) grown_accountFor | rule err)+
qed

lemma wp_settleCommission:
  assumes a: "cents amount" and ok: "ledgerOk s"
  shows "wp (settleCommission driverId amount r md)
    (\<lambda>t u. outcome (transferMoves (owned driverId DRIVER_COMMISSION_PAYABLE) (platform PLATFORM_REVENUE) amount) r s u t
       \<and> driverStatuses u = countedSettlement s u driverId r)
    (\<lambda>_ u. sameLedger s u) s"
  (is "wp _ (\<lambda>t u. outcome ?ms r s u t \<and> ?counted u) _ _")
proof -
  have fin: "wp (postTransaction (params COMMISSION_SETTLEMENT r amount md [debit (acc_id p) amount, credit (acc_id c) amount]))
     (\<lambda>tx. wp (andThen (onlyIf (List.find (\<lambda>t. tx_reference t = r) (transactions t) = None)
        (bind (findAccountOrThrow (acc_id p)) (\<lambda>updated.
        onlyIf (acc_balance updated = 0) (updateCashRideCount driverId (\<lambda>_. 0))))) (return tx))
        (\<lambda>t u. outcome ?ms r s u t \<and> ?counted u) (\<lambda>_ u. sameLedger s u)) (\<lambda>_ u. sameLedger s u) t"
    if t: "ledgerOk t" "grown s t" "accountFor t (None, PLATFORM_REVENUE) = Some c"
       "accountFor t (Some driverId, DRIVER_COMMISSION_PAYABLE) = Some p" for c p t
  proof (rule wp_conseq [OF wp_posting [OF that(1,2), where ms = ?ms]])
    fix tx u assume "outcome ?ms (pt_reference (params COMMISSION_SETTLEMENT r amount md
        [debit (acc_id p) amount, credit (acc_id c) amount])) s u tx \<and> sameAccounts t u"
    then have out: "outcome ?ms r s u tx" and same: "sameAccounts t u" by simp_all
    have uOk: "ledgerOk u" using out by (auto simp: outcome_def sameLedger_def moved_def split: option.splits)
    obtain b where b: "accountFor u (owned driverId DRIVER_COMMISSION_PAYABLE) = Some b" "acc_id b = acc_id p"
      using sameAccounts_accountFor [OF same t(4)] by (auto simp: owned_def)
    have "b \<in> set (accounts u)" using b(1) by (auto simp: accountFor_def dest: find_SomeD)
    then have found: "List.find (\<lambda>a. acc_id a = acc_id p) (accounts u) = Some b"
      using uOk b(2) by (metis find_key ledgerOk_def accountsOk_def)
    have "holding u (owned driverId DRIVER_COMMISSION_PAYABLE) = acc_balance b" using b(1) by (simp add: holding_def)
    then show "wp (andThen (onlyIf (List.find (\<lambda>t. tx_reference t = r) (transactions t) = None)
        (bind (findAccountOrThrow (acc_id p)) (\<lambda>updated.
        onlyIf (acc_balance updated = 0) (updateCashRideCount driverId (\<lambda>_. 0))))) (return tx))
        (\<lambda>t u. outcome ?ms r s u t \<and> ?counted u) (\<lambda>_ u. sameLedger s u) u"
      using out same found grown_transactions [OF t(2)] grown_driverStatuses [OF t(2)]
      by (auto simp: wp_simps findAccountOrThrow_def updateCashRideCount_def countedSettlement_def
          hasReference_find sameAccounts_def holding_def accountFor_def)
  qed (use that a sameLedger_grown in \<open>auto simp: move_defs\<close>)
  show ?thesis unfolding settleCommission_def wp_bind wp_both split_def fst_conv snd_conv findTransactionByReference_def wp_gets
    by (rule wp_open [OF ok grown_refl], rule wp_platform, rule fin [unfolded wp_bind])
       (assumption | erule (1) sameLedger_grown)+
qed

lemma wp_platform_pair:
  assumes "cents amount" and ok: "ledgerOk s"
  shows "wp (recordReferralAccrual amount r md)
    (\<lambda>t u. outcome (transferMoves (platform PLATFORM_GATEWAY_CLEARING) (platform PLATFORM_REFERRAL_PAYABLE) amount) r s u t)
    (\<lambda>_ u. sameLedger s u) s"
  unfolding recordReferralAccrual_def wp_bind wp_both split_def fst_conv snd_conv
proof (rule wp_platform, rule wp_platform)
  fix a b assume "accountFor s (None, PLATFORM_GATEWAY_CLEARING) = Some a"
    "accountFor s (None, PLATFORM_REFERRAL_PAYABLE) = Some b"
  then show "wp (postTransaction (params REFERRAL_PAYOUT r amount md [debit (acc_id a) amount, credit (acc_id b) amount]))
     (\<lambda>t u. outcome (transferMoves (platform PLATFORM_GATEWAY_CLEARING) (platform PLATFORM_REFERRAL_PAYABLE) amount) r s u t)
     (\<lambda>_ u. sameLedger s u) s"
    using assms by (intro wp_finish [OF ok grown_refl]) (auto simp: move_defs)
qed (use sameLedger_grown [OF ok grown_refl] in \<open>auto intro!: wp_platform\<close>)

lemma payForRide_contract:
  assumes "validSplit fare commission tax" and "ledgerOk s"
  shows "wp (payForRide rider driver fare commission r md tax)
    (\<lambda>t u. outcome (splitMoves (owned rider RIDER_WALLET) (owned driver DRIVER_WALLET) fare commission tax) r s u t)
    (\<lambda>_ u. sameLedger s u) s"
  unfolding payForRide_def Let_def by (rule wp_split_payment [OF assms])

lemma payForDelivery_contract:
  assumes "validSplit fare commission tax" and "ledgerOk s"
  shows "wp (payForDelivery sender driver fare commission r md tax)
    (\<lambda>t u. outcome (splitMoves (owned sender RIDER_WALLET) (owned driver DRIVER_WALLET) fare commission tax) r s u t)
    (\<lambda>_ u. sameLedger s u) s"
  unfolding payForDelivery_def Let_def by (rule wp_split_payment [OF assms])

section \<open>The interpretations\<close>

interpretation topUps: ledger_movement
  "\<lambda>(u, x, r, key, md). cents x" "\<lambda>(u, x, r, key, md). topUp u x r key md" "\<lambda>(u, x, r, key, md). r"
  "\<lambda>(u, x, r, key, md). transferMoves (platform PLATFORM_GATEWAY_CLEARING) (owned u RIDER_WALLET) x"
  by unfold_locales
     (auto simp: topUp_def transferMoves_balanced intro!: wp_owned_platform(1))

interpretation ridePayments: ledger_movement
  "\<lambda>(rider, driver, fare, commission, r, md, tax). validSplit fare commission tax"
  "\<lambda>(rider, driver, fare, commission, r, md, tax). payForRide rider driver fare commission r md tax"
  "\<lambda>(rider, driver, fare, commission, r, md, tax). r"
  "\<lambda>(rider, driver, fare, commission, r, md, tax).
     splitMoves (owned rider RIDER_WALLET) (owned driver DRIVER_WALLET) fare commission tax"
  by unfold_locales (auto simp: splitMoves_balanced intro!: payForRide_contract)

interpretation deliveryPayments: ledger_movement
  "\<lambda>(sender, driver, fare, commission, r, md, tax). validSplit fare commission tax"
  "\<lambda>(sender, driver, fare, commission, r, md, tax). payForDelivery sender driver fare commission r md tax"
  "\<lambda>(sender, driver, fare, commission, r, md, tax). r"
  "\<lambda>(sender, driver, fare, commission, r, md, tax).
     splitMoves (owned sender RIDER_WALLET) (owned driver DRIVER_WALLET) fare commission tax"
  by unfold_locales (auto simp: splitMoves_balanced intro!: payForDelivery_contract)

interpretation cashRides: ledger_movement
  "\<lambda>(driver, x, r, md). cents x" "\<lambda>(driver, x, r, md). recordCashRideCommission driver x r md"
  "\<lambda>(driver, x, r, md). r"
  "\<lambda>(driver, x, r, md). transferMoves (platform PLATFORM_GATEWAY_CLEARING) (owned driver DRIVER_COMMISSION_PAYABLE) x"
  by unfold_locales (auto simp: recordCashRideCommission_def transferMoves_balanced intro!: wp_conseq [OF wp_cash_commission])

interpretation cashDeliveries: ledger_movement
  "\<lambda>(driver, x, r, md). cents x" "\<lambda>(driver, x, r, md). recordCashDeliveryCommission driver x r md"
  "\<lambda>(driver, x, r, md). r"
  "\<lambda>(driver, x, r, md). transferMoves (platform PLATFORM_GATEWAY_CLEARING) (owned driver DRIVER_COMMISSION_PAYABLE) x"
  by unfold_locales (auto simp: recordCashDeliveryCommission_def transferMoves_balanced intro!: wp_conseq [OF wp_cash_commission])

interpretation settlements: ledger_movement
  "\<lambda>(driver, x, r, md). cents x" "\<lambda>(driver, x, r, md). settleCommission driver x r md"
  "\<lambda>(driver, x, r, md). r"
  "\<lambda>(driver, x, r, md). transferMoves (owned driver DRIVER_COMMISSION_PAYABLE) (platform PLATFORM_REVENUE) x"
  by unfold_locales (auto simp: transferMoves_balanced intro!: wp_conseq [OF wp_settleCommission])

interpretation businessCharges: ledger_movement
  "\<lambda>(business, x, r, md). cents x" "\<lambda>(business, x, r, md). chargeBusinessForDelivery business x r md"
  "\<lambda>(business, x, r, md). r"
  "\<lambda>(business, x, r, md). transferMoves (platform PLATFORM_GATEWAY_CLEARING) (owned business BUSINESS_CREDIT_PAYABLE) x"
  by unfold_locales (auto simp: chargeBusinessForDelivery_def transferMoves_balanced intro!: wp_owned_platform(2))

interpretation withdrawals: ledger_movement
  "\<lambda>(driver, x, r, md). cents x" "\<lambda>(driver, x, r, md). requestWithdrawal driver x r md"
  "\<lambda>(driver, x, r, md). r"
  "\<lambda>(driver, x, r, md). transferMoves (owned driver DRIVER_WALLET) (platform PLATFORM_GATEWAY_CLEARING) x"
  by unfold_locales (auto simp: requestWithdrawal_def transferMoves_balanced intro!: wp_owned_platform(1))

interpretation kilowattPayments: ledger_movement
  "\<lambda>(u, x, r, md). cents x" "\<lambda>(u, x, r, md). payForKilowattService u x r md"
  "\<lambda>(u, x, r, md). r"
  "\<lambda>(u, x, r, md). transferMoves (owned u RIDER_WALLET) (platform PLATFORM_REVENUE) x"
  by unfold_locales (auto simp: payForKilowattService_def transferMoves_balanced intro!: wp_owned_platform(1))

interpretation referralAccruals: ledger_movement
  "\<lambda>(x, r, md). cents x" "\<lambda>(x, r, md). recordReferralAccrual x r md" "\<lambda>(x, r, md). r"
  "\<lambda>(x, r, md). transferMoves (platform PLATFORM_GATEWAY_CLEARING) (platform PLATFORM_REFERRAL_PAYABLE) x"
  by unfold_locales (auto simp: transferMoves_balanced intro!: wp_platform_pair)

interpretation referralPayouts: ledger_movement
  "\<lambda>(u, ty, x, r, md). cents x" "\<lambda>(u, ty, x, r, md). payReferralPayout u ty x r md" "\<lambda>(u, ty, x, r, md). r"
  "\<lambda>(u, ty, x, r, md). transferMoves (platform PLATFORM_REFERRAL_PAYABLE) (owned u ty) x"
  by unfold_locales (auto simp: payReferralPayout_def transferMoves_balanced intro!: wp_owned_platform(2))

end
