(* ===== verification/WalletProps.thy ===== *)
theory WalletProps
  imports LedgerMoves
begin

text \<open>
  The properties of the wallet: the books balance at every moment, no user account is overdrawn,
  a retried movement moves nothing, a refund undoes exactly what it refunds and happens once, an
  invoice is paid and cleared together or not at all.  They are statements about the methods of
  \<open>WalletService\<close>, proved from the interpretations of \<open>LedgerMoves\<close>.
\<close>

section \<open>Refunds\<close>

lemma ledgerOk_relabel:
  assumes "\<And>t. tx_id (f t) = tx_id t" "\<And>t. tx_reference (f t) = tx_reference t" "\<And>t. tx_entries (f t) = tx_entries t"
  shows "ledgerOk (s\<lparr>transactions := updateWhere P f (transactions s)\<rparr>) = ledgerOk s"
proof -
  have maps: "map tx_id (updateWhere P f ts) = map tx_id ts" "map tx_reference (updateWhere P f ts) = map tx_reference ts"
    "map tx_entries (updateWhere P f ts) = map tx_entries ts" for ts
    using assms by (simp_all add: map_updateWhere_same)
  have posted: "postedOn ts i = sum_list (map (\<lambda>es. lineNet es i) (map tx_entries ts))" for ts i
    by (simp add: postedOn_def comp_def)
  have ids: "tx_id ` set (updateWhere P f ts) = tx_id ` set ts" for ts
    by (metis maps(1) set_map)
  have lines: "(\<forall>t \<in> set ts. linesOk u t) \<longleftrightarrow> (\<forall>es \<in> set (map tx_entries ts). lineSum es = 0
      \<and> (\<forall>e \<in> set es. is_cents (le_amount e) \<and> 0 \<le> le_amount e \<and> le_accountId e \<in> accountIds u))" for ts u
    by (simp add: linesOk_def)
  show ?thesis
    unfolding ledgerOk_def transactionsOk_def accountsOk_def reconciled_def lines posted
    by (simp add: maps ids uuidsOk_def usedIds_def accountIds_def)
qed

lemma lineNet_flipped:
  "netOn (map (\<lambda>e. \<lparr>li_accountId = le_accountId e, li_direction = flipDirection (le_direction e),
                     li_amount = le_amount e\<rparr>) es) i = - lineNet es i"
proof (induction es)
  case (Cons e es)
  then show ?case by (cases "le_direction e") (simp_all add: lineNet_def)
qed (simp add: lineNet_def)

definition refundReference :: "string \<Rightarrow> string" where
  "refundReference i = ''refund:'' @ i"

text \<open>
  \<open>refunded s u i t\<close>: the transaction \<open>i\<close> was completed, it is now reversed, \<open>t\<close> is the one
  transaction recorded, and every holding lost what \<open>i\<close> had added to it.
\<close>

definition refunded :: "db \<Rightarrow> db \<Rightarrow> string \<Rightarrow> transaction \<Rightarrow> bool" where
  "refunded s u i t \<longleftrightarrow> ledgerOk u
     \<and> (\<exists>original. List.find (\<lambda>t. tx_id t = i) (transactions s) = Some original
          \<and> tx_status original = TransactionStatus.COMPLETED
          \<and> List.find (\<lambda>t. tx_id t = i) (transactions u) = Some (original\<lparr>tx_status := TransactionStatus.REVERSED\<rparr>)
          \<and> (\<forall>k. holding u k = holding s k - effectOn s original k)
          \<and> tx_reversesTransactionId t = Some i)"

lemma find_relabel:
  assumes "List.find (\<lambda>t. tx_id t = i) ts = Some x"
  shows "List.find (\<lambda>t. tx_id t = i) (updateWhere (\<lambda>t. tx_id t = i) (\<lambda>t. t\<lparr>tx_status := st\<rparr>) (ts @ us))
       = Some (x\<lparr>tx_status := st\<rparr>)"
  using assms by (subst find_updateWhere_key) (simp_all add: find_append)

lemma wp_refund:
  assumes ok: "ledgerOk s" and new: "\<not> hasReference s (refundReference i)"
  shows "wp (refund i reason) (\<lambda>t u. refunded s u i t) (\<lambda>_ u. u = s) s"
proof (cases "List.find (\<lambda>t. tx_id t = i) (transactions s)")
  case None
  then show ?thesis by (simp add: refund_def wp_simps)
next
  case (Some original)
  then have orig: "original \<in> set (transactions s)" "tx_id original = i" by (auto dest: find_SomeD)
  show ?thesis
  proof (cases "tx_status original = TransactionStatus.COMPLETED")
    case False
    then show ?thesis using Some by (simp add: refund_def wp_simps)
  next
    case True
    let ?p = "refundParams original reason"
    have good: "goodEntries (pt_entries ?p)"
      using ok orig by (auto simp: refundParams_def goodEntries_def ledgerOk_def transactionsOk_def linesOk_def)
    have fresh: "List.find (\<lambda>t. tx_reference t = pt_reference ?p) (transactions s) = None"
      using new by (simp add: refundParams_def hasReference_def refundReference_def find_None_iff orig)
    have post: "wp (postTransactionEntries ?p) (\<lambda>t u. posted ?p s u t) (\<lambda>_ _. True) s"
      by (rule wp_conseq [OF wp_postTransactionEntries [OF ok good]]) (use fresh in simp_all)
    have fin: "refunded s (u\<lparr>transactions := updateWhere (\<lambda>t. tx_id t = tx_id original)
                  (\<lambda>t. t\<lparr>tx_status := TransactionStatus.REVERSED\<rparr>) (transactions u)\<rparr>) i t"
      if p: "posted ?p s u t" for t u
    proof -
      have u: "u = s\<lparr>accounts := bumped (netOn (pt_entries ?p)) (accounts s), uuidsUsed := Suc (uuidsUsed s),
           transactions := transactions s @ [t]\<rparr>" and rec: "records ?p s u t"
        using p unfolding posted_def by blast+
      have "holding (u\<lparr>transactions := ts\<rparr>) k = holding s k - effectOn s original k" for ts k
        unfolding u by (simp add: holding_def effectOn_def accountFor_def bumped_def keyOf_def find_map_inv
            refundParams_def lineNet_flipped split: option.splits)
      moreover have "ledgerOk (u\<lparr>transactions := updateWhere (\<lambda>t. tx_id t = tx_id original)
                  (\<lambda>t. t\<lparr>tx_status := TransactionStatus.REVERSED\<rparr>) (transactions u)\<rparr>)"
        using posted_ledgerOk [OF ok p good] by (subst ledgerOk_relabel) simp_all
      moreover have "transactions u = transactions s @ [t]" unfolding u by simp
      ultimately show ?thesis
        using Some True records_fields(5) [OF rec] orig(2)
        by (simp add: refunded_def find_relabel refundParams_def)
    qed
    show ?thesis unfolding refund_def
      by (simp add: wp_simps Some True) (rule wp_conseq [OF post], simp_all add: fin wp_simps)
  qed
qed

lemma keeps_refund: "keeps ledgerOk (refund i reason)"
  unfolding keeps_iff_wp
proof (intro allI impI)
  fix s assume ok: "ledgerOk s"
  show "wp (refund i reason) (\<lambda>_. ledgerOk) (\<lambda>_. ledgerOk) s"
  proof (cases "hasReference s (refundReference i)")
    case False
    show ?thesis by (rule wp_conseq [OF wp_refund [OF ok False]]) (use ok in \<open>auto simp: refunded_def\<close>)
  next
    case True
    then obtain x where x: "List.find (\<lambda>t. tx_reference t = refundReference i) (transactions s) = Some x"
      by (auto simp: hasReference_find)
    show ?thesis
    proof (cases "List.find (\<lambda>t. tx_id t = i) (transactions s)")
      case (Some original)
      then have "tx_id original = i" by (auto dest: find_SomeD)
      then have "wp (postTransactionEntries (refundParams original reason)) (\<lambda>_ u. u = s) (\<lambda>_ _. False) s"
        using x by (simp add: postTransactionEntries_def findTransactionByReference_def refundParams_def
            refundReference_def wp_simps)
      then show ?thesis unfolding refund_def using ok
        by (simp add: wp_simps Some) (auto elim!: wp_conseq simp: wp_simps ledgerOk_relabel)
    qed (use ok in \<open>simp add: refund_def wp_simps\<close>)
  qed
qed

section \<open>Invoices\<close>

text \<open>The payment and the clearing of the credit are one database transaction.\<close>

lemma wp_payInvoice:
  assumes v: "validSplit fare commission tax" and ok: "ledgerOk s"
  shows "wp (payInvoice business driver fare commission r md tax)
    (\<lambda>t u. \<exists>m t'. outcome (splitMoves (owned business BUSINESS_WALLET) (owned driver DRIVER_WALLET) fare commission tax) r s m t
         \<and> outcome (transferMoves (owned business BUSINESS_CREDIT_PAYABLE) (platform PLATFORM_GATEWAY_CLEARING) fare)
             (r @ '':settlement'') m u t')
    (\<lambda>_ u. sameLedger s u) s"
  (is "wp _ ?Q ?E _")
proof -
  let ?pay = "splitMoves (owned business BUSINESS_WALLET) (owned driver DRIVER_WALLET) fare commission tax"
  let ?clear = "transferMoves (owned business BUSINESS_CREDIT_PAYABLE) (platform PLATFORM_GATEWAY_CLEARING) fare"
  have c: "cents fare" "cents tax" "cents commission" "is_cents (fare - commission - tax)" "commission + tax \<le> fare"
    using v validSplit_driver [OF v] by (auto simp: validSplit_def)
  have fin: "wp (atomic
       (bind (postTransactionEntries (params BUSINESS_INVOICE_PAYMENT r fare md
          ([debit (acc_id wallet) fare, credit (acc_id driverAccount) (fare - commission - tax),
            credit (acc_id revenue) commission] @ es))) (\<lambda>paymentTx.
        andThen (postTransactionEntries (params BUSINESS_INVOICE_PAYMENT (r @ '':settlement'') fare None
          [debit (acc_id payable) fare, credit (acc_id clearing) fare]))
        (return paymentTx)))) ?Q ?E t"
    if a: "ledgerOk t" "grown s t" "goodEntries es" "entriesFor t es (taxMoves tax)"
      "accountFor t (Some business, BUSINESS_WALLET) = Some wallet"
      "accountFor t (Some driver, DRIVER_WALLET) = Some driverAccount"
      "accountFor t (None, PLATFORM_REVENUE) = Some revenue"
      "accountFor t (Some business, BUSINESS_CREDIT_PAYABLE) = Some payable"
      "accountFor t (None, PLATFORM_GATEWAY_CLEARING) = Some clearing"
    for t es wallet driverAccount revenue payable clearing
  proof -
    have err: "sameLedger s t" using a sameLedger_grown by blast
    have two: "wp (postTransactionEntries (params BUSINESS_INVOICE_PAYMENT (r @ '':settlement'') fare None
          [debit (acc_id payable) fare, credit (acc_id clearing) fare]))
        (\<lambda>t' u. outcome ?clear (r @ '':settlement'') m u t') (\<lambda>_ _. True) m"
      if m: "ledgerOk m" "sameAccounts t m" for m
      by (rule wp_conseq [OF wp_movement [OF m(1) grown_refl, where ms = ?clear]])
         (use c a(8,9) [THEN sameAccounts_accountFor [OF m(2)]] in \<open>auto simp: move_defs\<close>)
    have one: "wp (postTransactionEntries (params BUSINESS_INVOICE_PAYMENT r fare md
          ([debit (acc_id wallet) fare, credit (acc_id driverAccount) (fare - commission - tax),
            credit (acc_id revenue) commission] @ es)))
        (\<lambda>t' u. outcome ?pay r s u t' \<and> sameAccounts t u) (\<lambda>_ _. True) t"
      by (rule wp_conseq [OF wp_movement [OF a(1,2), where ms = ?pay]])
         (use c a in \<open>simp_all add: splitMoves_def entriesFor_append platform_def owned_def cents_def\<close>)
    show ?thesis unfolding wp_atomic wp_bind
    proof (rule wp_conseq [OF one])
      fix tx m assume m: "outcome ?pay r s m tx \<and> sameAccounts t m"
      then have "ledgerOk m" by (auto simp: outcome_def sameLedger_def moved_def split: option.splits)
      with m have second: "wp (postTransactionEntries (params BUSINESS_INVOICE_PAYMENT (r @ '':settlement'') fare None
          [debit (acc_id payable) fare, credit (acc_id clearing) fare]))
        (\<lambda>t' u. outcome ?clear (r @ '':settlement'') m u t') (\<lambda>_ _. True) m" by (intro two) auto
      show "wp (postTransactionEntries (params BUSINESS_INVOICE_PAYMENT (r @ '':settlement'') fare None
          [debit (acc_id payable) fare, credit (acc_id clearing) fare]))
          (\<lambda>_. wp (return tx) ?Q (\<lambda>e _. ?E e t)) (\<lambda>e _. ?E e t) m"
        by (rule wp_conseq [OF second]) (use err m in \<open>auto simp: wp_return\<close>)
    qed (use err in simp)
  qed
  have err: "wp (both (getOrCreateUserAccount business BUSINESS_CREDIT_PAYABLE) (getPlatformAccount PLATFORM_GATEWAY_CLEARING))
      (\<lambda>_ u. sameLedger s u) (\<lambda>_ u. sameLedger s u) t" if "ledgerOk t" "grown s t" for t
    unfolding wp_both
    by (rule wp_open [OF that], rule wp_platform) (auto intro: sameLedger_grown)
  show ?thesis unfolding payInvoice_def Let_def wp_bind [where m = "taxEntries tax"]
  proof (rule wp_taxEntries)
    fix es assume es: "goodEntries es" "entriesFor s es (taxMoves tax)"
    show "wp (bind (both (getOrCreateUserAccount business BUSINESS_WALLET)
            (both (getOrCreateUserAccount driver DRIVER_WALLET)
              (both (getPlatformAccount PLATFORM_REVENUE)
                (both (getOrCreateUserAccount business BUSINESS_CREDIT_PAYABLE)
                      (getPlatformAccount PLATFORM_GATEWAY_CLEARING))))) (\<lambda>(wallet, driverAccount, platformRevenue, payable, clearing).
     atomic
       (bind (postTransactionEntries (params BUSINESS_INVOICE_PAYMENT r fare md
          ([debit (acc_id wallet) fare,
            credit (acc_id driverAccount) (fare - commission - tax),
            credit (acc_id platformRevenue) commission] @ es))) (\<lambda>paymentTx.
        andThen (postTransactionEntries (params BUSINESS_INVOICE_PAYMENT (r @ '':settlement'') fare None
          [debit (acc_id payable) fare, credit (acc_id clearing) fare]))
        (return paymentTx))))) ?Q ?E s"
      unfolding wp_bind [where m = "both _ _"] wp_both [where Q = "\<lambda>_. _"] wp_both split_def fst_conv snd_conv
      by (rule wp_open [OF ok grown_refl], rule wp_open, assumption+, rule wp_platform, rule wp_open, assumption+,
          rule wp_platform, rule fin)
         (assumption | (insert es err [unfolded wp_both])[1],
          blast intro: entriesFor_grown grown_accountFor grown_trans sameLedger_grown)+
  qed (use c sameLedger_grown [OF ok] in simp_all)
qed

section \<open>Conservation\<close>

lemma lineNet_total:
  assumes "distinct (map acc_id accs)" and "\<And>e. e \<in> set es \<Longrightarrow> le_accountId e \<in> acc_id ` set accs"
  shows "sum_list (map (\<lambda>a. lineNet es (acc_id a)) accs) = lineSum es"
  using assms(2)
proof (induction es)
  case (Cons e es)
  have "sum_list (map (\<lambda>a. if acc_id a = le_accountId e then signed (le_direction e) (le_amount e) else 0) accs)
      = signed (le_direction e) (le_amount e)"
    using sum_list_delta [OF assms(1), where k = "le_accountId e"] Cons.prems [of e] by simp
  moreover have "lineNet (e # es) i = (if i = le_accountId e then signed (le_direction e) (le_amount e) else 0) + lineNet es i" for i
    by (auto simp: lineNet_def)
  ultimately show ?case using Cons.IH Cons.prems by (simp add: sum_list_map_add lineSum_def)
qed (simp add: lineNet_def lineSum_def)

lemma postedOn_total:
  assumes "distinct (map acc_id accs)"
    and "\<And>t e. t \<in> set txs \<Longrightarrow> e \<in> set (tx_entries t) \<Longrightarrow> le_accountId e \<in> acc_id ` set accs"
    and "\<And>t. t \<in> set txs \<Longrightarrow> lineSum (tx_entries t) = 0"
  shows "sum_list (map (\<lambda>a. postedOn txs (acc_id a)) accs) = 0"
  using assms(2,3)
proof (induction txs)
  case (Cons t txs)
  have "postedOn (t # txs) i = lineNet (tx_entries t) i + postedOn txs i" for i by (simp add: postedOn_def)
  moreover have "sum_list (map (\<lambda>a. lineNet (tx_entries t) (acc_id a)) accs) = 0"
    using lineNet_total [OF assms(1), of "tx_entries t"] Cons.prems by auto
  moreover have "sum_list (map (\<lambda>a. postedOn txs (acc_id a)) accs) = 0"
    using Cons.prems by (intro Cons.IH) auto
  ultimately show ?case by (simp add: sum_list_map_add)
qed (simp add: postedOn_def)

lemma ledgerOk_total:
  assumes "ledgerOk s"
  shows "sum_list (map acc_balance (accounts s)) = 0"
proof -
  have "map acc_balance (accounts s) = map (\<lambda>a. postedOn (transactions s) (acc_id a)) (accounts s)"
    using assms by (auto simp: ledgerOk_def reconciled_def)
  moreover have "sum_list (map (\<lambda>a. postedOn (transactions s) (acc_id a)) (accounts s)) = 0"
    using assms by (intro postedOn_total) (auto simp: ledgerOk_defs)
  ultimately show ?thesis by metis
qed

lemma ledgerOk_holding: "ledgerOk s \<Longrightarrow> 0 \<le> holding s (owned u ty)"
  by (auto simp: holding_def accountFor_def owned_def keyOf_def ledgerOk_def accountsOk_def
      dest: find_SomeD split: option.splits)

section \<open>Sequences of wallet calls\<close>

text \<open>One call of a method of \<open>WalletService\<close>.\<close>

datatype walletCommand =
    TopUp string rat string "string option" "metadata option"
  | PayForRide string string rat rat string "metadata option" rat
  | PayForDelivery string string rat rat string "metadata option" rat
  | CashRide string rat string "metadata option"
  | CashDelivery string rat string "metadata option"
  | Settle string rat string "metadata option"
  | ChargeBusiness string rat string "metadata option"
  | PayInvoice string string rat rat string "metadata option" rat
  | Withdraw string rat string "metadata option"
  | PayKilowatt string rat string "metadata option"
  | AccrueReferral rat string "metadata option"
  | PayReferral string AccountType rat string "metadata option"
  | Refund string string

fun runCommand :: "walletCommand \<Rightarrow> transaction op" where
  "runCommand (TopUp u x r key md) = topUp u x r key md"
| "runCommand (PayForRide a d f c r md tax) = payForRide a d f c r md tax"
| "runCommand (PayForDelivery a d f c r md tax) = payForDelivery a d f c r md tax"
| "runCommand (CashRide d x r md) = recordCashRideCommission d x r md"
| "runCommand (CashDelivery d x r md) = recordCashDeliveryCommission d x r md"
| "runCommand (Settle d x r md) = settleCommission d x r md"
| "runCommand (ChargeBusiness b x r md) = chargeBusinessForDelivery b x r md"
| "runCommand (PayInvoice b d f c r md tax) = payInvoice b d f c r md tax"
| "runCommand (Withdraw d x r md) = requestWithdrawal d x r md"
| "runCommand (PayKilowatt u x r md) = payForKilowattService u x r md"
| "runCommand (AccrueReferral x r md) = recordReferralAccrual x r md"
| "runCommand (PayReferral u ty x r md) = payReferralPayout u ty x r md"
| "runCommand (Refund i reason) = refund i reason"

text \<open>What the callers guarantee: whole-cent, non-negative amounts whose parts fit in the fare.\<close>

fun validCommand :: "walletCommand \<Rightarrow> bool" where
  "validCommand (TopUp u x r key md) = cents x"
| "validCommand (PayForRide a d f c r md tax) = validSplit f c tax"
| "validCommand (PayForDelivery a d f c r md tax) = validSplit f c tax"
| "validCommand (CashRide d x r md) = cents x"
| "validCommand (CashDelivery d x r md) = cents x"
| "validCommand (Settle d x r md) = cents x"
| "validCommand (ChargeBusiness b x r md) = cents x"
| "validCommand (PayInvoice b d f c r md tax) = validSplit f c tax"
| "validCommand (Withdraw d x r md) = cents x"
| "validCommand (PayKilowatt u x r md) = cents x"
| "validCommand (AccrueReferral x r md) = cents x"
| "validCommand (PayReferral u ty x r md) = cents x"
| "validCommand (Refund i reason) = True"

lemma keeps_payInvoice: "validSplit f c tax \<Longrightarrow> keeps ledgerOk (payInvoice b d f c r md tax)"
  unfolding keeps_iff_wp
  by (intro allI impI, erule (1) wp_conseq [OF wp_payInvoice])
     (auto simp: outcome_def sameLedger_def moved_def split: option.splits)

lemma keeps_runCommand: "validCommand c \<Longrightarrow> keeps ledgerOk (runCommand c)"
  using topUps.keeps_ledger ridePayments.keeps_ledger deliveryPayments.keeps_ledger
    cashRides.keeps_ledger cashDeliveries.keeps_ledger settlements.keeps_ledger
    businessCharges.keeps_ledger withdrawals.keeps_ledger kilowattPayments.keeps_ledger
    referralAccruals.keeps_ledger referralPayouts.keeps_ledger
  by (cases c) (auto simp: keeps_payInvoice keeps_refund)

text \<open>The calls of a history, one after the other, whether they return or throw.\<close>

definition runHistory :: "walletCommand list \<Rightarrow> db \<Rightarrow> db" where
  "runHistory cs s = fold (\<lambda>c s. snd (runCommand c s)) cs s"

lemma ledgerOk_runHistory: "ledgerOk s \<Longrightarrow> list_all validCommand cs \<Longrightarrow> ledgerOk (runHistory cs s)"
  unfolding runHistory_def
  by (induction cs arbitrary: s) (auto dest: keeps_runCommand keepsD)

text \<open>A database with the platform accounts that prisma/seed creates.\<close>

definition seededDb :: db where
  "seededDb = emptyDb\<lparr>uuidsUsed := 4, accounts := map (\<lambda>(n, ty).
     \<lparr>acc_id = uuids emptyDb n, acc_type = ty, acc_ownerId = None, acc_currency = ''NGN'', acc_balance = 0\<rparr>)
     [(0, PLATFORM_REVENUE), (1, PLATFORM_GATEWAY_CLEARING), (2, PLATFORM_REFERRAL_PAYABLE), (3, PLATFORM_TAX_PAYABLE)]\<rparr>"

lemma ledgerOk_seededDb [simp]: "ledgerOk seededDb"
proof -
  have "uuidsOk seededDb" using uuidsOk_emptyDb by (simp add: uuidsOk_def seededDb_def)
  moreover have "transactions emptyDb = []" "uuids emptyDb = (\<lambda>n. replicate n CHR ''u'')"
    by (simp_all add: emptyDb_def)
  ultimately show ?thesis
    by (simp add: ledgerOk_defs postedOn_def usedIds_def seededDb_def eval_nat_numeral lessThan_Suc)
qed

section \<open>Properties\<close>


definition exampleHistory :: "walletCommand list" where
  "exampleHistory = [TopUp ''r'' 100 ''t1'' None None, PayForRide ''r'' ''d'' 60 6 ''p1'' None 3,
     PayForRide ''r'' ''d'' 60 6 ''p2'' None 3, CashRide ''d'' 5 ''c1'' None, Withdraw ''d'' 20 ''w1'' None,
     Settle ''d'' 5 ''s1'' None]"

lemma exampleHistory_valid: "list_all validCommand exampleHistory"
  by code_simp


text \<open>The movements, and the reference and the change of holdings of each.\<close>

fun isMovement :: "walletCommand \<Rightarrow> bool" where
  "isMovement (PayInvoice b d f c r md tax) = False"
| "isMovement (Refund i reason) = False"
| "isMovement _ = True"

fun commandReference :: "walletCommand \<Rightarrow> string" where
  "commandReference (TopUp u x r key md) = r"
| "commandReference (PayForRide a d f c r md tax) = r"
| "commandReference (PayForDelivery a d f c r md tax) = r"
| "commandReference (CashRide d x r md) = r"
| "commandReference (CashDelivery d x r md) = r"
| "commandReference (Settle d x r md) = r"
| "commandReference (ChargeBusiness b x r md) = r"
| "commandReference (PayInvoice b d f c r md tax) = r"
| "commandReference (Withdraw d x r md) = r"
| "commandReference (PayKilowatt u x r md) = r"
| "commandReference (AccrueReferral x r md) = r"
| "commandReference (PayReferral u ty x r md) = r"
| "commandReference (Refund i reason) = refundReference i"

fun commandMoves :: "walletCommand \<Rightarrow> (accountKey \<times> rat) list" where
  "commandMoves (TopUp u x r key md) = transferMoves (platform PLATFORM_GATEWAY_CLEARING) (owned u RIDER_WALLET) x"
| "commandMoves (PayForRide a d f c r md tax) = splitMoves (owned a RIDER_WALLET) (owned d DRIVER_WALLET) f c tax"
| "commandMoves (PayForDelivery a d f c r md tax) = splitMoves (owned a RIDER_WALLET) (owned d DRIVER_WALLET) f c tax"
| "commandMoves (CashRide d x r md) = transferMoves (platform PLATFORM_GATEWAY_CLEARING) (owned d DRIVER_COMMISSION_PAYABLE) x"
| "commandMoves (CashDelivery d x r md) = transferMoves (platform PLATFORM_GATEWAY_CLEARING) (owned d DRIVER_COMMISSION_PAYABLE) x"
| "commandMoves (Settle d x r md) = transferMoves (owned d DRIVER_COMMISSION_PAYABLE) (platform PLATFORM_REVENUE) x"
| "commandMoves (ChargeBusiness b x r md) = transferMoves (platform PLATFORM_GATEWAY_CLEARING) (owned b BUSINESS_CREDIT_PAYABLE) x"
| "commandMoves (Withdraw d x r md) = transferMoves (owned d DRIVER_WALLET) (platform PLATFORM_GATEWAY_CLEARING) x"
| "commandMoves (PayKilowatt u x r md) = transferMoves (owned u RIDER_WALLET) (platform PLATFORM_REVENUE) x"
| "commandMoves (AccrueReferral x r md) = transferMoves (platform PLATFORM_GATEWAY_CLEARING) (platform PLATFORM_REFERRAL_PAYABLE) x"
| "commandMoves (PayReferral u ty x r md) = transferMoves (platform PLATFORM_REFERRAL_PAYABLE) (owned u ty) x"
| "commandMoves _ = []"

text \<open>Every movement in one interpretation: the contract by cases on the command.\<close>

interpretation movements: ledger_movement
  "\<lambda>c. validCommand c \<and> isMovement c" runCommand commandReference commandMoves
proof unfold_locales
  fix c s assume c: "validCommand c \<and> isMovement c" and ok: "ledgerOk s"
  show "wp (runCommand c) (\<lambda>t u. outcome (commandMoves c) (commandReference c) s u t) (\<lambda>_ u. sameLedger s u) s"
    using c topUps.contract [OF _ ok] ridePayments.contract [OF _ ok] deliveryPayments.contract [OF _ ok]
      cashRides.contract [OF _ ok] cashDeliveries.contract [OF _ ok] settlements.contract [OF _ ok]
      businessCharges.contract [OF _ ok] withdrawals.contract [OF _ ok] kilowattPayments.contract [OF _ ok]
      referralAccruals.contract [OF _ ok] referralPayouts.contract [OF _ ok]
    by (cases c) auto
next
  fix c assume "validCommand c \<and> isMovement c"
  then show "sum_list (map snd (commandMoves c)) = 0"
    by (cases c) (auto simp: transferMoves_balanced splitMoves_balanced)
qed


abbreviation exampleTopUp :: walletCommand where
  "exampleTopUp \<equiv> TopUp ''r'' 100 ''t1'' None None"


text \<open>C15: a refund undoes exactly what it refunds, once: after a movement that recorded a new
  transaction, a successful refund of that transaction gives every holding back its value from
  before the movement, marks the transaction REVERSED, and any further refund of it throws a
  conflict and changes nothing.\<close>

theorem refund_round_trip:
  assumes "validCommand c" and "isMovement c" and "ledgerOk s" and "\<not> hasReference s (commandReference c)"
    and "runCommand c s = (Inr t, u)" and "\<not> hasReference u (refundReference (tx_id t))"
    and "refund (tx_id t) reason u = (Inr t', v)"
  shows "(\<forall>k. holding v k = holding s k)
    \<and> List.find (\<lambda>x. tx_id x = tx_id t) (transactions v) = Some (t\<lparr>tx_status := TransactionStatus.REVERSED\<rparr>)
    \<and> refund (tx_id t) reason' v = (Inl (ConflictException ''Transaction has already been refunded''), v)"
proof -
  have m: "moved (commandMoves c) (commandReference c) s u t"
    using movements.first_run [OF _ assms(3,4,5)] assms(1,2) by simp
  then have ok: "ledgerOk u" and "t \<in> set (transactions u)" by (simp_all add: moved_def)
  then have t: "List.find (\<lambda>x. tx_id x = tx_id t) (transactions u) = Some t"
    by (intro find_key) (simp_all add: ledgerOk_def transactionsOk_def)
  have "refunded u v (tx_id t) t'" by (rule wp_Inr [OF wp_refund [OF ok assms(6)] assms(7)])
  with t have r: "List.find (\<lambda>x. tx_id x = tx_id t) (transactions v) = Some (t\<lparr>tx_status := TransactionStatus.REVERSED\<rparr>)"
    "\<forall>k. holding v k = holding u k - effectOn u t k" by (auto simp: refunded_def)
  have "\<forall>k. holding v k = holding s k" using r(2) m by (simp add: moved_def)
  moreover have "refund (tx_id t) reason' v = (Inl (ConflictException ''Transaction has already been refunded''), v)"
    using r(1) by (simp add: refund_def action_defs)
  ultimately show ?thesis using r(1) by blast
qed

lemma refund_round_trip_witness:
  "let u = after (runCommand exampleTopUp) seededDb; t = result (runCommand exampleTopUp) seededDb;
       v = after (refund (tx_id t) ''error'') u
   in holding u (owned ''r'' RIDER_WALLET) = 100 \<and> holding v (owned ''r'' RIDER_WALLET) = 0
      \<and> fst (refund (tx_id t) ''again'' v) = Inl (ConflictException ''Transaction has already been refunded'')"
proof -
  let ?m = "runCommand exampleTopUp"
  let ?u = "after ?m seededDb"
  let ?i = "tx_id (result ?m seededDb)"
  have ok: "succeeds ?m seededDb" "succeeds (refund ?i ''error'') ?u" "validCommand exampleTopUp"
    "\<not> hasReference seededDb (commandReference exampleTopUp)" "\<not> hasReference ?u (refundReference ?i)"
    by code_simp+
  have h: "holding ?u (owned ''r'' RIDER_WALLET) = 100" "holding seededDb (owned ''r'' RIDER_WALLET) = 0" by code_simp+
  show ?thesis
    using refund_round_trip [OF ok(3) _ ledgerOk_seededDb ok(4) succeeds_run [OF ok(1)] ok(5) succeeds_run [OF ok(2)],
        where reason' = "''again''"] h
    by (simp del: split_paired_All runCommand.simps)
qed

text \<open>C14: a completed ride is shared out exactly: when the rider pays a fare by wallet under a new
  reference, the rider loses the fare, the driver gets the fare less commission and tax, platform
  revenue gets the commission and the tax account the tax; and a rider who has less than the fare is
  refused, with no holding changed.\<close>

theorem ride_payment_shares:
  assumes "validSplit fare commission tax" and "ledgerOk s" and "\<not> hasReference s r"
  shows "case payForRide rider driver fare commission r md tax s of
      (Inl e, u) \<Rightarrow> \<forall>k. holding u k = holding s k
    | (Inr t, u) \<Rightarrow> fare \<le> holding s (owned rider RIDER_WALLET)
         \<and> holding u (owned rider RIDER_WALLET) = holding s (owned rider RIDER_WALLET) - fare
         \<and> holding u (owned driver DRIVER_WALLET) = holding s (owned driver DRIVER_WALLET) + (fare - commission - tax)
         \<and> holding u (platform PLATFORM_REVENUE) = holding s (platform PLATFORM_REVENUE) + commission
         \<and> holding u (platform PLATFORM_TAX_PAYABLE) = holding s (platform PLATFORM_TAX_PAYABLE) + tax"
proof -
  let ?p = "(rider, driver, fare, commission, r, md, tax)"
  let ?ms = "splitMoves (owned rider RIDER_WALLET) (owned driver DRIVER_WALLET) fare commission tax"
  have Inl: "\<forall>k. holding u k = holding s k" if "payForRide rider driver fare commission r md tax s = (Inl e, u)" for e u
    using ridePayments.failure_moves_nothing [of ?p s e u] assms that by (simp add: sameLedger_def)
  have Inr: "moved ?ms r s u t \<and> 0 \<le> holding u (owned rider RIDER_WALLET)"
    if "payForRide rider driver fare commission r md tax s = (Inr t, u)" for t u
    using ridePayments.first_run [of ?p s t u] assms that by (simp add: moved_def ledgerOk_holding)
  have changes: "changeOn ?ms (owned rider RIDER_WALLET) = - fare"
    "changeOn ?ms (owned driver DRIVER_WALLET) = fare - commission - tax"
    "changeOn ?ms (platform PLATFORM_REVENUE) = commission" "changeOn ?ms (platform PLATFORM_TAX_PAYABLE) = tax"
    using assms(1) by (auto simp: splitMoves_def taxMoves_def owned_def platform_def validSplit_def cents_def)
  have shares: "fare \<le> holding s (owned rider RIDER_WALLET)
         \<and> holding u (owned rider RIDER_WALLET) = holding s (owned rider RIDER_WALLET) - fare
         \<and> holding u (owned driver DRIVER_WALLET) = holding s (owned driver DRIVER_WALLET) + (fare - commission - tax)
         \<and> holding u (platform PLATFORM_REVENUE) = holding s (platform PLATFORM_REVENUE) + commission
         \<and> holding u (platform PLATFORM_TAX_PAYABLE) = holding s (platform PLATFORM_TAX_PAYABLE) + tax"
    if "payForRide rider driver fare commission r md tax s = (Inr t, u)" for t u
  proof -
    have h: "holding u k = holding s k + changeOn ?ms k" for k using Inr [OF that] unfolding moved_def by blast
    show ?thesis using Inr [OF that] by (simp add: h changes)
  qed
  show ?thesis
    by (simp only: split: prod.split sum.split, intro allI conjI impI) (use Inl shares in blast)+
qed

lemma ride_payment_shares_witness:
  "let u = after (payForRide ''r'' ''d'' 60 6 ''p1'' None 3) (after (runCommand exampleTopUp) seededDb)
   in holding u (owned ''r'' RIDER_WALLET) = 40 \<and> holding u (owned ''d'' DRIVER_WALLET) = 51
      \<and> holding u (platform PLATFORM_TAX_PAYABLE) = 3"
proof -
  let ?s = "after (runCommand exampleTopUp) seededDb"
  have s: "ledgerOk ?s" using keepsD [OF keeps_runCommand ledgerOk_seededDb, of exampleTopUp] by (simp add: after_def cents_def is_cents_def)
  have v: "validSplit 60 6 3" "\<not> hasReference ?s ''p1''" "succeeds (payForRide ''r'' ''d'' 60 6 ''p1'' None 3) ?s" by code_simp+
  have h: "holding ?s (owned ''r'' RIDER_WALLET) = 100" "holding ?s (owned ''d'' DRIVER_WALLET) = 0"
    "holding ?s (platform PLATFORM_TAX_PAYABLE) = 0" by code_simp+
  show ?thesis
    using ride_payment_shares [OF v(1) s v(2), where rider = "''r''" and driver = "''d''" and md = None]
    unfolding succeeds_run [OF v(3)] Let_def by (simp add: h del: runCommand.simps)
qed

text \<open>The cash-trip cap counts every trip once: recording the commission of a cash ride adds the
  amount to what the driver owes and one to the driver's count of unsettled cash trips, but a replay
  of the same ride changes neither.\<close>

theorem cash_ride_counted_once:
  assumes "cents amount" and "ledgerOk s" and "recordCashRideCommission driver amount r md s = (Inr t, u)"
  shows "driverStatuses u = countedCash s driver r
    \<and> holding u (owned driver DRIVER_COMMISSION_PAYABLE) =
        holding s (owned driver DRIVER_COMMISSION_PAYABLE) + (if hasReference s r then 0 else amount)"
proof -
  have "outcome (transferMoves (platform PLATFORM_GATEWAY_CLEARING) (owned driver DRIVER_COMMISSION_PAYABLE) amount) r s u t
      \<and> driverStatuses u = countedCash s driver r"
    using wp_cash_commission [OF assms(1,2), of driver r RIDE_PAYMENT_CASH md] assms(3)
    unfolding recordCashRideCommission_def [symmetric] by (rule wp_Inr)
  then show ?thesis
    by (auto simp: outcome_def sameLedger_def moved_def hasReference_find transferMoves_def platform_def owned_def
        split: option.splits)
qed

text \<open>C21: a settlement lifts the cap only when nothing is left to pay: settling commission takes the
  amount from the driver's debt, never more than the debt, and resets the count of unsettled cash
  trips exactly when the debt is then zero and the settlement is not a replay.\<close>

theorem settlement_resets_cap:
  assumes "cents amount" and "ledgerOk s" and "\<not> hasReference s r"
    and "settleCommission driver amount r md s = (Inr t, u)"
  shows "amount \<le> holding s (owned driver DRIVER_COMMISSION_PAYABLE)
    \<and> holding u (owned driver DRIVER_COMMISSION_PAYABLE) = holding s (owned driver DRIVER_COMMISSION_PAYABLE) - amount
    \<and> driverStatuses u =
        (if amount = holding s (owned driver DRIVER_COMMISSION_PAYABLE)
         then updateWhere (\<lambda>d. ds_userId d = driver) (\<lambda>d. d\<lparr>ds_unsettledCashRideCount := 0\<rparr>) (driverStatuses s)
         else driverStatuses s)"
proof -
  have "outcome (transferMoves (owned driver DRIVER_COMMISSION_PAYABLE) (platform PLATFORM_REVENUE) amount) r s u t
      \<and> driverStatuses u = countedSettlement s u driver r"
    by (rule wp_Inr [OF wp_settleCommission [OF assms(1,2)] assms(4)])
  then have m: "moved (transferMoves (owned driver DRIVER_COMMISSION_PAYABLE) (platform PLATFORM_REVENUE) amount) r s u t"
    and d: "driverStatuses u = countedSettlement s u driver r"
    using assms(3) by (simp_all add: outcome_def hasReference_find)
  have h: "holding u (owned driver DRIVER_COMMISSION_PAYABLE) = holding s (owned driver DRIVER_COMMISSION_PAYABLE) - amount"
    using m by (simp add: moved_def transferMoves_def platform_def owned_def)
  moreover have "0 \<le> holding u (owned driver DRIVER_COMMISSION_PAYABLE)"
    using m ledgerOk_holding by (simp add: moved_def)
  ultimately show ?thesis using d assms(3) by (simp add: countedSettlement_def)
qed

lemma settlement_resets_cap_witness:
  "let s = seededDb\<lparr>driverStatuses := [\<lparr>ds_userId = ''d'', ds_availability = ONLINE, ds_serviceMode = RIDES,
         ds_vehicleType = None, ds_unsettledCashRideCount = 2\<rparr>]\<rparr>;
       u = after (recordCashRideCommission ''d'' 5 ''c1'' None) s;
       v = after (settleCommission ''d'' 5 ''s1'' None) u
   in map ds_unsettledCashRideCount (driverStatuses v) = [0] \<and> holding v (owned ''d'' DRIVER_COMMISSION_PAYABLE) = 0"
proof -
  let ?s = "seededDb\<lparr>driverStatuses := [\<lparr>ds_userId = ''d'', ds_availability = ONLINE, ds_serviceMode = RIDES,
         ds_vehicleType = None, ds_unsettledCashRideCount = 2\<rparr>]\<rparr>"
  let ?u = "after (recordCashRideCommission ''d'' 5 ''c1'' None) ?s"
  have s: "ledgerOk ?s" by (rule ledgerOk_cong [THEN iffD2, OF _ _ _ _ ledgerOk_seededDb]) simp_all
  have c: "cents 5" by code_simp
  have u: "ledgerOk ?u" using keepsD [OF cashRides.keeps_ledger s, of "(''d'', 5, ''c1'', None)"] c by (simp add: after_def)
  have ok: "\<not> hasReference ?u ''s1''" "succeeds (settleCommission ''d'' 5 ''s1'' None) ?u" by code_simp+
  have "map ds_unsettledCashRideCount (updateWhere (\<lambda>d. ds_userId d = ''d'') (\<lambda>d. d\<lparr>ds_unsettledCashRideCount := 0\<rparr>)
          (driverStatuses ?u)) = [0]"
    "holding ?u (owned ''d'' DRIVER_COMMISSION_PAYABLE) = 5" by code_simp+
  then show ?thesis using settlement_resets_cap [OF c u ok(1) succeeds_run [OF ok(2)]] by simp
qed

text \<open>C16: an invoice is paid and its credit cleared together: a business paying an invoice under new
  references loses the fare from its wallet and the same amount from its credit debt, the driver and
  the platform get their shares, and if either half fails nothing moves.\<close>

theorem invoice_paid_and_cleared:
  assumes "validSplit fare commission tax" and "ledgerOk s"
    and "\<not> hasReference s r" and "\<not> hasReference s (r @ '':settlement'')"
  shows "case payInvoice business driver fare commission r md tax s of
      (Inl e, u) \<Rightarrow> transactions u = transactions s \<and> (\<forall>k. holding u k = holding s k)
    | (Inr t, u) \<Rightarrow> ledgerOk u \<and> length (transactions u) = length (transactions s) + 2
         \<and> holding u (owned business BUSINESS_WALLET) = holding s (owned business BUSINESS_WALLET) - fare
         \<and> holding u (owned business BUSINESS_CREDIT_PAYABLE) = holding s (owned business BUSINESS_CREDIT_PAYABLE) - fare
         \<and> holding u (owned driver DRIVER_WALLET) = holding s (owned driver DRIVER_WALLET) + (fare - commission - tax)
         \<and> holding u (platform PLATFORM_REVENUE) = holding s (platform PLATFORM_REVENUE) + commission"
proof -
  let ?pay = "splitMoves (owned business BUSINESS_WALLET) (owned driver DRIVER_WALLET) fare commission tax"
  let ?clear = "transferMoves (owned business BUSINESS_CREDIT_PAYABLE) (platform PLATFORM_GATEWAY_CLEARING) fare"
  have changes: "changeOn ?pay (owned business BUSINESS_WALLET) = - fare" "changeOn ?clear (owned business BUSINESS_WALLET) = 0"
    "changeOn ?pay (owned business BUSINESS_CREDIT_PAYABLE) = 0" "changeOn ?clear (owned business BUSINESS_CREDIT_PAYABLE) = - fare"
    "changeOn ?pay (owned driver DRIVER_WALLET) = fare - commission - tax" "changeOn ?clear (owned driver DRIVER_WALLET) = 0"
    "changeOn ?pay (platform PLATFORM_REVENUE) = commission" "changeOn ?clear (platform PLATFORM_REVENUE) = 0"
    by (auto simp: splitMoves_def transferMoves_def taxMoves_def owned_def platform_def)
  have new: "outcome ?clear (r @ '':settlement'') m u t' \<Longrightarrow> moved ?pay r s m t \<Longrightarrow> moved ?clear (r @ '':settlement'') m u t'" for m u t t'
    using assms(4) by (auto simp: outcome_def moved_def hasReference_find find_append split: option.splits if_splits)
  have both: "ledgerOk u \<and> length (transactions u) = length (transactions s) + 2
         \<and> (\<forall>k. holding u k = holding s k + changeOn ?pay k + changeOn ?clear k)"
    if "outcome ?pay r s m t" "outcome ?clear (r @ '':settlement'') m u t'" for m t u t'
  proof -
    have p: "moved ?pay r s m t" using that(1) assms(3) by (simp add: outcome_def hasReference_find)
    from new [OF that(2) p] p show ?thesis by (simp add: moved_def del: split_paired_All)
  qed
  show ?thesis
  proof (cases "payInvoice business driver fare commission r md tax s")
    case (Pair res u)
    show ?thesis
    proof (cases res)
      case (Inl e)
      then show ?thesis using wp_Inl [OF wp_payInvoice [OF assms(1,2)]] Pair by (simp add: sameLedger_def)
    next
      case (Inr t)
      then obtain m t' where "outcome ?pay r s m t" "outcome ?clear (r @ '':settlement'') m u t'"
        using wp_Inr [OF wp_payInvoice [OF assms(1,2)]] Pair by blast
      note b = both [OF this]
      have h: "holding u k = holding s k + changeOn ?pay k + changeOn ?clear k" for k using b by blast
      show ?thesis using b Pair Inr by (simp add: h changes del: split_paired_All)
    qed
  qed
qed

definition invoiceHistory :: "walletCommand list" where
  "invoiceHistory = [PayReferral ''b'' BUSINESS_WALLET 100 ''r1'' None, ChargeBusiness ''b'' 60 ''a1'' None]"

lemma invoice_paid_and_cleared_witness:
  "let s = runHistory invoiceHistory seededDb; u = after (payInvoice ''b'' ''d'' 60 6 ''i1'' None 3) s
   in holding u (owned ''b'' BUSINESS_WALLET) = 40 \<and> holding u (owned ''b'' BUSINESS_CREDIT_PAYABLE) = 0
      \<and> holding u (owned ''d'' DRIVER_WALLET) = 51"
proof -
  let ?s = "runHistory invoiceHistory seededDb"
  have v: "validSplit 60 6 3" "\<not> hasReference ?s ''i1''" "\<not> hasReference ?s (''i1'' @ '':settlement'')"
    "succeeds (payInvoice ''b'' ''d'' 60 6 ''i1'' None 3) ?s" "list_all validCommand invoiceHistory" by code_simp+
  have h: "holding ?s (owned ''b'' BUSINESS_WALLET) = 100" "holding ?s (owned ''b'' BUSINESS_CREDIT_PAYABLE) = 60"
    "holding ?s (owned ''d'' DRIVER_WALLET) = 0" by code_simp+
  show ?thesis
    using invoice_paid_and_cleared [OF v(1) ledgerOk_runHistory [OF ledgerOk_seededDb v(5)] v(2,3), of "''b''" "''d''" None]
    unfolding succeeds_run [OF v(4)] Let_def by (simp add: h)
qed

end
