(* ===== verification/Caches.thy ===== *)
theory Caches
  imports Pricing
begin

text \<open>
  The cache-aside pattern of \<open>PricingService\<close>, \<open>PlatformConfigService\<close> and
  \<open>ServiceAreasService\<close> as a contract: a read serves a fresh entry or loads the table and stores
  it; a write changes the table and drops the entry.  From the contract: along any history of
  reads, writes and passing time, every read returns what the table holds at that moment.  The
  contract is discharged for the four caches of the code.
\<close>

section \<open>The contract\<close>

text \<open>A fresh entry holds what the table holds.\<close>

definition coherent :: "(db \<Rightarrow> 'v) \<Rightarrow> (db \<Rightarrow> ('v \<times> instant) option) \<Rightarrow> db \<Rightarrow> bool" where
  "coherent source entry s \<longleftrightarrow> (\<forall>v. fresh s (entry s) = Some v \<longrightarrow> v = source s)"

datatype 'c cacheEvent = Load | Write 'c | Tick nat

fun runCacheEvent :: "'v op \<Rightarrow> ('c \<Rightarrow> unit op) \<Rightarrow> 'c cacheEvent \<Rightarrow> db \<Rightarrow> db" where
  "runCacheEvent load store Load s = snd (load s)"
| "runCacheEvent load store (Write c) s = snd (store c s)"
| "runCacheEvent load store (Tick n) s = s\<lparr>now := now s + int n\<rparr>"

definition cacheHistory :: "'v op \<Rightarrow> ('c \<Rightarrow> unit op) \<Rightarrow> 'c cacheEvent list \<Rightarrow> db \<Rightarrow> db" where
  "cacheHistory load store es s = fold (runCacheEvent load store) es s"

locale cache_aside =
  fixes source :: "db \<Rightarrow> 'v"
    and entry :: "db \<Rightarrow> ('v \<times> instant) option"
    and load :: "'v op"
  assumes hit: "fresh s (entry s) = Some v \<Longrightarrow> load s = (Inr v, s)"
    and miss: "fresh s (entry s) = None \<Longrightarrow>
      \<exists>t e. load s = (Inr (source s), t) \<and> source t = source s \<and> entry t = Some (source s, e)"
    and clock: "source (s\<lparr>now := n\<rparr>) = source s" "entry (s\<lparr>now := n\<rparr>) = entry s"
begin

lemma load_source:
  assumes "coherent source entry s"
  shows "fst (load s) = Inr (source s) \<and> coherent source entry (snd (load s)) \<and> source (snd (load s)) = source s"
proof (cases "fresh s (entry s)")
  case None
  then obtain t e where "load s = (Inr (source s), t)" "source t = source s" "entry t = Some (source s, e)"
    using miss by blast
  then show ?thesis by (simp add: coherent_def fresh_def)
next
  case (Some v)
  then show ?thesis using assms hit [OF Some] by (simp add: coherent_def)
qed

lemma tick_coherent: "coherent source entry s \<Longrightarrow> coherent source entry (s\<lparr>now := now s + int n\<rparr>)"
  by (auto simp: coherent_def clock fresh_def split: option.splits if_splits)

end

locale invalidating_cache = cache_aside source entry load
  for source :: "db \<Rightarrow> 'v" and entry :: "db \<Rightarrow> ('v \<times> instant) option" and load :: "'v op" +
  fixes store :: "'c \<Rightarrow> unit op"
  assumes invalidates: "entry (snd (store c s)) = None
      \<or> source (snd (store c s)) = source s \<and> entry (snd (store c s)) = entry s \<and> now (snd (store c s)) = now s"
begin

lemma write_coherent: "coherent source entry s \<Longrightarrow> coherent source entry (snd (store c s))"
  using invalidates [of c s] unfolding coherent_def by (elim disjE conjE) (simp_all add: fresh_def split: option.splits)

lemma history_coherent: "coherent source entry s \<Longrightarrow> coherent source entry (cacheHistory load store es s)"
  unfolding cacheHistory_def
proof (induction es arbitrary: s)
  case (Cons e es)
  then have "coherent source entry (runCacheEvent load store e s)"
    by (cases e) (simp_all add: load_source write_coherent tick_coherent)
  with Cons.IH show ?case by simp
qed simp

lemma read_after_history:
  assumes "coherent source entry s"
  shows "fst (load (cacheHistory load store es s)) = Inr (source (cacheHistory load store es s))"
  using load_source [OF history_coherent [OF assms]] by blast

end

section \<open>The four caches\<close>

abbreviation unitOf :: "'a op \<Rightarrow> unit op" where
  "unitOf m \<equiv> bind m (\<lambda>_. return ())"

datatype tariffCommand = CreateTariff tariffDto | UpdateTariff string tariffPatch | DeactivateTariff string

fun runTariffCommand :: "tariffCommand \<Rightarrow> unit op" where
  "runTariffCommand (CreateTariff dto) = unitOf (createTariff dto)"
| "runTariffCommand (UpdateTariff i dto) = unitOf (updateTariff i dto)"
| "runTariffCommand (DeactivateTariff i) = unitOf (deactivateTariff i)"

datatype commissionCommand = CreateRule string "string option" rat | UpdateRule string "string option" "string option" "rat option" "bool option"

fun runCommissionCommand :: "commissionCommand \<Rightarrow> unit op" where
  "runCommissionCommand (CreateRule st v rate) = unitOf (createCommissionRule st v rate)"
| "runCommissionCommand (UpdateRule i st v rate active) = unitOf (updateCommissionRule i st v rate active)"

datatype areaCommand =
    CreateArea string "(rat \<times> rat) list list" "bool option"
  | UpdateArea string "string option" "(rat \<times> rat) list list option" "bool option"
  | RemoveArea string

fun runAreaCommand :: "areaCommand \<Rightarrow> unit op" where
  "runAreaCommand (CreateArea n c a) = unitOf (createArea n c a)"
| "runAreaCommand (UpdateArea i n c a) = unitOf (updateArea i n c a)"
| "runAreaCommand (RemoveArea i) = removeArea i"

definition activeTariffs :: "db \<Rightarrow> tariff list" where
  "activeTariffs s = filter tf_isActive (tariffs s)"

definition activeRules :: "db \<Rightarrow> commissionRule list" where
  "activeRules s = filter cr_isActive (commissionRules s)"

definition activeAreas :: "db \<Rightarrow> serviceArea list" where
  "activeAreas s = filter sa_isActive (serviceAreas s)"

definition configValue :: "string \<Rightarrow> rat \<Rightarrow> db \<Rightarrow> rat" where
  "configValue key d s = (case map_of (platformConfig s) key of Some v \<Rightarrow> v | None \<Rightarrow> d)"

lemma wp_snd: "wp m (\<lambda>_. P) (\<lambda>_. P) s \<Longrightarrow> P (snd (m s))"
  by (simp add: wp_final_state)

lemmas tariff_writes = createTariff_def updateTariff_def deactivateTariff_def writeTariff_def
  findTariffOrThrow_def invalidateTariffCache_def

lemma find_updated:
  assumes "\<And>r. key (f r) = key r" and "List.find (\<lambda>r. key r = i) t = Some x"
  shows "List.find (\<lambda>r. key r = i) (updateWhere (\<lambda>r. key r = i) f t) = Some (f x)"
  using assms by (simp add: find_updateWhere_key)

interpretation tariffCache: invalidating_cache activeTariffs cachedTariffs getActiveTariffs runTariffCommand
proof unfold_locales
  fix c s
  have "wp (runTariffCommand c) (\<lambda>_ t. cachedTariffs t = None) (\<lambda>_ t. t = s) s"
    by (cases c) (auto simp: wp_simps tariff_writes Let_def patchTariff_def find_updated [where key = tf_id] split: option.splits)
  then show "cachedTariffs (snd (runTariffCommand c s)) = None
      \<or> activeTariffs (snd (runTariffCommand c s)) = activeTariffs s
        \<and> cachedTariffs (snd (runTariffCommand c s)) = cachedTariffs s \<and> now (snd (runTariffCommand c s)) = now s"
    by (auto simp: wp_def split: prod.splits sum.splits)
qed (auto simp: getActiveTariffs_def activeTariffs_def action_defs)

lemmas commission_writes = createCommissionRule_def updateCommissionRule_def invalidateCommissionCache_def

interpretation commissionCache: invalidating_cache activeRules cachedCommissions getActiveCommissionRules runCommissionCommand
proof unfold_locales
  fix c s
  have "wp (runCommissionCommand c) (\<lambda>_ t. cachedCommissions t = None) (\<lambda>_ t. t = s) s"
    by (cases c) (auto simp: wp_simps commission_writes Let_def find_updated [where key = cr_id] split: option.splits)
  then show "cachedCommissions (snd (runCommissionCommand c s)) = None
      \<or> activeRules (snd (runCommissionCommand c s)) = activeRules s
        \<and> cachedCommissions (snd (runCommissionCommand c s)) = cachedCommissions s
        \<and> now (snd (runCommissionCommand c s)) = now s"
    by (auto simp: wp_def split: prod.splits sum.splits)
qed (auto simp: getActiveCommissionRules_def activeRules_def action_defs)

lemmas area_writes = createArea_def updateArea_def removeArea_def findAreaOrThrow_def invalidateAreaCache_def

lemma wp_normalizePolygon:
  "wp (normalizePolygon c) Q E s =
     (case c of [] \<Rightarrow> E (BadRequestException ''Polygon ring must have at least 4 points (3 unique + closing point)'') s
      | ring # _ \<Rightarrow> if length ring < 4
          then E (BadRequestException ''Polygon ring must have at least 4 points (3 unique + closing point)'') s
          else Q [if hd ring = last ring then ring else ring @ [hd ring]] s)"
  by (simp add: normalizePolygon_def wp_simps split: list.splits)

interpretation areaCache: invalidating_cache activeAreas cachedAreas getActiveAreas runAreaCommand
proof unfold_locales
  fix c s
  have "wp (runAreaCommand c) (\<lambda>_ t. cachedAreas t = None) (\<lambda>_ t. t = s) s"
  proof (cases c)
    case (CreateArea n p a)
    then show ?thesis by (simp add: wp_simps area_writes Let_def wp_normalizePolygon split: list.splits)
  next
    case (UpdateArea i n p a)
    then show ?thesis
      by (cases "List.find (\<lambda>a. sa_id a = i) (serviceAreas s)"; cases p)
         (simp_all add: wp_simps area_writes wp_normalizePolygon find_updateWhere_key [where key = sa_id]
            split: list.splits)
  next
    case (RemoveArea i)
    then show ?thesis by (simp add: wp_simps area_writes split: option.splits)
  qed
  then show "cachedAreas (snd (runAreaCommand c s)) = None
      \<or> activeAreas (snd (runAreaCommand c s)) = activeAreas s
        \<and> cachedAreas (snd (runAreaCommand c s)) = cachedAreas s \<and> now (snd (runAreaCommand c s)) = now s"
    by (auto simp: wp_def split: prod.splits sum.splits)
qed (auto simp: getActiveAreas_def activeAreas_def action_defs)

interpretation configCache: invalidating_cache "configValue key d" "\<lambda>s. map_of (cachedConfig s) key"
  "getConfig key d" "\<lambda>(k, v). setConfig k v" for key d
proof unfold_locales
  fix c :: "string \<times> rat" and s
  obtain k v where c: "c = (k, v)" by (cases c)
  show "map_of (cachedConfig (snd ((case c of (k, v) \<Rightarrow> setConfig k v) s))) key = None
      \<or> configValue key d (snd ((case c of (k, v) \<Rightarrow> setConfig k v) s)) = configValue key d s
        \<and> map_of (cachedConfig (snd ((case c of (k, v) \<Rightarrow> setConfig k v) s))) key = map_of (cachedConfig s) key
        \<and> now (snd ((case c of (k, v) \<Rightarrow> setConfig k v) s)) = now s"
    unfolding c by (cases "k = key") (simp_all add: setConfig_def configValue_def action_defs update_conv' delete_conv')
qed (auto simp: getConfig_def configValue_def action_defs update_conv' split: option.splits)

end
