(* ===== verification/PricingProps.thy ===== *)
theory PricingProps
  imports Caches Quote
begin

text \<open>
  The properties of pricing: the most specific tariff wins; changes to tariffs, rules, areas and
  settings take effect at the next read; fares, discounts and taxes add up to the cent; the quote
  recommends the cheapest option; and what deleting a service area does to its tariffs.
\<close>

section \<open>Tariff resolution\<close>

lemma sort_key_first:
  assumes "sort_key f xs = t # ts"
  shows "t \<in> set xs" and "\<forall>x \<in> set xs. f t \<le> f x" and "List.find (\<lambda>x. f x = f t) xs = Some t"
proof -
  have set: "set xs = insert t (set ts)" using assms set_sort [of f xs] by simp
  then show "t \<in> set xs" by simp
  have "sorted (map f (t # ts))" using sorted_sort_key [of f xs] assms by simp
  then show "\<forall>x \<in> set xs. f t \<le> f x" using assms set_sort [of f xs] by auto
  have "filter (\<lambda>x. f x = f t) xs = t # filter (\<lambda>x. f x = f t) ts" using sort_key_stable [of f "f t" xs] assms by simp
  then show "List.find (\<lambda>x. f x = f t) xs = Some t" by (induction xs) (auto split: if_splits)
qed

lemma resolveTariff_spec:
  "case resolveTariff ts vehicleType area serviceType of
     None \<Rightarrow> \<forall>t \<in> set ts. \<not> tariffCandidate vehicleType area serviceType t
   | Some t \<Rightarrow> t \<in> set ts \<and> tariffCandidate vehicleType area serviceType t
       \<and> (\<forall>u \<in> set ts. tariffCandidate vehicleType area serviceType u \<longrightarrow> tariffScore area serviceType u \<le> tariffScore area serviceType t)
       \<and> List.find (\<lambda>u. tariffCandidate vehicleType area serviceType u \<and> tariffScore area serviceType u = tariffScore area serviceType t) ts = Some t"
proof (cases "sort_key (\<lambda>t. - int (tariffScore area serviceType t)) (filter (tariffCandidate vehicleType area serviceType) ts)")
  case Nil
  then have "filter (tariffCandidate vehicleType area serviceType) ts = []" by (metis set_sort set_empty)
  then show ?thesis using Nil by (simp add: resolveTariff_def filter_empty_conv)
next
  case (Cons t us)
  have "List.find P (filter Q xs) = List.find (\<lambda>x. Q x \<and> P x) xs" for P Q :: "tariff \<Rightarrow> bool" and xs
    by (induction xs) auto
  then show ?thesis using sort_key_first [OF Cons] Cons by (auto simp: resolveTariff_def)
qed

definition carTariff :: tariff where
  "carTariff = \<lparr>tf_id = ''t1'', tf_vehicleType = ''CAR'', tf_serviceAreaId = Some ''lekki'', tf_baseFare = 500,
     tf_perKmRate = 120, tf_perMinuteRate = 30, tf_minimumFare = 800, tf_cancellationFee = 500, tf_currency = ''NGN'',
     tf_isActive = True, tf_serviceType = Some TariffServiceType.RIDE, tf_displayName = None, tf_description = None, tf_sortOrder = 0,
     tf_durationMultiplier = 1\<rparr>"



section \<open>Caches\<close>


definition pricedDb :: db where
  "pricedDb = emptyDb\<lparr>tariffs := [carTariff],
     serviceAreas := [\<lparr>sa_id = ''lekki'', sa_name = ''Lekki'', sa_polygon = [[(3, 6), (4, 6), (4, 7), (3, 7), (3, 6)]], sa_isActive = True\<rparr>],
     commissionRules := [\<lparr>cr_id = ''c1'', cr_serviceType = ''RIDE'', cr_vehicleType = None, cr_rate = 18 / 100, cr_isActive = True\<rparr>],
     platformConfig := [(''fareTaxRate'', 75 / 1000)]\<rparr>"

lemma coherent_cold:
  "cachedTariffs s = None \<Longrightarrow> coherent activeTariffs cachedTariffs s"
  "cachedCommissions s = None \<Longrightarrow> coherent activeRules cachedCommissions s"
  "cachedAreas s = None \<Longrightarrow> coherent activeAreas cachedAreas s"
  "cachedConfig s = [] \<Longrightarrow> coherent (configValue key d) (\<lambda>s. map_of (cachedConfig s) key) s"
  by (simp_all add: coherent_def fresh_def)

lemma pricedDb_cold [simp]:
  "cachedTariffs pricedDb = None" "cachedCommissions pricedDb = None" "cachedAreas pricedDb = None" "cachedConfig pricedDb = []"
  by (simp_all add: pricedDb_def emptyDb_def)


section \<open>Fares\<close>

text \<open>C25: a fare adds up to the cent: for a non-negative fare, discount and tax rate, every part of the
  breakdown is a whole number of cents, the discount never exceeds the fare, the tax is the rounded
  tax on what is left, and the total is subtotal minus discount plus tax, never negative.\<close>

theorem fare_adds_up:
  assumes "0 \<le> subtotal" and "0 \<le> promoDiscount" and "0 \<le> rate"
  shows "let b = fareBreakdownAt rate subtotal promoDiscount in
      fb_total b = fb_subtotal b - fb_promoDiscount b + fb_tax b
    \<and> 0 \<le> fb_promoDiscount b \<and> fb_promoDiscount b \<le> fb_subtotal b \<and> 0 \<le> fb_tax b \<and> fb_tax b \<le> fb_total b
    \<and> \<bar>fb_tax b - rate * (fb_subtotal b - fb_promoDiscount b)\<bar> \<le> 1 / 200
    \<and> is_cents (fb_subtotal b) \<and> is_cents (fb_promoDiscount b) \<and> is_cents (fb_tax b) \<and> is_cents (fb_total b)"
proof -
  let ?sub = "roundMoney subtotal"
  let ?disc = "roundMoney (min promoDiscount ?sub)"
  have d: "0 \<le> ?disc" "?disc \<le> ?sub" "0 \<le> ?sub"
    using assms roundMoney_nonneg roundMoney_le_cents [of "min promoDiscount ?sub" ?sub] by auto
  then have t: "0 \<le> roundMoney ((?sub - ?disc) * rate)" using assms(3) by (intro roundMoney_nonneg) simp
  have e: "\<bar>roundMoney ((?sub - ?disc) * rate) - rate * (?sub - ?disc)\<bar> \<le> 1 / 200"
    using roundMoney_error [of "(?sub - ?disc) * rate"] by (simp add: mult.commute)
  show ?thesis using d t e by (simp add: fareBreakdownAt_def Let_def) (auto intro!: is_cents_add is_cents_diff)
qed

lemma fare_adds_up_witness:
  "let b = fareBreakdownAt (75 / 1000) 2000 500 in fb_total b = 1500 + 225 / 2 \<and> fb_tax b \<le> fb_total b"
proof -
  have "fb_total (fareBreakdownAt (75 / 1000) 2000 500) = 1500 + 225 / 2" by code_simp
  then show ?thesis using fare_adds_up [of 2000 500 "75 / 1000"] by (simp add: Let_def)
qed

text \<open>What the tariff columns hold after validation: no rate is negative.\<close>

definition tariffOk :: "tariff \<Rightarrow> bool" where
  "tariffOk t \<longleftrightarrow> 0 \<le> tf_baseFare t \<and> 0 \<le> tf_perKmRate t \<and> 0 \<le> tf_perMinuteRate t \<and> 0 \<le> tf_minimumFare t
     \<and> 0 \<le> tf_cancellationFee t \<and> is_cents (tf_cancellationFee t)"

text \<open>C26: the metered fare never undercuts the minimum and grows with the trip: it is a whole number
  of cents, at least the (rounded) minimum fare, and a trip at least as long and as slow costs at
  least as much.\<close>

theorem fare_monotone:
  assumes "tariffOk t" and "km \<le> km'" and "minutes \<le> minutes'"
  shows "is_cents (calculateFare t km minutes) \<and> roundMoney (tf_minimumFare t) \<le> calculateFare t km minutes
    \<and> 0 \<le> calculateFare t km minutes \<and> calculateFare t km minutes \<le> calculateFare t km' minutes'"
proof -
  have "tf_perKmRate t * km \<le> tf_perKmRate t * km'" "tf_perMinuteRate t * of_int minutes \<le> tf_perMinuteRate t * of_int minutes'"
    using assms by (auto simp: tariffOk_def intro!: mult_left_mono)
  then have "max (tf_baseFare t + tf_perKmRate t * km + tf_perMinuteRate t * of_int minutes) (tf_minimumFare t)
      \<le> max (tf_baseFare t + tf_perKmRate t * km' + tf_perMinuteRate t * of_int minutes') (tf_minimumFare t)" by linarith
  moreover have "0 \<le> max (tf_baseFare t + tf_perKmRate t * km + tf_perMinuteRate t * of_int minutes) (tf_minimumFare t)"
    using assms(1) by (simp add: tariffOk_def le_max_iff_disj)
  ultimately show ?thesis
    by (auto simp: calculateFare_def Let_def intro: roundMoney_mono roundMoney_nonneg)
qed

lemma fare_monotone_witness: "calculateFare carTariff 3 8 = 1100 \<and> calculateFare carTariff 3 8 \<le> calculateFare carTariff 5 10"
proof -
  have "tariffOk carTariff" by (simp add: tariffOk_def carTariff_def is_cents_def)
  moreover have "calculateFare carTariff 3 8 = 1100" by code_simp
  ultimately show ?thesis using fare_monotone [of carTariff 3 5 8 10] by simp
qed

section \<open>Quotes\<close>

lemma quoteLoop_prefix:
  "fst (quoteLoop promo km minutes ts outcome qs s) = Inr (rs, o') \<Longrightarrow>
     \<exists>new. rs = qs @ new \<and> map vq_vehicleType new = map tf_vehicleType ts
       \<and> (\<forall>q \<in> set new. vq_total q = vq_subtotal q - vq_promoDiscount q + vq_tax q \<and> \<not> vq_recommended q)"
proof (induction ts arbitrary: outcome qs s)
  case Nil
  then show ?case by (simp add: return_def)
next
  case (Cons t ts)
  from Cons.prems obtain b qs' s' out where step: "fst (quoteLoop promo km minutes ts out qs' s') = Inr (rs, o')"
    "qs' = qs @ [toQuote t b minutes]" "fb_total b = fb_subtotal b - fb_promoDiscount b + fb_tax b"
    by (auto simp: Let_def bind_def buildFareBreakdown_def fareBreakdownAt_def return_def split: prod.splits sum.splits)
  from Cons.IH [OF step(1)] step(2,3) show ?case by (force simp: toQuote_def)
qed

text \<open>C27: the quote is consistent and recommends the cheapest option: every option's total is its
  subtotal less its discount plus its tax, there is one option per tariff on offer, and when there is
  any option exactly one is recommended and none is cheaper.\<close>

theorem quote_recommends_cheapest:
  assumes "fst (quoteVehicles serviceType area km minutes vehicleType promo s) = Inr (quotes, outcome)"
  shows "(\<forall>q \<in> set quotes. vq_total q = vq_subtotal q - vq_promoDiscount q + vq_tax q)
    \<and> (quotes \<noteq> [] \<longrightarrow> (\<exists>i < length quotes. \<forall>j < length quotes.
         (vq_recommended (quotes ! j) \<longleftrightarrow> j = i) \<and> vq_total (quotes ! i) \<le> vq_total (quotes ! j)))"
proof -
  obtain ts s' qs where qs: "fst (quoteLoop promo km minutes ts None [] s') = Inr (qs, outcome)" "quotes = markCheapest qs"
    using assms by (auto simp: quoteVehicles_def bind_def return_def split: prod.splits sum.splits) (metis fst_conv)
  have q: "\<forall>q \<in> set qs. vq_total q = vq_subtotal q - vq_promoDiscount q + vq_tax q \<and> \<not> vq_recommended q"
    using quoteLoop_prefix [OF qs(1)] by auto
  show ?thesis
  proof (cases "qs = []")
    case True
    then show ?thesis using qs(2) by (simp add: markCheapest_def cheapestIndex_def)
  next
    case False
    then obtain i where i: "cheapestIndex qs = Some i" "i < length qs" "\<forall>q \<in> set qs. vq_total (qs ! i) \<le> vq_total q"
      using cheapestIndex_min by blast
    have quotes: "quotes = qs[i := (qs ! i)\<lparr>vq_recommended := True\<rparr>]" using qs(2) i(1) by (simp add: markCheapest_def)
    have "(vq_recommended (quotes ! j) \<longleftrightarrow> j = i) \<and> vq_total (quotes ! i) \<le> vq_total (quotes ! j)" if "j < length qs" for j
      using that i q by (auto simp: quotes nth_list_update)
    moreover have "vq_total x = vq_subtotal x - vq_promoDiscount x + vq_tax x" if "x \<in> set quotes" for x
      using that q i(2) unfolding quotes by (auto dest!: subsetD [OF set_update_subset_insert])
    ultimately show ?thesis using i(2) by (auto simp: quotes)
  qed
qed

lemma quote_recommends_cheapest_witness:
  "let r = quoteVehicles TariffServiceType.RIDE (Some ''lekki'') 3 8 None None in
   succeeds r pricedDb \<and> (\<forall>q \<in> set (fst (result r pricedDb)). vq_total q = vq_subtotal q - vq_promoDiscount q + vq_tax q)"
proof -
  let ?r = "quoteVehicles TariffServiceType.RIDE (Some ''lekki'') 3 8 None None"
  have ok: "succeeds ?r pricedDb"
    by (simp add: succeeds_def quoteVehicles_def listActiveTariffsForService_def getActiveTariffs_def action_defs
        pricedDb_def emptyDb_def fresh_def carTariff_def Let_def uniqueInOrder_def List.map_filter_def resolveTariff_def
        tariffCandidate_def buildFareBreakdown_def getTaxRate_def getConfig_def)
  then show ?thesis
    using quote_recommends_cheapest [of _ _ _ _ _ _ _ "fst (result ?r pricedDb)" "snd (result ?r pricedDb)"] succeeds_run [OF ok]
    by (simp add: Let_def) (metis fst_conv)
qed

section \<open>Deleting a service area\<close>

text \<open>C40: deleting a service area sets its tariffs loose: the row survives with no area, so the price
  meant for that area becomes a default that matches every area, and the tariff cache is not dropped,
  so until it expires readers still see the old rows.\<close>

theorem deleted_area_prices_everywhere:
  assumes "t \<in> set (activeTariffs s)" and "tf_serviceAreaId t = Some i" and "removeArea i s = (Inr (), u)"
  shows "t\<lparr>tf_serviceAreaId := None\<rparr> \<in> set (activeTariffs u)
    \<and> (\<forall>area. resolveTariff (activeTariffs u) (tf_vehicleType t) area (tf_serviceType t) \<noteq> None)
    \<and> cachedTariffs u = cachedTariffs s"
proof -
  have u: "tariffs u = map (\<lambda>t. t\<lparr>tf_serviceAreaId := clearArea i (tf_serviceAreaId t)\<rparr>) (tariffs s) \<and> cachedTariffs u = cachedTariffs s"
    using assms(3) by (auto simp: removeArea_def findAreaOrThrow_def invalidateAreaCache_def action_defs split: option.splits)
  have "t\<lparr>tf_serviceAreaId := clearArea i (tf_serviceAreaId t)\<rparr> = t\<lparr>tf_serviceAreaId := None\<rparr>"
    using assms(2) by (simp add: clearArea_def)
  then have mem: "t\<lparr>tf_serviceAreaId := None\<rparr> \<in> set (activeTariffs u)"
    using assms(1) u unfolding activeTariffs_def by (force simp: image_iff)
  moreover have "tariffCandidate (tf_vehicleType t) area (tf_serviceType t) (t\<lparr>tf_serviceAreaId := None\<rparr>)" for area
    by (simp add: tariffCandidate_def)
  ultimately have cand: "\<exists>v \<in> set (activeTariffs u). tariffCandidate (tf_vehicleType t) area (tf_serviceType t) v" for area
    by blast
  have "resolveTariff (activeTariffs u) (tf_vehicleType t) area (tf_serviceType t) \<noteq> None" for area
    using resolveTariff_spec [of "activeTariffs u" "tf_vehicleType t" area "tf_serviceType t"] cand [of area]
    by (cases "resolveTariff (activeTariffs u) (tf_vehicleType t) area (tf_serviceType t)") simp_all
  then show ?thesis using mem u by blast
qed

lemma deleted_area_prices_everywhere_witness:
  "fst (getActiveTariff ''CAR'' (Some ''ikeja'') (Some TariffServiceType.RIDE) pricedDb)
     = Inl (NotFoundException ''No active tariff for vehicle type CAR'')
   \<and> resolveTariff (activeTariffs (after (removeArea ''lekki'') pricedDb)) ''CAR'' (Some ''ikeja'') (Some TariffServiceType.RIDE) \<noteq> None"
proof -
  have ok: "succeeds (removeArea ''lekki'') pricedDb" "carTariff \<in> set (activeTariffs pricedDb)"
    "fst (getActiveTariff ''CAR'' (Some ''ikeja'') (Some TariffServiceType.RIDE) pricedDb)
       = Inl (NotFoundException ''No active tariff for vehicle type CAR'')" by code_simp+
  have "tf_serviceAreaId carTariff = Some ''lekki''" "tf_vehicleType carTariff = ''CAR''"
    "tf_serviceType carTariff = Some TariffServiceType.RIDE" by (simp_all add: carTariff_def)
  then show ?thesis
    using deleted_area_prices_everywhere [OF ok(2), of "''lekki''"] succeeds_run [OF ok(1)] ok(3) by auto
qed

end
