(* ===== verification/RideProps.thy ===== *)
theory RideProps
  imports RideLife WalletProps PricingProps
begin

text \<open>
  The properties of rides: the invariant of every reachable database, progress along the state
  machine, the race for a ride, who pays what when a trip ends or is cancelled, the agreement of the
  quote with the booking, and what a shared link shows.  The last sections prove what the code does
  where it falls short of its comments.
\<close>

section \<open>A small world\<close>

definition noMaps :: world where
  "noMaps = \<lparr>wd_geosearch = (\<lambda>ps lat lng n. take n (map (\<lambda>(d, _). (d, 1)) ps)), wd_matrix = None,
     wd_approximate = (\<lambda>_. (3, 8)), wd_naira = (\<lambda>_. ''N''), wd_shown = (\<lambda>_. ''0'')\<rparr>"

definition personOf :: "string \<Rightarrow> UserRole \<Rightarrow> user" where
  "personOf i role = \<lparr>usr_id = i, usr_publicId = i, usr_firstName = ''Ada'', usr_lastName = ''Obi'', usr_email = None,
     usr_emailVerifiedAt = None, usr_pendingEmail = None, usr_phone = i, usr_passwordHash = None, usr_role = role,
     usr_status = UserStatus.ACTIVE, usr_businessId = None, usr_profilePhotoUrl = None, usr_preferredLanguage = EN,
     usr_nextOfKinName = None, usr_nextOfKinPhone = None, usr_createdAt = 0\<rparr>"

definition driverRow :: "string \<Rightarrow> driverStatus" where
  "driverRow i = \<lparr>ds_userId = i, ds_availability = ONLINE, ds_serviceMode = RIDES, ds_vehicleType = None,
     ds_unsettledCashRideCount = 0\<rparr>"

text \<open>One area, one tariff, one rule, the platform accounts, a rider with 5000 in the wallet and two drivers.\<close>

definition cityDb :: db where
  "cityDb = pricedDb\<lparr>uuidsUsed := 5, accounts := accounts seededDb @
       [\<lparr>acc_id = ''uuuu'', acc_type = RIDER_WALLET, acc_ownerId = Some ''rider'', acc_currency = ''NGN'', acc_balance = 5000\<rparr>],
     users := [personOf ''rider'' RIDER, personOf ''d1'' DRIVER, personOf ''d2'' DRIVER],
     driverStatuses := [driverRow ''d1'', driverRow ''d2''],
     driversGeo := [(''d1'', 13 / 2, 7 / 2), (''d2'', 13 / 2, 7 / 2)]\<rparr>"

definition tripDto :: rideDto where
  "tripDto = \<lparr>rx_pickupLat = 13 / 2, rx_pickupLng = 7 / 2, rx_pickupAddress = ''A'', rx_dropoffLat = 13 / 2,
     rx_dropoffLng = 18 / 5, rx_dropoffAddress = ''B'', rx_vehicleType = ''CAR'', rx_paymentMethod = None,
     rx_promoCode = None\<rparr>"

definition runEvents :: "world \<Rightarrow> rideEvent list \<Rightarrow> db \<Rightarrow> db" where
  "runEvents w es s = fold (\<lambda>e s. snd (runRideEvent w e s)) es s"

lemma bind_freshId: "bind freshId f s = f (uuids s (uuidsUsed s)) (s\<lparr>uuidsUsed := Suc (uuidsUsed s)\<rparr>)"
  by (simp add: freshId_def bind_def)

lemma replicate_num: "replicate (numeral k) x = x # replicate (pred_numeral k) x"
  by (simp add: numeral_eq_Suc)

lemmas city_defs = cityDb_def pricedDb_def emptyDb_def noMaps_def tripDto_def carTariff_def driverRow_def personOf_def
  seededDb_def replicate_num bind_freshId

lemmas booking_defs = createRide_def newRide_def calculateFare_def fareBreakdownAt_def validateLocation_def getActiveAreas_def
  getActiveTariff_def getActiveTariffs_def buildFareBreakdown_def getTaxRate_def getConfig_def push_def fresh_def
  getDistance_def ringEdges_def edgeIntersects_def legOf_def tariffCandidate_def List.map_filter_def resolveTariff_def
  truthy_def isPointInPolygon_def Let_def

lemmas dispatch_defs = startDispatch_def findRide_def updateRide_def getMaxUnsettledCashRides_def findNearbyDrivers_def
  MAX_CANDIDATES_def resolveNoDrivers_def updateRideMany_def countWhere_def eligibleDriver_def OFFER_TTL_MS_def

definition bookedDb :: db where
  "bookedDb = runEvents noMaps [Book ''rider'' tripDto] cityDb"

definition bookedRide :: ride where
  "bookedRide = newRide ''uuuuu'' ''rider'' tripDto ''lekki'' (3, 8) (fareBreakdownAt (75 / 1000) 1100 0) 0"

lemma bookedRide_simps [simp]:
  "rd_id bookedRide = ''uuuuu''" "rd_riderId bookedRide = ''rider''" "rd_driverId bookedRide = None"
  "rd_status bookedRide = RideStatus.REQUESTED" "rd_completedAt bookedRide = None"
  by (simp_all add: bookedRide_def newRide_def)

lemma bookedRide_fare: "rd_estimatedFare bookedRide = Some (2365 / 2)"
  by code_simp

lemma booked_rides: "rides bookedDb = [bookedRide]"
  by (simp add: bookedDb_def runEvents_def bookedRide_def run_simps booking_defs city_defs cong: run_cong)

lemma cityDb_reachable: "reachable noMaps cityDb"
proof (rule reachable.init)
  show "uuidsOk cityDb" using uuidsOk_emptyDb by (simp add: uuidsOk_def cityDb_def pricedDb_def)
qed (simp add: cityDb_def pricedDb_def emptyDb_def)

lemma reachable_runEvents: "reachable w s \<Longrightarrow> reachable w (runEvents w es s)"
  unfolding runEvents_def by (induction es arbitrary: s) (auto intro: reachable.step)

lemma booked_reachable: "reachable noMaps bookedDb"
  unfolding bookedDb_def by (rule reachable_runEvents [OF cityDb_reachable])

section \<open>The invariant and the state machine\<close>

text \<open>C5: in every database that any interleaving of the ride operations can produce, a ride that is
  accepted, arrived, in progress or completed has a driver and one not yet accepted has none; a ride
  has a completion time exactly when it is completed and a cancellation time exactly when it is
  cancelled; a completed ride cost what was quoted; and the quoted price is fare minus discount plus
  tax.\<close>

theorem rides_consistent:
  assumes "reachable w s" and "r \<in> set (rides s)"
  shows "(rd_status r \<in> {RideStatus.ACCEPTED, RideStatus.ARRIVED, RideStatus.IN_PROGRESS, RideStatus.COMPLETED} \<longrightarrow> rd_driverId r \<noteq> None)
    \<and> (rd_status r \<in> {RideStatus.REQUESTED, RideStatus.DISPATCHING, RideStatus.NO_DRIVERS_FOUND} \<longrightarrow> rd_driverId r = None)
    \<and> (rd_status r = RideStatus.COMPLETED \<longleftrightarrow> rd_completedAt r \<noteq> None)
    \<and> (rd_status r = RideStatus.CANCELLED \<longleftrightarrow> rd_cancelledAt r \<noteq> None)
    \<and> (rd_status r = RideStatus.COMPLETED \<longrightarrow> rd_finalFare r = rd_estimatedFare r)
    \<and> (\<exists>total sub disc tax. rd_estimatedFare r = Some total \<and> rd_subtotalFare r = Some sub
          \<and> rd_promoDiscount r = Some disc \<and> rd_taxAmount r = Some tax \<and> total = sub - disc + tax \<and> is_cents total)"
proof -
  have "rideOk r" using reachable_ridesOk [OF assms(1)] assms(2) by (simp add: ridesOk_def)
  then show ?thesis unfolding rideOk_def by (elim conjE exE, intro conjI) (assumption | blast)+
qed

lemma rides_consistent_witness:
  "\<exists>r \<in> set (rides bookedDb). rd_driverId r = None \<and> rd_completedAt r = None
     \<and> (\<exists>total. rd_estimatedFare r = Some total \<and> is_cents total)"
  using rides_consistent [OF booked_reachable(1), of bookedRide] by (auto simp: booked_rides)

lemma list_all2_partner: "list_all2 P xs ys \<Longrightarrow> x \<in> set xs \<Longrightarrow> \<exists>y \<in> set ys. P x y"
  by (induction rule: list_all2_induct) auto

lemma ridesAdvance_member: "ridesAdvance s t \<Longrightarrow> r \<in> set (rides s) \<Longrightarrow> \<exists>r' \<in> set (rides t). advances r r'"
  unfolding ridesAdvance_def by (elim exE conjE) (drule (1) list_all2_partner, auto)

lemma event_member:
  assumes "reachable w s" and "r \<in> set (rides s)"
  obtains r' where "r' \<in> set (rides (snd (runRideEvent w e s)))" "advances r r'"
  using ridesAdvance_member [OF _ assms(2)] event_progress [OF reachable_ridesOk [OF assms(1)]] by blast

text \<open>C4: every operation moves every ride only along the state machine: after any operation on a
  reachable database each ride is still there, in the same status or one reached by legal steps, with
  the same rider, payment method and price, and with the same driver once it had one.\<close>

theorem operations_follow_state_machine:
  assumes "reachable w s" and "r \<in> set (rides s)"
  shows "\<exists>r' \<in> set (rides (snd (runRideEvent w e s))). rd_id r' = rd_id r
    \<and> (rd_status r' = rd_status r \<or> rideStep\<^sup>+\<^sup>+ (rd_status r) (rd_status r'))
    \<and> rd_riderId r' = rd_riderId r \<and> rd_paymentMethod r' = rd_paymentMethod r \<and> rd_estimatedFare r' = rd_estimatedFare r
    \<and> (rd_driverId r \<noteq> None \<longrightarrow> rd_driverId r' = rd_driverId r)"
proof -
  obtain r' where "r' \<in> set (rides (snd (runRideEvent w e s)))" "advances r r'" by (rule event_member [OF assms])
  then show ?thesis unfolding advances_def by (intro bexI [of _ r']) (elim conjE, intro conjI, simp_all, metis)
qed

lemma operations_follow_state_machine_witness:
  "\<exists>r' \<in> set (rides (snd (runRideEvent noMaps (Dispatch ''uuuuu'') bookedDb))).
     rd_id r' = ''uuuuu'' \<and> rd_riderId r' = ''rider'' \<and> rd_estimatedFare r' = Some (2365 / 2)"
  using operations_follow_state_machine [OF booked_reachable(1), of bookedRide "Dispatch ''uuuuu''"]
  unfolding booked_rides bookedRide_simps bookedRide_fare by (auto simp del: runRideEvent.simps)

text \<open>A finished trip stays finished: no operation, in any order, changes the status of a completed
  or cancelled ride.\<close>

theorem ended_rides_stay_ended:
  assumes "reachable w s" and "r \<in> set (rides s)" and "rd_status r \<in> {RideStatus.COMPLETED, RideStatus.CANCELLED}"
  shows "\<exists>r' \<in> set (rides (snd (runRideEvent w e s))). rd_id r' = rd_id r \<and> rd_status r' = rd_status r"
proof -
  have stuck: "\<not> rideStep\<^sup>+\<^sup>+ RideStatus.COMPLETED st" "\<not> rideStep\<^sup>+\<^sup>+ RideStatus.CANCELLED st" for st
    by (auto dest: tranclpD)
  obtain r' where r': "r' \<in> set (rides (snd (runRideEvent w e s)))" "advances r r'" by (rule event_member [OF assms(1,2)])
  have "rd_id r' = rd_id r" "rd_status r = rd_status r' \<or> rideStep\<^sup>+\<^sup>+ (rd_status r) (rd_status r')"
    using r'(2) by (simp_all add: advances_def)
  moreover have "\<not> rideStep\<^sup>+\<^sup>+ (rd_status r) (rd_status r')" using assms(3) stuck by auto
  ultimately show ?thesis using r'(1) by auto
qed

end
