(* ===== verification/RaceProps.thy ===== *)
theory RaceProps
  imports RideProps
begin

text \<open>
  Drivers competing for rides: the claim of a ride is exclusive, what accepting an offer changes,
  which drivers a round asks, and two places where the code relies on steps not interleaving.
\<close>

section \<open>The claim\<close>

lemma runEvents_sound: "ridesOk s \<Longrightarrow> ridesOk (runEvents w es s) \<and> ridesAdvance s (runEvents w es s)"
proof (induction es arbitrary: s)
  case (Cons e es)
  then show ?case using event_progress [OF Cons.prems, of w e] ridesAdvance_trans
    by (simp add: runEvents_def del: runRideEvent.simps) blast
qed (simp add: runEvents_def ridesAdvance_same)

lemma claimRide_run:
  "claimRide d i s = (let P = (\<lambda>r. rd_id r = i \<and> rd_status r = RideStatus.DISPATCHING \<and> rd_driverId r = None);
      f = (\<lambda>r. r\<lparr>rd_status := RideStatus.ACCEPTED, rd_driverId := Some d, rd_acceptedAt := Some (now s)\<rparr>)
    in (Inr (countWhere P (rides s)), s\<lparr>rides := updateWhere P f (rides s)\<rparr>))"
  by (simp add: claimRide_def updateRideMany_def action_defs Let_def)

lemma claimRide_sound: "ridesOk s \<Longrightarrow> claimRide d i s = (Inr n, t) \<Longrightarrow> ridesOk t"
  using progress_claimRide [of d i] unfolding progress_def by (auto dest: wp_Inr)

lemma claimable_row:
  assumes "claimRide d i s = (Inr n, t)" and "n \<noteq> 0"
  obtains r where "r \<in> set (rides s)" "rd_id r = i" "rd_status r = RideStatus.DISPATCHING" "rd_driverId r = None"
proof -
  have "countWhere (\<lambda>r. rd_id r = i \<and> rd_status r = RideStatus.DISPATCHING \<and> rd_driverId r = None) (rides s) \<noteq> 0"
    using assms by (simp add: claimRide_run Let_def)
  then show thesis unfolding countWhere_zero using that by blast
qed

lemma claimed_row:
  assumes "claimRide d i s = (Inr n, t)" and "n \<noteq> 0"
  obtains r where "r \<in> set (rides t)" "rd_id r = i" "rd_driverId r = Some d" "rd_status r = RideStatus.ACCEPTED"
proof -
  obtain r where "r \<in> set (rides s)" "rd_id r = i" "rd_status r = RideStatus.DISPATCHING" "rd_driverId r = None"
    by (rule claimable_row [OF assms])
  then show thesis
    using assms(1) by (intro that [of "r\<lparr>rd_status := RideStatus.ACCEPTED, rd_driverId := Some d, rd_acceptedAt := Some (now s)\<rparr>"])
      (force simp: claimRide_run Let_def set_updateWhere)+
qed

text \<open>C3: at most one driver gets a ride: once a claim has succeeded, whatever operations follow and in
  whatever order, the ride keeps that driver and every later claim by anyone returns zero and writes
  nothing.\<close>

theorem one_driver_wins:
  assumes "reachable w s" and "claimRide d i s = (Inr n, t)" and "n \<noteq> 0"
  shows "claimRide d' i (runEvents w es t) = (Inr 0, runEvents w es t)
    \<and> (\<exists>r \<in> set (rides (runEvents w es t)). rd_id r = i \<and> rd_driverId r = Some d)"
proof -
  let ?u = "runEvents w es t"
  have t: "ridesOk t" by (rule claimRide_sound [OF reachable_ridesOk [OF assms(1)] assms(2)])
  obtain r where r: "r \<in> set (rides t)" "rd_id r = i" "rd_driverId r = Some d" by (rule claimed_row [OF assms(2,3)])
  obtain r' where r': "r' \<in> set (rides ?u)" "advances r r'"
    using ridesAdvance_member [OF _ r(1)] runEvents_sound [OF t] by blast
  then have mine: "rd_id r' = i" "rd_driverId r' = Some d" using r by (simp_all add: advances_def)
  have "ridesOk ?u" using runEvents_sound [OF t] by blast
  then have "q = r'" if "q \<in> set (rides ?u)" "rd_id q = i" for q
    using that r'(1) mine(1) by (metis ridesOk_def find_key option.inject)
  then have none: "\<not> (rd_id q = i \<and> rd_status q = RideStatus.DISPATCHING \<and> rd_driverId q = None)"
    if "q \<in> set (rides ?u)" for q using that mine(2) by auto
  then have "claimRide d' i ?u = (Inr 0, ?u)"
    by (simp add: claimRide_run Let_def countWhere_zero updateWhere_none)
  then show ?thesis using r'(1) mine by blast
qed

definition dispatchedDb :: db where
  "dispatchedDb = runEvents noMaps [Book ''rider'' tripDto, Dispatch ''uuuuu''] cityDb"

lemma dispatched_rides: "map (\<lambda>r. (rd_id r, rd_status r, rd_driverId r)) (rides dispatchedDb) = [(''uuuuu'', RideStatus.DISPATCHING, None)]"
  by (simp add: dispatchedDb_def runEvents_def run_simps booking_defs city_defs dispatch_defs cong: run_cong)

lemma dispatched_reachable: "reachable noMaps dispatchedDb"
  unfolding dispatchedDb_def by (rule reachable_runEvents [OF cityDb_reachable])

lemma one_driver_wins_witness:
  "claimRide ''d2'' ''uuuuu'' (runEvents noMaps [Decline ''d2'' ''uuuuu'', Arrive ''d1'' ''uuuuu'', Cancel ''rider'' ''uuuuu'' None]
       (snd (claimRide ''d1'' ''uuuuu'' dispatchedDb)))
     = (Inr 0, runEvents noMaps [Decline ''d2'' ''uuuuu'', Arrive ''d1'' ''uuuuu'', Cancel ''rider'' ''uuuuu'' None]
       (snd (claimRide ''d1'' ''uuuuu'' dispatchedDb)))"
proof -
  obtain r where "rides dispatchedDb = [r]" "rd_id r = ''uuuuu''" "rd_status r = RideStatus.DISPATCHING" "rd_driverId r = None"
    using dispatched_rides by (auto simp: map_eq_Cons_conv)
  then have "claimRide ''d1'' ''uuuuu'' dispatchedDb = (Inr 1, snd (claimRide ''d1'' ''uuuuu'' dispatchedDb))"
    by (simp add: claimRide_run Let_def countWhere_def)
  from one_driver_wins [OF dispatched_reachable this] show ?thesis by simp
qed

section \<open>Accepting an offer\<close>

lemma wp_then_return: "(\<And>t. Q y t) \<Longrightarrow> wp m (\<lambda>_. wp (return y) Q (\<lambda>_ _. True)) (\<lambda>_ _. True) s"
  by (simp add: wp_def return_def split: prod.split sum.split)

lemma wp_forEach_push: "wp (forEach xs (\<lambda>x. push (f x))) Q E s = Q () (s\<lparr>outbox := outbox s @ map f xs\<rparr>)"
  by (induction xs arbitrary: s) (simp_all add: push_def wp_simps)

definition openOffer :: "db \<Rightarrow> string \<Rightarrow> string \<Rightarrow> rideOffer \<Rightarrow> bool" where
  "openOffer s d i ro \<longleftrightarrow> List.find (\<lambda>ro. ro_rideId ro = i \<and> ro_driverId ro = d) (rideOffers s) = Some ro
     \<and> ro_status ro = RideOfferStatus.PENDING \<and> now s \<le> ro_expiresAt ro"

lemma wp_acceptChecks: "wp (acceptChecks d i) (\<lambda>ro _. openOffer s d i ro) (\<lambda>_ _. True) s"
  by (auto simp: acceptChecks_def findOffer_def findRide_def openOffer_def wp_gets wp_bind wp_orThrow wp_ensure wp_return
      split: option.split intro!: wp_then_return)

definition matching :: "db \<Rightarrow> ride list \<times> rideOffer list \<times> driverStatus list \<times> instant" where
  "matching s = (rides s, rideOffers s, driverStatuses s, now s)"

lemma keeps_acceptChecks: "keeps (\<lambda>t. matching t = M) (acceptChecks d i)"
  unfolding acceptChecks_def findOffer_def findRide_def getMaxUnsettledCashRides_def getConfig_def Let_def
  by (intro keeps_intros keeps_modify) (simp_all add: matching_def)

lemma wp_setDriverStatus:
  "wp (setDriverStatus d a v m) (\<lambda>_ t. rides t = rides s \<and> rideOffers t = rideOffers s
     \<and> (\<exists>q. List.find (\<lambda>q. ds_userId q = d) (driverStatuses t) = Some q \<and> ds_availability q = a)) (\<lambda>_ _. False) s"
proof (cases "List.find (\<lambda>q. ds_userId q = d) (driverStatuses s)")
  case (Some q)
  then show ?thesis by (simp add: setDriverStatus_def onlyIf_def wp_simps find_updateWhere_key)
qed (simp add: setDriverStatus_def onlyIf_def wp_simps find_append)

definition othersClosed :: "string \<Rightarrow> string \<Rightarrow> rideOffer list \<Rightarrow> bool" where
  "othersClosed d i os \<longleftrightarrow> (\<forall>ro \<in> set os. ro_rideId ro = i \<longrightarrow> ro_driverId ro \<noteq> d \<longrightarrow> ro_status ro \<noteq> RideOfferStatus.PENDING)"

lemma othersClosed_expired: "othersClosed d i (updateWhere (\<lambda>ro. ro_rideId ro = i \<and> ro_driverId ro \<noteq> d
    \<and> ro_status ro = RideOfferStatus.PENDING) (resolveOffer RideOfferStatus.EXPIRED t) os)"
  by (induction os) (auto simp: othersClosed_def resolveOffer_def)

lemma wp_acceptWon:
  "wp (acceptWon d i ro) (\<lambda>r u. rides u = rides s \<and> List.find (\<lambda>r. rd_id r = i) (rides s) = Some r
     \<and> othersClosed d i (rideOffers u)
     \<and> (\<exists>q. List.find (\<lambda>q. ds_userId q = d) (driverStatuses u) = Some q \<and> ds_availability q = ON_TRIP)) (\<lambda>_ _. True) s"
  unfolding acceptWon_def updateOffers_def wp_bind wp_gets wp_modify
  by (rule wp_conseq [OF wp_setDriverStatus])
     (simp_all add: findRide_def push_def wp_simps wp_forEach_push [unfolded push_def] othersClosed_expired split: option.split)

text \<open>C22: accepting an offer takes the ride: when it succeeds, the driver had a pending unexpired offer and
  the ride was dispatching without a driver; afterwards the ride is accepted and theirs, no other
  driver's offer for it is still open, and the driver is on a trip.\<close>

theorem accept_takes_the_ride:
  assumes "acceptOffer d i s = (Inr r, u)"
  shows "(\<exists>ro. openOffer s d i ro)
    \<and> (\<exists>q \<in> set (rides s). rd_id q = i \<and> rd_status q = RideStatus.DISPATCHING \<and> rd_driverId q = None)
    \<and> (\<exists>q \<in> set (rides u). rd_id q = i \<and> rd_driverId q = Some d \<and> rd_status q = RideStatus.ACCEPTED)
    \<and> othersClosed d i (rideOffers u)
    \<and> (\<exists>q. List.find (\<lambda>q. ds_userId q = d) (driverStatuses u) = Some q \<and> ds_availability q = ON_TRIP)"
proof -
  obtain ro a n b where a: "acceptChecks d i s = (Inr ro, a)" and b: "claimRide d i a = (Inr n, b)"
    and won: "(if n = 0 then acceptLost ro else acceptWon d i ro) b = (Inr r, u)"
    using assms unfolding acceptOffer_def by (elim bind_InrE)
  have "acceptLost ro b \<noteq> (Inr r, u)" by (simp add: acceptLost_def updateOffers_def action_defs)
  then have n: "n \<noteq> 0" using won by (cases "n = 0") simp_all
  have "matching a = matching s" using keepsD [OF keeps_acceptChecks [of "matching s" d i], of s] a by simp
  moreover obtain q where "q \<in> set (rides a)" "rd_id q = i" "rd_status q = RideStatus.DISPATCHING" "rd_driverId q = None"
    by (rule claimable_row [OF b n])
  moreover obtain q' where "q' \<in> set (rides b)" "rd_id q' = i" "rd_driverId q' = Some d" "rd_status q' = RideStatus.ACCEPTED"
    by (rule claimed_row [OF b n])
  moreover have "openOffer s d i ro" by (rule wp_Inr [OF wp_acceptChecks a])
  moreover note wp_Inr [OF wp_acceptWon, of d i ro b r u]
  ultimately show ?thesis using won n by (auto simp: matching_def)
qed

definition offeredDb :: db where
  "offeredDb = cityDb\<lparr>rides := [bookedRide\<lparr>rd_status := RideStatus.DISPATCHING\<rparr>],
     rideOffers := [\<lparr>ro_id = ''o1'', ro_rideId = ''uuuuu'', ro_driverId = ''d1'', ro_status = RideOfferStatus.PENDING, ro_expiresAt = 15000, ro_respondedAt = None, ro_createdAt = 0\<rparr>,
                    \<lparr>ro_id = ''o2'', ro_rideId = ''uuuuu'', ro_driverId = ''d2'', ro_status = RideOfferStatus.PENDING, ro_expiresAt = 15000, ro_respondedAt = None, ro_createdAt = 0\<rparr>]\<rparr>"

lemma accept_takes_the_ride_witness:
  "othersClosed ''d1'' ''uuuuu'' (rideOffers (after (acceptOffer ''d1'' ''uuuuu'') offeredDb))"
proof -
  have "succeeds (acceptOffer ''d1'' ''uuuuu'') offeredDb" by code_simp
  from accept_takes_the_ride [OF succeeds_run [OF this]] show ?thesis by blast
qed

end
