(* ===== verification/DispatchProps.thy ===== *)
theory DispatchProps
  imports RaceProps
begin

text \<open>
  A round of offers ends.  Starting a dispatch either answers at once that there is no driver or
  leaves the timer of the round in the outbox, and once that timer has run the ride has left the
  waiting statuses, whatever happened in between.
\<close>

section \<open>The status of a ride\<close>

definition statusOf :: "string \<Rightarrow> db \<Rightarrow> RideStatus option" where
  "statusOf i s = map_option rd_status (List.find (\<lambda>r. rd_id r = i) (rides s))"

definition waitingStatuses :: "RideStatus set" where
  "waitingStatuses = {RideStatus.REQUESTED, RideStatus.DISPATCHING}"

lemma statusOf_same: "rides t = rides s \<Longrightarrow> statusOf i t = statusOf i s"
  by (simp add: statusOf_def)

lemma statusOf_member: "ridesOk s \<Longrightarrow> r \<in> set (rides s) \<Longrightarrow> rd_id r = i \<Longrightarrow> statusOf i s = Some (rd_status r)"
  unfolding statusOf_def by (metis ridesOk_def find_key option.simps(9))

lemma statusOf_Some: "statusOf i s = Some st \<Longrightarrow> \<exists>r \<in> set (rides s). rd_id r = i \<and> rd_status r = st"
  by (auto simp: statusOf_def dest: find_SomeD)

text \<open>A ride that left REQUESTED never returns to it.\<close>

lemma rideStep_not_requested: "rideStep a b \<Longrightarrow> b \<noteq> RideStatus.REQUESTED"
  by (erule rideStepE) simp_all

lemma steps_not_requested: "rideStep\<^sup>+\<^sup>+ a b \<Longrightarrow> b \<noteq> RideStatus.REQUESTED"
  by (induction rule: tranclp.induct) (blast dest: rideStep_not_requested)+

text \<open>Nor does a ride that left the waiting statuses.\<close>

lemma rideStep_waiting: "rideStep a b \<Longrightarrow> b \<in> waitingStatuses \<Longrightarrow> a \<in> waitingStatuses"
  by (erule rideStepE) (simp_all add: waitingStatuses_def)

lemma steps_waiting: "rideStep\<^sup>+\<^sup>+ a b \<Longrightarrow> b \<in> waitingStatuses \<Longrightarrow> a \<in> waitingStatuses"
  by (induction rule: tranclp.induct) (blast dest: rideStep_waiting)+

lemma statusOf_advances:
  assumes "ridesOk s" and "statusOf i s = Some st"
  obtains st' where "statusOf i (runEvents w es s) = Some st'" "st = st' \<or> rideStep\<^sup>+\<^sup>+ st st'"
proof -
  obtain r where r: "r \<in> set (rides s)" "rd_id r = i" "rd_status r = st" using statusOf_Some [OF assms(2)] by blast
  have u: "ridesOk (runEvents w es s)" "ridesAdvance s (runEvents w es s)" using runEvents_sound [OF assms(1)] by blast+
  obtain q where q: "q \<in> set (rides (runEvents w es s))" "advances r q"
    using ridesAdvance_member [OF u(2) r(1)] by blast
  show thesis
    by (rule that [OF statusOf_member [OF u(1) q(1)]]) (use q(2) r in \<open>auto simp: advances_def\<close>)
qed

section \<open>The timer\<close>

lemma updateWhere_resolved:
  "distinct (map rd_id rs) \<Longrightarrow> List.find (\<lambda>r. rd_id r = i) rs = Some r \<Longrightarrow> P (rd_status r) \<Longrightarrow>
   map_option rd_status (List.find (\<lambda>r. rd_id r = i)
     (updateWhere (\<lambda>r. rd_id r = i \<and> P (rd_status r)) (\<lambda>r. r\<lparr>rd_status := st\<rparr>) rs)) = Some st"
  by (induction rs) (auto simp: updateWhere_def split: if_splits)

lemma wp_resolveNoDrivers:
  assumes "ridesOk s" and "statusOf i s = Some st" and "st \<in> waitingStatuses"
  shows "wp (resolveNoDrivers i) (\<lambda>_ t. statusOf i t = Some RideStatus.NO_DRIVERS_FOUND) E s"
proof -
  obtain r where "List.find (\<lambda>r. rd_id r = i) (rides s) = Some r" "rd_status r \<in> waitingStatuses"
    using assms(2,3) by (auto simp: statusOf_def)
  then have "map_option rd_status (List.find (\<lambda>r. rd_id r = i)
     (updateWhere (\<lambda>r. rd_id r = i \<and> rd_status r \<in> waitingStatuses) (\<lambda>r. r\<lparr>rd_status := RideStatus.NO_DRIVERS_FOUND\<rparr>) (rides s)))
     = Some RideStatus.NO_DRIVERS_FOUND"
    using assms(1) by (intro updateWhere_resolved [where P = "\<lambda>x. x \<in> waitingStatuses"]) (simp_all add: ridesOk_def)
  then show ?thesis
    by (simp add: resolveNoDrivers_def updateRideMany_def push_def wp_simps statusOf_def waitingStatuses_def)
qed

lemma expire_decides:
  assumes ok: "ridesOk s" and st: "statusOf i s = Some st" "st \<noteq> RideStatus.REQUESTED"
  obtains st' where "statusOf i (snd (runRideEvent w (ExpireRound i) s)) = Some st'" "st' \<notin> waitingStatuses"
proof (cases "st = RideStatus.DISPATCHING")
  case True
  obtain r where r: "List.find (\<lambda>r. rd_id r = i) (rides s) = Some r" "rd_status r = RideStatus.DISPATCHING"
    using st(1) True by (auto simp: statusOf_def)
  let ?off = "updateWhere (\<lambda>ro. ro_rideId ro = i \<and> ro_status ro = RideOfferStatus.PENDING)
      (resolveOffer RideOfferStatus.EXPIRED (now s)) (rideOffers s)"
  have "ridesOk (s\<lparr>rideOffers := ?off\<rparr>)" by (rule ridesOk_same [OF ok, THEN conjunct1]) simp_all
  then have "wp (resolveNoDrivers i) (\<lambda>_ t. statusOf i t = Some RideStatus.NO_DRIVERS_FOUND)
      (\<lambda>_ t. statusOf i t = Some RideStatus.NO_DRIVERS_FOUND) (s\<lparr>rideOffers := ?off\<rparr>)"
    by (rule wp_resolveNoDrivers) (use st(1) True in \<open>auto simp: statusOf_def waitingStatuses_def\<close>)
  then have "wp (runRideEvent w (ExpireRound i)) (\<lambda>_ t. statusOf i t = Some RideStatus.NO_DRIVERS_FOUND)
      (\<lambda>_ t. statusOf i t = Some RideStatus.NO_DRIVERS_FOUND) s"
    using r by (simp add: expireRoundIfUnresolved_def findRide_def updateOffers_def wp_bind wp_gets wp_if wp_modify)
  then have "statusOf i (snd (runRideEvent w (ExpireRound i) s)) = Some RideStatus.NO_DRIVERS_FOUND"
    by (rule wp_final_state [where I = "\<lambda>t. statusOf i t = Some RideStatus.NO_DRIVERS_FOUND", THEN iffD1])
  then show thesis using that by (simp add: waitingStatuses_def)
next
  case False
  obtain r where r: "List.find (\<lambda>r. rd_id r = i) (rides s) = Some r" "rd_status r = st"
    using st(1) by (auto simp: statusOf_def)
  then have "snd (runRideEvent w (ExpireRound i) s) = s"
    using False by (simp add: expireRoundIfUnresolved_def findRide_def bind_def gets_def return_def)
  then show thesis using that [of st] st False by (simp add: waitingStatuses_def)
qed

section \<open>Starting a round\<close>

text \<open>What a started round is waiting for.\<close>

definition roundOpen :: "string \<Rightarrow> db \<Rightarrow> bool" where
  "roundOpen i t \<longleftrightarrow> statusOf i t = Some RideStatus.DISPATCHING \<and> (\<exists>x. ExpireRoundAt x i \<in> set (outbox t))"

abbreviation started :: "string \<Rightarrow> 'x \<Rightarrow> db \<Rightarrow> bool" where
  "started i x t \<equiv> statusOf i t = Some RideStatus.NO_DRIVERS_FOUND \<or> roundOpen i t"

lemma wp_outside_next:
  assumes "\<And>R U n. keeps (outside R U n) m" and "ridesOk s"
    and "\<And>x t. rides t = rides s \<Longrightarrow> ridesOk t \<Longrightarrow> wp (f x) Q (\<lambda>_ _. True) t"
  shows "wp (bind m f) Q (\<lambda>_ _. True) s"
  unfolding wp_bind by (rule wp_outside [OF assms(1)]) (use assms(2,3) ridesOk_same in blast)+

lemma wp_startRound:
  assumes ok: "ridesOk s" and st: "statusOf i s = Some RideStatus.DISPATCHING"
  shows "wp (bind getMaxUnsettledCashRides (\<lambda>maxUnsettledCashRides.
         bind (findNearbyDrivers g lat lng v MAX_CANDIDATES pm maxUnsettledCashRides) (\<lambda>candidates.
         if candidates = [] then resolveNoDrivers i else
         bind (gets (\<lambda>s. now s + OFFER_TTL_MS)) (\<lambda>expiresAt.
         andThen (atomic (createOffers i expiresAt candidates))
         (andThen (forEach candidates (\<lambda>d. push (EmitOffer d i)))
         (push (ExpireRoundAt expiresAt i))))))) (started i) (\<lambda>_ _. True) s"
proof (rule wp_outside_next [OF _ ok], goal_cases)
  case 1
  show ?case unfolding getMaxUnsettledCashRides_def by (rule keeps_intros)
next
  case (2 m t)
  show ?case
  proof (rule wp_outside_next [OF _ 2(2)], goal_cases)
    case 1
    show ?case unfolding findNearbyDrivers_def by (intro keeps_intros)
  next
    case (2 cs u)
    have u: "statusOf i u = Some RideStatus.DISPATCHING" using 2(1) \<open>rides t = rides s\<close> st statusOf_same by metis
    have none: "wp (resolveNoDrivers i) (started i) (\<lambda>_ _. True) u"
      by (rule wp_conseq [OF wp_resolveNoDrivers [OF 2(2) u, where E = "\<lambda>_ _. True"]]) (simp_all add: waitingStatuses_def)
    have "wp (bind (atomic (createOffers i x cs)) (\<lambda>_. andThen (forEach cs (\<lambda>d. push (EmitOffer d i)))
           (push (ExpireRoundAt x i)))) (started i) (\<lambda>_ _. True) u" for x
    proof (rule wp_outside_next [OF _ 2(2)], goal_cases)
      case (2 y v)
      show ?case
      proof (rule wp_outside_next [OF _ 2(2)], goal_cases)
        case (2 z w)
        have "statusOf i w = Some RideStatus.DISPATCHING" using 2(1) \<open>rides v = rides u\<close> u statusOf_same by metis
        then show ?case by (simp add: push_def wp_modify roundOpen_def statusOf_def) blast
      qed (intro keeps_intros)
    qed (intro keeps_intros)
    with none show ?case by (simp add: wp_bind [where m = "gets _"] wp_gets)
  qed
qed

lemma wp_startDispatch:
  assumes ok: "ridesOk s" and found: "List.find (\<lambda>r. rd_id r = i) (rides s) = Some r" "rd_status r = RideStatus.REQUESTED"
  shows "wp (startDispatch g i) (started i) (\<lambda>_ _. True) s"
proof -
  let ?go = "\<lambda>r. r\<lparr>rd_status := RideStatus.DISPATCHING\<rparr>"
  let ?t = "s\<lparr>rides := updateWhere (\<lambda>r. rd_id r = i) ?go (rides s)\<rparr>"
  have t: "List.find (\<lambda>r. rd_id r = i) (rides ?t) = Some (?go r)" using found by (simp add: find_updateWhere_key)
  have "ridesOk ?t"
  proof (rule ridesOk_update [OF ok, where P = "\<lambda>r. rd_id r = i" and f = ?go, THEN conjunct1])
    fix q assume "q \<in> set (rides s)" "rd_id q = i"
    then have "q = r" by (rule status_of_found [OF ok found(1)])
    then show "advances q (?go q) \<and> rideOk (?go q)"
      using findRide_rideOk [OF ok found(1)] found(2) by (auto simp: advances_def rideOk_def intro: rideStep_plus ride_moves)
  qed simp_all
  moreover have "statusOf i ?t = Some RideStatus.DISPATCHING" using t by (simp add: statusOf_def)
  moreover have "wp (updateRide i ?go) (\<lambda>_ t. t = ?t) (\<lambda>_ _. False) s"
    using t by (simp add: updateRide_def findRide_def wp_simps)
  ultimately show ?thesis unfolding startDispatch_def findRide_def wp_bind [where m = "gets _"] wp_gets found(1) option.case
    by (simp only: found(2) simp_thms if_False wp_bind [where m = "updateRide i ?go"])
       (rule wp_conseq, assumption, auto intro: wp_startRound)
qed

text \<open>C6: a rider is never left waiting: when the dispatch of a requested ride has returned, either the
  ride was answered with no drivers found, or the timer of its round is set; and once the timer has
  run, after any operations by anyone in any order, the ride has been accepted, cancelled or answered
  with no drivers found, and will not be waiting again.\<close>

theorem dispatch_ends:
  assumes "reachable w s" and "statusOf i s = Some RideStatus.REQUESTED" and "startDispatch g i s = (Inr (), t)"
  shows "(statusOf i t = Some RideStatus.NO_DRIVERS_FOUND
      \<or> statusOf i t = Some RideStatus.DISPATCHING \<and> (\<exists>x. ExpireRoundAt x i \<in> set (outbox t)))
    \<and> (\<exists>st. statusOf i (runEvents w (es @ ExpireRound i # fs) t) = Some st \<and> st \<notin> waitingStatuses)"
proof -
  have ok: "ridesOk s" by (rule reachable_ridesOk [OF assms(1)])
  obtain r where r: "List.find (\<lambda>r. rd_id r = i) (rides s) = Some r" "rd_status r = RideStatus.REQUESTED"
    using assms(2) by (auto simp: statusOf_def)
  have begun: "started i () t" by (rule wp_Inr [OF wp_startDispatch [OF ok r] assms(3)])
  have t: "ridesOk t" using progress_startDispatch [of g i] ok assms(3) unfolding progress_def by (auto dest: wp_Inr)
  obtain st where st: "statusOf i t = Some st" "st \<noteq> RideStatus.REQUESTED" using begun by (auto simp: roundOpen_def)
  let ?u = "runEvents w es t" and ?v = "snd (runRideEvent w (ExpireRound i) (runEvents w es t))"
  have u: "ridesOk ?u" using runEvents_sound [OF t] by blast
  have v: "ridesOk ?v" using event_progress [OF u] by blast
  obtain st1 where "statusOf i ?u = Some st1" "st1 \<noteq> RideStatus.REQUESTED"
    using st steps_not_requested by (metis statusOf_advances [OF t st(1)])
  from expire_decides [OF u this] obtain st2 where st2: "statusOf i ?v = Some st2" "st2 \<notin> waitingStatuses" by blast
  obtain st3 where "statusOf i (runEvents w fs ?v) = Some st3" "st3 \<notin> waitingStatuses"
    using st2 steps_waiting by (metis statusOf_advances [OF v st2(1)])
  then show ?thesis using begun by (simp add: runEvents_def roundOpen_def del: runRideEvent.simps)
qed

lemma dispatchedDb_run: "startDispatch (wd_geosearch noMaps) ''uuuuu'' bookedDb = (Inr (), dispatchedDb)"
proof -
  have "fst (startDispatch (wd_geosearch noMaps) ''uuuuu'' bookedDb) = Inr ()"
    by (simp add: bookedDb_def runEvents_def run_simps booking_defs city_defs dispatch_defs cong: run_cong)
  moreover have "snd (startDispatch (wd_geosearch noMaps) ''uuuuu'' bookedDb) = dispatchedDb"
    by (simp add: bookedDb_def dispatchedDb_def runEvents_def)
  ultimately show ?thesis by (simp add: prod_eq_iff)
qed

lemma dispatch_ends_witness:
  "\<exists>st. statusOf ''uuuuu'' (runEvents noMaps [Decline ''d2'' ''uuuuu'', Pass 15000, ExpireRound ''uuuuu'', Rate ''rider'' ''uuuuu'' 5 None] dispatchedDb)
     = Some st \<and> st \<notin> waitingStatuses"
proof -
  have "statusOf ''uuuuu'' bookedDb = Some RideStatus.REQUESTED" by (simp add: statusOf_def booked_rides)
  from dispatch_ends [OF booked_reachable(1) this dispatchedDb_run, of "[Decline ''d2'' ''uuuuu'', Pass 15000]" "[Rate ''rider'' ''uuuuu'' 5 None]"]
  show ?thesis by simp
qed

end
