(* ===== verification/Text.thy ===== *)
theory Text
  imports Prelude
begin

text \<open>
  The string functions of the source, on ASCII text: \<open>toLowerCase\<close>, \<open>trim\<close>, decimal numerals,
  \<open>padStart\<close>, the substring tests that stand for the regular expressions of
  src/common/utils/user-agent.util.ts, and src/common/utils/duration.util.ts.
\<close>

definition toLower :: "char \<Rightarrow> char" where
  "toLower c = (let n = (of_char c :: nat) in if 65 \<le> n \<and> n \<le> 90 then char_of (n + 32) else c)"

definition toLowerCase :: "string \<Rightarrow> string" where
  "toLowerCase s = map toLower s"

definition isSpace :: "char \<Rightarrow> bool" where
  "isSpace c \<longleftrightarrow> (let n = (of_char c :: nat) in n = 32 \<or> 9 \<le> n \<and> n \<le> 13)"

definition trim :: "string \<Rightarrow> string" where
  "trim s = rev (dropWhile isSpace (rev (dropWhile isSpace s)))"

text \<open>\<open>xs.join(sep)\<close>.\<close>

fun join :: "string \<Rightarrow> string list \<Rightarrow> string" where
  "join sep [] = []"
| "join sep [x] = x"
| "join sep (x # y # xs) = x @ sep @ join sep (y # xs)"

section \<open>Numerals\<close>

definition digitChar :: "nat \<Rightarrow> char" where
  "digitChar d = char_of (48 + d)"

fun decimal :: "nat \<Rightarrow> string" where
  "decimal n = (if n < 10 then [digitChar n] else decimal (n div 10) @ [digitChar (n mod 10)])"

declare decimal.simps [simp del]

definition isDigit :: "char \<Rightarrow> bool" where
  "isDigit c \<longleftrightarrow> (let n = (of_char c :: nat) in 48 \<le> n \<and> n \<le> 57)"

definition digitValue :: "char \<Rightarrow> nat" where
  "digitValue c = of_char c - 48"

definition readDecimal :: "string \<Rightarrow> nat" where
  "readDecimal s = fold (\<lambda>c n. 10 * n + digitValue c) s 0"

definition padStart :: "nat \<Rightarrow> char \<Rightarrow> string \<Rightarrow> string" where
  "padStart n c s = replicate (n - length s) c @ s"

lemma of_digitChar: "d < 10 \<Longrightarrow> (of_char (digitChar d) :: nat) = 48 + d"
  by (simp add: digitChar_def)

lemma digit_of [simp]: "d < 10 \<Longrightarrow> isDigit (digitChar d)" "d < 10 \<Longrightarrow> digitValue (digitChar d) = d"
  by (simp_all add: isDigit_def digitValue_def of_digitChar Let_def)

lemma digits_decimal: "list_all isDigit (decimal n)"
  by (induction n rule: decimal.induct) (subst decimal.simps, simp)

lemma decimal_nonempty [simp]: "decimal n \<noteq> []"
  by (subst decimal.simps) simp

lemma readDecimal_decimal: "readDecimal (decimal n) = n"
  unfolding readDecimal_def by (induction n rule: decimal.induct) (subst decimal.simps, simp)

lemma length_decimal: "n < 10 ^ k \<Longrightarrow> 0 < k \<Longrightarrow> length (decimal n) \<le> k"
proof (induction n arbitrary: k rule: decimal.induct)
  case (1 n)
  show ?case
  proof (cases "n < 10")
    case False
    then obtain j where k: "k = Suc j" "0 < j" using 1(2,3) by (cases k; cases "k = 1") auto
    then have "n div 10 < 10 ^ j" using 1(2) by (simp add: less_mult_imp_div_less mult.commute)
    then show ?thesis using 1(1) False k by (subst decimal.simps) simp
  qed (use 1(3) in \<open>subst decimal.simps, simp\<close>)
qed

lemma length_padStart: "length s \<le> n \<Longrightarrow> length (padStart n c s) = n"
  by (simp add: padStart_def)

lemma readDecimal_pad: "readDecimal (padStart k (digitChar 0) (decimal n)) = n"
proof -
  have "fold (\<lambda>c n. 10 * n + digitValue c) (replicate j (digitChar 0)) 0 = 0" for j
    by (induction j) simp_all
  then show ?thesis using readDecimal_decimal [of n] by (simp add: readDecimal_def padStart_def)
qed

section \<open>Substrings\<close>

fun contains :: "string \<Rightarrow> string \<Rightarrow> bool" where
  "contains p [] = (p = [])"
| "contains p (c # s) = (take (length p) (c # s) = p \<or> contains p s)"

text \<open>\<open>/p.*q/\<close>, on a line of text.\<close>

fun containsThen :: "string \<Rightarrow> string \<Rightarrow> string \<Rightarrow> bool" where
  "containsThen p q [] = (p = [] \<and> q = [])"
| "containsThen p q (c # s) = (take (length p) (c # s) = p \<and> contains q (drop (length p) (c # s)) \<or> containsThen p q s)"

section \<open>Durations\<close>

definition unitMs :: "char \<Rightarrow> int option" where
  "unitMs c = map_of [(CHR ''s'', 1000), (CHR ''m'', 60000), (CHR ''h'', 3600000), (CHR ''d'', 86400000)] c"

text \<open>\<open>None\<close> is the thrown error of a text that is not a number followed by one of the four units.\<close>

definition parseDuration :: "string \<Rightarrow> int option" where
  "parseDuration value = (let t = trim value in
     if t = [] \<or> butlast t = [] \<or> \<not> list_all isDigit (butlast t) then None
     else map_option (\<lambda>u. int (readDecimal (butlast t)) * u) (unitMs (last t)))"

lemma dropWhile_hd: "s \<noteq> [] \<Longrightarrow> \<not> P (hd s) \<Longrightarrow> dropWhile P s = s"
  by (cases s) simp_all

lemma trim_solid: "s \<noteq> [] \<Longrightarrow> \<not> isSpace (hd s) \<Longrightarrow> \<not> isSpace (last s) \<Longrightarrow> trim s = s"
  by (simp add: trim_def dropWhile_hd hd_rev)

lemma digit_not_space: "isDigit c \<Longrightarrow> \<not> isSpace c"
  by (auto simp: isDigit_def isSpace_def Let_def)

text \<open>A numeral and a unit are read back as what they say.\<close>

lemma parseDuration_written:
  assumes "unitMs u = Some ms"
  shows "parseDuration (decimal n @ [u]) = Some (int n * ms)"
proof -
  have "\<not> isSpace u" using assms by (auto simp: unitMs_def isSpace_def split: if_splits)
  moreover have "\<not> isSpace (hd (decimal n))"
    using digits_decimal [of n] decimal_nonempty [of n] by (cases "decimal n") (auto dest: digit_not_space)
  ultimately have "trim (decimal n @ [u]) = decimal n @ [u]" by (intro trim_solid) (auto simp: hd_append)
  then show ?thesis using assms digits_decimal by (simp add: parseDuration_def readDecimal_decimal)
qed

end
