(* ===== verification/Payments.thy ===== *)
theory Payments
  imports Ledger Dispatch Text
begin

text \<open>
  Funding and withdrawing money, src/wallet/payments.service.ts, and the Paystack webhook of
  src/wallet/wallet-webhooks.controller.ts: top-ups by checkout, saved card or bank transfer, the
  confirmation that credits the wallet, saved cards, and withdrawals to a bank with the deduction of
  outstanding commission.  Paystack is the parameter \<open>paystack\<close>, one function per endpoint that the
  services call; the formatting of amounts is a parameter too.  Log lines are left out.
\<close>

section \<open>Paystack\<close>

record payAuthorization =
  au_authorizationCode :: string
  au_last4 :: string
  au_expMonth :: string
  au_expYear :: string
  au_cardType :: string
  au_brand :: "string option"
  au_bank :: "string option"
  au_channel :: string
  au_reusable :: bool
  au_signature :: "string option"

record verifiedTx =
  vf_status :: string
  vf_reference :: string
  vf_amount :: int
  vf_gatewayResponse :: "string option"
  vf_userId :: "string option"
  vf_authorization :: "payAuthorization option"

record bankCharge =
  bc_bankName :: string
  bc_accountNumber :: string
  bc_accountName :: string
  bc_expiresAt :: instant

text \<open>E-mail, kobo and reference go out; what comes back is a rejection or the fields the code reads.\<close>

record paystack =
  pk_initializeTransaction :: "string \<Rightarrow> int \<Rightarrow> string \<Rightarrow> error + string \<times> string"
  pk_chargeAuthorization :: "string \<Rightarrow> int \<Rightarrow> string \<Rightarrow> string \<Rightarrow> error + string \<times> string option"
  pk_chargeBankTransfer :: "string \<Rightarrow> int \<Rightarrow> string \<Rightarrow> instant \<Rightarrow> error + bankCharge"
  pk_verifyTransaction :: "string \<Rightarrow> error + verifiedTx"
  pk_resolveAccountNumber :: "string \<Rightarrow> string \<Rightarrow> error + string"
  pk_createTransferRecipient :: "string \<Rightarrow> string \<Rightarrow> string \<Rightarrow> error + string"
  pk_initiateTransfer :: "int \<Rightarrow> string \<Rightarrow> string \<Rightarrow> error + string"
  pk_fallbackDomain :: string

definition call :: "error + 'a \<Rightarrow> 'a op" where
  "call r = (case r of Inl e \<Rightarrow> throw e | Inr x \<Rightarrow> return x)"

definition BANK_TRANSFER_WINDOW_MS :: int where
  "BANK_TRANSFER_WINDOW_MS = 30 * 60 * 1000"

definition TERMINAL_FAILURE_STATUSES :: "string list" where
  "TERMINAL_FAILURE_STATUSES = [''failed'', ''reversed'']"

definition paystackEmail :: "paystack \<Rightarrow> user \<Rightarrow> string" where
  "paystackEmail pk u = (case usr_email u of
     Some e \<Rightarrow> if e \<noteq> [] then e else toLowerCase (usr_publicId u) @ ''@'' @ pk_fallbackDomain pk
   | None \<Rightarrow> toLowerCase (usr_publicId u) @ ''@'' @ pk_fallbackDomain pk)"

section \<open>Top-up requests\<close>

definition findTopUp :: "string \<Rightarrow> topUpRequest option op" where
  "findTopUp reference = gets (\<lambda>s. List.find (\<lambda>q. tu_reference q = reference) (topUpRequests s))"

text \<open>\<open>prisma.topUpRequest.create\<close>; the reference is unique.\<close>

definition createTopUp :: "topUpRequest \<Rightarrow> topUpRequest op" where
  "createTopUp q =
     bind (findTopUp (tu_reference q)) (\<lambda>dup.
     andThen (ensure (dup = None) UniqueViolation)
     (bind (gets now) (\<lambda>t.
      andThen (modify (\<lambda>s. s\<lparr>topUpRequests := topUpRequests s @ [q\<lparr>tu_createdAt := t, tu_amount := scale2 (tu_amount q)\<rparr>]\<rparr>))
      (return (q\<lparr>tu_createdAt := t, tu_amount := scale2 (tu_amount q)\<rparr>)))))"

definition updateTopUps :: "(topUpRequest \<Rightarrow> bool) \<Rightarrow> (topUpRequest \<Rightarrow> topUpRequest) \<Rightarrow> nat op" where
  "updateTopUps P f =
     bind (gets (\<lambda>s. countWhere P (topUpRequests s))) (\<lambda>n.
     andThen (modify (\<lambda>s. s\<lparr>topUpRequests := updateWhere P f (topUpRequests s)\<rparr>)) (return n))"

definition newTopUp :: "string \<Rightarrow> string \<Rightarrow> rat \<Rightarrow> TopUpMethod \<Rightarrow> topUpRequest" where
  "newTopUp reference userId amount meth =
     \<lparr>tu_reference = reference, tu_userId = userId, tu_amount = amount, tu_method = meth, tu_purpose = TOPUP,
      tu_status = TopUpStatus.PENDING, tu_saveCard = False, tu_cardId = None, tu_cardLast4 = None, tu_cardBrand = None,
      tu_bankName = None, tu_accountNumber = None, tu_accountName = None, tu_accountExpiresAt = None,
      tu_failureReason = None, tu_completedAt = None, tu_createdAt = 0\<rparr>"

record topUpView =
  tv_reference :: string
  tv_status :: TopUpStatus
  tv_method :: TopUpMethod
  tv_purpose :: TopUpPurpose
  tv_amount :: rat
  tv_card :: "(string \<times> string option) option"
  tv_bankTransfer :: "(string option \<times> string option \<times> string option \<times> instant option) option"
  tv_failureReason :: "string option"
  tv_createdAt :: instant
  tv_completedAt :: "instant option"

definition toTopUpView :: "topUpRequest \<Rightarrow> topUpView" where
  "toTopUpView q =
     \<lparr>tv_reference = tu_reference q, tv_status = tu_status q, tv_method = tu_method q, tv_purpose = tu_purpose q,
      tv_amount = tu_amount q,
      tv_card = (if truthy (tu_cardLast4 q) then Some (the (tu_cardLast4 q), tu_cardBrand q) else None),
      tv_bankTransfer = (if tu_method q = BANK_TRANSFER
         then Some (tu_bankName q, tu_accountNumber q, tu_accountName q, tu_accountExpiresAt q) else None),
      tv_failureReason = tu_failureReason q, tv_createdAt = tu_createdAt q, tv_completedAt = tu_completedAt q\<rparr>"

definition markTopUpFailed :: "string \<Rightarrow> string \<Rightarrow> unit op" where
  "markTopUpFailed reference reason =
     andThen (updateTopUps (\<lambda>q. tu_reference q = reference \<and> tu_status q = TopUpStatus.PENDING)
                (\<lambda>q. q\<lparr>tu_status := TopUpStatus.FAILED, tu_failureReason := Some reason\<rparr>))
     (return ())"

section \<open>Saved cards\<close>

definition listCards :: "string \<Rightarrow> paymentCard list op" where
  "listCards userId = gets (\<lambda>s. sort_key (\<lambda>c. if pc_isDefault c then 0 else 1 :: nat)
     (sort_key (\<lambda>c. - pc_createdAt c) (filter (\<lambda>c. pc_userId c = userId) (paymentCards s))))"

definition findOwnedCard :: "string \<Rightarrow> string \<Rightarrow> paymentCard op" where
  "findOwnedCard userId cardId =
     bind (gets (\<lambda>s. List.find (\<lambda>c. pc_id c = cardId) (paymentCards s))) (\<lambda>found.
     bind (orThrow found (NotFoundException ''Card not found'')) (\<lambda>card.
     andThen (ensure (pc_userId card = userId) (NotFoundException ''Card not found'')) (return card)))"

definition setDefaultCard :: "string \<Rightarrow> string \<Rightarrow> paymentCard list op" where
  "setDefaultCard userId cardId =
     andThen (findOwnedCard userId cardId)
     (andThen (atomic (andThen
        (modify (\<lambda>s. s\<lparr>paymentCards := updateWhere (\<lambda>c. pc_userId c = userId) (\<lambda>c. c\<lparr>pc_isDefault := False\<rparr>) (paymentCards s)\<rparr>))
        (modify (\<lambda>s. s\<lparr>paymentCards := updateWhere (\<lambda>c. pc_id c = cardId) (\<lambda>c. c\<lparr>pc_isDefault := True\<rparr>) (paymentCards s)\<rparr>))))
     (listCards userId))"

text \<open>Deleting a card sets \<open>cardId\<close> of its top-up requests to null (\<open>onDelete: SetNull\<close>).\<close>

definition removeCard :: "string \<Rightarrow> string \<Rightarrow> unit op" where
  "removeCard userId cardId =
     bind (findOwnedCard userId cardId) (\<lambda>card.
     andThen (modify (\<lambda>s. s\<lparr>paymentCards := filter (\<lambda>c. pc_id c \<noteq> cardId) (paymentCards s),
        topUpRequests := updateWhere (\<lambda>q. tu_cardId q = Some cardId) (\<lambda>q. q\<lparr>tu_cardId := None\<rparr>) (topUpRequests s)\<rparr>))
     (onlyIf (pc_isDefault card)
       (bind (gets (\<lambda>s. case sort_key (\<lambda>c. - pc_createdAt c) (filter (\<lambda>c. pc_userId c = userId) (paymentCards s)) of
                [] \<Rightarrow> None | c # _ \<Rightarrow> Some c)) (\<lambda>follower.
        case follower of
          None \<Rightarrow> return ()
        | Some c \<Rightarrow> modify (\<lambda>s. s\<lparr>paymentCards :=
            updateWhere (\<lambda>d. pc_id d = pc_id c) (\<lambda>d. d\<lparr>pc_isDefault := True\<rparr>) (paymentCards s)\<rparr>)))))"

text \<open>The upsert on (userId, signature) in \<open>completeTopUpRequest\<close>; it returns the id of the row.\<close>

definition saveCard :: "string \<Rightarrow> string \<Rightarrow> string \<Rightarrow> payAuthorization \<Rightarrow> string op" where
  "saveCard userId signature brand auth =
     bind (gets (\<lambda>s. countWhere (\<lambda>c. pc_userId c = userId) (paymentCards s))) (\<lambda>n.
     bind (gets (\<lambda>s. List.find (\<lambda>c. pc_userId c = userId \<and> pc_signature c = signature) (paymentCards s))) (\<lambda>existing.
     let cardData = (\<lambda>c. c\<lparr>pc_authorizationCode := au_authorizationCode auth, pc_last4 := au_last4 auth, pc_brand := brand,
                          pc_expMonth := au_expMonth auth, pc_expYear := au_expYear auth, pc_bank := au_bank auth\<rparr>) in
     case existing of
       Some c \<Rightarrow> andThen (modify (\<lambda>s. s\<lparr>paymentCards :=
                   updateWhere (\<lambda>d. pc_userId d = userId \<and> pc_signature d = signature) cardData (paymentCards s)\<rparr>))
                 (return (pc_id c))
     | None \<Rightarrow>
         bind freshId (\<lambda>i.
         bind (gets now) (\<lambda>t.
         andThen (modify (\<lambda>s. s\<lparr>paymentCards := paymentCards s @
           [\<lparr>pc_id = i, pc_userId = userId, pc_authorizationCode = au_authorizationCode auth, pc_signature = signature,
             pc_last4 = au_last4 auth, pc_brand = brand, pc_expMonth = au_expMonth auth, pc_expYear = au_expYear auth,
             pc_bank = au_bank auth, pc_isDefault = (n = 0), pc_createdAt = t\<rparr>]\<rparr>))
         (return i)))))"

section \<open>Confirming a top-up\<close>

definition brandOf :: "payAuthorization \<Rightarrow> string" where
  "brandOf auth = toLowerCase (trim (orElse (au_brand auth) (au_cardType auth)))"

definition cardToSave :: "topUpRequest \<Rightarrow> payAuthorization option \<Rightarrow> bool" where
  "cardToSave q auth = (tu_saveCard q \<and> (case auth of None \<Rightarrow> False
     | Some a \<Rightarrow> au_channel a = ''card'' \<and> au_reusable a \<and> truthy (au_signature a)))"

definition completeTopUpRequest :: "(rat \<Rightarrow> string) \<Rightarrow> string \<Rightarrow> string \<Rightarrow> verifiedTx \<Rightarrow> unit op" where
  "completeTopUpRequest naira reference userId verified =
     bind (findTopUp reference) (\<lambda>found.
     case found of
       None \<Rightarrow> return ()
     | Some q \<Rightarrow>
         if tu_status q = TopUpStatus.COMPLETED then return () else
         let auth = vf_authorization verified; brand = map_option brandOf auth in
         bind (if cardToSave q auth
               then bind (saveCard userId (the (au_signature (the auth))) (the brand) (the auth)) (\<lambda>i. return (Some i))
               else return (tu_cardId q)) (\<lambda>cardId.
         bind (gets now) (\<lambda>t.
         bind (updateTopUps (\<lambda>q. tu_reference q = reference \<and> tu_status q \<noteq> TopUpStatus.COMPLETED)
           (\<lambda>r. r\<lparr>tu_status := TopUpStatus.COMPLETED, tu_completedAt := Some t, tu_cardId := cardId,
                    tu_cardLast4 := keptOr (map_option au_last4 auth) (tu_cardLast4 q),
                    tu_cardBrand := keptOr brand (tu_cardBrand q)\<rparr>)) (\<lambda>count.
         onlyIf (0 < count)
           (push (if tu_purpose q = CARD_SETUP
              then NotifyUser userId ''Card added'' (''Your card was saved and '' @ naira (tu_amount q) @ '' was added to your wallet.'')
              else NotifyUser userId ''Top-up successful'' (naira (tu_amount q) @ '' was added to your wallet.'')))))))"

definition topUpReferences :: "string \<Rightarrow> string list" where
  "topUpReferences reference = [reference, reference @ '':settle'', reference @ '':credit'']"

text \<open>The part of \<open>applyVerifiedTopUp\<close> that moves money: for a driver, debt first.\<close>

definition creditTopUp :: "user \<Rightarrow> rat \<Rightarrow> string \<Rightarrow> unit op" where
  "creditTopUp u amount reference =
     (let plain = andThen (topUp (usr_id u) amount reference None None) (return ()) in
      if usr_role u = DRIVER then
        bind (getOrCreateUserAccount (usr_id u) DRIVER_COMMISSION_PAYABLE) (\<lambda>payable.
        if 0 < acc_balance payable then
          (let settleAmount = min (acc_balance payable) amount; remaining = amount - settleAmount;
               md = Some [(''topupReference'', reference)] in
           andThen (settleCommission (usr_id u) settleAmount (reference @ '':settle'') md)
           (if 0 < remaining
            then andThen (topUp (usr_id u) remaining (reference @ '':credit'') None md) (return ())
            else return ()))
        else plain)
      else plain)"

definition applyVerifiedTopUp :: "(rat \<Rightarrow> string) \<Rightarrow> verifiedTx \<Rightarrow> unit op" where
  "applyVerifiedTopUp naira verified =
     (let reference = vf_reference verified in
      if vf_status verified \<noteq> ''success'' then
        (if vf_status verified \<in> set TERMINAL_FAILURE_STATUSES
         then markTopUpFailed reference (orElse (vf_gatewayResponse verified) (vf_status verified))
         else return ())
      else if \<not> truthy (vf_userId verified) then return ()
      else
        let userId = the (vf_userId verified); amount = fromKobo (vf_amount verified) in
        bind (gets (\<lambda>s. List.find (\<lambda>u. usr_id u = userId) (users s))) (\<lambda>found.
        case found of
          None \<Rightarrow> return ()
        | Some u \<Rightarrow>
            bind (gets (\<lambda>s. List.find (\<lambda>t. tx_reference t \<in> set (topUpReferences reference)) (transactions s))) (\<lambda>alreadyCredited.
            andThen (onlyIf (alreadyCredited = None) (creditTopUp u amount reference))
            (completeTopUpRequest naira reference userId verified))))"

definition processTopUpWebhookEvent :: "paystack \<Rightarrow> (rat \<Rightarrow> string) \<Rightarrow> string \<Rightarrow> unit op" where
  "processTopUpWebhookEvent pk naira reference =
     bind (call (pk_verifyTransaction pk reference)) (\<lambda>v. applyVerifiedTopUp naira v)"

section \<open>Starting a top-up\<close>

definition findUserOrThrow :: "string \<Rightarrow> user op" where
  "findUserOrThrow i = bind (gets (\<lambda>s. List.find (\<lambda>u. usr_id u = i) (users s))) (\<lambda>u. orThrow u RecordNotFound)"

definition findTopUpOrThrow :: "string \<Rightarrow> topUpRequest op" where
  "findTopUpOrThrow reference = bind (findTopUp reference) (\<lambda>q. orThrow q RecordNotFound)"

definition chargeSavedCard :: "paystack \<Rightarrow> (rat \<Rightarrow> string) \<Rightarrow> user \<Rightarrow> rat \<Rightarrow> string \<Rightarrow> string option \<Rightarrow> topUpView op" where
  "chargeSavedCard pk naira u amount reference cardId =
     andThen (ensure (truthy cardId) (BadRequestException ''cardId is required for SAVED_CARD top-ups''))
     (bind (findOwnedCard (usr_id u) (the cardId)) (\<lambda>card.
      andThen (createTopUp ((newTopUp reference (usr_id u) amount SAVED_CARD)
         \<lparr>tu_cardId := Some (pc_id card), tu_cardLast4 := Some (pc_last4 card), tu_cardBrand := Some (pc_brand card)\<rparr>))
      (andThen (tryCatch
         (bind (call (pk_chargeAuthorization pk (paystackEmail pk u) (toKobo amount) (pc_authorizationCode card) reference))
           (\<lambda>(status, gatewayResponse).
            if status = ''success'' then bind (call (pk_verifyTransaction pk reference)) (\<lambda>v. applyVerifiedTopUp naira v)
            else if status \<in> set TERMINAL_FAILURE_STATUSES then markTopUpFailed reference (orElse gatewayResponse status)
            else return ()))
         (\<lambda>err. andThen (markTopUpFailed reference ''The card could not be charged'') (throw err)))
      (bind (findTopUpOrThrow reference) (\<lambda>q. return (toTopUpView q))))))"

text \<open>What the app gets back: the request and, for a checkout, its url and access code.\<close>

type_synonym started = "topUpView \<times> (string \<times> string) option"

definition initiateTopUp :: "paystack \<Rightarrow> (rat \<Rightarrow> string) \<Rightarrow> string \<Rightarrow> rat \<Rightarrow> TopUpMethod option \<Rightarrow> string option \<Rightarrow> bool option \<Rightarrow> started op" where
  "initiateTopUp pk naira userId amount meth cardId saveIt =
     (let m = orElse meth CARD in
     bind (findUserOrThrow userId) (\<lambda>u.
     bind freshId (\<lambda>token.
     let reference = ''topup:'' @ token in
     case m of
       SAVED_CARD \<Rightarrow> bind (chargeSavedCard pk naira u amount reference cardId) (\<lambda>v. return (v, None))
     | BANK_TRANSFER \<Rightarrow>
         bind (gets now) (\<lambda>t.
         bind (call (pk_chargeBankTransfer pk (paystackEmail pk u) (toKobo amount) reference (t + BANK_TRANSFER_WINDOW_MS))) (\<lambda>charge.
         bind (createTopUp ((newTopUp reference userId amount BANK_TRANSFER)
           \<lparr>tu_bankName := Some (bc_bankName charge), tu_accountNumber := Some (bc_accountNumber charge),
            tu_accountName := Some (bc_accountName charge), tu_accountExpiresAt := Some (bc_expiresAt charge)\<rparr>)) (\<lambda>q.
         return (toTopUpView q, None))))
     | CARD \<Rightarrow>
         bind (createTopUp ((newTopUp reference userId amount CARD)\<lparr>tu_saveCard := orElse saveIt False\<rparr>)) (\<lambda>q.
         bind (call (pk_initializeTransaction pk (paystackEmail pk u) (toKobo amount) reference)) (\<lambda>checkout.
         return (toTopUpView q, Some checkout))))))"

definition initiateCardSetup :: "paystack \<Rightarrow> string \<Rightarrow> started op" where
  "initiateCardSetup pk userId =
     bind (findUserOrThrow userId) (\<lambda>u.
     bind (getConfig ''cardSetupAmount'' 50) (\<lambda>amount.
     bind freshId (\<lambda>token.
     let reference = ''topup:'' @ token in
     bind (createTopUp ((newTopUp reference userId amount CARD)\<lparr>tu_purpose := CARD_SETUP, tu_saveCard := True\<rparr>)) (\<lambda>q.
     bind (call (pk_initializeTransaction pk (paystackEmail pk u) (toKobo amount) reference)) (\<lambda>checkout.
     return (toTopUpView q, Some checkout))))))"

definition getTopUpStatus :: "paystack \<Rightarrow> (rat \<Rightarrow> string) \<Rightarrow> string \<Rightarrow> string \<Rightarrow> topUpView op" where
  "getTopUpStatus pk naira userId reference =
     bind (findTopUp reference) (\<lambda>found.
     bind (orThrow found (NotFoundException ''Top-up not found'')) (\<lambda>q.
     andThen (ensure (tu_userId q = userId) (NotFoundException ''Top-up not found''))
     (if tu_status q = TopUpStatus.PENDING then
        andThen (tryCatch (bind (call (pk_verifyTransaction pk reference)) (\<lambda>v. applyVerifiedTopUp naira v)) (\<lambda>_. return ()))
        (bind (findTopUpOrThrow reference) (\<lambda>q'. return (toTopUpView q')))
      else return (toTopUpView q))))"

section \<open>Withdrawals\<close>

definition findWithdrawal :: "(withdrawalRequest \<Rightarrow> bool) \<Rightarrow> withdrawalRequest option op" where
  "findWithdrawal P = gets (\<lambda>s. List.find P (withdrawalRequests s))"

definition updateWithdrawal :: "string \<Rightarrow> (withdrawalRequest \<Rightarrow> withdrawalRequest) \<Rightarrow> withdrawalRequest op" where
  "updateWithdrawal i f =
     andThen (modify (\<lambda>s. s\<lparr>withdrawalRequests := updateWhere (\<lambda>w. wr_id w = i) f (withdrawalRequests s)\<rparr>))
     (bind (findWithdrawal (\<lambda>w. wr_id w = i)) (\<lambda>w. orThrow w RecordNotFound))"

definition resolveRecipient :: "paystack \<Rightarrow> string \<Rightarrow> string \<Rightarrow> string op" where
  "resolveRecipient pk accountNumber bankCode =
     bind (call (pk_resolveAccountNumber pk accountNumber bankCode)) (\<lambda>accountName.
     call (pk_createTransferRecipient pk accountName accountNumber bankCode))"

text \<open>The catch block around the transfer: give the money, and the settled debt, back.
  (The dash of the second reason is an ASCII one here.)\<close>

definition reverseWithdrawal :: "string \<Rightarrow> string option \<Rightarrow> string \<Rightarrow> string \<Rightarrow> unit op" where
  "reverseWithdrawal ledgerTxId settleTxId requestId reason =
     andThen (refund ledgerTxId reason)
     (andThen (case settleTxId of
                 Some i \<Rightarrow> andThen (refund i (reason @ '' - commission settlement reversed'')) (return ())
               | None \<Rightarrow> return ())
     (andThen (updateWithdrawal requestId (\<lambda>w. w\<lparr>wr_status := TransactionStatus.FAILED\<rparr>)) (return ())))"

definition initiateWithdrawal :: "paystack \<Rightarrow> (rat \<Rightarrow> string) \<Rightarrow> string \<Rightarrow> rat \<Rightarrow> string \<Rightarrow> string \<Rightarrow> withdrawalRequest op" where
  "initiateWithdrawal pk shown driverId amount accountNumber bankCode =
     bind (getOrCreateUserAccount driverId DRIVER_COMMISSION_PAYABLE) (\<lambda>payable.
     let settleAmount = min (acc_balance payable) amount; transferAmount = amount - settleAmount in
     bind freshId (\<lambda>token.
     let reference = ''withdraw:'' @ token in
     bind (if 0 < transferAmount then resolveRecipient pk accountNumber bankCode
           else return (''unverified:'' @ bankCode @ '':'' @ accountNumber)) (\<lambda>recipientCode.
     bind (requestWithdrawal driverId amount reference
             (Some [(''recipientCode'', recipientCode), (''settledCommission'', shown settleAmount)])) (\<lambda>ledgerTx.
     bind (if 0 < settleAmount
           then bind (settleCommission driverId settleAmount (reference @ '':settle'') (Some [(''withdrawalReference'', reference)]))
                  (\<lambda>tx. return (Some (tx_id tx)))
           else return None) (\<lambda>settleTx.
     bind freshId (\<lambda>i.
     bind (gets now) (\<lambda>t.
     let request = \<lparr>wr_id = i, wr_driverId = driverId, wr_amount = scale2 amount, wr_settledCommission = scale2 settleAmount,
            wr_status = (if 0 < transferAmount then TransactionStatus.PENDING else TransactionStatus.COMPLETED),
            wr_transactionId = Some (tx_id ledgerTx), wr_gatewayReference = None, wr_bankAccountId = recipientCode,
            wr_completedAt = (if transferAmount = 0 then Some t else None)\<rparr> in
     andThen (modify (\<lambda>s. s\<lparr>withdrawalRequests := withdrawalRequests s @ [request]\<rparr>))
     (if transferAmount = 0 then return request else
      bind (tryCatch (call (pk_initiateTransfer pk (toKobo transferAmount) recipientCode reference))
              (\<lambda>err. andThen (reverseWithdrawal (tx_id ledgerTx) settleTx i ''Withdrawal initiation failed at the gateway'')
                         (throw err))) (\<lambda>transferCode.
      updateWithdrawal i (\<lambda>w. w\<lparr>wr_gatewayReference := Some transferCode\<rparr>))))))))))"

definition processTransferWebhookEvent :: "string \<Rightarrow> bool \<Rightarrow> unit op" where
  "processTransferWebhookEvent reference succeeded =
     bind (findTransactionByReference reference) (\<lambda>found.
     case found of
       None \<Rightarrow> return ()
     | Some transaction \<Rightarrow>
         bind (findWithdrawal (\<lambda>w. wr_transactionId w = Some (tx_id transaction))) (\<lambda>foundRequest.
         bind (orThrow foundRequest (NotFoundException (''No withdrawal request linked to transaction '' @ tx_id transaction))) (\<lambda>request.
         if succeeded then
           bind (gets now) (\<lambda>t.
           andThen (updateWithdrawal (wr_id request) (\<lambda>w. w\<lparr>wr_status := TransactionStatus.COMPLETED, wr_completedAt := Some t\<rparr>))
           (return ()))
         else
           andThen (refund (tx_id transaction) ''Paystack transfer failed after initiation'')
           (bind (findTransactionByReference (reference @ '':settle'')) (\<lambda>settleTx.
            andThen (case settleTx of
                Some t \<Rightarrow> andThen (refund (tx_id t) ''Paystack transfer failed after initiation - commission settlement reversed'') (return ())
              | None \<Rightarrow> return ())
            (andThen (updateWithdrawal (wr_id request) (\<lambda>w. w\<lparr>wr_status := TransactionStatus.FAILED\<rparr>)) (return ())))))))"

section \<open>The webhook\<close>

text \<open>The signature check is the caller's: \<open>signed\<close> is what \<open>verifyWebhookSignature\<close> said.\<close>

definition handlePaystackWebhook :: "paystack \<Rightarrow> (rat \<Rightarrow> string) \<Rightarrow> bool \<Rightarrow> string \<Rightarrow> string \<Rightarrow> unit op" where
  "handlePaystackWebhook pk naira signed event reference =
     andThen (ensure signed (UnauthorizedException ''Invalid Paystack signature''))
     (if event = ''charge.success'' then processTopUpWebhookEvent pk naira reference
      else if event = ''transfer.success'' then processTransferWebhookEvent reference True
      else if event = ''transfer.failed'' \<or> event = ''transfer.reversed'' then processTransferWebhookEvent reference False
      else return ())"

end
