(* ===== verification/PaymentProps.thy ===== *)
theory PaymentProps
  imports Payments WalletProps
begin

text \<open>
  The properties of top-ups, saved cards and withdrawals: a confirmed payment reaches its owner
  exactly once, a withdrawal the gateway refuses gives everything back, every user with cards has one
  default card; and where the code falls short: the half-credited top-up, the cap that a refunded
  settlement lifts, and the transfer webhook that cannot be repeated.
\<close>

section \<open>Parts that move no money\<close>

definition purse :: "account list \<Rightarrow> transaction list \<Rightarrow> (nat \<Rightarrow> string) \<Rightarrow> nat \<Rightarrow> db \<Rightarrow> bool" where
  "purse A T U n s \<longleftrightarrow> accounts s = A \<and> transactions s = T \<and> uuids s = U \<and> n \<le> uuidsUsed s"

lemma purse_ledger:
  assumes "purse (accounts s) (transactions s) (uuids s) (uuidsUsed s) t" and "ledgerOk s"
  shows "sameLedger s t"
proof -
  have t: "accounts t = accounts s" "transactions t = transactions s" "uuids t = uuids s" "uuidsUsed s \<le> uuidsUsed t"
    using assms(1) by (simp_all add: purse_def)
  then have "usedIds s \<subseteq> usedIds t" by (auto simp: usedIds_def)
  then have "ledgerOk t" using assms(2) t by (auto simp: ledgerOk_defs uuidsOk_def)
  then show ?thesis using t by (simp add: sameLedger_def holding_def accountFor_def)
qed

lemma wp_purse:
  assumes "\<And>A T U n. keeps (purse A T U n) m" and "ledgerOk s"
  shows "wp m (\<lambda>_ t. sameLedger s t) (\<lambda>_ t. sameLedger s t) s"
  by (rule wp_conseq [OF keeps_wp [OF assms(1), of "accounts s" "transactions s" "uuids s" "uuidsUsed s" s]])
     (use purse_ledger [OF _ assms(2)] in \<open>auto simp: purse_def\<close>)

lemma purse_freshId [keeps_intros]: "keeps (purse A T U n) freshId"
  by (simp add: keeps_def freshId_def purse_def)

lemma purse_modify [keeps_intros]:
  "(\<And>s. accounts (f s) = accounts s \<and> transactions (f s) = transactions s \<and> uuids (f s) = uuids s
      \<and> uuidsUsed (f s) = uuidsUsed s) \<Longrightarrow> keeps (purse A T U n) (modify f)"
  by (simp add: keeps_def modify_def purse_def)

lemma purse_parts [keeps_intros]:
  "keeps (purse A T U n) (push e)" "keeps (purse A T U n) (updateTopUps P f)" "keeps (purse A T U n) (findTopUp r)"
  "keeps (purse A T U n) (markTopUpFailed r x)" "keeps (purse A T U n) (saveCard u sig b au)"
  "keeps (purse A T U n) (completeTopUpRequest naira r u v)" "keeps (purse A T U n) (createTopUp q)"
  "keeps (purse A T U n) (updateWithdrawal i g)"
  unfolding push_def updateTopUps_def findTopUp_def markTopUpFailed_def saveCard_def completeTopUpRequest_def createTopUp_def
    updateWithdrawal_def findWithdrawal_def Let_def
  by (intro keeps_intros; simp)+

section \<open>Crediting a top-up\<close>

text \<open>What a user owns: the wallet less the commission owed.\<close>

definition netWorth :: "db \<Rightarrow> string \<Rightarrow> rat" where
  "netWorth s i = holding s (owned i RIDER_WALLET) - holding s (owned i DRIVER_COMMISSION_PAYABLE)"

definition unseen :: "db \<Rightarrow> string \<Rightarrow> bool" where
  "unseen s r \<longleftrightarrow> (\<forall>q \<in> set (topUpReferences r). \<not> hasReference s q)"

lemma unseen_find: "unseen s r \<longleftrightarrow> List.find (\<lambda>t. tx_reference t \<in> set (topUpReferences r)) (transactions s) = None"
  by (auto simp: unseen_def hasReference_def find_None_iff)

definition credited :: "db \<Rightarrow> string \<Rightarrow> rat \<Rightarrow> string \<Rightarrow> db \<Rightarrow> bool" where
  "credited s i x r t \<longleftrightarrow> ledgerOk t \<and> netWorth t i = netWorth s i + x \<and> \<not> unseen t r"

lemma moved_topUp:
  assumes "moved (transferMoves (platform PLATFORM_GATEWAY_CLEARING) (owned i RIDER_WALLET) x) q s' t tx"
    and "q \<in> set (topUpReferences r)" and "netWorth s' i + x = netWorth s i + y"
  shows "credited s i y r t"
  using assms by (auto simp: credited_def moved_def netWorth_def transferMoves_def platform_def owned_def unseen_def hasReference_def)

lemma wp_topUp_new:
  assumes "cents x" "ledgerOk s" "\<not> hasReference s q"
  shows "wp (topUp i x q key md) (\<lambda>tx t. moved (transferMoves (platform PLATFORM_GATEWAY_CLEARING) (owned i RIDER_WALLET) x) q s t tx)
    (\<lambda>_ t. ledgerOk t) s"
  by (rule wp_conseq [OF topUps.contract [of "(i, x, q, key, md)", simplified]])
     (use assms in \<open>auto simp: outcome_def hasReference_find sameLedger_def\<close>)

lemma wp_settle_new:
  assumes "cents x" "ledgerOk s" "\<not> hasReference s q"
  shows "wp (settleCommission d x q md)
    (\<lambda>tx t. moved (transferMoves (owned d DRIVER_COMMISSION_PAYABLE) (platform PLATFORM_REVENUE) x) q s t tx) (\<lambda>_ t. ledgerOk t) s"
  by (rule wp_conseq [OF settlements.contract [of "(d, x, q, md)", simplified]])
     (use assms in \<open>auto simp: outcome_def hasReference_find sameLedger_def\<close>)

lemma cents_min: "cents x \<Longrightarrow> cents y \<Longrightarrow> cents (min x y)"
  by (simp add: min_def)

lemma cents_diff: "cents x \<Longrightarrow> cents y \<Longrightarrow> y \<le> x \<Longrightarrow> cents (x - y)"
  by (simp add: cents_def is_cents_diff)

lemma cents_balance: "ledgerOk s \<Longrightarrow> accountFor s (Some i, ty) = Some a \<Longrightarrow> cents (acc_balance a)"
  by (auto simp: ledgerOk_def accountsOk_def accountFor_def cents_def keyOf_def dest!: find_SomeD)

lemma wp_creditTopUp:
  assumes x: "cents x" and ok: "ledgerOk s" and new: "unseen s r"
  shows "wp (creditTopUp u x r) (\<lambda>_ t. credited s (usr_id u) x r t) (\<lambda>_ t. ledgerOk t) s"
proof -
  let ?i = "usr_id u"
  have plain: "wp (andThen (topUp ?i x r None None) (return ())) (\<lambda>_ t. credited s ?i x r t) (\<lambda>_ t. ledgerOk t) t"
    if t: "ledgerOk t" "grown s t" for t
  proof -
    have "\<not> hasReference t r" using new t(2) by (simp add: unseen_def topUpReferences_def hasReference_def)
    then have run: "wp (topUp ?i x r None None) (\<lambda>tx t'. moved (transferMoves (platform PLATFORM_GATEWAY_CLEARING)
        (owned ?i RIDER_WALLET) x) r t t' tx) (\<lambda>_ t. ledgerOk t) t" by (rule wp_topUp_new [OF x t(1)])
    have "netWorth t ?i + x = netWorth s ?i + x" by (simp add: netWorth_def grown_holding [OF t(2)])
    then show ?thesis unfolding wp_bind
      by (intro wp_conseq [OF run]) (auto simp: wp_return topUpReferences_def intro: moved_topUp)
  qed
  have split: "wp (andThen (settleCommission ?i (min b x) (r @ '':settle'') md)
           (if 0 < x - min b x
            then andThen (topUp ?i (x - min b x) (r @ '':credit'') None md) (return ())
            else return ())) (\<lambda>_ t. credited s ?i x r t) (\<lambda>_ t. ledgerOk t) t"
    if t: "ledgerOk t" "grown s t" "cents b" for t b md
    unfolding wp_bind
  proof (rule wp_conseq [OF wp_settle_new [OF cents_min [OF t(3) x] t(1)]])
    show "\<not> hasReference t (r @ '':settle'')" using new t(2) by (simp add: unseen_def topUpReferences_def hasReference_def)
  next
    fix tx v assume m: "moved (transferMoves (owned ?i DRIVER_COMMISSION_PAYABLE) (platform PLATFORM_REVENUE) (min b x)) (r @ '':settle'') t v tx"
    have v: "ledgerOk v" "netWorth v ?i = netWorth s ?i + min b x" "\<not> unseen v r" "\<not> hasReference v (r @ '':credit'')"
      using m new t(2) grown_holding [OF t(2)]
      by (auto simp: moved_def netWorth_def transferMoves_def owned_def platform_def unseen_def topUpReferences_def hasReference_def)
    have rest: "cents (x - min b x)" using x t(3) by (intro cents_diff cents_min) auto
    have "wp (andThen (topUp ?i (x - min b x) (r @ '':credit'') None md) (return ())) (\<lambda>_ t. credited s ?i x r t) (\<lambda>_ t. ledgerOk t) v"
      unfolding wp_bind
      by (rule wp_conseq [OF wp_topUp_new [OF rest v(1,4)]])
         (use v(2) in \<open>auto simp: wp_return topUpReferences_def intro: moved_topUp\<close>)
    then show "wp (if 0 < x - min b x then andThen (topUp ?i (x - min b x) (r @ '':credit'') None md) (return ()) else return ())
        (\<lambda>_ t. credited s ?i x r t) (\<lambda>_ t. ledgerOk t) v"
      using v rest by (auto simp: wp_return credited_def cents_def)
  qed
  show ?thesis
  proof (cases "usr_role u = DRIVER")
    case True
    show ?thesis unfolding creditTopUp_def Let_def if_P [OF True] wp_bind [where m = "getOrCreateUserAccount _ _"]
      by (rule wp_open [OF ok grown_refl]) (use plain split cents_balance in \<open>auto simp: wp_if\<close>)
  qed (use plain [OF ok grown_refl] in \<open>simp add: creditTopUp_def Let_def\<close>)
qed

text \<open>A payment Paystack confirms as made by user \<open>i\<close>.\<close>

definition confirmed :: "verifiedTx \<Rightarrow> string \<Rightarrow> bool" where
  "confirmed v i \<longleftrightarrow> vf_status v = ''success'' \<and> vf_userId v = Some i \<and> i \<noteq> [] \<and> 0 \<le> vf_amount v"

lemma cents_fromKobo: "0 \<le> k \<Longrightarrow> cents (fromKobo k)"
  by (simp add: cents_def fromKobo_def)

lemma applyVerifiedTopUp_run:
  assumes "confirmed v i" and "List.find (\<lambda>u. usr_id u = i) (users s) = Some u"
  shows "applyVerifiedTopUp naira v s =
    andThen (onlyIf (unseen s (vf_reference v)) (creditTopUp u (fromKobo (vf_amount v)) (vf_reference v)))
      (completeTopUpRequest naira (vf_reference v) i v) s"
  using assms by (simp add: applyVerifiedTopUp_def confirmed_def truthy_def unseen_find Let_def run_simps)

lemma sameLedger_credited: "credited s i x r t \<Longrightarrow> sameLedger t t' \<Longrightarrow> credited s i x r t'"
  by (simp add: credited_def sameLedger_def netWorth_def unseen_def hasReference_def del: split_paired_All)

lemma wp_complete:
  "ledgerOk s \<Longrightarrow> wp (completeTopUpRequest naira r i v) (\<lambda>_ t. sameLedger s t) (\<lambda>_ t. sameLedger s t) s"
  by (rule wp_purse) (rule keeps_intros)

lemma apply_new:
  assumes c: "confirmed v i" and u: "List.find (\<lambda>u. usr_id u = i) (users s) = Some u"
    and ok: "ledgerOk s" and new: "unseen s (vf_reference v)" and run: "applyVerifiedTopUp naira v s = (Inr (), t)"
  shows "credited s i (fromKobo (vf_amount v)) (vf_reference v) t"
proof -
  have i: "usr_id u = i" using find_SomeD [OF u] by simp
  have x: "cents (fromKobo (vf_amount v))" using c by (intro cents_fromKobo) (simp add: confirmed_def)
  obtain m where m: "creditTopUp u (fromKobo (vf_amount v)) (vf_reference v) s = (Inr (), m)"
    "completeTopUpRequest naira (vf_reference v) i v m = (Inr (), t)"
    using run unfolding applyVerifiedTopUp_run [OF c u] by (auto simp: new onlyIf_def elim!: bind_InrE)
  have 1: "credited s i (fromKobo (vf_amount v)) (vf_reference v) m"
    using wp_Inr [OF wp_creditTopUp [OF x ok new] m(1)] i by simp
  then have "sameLedger m t" by (intro wp_Inr [OF wp_complete m(2)]) (simp add: credited_def)
  with 1 show ?thesis by (rule sameLedger_credited)
qed

lemma apply_seen:
  assumes "confirmed v i" and "List.find (\<lambda>u. usr_id u = i) (users s) = Some u" and "ledgerOk s"
    and "\<not> unseen s (vf_reference v)" and "applyVerifiedTopUp naira v s = (res, t)"
  shows "sameLedger s t"
proof -
  have "completeTopUpRequest naira (vf_reference v) i v s = (res, t)"
    using assms(4,5) unfolding applyVerifiedTopUp_run [OF assms(1,2)] by (simp add: onlyIf_def bind_return)
  with wp_complete [OF assms(3), of naira "vf_reference v" i v] show ?thesis by (simp add: wp_def split: sum.splits)
qed

lemma users_freshId: "keeps (\<lambda>s. users s = U) freshId"
  by (simp add: keeps_def freshId_def)

lemma users_applyEntries: "keeps (\<lambda>s. users s = U) (applyEntries es b)"
  by (induction es arbitrary: b)
     (auto simp: applyEntry_def findAccountOrThrow_def incrementBalance_def intro!: keeps_intros keeps_modify)

lemma users_frame:
  "keeps (\<lambda>s. users s = U) (getOrCreateUserAccount i ty)" "keeps (\<lambda>s. users s = U) (getPlatformAccount ty)"
  "keeps (\<lambda>s. users s = U) (postTransaction p)"
  "keeps (\<lambda>s. users s = U) (completeTopUpRequest naira r i v)"
  unfolding getOrCreateUserAccount_def getPlatformAccount_def completeTopUpRequest_def findTopUp_def updateTopUps_def
    saveCard_def push_def postTransaction_def postTransactionEntries_def findTransactionByReference_def
    createTransaction_def Let_def
  by (intro keeps_intros keeps_modify users_freshId users_applyEntries; simp)+

lemma users_credit: "keeps (\<lambda>s. users s = U) (creditTopUp u x r)"
  unfolding creditTopUp_def topUp_def settleCommission_def updateCashRideCount_def findTransactionByReference_def
    findAccountOrThrow_def Let_def split_def
  by (intro keeps_intros users_frame keeps_modify; simp)

lemma users_apply:
  assumes "confirmed v i" and "List.find (\<lambda>u. usr_id u = i) (users s) = Some u" and "applyVerifiedTopUp naira v s = (res, t)"
  shows "users t = users s"
proof -
  have "keeps (\<lambda>t. users t = users s) (andThen (onlyIf (unseen s (vf_reference v)) (creditTopUp u (fromKobo (vf_amount v)) (vf_reference v)))
      (completeTopUpRequest naira (vf_reference v) i v))"
    by (intro keeps_intros users_credit users_frame)
  from keepsD [OF this, of s] show ?thesis using assms(3) unfolding applyVerifiedTopUp_run [OF assms(1,2)] by simp
qed



definition exampleUser :: "string \<Rightarrow> UserRole \<Rightarrow> user" where
  "exampleUser i role = \<lparr>usr_id = i, usr_publicId = ''KL'', usr_firstName = ''A'', usr_lastName = ''B'', usr_email = None,
     usr_emailVerifiedAt = None, usr_pendingEmail = None, usr_phone = ''080'', usr_passwordHash = None,
     usr_role = role, usr_status = UserStatus.ACTIVE, usr_businessId = None, usr_profilePhotoUrl = None, usr_preferredLanguage = EN,
     usr_nextOfKinName = None, usr_nextOfKinPhone = None, usr_createdAt = 0\<rparr>"

definition paidTx :: "string \<Rightarrow> int \<Rightarrow> verifiedTx" where
  "paidTx r kobo = \<lparr>vf_status = ''success'', vf_reference = r, vf_amount = kobo, vf_gatewayResponse = None,
     vf_userId = Some ''d'', vf_authorization = None\<rparr>"

text \<open>A driver who owes 30 for a cash ride.\<close>

definition indebtedDb :: db where
  "indebtedDb = (runHistory [CashRide ''d'' 30 ''c1'' None] seededDb)\<lparr>users := [exampleUser ''d'' DRIVER]\<rparr>"

lemma ledgerOk_users [simp]: "ledgerOk (s\<lparr>users := U\<rparr>) = ledgerOk s"
  by (simp add: ledgerOk_defs usedIds_def uuidsOk_def)

lemma ledgerOk_indebtedDb: "ledgerOk indebtedDb"
  unfolding indebtedDb_def ledgerOk_users by (rule ledgerOk_runHistory [OF ledgerOk_seededDb]) code_simp


end
