(* ===== verification/Accounts.thy ===== *)
theory Accounts
  imports Schema Text
begin

text \<open>
  Signing in, src/accounts: one-time codes and reset tokens (otp.service.ts), registration, login,
  passwords and refresh-token rotation (auth.service.ts), e-mail verification
  (email-verification.service.ts), sessions (sessions.service.ts) and the user-agent labels of
  common/utils/user-agent.util.ts.  The record \<open>authEnv\<close> holds what comes from outside: SHA-256,
  argon2, the JWT signature, the mail and SMS clients and the settings; the draw of \<open>randomInt\<close> is an
  argument of the operations that make a code.
\<close>

section \<open>The environment\<close>

record authEnv =
  ae_hashToken :: "string \<Rightarrow> string"
  ae_argonHash :: "string \<Rightarrow> string \<Rightarrow> string"
  ae_argonVerify :: "string \<Rightarrow> string \<Rightarrow> bool"
  ae_sign :: "string \<Rightarrow> UserRole \<Rightarrow> string \<Rightarrow> string \<Rightarrow> string"
  ae_rejects :: "effect \<Rightarrow> error option"
  ae_refreshExpiresIn :: "string option"
  ae_resetAppUrl :: "string option"
  ae_adminAppUrl :: "string option"
  ae_businessAppUrl :: "string option"

text \<open>A message through the SMS or mail client, which may reject.\<close>

definition send :: "authEnv \<Rightarrow> effect \<Rightarrow> unit op" where
  "send env e = (case ae_rejects env e of None \<Rightarrow> push e | Some err \<Rightarrow> throw err)"

text \<open>\<open>argon2.hash\<close> draws a salt.\<close>

definition hashPassword :: "authEnv \<Rightarrow> string \<Rightarrow> string op" where
  "hashPassword env password = bind freshId (\<lambda>salt. return (ae_argonHash env salt password))"

section \<open>Users\<close>

definition findUser :: "(user \<Rightarrow> bool) \<Rightarrow> user option op" where
  "findUser P = gets (\<lambda>s. List.find P (users s))"

definition setUser :: "string \<Rightarrow> (user \<Rightarrow> user) \<Rightarrow> unit op" where
  "setUser i f =
     bind (findUser (\<lambda>u. usr_id u = i)) (\<lambda>found.
     andThen (ensure (found \<noteq> None) RecordNotFound)
     (modify (\<lambda>s. s\<lparr>users := updateWhere (\<lambda>u. usr_id u = i) f (users s)\<rparr>)))"

text \<open>\<open>prisma.user.create\<close>: the id and the public id come from the database, phone and e-mail are unique.\<close>

definition insertUser :: "user \<Rightarrow> user op" where
  "insertUser u =
     bind (findUser (\<lambda>v. usr_phone v = usr_phone u \<or> usr_email u \<noteq> None \<and> usr_email v = usr_email u)) (\<lambda>clash.
     andThen (ensure (clash = None) UniqueViolation)
     (bind freshId (\<lambda>i. bind freshId (\<lambda>p.
      bind (gets now) (\<lambda>t.
      let v = u\<lparr>usr_id := i, usr_publicId := ''USR-'' @ p, usr_createdAt := t\<rparr> in
      andThen (modify (\<lambda>s. s\<lparr>users := users s @ [v]\<rparr>)) (return v))))))"

section \<open>One-time codes\<close>

definition OTP_LENGTH :: nat where "OTP_LENGTH = 6"
definition OTP_TTL_MS :: int where "OTP_TTL_MS = 10 * 60 * 1000"
definition OTP_MAX_ATTEMPTS :: nat where "OTP_MAX_ATTEMPTS = 5"
definition RESET_TOKEN_TTL_MS :: int where "RESET_TOKEN_TTL_MS = 30 * 60 * 1000"

definition otpCodeText :: "nat \<Rightarrow> string" where
  "otpCodeText n = padStart OTP_LENGTH (digitChar 0) (decimal n)"

definition storeCode :: "authEnv \<Rightarrow> string \<Rightarrow> OtpPurpose \<Rightarrow> string \<Rightarrow> int \<Rightarrow> unit op" where
  "storeCode env userId purpose code ttl =
     bind freshId (\<lambda>i. bind (gets now) (\<lambda>t.
     modify (\<lambda>s. s\<lparr>otpCodes := otpCodes s @
       [\<lparr>otp_id = i, otp_userId = userId, otp_codeHash = ae_hashToken env code, otp_purpose = purpose,
         otp_expiresAt = t + ttl, otp_consumedAt = None, otp_attempts = 0, otp_createdAt = t\<rparr>]\<rparr>)))"

definition generateAndStore :: "authEnv \<Rightarrow> nat \<Rightarrow> string \<Rightarrow> OtpPurpose \<Rightarrow> string op" where
  "generateAndStore env draw userId purpose =
     andThen (storeCode env userId purpose (otpCodeText draw) OTP_TTL_MS) (return (otpCodeText draw))"

definition updateOtps :: "(otpCode \<Rightarrow> bool) \<Rightarrow> (otpCode \<Rightarrow> otpCode) \<Rightarrow> unit op" where
  "updateOtps P f = modify (\<lambda>s. s\<lparr>otpCodes := updateWhere P f (otpCodes s)\<rparr>)"

text \<open>\<open>findFirst\<close> with \<open>orderBy: createdAt desc\<close>: the newest matching row.\<close>

definition newestOtp :: "(otpCode \<Rightarrow> bool) \<Rightarrow> otpCode list \<Rightarrow> otpCode option" where
  "newestOtp P os = (case sort_key (\<lambda>q. - otp_createdAt q) (rev (filter P os)) of [] \<Rightarrow> None | q # _ \<Rightarrow> Some q)"

definition outstanding :: "string \<Rightarrow> OtpPurpose \<Rightarrow> otpCode \<Rightarrow> bool" where
  "outstanding userId purpose q \<longleftrightarrow> otp_userId q = userId \<and> otp_purpose q = purpose \<and> otp_consumedAt q = None"

definition verify :: "authEnv \<Rightarrow> string \<Rightarrow> OtpPurpose \<Rightarrow> string \<Rightarrow> unit op" where
  "verify env userId purpose code =
     bind (gets (\<lambda>s. newestOtp (outstanding userId purpose) (otpCodes s))) (\<lambda>found.
     bind (orThrow found (UnauthorizedException ''Invalid or expired code'')) (\<lambda>otp.
     andThen (ensure (otp_attempts otp < OTP_MAX_ATTEMPTS) (ForbiddenException ''Too many attempts - request a new code''))
     (bind (gets now) (\<lambda>t.
      andThen (ensure (\<not> otp_expiresAt otp < t) (UnauthorizedException ''Code has expired''))
      (if otp_codeHash otp \<noteq> ae_hashToken env code then
         andThen (updateOtps (\<lambda>q. otp_id q = otp_id otp) (\<lambda>q. q\<lparr>otp_attempts := Suc (otp_attempts q)\<rparr>))
         (throw (UnauthorizedException ''Invalid code''))
       else updateOtps (\<lambda>q. otp_id q = otp_id otp) (\<lambda>q. q\<lparr>otp_consumedAt := Some t\<rparr>))))))"

definition generateAndStoreToken :: "authEnv \<Rightarrow> string \<Rightarrow> OtpPurpose \<Rightarrow> string op" where
  "generateAndStoreToken env userId purpose =
     bind freshId (\<lambda>token. andThen (storeCode env userId purpose token RESET_TOKEN_TTL_MS) (return token))"

definition findLiveToken :: "authEnv \<Rightarrow> OtpPurpose \<Rightarrow> string \<Rightarrow> (string \<times> string) option op" where
  "findLiveToken env purpose token =
     gets (\<lambda>s. case List.find (\<lambda>q. otp_purpose q = purpose \<and> otp_codeHash q = ae_hashToken env token \<and> otp_consumedAt q = None)
                 (otpCodes s) of
        None \<Rightarrow> None
      | Some q \<Rightarrow> if otp_expiresAt q < now s then None else Some (otp_id q, otp_userId q))"

definition claim :: "string \<Rightarrow> bool op" where
  "claim i =
     bind (gets (\<lambda>s. countWhere (\<lambda>q. otp_id q = i \<and> otp_consumedAt q = None \<and> now s < otp_expiresAt q) (otpCodes s))) (\<lambda>count.
     bind (gets now) (\<lambda>t.
     andThen (updateOtps (\<lambda>q. otp_id q = i \<and> otp_consumedAt q = None \<and> t < otp_expiresAt q) (\<lambda>q. q\<lparr>otp_consumedAt := Some t\<rparr>))
     (return (count = 1))))"

definition consumeAll :: "string \<Rightarrow> OtpPurpose \<Rightarrow> unit op" where
  "consumeAll userId purpose = bind (gets now) (\<lambda>t.
     updateOtps (outstanding userId purpose) (\<lambda>q. q\<lparr>otp_consumedAt := Some t\<rparr>))"

section \<open>Devices\<close>

datatype deviceKind = DESKTOP | MOBILE | TABLET | UNKNOWN

record deviceDescription =
  dd_deviceLabel :: string
  dd_browser :: string
  dd_os :: string
  dd_deviceType :: deviceKind

definition osOf :: "string \<Rightarrow> string" where
  "osOf l = (if contains ''windows nt'' l then ''Windows''
     else if contains ''iphone'' l \<or> contains ''ipad'' l \<or> contains ''ipod'' l then ''iOS''
     else if contains ''android'' l then ''Android''
     else if contains ''mac os x'' l then ''macOS''
     else if contains ''linux'' l then ''Linux'' else ''Unknown'')"

definition browserOf :: "string \<Rightarrow> string" where
  "browserOf l = (if contains ''edg/'' l then ''Edge''
     else if contains ''opr/'' l \<or> contains ''opera'' l then ''Opera''
     else if contains ''chrome/'' l \<and> \<not> contains ''chromium'' l then ''Chrome''
     else if contains ''firefox/'' l then ''Firefox''
     else if containsThen ''version/'' ''safari'' l then ''Safari''
     else if contains ''okhttp'' l \<or> contains ''dart'' l \<or> contains ''flutter'' l \<or> contains ''kiloapp'' l then ''Kilo mobile app''
     else ''Unknown'')"

definition describeUserAgent :: "string option \<Rightarrow> deviceDescription" where
  "describeUserAgent ua = (if \<not> truthy ua then
       \<lparr>dd_deviceLabel = ''Unknown device'', dd_browser = ''Unknown'', dd_os = ''Unknown'', dd_deviceType = UNKNOWN\<rparr>
     else let l = toLowerCase (the ua); os = osOf l; browser = browserOf l in
       \<lparr>dd_deviceLabel = browser @ '' on '' @ os, dd_browser = browser, dd_os = os,
        dd_deviceType = (if contains ''ipad'' l \<or> contains ''tablet'' l then TABLET
          else if contains ''mobi'' l \<or> contains ''iphone'' l \<or> containsThen ''android'' ''mobile'' l then MOBILE
          else if os = ''Windows'' \<or> os = ''macOS'' \<or> os = ''Linux'' then DESKTOP else UNKNOWN)\<rparr>)"

section \<open>Sessions\<close>

text \<open>A session is a row of refresh tokens; the context of a request is its address and user agent.\<close>

type_synonym requestContext = "string option \<times> string option"
type_synonym tokenPair = "string \<times> string"

definition revokeTokens :: "(refreshToken \<Rightarrow> bool) \<Rightarrow> unit op" where
  "revokeTokens P = bind (gets now) (\<lambda>t.
     modify (\<lambda>s. s\<lparr>refreshTokens := updateWhere P (\<lambda>r. r\<lparr>rt_revokedAt := Some t\<rparr>) (refreshTokens s)\<rparr>))"

definition liveOf :: "string \<Rightarrow> refreshToken \<Rightarrow> bool" where
  "liveOf userId r \<longleftrightarrow> rt_userId r = userId \<and> rt_revokedAt r = None"

definition issueTokenPair :: "authEnv \<Rightarrow> string \<Rightarrow> UserRole \<Rightarrow> string \<Rightarrow> requestContext \<Rightarrow> tokenPair op" where
  "issueTokenPair env userId role phone context =
     bind freshId (\<lambda>token.
     bind (orThrow (parseDuration (orElse (ae_refreshExpiresIn env) ''30d'')) (InternalError ''Invalid duration string'')) (\<lambda>ttl.
     bind (gets (\<lambda>s. List.find (\<lambda>r. rt_tokenHash r = ae_hashToken env token) (refreshTokens s))) (\<lambda>clash.
     andThen (ensure (clash = None) UniqueViolation)
     (bind freshId (\<lambda>i. bind (gets now) (\<lambda>t.
      andThen (modify (\<lambda>s. s\<lparr>refreshTokens := refreshTokens s @
        [\<lparr>rt_id = i, rt_userId = userId, rt_tokenHash = ae_hashToken env token, rt_revokedAt = None, rt_expiresAt = t + ttl,
          rt_deviceLabel = (if truthy (snd context) then Some (dd_deviceLabel (describeUserAgent (snd context))) else None),
          rt_userAgent = snd context, rt_ipAddress = fst context, rt_lastUsedAt = Some t, rt_createdAt = t\<rparr>]\<rparr>))
      (return (ae_sign env userId role phone i, token))))))))"

record sessionView =
  sv_id :: string
  sv_deviceName :: string
  sv_deviceType :: deviceKind
  sv_browser :: string
  sv_os :: string
  sv_ipAddress :: "string option"
  sv_lastActiveAt :: instant
  sv_createdAt :: instant
  sv_isCurrentSession :: bool

definition sessionViewOf :: "string option \<Rightarrow> refreshToken \<Rightarrow> sessionView" where
  "sessionViewOf current r = (let device = describeUserAgent (rt_userAgent r) in
     \<lparr>sv_id = rt_id r, sv_deviceName = orElse (rt_deviceLabel r) (dd_deviceLabel device),
      sv_deviceType = dd_deviceType device, sv_browser = dd_browser device, sv_os = dd_os device,
      sv_ipAddress = rt_ipAddress r,
      sv_lastActiveAt = orElse (rt_lastUsedAt r) (rt_createdAt r), sv_createdAt = rt_createdAt r,
      sv_isCurrentSession = (truthy current \<and> Some (rt_id r) = current)\<rparr>)"

text \<open>Newest use first, then newest creation; a null sorts first in a descending order.\<close>

definition listSessions :: "string \<Rightarrow> string option \<Rightarrow> sessionView list op" where
  "listSessions userId current = gets (\<lambda>s. map (sessionViewOf current)
     (sort_key (\<lambda>r. case rt_lastUsedAt r of None \<Rightarrow> (0::nat) | Some _ \<Rightarrow> 1)
       (sort_key (\<lambda>r. case rt_lastUsedAt r of None \<Rightarrow> 0 | Some t \<Rightarrow> - t)
         (sort_key (\<lambda>r. - rt_createdAt r)
           (filter (\<lambda>r. liveOf userId r \<and> now s < rt_expiresAt r) (refreshTokens s))))))"

definition revokeSession :: "string \<Rightarrow> string \<Rightarrow> unit op" where
  "revokeSession userId sessionId =
     bind (gets (\<lambda>s. List.find (\<lambda>r. rt_id r = sessionId) (refreshTokens s))) (\<lambda>found.
     bind (orThrow found (NotFoundException ''Session not found'')) (\<lambda>token.
     andThen (ensure (rt_userId token = userId) (NotFoundException ''Session not found''))
     (onlyIf (rt_revokedAt token = None) (revokeTokens (\<lambda>r. rt_id r = sessionId)))))"

definition revokeAllOthers :: "string \<Rightarrow> string option \<Rightarrow> nat op" where
  "revokeAllOthers userId current =
     andThen (ensure (truthy current) (ForbiddenException ''Current session could not be identified - sign in again and retry''))
     (bind (gets (\<lambda>s. countWhere (\<lambda>r. liveOf userId r \<and> Some (rt_id r) \<noteq> current) (refreshTokens s))) (\<lambda>n.
      andThen (revokeTokens (\<lambda>r. liveOf userId r \<and> Some (rt_id r) \<noteq> current)) (return n)))"

definition refresh :: "authEnv \<Rightarrow> string \<Rightarrow> requestContext \<Rightarrow> tokenPair op" where
  "refresh env token context =
     bind (gets (\<lambda>s. List.find (\<lambda>r. rt_tokenHash r = ae_hashToken env token) (refreshTokens s))) (\<lambda>found.
     bind (orThrow found (UnauthorizedException ''Invalid refresh token'')) (\<lambda>stored.
     if rt_revokedAt stored \<noteq> None then
       andThen (revokeTokens (liveOf (rt_userId stored)))
       (throw (UnauthorizedException ''Refresh token has already been used - all sessions revoked''))
     else
       bind (gets now) (\<lambda>t.
       andThen (ensure (\<not> rt_expiresAt stored < t) (UnauthorizedException ''Refresh token has expired''))
       (bind (findUser (\<lambda>u. usr_id u = rt_userId stored)) (\<lambda>foundUser.
        bind (orThrow foundUser (UnauthorizedException ''Invalid refresh token'')) (\<lambda>u.
        andThen (revokeTokens (\<lambda>r. rt_id r = rt_id stored))
        (issueTokenPair env (usr_id u) (usr_role u) (usr_phone u)
          (keptOr (fst context) (rt_ipAddress stored), keptOr (snd context) (rt_userAgent stored)))))))))"

definition logout :: "authEnv \<Rightarrow> string \<Rightarrow> unit op" where
  "logout env token = revokeTokens (\<lambda>r. rt_tokenHash r = ae_hashToken env token \<and> rt_revokedAt r = None)"

end
