(* ===== verification/Auth.thy ===== *)
theory Auth
  imports Accounts
begin

text \<open>
  Accounts built on codes and sessions: registration, OTP and password sign-in, password change and
  reset (accounts/auth.service.ts), and the verification of e-mail addresses
  (accounts/email-verification.service.ts).  Messages that differ from the source only in a dash
  carry an ASCII one.
\<close>

section \<open>E-mail verification\<close>

definition sendForAddress :: "authEnv \<Rightarrow> nat \<Rightarrow> string \<Rightarrow> string \<Rightarrow> unit op" where
  "sendForAddress env draw userId address =
     bind (generateAndStore env draw userId EMAIL_VERIFICATION) (\<lambda>code.
     send env (EmailVerificationCode address code))"

definition requestChange :: "authEnv \<Rightarrow> nat \<Rightarrow> string \<Rightarrow> string \<Rightarrow> unit op" where
  "requestChange env draw userId newEmail =
     bind (findUser (\<lambda>u. usr_email u = Some newEmail)) (\<lambda>taken.
     andThen (ensure (case taken of None \<Rightarrow> True | Some u \<Rightarrow> usr_id u = userId)
       (ConflictException ''An account with this email already exists''))
     (andThen (setUser userId (\<lambda>u. u\<lparr>usr_pendingEmail := Some newEmail\<rparr>))
     (sendForAddress env draw userId newEmail)))"

text \<open>The e-mail column is unique, so a write of a taken address is refused by the database.\<close>

definition confirmEmail :: "authEnv \<Rightarrow> string \<Rightarrow> string \<Rightarrow> unit op" where
  "confirmEmail env userId code =
     bind (findUser (\<lambda>u. usr_id u = userId)) (\<lambda>found.
     bind (orThrow found RecordNotFound) (\<lambda>u.
     let targetEmail = keptOr (usr_pendingEmail u) (usr_email u) in
     andThen (ensure (truthy targetEmail) (ConflictException ''No email to verify - set one first''))
     (andThen (verify env userId EMAIL_VERIFICATION code)
     (andThen (if targetEmail \<noteq> usr_email u
         then bind (findUser (\<lambda>v. usr_email v = targetEmail)) (\<lambda>taken.
           ensure (case taken of None \<Rightarrow> True | Some v \<Rightarrow> usr_id v = userId)
             (ConflictException ''This email was claimed by another account in the meantime''))
         else return ())
     (bind (gets now) (\<lambda>t.
      bind (findUser (\<lambda>v. usr_id v \<noteq> userId \<and> usr_email v = targetEmail)) (\<lambda>clash.
      andThen (ensure (clash = None) UniqueViolation)
      (setUser userId (\<lambda>u. u\<lparr>usr_email := targetEmail, usr_emailVerifiedAt := Some t, usr_pendingEmail := None\<rparr>)))))))))"

section \<open>Registration and codes\<close>

record registerDto =
  rg_firstName :: string
  rg_lastName :: string
  rg_phone :: string
  rg_email :: "string option"
  rg_password :: "string option"

definition issueOtp :: "authEnv \<Rightarrow> nat \<Rightarrow> string \<Rightarrow> string \<Rightarrow> OtpPurpose \<Rightarrow> unit op" where
  "issueOtp env draw userId phone purpose =
     bind (generateAndStore env draw userId purpose) (\<lambda>code. send env (SmsOtp phone code))"

definition blankUser :: user where
  "blankUser = \<lparr>usr_id = [], usr_publicId = [], usr_firstName = [], usr_lastName = [], usr_email = None,
     usr_emailVerifiedAt = None, usr_pendingEmail = None, usr_phone = [], usr_passwordHash = None,
     usr_role = RIDER, usr_status = PENDING_VERIFICATION, usr_businessId = None, usr_profilePhotoUrl = None, usr_preferredLanguage = EN,
     usr_nextOfKinName = None, usr_nextOfKinPhone = None, usr_createdAt = 0\<rparr>"

definition register :: "authEnv \<Rightarrow> nat \<Rightarrow> nat \<Rightarrow> registerDto \<Rightarrow> UserRole \<Rightarrow> string op" where
  "register env draw draw' dto role =
     bind (findUser (\<lambda>u. usr_phone u = rg_phone dto \<or> truthy (rg_email dto) \<and> usr_email u = rg_email dto)) (\<lambda>existing.
     andThen (ensure (existing = None) (ConflictException ''An account with this phone or email already exists''))
     (bind (if truthy (rg_password dto) then bind (hashPassword env (the (rg_password dto))) (\<lambda>h. return (Some h))
            else return None) (\<lambda>passwordHash.
      bind (insertUser (blankUser\<lparr>usr_firstName := rg_firstName dto, usr_lastName := rg_lastName dto,
        usr_phone := rg_phone dto, usr_email := rg_email dto, usr_passwordHash := passwordHash, usr_role := role\<rparr>)) (\<lambda>u.
      andThen (issueOtp env draw (usr_id u) (usr_phone u) REGISTRATION)
      (andThen (onlyIf (truthy (usr_email u)) (sendForAddress env draw' (usr_id u) (the (usr_email u))))
      (return (usr_id u)))))))"

definition registerRider :: "authEnv \<Rightarrow> nat \<Rightarrow> nat \<Rightarrow> registerDto \<Rightarrow> string op" where
  "registerRider env draw draw' dto = register env draw draw' (dto\<lparr>rg_password := None\<rparr>) RIDER"

definition registerDriver :: "authEnv \<Rightarrow> nat \<Rightarrow> nat \<Rightarrow> registerDto \<Rightarrow> string op" where
  "registerDriver env draw draw' dto = register env draw draw' dto DRIVER"

definition sendOtp :: "authEnv \<Rightarrow> nat \<Rightarrow> string \<Rightarrow> OtpPurpose \<Rightarrow> unit op" where
  "sendOtp env draw phone purpose =
     bind (findUser (\<lambda>u. usr_phone u = phone)) (\<lambda>found.
     case found of
       None \<Rightarrow> return ()
     | Some u \<Rightarrow>
         andThen (ensure (\<not> (purpose = LOGIN \<and> usr_status u \<noteq> UserStatus.ACTIVE)) (ForbiddenException ''Account is not active''))
         (issueOtp env draw (usr_id u) (usr_phone u) purpose))"

definition sendRegistrationOtp :: "authEnv \<Rightarrow> nat \<Rightarrow> string \<Rightarrow> string \<Rightarrow> unit op" where
  "sendRegistrationOtp env draw userId phone = issueOtp env draw userId phone REGISTRATION"

definition verifyOtp :: "authEnv \<Rightarrow> string \<Rightarrow> string \<Rightarrow> OtpPurpose \<Rightarrow> requestContext \<Rightarrow> tokenPair op" where
  "verifyOtp env phone code purpose context =
     bind (findUser (\<lambda>u. usr_phone u = phone)) (\<lambda>found.
     bind (orThrow found (UnauthorizedException ''Invalid code'')) (\<lambda>u.
     andThen (verify env (usr_id u) purpose code)
     (andThen (onlyIf (purpose = REGISTRATION \<and> usr_status u = PENDING_VERIFICATION)
        (setUser (usr_id u) (\<lambda>u. u\<lparr>usr_status := UserStatus.ACTIVE\<rparr>)))
     (issueTokenPair env (usr_id u) (usr_role u) (usr_phone u) context))))"

section \<open>Passwords\<close>

definition findByIdentifier :: "string \<Rightarrow> user option op" where
  "findByIdentifier identifier =
     (if CHR 0x40 \<in> set identifier then findUser (\<lambda>u. usr_email u = Some identifier)
      else findUser (\<lambda>u. usr_phone u = identifier))"

definition login :: "authEnv \<Rightarrow> string \<Rightarrow> string \<Rightarrow> requestContext \<Rightarrow> tokenPair op" where
  "login env identifier password context =
     bind (findByIdentifier identifier) (\<lambda>found.
     bind (orThrow found (UnauthorizedException ''Invalid credentials'')) (\<lambda>u.
     andThen (ensure (truthy (usr_passwordHash u)) (UnauthorizedException ''Invalid credentials''))
     (andThen (ensure (usr_status u = UserStatus.ACTIVE) (ForbiddenException ''Account is not active - verify your phone number first''))
     (andThen (ensure (ae_argonVerify env (the (usr_passwordHash u)) password) (UnauthorizedException ''Invalid credentials''))
     (issueTokenPair env (usr_id u) (usr_role u) (usr_phone u) context)))))"

definition changePassword :: "authEnv \<Rightarrow> string \<Rightarrow> string \<Rightarrow> string \<Rightarrow> string \<Rightarrow> string option \<Rightarrow> unit op" where
  "changePassword env userId currentPassword newPassword confirmPassword currentSession =
     andThen (ensure (newPassword = confirmPassword) (BadRequestException ''newPassword and confirmPassword do not match''))
     (bind (findUser (\<lambda>u. usr_id u = userId)) (\<lambda>found.
      bind (orThrow found (BadRequestException ''This account has no password set'')) (\<lambda>u.
      andThen (ensure (truthy (usr_passwordHash u)) (BadRequestException ''This account has no password set''))
      (andThen (ensure (ae_argonVerify env (the (usr_passwordHash u)) currentPassword) (BadRequestException ''Current password is incorrect''))
      (andThen (ensure (currentPassword \<noteq> newPassword) (BadRequestException ''New password must be different from the current one''))
      (bind (hashPassword env newPassword) (\<lambda>h.
       atomic
         (andThen (setUser userId (\<lambda>u. u\<lparr>usr_passwordHash := Some h\<rparr>))
         (revokeTokens (\<lambda>r. liveOf userId r \<and> (truthy currentSession \<longrightarrow> Some (rt_id r) \<noteq> currentSession)))))))))))"

text \<open>\<open>replace(/\/+$/, '')\<close>.\<close>

definition dropSlashes :: "string \<Rightarrow> string" where
  "dropSlashes s = rev (dropWhile (\<lambda>c. c = CHR ''/'') (rev s))"

definition resetUrl :: "authEnv \<Rightarrow> string \<Rightarrow> string" where
  "resetUrl env token =
     dropSlashes (orElse (ae_resetAppUrl env) ''http://localhost:5173'') @ ''/reset-password?token='' @ token"

definition forgotPassword :: "authEnv \<Rightarrow> string \<Rightarrow> unit op" where
  "forgotPassword env identifier =
     bind (findByIdentifier identifier) (\<lambda>found.
     case found of
       None \<Rightarrow> return ()
     | Some u \<Rightarrow>
         if \<not> truthy (usr_passwordHash u) then return () else
         bind (generateAndStoreToken env (usr_id u) PASSWORD_RESET) (\<lambda>token.
         if truthy (usr_email u) \<and> usr_emailVerifiedAt u \<noteq> None
         then send env (EmailResetLink (the (usr_email u)) (resetUrl env token))
         else send env (SmsMessage (usr_phone u)
           (''Reset your Kilo password: '' @ resetUrl env token @ '' - this link expires in '' @
            decimal (nat (RESET_TOKEN_TTL_MS div 60000)) @ '' minutes. If you didn't ask for this, ignore this message.''))))"

definition invalidResetCredential :: error where
  "invalidResetCredential = UnauthorizedException ''Invalid or expired reset link - request a new one''"

definition resetPassword :: "authEnv \<Rightarrow> string \<Rightarrow> string \<Rightarrow> unit op" where
  "resetPassword env token newPassword =
     bind (hashPassword env newPassword) (\<lambda>passwordHash.
     bind (findLiveToken env PASSWORD_RESET token) (\<lambda>found.
     bind (orThrow found invalidResetCredential) (\<lambda>(tokenId, userId).
     bind (findUser (\<lambda>u. usr_id u = userId)) (\<lambda>foundUser.
     andThen (ensure (case foundUser of None \<Rightarrow> False | Some u \<Rightarrow> truthy (usr_passwordHash u)) invalidResetCredential)
     (atomic
       (bind (claim tokenId) (\<lambda>claimed.
        andThen (ensure claimed invalidResetCredential)
        (andThen (setUser userId (\<lambda>u. u\<lparr>usr_passwordHash := Some passwordHash\<rparr>))
        (andThen (revokeTokens (liveOf userId))
        (consumeAll userId PASSWORD_RESET))))))))))"

end
