(* ===== verification/Staff.thy ===== *)
theory Staff
  imports Auth "HOL-Library.List_Lexorder" "HOL-Library.Char_ord"
begin

text \<open>
  Staff accounts and what they may do: roles (accounts/roles.service.ts), invitations
  (accounts/invites.service.ts), staff administration (accounts/users.service.ts), social sign-in
  (accounts/social-auth.service.ts), and the guards that read roles and permissions
  (common/guards).  A role holds the keys of its permissions; the relations between users, roles and
  permissions are the lists of pairs \<open>userRoles\<close> and \<open>directPermissions\<close>.
\<close>

section \<open>Audit\<close>

definition audit :: "string option \<Rightarrow> string \<Rightarrow> string \<Rightarrow> string option \<Rightarrow> unit op" where
  "audit actorId action targetType targetId =
     modify (\<lambda>s. s\<lparr>auditLogs := auditLogs s @
       [\<lparr>al_actorId = actorId, al_action = action, al_targetType = targetType, al_targetId = targetId, al_createdAt = now s\<rparr>]\<rparr>)"

section \<open>Roles\<close>

definition unknownKeys :: "string list \<Rightarrow> string list \<Rightarrow> error" where
  "unknownKeys found keys = BadRequestException (''Unknown permission key(s): '' @ join '', '' (filter (\<lambda>k. k \<notin> set found) keys))"

definition createRole :: "string \<Rightarrow> string list \<Rightarrow> staffRole op" where
  "createRole name keys =
     bind (gets (\<lambda>s. List.find (\<lambda>r. sr_name r = name) (staffRoles s))) (\<lambda>existing.
     andThen (ensure (existing = None) (ConflictException ''A role with this name already exists''))
     (bind (gets (\<lambda>s. filter (\<lambda>k. k \<in> set keys) (permissionKeys s))) (\<lambda>found.
      andThen (ensure (length found = length keys) (unknownKeys found keys))
      (bind freshId (\<lambda>i.
       let r = \<lparr>sr_id = i, sr_name = name, sr_permissions = found\<rparr> in
       andThen (modify (\<lambda>s. s\<lparr>staffRoles := staffRoles s @ [r]\<rparr>)) (return r)))))) "

definition listRoles :: "staffRole list op" where
  "listRoles = gets staffRoles"

definition rolesById :: "string list \<Rightarrow> staffRole list op" where
  "rolesById ids = gets (\<lambda>s. filter (\<lambda>r. sr_id r \<in> set ids) (staffRoles s))"

section \<open>Guards\<close>

definition rolesGuard :: "UserRole list \<Rightarrow> UserRole option \<Rightarrow> bool op" where
  "rolesGuard required role =
     (if required = [] then return True
      else andThen (ensure (case role of None \<Rightarrow> False | Some r \<Rightarrow> r \<in> set required) (ForbiddenException ''Insufficient role for this action''))
        (return True))"

definition permissionsOf :: "db \<Rightarrow> string \<Rightarrow> string list" where
  "permissionsOf s userId = filter (\<lambda>k.
       (\<exists>r \<in> set (staffRoles s). k \<in> set (sr_permissions r) \<and> (userId, sr_id r) \<in> set (userRoles s))
       \<or> (userId, k) \<in> set (directPermissions s)) (permissionKeys s)"

text \<open>The user of the request is the claim of its token: an id and a role.\<close>

definition permissionsGuard :: "string list \<Rightarrow> (string \<times> UserRole) option \<Rightarrow> bool op" where
  "permissionsGuard required claimed =
     (if required = [] then return True
      else bind (orThrow claimed (ForbiddenException ''Not authenticated'')) (\<lambda>(userId, role).
        if role = SUPER_ADMIN then return True
        else bind (gets (\<lambda>s. filter (\<lambda>k. k \<notin> set (permissionsOf s userId)) required)) (\<lambda>missing.
          andThen (ensure (missing = []) (ForbiddenException (''Missing required permission(s): '' @ join '', '' missing))) (return True))))"

section \<open>Invitations\<close>

definition INVITE_TTL_MS :: int where "INVITE_TTL_MS = 7 * 24 * 60 * 60 * 1000"

definition dispatchInviteEmail :: "authEnv \<Rightarrow> string \<Rightarrow> string list \<Rightarrow> string \<Rightarrow> unit op" where
  "dispatchInviteEmail env email roleNames rawToken =
     send env (EmailStaffInvite email roleNames
       (orElse (ae_adminAppUrl env) ''http://localhost:5174'' @ ''/invite/accept?token='' @ rawToken))"

definition updateInvite :: "string \<Rightarrow> (staffInvite \<Rightarrow> staffInvite) \<Rightarrow> unit op" where
  "updateInvite i f = modify (\<lambda>s. s\<lparr>staffInvites := updateWhere (\<lambda>v. si_id v = i) f (staffInvites s)\<rparr>)"

definition findInvite :: "(staffInvite \<Rightarrow> bool) \<Rightarrow> staffInvite option op" where
  "findInvite P = gets (\<lambda>s. List.find P (staffInvites s))"

definition createInvite :: "authEnv \<Rightarrow> string \<Rightarrow> string \<Rightarrow> string list \<Rightarrow> staffInvite op" where
  "createInvite env inviterId email roleIds =
     bind (findUser (\<lambda>u. usr_email u = Some email)) (\<lambda>existingUser.
     andThen (ensure (existingUser = None) (ConflictException ''An account with this email already exists''))
     (bind (gets now) (\<lambda>t.
      bind (findInvite (\<lambda>v. si_email v = email \<and> si_status v = InviteStatus.PENDING \<and> t < si_expiresAt v)) (\<lambda>pendingInvite.
      andThen (ensure (pendingInvite = None) (ConflictException ''An invite is already pending for this email - revoke it first''))
      (bind (rolesById roleIds) (\<lambda>found.
       andThen (ensure (length found = length roleIds) (BadRequestException ''One or more role IDs were not found''))
       (bind freshId (\<lambda>rawToken.
        bind (findInvite (\<lambda>v. si_tokenHash v = ae_hashToken env rawToken)) (\<lambda>clash.
        andThen (ensure (clash = None) UniqueViolation)
        (bind freshId (\<lambda>i.
         let v = \<lparr>si_id = i, si_email = email, si_roles = map sr_id found, si_tokenHash = ae_hashToken env rawToken,
                  si_status = InviteStatus.PENDING, si_expiresAt = t + INVITE_TTL_MS, si_revokedAt = None, si_acceptedAt = None,
                  si_invitedById = inviterId, si_acceptedUserId = None\<rparr> in
         andThen (modify (\<lambda>s. s\<lparr>staffInvites := staffInvites s @ [v]\<rparr>))
         (andThen (tryCatch (dispatchInviteEmail env email (map sr_name found) rawToken)
            (\<lambda>_. andThen (modify (\<lambda>s. s\<lparr>staffInvites := filter (\<lambda>v. si_id v \<noteq> i) (staffInvites s)\<rparr>))
               (throw (ServiceUnavailableException ''Invitation email could not be delivered - please try again''))))
         (return v)))))))))))))"

definition resendInvite :: "authEnv \<Rightarrow> string \<Rightarrow> unit op" where
  "resendInvite env i =
     bind (findInvite (\<lambda>v. si_id v = i)) (\<lambda>found.
     bind (orThrow found (NotFoundException ''Invite not found'')) (\<lambda>invite.
     andThen (ensure (si_status invite = InviteStatus.PENDING) (BadRequestException ''Only pending invites can be resent''))
     (bind freshId (\<lambda>rawToken.
      bind (gets now) (\<lambda>t.
      andThen (updateInvite i (\<lambda>v. v\<lparr>si_tokenHash := ae_hashToken env rawToken, si_expiresAt := t + INVITE_TTL_MS\<rparr>))
      (bind (rolesById (si_roles invite)) (\<lambda>found.
       tryCatch (dispatchInviteEmail env (si_email invite) (map sr_name found) rawToken)
         (\<lambda>_. throw (ServiceUnavailableException ''Invitation email could not be delivered - please try again'')))))))))"

definition revokeInvite :: "string \<Rightarrow> unit op" where
  "revokeInvite i =
     bind (findInvite (\<lambda>v. si_id v = i)) (\<lambda>found.
     bind (orThrow found (NotFoundException ''Invite not found'')) (\<lambda>invite.
     andThen (ensure (si_status invite = InviteStatus.PENDING) (BadRequestException ''Only pending invites can be revoked''))
     (bind (gets now) (\<lambda>t. updateInvite i (\<lambda>v. v\<lparr>si_status := InviteStatus.REVOKED, si_revokedAt := Some t\<rparr>)))))"

record acceptDto =
  ac_token :: string
  ac_password :: string
  ac_firstName :: string
  ac_lastName :: string
  ac_phone :: string

definition acceptInvite :: "authEnv \<Rightarrow> acceptDto \<Rightarrow> tokenPair op" where
  "acceptInvite env dto =
     bind (findInvite (\<lambda>v. si_tokenHash v = ae_hashToken env (ac_token dto))) (\<lambda>found.
     bind (orThrow found (UnauthorizedException ''Invalid invite'')) (\<lambda>invite.
     bind (gets now) (\<lambda>t.
     andThen (ensure (si_status invite = InviteStatus.PENDING \<and> \<not> si_expiresAt invite < t) (UnauthorizedException ''This invite is no longer valid''))
     (bind (findUser (\<lambda>u. usr_phone u = ac_phone dto)) (\<lambda>phoneTaken.
      andThen (ensure (phoneTaken = None) (ConflictException ''An account with this phone number already exists''))
      (bind (hashPassword env (ac_password dto)) (\<lambda>h.
       bind (insertUser (blankUser\<lparr>usr_firstName := ac_firstName dto, usr_lastName := ac_lastName dto, usr_phone := ac_phone dto,
          usr_email := Some (si_email invite), usr_emailVerifiedAt := Some t, usr_passwordHash := Some h,
          usr_role := ADMIN, usr_status := UserStatus.ACTIVE\<rparr>)) (\<lambda>u.
       andThen (modify (\<lambda>s. s\<lparr>userRoles := userRoles s @ map (\<lambda>r. (usr_id u, r)) (si_roles invite)\<rparr>))
       (andThen (updateInvite (si_id invite) (\<lambda>v. v\<lparr>si_status := InviteStatus.ACCEPTED, si_acceptedAt := Some t, si_acceptedUserId := Some (usr_id u)\<rparr>))
       (issueTokenPair env (usr_id u) (usr_role u) (usr_phone u) (None, None)))))))))))"

section \<open>Staff administration\<close>

definition STAFF_ROLES :: "UserRole list" where
  "STAFF_ROLES = [SUPPORT_AGENT, ADMIN, SUPER_ADMIN]"

definition toUserStatus :: "string \<Rightarrow> UserStatus" where
  "toUserStatus f = (if f = ''ACTIVE'' then UserStatus.ACTIVE else UserStatus.SUSPENDED)"

text \<open>The grants of the staff screens: the keys of the roles and the direct ones, sorted, once each.\<close>

definition effectivePermissions :: "db \<Rightarrow> string \<Rightarrow> string list" where
  "effectivePermissions s i = sort (remdups
     (concat (map sr_permissions (filter (\<lambda>r. (i, sr_id r) \<in> set (userRoles s)) (staffRoles s)))
      @ map snd (filter (\<lambda>p. fst p = i) (directPermissions s))))"

text \<open>The newest account comes first; rows are in order of creation.\<close>

definition listStaff :: "string option \<Rightarrow> (user \<times> string list) list op" where
  "listStaff status = gets (\<lambda>s. map (\<lambda>u. (u, effectivePermissions s (usr_id u)))
     (rev (filter (\<lambda>u. usr_role u \<in> set STAFF_ROLES \<and> (truthy status \<longrightarrow> usr_status u = toUserStatus (the status))) (users s))))"

definition updateStaff :: "string \<Rightarrow> string list option \<Rightarrow> string list option \<Rightarrow> string option \<Rightarrow> string \<Rightarrow> unit op" where
  "updateStaff i roleIds keys status actorId =
     bind (findUser (\<lambda>u. usr_id u = i \<and> usr_role u \<in> set STAFF_ROLES)) (\<lambda>target.
     andThen (ensure (target \<noteq> None) (NotFoundException ''Staff member not found''))
     (bind (rolesById (orElse roleIds [])) (\<lambda>found.
      andThen (ensure (roleIds = None \<or> length found = length (orElse roleIds [])) (BadRequestException ''One or more role IDs were not found''))
      (bind (gets (\<lambda>s. filter (\<lambda>k. k \<in> set (orElse keys [])) (permissionKeys s))) (\<lambda>perms.
       andThen (ensure (keys = None \<or> length perms = length (orElse keys [])) (unknownKeys perms (orElse keys [])))
       (andThen (onlyIf (truthy status \<and> toUserStatus (the status) = UserStatus.SUSPENDED) (revokeTokens (liveOf i)))
       (andThen (modify (\<lambda>s. s\<lparr>
           users := (if truthy status then updateWhere (\<lambda>u. usr_id u = i) (\<lambda>u. u\<lparr>usr_status := toUserStatus (the status)\<rparr>) (users s) else users s),
           userRoles := (if roleIds = None then userRoles s else filter (\<lambda>p. fst p \<noteq> i) (userRoles s) @ map (\<lambda>r. (i, sr_id r)) found),
           directPermissions := (if keys = None then directPermissions s
             else filter (\<lambda>p. fst p \<noteq> i) (directPermissions s) @ map (\<lambda>k. (i, k)) perms)\<rparr>))
       (audit (Some actorId) ''staff.update'' ''User'' (Some i)))))))))"

definition deprovisionStaff :: "string \<Rightarrow> string \<Rightarrow> unit op" where
  "deprovisionStaff i actorId =
     bind (findUser (\<lambda>u. usr_id u = i \<and> usr_role u \<in> set STAFF_ROLES)) (\<lambda>target.
     bind (orThrow target (NotFoundException ''Staff member not found'')) (\<lambda>u.
     andThen (ensure (usr_role u \<noteq> SUPER_ADMIN) (BadRequestException ''A super admin account cannot be de-provisioned here''))
     (andThen (atomic
        (andThen (setUser i (\<lambda>u. u\<lparr>usr_status := UserStatus.SUSPENDED\<rparr>))
        (andThen (modify (\<lambda>s. s\<lparr>userRoles := filter (\<lambda>p. fst p \<noteq> i) (userRoles s),
             directPermissions := filter (\<lambda>p. fst p \<noteq> i) (directPermissions s)\<rparr>))
        (revokeTokens (liveOf i)))))
     (audit (Some actorId) ''staff.deprovision'' ''User'' (Some i)))))"

section \<open>Social sign-in\<close>

record socialProfile =
  sp_providerUserId :: string
  sp_email :: "string option"
  sp_emailVerified :: bool
  sp_firstName :: "string option"
  sp_lastName :: "string option"

datatype socialAuthResult = LoggedIn tokenPair
  | SignupRequired "string option" "string option" "string option"

definition findIdentity :: "SocialProvider \<Rightarrow> string \<Rightarrow> socialIdentity option op" where
  "findIdentity provider i = gets (\<lambda>s. List.find (\<lambda>y. sy_provider y = provider \<and> sy_providerUserId y = i) (socialIdentities s))"

definition createIdentity :: "SocialProvider \<Rightarrow> socialProfile \<Rightarrow> string \<Rightarrow> unit op" where
  "createIdentity provider profile userId =
     bind (findIdentity provider (sp_providerUserId profile)) (\<lambda>clash.
     andThen (ensure (clash = None) UniqueViolation)
     (modify (\<lambda>s. s\<lparr>socialIdentities := socialIdentities s @
        [\<lparr>sy_provider = provider, sy_providerUserId = sp_providerUserId profile, sy_userId = userId, sy_email = sp_email profile\<rparr>]\<rparr>)))"

definition loginAs :: "authEnv \<Rightarrow> string \<Rightarrow> tokenPair op" where
  "loginAs env userId =
     bind (findUser (\<lambda>u. usr_id u = userId)) (\<lambda>found. bind (orThrow found RecordNotFound) (\<lambda>u.
     issueTokenPair env (usr_id u) (usr_role u) (usr_phone u) (None, None)))"

text \<open>The profile is what the provider's token verifier returned.\<close>

definition authenticate :: "authEnv \<Rightarrow> SocialProvider \<Rightarrow> socialProfile \<Rightarrow> socialAuthResult op" where
  "authenticate env provider profile =
     (let signup = return (SignupRequired (sp_email profile) (sp_firstName profile) (sp_lastName profile)) in
     bind (findIdentity provider (sp_providerUserId profile)) (\<lambda>existingIdentity.
     case existingIdentity of
       Some y \<Rightarrow> bind (loginAs env (sy_userId y)) (\<lambda>p. return (LoggedIn p))
     | None \<Rightarrow>
         if truthy (sp_email profile) \<and> sp_emailVerified profile then
           bind (findUser (\<lambda>u. usr_email u = sp_email profile)) (\<lambda>existingUser.
           case existingUser of
             None \<Rightarrow> signup
           | Some u \<Rightarrow>
               andThen (ensure (usr_role u = RIDER) (ForbiddenException ''Social login is only available for rider accounts''))
               (andThen (createIdentity provider profile (usr_id u))
               (bind (loginAs env (usr_id u)) (\<lambda>p. return (LoggedIn p)))))
         else signup))"

text \<open>\<open>Inl\<close> is the token pair of an identity that exists by now, \<open>Inr\<close> the id of the new user.\<close>

definition completeSignup :: "authEnv \<Rightarrow> nat \<Rightarrow> SocialProvider \<Rightarrow> socialProfile \<Rightarrow> string \<Rightarrow> string option \<Rightarrow> string option \<Rightarrow> (tokenPair + string) op" where
  "completeSignup env draw provider profile phone firstName lastName =
     bind (findIdentity provider (sp_providerUserId profile)) (\<lambda>existingIdentity.
     case existingIdentity of
       Some y \<Rightarrow> bind (loginAs env (sy_userId y)) (\<lambda>p. return (Inl p))
     | None \<Rightarrow>
         let fn = keptOr firstName (sp_firstName profile); ln = keptOr lastName (sp_lastName profile) in
         andThen (ensure (truthy fn \<and> truthy ln) (BadRequestException ''firstName and lastName are required''))
         (bind (findUser (\<lambda>u. usr_phone u = phone)) (\<lambda>phoneTaken.
          andThen (ensure (phoneTaken = None) (ConflictException ''An account with this phone number already exists''))
          (bind (findUser (\<lambda>u. truthy (sp_email profile) \<and> usr_email u = sp_email profile)) (\<lambda>emailTaken.
           andThen (ensure (emailTaken = None) (ConflictException ''An account with this email already exists''))
           (bind (gets now) (\<lambda>t.
            bind (insertUser (blankUser\<lparr>usr_firstName := the fn, usr_lastName := the ln, usr_phone := phone, usr_email := sp_email profile,
               usr_emailVerifiedAt := (if truthy (sp_email profile) \<and> sp_emailVerified profile then Some t else None)\<rparr>)) (\<lambda>u.
            andThen (createIdentity provider profile (usr_id u))
            (andThen (sendRegistrationOtp env draw (usr_id u) (usr_phone u)) (return (Inr (usr_id u))))))))))))"

end
