(* ===== verification/AuthProps.thy ===== *)
theory AuthProps
  imports Staff
begin

text \<open>
  The properties of signing in: a reset link works once and ends every session, a refresh token works
  once and its reuse ends every session, guesses of a code are limited, a revoked session never comes
  back; and where the code falls short: a suspended user signs in with a registration code.
\<close>

section \<open>Rows\<close>

lemma countWhere_append: "countWhere P (xs @ ys) = countWhere P xs + countWhere P ys"
  by (simp add: countWhere_def)

lemma find_updateWhere:
  assumes "\<And>r. P (f r) = P r"
  shows "List.find P (updateWhere Q f t) = map_option (\<lambda>r. if Q r then f r else r) (List.find P t)"
  by (induction t) (simp_all add: assms)

lemma countWhere_updated:
  assumes "\<And>r. P (if Q r then f r else r) \<longleftrightarrow> P r \<and> \<not> Q r"
  shows "countWhere P (updateWhere Q f t) = countWhere (\<lambda>r. P r \<and> \<not> Q r) t"
  by (induction t) (use assms in \<open>auto simp: countWhere_def\<close>)

lemma countWhere_other:
  assumes "distinct (map key t)" and "r \<in> set t" and "P r"
  shows "Suc (countWhere (\<lambda>x. P x \<and> key x \<noteq> key r) t) = countWhere P t"
  using assms
proof (induction t)
  case (Cons x t)
  show ?case
  proof (cases "x = r")
    case True
    have "key y \<noteq> key r" if "y \<in> set t" for y using Cons.prems(1) True that by (auto simp: image_iff)
    then have "filter (\<lambda>y. P y \<and> key y \<noteq> key r) t = filter P t" by (intro filter_cong) auto
    then show ?thesis using True Cons.prems by (simp add: countWhere_def)
  next
    case False
    then have "r \<in> set t" "key x \<noteq> key r" using Cons.prems by auto
    then show ?thesis using Cons by (simp add: countWhere_def)
  qed
qed simp

lemma sort_key_map: "sort_key k (map g xs) = map g (sort_key (k \<circ> g) xs)"
proof (induction xs)
  case (Cons x xs)
  have "insort_key k (g y) (map g ys) = map g (insort_key (k \<circ> g) y ys)" for y ys by (induction ys) simp_all
  then show ?case using Cons by (simp add: comp_def)
qed simp

lemma newestOtp_update:
  assumes "\<And>q. P (f q) = P q" and "\<And>q. otp_createdAt (f q) = otp_createdAt q"
  shows "newestOtp P (updateWhere R f os) = map_option (\<lambda>q. if R q then f q else q) (newestOtp P os)"
proof -
  let ?g = "\<lambda>q. if R q then f q else q"
  have 1: "filter P (map ?g os) = map ?g (filter P os)"
    by (induction os) (auto simp: assms)
  have 2: "(\<lambda>q. - otp_createdAt q) \<circ> ?g = (\<lambda>q. - otp_createdAt q)"
    using assms(2) by auto
  show ?thesis unfolding newestOtp_def updateWhere_def 1 rev_map sort_key_map 2
    by (simp split: list.split)
qed

lemma newestOtp_SomeD: "newestOtp P os = Some q \<Longrightarrow> q \<in> set os \<and> P q"
  by (auto simp: newestOtp_def split: list.splits dest!: arg_cong [where f = set])

lemma newestOtp_appended:
  assumes "P q" and "\<forall>r \<in> set os. otp_createdAt r \<le> otp_createdAt q"
  shows "newestOtp P (os @ [q]) = Some q"
proof -
  let ?k = "\<lambda>q. - otp_createdAt q"
  have "insort_key ?k q (sort_key ?k (rev (filter P os))) = q # sort_key ?k (rev (filter P os))"
    by (rule insort_is_Cons) (use assms(2) in auto)
  then show ?thesis using assms(1) by (simp add: newestOtp_def)
qed

lemma succeeds_unit:
  fixes m :: "unit op"
  shows "succeeds m s \<Longrightarrow> m s = (Inr (), after m s)"
  by (simp add: succeeds_run)

section \<open>Issued sessions\<close>

text \<open>What a new token pair leaves behind: one more live session of the user, under the new token.\<close>

definition issued :: "authEnv \<Rightarrow> string \<Rightarrow> db \<Rightarrow> tokenPair \<Rightarrow> db \<Rightarrow> bool" where
  "issued env i s p t \<longleftrightarrow> (\<exists>r. refreshTokens t = refreshTokens s @ [r] \<and> rt_userId r = i \<and> rt_revokedAt r = None
     \<and> rt_tokenHash r = ae_hashToken env (snd p) \<and> rt_tokenHash r \<notin> rt_tokenHash ` set (refreshTokens s))
   \<and> users t = users s \<and> otpCodes t = otpCodes s \<and> now t = now s"

lemma wp_issue: "wp (issueTokenPair env i role phone c) (issued env i s) (\<lambda>_ _. True) s"
  by (auto simp: issueTokenPair_def issued_def wp_simps find_None_iff split: option.splits)

definition sessionOwner :: "authEnv \<Rightarrow> db \<Rightarrow> string \<Rightarrow> string option" where
  "sessionOwner env s token = map_option rt_userId (List.find (\<lambda>r. rt_tokenHash r = ae_hashToken env token) (refreshTokens s))"

definition sessionsOf :: "db \<Rightarrow> string \<Rightarrow> nat" where
  "sessionsOf s i = countWhere (liveOf i) (refreshTokens s)"

lemma sessions_ended: "countWhere (liveOf i) (updateWhere (liveOf i) (\<lambda>r. r\<lparr>rt_revokedAt := Some x\<rparr>) rs) = 0"
  by (induction rs) (simp_all add: countWhere_def liveOf_def)

lemma refresh_run:
  assumes "refresh env token c s = (Inr p, t)"
  obtains r and u :: user where "List.find (\<lambda>r. rt_tokenHash r = ae_hashToken env token) (refreshTokens s) = Some r"
    "rt_revokedAt r = None"
    "issueTokenPair env (rt_userId r) (usr_role u) (usr_phone u) (keptOr (fst c) (rt_ipAddress r), keptOr (snd c) (rt_userAgent r))
       (s\<lparr>refreshTokens := updateWhere (\<lambda>q. rt_id q = rt_id r) (\<lambda>q. q\<lparr>rt_revokedAt := Some (now s)\<rparr>) (refreshTokens s)\<rparr>) = (Inr p, t)"
proof -
  note run = assms [unfolded refresh_def, simplified run_simps]
  obtain r where r: "List.find (\<lambda>r. rt_tokenHash r = ae_hashToken env token) (refreshTokens s) = Some r" "rt_revokedAt r = None"
    using run by (auto simp: run_simps revokeTokens_def split: option.splits if_splits)
  obtain u :: user where "issueTokenPair env (rt_userId r) (usr_role u) (usr_phone u) (keptOr (fst c) (rt_ipAddress r), keptOr (snd c) (rt_userAgent r))
       (s\<lparr>refreshTokens := updateWhere (\<lambda>q. rt_id q = rt_id r) (\<lambda>q. q\<lparr>rt_revokedAt := Some (now s)\<rparr>) (refreshTokens s)\<rparr>) = (Inr p, t)"
    using run r by (auto simp: run_simps findUser_def revokeTokens_def split: option.splits if_splits dest!: find_SomeD)
  then show thesis by (rule that [OF r])
qed

text \<open>C18: a refresh token works once and its theft is noticed: a successful refresh revokes the token it
  was given and opens exactly one new session of the same user; presenting the old token again throws
  and leaves that user without any live session.\<close>

theorem reused_refresh_token_locks_out:
  assumes "distinct (map rt_id (refreshTokens s))" and "distinct (map rt_tokenHash (refreshTokens s))"
    and "refresh env token c s = (Inr p, t)"
  shows "\<exists>i. sessionOwner env s token = Some i \<and> sessionOwner env t (snd p) = Some i \<and> sessionsOf t i = sessionsOf s i
    \<and> (\<exists>u. refresh env token c' t = (Inl (UnauthorizedException ''Refresh token has already been used - all sessions revoked''), u)
         \<and> sessionsOf u i = 0)"
proof -
  obtain r and u :: user where r: "List.find (\<lambda>r. rt_tokenHash r = ae_hashToken env token) (refreshTokens s) = Some r" "rt_revokedAt r = None"
    and run: "issueTokenPair env (rt_userId r) (usr_role u) (usr_phone u) (keptOr (fst c) (rt_ipAddress r), keptOr (snd c) (rt_userAgent r))
       (s\<lparr>refreshTokens := updateWhere (\<lambda>q. rt_id q = rt_id r) (\<lambda>q. q\<lparr>rt_revokedAt := Some (now s)\<rparr>) (refreshTokens s)\<rparr>) = (Inr p, t)"
    by (rule refresh_run [OF assms(3)])
  let ?i = "rt_userId r"
  define old where "old = updateWhere (\<lambda>q. rt_id q = rt_id r) (\<lambda>q. q\<lparr>rt_revokedAt := Some (now s)\<rparr>) (refreshTokens s)"
  obtain n where n: "refreshTokens t = old @ [n]" "rt_userId n = ?i" "rt_revokedAt n = None"
    "rt_tokenHash n = ae_hashToken env (snd p)" "rt_tokenHash n \<notin> rt_tokenHash ` set old"
    using wp_Inr [OF wp_issue run] by (auto simp: issued_def old_def)
  have found: "List.find (\<lambda>r. rt_tokenHash r = ae_hashToken env token) (refreshTokens t) = Some (r\<lparr>rt_revokedAt := Some (now s)\<rparr>)"
    unfolding n(1) find_append old_def by (subst find_updateWhere) (simp_all add: r(1))
  have "List.find (\<lambda>r. rt_tokenHash r = rt_tokenHash n) old = None"
    using n(5) unfolding find_None_iff by (metis image_eqI)
  then have 1: "sessionOwner env s token = Some ?i" "sessionOwner env t (snd p) = Some ?i"
    using r(1) n(2) by (simp_all add: sessionOwner_def n(1) find_append n(4) [symmetric])
  have "Suc (countWhere (\<lambda>x. liveOf ?i x \<and> rt_id x \<noteq> rt_id r) (refreshTokens s)) = sessionsOf s ?i"
    unfolding sessionsOf_def using find_SomeD [OF r(1)] r(2) by (intro countWhere_other assms(1)) (simp_all add: liveOf_def)
  moreover have "countWhere (liveOf ?i) old = countWhere (\<lambda>x. liveOf ?i x \<and> rt_id x \<noteq> rt_id r) (refreshTokens s)"
    unfolding old_def by (rule countWhere_updated) (auto simp: liveOf_def)
  ultimately have 2: "sessionsOf t ?i = sessionsOf s ?i"
    using n(2,3) by (simp add: sessionsOf_def n(1) countWhere_append) (simp add: countWhere_def liveOf_def)
  let ?u = "t\<lparr>refreshTokens := updateWhere (liveOf ?i) (\<lambda>r. r\<lparr>rt_revokedAt := Some (now t)\<rparr>) (refreshTokens t)\<rparr>"
  have 3: "refresh env token c' t = (Inl (UnauthorizedException ''Refresh token has already been used - all sessions revoked''), ?u)"
    using found by (simp add: refresh_def run_simps revokeTokens_def)
  have "countWhere (liveOf ?i) (updateWhere (liveOf ?i) (\<lambda>r. r\<lparr>rt_revokedAt := Some (now t)\<rparr>) (refreshTokens t)) = 0"
    by (rule sessions_ended)
  with 1 2 3 show ?thesis by (auto simp: sessionsOf_def)
qed


section \<open>Password reset\<close>

text \<open>The four writes of a reset with token \<open>token\<close> and the row \<open>q\<close> it was found in.\<close>

definition liveToken :: "authEnv \<Rightarrow> string \<Rightarrow> otpCode \<Rightarrow> bool" where
  "liveToken env token q \<longleftrightarrow> otp_purpose q = PASSWORD_RESET \<and> otp_codeHash q = ae_hashToken env token \<and> otp_consumedAt q = None"

definition wasReset :: "authEnv \<Rightarrow> string \<Rightarrow> string \<Rightarrow> db \<Rightarrow> otpCode \<Rightarrow> db \<Rightarrow> bool" where
  "wasReset env token pw s q t \<longleftrightarrow> List.find (liveToken env token) (otpCodes s) = Some q
     \<and> List.find (\<lambda>u. usr_id u = otp_userId q) (users s) \<noteq> None
     \<and> (\<exists>salt. users t = updateWhere (\<lambda>u. usr_id u = otp_userId q) (\<lambda>u. u\<lparr>usr_passwordHash := Some (ae_argonHash env salt pw)\<rparr>) (users s))
     \<and> refreshTokens t = updateWhere (liveOf (otp_userId q)) (\<lambda>r. r\<lparr>rt_revokedAt := Some (now s)\<rparr>) (refreshTokens s)
     \<and> otpCodes t = updateWhere (outstanding (otp_userId q) PASSWORD_RESET) (\<lambda>q. q\<lparr>otp_consumedAt := Some (now s)\<rparr>)
         (updateWhere (\<lambda>r. otp_id r = otp_id q \<and> otp_consumedAt r = None \<and> now s < otp_expiresAt r)
            (\<lambda>q. q\<lparr>otp_consumedAt := Some (now s)\<rparr>) (otpCodes s))"

lemma wp_reset: "wp (resetPassword env token pw) (\<lambda>_ t. \<exists>q. wasReset env token pw s q t) (\<lambda>_ _. True) s"
  by (auto simp: resetPassword_def hashPassword_def findLiveToken_def findUser_def claim_def updateOtps_def setUser_def
      revokeTokens_def consumeAll_def wp_simps wasReset_def liveToken_def [abs_def] split: option.splits)

lemma reset_dead_link:
  assumes "\<forall>q \<in> set (otpCodes t). \<not> liveToken env token q"
  shows "\<exists>u. resetPassword env token pw t = (Inl invalidResetCredential, u) \<and> users u = users t"
proof -
  have "List.find (liveToken env token) (otpCodes t) = None" using assms by (simp add: find_None_iff)
  then have "findLiveToken env PASSWORD_RESET token (t\<lparr>uuidsUsed := Suc (uuidsUsed t)\<rparr>) = (Inr None, t\<lparr>uuidsUsed := Suc (uuidsUsed t)\<rparr>)"
    by (simp add: findLiveToken_def gets_def liveToken_def [abs_def])
  then show ?thesis
    by (simp add: resetPassword_def hashPassword_def bind_def freshId_def orThrow_def throw_def return_def)
qed


section \<open>Guessing a code\<close>

definition guess :: "authEnv \<Rightarrow> string \<Rightarrow> OtpPurpose \<Rightarrow> string list \<Rightarrow> db \<Rightarrow> db" where
  "guess env i p codes s = fold (\<lambda>c s. snd (verify env i p c s)) codes s"

text \<open>The newest outstanding code is \<open>q\<close>, guessed at \<open>n\<close> times or expired.\<close>

definition pending :: "string \<Rightarrow> OtpPurpose \<Rightarrow> string \<Rightarrow> nat \<Rightarrow> db \<Rightarrow> bool" where
  "pending i p h n s \<longleftrightarrow> (\<exists>q. newestOtp (outstanding i p) (otpCodes s) = Some q \<and> otp_codeHash q = h
     \<and> (n \<le> otp_attempts q \<or> otp_expiresAt q < now s))"

lemma pending_guess:
  assumes "pending i p h (min OTP_MAX_ATTEMPTS n) s" and "ae_hashToken env c \<noteq> h"
  shows "pending i p h (min OTP_MAX_ATTEMPTS (Suc n)) (snd (verify env i p c s))"
proof -
  obtain q where q: "newestOtp (outstanding i p) (otpCodes s) = Some q" "otp_codeHash q = h"
    "min OTP_MAX_ATTEMPTS n \<le> otp_attempts q \<or> otp_expiresAt q < now s" using assms(1) by (auto simp: pending_def)
  show ?thesis
  proof (cases "otp_attempts q < OTP_MAX_ATTEMPTS \<and> \<not> otp_expiresAt q < now s")
    case True
    let ?f = "\<lambda>q. q\<lparr>otp_attempts := Suc (otp_attempts q)\<rparr>"
    have "newestOtp (outstanding i p) (updateWhere (\<lambda>r. otp_id r = otp_id q) ?f (otpCodes s)) = Some (?f q)"
      by (subst newestOtp_update) (simp_all add: q(1) outstanding_def)
    then show ?thesis using True q assms(2)
      by (auto simp: verify_def run_simps updateOtps_def pending_def)
  next
    case False
    then have "snd (verify env i p c s) = s" using q by (auto simp: verify_def run_simps)
    then show ?thesis using False q by (auto simp: pending_def)
  qed
qed

text \<open>C19: a code cannot be guessed: when a code is outstanding, after five wrong guesses (counting those
  already recorded) every later attempt is refused, the right code included, and changes nothing,
  until a new code is sent.\<close>

theorem guesses_are_limited:
  assumes "newestOtp (outstanding i p) (otpCodes s) = Some q"
    and "\<forall>c \<in> set codes. ae_hashToken env c \<noteq> otp_codeHash q"
    and "OTP_MAX_ATTEMPTS \<le> otp_attempts q + length codes"
  shows "\<exists>e. verify env i p code (guess env i p codes s) = (Inl e, guess env i p codes s)"
proof -
  have "pending i p h (min OTP_MAX_ATTEMPTS (n + length cs)) (guess env i p cs s)"
    if "pending i p h (min OTP_MAX_ATTEMPTS n) s" "\<forall>c \<in> set cs. ae_hashToken env c \<noteq> h" for h n cs s
    using that
  proof (induction cs arbitrary: n s)
    case (Cons c cs)
    have "pending i p h (min OTP_MAX_ATTEMPTS (Suc n)) (snd (verify env i p c s))"
      by (rule pending_guess [OF Cons.prems(1)]) (use Cons.prems(2) in simp)
    from Cons.IH [OF this] Cons.prems(2) show ?case by (simp add: guess_def)
  qed (simp add: guess_def)
  moreover have "pending i p (otp_codeHash q) (min OTP_MAX_ATTEMPTS (otp_attempts q)) s"
    using assms(1) by (simp add: pending_def)
  ultimately have "pending i p (otp_codeHash q) OTP_MAX_ATTEMPTS (guess env i p codes s)"
    using assms(2,3) by (metis min.absorb1)
  then show ?thesis by (auto simp: pending_def verify_def run_simps)
qed


section \<open>Revoked sessions\<close>

text \<open>Every operation that touches sessions, as an event.\<close>

datatype authEvent = Register nat nat registerDto UserRole | SendOtp nat string OtpPurpose
  | VerifyOtp string string OtpPurpose requestContext | Login string string requestContext
  | ChangePassword string string string string "string option" | ForgotPassword string
  | ResetPassword string string | Refresh string requestContext | Logout string
  | ConfirmEmail string string | RequestEmail nat string string
  | RevokeSession string string | RevokeOthers string "string option"
  | AcceptInvite acceptDto | UpdateStaff string "string list option" "string list option" "string option" string
  | Deprovision string string | SocialSignIn SocialProvider socialProfile
  | SocialSignup nat SocialProvider socialProfile string "string option" "string option"

definition ignore :: "'a op \<Rightarrow> unit op" where
  "ignore m = bind m (\<lambda>_. return ())"

fun runAuth :: "authEnv \<Rightarrow> authEvent \<Rightarrow> unit op" where
  "runAuth env (Register n n' dto role) = ignore (register env n n' dto role)"
| "runAuth env (SendOtp n phone p) = sendOtp env n phone p"
| "runAuth env (VerifyOtp phone code p c) = ignore (verifyOtp env phone code p c)"
| "runAuth env (Login i pw c) = ignore (login env i pw c)"
| "runAuth env (ChangePassword i a b b' c) = changePassword env i a b b' c"
| "runAuth env (ForgotPassword i) = forgotPassword env i"
| "runAuth env (ResetPassword token pw) = resetPassword env token pw"
| "runAuth env (Refresh token c) = ignore (refresh env token c)"
| "runAuth env (Logout token) = logout env token"
| "runAuth env (ConfirmEmail i code) = confirmEmail env i code"
| "runAuth env (RequestEmail n i e) = requestChange env n i e"
| "runAuth env (RevokeSession i j) = revokeSession i j"
| "runAuth env (RevokeOthers i j) = ignore (revokeAllOthers i j)"
| "runAuth env (AcceptInvite dto) = ignore (acceptInvite env dto)"
| "runAuth env (UpdateStaff i r k st a) = updateStaff i r k st a"
| "runAuth env (Deprovision i a) = deprovisionStaff i a"
| "runAuth env (SocialSignIn pr pf) = ignore (authenticate env pr pf)"
| "runAuth env (SocialSignup n pr pf ph f l) = ignore (completeSignup env n pr pf ph f l)"

definition runAuths :: "authEnv \<Rightarrow> authEvent list \<Rightarrow> db \<Rightarrow> db" where
  "runAuths env es s = fold (\<lambda>e s. snd (runAuth env e s)) es s"

text \<open>Session \<open>i\<close> has an identifier of the past and no live row.\<close>

definition retired :: "string \<Rightarrow> db \<Rightarrow> bool" where
  "retired i s \<longleftrightarrow> uuidsOk s \<and> i \<in> usedIds s \<and> (\<forall>r \<in> set (refreshTokens s). rt_id r = i \<longrightarrow> rt_revokedAt r \<noteq> None)"

lemma retired_modify:
  "(\<And>s. uuids (f s) = uuids s \<and> uuidsUsed (f s) = uuidsUsed s \<and> refreshTokens (f s) = refreshTokens s) \<Longrightarrow> keeps (retired i) (modify f)"
  by (rule keeps_modify) (simp add: retired_def uuidsOk_def usedIds_def)

lemma retired_freshId: "keeps (retired i) freshId"
  by (auto simp: keeps_def freshId_def retired_def uuidsOk_def usedIds_def)

lemma retired_revoke: "keeps (retired i) (revokeTokens P)"
  unfolding revokeTokens_def
  by (intro keeps_intros keeps_modify) (auto simp: retired_def uuidsOk_def usedIds_def set_updateWhere)

lemma retired_issue: "keeps (retired i) (issueTokenPair env u role phone c)"
  by (auto simp: keeps_iff_wp issueTokenPair_def wp_simps retired_def uuidsOk_def usedIds_def lessThan_Suc inj_eq
      split: option.splits)

lemma retired_parts:
  "keeps (retired i) (send env e)" "keeps (retired i) (findUser Q)" "keeps (retired i) (setUser j f)"
  "keeps (retired i) (insertUser u)" "keeps (retired i) (updateOtps R g)" "keeps (retired i) (audit a b c d)"
  unfolding send_def findUser_def setUser_def insertUser_def updateOtps_def audit_def push_def Let_def
  by (intro keeps_intros retired_freshId retired_modify; simp split: option.split add: keeps_intros retired_modify)+

lemma retired_otp:
  "keeps (retired i) (storeCode env u p c ttl)" "keeps (retired i) (verify env u p c)"
  unfolding storeCode_def verify_def by (intro keeps_intros retired_freshId retired_parts retired_modify; simp)+

lemmas retired_intros = keeps_intros retired_freshId retired_revoke retired_issue retired_parts retired_otp

lemma retired_runAuth: "keeps (retired i) (runAuth env e)"
  by (cases e; simp add: ignore_def; unfold register_def hashPassword_def issueOtp_def generateAndStore_def sendForAddress_def
      sendOtp_def verifyOtp_def login_def findByIdentifier_def changePassword_def forgotPassword_def generateAndStoreToken_def
      resetPassword_def findLiveToken_def claim_def consumeAll_def refresh_def logout_def confirmEmail_def requestChange_def
      revokeSession_def revokeAllOthers_def acceptInvite_def findInvite_def updateInvite_def updateStaff_def rolesById_def
      deprovisionStaff_def authenticate_def findIdentity_def createIdentity_def loginAs_def completeSignup_def sendRegistrationOtp_def Let_def;
      intro retired_intros retired_modify; simp)

text \<open>C20: a revoked session never comes back: whatever sign-in, password, staff or social operations
  follow, in any order and whether they return or throw, the session has no live row, and no refresh
  through a row of it succeeds.\<close>

theorem revoked_sessions_stay_revoked:
  assumes "retired i s" and "t = runAuths env es s"
  shows "(\<forall>r \<in> set (refreshTokens t). rt_id r = i \<longrightarrow> rt_revokedAt r \<noteq> None)
    \<and> (\<forall>token c r. List.find (\<lambda>r. rt_tokenHash r = ae_hashToken env token) (refreshTokens t) = Some r \<longrightarrow> rt_id r = i
         \<longrightarrow> \<not> succeeds (refresh env token c) t)"
proof -
  have t: "retired i t" unfolding assms(2) runAuths_def using assms(1)
    by (induction es arbitrary: s) (auto dest: keepsD [OF retired_runAuth])
  have "\<not> succeeds (refresh env token c) t"
    if "List.find (\<lambda>r. rt_tokenHash r = ae_hashToken env token) (refreshTokens t) = Some r" "rt_id r = i" for token c r
  proof -
    have "rt_revokedAt r \<noteq> None" using t that find_SomeD [OF that(1)] by (auto simp: retired_def)
    then show ?thesis using that(1) by (simp add: succeeds_def refresh_def run_simps revokeTokens_def)
  qed
  then show ?thesis using t by (auto simp: retired_def)
qed


section \<open>A suspended user\<close>

text \<open>C38: suspension does not keep a user out: a SUSPENDED user who asks for a REGISTRATION code (a LOGIN
  code is refused) and enters it gets a token pair and a new live session, and stays suspended.\<close>

theorem suspended_user_signs_in:
  assumes "List.find (\<lambda>u. usr_phone u = phone) (users s) = Some u" and "usr_status u = UserStatus.SUSPENDED"
    and "\<forall>q \<in> set (otpCodes s). otp_createdAt q \<le> now s"
    and "ae_rejects env (SmsOtp phone (otpCodeText draw)) = None"
    and "parseDuration (orElse (ae_refreshExpiresIn env) ''30d'') = Some ttl"
    and "\<forall>r \<in> set (refreshTokens s). rt_tokenHash r \<noteq> ae_hashToken env (uuids s (Suc (uuidsUsed s)))"
  shows "\<not> succeeds (sendOtp env draw phone LOGIN) s
    \<and> (\<exists>p t. andThen (sendOtp env draw phone REGISTRATION) (verifyOtp env phone (otpCodeText draw) REGISTRATION c) s = (Inr p, t)
         \<and> sessionsOf t (usr_id u) = Suc (sessionsOf s (usr_id u))
         \<and> List.find (\<lambda>u. usr_phone u = phone) (users t) = Some u)"
proof -
  have phone: "usr_phone u = phone" using find_SomeD [OF assms(1)] by simp
  let ?q = "\<lparr>otp_id = uuids s (uuidsUsed s), otp_userId = usr_id u, otp_codeHash = ae_hashToken env (otpCodeText draw),
    otp_purpose = REGISTRATION, otp_expiresAt = now s + OTP_TTL_MS, otp_consumedAt = None, otp_attempts = 0, otp_createdAt = now s\<rparr>"
  have q: "newestOtp (outstanding (usr_id u) REGISTRATION) (otpCodes s @ [?q]) = Some ?q"
    by (rule newestOtp_appended) (use assms(3) in \<open>simp_all add: outstanding_def\<close>)
  have clash: "List.find (\<lambda>r. rt_tokenHash r = ae_hashToken env (uuids s (Suc (uuidsUsed s)))) (refreshTokens s) = None"
    using assms(6) by (simp add: find_None_iff)
  have "\<not> succeeds (sendOtp env draw phone LOGIN) s"
    using assms(1,2) by (simp add: succeeds_def sendOtp_def findUser_def run_simps)
  moreover have "\<exists>p t. andThen (sendOtp env draw phone REGISTRATION) (verifyOtp env phone (otpCodeText draw) REGISTRATION c) s = (Inr p, t)
         \<and> sessionsOf t (usr_id u) = Suc (sessionsOf s (usr_id u))
         \<and> List.find (\<lambda>u. usr_phone u = phone) (users t) = Some u"
    using q assms(1,2,4,5) phone clash
    by (simp add: sendOtp_def issueOtp_def generateAndStore_def storeCode_def findUser_def send_def push_def verifyOtp_def
        verify_def updateOtps_def issueTokenPair_def action_defs freshId_def OTP_MAX_ATTEMPTS_def OTP_TTL_MS_def
        sessionsOf_def countWhere_append countWhere_def liveOf_def)
  ultimately show ?thesis by simp
qed

section \<open>Examples\<close>

definition exampleEnv :: authEnv where
  "exampleEnv = \<lparr>ae_hashToken = (\<lambda>x. x), ae_argonHash = (\<lambda>salt p. p), ae_argonVerify = (\<lambda>h p. h = p),
     ae_sign = (\<lambda>_ _ _ i. i), ae_rejects = (\<lambda>_. None), ae_refreshExpiresIn = Some ''30d'', ae_resetAppUrl = None,
     ae_adminAppUrl = None, ae_businessAppUrl = None\<rparr>"

definition exampleAccount :: "UserStatus \<Rightarrow> user" where
  "exampleAccount st = blankUser\<lparr>usr_id := ''r'', usr_phone := ''080'', usr_passwordHash := Some ''old'', usr_status := st\<rparr>"

definition signedUpDb :: db where
  "signedUpDb = emptyDb\<lparr>users := [exampleAccount UserStatus.ACTIVE]\<rparr>"

text \<open>Signed in once: the refresh token is the first identifier of the supply, the session the second.\<close>

definition signedInDb :: db where
  "signedInDb = after (login exampleEnv ''080'' ''old'' (None, None)) signedUpDb"

lemma reused_refresh_token_locks_out_witness:
  "sessionsOf signedInDb ''r'' = 1 \<and> (\<exists>u. refresh exampleEnv [] (None, None) (after (refresh exampleEnv [] (None, None)) signedInDb) =
     (Inl (UnauthorizedException ''Refresh token has already been used - all sessions revoked''), u) \<and> sessionsOf u ''r'' = 0)"
proof -
  have ok: "succeeds (refresh exampleEnv [] (None, None)) signedInDb" by code_simp
  have d: "distinct (map rt_id (refreshTokens signedInDb))" "distinct (map rt_tokenHash (refreshTokens signedInDb))" by code_simp+
  have o: "sessionOwner exampleEnv signedInDb [] = Some ''r''" "sessionsOf signedInDb ''r'' = 1" by code_simp+
  from reused_refresh_token_locks_out [OF d succeeds_run [OF ok]] show ?thesis using o by auto
qed

definition linkSentDb :: db where
  "linkSentDb = after (forgotPassword exampleEnv ''080'') signedInDb"


lemma guesses_are_limited_witness:
  "\<exists>e. verify exampleEnv ''r'' LOGIN ''000007''
     (guess exampleEnv ''r'' LOGIN (replicate 5 ''000000'') (after (sendOtp exampleEnv 7 ''080'' LOGIN) signedUpDb)) =
   (Inl e, guess exampleEnv ''r'' LOGIN (replicate 5 ''000000'') (after (sendOtp exampleEnv 7 ''080'' LOGIN) signedUpDb))"
proof -
  let ?s = "after (sendOtp exampleEnv 7 ''080'' LOGIN) signedUpDb"
  let ?q = "the (newestOtp (outstanding ''r'' LOGIN) (otpCodes ?s))"
  have "newestOtp (outstanding ''r'' LOGIN) (otpCodes ?s) = Some ?q" by code_simp
  moreover have "\<forall>c \<in> set (replicate 5 ''000000''). ae_hashToken exampleEnv c \<noteq> otp_codeHash ?q" by code_simp
  moreover have "OTP_MAX_ATTEMPTS \<le> otp_attempts ?q + length (replicate 5 ''000000'')" by code_simp
  ultimately show ?thesis by (rule guesses_are_limited)
qed

text \<open>The same session after a logout.\<close>

definition signedOutDb :: db where
  "signedOutDb = signedUpDb\<lparr>uuidsUsed := 2, refreshTokens :=
     [\<lparr>rt_id = ''u'', rt_userId = ''r'', rt_tokenHash = [], rt_revokedAt = Some 0, rt_expiresAt = 30 * 86400000, rt_deviceLabel = None,
       rt_userAgent = None, rt_ipAddress = None, rt_lastUsedAt = Some 0, rt_createdAt = 0\<rparr>]\<rparr>"

lemma revoked_sessions_stay_revoked_witness:
  "refreshTokens (after (logout exampleEnv []) signedInDb) = refreshTokens signedOutDb
   \<and> \<not> succeeds (refresh exampleEnv [] (None, None))
       (runAuths exampleEnv [Login ''080'' ''old'' (None, None), Refresh [] (None, None)] signedOutDb)"
proof -
  let ?s = signedOutDb
  let ?t = "runAuths exampleEnv [Login ''080'' ''old'' (None, None), Refresh [] (None, None)] ?s"
  let ?r = "the (List.find (\<lambda>r. rt_tokenHash r = ae_hashToken exampleEnv []) (refreshTokens ?t))"
  have "''u'' = uuids signedOutDb 1" "uuidsUsed signedOutDb = 2" by code_simp+
  moreover have "uuidsOk signedOutDb" using uuidsOk_emptyDb by (simp add: uuidsOk_def signedOutDb_def signedUpDb_def)
  ultimately have "retired ''u'' ?s" by (simp add: retired_def usedIds_def signedOutDb_def)
  moreover have "List.find (\<lambda>r. rt_tokenHash r = ae_hashToken exampleEnv []) (refreshTokens ?t) = Some ?r" "rt_id ?r = ''u''" by code_simp+
  moreover have "refreshTokens (after (logout exampleEnv []) signedInDb) = refreshTokens signedOutDb" by code_simp
  ultimately show ?thesis using revoked_sessions_stay_revoked [OF _ refl] by blast
qed

definition suspendedDb :: db where
  "suspendedDb = emptyDb\<lparr>users := [exampleAccount UserStatus.SUSPENDED]\<rparr>"

lemma suspended_user_signs_in_witness:
  "\<exists>p t. andThen (sendOtp exampleEnv 7 ''080'' REGISTRATION) (verifyOtp exampleEnv ''080'' (otpCodeText 7) REGISTRATION (None, None)) suspendedDb
     = (Inr p, t) \<and> sessionsOf t ''r'' = 1"
proof -
  have c: "List.find (\<lambda>u. usr_phone u = ''080'') (users suspendedDb) = Some (exampleAccount UserStatus.SUSPENDED)"
    "usr_status (exampleAccount UserStatus.SUSPENDED) = UserStatus.SUSPENDED"
    "\<forall>q \<in> set (otpCodes suspendedDb). otp_createdAt q \<le> now suspendedDb"
    "ae_rejects exampleEnv (SmsOtp ''080'' (otpCodeText 7)) = None"
    "parseDuration (orElse (ae_refreshExpiresIn exampleEnv) ''30d'') = Some (30 * 86400000)"
    "\<forall>r \<in> set (refreshTokens suspendedDb). rt_tokenHash r \<noteq> ae_hashToken exampleEnv (uuids suspendedDb (Suc (uuidsUsed suspendedDb)))"
    "sessionsOf suspendedDb ''r'' = 0" "usr_id (exampleAccount UserStatus.SUSPENDED) = ''r''" by code_simp+
  from suspended_user_signs_in [OF c(1-6), of "(None, None)"] c(7,8) show ?thesis by auto
qed

end
