(* ===== verification/Delivery.thy ===== *)
theory Delivery
  imports Dispatch Ledger Text
begin

text \<open>
  Matching a delivery to a driver and carrying it out: src/logistics/logistics-dispatch.service.ts and
  src/logistics/logistics-trip.service.ts.  The GEOSEARCH of Redis is the parameter of Dispatch, the
  upload of a proof of delivery the parameter \<open>upload\<close>, SHA-256 the parameter \<open>hashToken\<close>, and the
  timer that expires a round the message \<open>ExpireDeliveryRoundAt\<close>.
\<close>

fun deliveryStatusName :: "DeliveryStatus \<Rightarrow> string" where
  "deliveryStatusName DeliveryStatus.SCHEDULED = ''SCHEDULED''"
| "deliveryStatusName DeliveryStatus.REQUESTED = ''REQUESTED''"
| "deliveryStatusName DeliveryStatus.DISPATCHING = ''DISPATCHING''"
| "deliveryStatusName DeliveryStatus.ACCEPTED = ''ACCEPTED''"
| "deliveryStatusName DeliveryStatus.PICKED_UP = ''PICKED_UP''"
| "deliveryStatusName DeliveryStatus.COMPLETED = ''COMPLETED''"
| "deliveryStatusName DeliveryStatus.CANCELLED = ''CANCELLED''"
| "deliveryStatusName DeliveryStatus.NO_DRIVERS_FOUND = ''NO_DRIVERS_FOUND''"

definition DELIVERY_OFFER_TTL_MS :: int where
  "DELIVERY_OFFER_TTL_MS = 20000"

section \<open>Rows\<close>

definition findDelivery :: "string \<Rightarrow> delivery option op" where
  "findDelivery i = gets (\<lambda>s. List.find (\<lambda>d. dv_id d = i) (deliveries s))"

definition updateDelivery :: "string \<Rightarrow> (delivery \<Rightarrow> delivery) \<Rightarrow> delivery op" where
  "updateDelivery i f =
     andThen (modify (\<lambda>s. s\<lparr>deliveries := updateWhere (\<lambda>d. dv_id d = i) f (deliveries s)\<rparr>))
     (bind (findDelivery i) (\<lambda>d. orThrow d RecordNotFound))"

definition updateDeliveryMany :: "(delivery \<Rightarrow> bool) \<Rightarrow> (delivery \<Rightarrow> delivery) \<Rightarrow> nat op" where
  "updateDeliveryMany P f =
     bind (gets (\<lambda>s. countWhere P (deliveries s))) (\<lambda>n.
     andThen (modify (\<lambda>s. s\<lparr>deliveries := updateWhere P f (deliveries s)\<rparr>)) (return n))"

definition updateDeliveryOffers :: "(deliveryOffer \<Rightarrow> bool) \<Rightarrow> (deliveryOffer \<Rightarrow> deliveryOffer) \<Rightarrow> unit op" where
  "updateDeliveryOffers P f = modify (\<lambda>s. s\<lparr>deliveryOffers := updateWhere P f (deliveryOffers s)\<rparr>)"

definition resolveDeliveryOffer :: "DeliveryOfferStatus \<Rightarrow> instant \<Rightarrow> deliveryOffer \<Rightarrow> deliveryOffer" where
  "resolveDeliveryOffer st t p = p\<lparr>do_status := st, do_respondedAt := Some t\<rparr>"

text \<open>\<open>prisma.driverStatus.update\<close>, which fails when the driver has no row.\<close>

definition setAvailability :: "string \<Rightarrow> DriverAvailability \<Rightarrow> unit op" where
  "setAvailability driverId availability =
     bind (gets (\<lambda>s. List.find (\<lambda>d. ds_userId d = driverId) (driverStatuses s))) (\<lambda>found.
     andThen (ensure (found \<noteq> None) RecordNotFound)
     (modify (\<lambda>s. s\<lparr>driverStatuses := updateWhere (\<lambda>d. ds_userId d = driverId) (\<lambda>d. d\<lparr>ds_availability := availability\<rparr>)
        (driverStatuses s)\<rparr>)))"

section \<open>The round of offers\<close>

definition eligibleCourier :: "string \<Rightarrow> RidePaymentMethod \<Rightarrow> rat \<Rightarrow> driverStatus \<Rightarrow> bool" where
  "eligibleCourier vehicleType paymentMethod maxUnsettledCashRides d \<longleftrightarrow>
     ds_availability d = ONLINE \<and> ds_serviceMode d = LOGISTICS
     \<and> (ds_vehicleType d = Some vehicleType \<or> ds_vehicleType d = None)
     \<and> (paymentMethod = CASH \<longrightarrow> of_nat (ds_unsettledCashRideCount d) < maxUnsettledCashRides)"

definition findNearbyCouriers :: "geosearch \<Rightarrow> rat \<Rightarrow> rat \<Rightarrow> string \<Rightarrow> nat \<Rightarrow> RidePaymentMethod \<Rightarrow> rat \<Rightarrow> string list op" where
  "findNearbyCouriers geosearch lat lng vehicleType limit paymentMethod maxUnsettledCashRides =
     bind (gets (\<lambda>s. map fst (geosearch (driversGeo s) lat lng (limit * 4)))) (\<lambda>results.
     if results = [] then return [] else
     bind (gets (\<lambda>s. map ds_userId (filter (\<lambda>d. ds_userId d \<in> set results
              \<and> eligibleCourier vehicleType paymentMethod maxUnsettledCashRides d) (driverStatuses s)))) (\<lambda>eligibleIds.
     return (take limit (filter (\<lambda>i. i \<in> set eligibleIds) results))))"

definition resolveNoCouriers :: "string \<Rightarrow> unit op" where
  "resolveNoCouriers deliveryId =
     bind (updateDeliveryMany (\<lambda>d. dv_id d = deliveryId \<and> dv_status d \<in> {DeliveryStatus.REQUESTED, DeliveryStatus.DISPATCHING})
             (\<lambda>d. d\<lparr>dv_status := DeliveryStatus.NO_DRIVERS_FOUND\<rparr>)) (\<lambda>count.
     onlyIf (0 < count) (push (EmitDeliveryStatus deliveryId ''NO_DRIVERS_FOUND'')))"

fun createDeliveryOffers :: "string \<Rightarrow> instant \<Rightarrow> string list \<Rightarrow> unit op" where
  "createDeliveryOffers deliveryId expiresAt [] = return ()"
| "createDeliveryOffers deliveryId expiresAt (d # ds) =
     bind (gets (\<lambda>s. List.find (\<lambda>p. do_deliveryId p = deliveryId \<and> do_driverId p = d) (deliveryOffers s))) (\<lambda>dup.
     andThen (ensure (dup = None) UniqueViolation)
     (bind freshId (\<lambda>i.
     andThen (modify (\<lambda>s. s\<lparr>deliveryOffers := deliveryOffers s @
        [\<lparr>do_id = i, do_deliveryId = deliveryId, do_driverId = d, do_status = DeliveryOfferStatus.PENDING,
          do_expiresAt = expiresAt, do_respondedAt = None\<rparr>]\<rparr>))
     (createDeliveryOffers deliveryId expiresAt ds))))"

definition startDeliveryDispatch :: "geosearch \<Rightarrow> string \<Rightarrow> unit op" where
  "startDeliveryDispatch geosearch deliveryId =
     bind (findDelivery deliveryId) (\<lambda>found.
     case found of
       None \<Rightarrow> return ()
     | Some d \<Rightarrow>
         if dv_status d \<noteq> DeliveryStatus.REQUESTED then return () else
         andThen (updateDelivery deliveryId (\<lambda>d. d\<lparr>dv_status := DeliveryStatus.DISPATCHING\<rparr>))
         (bind getMaxUnsettledCashRides (\<lambda>maxUnsettledCashRides.
         bind (findNearbyCouriers geosearch (dv_pickupLat d) (dv_pickupLng d) (dv_vehicleType d) MAX_CANDIDATES
                 (dv_paymentMethod d) maxUnsettledCashRides) (\<lambda>candidates.
         if candidates = [] then resolveNoCouriers deliveryId else
         bind (gets (\<lambda>s. now s + DELIVERY_OFFER_TTL_MS)) (\<lambda>expiresAt.
         andThen (atomic (createDeliveryOffers deliveryId expiresAt candidates))
         (andThen (forEach candidates (\<lambda>c. push (EmitDeliveryOffer c deliveryId)))
         (push (ExpireDeliveryRoundAt expiresAt deliveryId))))))))"

definition expireDeliveryRoundIfUnresolved :: "string \<Rightarrow> unit op" where
  "expireDeliveryRoundIfUnresolved deliveryId =
     bind (findDelivery deliveryId) (\<lambda>found.
     case found of
       None \<Rightarrow> return ()
     | Some d \<Rightarrow>
         if dv_status d \<noteq> DeliveryStatus.DISPATCHING then return () else
         bind (gets now) (\<lambda>t.
         andThen (updateDeliveryOffers (\<lambda>p. do_deliveryId p = deliveryId \<and> do_status p = DeliveryOfferStatus.PENDING)
                    (resolveDeliveryOffer DeliveryOfferStatus.EXPIRED t))
         (resolveNoCouriers deliveryId)))"

definition resolveNoCouriersIfAllResolved :: "string \<Rightarrow> unit op" where
  "resolveNoCouriersIfAllResolved deliveryId =
     bind (findDelivery deliveryId) (\<lambda>found.
     case found of
       None \<Rightarrow> return ()
     | Some d \<Rightarrow>
         if dv_status d \<noteq> DeliveryStatus.DISPATCHING then return () else
         bind (gets (\<lambda>s. countWhere (\<lambda>p. do_deliveryId p = deliveryId \<and> do_status p = DeliveryOfferStatus.PENDING) (deliveryOffers s))) (\<lambda>pending.
         onlyIf (pending = 0) (resolveNoCouriers deliveryId)))"

section \<open>Accepting, declining, voiding\<close>

definition findDeliveryOffer :: "string \<Rightarrow> string \<Rightarrow> deliveryOffer option op" where
  "findDeliveryOffer deliveryId driverId =
     gets (\<lambda>s. List.find (\<lambda>p. do_deliveryId p = deliveryId \<and> do_driverId p = driverId) (deliveryOffers s))"

text \<open>As for rides: the checks, the claim (one UPDATE ... WHERE), and what the winner does next.\<close>

definition acceptDeliveryChecks :: "string \<Rightarrow> string \<Rightarrow> (deliveryOffer \<times> delivery) op" where
  "acceptDeliveryChecks driverId deliveryId =
     bind (findDeliveryOffer deliveryId driverId) (\<lambda>found.
     bind (orThrow found (NotFoundException ''Offer not found'')) (\<lambda>offer.
     bind (gets now) (\<lambda>t.
     andThen (ensure (\<not> (do_status offer \<noteq> DeliveryOfferStatus.PENDING \<or> do_expiresAt offer < t))
                (ConflictException ''This offer is no longer available''))
     (bind (findDelivery deliveryId) (\<lambda>preview.
      bind (orThrow preview RecordNotFound) (\<lambda>deliveryPreview.
      andThen (onlyIf (dv_paymentMethod deliveryPreview = CASH)
        (bind (gets (\<lambda>s. unsettledCount s driverId)) (\<lambda>count.
         bind getMaxUnsettledCashRides (\<lambda>maxUnsettledCashRides.
         ensure (\<not> maxUnsettledCashRides \<le> of_nat count)
           (ForbiddenException ''Outstanding cash-ride commission must be cleared before accepting another cash delivery'')))))
      (return (offer, deliveryPreview))))))))"

definition claimDelivery :: "string \<Rightarrow> string \<Rightarrow> nat op" where
  "claimDelivery driverId deliveryId =
     bind (gets now) (\<lambda>t.
     updateDeliveryMany (\<lambda>d. dv_id d = deliveryId \<and> dv_status d = DeliveryStatus.DISPATCHING \<and> dv_driverId d = None)
       (\<lambda>d. d\<lparr>dv_status := DeliveryStatus.ACCEPTED, dv_driverId := Some driverId, dv_acceptedAt := Some t\<rparr>))"

definition acceptDeliveryLost :: "deliveryOffer \<Rightarrow> delivery op" where
  "acceptDeliveryLost offer =
     bind (gets now) (\<lambda>t.
     andThen (updateDeliveryOffers (\<lambda>p. do_id p = do_id offer) (resolveDeliveryOffer DeliveryOfferStatus.EXPIRED t))
     (throw (ConflictException ''Another driver already accepted this delivery'')))"

definition acceptDeliveryWon :: "string \<Rightarrow> string \<Rightarrow> deliveryOffer \<Rightarrow> delivery \<Rightarrow> delivery op" where
  "acceptDeliveryWon driverId deliveryId offer preview =
     andThen (push (EmitDeliveryStatus deliveryId ''ACCEPTED''))
     (andThen (push (NotifyUser (dv_senderId preview) ''Driver assigned''
        (''A driver has accepted your delivery to '' @ dv_receiverName preview @ '' and is heading to pickup.'')))
     (bind (gets now) (\<lambda>t.
      andThen (updateDeliveryOffers (\<lambda>p. do_id p = do_id offer) (resolveDeliveryOffer DeliveryOfferStatus.ACCEPTED t))
      (bind (gets (\<lambda>s. filter (\<lambda>p. do_deliveryId p = deliveryId \<and> do_driverId p \<noteq> driverId
               \<and> do_status p = DeliveryOfferStatus.PENDING) (deliveryOffers s))) (\<lambda>otherOffers.
       andThen (updateDeliveryOffers (\<lambda>p. do_deliveryId p = deliveryId \<and> do_driverId p \<noteq> driverId \<and> do_status p = DeliveryOfferStatus.PENDING)
                  (resolveDeliveryOffer DeliveryOfferStatus.EXPIRED t))
       (andThen (setAvailability driverId ON_TRIP)
       (andThen (forEach otherOffers (\<lambda>other. push (EmitDeliveryOfferTaken (do_driverId other) deliveryId)))
       (bind (findDelivery deliveryId) (\<lambda>d. orThrow d RecordNotFound)))))))))"

definition acceptDeliveryOffer :: "string \<Rightarrow> string \<Rightarrow> delivery op" where
  "acceptDeliveryOffer driverId deliveryId =
     bind (acceptDeliveryChecks driverId deliveryId) (\<lambda>(offer, preview).
     bind (claimDelivery driverId deliveryId) (\<lambda>claimed.
     if claimed = 0 then acceptDeliveryLost offer else acceptDeliveryWon driverId deliveryId offer preview))"

definition declineDeliveryOffer :: "string \<Rightarrow> string \<Rightarrow> deliveryOffer op" where
  "declineDeliveryOffer driverId deliveryId =
     bind (findDeliveryOffer deliveryId driverId) (\<lambda>found.
     bind (orThrow found (NotFoundException ''Offer not found'')) (\<lambda>offer.
     if do_status offer \<noteq> DeliveryOfferStatus.PENDING then return offer else
     bind (gets now) (\<lambda>t.
     andThen (updateDeliveryOffers (\<lambda>p. do_id p = do_id offer) (resolveDeliveryOffer DeliveryOfferStatus.DECLINED t))
     (andThen (resolveNoCouriersIfAllResolved deliveryId)
     (return (resolveDeliveryOffer DeliveryOfferStatus.DECLINED t offer))))))"

definition voidPendingOffers :: "string \<Rightarrow> unit op" where
  "voidPendingOffers deliveryId =
     bind (gets (\<lambda>s. filter (\<lambda>p. do_deliveryId p = deliveryId \<and> do_status p = DeliveryOfferStatus.PENDING) (deliveryOffers s))) (\<lambda>pending.
     bind (gets now) (\<lambda>t.
     andThen (updateDeliveryOffers (\<lambda>p. do_deliveryId p = deliveryId \<and> do_status p = DeliveryOfferStatus.PENDING)
                (resolveDeliveryOffer DeliveryOfferStatus.EXPIRED t))
     (forEach pending (\<lambda>p. push (EmitDeliveryOfferCancelled (do_driverId p) deliveryId)))))"

end
