(* ===== verification/DeliveryTrip.thy ===== *)
theory DeliveryTrip
  imports Delivery Trip
begin

text \<open>
  A delivery from the pickup to its end, src/logistics/logistics-trip.service.ts: milestones, pickup,
  proof of delivery, and completion with one of three payments: the business is charged and invoiced,
  the sender's wallet pays, or the driver's cash commission is recorded.
\<close>

section \<open>On the way\<close>

definition ownDelivery :: "string \<Rightarrow> string \<Rightarrow> delivery op" where
  "ownDelivery driverId deliveryId =
     bind (findDelivery deliveryId) (\<lambda>found.
     bind (orThrow found (NotFoundException ''Delivery not found'')) (\<lambda>d.
     andThen (ensure (dv_driverId d = Some driverId) (ForbiddenException ''You are not the driver on this delivery''))
     (return d)))"

definition recordMilestone :: "string \<Rightarrow> string \<Rightarrow> DeliveryStatus \<Rightarrow> (delivery \<Rightarrow> instant option)
    \<Rightarrow> (instant \<Rightarrow> delivery \<Rightarrow> delivery) \<Rightarrow> delivery op" where
  "recordMilestone driverId deliveryId requiredStatus field setField =
     bind (ownDelivery driverId deliveryId) (\<lambda>d.
     andThen (ensure (dv_status d = requiredStatus)
        (BadRequestException (''Not possible while the delivery is '' @ deliveryStatusName (dv_status d))))
     (if field d \<noteq> None then return d else
      bind (gets now) (\<lambda>t.
      bind (updateDelivery deliveryId (setField t)) (\<lambda>updated.
      andThen (push (EmitDeliveryStatus deliveryId (deliveryStatusName (dv_status d))))
      (return updated)))))"

definition markArrivedAtPickup :: "string \<Rightarrow> string \<Rightarrow> delivery op" where
  "markArrivedAtPickup driverId deliveryId =
     recordMilestone driverId deliveryId DeliveryStatus.ACCEPTED dv_arrivedAtPickupAt (\<lambda>t d. d\<lparr>dv_arrivedAtPickupAt := Some t\<rparr>)"

definition markArrivedAtDropoff :: "string \<Rightarrow> string \<Rightarrow> delivery op" where
  "markArrivedAtDropoff driverId deliveryId =
     recordMilestone driverId deliveryId DeliveryStatus.PICKED_UP dv_arrivedAtDropoffAt (\<lambda>t d. d\<lparr>dv_arrivedAtDropoffAt := Some t\<rparr>)"

definition deliveryTransition :: "string \<Rightarrow> string \<Rightarrow> DeliveryStatus \<Rightarrow> DeliveryStatus \<Rightarrow> (delivery \<Rightarrow> delivery) \<Rightarrow> delivery op" where
  "deliveryTransition driverId deliveryId fromStatus toStatus extraData =
     bind (ownDelivery driverId deliveryId) (\<lambda>d.
     andThen (ensure (dv_status d = fromStatus)
        (BadRequestException (''Cannot move to '' @ deliveryStatusName toStatus @ '' from status '' @ deliveryStatusName (dv_status d))))
     (updateDelivery deliveryId (\<lambda>d. extraData (d\<lparr>dv_status := toStatus\<rparr>))))"

definition confirmPickup :: "string \<Rightarrow> string \<Rightarrow> delivery op" where
  "confirmPickup driverId deliveryId =
     bind (gets now) (\<lambda>t.
     bind (deliveryTransition driverId deliveryId DeliveryStatus.ACCEPTED DeliveryStatus.PICKED_UP (\<lambda>d. d\<lparr>dv_pickedUpAt := Some t\<rparr>)) (\<lambda>d.
     andThen (push (EmitDeliveryStatus deliveryId ''PICKED_UP'')) (return d)))"

section \<open>Proof of delivery\<close>

fun podTypeName :: "ProofOfDeliveryType \<Rightarrow> string" where
  "podTypeName OTP = ''OTP''"
| "podTypeName SIGNATURE = ''SIGNATURE''"
| "podTypeName PHOTO = ''PHOTO''"

definition podFileKey :: "string \<Rightarrow> ProofOfDeliveryType \<Rightarrow> instant \<Rightarrow> string \<Rightarrow> string" where
  "podFileKey deliveryId type t name =
     ''pod/'' @ deliveryId @ ''/'' @ podTypeName type @ ''/'' @ decimal (nat t) @ ''-'' @ name"

text \<open>The file is its name; \<open>upload\<close> says what the upload under a key rejects with.\<close>

definition submitProofOfDelivery :: "(string \<Rightarrow> string) \<Rightarrow> (string \<Rightarrow> error option) \<Rightarrow> string \<Rightarrow> string
    \<Rightarrow> ProofOfDeliveryType \<Rightarrow> string option \<Rightarrow> string option \<Rightarrow> delivery op" where
  "submitProofOfDelivery hashToken upload driverId deliveryId type otpCode file =
     bind (ownDelivery driverId deliveryId) (\<lambda>d.
     andThen (ensure (dv_status d = DeliveryStatus.PICKED_UP)
        (BadRequestException ''Proof of delivery can only be submitted after pickup is confirmed''))
     (if type = OTP then
        andThen (ensure (truthy otpCode \<and> truthy (dv_receiverOtpHash d) \<and> dv_receiverOtpHash d = Some (hashToken (the otpCode)))
           (BadRequestException ''Invalid delivery code''))
        (bind (gets now) (\<lambda>t.
         bind (updateDelivery deliveryId (\<lambda>d. d\<lparr>dv_podType := Some type, dv_podSubmittedAt := Some t\<rparr>)) (\<lambda>updated.
         andThen (push (EmitDeliveryStatus deliveryId ''DELIVERED'')) (return updated))))
      else
        bind (orThrow file (BadRequestException (''A file is required for proof-of-delivery type '' @ podTypeName type))) (\<lambda>name.
        bind (gets now) (\<lambda>t.
        let key = podFileKey deliveryId type t name in
        andThen (case upload key of Some e \<Rightarrow> throw e | None \<Rightarrow> return ())
        (bind (updateDelivery deliveryId (\<lambda>d. d\<lparr>dv_podType := Some type, dv_podFileKey := Some key, dv_podSubmittedAt := Some t\<rparr>)) (\<lambda>updated.
         andThen (push (EmitDeliveryStatus deliveryId ''DELIVERED'')) (return updated)))))))"

section \<open>Completion\<close>

definition INVOICE_DUE_MS :: int where
  "INVOICE_DUE_MS = 14 * 24 * 60 * 60 * 1000"

definition deliveryReference :: "string \<Rightarrow> string" where
  "deliveryReference deliveryId = ''delivery:'' @ deliveryId"

text \<open>\<open>prisma.invoice.create\<close>; a delivery has at most one invoice.\<close>

definition createInvoice :: "string \<Rightarrow> delivery \<Rightarrow> rat \<Rightarrow> rat \<Rightarrow> unit op" where
  "createInvoice businessId d amount commissionAmount =
     bind (gets (\<lambda>s. List.find (\<lambda>v. iv_deliveryId v = Some (dv_id d)) (invoices s))) (\<lambda>dup.
     andThen (ensure (dup = None) UniqueViolation)
     (bind freshId (\<lambda>i. bind (gets now) (\<lambda>t.
      modify (\<lambda>s. s\<lparr>invoices := invoices s @
        [\<lparr>iv_id = i, iv_businessId = businessId, iv_deliveryId = Some (dv_id d), iv_amount = scale2 amount,
          iv_commissionAmount = scale2 commissionAmount, iv_description = ''Delivery to '' @ dv_receiverName d,
          iv_status = InvoiceStatus.PENDING, iv_dueAt = t + INVOICE_DUE_MS, iv_paidAt = None, iv_transactionId = None, iv_createdAt = t\<rparr>]\<rparr>)))))"

text \<open>The three ways a completed delivery is paid; returns \<open>transactionId\<close>.\<close>

definition settleDelivery :: "(rat \<Rightarrow> string) \<Rightarrow> string \<Rightarrow> delivery \<Rightarrow> rat \<Rightarrow> rat \<Rightarrow> rat \<Rightarrow> string option op" where
  "settleDelivery shown driverId d finalFare commissionAmount taxAmount =
     (let reference = deliveryReference (dv_id d) in
      if truthy (dv_businessId d) then
        andThen (chargeBusinessForDelivery (the (dv_businessId d)) finalFare reference None)
        (andThen (createInvoice (the (dv_businessId d)) d finalFare commissionAmount) (return None))
      else if dv_paymentMethod d = WALLET then
        bind (payForDelivery (dv_senderId d) driverId finalFare commissionAmount reference None taxAmount) (\<lambda>tx.
        return (Some (tx_id tx)))
      else
        bind (recordCashDeliveryCommission driverId (commissionAmount + taxAmount) (reference @ '':commission'')
                (if 0 < taxAmount then Some [(''commission'', shown commissionAmount), (''tax'', shown taxAmount)] else None)) (\<lambda>_.
        return None))"

definition completeStops :: "string \<Rightarrow> instant \<Rightarrow> unit op" where
  "completeStops deliveryId t = modify (\<lambda>s. s\<lparr>deliveryStops :=
     updateWhere (\<lambda>p. st_deliveryId p = deliveryId \<and> st_status p = DeliveryStopStatus.PENDING)
       (\<lambda>p. p\<lparr>st_status := DeliveryStopStatus.COMPLETED, st_completedAt := Some t\<rparr>) (deliveryStops s)\<rparr>)"

definition finishDelivery :: "rat \<Rightarrow> rat \<Rightarrow> instant \<Rightarrow> string option \<Rightarrow> delivery \<Rightarrow> delivery" where
  "finishDelivery finalFare commissionAmount t transactionId d =
     d\<lparr>dv_status := DeliveryStatus.COMPLETED, dv_finalFare := Some (scale2 finalFare),
       dv_commissionAmount := Some (scale2 commissionAmount), dv_completedAt := Some t,
       dv_transactionId := keptOr transactionId (dv_transactionId d)\<rparr>"

definition completeDelivery :: "(rat \<Rightarrow> string) \<Rightarrow> string \<Rightarrow> string \<Rightarrow> delivery op" where
  "completeDelivery shown driverId deliveryId =
     bind (ownDelivery driverId deliveryId) (\<lambda>d.
     andThen (ensure (dv_status d = DeliveryStatus.PICKED_UP)
        (BadRequestException (''Cannot complete a delivery in status '' @ deliveryStatusName (dv_status d))))
     (andThen (ensure (dv_podType d \<noteq> None) (BadRequestException ''Proof of delivery is required before completing''))
     (bind (getActiveCommissionRate ''DELIVERY'' (Some (dv_vehicleType d))) (\<lambda>rule.
      bind (orThrow (dv_estimatedFare d) (InternalError ''finalFare is null'')) (\<lambda>finalFare.
      let taxAmount = orElse (dv_taxAmount d) 0; commissionAmount = commissionOn finalFare taxAmount (cr_rate rule) in
      bind (settleDelivery shown driverId d finalFare commissionAmount taxAmount) (\<lambda>transactionId.
      bind (gets now) (\<lambda>t.
      bind (atomic (andThen (completeStops deliveryId t)
              (updateDelivery deliveryId (finishDelivery finalFare commissionAmount t transactionId)))) (\<lambda>completed.
      andThen (setAvailability driverId ONLINE)
      (andThen (push (EmitDeliveryStatus deliveryId ''COMPLETED''))
      (andThen (push (NotifyUser (dv_senderId d) ''Delivery completed''
         (''Your package has been delivered to '' @ dv_receiverName d @ ''.'')))
      (return completed)))))))))))"

end
