(* ===== verification/Logistics.thy ===== *)
theory Logistics
  imports DeliveryTrip Rides
begin

text \<open>
  Booking, editing, cancelling and tracking deliveries, src/logistics/logistics.service.ts.  The
  distance of a leg is as for rides.  SHA-256 is the parameter \<open>hashToken\<close>, the web address of the
  tracking pages \<open>trackBase\<close>, the rendering of a date \<open>showDate\<close>, the draw of \<open>randomInt\<close> an argument.
  The SMS to the receiver is not awaited and its failure only logged: it is a message of the outbox.
  The delayed jobs of the schedule queue are the pairs \<open>scheduleJobs\<close> of a delivery and its instant.
\<close>

definition MIN_SCHEDULE_LEAD_MS :: int where "MIN_SCHEDULE_LEAD_MS = 30 * 60 * 1000"
definition MAX_SCHEDULE_AHEAD_MS :: int where "MAX_SCHEDULE_AHEAD_MS = 30 * 24 * 60 * 60 * 1000"
definition RECEIVER_OTP_LENGTH :: nat where "RECEIVER_OTP_LENGTH = 6"

definition liveDeliveryStatuses :: "DeliveryStatus list" where
  "liveDeliveryStatuses = [DeliveryStatus.ACCEPTED, DeliveryStatus.PICKED_UP]"

record stopInput =
  sp_lat :: rat
  sp_lng :: rat
  sp_address :: string

fun tariffServiceType :: "DeliveryServiceType \<Rightarrow> TariffServiceType" where
  "tariffServiceType DeliveryServiceType.FREIGHT = TariffServiceType.FREIGHT"
| "tariffServiceType DeliveryServiceType.PACKAGE = TariffServiceType.PACKAGE"

text \<open>The view a participant gets: the three hidden fields are gone.\<close>

definition toParticipantView :: "delivery \<Rightarrow> delivery" where
  "toParticipantView d = d\<lparr>dv_receiverOtpHash := None, dv_podFileKey := None, dv_trackingToken := []\<rparr>"

definition generateOtp :: "nat \<Rightarrow> string" where
  "generateOtp draw = padStart RECEIVER_OTP_LENGTH (digitChar 0) (decimal draw)"

text \<open>common/utils/tracking-url.util.ts: one slash between the configured base and the path.\<close>

definition dropSlash :: "string \<Rightarrow> string" where
  "dropSlash x = (case x of c # cs \<Rightarrow> if c = CHR ''/'' then cs else x | [] \<Rightarrow> [])"

definition trackingUrl :: "string option \<Rightarrow> string \<Rightarrow> string" where
  "trackingUrl base path =
     rev (dropSlash (rev (orElse base ''http://localhost:5173/track''))) @ ''/'' @ dropSlash path"

section \<open>Routes and quotes\<close>

text \<open>The legs from the pickup through the stops, added up.\<close>

fun routeLoop :: "distanceMatrix \<Rightarrow> (leg \<Rightarrow> rat \<times> int) \<Rightarrow> rat \<Rightarrow> rat \<Rightarrow> stopInput list \<Rightarrow> rat \<times> int \<Rightarrow> rat \<times> int" where
  "routeLoop matrix approximate lat lng [] acc = acc"
| "routeLoop matrix approximate lat lng (p # ps) acc =
     (let leg = getDistance matrix approximate (lat, lng, sp_lat p, sp_lng p) in
      routeLoop matrix approximate (sp_lat p) (sp_lng p) ps (fst acc + fst leg, snd acc + snd leg))"

definition getRouteDistance :: "distanceMatrix \<Rightarrow> (leg \<Rightarrow> rat \<times> int) \<Rightarrow> rat \<Rightarrow> rat \<Rightarrow> stopInput list \<Rightarrow> rat \<times> int" where
  "getRouteDistance matrix approximate lat lng stops = routeLoop matrix approximate lat lng stops (0, 0)"

record deliveryQuote =
  dq_isServiceable :: bool
  dq_distanceKm :: rat
  dq_durationMinutes :: int
  dq_quotes :: "vehicleQuote list"
  dq_promo :: "promoOutcome option"

definition quoteDelivery :: "distanceMatrix \<Rightarrow> (leg \<Rightarrow> rat \<times> int) \<Rightarrow> rat \<Rightarrow> rat \<Rightarrow> stopInput list \<Rightarrow> string option
    \<Rightarrow> DeliveryServiceType option \<Rightarrow> string option \<Rightarrow> string option \<Rightarrow> deliveryQuote op" where
  "quoteDelivery matrix approximate lat lng stops vehicleType serviceType promoCode userId =
     (let route = getRouteDistance matrix approximate lat lng stops in
     bind (validateLocation lat lng) (\<lambda>area.
     bind (quoteVehicles (tariffServiceType (orElse serviceType DeliveryServiceType.PACKAGE)) (map_option sa_id area)
             (fst route) (snd route) vehicleType
             (if truthy promoCode \<and> truthy userId
              then Some (the promoCode, the userId, PromoApplicableService.DELIVERY) else None)) (\<lambda>(quotes, outcome).
     return \<lparr>dq_isServiceable = (area \<noteq> None), dq_distanceKm = fst route, dq_durationMinutes = snd route, dq_quotes = quotes,
       dq_promo = (if truthy promoCode \<and> \<not> truthy userId
         then Some (toUpperCase (the promoCode), False, Some ''Sign in to apply a promo code'') else outcome)\<rparr>)))"

section \<open>Business billing and scheduling\<close>

definition findBusinessOrThrow :: "string \<Rightarrow> business op" where
  "findBusinessOrThrow i = bind (gets (\<lambda>s. List.find (\<lambda>b. bz_id b = i) (businesses s))) (\<lambda>b. orThrow b RecordNotFound)"

definition resolveSenderBusiness :: "string \<Rightarrow> string op" where
  "resolveSenderBusiness senderId =
     bind (gets (\<lambda>s. List.find (\<lambda>u. usr_id u = senderId) (users s))) (\<lambda>found.
     bind (orThrow found RecordNotFound) (\<lambda>sender.
     bind (gets (\<lambda>s. List.find (\<lambda>b. Some (bz_id b) = usr_businessId sender) (businesses s))) (\<lambda>foundBusiness.
     bind (orThrow foundBusiness (BadRequestException ''Business invoice is only available to business accounts'')) (\<lambda>b.
     andThen (ensure (bz_status b = BusinessStatus.ACTIVE) (ForbiddenException ''This business account is not active''))
     (return (bz_id b))))))"

definition assertWithinCreditLimit :: "string \<Rightarrow> rat \<Rightarrow> unit op" where
  "assertWithinCreditLimit businessId amount =
     bind (both (findBusinessOrThrow businessId) (getOrCreateUserAccount businessId BUSINESS_CREDIT_PAYABLE)) (\<lambda>(b, payable).
     ensure (\<not> bz_creditLimit b < acc_balance payable + amount) (ForbiddenException ''This would exceed the business credit limit''))"

definition assertSchedulable :: "instant \<Rightarrow> unit op" where
  "assertSchedulable scheduledFor =
     bind (gets (\<lambda>s. scheduledFor - now s)) (\<lambda>lead.
     andThen (ensure (\<not> lead < MIN_SCHEDULE_LEAD_MS) (BadRequestException ''Scheduled pickup must be at least 30 minutes from now''))
     (ensure (\<not> MAX_SCHEDULE_AHEAD_MS < lead) (BadRequestException ''Scheduled pickup can be at most 30 days ahead'')))"

text \<open>A job with the id of the delivery is added once.\<close>

definition enqueueScheduledDispatch :: "string \<Rightarrow> instant \<Rightarrow> unit op" where
  "enqueueScheduledDispatch deliveryId scheduledFor =
     bind (getConfig ''scheduledDispatchLeadMinutes'' 30) (\<lambda>leadMinutes.
     bind (gets now) (\<lambda>t.
     let delay = max 0 \<lfloor>of_int scheduledFor - leadMinutes * 60000 - of_int t\<rfloor> in
     modify (\<lambda>s. s\<lparr>scheduleJobs := (if deliveryId \<in> fst ` set (scheduleJobs s) then scheduleJobs s
        else scheduleJobs s @ [(deliveryId, t + delay)])\<rparr>)))"

section \<open>Booking\<close>

record deliveryDto =
  dx_pickupLat :: rat
  dx_pickupLng :: rat
  dx_pickupAddress :: string
  dx_serviceType :: "DeliveryServiceType option"
  dx_packageDescription :: string
  dx_packageValue :: "rat option"
  dx_weightKg :: "rat option"
  dx_packageSize :: "PackageSize option"
  dx_isFragile :: "bool option"
  dx_deliveryNotes :: "string option"
  dx_receiverName :: string
  dx_receiverPhone :: string
  dx_vehicleType :: string
  dx_paymentMethod :: "RidePaymentMethod option"
  dx_stops :: "stopInput list"
  dx_promoCode :: "string option"
  dx_scheduledFor :: "instant option"

definition newDelivery :: "string \<Rightarrow> string \<Rightarrow> string option \<Rightarrow> RidePaymentMethod \<Rightarrow> deliveryDto \<Rightarrow> string \<Rightarrow> rat \<times> int
    \<Rightarrow> fareBreakdown \<Rightarrow> string \<Rightarrow> string \<Rightarrow> instant \<Rightarrow> delivery" where
  "newDelivery i senderId businessId meth dto areaId d fare token otpHash t =
     \<lparr>dv_id = i, dv_senderId = senderId, dv_driverId = None, dv_businessId = businessId,
      dv_status = (if dx_scheduledFor dto = None then DeliveryStatus.REQUESTED else DeliveryStatus.SCHEDULED),
      dv_vehicleType = dx_vehicleType dto, dv_paymentMethod = meth,
      dv_pickupLat = dx_pickupLat dto, dv_pickupLng = dx_pickupLng dto, dv_pickupAddress = dx_pickupAddress dto,
      dv_serviceAreaId = Some areaId, dv_serviceType = orElse (dx_serviceType dto) DeliveryServiceType.PACKAGE,
      dv_packageDescription = dx_packageDescription dto, dv_packageValue = map_option scale2 (dx_packageValue dto),
      dv_weightKg = map_option scale2 (dx_weightKg dto), dv_packageSize = dx_packageSize dto,
      dv_isFragile = orElse (dx_isFragile dto) False,
      dv_deliveryNotes = (if truthy (map_option trim (dx_deliveryNotes dto)) then map_option trim (dx_deliveryNotes dto) else None),
      dv_scheduledFor = dx_scheduledFor dto, dv_receiverName = dx_receiverName dto, dv_receiverPhone = dx_receiverPhone dto,
      dv_distanceKm = Some (scale2 (fst d)), dv_durationMinutes = Some (snd d),
      dv_estimatedFare = Some (scale2 (fb_total fare)), dv_finalFare = None, dv_commissionAmount = None,
      dv_subtotalFare = Some (scale2 (fb_subtotal fare)), dv_promoDiscount = Some (scale2 (fb_promoDiscount fare)),
      dv_taxAmount = Some (scale2 (fb_tax fare)), dv_trackingToken = token, dv_receiverOtpHash = Some otpHash,
      dv_receiverOtpVerifiedAt = None, dv_podType = None, dv_podFileKey = None, dv_podSubmittedAt = None,
      dv_cancelledById = None, dv_cancellationReason = None, dv_cancellationFee = None, dv_transactionId = None,
      dv_requestedAt = t, dv_acceptedAt = None, dv_arrivedAtPickupAt = None, dv_pickedUpAt = None,
      dv_arrivedAtDropoffAt = None, dv_completedAt = None, dv_cancelledAt = None,
      dv_disputeReason = None, dv_disputeResolution = None, dv_disputeResolvedById = None, dv_disputeResolvedAt = None\<rparr>"

definition stopRows :: "string \<Rightarrow> stopInput list \<Rightarrow> deliveryStop list" where
  "stopRows deliveryId stops = map (\<lambda>(n, p). \<lparr>st_deliveryId = deliveryId, st_sequence = n, st_lat = sp_lat p, st_lng = sp_lng p,
     st_address = sp_address p, st_status = DeliveryStopStatus.PENDING, st_completedAt = None\<rparr>) (enumerate 0 stops)"

text \<open>Who pays: the business named by the caller, the sender's own when picked in the app, or the sender.\<close>

definition billing :: "string \<Rightarrow> deliveryDto \<Rightarrow> string option \<Rightarrow> (string option \<times> RidePaymentMethod \<times> bool) op" where
  "billing senderId dto businessId =
     (let meth = orElse (dx_paymentMethod dto) WALLET; billedFromApp = (\<not> truthy businessId \<and> meth = BUSINESS_INVOICE) in
      if billedFromApp then bind (resolveSenderBusiness senderId) (\<lambda>b. return (Some b, meth, True))
      else return (businessId, if truthy businessId then BUSINESS_INVOICE else meth, False))"

definition receiverSms :: "string option \<Rightarrow> (instant \<Rightarrow> string) \<Rightarrow> deliveryDto \<Rightarrow> string \<Rightarrow> string \<Rightarrow> effect" where
  "receiverSms trackBase showDate dto token otp = SmsMessage (dx_receiverPhone dto)
     (''A Kilo delivery is'' @ (case dx_scheduledFor dto of Some t \<Rightarrow> '' scheduled for '' @ showDate t | None \<Rightarrow> '' on its way to you'')
      @ ''. Track it: '' @ trackingUrl trackBase token @ ''. Your delivery code is '' @ otp @ '' - share it with the driver on arrival.'')"

definition createDelivery :: "distanceMatrix \<Rightarrow> (leg \<Rightarrow> rat \<times> int) \<Rightarrow> (string \<Rightarrow> string) \<Rightarrow> string option \<Rightarrow> (instant \<Rightarrow> string)
    \<Rightarrow> nat \<Rightarrow> string \<Rightarrow> deliveryDto \<Rightarrow> string option \<Rightarrow> (delivery \<times> string) op" where
  "createDelivery matrix approximate hashToken trackBase showDate draw senderId dto caller =
     bind (billing senderId dto caller) (\<lambda>(businessId, meth, billedFromApp).
     andThen (case dx_scheduledFor dto of None \<Rightarrow> return () | Some t \<Rightarrow> assertSchedulable t)
     (bind (validateLocation (dx_pickupLat dto) (dx_pickupLng dto)) (\<lambda>foundArea.
      bind (orThrow foundArea (BadRequestException ''Pickup location is outside our service area'')) (\<lambda>area.
      let route = getRouteDistance matrix approximate (dx_pickupLat dto) (dx_pickupLng dto) (dx_stops dto) in
      bind (getActiveTariff (dx_vehicleType dto) (Some (sa_id area))
             (Some (tariffServiceType (orElse (dx_serviceType dto) DeliveryServiceType.PACKAGE)))) (\<lambda>tariff.
      let subtotal = calculateFare tariff (fst route) (snd route) in
      bind (if truthy (dx_promoCode dto) \<and> \<not> truthy businessId
            then bind (validatePromo (the (dx_promoCode dto)) PromoApplicableService.DELIVERY subtotal senderId) (\<lambda>v.
                 return (Some (vr_promoId v), vr_discountAmount v))
            else return (None, 0)) (\<lambda>(promoId, discount).
      bind (buildFareBreakdown subtotal discount) (\<lambda>fare.
      andThen (onlyIf billedFromApp (assertWithinCreditLimit (the businessId) (fb_total fare)))
      (bind freshId (\<lambda>token.
       bind freshId (\<lambda>i.
       bind (gets now) (\<lambda>t.
       let d = newDelivery i senderId businessId meth dto (sa_id area) route fare token (hashToken (generateOtp draw)) t in
       andThen (atomic
          (bind (gets (\<lambda>s. List.find (\<lambda>e. dv_trackingToken e = token) (deliveries s))) (\<lambda>clash.
           andThen (ensure (clash = None) UniqueViolation)
           (modify (\<lambda>s. s\<lparr>deliveries := deliveries s @ [d], deliveryStops := deliveryStops s @ stopRows i (dx_stops dto)\<rparr>)))))
       (andThen (case promoId of
          Some p \<Rightarrow> recordRedemption p senderId PromoApplicableService.DELIVERY i (fb_promoDiscount fare)
        | None \<Rightarrow> return ())
       (andThen (push (receiverSms trackBase showDate dto token (generateOtp draw)))
       (andThen (case dx_scheduledFor dto of
          Some st \<Rightarrow> enqueueScheduledDispatch i st
        | None \<Rightarrow> push (StartDeliveryDispatchLater i))
       (return (toParticipantView d, trackingUrl trackBase token))))))))))))))))"

definition releaseScheduledDelivery :: "geosearch \<Rightarrow> string \<Rightarrow> unit op" where
  "releaseScheduledDelivery geosearch deliveryId =
     bind (updateDeliveryMany (\<lambda>d. dv_id d = deliveryId \<and> dv_status d = DeliveryStatus.SCHEDULED)
             (\<lambda>d. d\<lparr>dv_status := DeliveryStatus.REQUESTED\<rparr>)) (\<lambda>released.
     if released = 0 then return () else startDeliveryDispatch geosearch deliveryId)"

section \<open>Editing and viewing\<close>

definition findDeliveryForParticipant :: "string \<Rightarrow> string \<Rightarrow> delivery op" where
  "findDeliveryForParticipant userId deliveryId =
     bind (findDelivery deliveryId) (\<lambda>found.
     bind (orThrow found (NotFoundException ''Delivery not found'')) (\<lambda>d.
     andThen (ensure (\<not> (dv_senderId d \<noteq> userId \<and> dv_driverId d \<noteq> Some userId))
                (ForbiddenException ''You are not a participant on this delivery''))
     (return d)))"

definition findDeliveryForSender :: "string \<Rightarrow> string \<Rightarrow> delivery op" where
  "findDeliveryForSender userId deliveryId =
     bind (findDelivery deliveryId) (\<lambda>found.
     bind (orThrow found (NotFoundException ''Delivery not found'')) (\<lambda>d.
     andThen (ensure (dv_senderId d = userId) (ForbiddenException ''Only the sender can edit this delivery''))
     (return d)))"

definition stopsOf :: "db \<Rightarrow> string \<Rightarrow> deliveryStop list" where
  "stopsOf s deliveryId = sort_key st_sequence (filter (\<lambda>p. st_deliveryId p = deliveryId) (deliveryStops s))"

definition buildTimeline :: "delivery \<Rightarrow> (string \<times> instant option) list" where
  "buildTimeline d = [(''REQUESTED'', Some (dv_requestedAt d)), (''ACCEPTED'', dv_acceptedAt d),
     (''ARRIVED_AT_PICKUP'', dv_arrivedAtPickupAt d), (''PICKED_UP'', dv_pickedUpAt d),
     (''ARRIVED_AT_DROPOFF'', dv_arrivedAtDropoffAt d), (''DELIVERED'', dv_podSubmittedAt d), (''COMPLETED'', dv_completedAt d)]"

definition livePosition :: "db \<Rightarrow> delivery \<Rightarrow> (rat \<times> rat) option" where
  "livePosition s d = (case dv_driverId d of None \<Rightarrow> None
     | Some i \<Rightarrow> if dv_status d \<in> set liveDeliveryStatuses then map_of (driversGeo s) i else None)"

text \<open>The tracking screen, without the driver card of another service.\<close>

record deliveryView =
  dw_delivery :: delivery
  dw_stops :: "deliveryStop list"
  dw_driverPosition :: "(rat \<times> rat) option"
  dw_timeline :: "(string \<times> instant option) list"

definition getDelivery :: "string \<Rightarrow> string \<Rightarrow> deliveryView op" where
  "getDelivery userId deliveryId =
     bind (findDeliveryForParticipant userId deliveryId) (\<lambda>d.
     gets (\<lambda>s. \<lparr>dw_delivery = toParticipantView d, dw_stops = stopsOf s deliveryId, dw_driverPosition = livePosition s d,
        dw_timeline = buildTimeline d\<rparr>))"

definition listDeliveries :: "string \<Rightarrow> bool \<Rightarrow> nat \<Rightarrow> nat \<Rightarrow> (delivery \<times> deliveryStop list) list op" where
  "listDeliveries userId asSender count skip = gets (\<lambda>s. map (\<lambda>d. (toParticipantView d, stopsOf s (dv_id d))) (take count (drop skip (rev
     (filter (\<lambda>d. if asSender then dv_senderId d = userId else dv_driverId d = Some userId) (deliveries s))))))"

definition editableStatuses :: "DeliveryStatus list" where
  "editableStatuses = [DeliveryStatus.SCHEDULED, DeliveryStatus.REQUESTED, DeliveryStatus.DISPATCHING]"

definition repriced :: "rat \<times> int \<Rightarrow> fareBreakdown \<Rightarrow> delivery \<Rightarrow> delivery" where
  "repriced route fare d = d\<lparr>dv_distanceKm := Some (scale2 (fst route)), dv_durationMinutes := Some (snd route),
     dv_subtotalFare := Some (scale2 (fb_subtotal fare)), dv_promoDiscount := Some (scale2 (fb_promoDiscount fare)),
     dv_taxAmount := Some (scale2 (fb_tax fare)), dv_estimatedFare := Some (scale2 (fb_total fare))\<rparr>"

definition updateStops :: "distanceMatrix \<Rightarrow> (leg \<Rightarrow> rat \<times> int) \<Rightarrow> string \<Rightarrow> string \<Rightarrow> stopInput list \<Rightarrow> deliveryView op" where
  "updateStops matrix approximate userId deliveryId stops =
     bind (findDeliveryForSender userId deliveryId) (\<lambda>d.
     andThen (ensure (dv_status d \<in> set editableStatuses)
        (BadRequestException ''Stops can only be edited before a driver has accepted the delivery''))
     (let route = getRouteDistance matrix approximate (dv_pickupLat d) (dv_pickupLng d) stops in
      bind (getActiveTariff (dv_vehicleType d) (dv_serviceAreaId d) (Some (tariffServiceType (dv_serviceType d)))) (\<lambda>tariff.
      let subtotal = calculateFare tariff (fst route) (snd route) in
      bind (buildFareBreakdown subtotal (orElse (dv_promoDiscount d) 0)) (\<lambda>fare.
      andThen (atomic
        (andThen (modify (\<lambda>s. s\<lparr>deliveryStops := filter (\<lambda>p. st_deliveryId p \<noteq> deliveryId) (deliveryStops s) @ stopRows deliveryId stops\<rparr>))
        (updateDelivery deliveryId (repriced route fare))))
      (getDelivery userId deliveryId)))))"

record proofView =
  pf_type :: ProofOfDeliveryType
  pf_submittedAt :: "instant option"
  pf_receiverName :: string
  pf_receiverOtpVerifiedAt :: "instant option"
  pf_fileUrl :: "string option"

definition getProofOfDelivery :: "(string \<Rightarrow> string) \<Rightarrow> string \<Rightarrow> string \<Rightarrow> proofView op" where
  "getProofOfDelivery signedUrl userId deliveryId =
     bind (findDeliveryForParticipant userId deliveryId) (\<lambda>d.
     bind (orThrow (dv_podType d) (NotFoundException ''No proof of delivery has been submitted yet'')) (\<lambda>type.
     return \<lparr>pf_type = type, pf_submittedAt = dv_podSubmittedAt d, pf_receiverName = dv_receiverName d,
       pf_receiverOtpVerifiedAt = dv_receiverOtpVerifiedAt d,
       pf_fileUrl = (if truthy (dv_podFileKey d) then map_option signedUrl (dv_podFileKey d) else None)\<rparr>))"

section \<open>Cancelling\<close>

definition cancellableDeliveryStatuses :: "DeliveryStatus list" where
  "cancellableDeliveryStatuses = [DeliveryStatus.SCHEDULED, DeliveryStatus.REQUESTED, DeliveryStatus.DISPATCHING,
     DeliveryStatus.NO_DRIVERS_FOUND, DeliveryStatus.ACCEPTED]"

text \<open>The fee of a sender who cancels a committed driver; no fee otherwise.\<close>

definition chargeDeliveryCancellation :: "string \<Rightarrow> delivery \<Rightarrow> rat op" where
  "chargeDeliveryCancellation userId d =
     (if dv_status d = DeliveryStatus.ACCEPTED \<and> userId = dv_senderId d \<and> truthy (dv_driverId d) then
        bind (getActiveTariff (dv_vehicleType d) (dv_serviceAreaId d) (Some (tariffServiceType (dv_serviceType d)))) (\<lambda>tariff.
        bind (getActiveCommissionRate ''DELIVERY'' (Some (dv_vehicleType d))) (\<lambda>rule.
        let commissionAmount = tf_cancellationFee tariff * cr_rate rule in
        andThen (payForDelivery (dv_senderId d) (the (dv_driverId d)) (tf_cancellationFee tariff) commissionAmount
                   (deliveryReference (dv_id d) @ '':cancellation'') None 0)
        (return (tf_cancellationFee tariff))))
      else return 0)"

definition cancelDelivery :: "string \<Rightarrow> string \<Rightarrow> string option \<Rightarrow> delivery op" where
  "cancelDelivery userId deliveryId reason =
     bind (findDeliveryForParticipant userId deliveryId) (\<lambda>d.
     andThen (ensure (dv_status d \<in> set cancellableDeliveryStatuses)
        (BadRequestException (''Cannot cancel a delivery in status '' @ deliveryStatusName (dv_status d))))
     (bind (chargeDeliveryCancellation userId d) (\<lambda>cancellationFee.
      andThen (onlyIf (dv_status d = DeliveryStatus.SCHEDULED)
        (modify (\<lambda>s. s\<lparr>scheduleJobs := filter (\<lambda>j. fst j \<noteq> deliveryId) (scheduleJobs s)\<rparr>)))
      (andThen (onlyIf (dv_status d = DeliveryStatus.DISPATCHING) (voidPendingOffers deliveryId))
      (andThen (onlyIf (truthy (dv_driverId d))
        (modify (\<lambda>s. s\<lparr>driverStatuses := updateWhere (\<lambda>x. Some (ds_userId x) = dv_driverId d) (\<lambda>x. x\<lparr>ds_availability := ONLINE\<rparr>) (driverStatuses s)\<rparr>)))
      (bind (gets now) (\<lambda>t.
       bind (updateDelivery deliveryId (\<lambda>d. d\<lparr>dv_status := DeliveryStatus.CANCELLED, dv_cancelledById := Some userId,
          dv_cancellationReason := keptOr reason (dv_cancellationReason d), dv_cancellationFee := Some (scale2 cancellationFee), dv_cancelledAt := Some t\<rparr>)) (\<lambda>cancelled.
       return (toParticipantView cancelled)))))))))"

section \<open>Public tracking\<close>

record trackView =
  tk_status :: DeliveryStatus
  tk_pickupAddress :: string
  tk_stops :: "(string \<times> DeliveryStopStatus) list"
  tk_driver :: "(string \<times> string) option"
  tk_driverPosition :: "(rat \<times> rat) option"
  tk_scheduledFor :: "instant option"
  tk_timeline :: "(string \<times> instant option) list"
  tk_requestedAt :: instant
  tk_completedAt :: "instant option"

definition findByTrackingToken :: "string \<Rightarrow> delivery op" where
  "findByTrackingToken token =
     bind (gets (\<lambda>s. List.find (\<lambda>d. dv_trackingToken d = token) (deliveries s))) (\<lambda>found.
     orThrow found (NotFoundException ''Tracking link not found''))"

definition trackDelivery :: "string \<Rightarrow> trackView op" where
  "trackDelivery token =
     bind (findByTrackingToken token) (\<lambda>d.
     gets (\<lambda>s. \<lparr>tk_status = dv_status d, tk_pickupAddress = dv_pickupAddress d,
        tk_stops = map (\<lambda>p. (st_address p, st_status p)) (stopsOf s (dv_id d)),
        tk_driver = map_option (\<lambda>u. (usr_firstName u, dv_vehicleType d)) (List.find (\<lambda>u. Some (usr_id u) = dv_driverId d) (users s)),
        tk_driverPosition = livePosition s d, tk_scheduledFor = dv_scheduledFor d, tk_timeline = buildTimeline d,
        tk_requestedAt = dv_requestedAt d, tk_completedAt = dv_completedAt d\<rparr>))"

definition verifyReceiverOtp :: "(string \<Rightarrow> string) \<Rightarrow> string \<Rightarrow> string \<Rightarrow> unit op" where
  "verifyReceiverOtp hashToken token code =
     bind (findByTrackingToken token) (\<lambda>d.
     andThen (ensure (truthy (dv_receiverOtpHash d)) (BadRequestException ''No verification code is pending for this delivery''))
     (andThen (ensure (dv_receiverOtpHash d = Some (hashToken code)) (BadRequestException ''Invalid code''))
     (bind (gets now) (\<lambda>t.
      bind (updateDelivery (dv_id d) (\<lambda>d. d\<lparr>dv_receiverOtpVerifiedAt := Some t\<rparr>)) (\<lambda>_. return ())))))"

end
