(* ===== verification/Paging.thy ===== *)
theory Paging
  imports Text
begin

text \<open>
  What the list endpoints share: the envelope of a page (src/common/utils/paginate.util.ts), \<open>take\<close> and
  \<open>skip\<close> with their defaults, the date filter (common/dto/date-range-query.dto.ts), the
  case-insensitive search, and the sums and counts of an aggregate.  Page numbers and sizes are integers as in the source: \<open>Math.floor\<close> and
  \<open>Math.ceil\<close> of an exact quotient are \<open>div\<close> and the negated \<open>div\<close> of the negation.
\<close>

record 'a paginated =
  pg_data :: "'a list"
  pg_total :: int
  pg_page :: int
  pg_pageSize :: int
  pg_totalPages :: int
  pg_hasNextPage :: bool

definition ceilDiv :: "int \<Rightarrow> int \<Rightarrow> int" where
  "ceilDiv a b = - ((- a) div b)"

definition toPaginated :: "'a list \<Rightarrow> int \<Rightarrow> int option \<Rightarrow> int option \<Rightarrow> 'a paginated" where
  "toPaginated rows count takeN skipN =
     (let pageSize = (case takeN of Some n \<Rightarrow> if 0 < n then n else 50 | None \<Rightarrow> 50);
          skip = (case skipN of Some n \<Rightarrow> if 0 < n then n else 0 | None \<Rightarrow> 0);
          page = skip div pageSize + 1;
          totalPages = max 1 (ceilDiv count pageSize) in
      \<lparr>pg_data = rows, pg_total = count, pg_page = page, pg_pageSize = pageSize, pg_totalPages = totalPages,
       pg_hasNextPage = (page < totalPages)\<rparr>)"

text \<open>One page of a list of rows, as \<open>findMany({ take, skip })\<close> and \<open>count\<close> give it.\<close>

definition pageOf :: "int option \<Rightarrow> int option \<Rightarrow> 'a list \<Rightarrow> 'a paginated" where
  "pageOf takeN skipN rows =
     toPaginated (take (nat (orElse takeN 50)) (drop (nat (orElse skipN 0)) rows)) (int (length rows)) takeN skipN"

section \<open>Filters and aggregates\<close>

text \<open>\<open>{ gte: from, lte: to }\<close>, each side only when given.\<close>

definition inRange :: "int option \<Rightarrow> int option \<Rightarrow> int \<Rightarrow> bool" where
  "inRange lo hi t \<longleftrightarrow> (case lo of None \<Rightarrow> True | Some a \<Rightarrow> a \<le> t) \<and> (case hi of None \<Rightarrow> True | Some b \<Rightarrow> t \<le> b)"

text \<open>\<open>{ contains: search, mode: insensitive }\<close> and \<open>{ startsWith: search }\<close>.\<close>

definition containsInsensitive :: "string \<Rightarrow> string \<Rightarrow> bool" where
  "containsInsensitive needle x = contains (toLowerCase needle) (toLowerCase x)"

definition startsWith :: "string \<Rightarrow> string \<Rightarrow> bool" where
  "startsWith p s \<longleftrightarrow> take (length p) s = p"

text \<open>\<open>_sum\<close> skips the rows whose column is null; \<open>groupBy\<close> counts give one line per value that occurs.\<close>

definition sumOf :: "('r \<Rightarrow> 'a::comm_monoid_add option) \<Rightarrow> 'r list \<Rightarrow> 'a" where
  "sumOf f rows = sum_list (List.map_filter f rows)"

definition groupCount :: "('r \<Rightarrow> 'k) \<Rightarrow> 'r list \<Rightarrow> ('k \<times> nat) list" where
  "groupCount key rows = map (\<lambda>k. (k, countWhere (\<lambda>r. key r = k) rows)) (remdups (map key rows))"

section \<open>Pages\<close>

lemma ceilDiv_nat: "0 < n \<Longrightarrow> ceilDiv (int m) (int n) = int ((m + n - 1) div n)"
proof -
  assume n: "0 < n"
  obtain q r where m: "m = q * n + r" "r < n" using mod_less_divisor [OF n] by (metis div_mult_mod_eq)
  show ?thesis
  proof (cases "r = 0")
    case True
    have "q * n + n - 1 = (n - 1) + q * n" using n by simp
    moreover have "((n - 1) + q * n) div n = q" using n by (subst div_mult_self1) simp_all
    ultimately have "(q * n + n - 1) div n = q" by simp
    moreover have "- int m div int n = - int q" using True m n unfolding True m by (metis add.right_neutral minus_mult_left nonzero_mult_div_cancel_right of_nat_0_less_iff of_nat_mult less_numeral_extra(3))
    ultimately show ?thesis using True m by (simp add: ceilDiv_def)
  next
    case False
    have "q * n + r + n - 1 = (r - 1) + Suc q * n" using False n by simp
    then have "(q * n + r + n - 1) div n = Suc q" using m(2) n by (simp add: div_mult_self1 del: mult_Suc)
    moreover have "(- int m) div int n = - int q - 1"
      using False m by (intro int_div_pos_eq [where r = "int n - int r"]) (auto simp: algebra_simps)
    ultimately show ?thesis using m by (simp add: ceilDiv_def)
  qed
qed

text \<open>Cutting a list into chunks and gluing the chunks gives the list back.\<close>

lemma concat_chunks: "0 < n \<Longrightarrow> length xs \<le> k * n \<Longrightarrow> concat (map (\<lambda>j. take n (drop (j * n) xs)) [0..<k]) = xs"
proof (induction k arbitrary: xs)
  case (Suc k)
  have "concat (map (\<lambda>j. take n (drop (j * n) (drop n xs))) [0..<k]) = drop n xs"
    using Suc.prems by (intro Suc.IH) auto
  moreover have "map (\<lambda>j. take n (drop (j * n) xs)) [0..<Suc k]
      = take n xs # map (\<lambda>j. take n (drop (j * n) (drop n xs))) [0..<k]"
    unfolding upt_conv_Cons [OF zero_less_Suc] map_Suc_upt [symmetric] by (simp add: add.commute)
  ultimately show ?case by simp
qed simp

lemma page_count: "0 < n \<Longrightarrow> length xs \<le> max 1 ((length xs + n - 1) div n) * n"
proof -
  assume n: "0 < n"
  have "length xs + n - 1 < n + (length xs + n - 1) div n * n" by (rule dividend_less_div_times [OF n])
  then have "length xs \<le> (length xs + n - 1) div n * n" using n by linarith
  then show ?thesis by (metis le_trans max.cobounded2 mult_le_mono1)
qed

end
