(* ===== verification/AdminLogistics.thy ===== *)
theory AdminLogistics
  imports Logistics Staff Paging
begin

text \<open>
  The back office of deliveries, src/logistics/admin-logistics.service.ts: the list with its search
  and counts, the manual assignment of a courier, the settlement of a
  dispute, and the link to a proof of delivery.  The short public identifier that the database
  generates for a row is the parameter \<open>publicId\<close>; the export is in BackOffice.
\<close>

definition ACTIVE_DELIVERY_STATUSES :: "DeliveryStatus list" where
  "ACTIVE_DELIVERY_STATUSES = [DeliveryStatus.DISPATCHING, DeliveryStatus.ACCEPTED, DeliveryStatus.PICKED_UP]"

section \<open>Lists\<close>

record deliveryQuery =
  dy_status :: "DeliveryStatus option"
  dy_search :: "string option"
  dy_from :: "instant option"
  dy_to :: "instant option"

definition userNamed :: "db \<Rightarrow> string \<Rightarrow> string \<Rightarrow> bool" where
  "userNamed s needle i = (case List.find (\<lambda>u. usr_id u = i) (users s) of None \<Rightarrow> False
     | Some u \<Rightarrow> containsInsensitive needle (usr_firstName u) \<or> containsInsensitive needle (usr_lastName u))"

definition deliveryWhere :: "(string \<Rightarrow> string) \<Rightarrow> db \<Rightarrow> deliveryQuery \<Rightarrow> delivery \<Rightarrow> bool" where
  "deliveryWhere publicId s q d \<longleftrightarrow>
     (dy_status q = None \<or> dy_status q = Some (dv_status d)) \<and> inRange (dy_from q) (dy_to q) (dv_requestedAt d)
     \<and> (let search = map_option trim (dy_search q); needle = the search in
        truthy search \<longrightarrow> startsWith needle (dv_id d) \<or> containsInsensitive needle (publicId (dv_id d))
          \<or> containsInsensitive needle (dv_packageDescription d) \<or> containsInsensitive needle (dv_receiverName d)
          \<or> userNamed s needle (dv_senderId d))"

record deliveryCounts =
  dn_total :: nat
  dn_active :: nat
  dn_completed :: nat
  dn_cancelled :: nat
  dn_noDriversFound :: nat
  dn_disputed :: nat

definition disputed :: "delivery \<Rightarrow> bool" where
  "disputed d \<longleftrightarrow> dv_disputeReason d \<noteq> None \<and> dv_disputeResolvedAt d = None"

definition deliverySummaryOf :: "delivery list \<Rightarrow> deliveryCounts" where
  "deliverySummaryOf ds = (let count = (\<lambda>st. countWhere (\<lambda>d. dv_status d = st) ds) in
     \<lparr>dn_total = length ds, dn_active = sum_list (map count ACTIVE_DELIVERY_STATUSES),
      dn_completed = count DeliveryStatus.COMPLETED, dn_cancelled = count DeliveryStatus.CANCELLED,
      dn_noDriversFound = count DeliveryStatus.NO_DRIVERS_FOUND, dn_disputed = countWhere disputed ds\<rparr>)"

definition deliverySummary :: "deliveryCounts op" where
  "deliverySummary = gets (\<lambda>s. deliverySummaryOf (deliveries s))"

record deliveryRow =
  dw_delivery :: delivery
  dw_stops :: "deliveryStop list"
  dw_sender :: "user option"
  dw_driver :: "user option"
  dw_business :: "business option"

definition userRow :: "db \<Rightarrow> string \<Rightarrow> user option" where
  "userRow s i = List.find (\<lambda>u. usr_id u = i) (users s)"

definition deliveryRowOf :: "db \<Rightarrow> delivery \<Rightarrow> deliveryRow" where
  "deliveryRowOf s d = \<lparr>dw_delivery = d,
     dw_stops = sort_key st_sequence (filter (\<lambda>p. st_deliveryId p = dv_id d) (deliveryStops s)),
     dw_sender = userRow s (dv_senderId d), dw_driver = Option.bind (dv_driverId d) (userRow s),
     dw_business = Option.bind (dv_businessId d) (\<lambda>b. List.find (\<lambda>z. bz_id z = b) (businesses s))\<rparr>"

definition adminListDeliveries :: "(string \<Rightarrow> string) \<Rightarrow> deliveryQuery \<Rightarrow> int option \<Rightarrow> int option \<Rightarrow> (deliveryRow paginated \<times> deliveryCounts) op" where
  "adminListDeliveries publicId q takeN skipN = gets (\<lambda>s.
     (pageOf (Some (orElse takeN 50)) (Some (orElse skipN 0)) (map (deliveryRowOf s) (rev (filter (deliveryWhere publicId s q) (deliveries s)))),
      deliverySummaryOf (deliveries s)))"

section \<open>Assignment and disputes\<close>

definition assignableStatuses :: "DeliveryStatus list" where
  "assignableStatuses = [DeliveryStatus.REQUESTED, DeliveryStatus.DISPATCHING, DeliveryStatus.NO_DRIVERS_FOUND]"

definition upsertOnTrip :: "string \<Rightarrow> unit op" where
  "upsertOnTrip driverId =
     bind (gets (\<lambda>s. List.find (\<lambda>d. ds_userId d = driverId) (driverStatuses s))) (\<lambda>found.
     if found = None
     then modify (\<lambda>s. s\<lparr>driverStatuses := driverStatuses s @ [\<lparr>ds_userId = driverId, ds_availability = ON_TRIP,
            ds_serviceMode = RIDES, ds_vehicleType = None, ds_unsettledCashRideCount = 0\<rparr>]\<rparr>)
     else setAvailability driverId ON_TRIP)"

definition assignDriver :: "string \<Rightarrow> string \<Rightarrow> delivery op" where
  "assignDriver deliveryId driverId =
     bind (findDelivery deliveryId) (\<lambda>found.
     bind (orThrow found (NotFoundException ''Delivery not found'')) (\<lambda>d.
     andThen (ensure (dv_status d \<in> set assignableStatuses)
        (BadRequestException (''Cannot manually assign a delivery in status '' @ deliveryStatusName (dv_status d))))
     (andThen (onlyIf (dv_status d = DeliveryStatus.DISPATCHING) (voidPendingOffers deliveryId))
     (andThen (upsertOnTrip driverId)
     (bind (gets now) (\<lambda>t.
      updateDelivery deliveryId (\<lambda>d. d\<lparr>dv_driverId := Some driverId, dv_status := DeliveryStatus.ACCEPTED, dv_acceptedAt := Some t\<rparr>)))))))"

definition resolveDispute :: "string \<Rightarrow> string \<Rightarrow> string \<Rightarrow> bool option \<Rightarrow> delivery op" where
  "resolveDispute deliveryId adminId resolution refunded =
     bind (findDelivery deliveryId) (\<lambda>found.
     bind (orThrow found (NotFoundException ''Delivery not found'')) (\<lambda>d.
     andThen (onlyIf (orElse refunded False)
       (andThen (ensure (truthy (dv_transactionId d)) (BadRequestException ''This delivery has no wallet transaction to refund''))
       (bind (refund (the (dv_transactionId d)) (''Dispute resolution: '' @ resolution)) (\<lambda>_. return ()))))
     (bind (gets now) (\<lambda>t.
      bind (updateDelivery deliveryId (\<lambda>e. e\<lparr>dv_disputeReason := Some (orElse (dv_disputeReason d) resolution),
         dv_disputeResolution := Some resolution, dv_disputeResolvedById := Some adminId, dv_disputeResolvedAt := Some t\<rparr>)) (\<lambda>updated.
      andThen (audit (Some adminId) ''delivery.dispute.resolve'' ''Delivery'' (Some deliveryId))
      (return updated))))))"

text \<open>\<open>sign\<close> is the signed link of the object store.\<close>

definition getSignedPodUrl :: "(string \<Rightarrow> error + string) \<Rightarrow> string \<Rightarrow> string op" where
  "getSignedPodUrl sign deliveryId =
     bind (findDelivery deliveryId) (\<lambda>found.
     bind (orThrow found (NotFoundException ''Delivery not found'')) (\<lambda>d.
     andThen (ensure (truthy (dv_podFileKey d)) (BadRequestException ''This delivery has no photo/signature proof of delivery on file''))
     (case sign (the (dv_podFileKey d)) of Inl e \<Rightarrow> throw e | Inr url \<Rightarrow> return url)))"

end
