(* ===== verification/Tables.thy ===== *)
theory Tables
  imports Schema
begin

text \<open>
  A table whose rows have a life: the locale \<open>row_table\<close> is the contract of a table of the database
  whose rows have unique random identifiers, are well formed (\<open>ok\<close>) and change only as a reflexive and
  transitive relation (\<open>adv\<close>) allows.  \<open>onward\<close> is the invariant of all operations on such a table:
  the table is sound and every row of the start is still there, advanced.
\<close>

definition tableOk :: "(db \<Rightarrow> 'r list) \<Rightarrow> ('r \<Rightarrow> string) \<Rightarrow> ('r \<Rightarrow> bool) \<Rightarrow> db \<Rightarrow> bool" where
  "tableOk rows key ok s \<longleftrightarrow> uuidsOk s \<and> distinct (map key (rows s)) \<and> key ` set (rows s) \<subseteq> usedIds s
     \<and> (\<forall>r \<in> set (rows s). ok r)"

definition advanced :: "(db \<Rightarrow> 'r list) \<Rightarrow> ('r \<Rightarrow> 'r \<Rightarrow> bool) \<Rightarrow> db \<Rightarrow> db \<Rightarrow> bool" where
  "advanced rows adv s t \<longleftrightarrow> (\<exists>old new. rows t = old @ new \<and> list_all2 adv (rows s) old)"

definition onward :: "(db \<Rightarrow> 'r list) \<Rightarrow> ('r \<Rightarrow> string) \<Rightarrow> ('r \<Rightarrow> 'r \<Rightarrow> bool) \<Rightarrow> ('r \<Rightarrow> bool) \<Rightarrow> db \<Rightarrow> db \<Rightarrow> bool" where
  "onward rows key adv ok s t \<longleftrightarrow> tableOk rows key ok t \<and> advanced rows adv s t"

text \<open>A table, or anything else read off the database, is as in \<open>s\<close> and no identifier is given back.\<close>

definition still :: "(db \<Rightarrow> 'x) \<Rightarrow> db \<Rightarrow> db \<Rightarrow> bool" where
  "still rows s t \<longleftrightarrow> rows t = rows s \<and> uuids t = uuids s \<and> uuidsUsed s \<le> uuidsUsed t"

lemma still_refl [simp, intro]: "still rows s s"
  by (simp add: still_def)

lemma still_trans: "still rows s t \<Longrightarrow> still rows t u \<Longrightarrow> still rows s u"
  by (simp add: still_def)

text \<open>An action that leaves the table alone.\<close>

definition leaves :: "(db \<Rightarrow> 'x) \<Rightarrow> 'a op \<Rightarrow> bool" where
  "leaves rows m \<longleftrightarrow> (\<forall>s. keeps (still rows s) m)"

lemma leavesI: "(\<And>s. keeps (still rows s) m) \<Longrightarrow> leaves rows m"
  by (simp add: leaves_def)

lemma leavesD: "leaves rows m \<Longrightarrow> keeps (still rows s) m"
  by (simp add: leaves_def)

lemma wp_leaves_then:
  assumes "leaves rows m" and "still rows s u"
    and "\<And>x t. still rows s t \<Longrightarrow> wp (f x) Q E t" and "\<And>e t. still rows s t \<Longrightarrow> E e t"
  shows "wp (bind m f) Q E u"
  unfolding wp_bind
  by (rule wp_conseq [OF keeps_wp [OF leavesD [OF assms(1)] assms(2)]]) (use assms(3,4) in blast)+

named_theorems leaves_intros \<open>parts that leave a table alone\<close>

lemma leaves_basic [leaves_intros]:
  "leaves rows (return x)" "leaves rows (throw e)" "leaves rows (gets f)" "leaves rows (ensure c e)" "leaves rows (orThrow y e')"
  by (simp_all add: leaves_def keeps_return keeps_throw keeps_gets keeps_ensure keeps_orThrow)

lemma leaves_bind [leaves_intros]: "leaves rows m \<Longrightarrow> (\<And>x. leaves rows (f x)) \<Longrightarrow> leaves rows (bind m f)"
  by (simp add: leaves_def keeps_bind)

lemma leaves_atomic [leaves_intros]: "leaves rows m \<Longrightarrow> leaves rows (atomic m)"
  by (simp add: leaves_def keeps_atomic)

lemma leaves_both [leaves_intros]: "leaves rows m \<Longrightarrow> leaves rows n \<Longrightarrow> leaves rows (both m n)"
  by (simp add: leaves_def keeps_both)

lemma leaves_tryCatch [leaves_intros]: "leaves rows m \<Longrightarrow> (\<And>e. leaves rows (h e)) \<Longrightarrow> leaves rows (tryCatch m h)"
  by (simp add: leaves_def keeps_tryCatch)

lemma leaves_onlyIf [leaves_intros]: "(c \<Longrightarrow> leaves rows m) \<Longrightarrow> leaves rows (onlyIf c m)"
  by (simp add: leaves_def keeps_onlyIf)

lemma leaves_cases [leaves_intros]:
  "(c \<Longrightarrow> leaves rows m) \<Longrightarrow> (\<not> c \<Longrightarrow> leaves rows n) \<Longrightarrow> leaves rows (if c then m else n)"
  "leaves rows m \<Longrightarrow> (\<And>y. leaves rows (g y)) \<Longrightarrow> leaves rows (case x of None \<Rightarrow> m | Some y \<Rightarrow> g y)"
  "(\<And>x y. leaves rows (k x y)) \<Longrightarrow> leaves rows (case p of (x, y) \<Rightarrow> k x y)"
  by (auto simp: leaves_def split: option.split prod.split)

lemma leaves_forEach [leaves_intros]: "(\<And>x. leaves rows (f x)) \<Longrightarrow> leaves rows (forEach xs f)"
  by (simp add: leaves_def keeps_forEach)

lemma leaves_modify:
  "(\<And>s. rows (f s) = rows s \<and> uuids (f s) = uuids s \<and> uuidsUsed (f s) = uuidsUsed s) \<Longrightarrow> leaves rows (modify f)"
  by (intro leavesI keeps_modify) (simp add: still_def)

text \<open>The random supply and the outbox are not part of any table.\<close>

definition apart :: "(db \<Rightarrow> 'x) \<Rightarrow> bool" where
  "apart rows \<longleftrightarrow> (\<forall>s n b. rows (s\<lparr>uuidsUsed := n\<rparr>) = rows s \<and> rows (s\<lparr>outbox := b\<rparr>) = rows s)"

lemma leaves_freshId: "apart rows \<Longrightarrow> leaves rows freshId"
  by (auto simp: leaves_def keeps_def freshId_def still_def apart_def)

lemma leaves_push: "apart rows \<Longrightarrow> leaves rows (push e)"
  unfolding push_def by (rule leaves_modify) (simp add: apart_def)

section \<open>The contract\<close>

locale row_table =
  fixes rows :: "db \<Rightarrow> 'r list" and put :: "('r list \<Rightarrow> 'r list) \<Rightarrow> db \<Rightarrow> db"
    and key :: "'r \<Rightarrow> string" and adv :: "'r \<Rightarrow> 'r \<Rightarrow> bool" and ok :: "'r \<Rightarrow> bool"
  assumes rows_put: "rows (put g s) = g (rows s)"
    and uuids_put: "uuids (put g s) = uuids s" "uuidsUsed (put g s) = uuidsUsed s"
    and adv_refl: "adv r r"
    and adv_trans: "adv r r' \<Longrightarrow> adv r' r'' \<Longrightarrow> adv r r''"
    and adv_key: "adv r r' \<Longrightarrow> key r' = key r"
begin

lemma onward_refl: "tableOk rows key ok s \<Longrightarrow> onward rows key adv ok s s"
  unfolding onward_def advanced_def
  by (intro conjI exI [of _ "rows s"] exI [of _ "[]"]) (simp_all add: list_all2_refl adv_refl)

lemma advanced_trans:
  assumes "advanced rows adv s t" and "advanced rows adv t u"
  shows "advanced rows adv s u"
proof -
  obtain old new where t: "rows t = old @ new" "list_all2 adv (rows s) old"
    using assms(1) by (auto simp: advanced_def)
  obtain a b c where u: "rows u = (a @ b) @ c" "list_all2 adv old a"
    using assms(2) t(1) by (auto simp: advanced_def list_all2_append1)
  have "list_all2 adv (rows s) a"
    using list_all2_trans [where ?P1.0 = adv and ?P2.0 = adv and ?P3.0 = adv, OF _ t(2) u(2)] adv_trans by blast
  then show ?thesis unfolding advanced_def by (intro exI [of _ a] exI [of _ "b @ c"]) (simp add: u)
qed

lemma onward_trans: "onward rows key adv ok s t \<Longrightarrow> onward rows key adv ok t u \<Longrightarrow> onward rows key adv ok s u"
  unfolding onward_def using advanced_trans by blast

lemma onward_still:
  assumes "onward rows key adv ok s t" and "still rows t u"
  shows "onward rows key adv ok s u"
proof -
  have "usedIds t \<subseteq> usedIds u" using assms(2) by (auto simp: usedIds_def still_def)
  then show ?thesis using assms by (auto simp: onward_def tableOk_def still_def uuidsOk_def advanced_def)
qed

lemma keeps_leaves: "leaves rows m \<Longrightarrow> keeps (onward rows key adv ok s) m"
  unfolding keeps_def by (meson keepsD leavesD onward_still still_refl)

text \<open>Rows updated as \<open>adv\<close> and \<open>ok\<close> allow.\<close>

lemma onward_update:
  assumes t: "onward rows key adv ok s t" and f: "\<And>r. r \<in> set (rows t) \<Longrightarrow> ok r \<Longrightarrow> P r \<Longrightarrow> adv r (f r) \<and> ok (f r)"
  shows "onward rows key adv ok s (put (\<lambda>_. updateWhere P f (rows t)) t)"
proof -
  let ?u = "put (\<lambda>_. updateWhere P f (rows t)) t"
  have oks: "\<And>r. r \<in> set (rows t) \<Longrightarrow> ok r" using t by (simp add: onward_def tableOk_def)
  have adv: "list_all2 adv (rows t) (updateWhere P f (rows t))"
    using f oks adv_refl by (auto simp: updateWhere_def list_all2_map2 intro!: list.rel_refl_strong)
  then have ids: "map key (updateWhere P f (rows t)) = map key (rows t)"
    by (induction rule: list_all2_induct) (simp_all add: adv_key)
  have "key ` set (rows ?u) = key ` set (rows t)" unfolding rows_put by (metis ids set_map)
  moreover have "\<forall>r \<in> set (rows ?u). ok r" using oks f unfolding rows_put set_updateWhere by auto
  moreover have "usedIds ?u = usedIds t" "uuidsOk ?u = uuidsOk t" by (simp_all add: usedIds_def uuidsOk_def uuids_put)
  ultimately have "tableOk rows key ok ?u" using t ids by (simp add: onward_def tableOk_def rows_put)
  moreover have "advanced rows adv t ?u" using adv unfolding advanced_def rows_put by (metis append_Nil2)
  ultimately show ?thesis using t advanced_trans by (auto simp: onward_def)
qed

lemma found_unique:
  assumes "onward rows key adv ok s t" and "List.find (\<lambda>r. key r = i) (rows t) = Some r" and "q \<in> set (rows t)" and "key q = i"
  shows "q = r"
  using assms by (metis find_key option.inject onward_def tableOk_def)

text \<open>Writing the row that was found in \<open>t\<close>, later, when the table is still as it was.\<close>

lemma onward_write_found:
  assumes t: "onward rows key adv ok s t" and found: "List.find (\<lambda>r. key r = i) (rows t) = Some r" and u: "still rows t u"
    and f: "ok r \<Longrightarrow> adv r (f r) \<and> ok (f r)"
  shows "onward rows key adv ok s (put (\<lambda>_. updateWhere (\<lambda>r. key r = i) f (rows u)) u)"
proof (rule onward_update [OF onward_still [OF t u]])
  fix q assume "q \<in> set (rows u)" and "ok q" and "key q = i"
  then have "q = r" using found_unique [OF t found] u by (simp add: still_def)
  then show "adv q (f q) \<and> ok (f q)" using f \<open>ok q\<close> by simp
qed

text \<open>A new row with the next identifier.\<close>

lemma onward_append:
  assumes t: "onward rows key adv ok s t" and r: "ok r" "key r = uuids t (uuidsUsed t)"
    and u: "rows u = rows t @ [r]" "uuids u = uuids t" "uuidsUsed u = Suc (uuidsUsed t)"
  shows "onward rows key adv ok s u"
proof -
  have new: "key r \<notin> usedIds t" "uuidsOk t" using t r(2) freshId_unused by (auto simp: onward_def tableOk_def)
  have used: "usedIds u = insert (key r) (usedIds t)" using u r(2) by (simp add: usedIds_def lessThan_Suc)
  have "key r \<notin> key ` set (rows t)" using t new(1) by (auto simp: onward_def tableOk_def)
  then have "tableOk rows key ok u"
    using t r(1) u(1,2) used new by (auto simp: onward_def tableOk_def uuidsOk_def)
  moreover have "advanced rows adv s u"
  proof -
    obtain old new where "rows t = old @ new" "list_all2 adv (rows s) old" using t by (auto simp: onward_def advanced_def)
    then show ?thesis unfolding advanced_def by (intro exI [of _ old] exI [of _ "new @ [r]"]) (simp add: u(1))
  qed
  ultimately show ?thesis by (simp add: onward_def)
qed

lemma onward_row:
  assumes "onward rows key adv ok s t" and "r \<in> set (rows s)"
  obtains r' where "r' \<in> set (rows t)" and "adv r r'" and "ok r'"
proof -
  obtain old new where o: "rows t = old @ new" "list_all2 adv (rows s) old" using assms(1) by (auto simp: onward_def advanced_def)
  obtain i where i: "i < length (rows s)" "rows s ! i = r" using assms(2) by (auto simp: in_set_conv_nth)
  then have "adv r (old ! i)" "old ! i \<in> set old" using o(2) by (auto simp: list_all2_conv_all_nth)
  then show thesis using that o(1) assms(1) by (auto simp: onward_def tableOk_def)
qed

end

end
