(* ===== verification/Frames.thy ===== *)
theory Frames
  imports Tables Ledger Promo Quote
begin

text \<open>
  What the wallet and the pricing services do not touch.  A view \<open>v\<close> of the database that does not
  depend on the ledger (\<open>offLedger\<close>) is left alone by every movement of money, one that does not
  depend on the caches (\<open>offCaches\<close>) by every price, area and setting read through them.
\<close>

definition offLedger :: "(db \<Rightarrow> 'x) \<Rightarrow> bool" where
  "offLedger v \<longleftrightarrow> apart v \<and> (\<forall>s x. v (s\<lparr>accounts := x\<rparr>) = v s) \<and> (\<forall>s x. v (s\<lparr>transactions := x\<rparr>) = v s)"

definition offCaches :: "(db \<Rightarrow> 'x) \<Rightarrow> bool" where
  "offCaches v \<longleftrightarrow> (\<forall>s x. v (s\<lparr>cachedTariffs := x\<rparr>) = v s) \<and> (\<forall>s x. v (s\<lparr>cachedCommissions := x\<rparr>) = v s)
     \<and> (\<forall>s x. v (s\<lparr>cachedAreas := x\<rparr>) = v s) \<and> (\<forall>s x. v (s\<lparr>cachedConfig := x\<rparr>) = v s)"

lemma leaves_applyEntries: "offLedger v \<Longrightarrow> leaves v (applyEntries es b)"
  by (induction es arbitrary: b)
     (auto simp: applyEntry_def findAccountOrThrow_def incrementBalance_def offLedger_def intro!: leaves_intros leaves_modify)

lemma leaves_ledger:
  assumes "offLedger v"
  shows "leaves v (postTransaction p)" "leaves v (getOrCreateUserAccount i ty)" "leaves v (getPlatformAccount ty)" "leaves v (postTransactionEntries p)"
  using assms unfolding postTransaction_def postTransactionEntries_def findTransactionByReference_def createTransaction_def
    getOrCreateUserAccount_def getPlatformAccount_def Let_def
  by (intro leaves_intros leaves_applyEntries leaves_modify leaves_freshId; simp add: offLedger_def)+

lemma leaves_payments:
  assumes "offLedger v"
  shows "leaves v (payForDelivery a b f c r md tax)" "leaves v (payForRide a b f c r md tax)"
    "leaves v (chargeBusinessForDelivery b x r md)" "leaves v (payInvoice b d f c r md tax)"
  unfolding payForDelivery_def payForRide_def chargeBusinessForDelivery_def payInvoice_def taxEntries_def Let_def
  by (intro leaves_intros leaves_ledger assms)+

lemma leaves_getConfig: "offCaches v \<Longrightarrow> leaves v (getConfig k d)"
  unfolding getConfig_def Let_def by (intro leaves_intros leaves_modify; simp add: offCaches_def)

lemma leaves_pricing:
  assumes "offCaches v"
  shows "leaves v (getActiveTariff w a st)" "leaves v (getActiveCommissionRate sv x)"
    "leaves v (buildFareBreakdown y z)" "leaves v (validateLocation lat lng)"
  unfolding getActiveTariff_def getActiveTariffs_def getActiveCommissionRate_def getActiveCommissionRules_def
    buildFareBreakdown_def getTaxRate_def validateLocation_def getActiveAreas_def
  using assms by (intro leaves_intros leaves_getConfig leaves_modify; simp add: offCaches_def)+

end
