(* ===== verification/DeliveryLife.thy ===== *)
theory DeliveryLife
  imports AdminLogistics RideLife Frames
begin

text \<open>
  The life of a delivery.  \<open>deliveryStep\<close> is its state machine, \<open>deliveryAdv\<close> what may happen to a row and
  \<open>deliveryOk\<close> what every row satisfies; the contract \<open>row_table\<close> of Tables is discharged for the
  deliveries (and for the rides), and every operation of the two services keeps it.
\<close>

section \<open>The state machine\<close>

inductive deliveryStep :: "DeliveryStatus \<Rightarrow> DeliveryStatus \<Rightarrow> bool" where
  release: "deliveryStep DeliveryStatus.SCHEDULED DeliveryStatus.REQUESTED"
| dispatched: "deliveryStep DeliveryStatus.REQUESTED DeliveryStatus.DISPATCHING"
| accepted: "deliveryStep DeliveryStatus.DISPATCHING DeliveryStatus.ACCEPTED"
| noCouriers: "st \<in> {DeliveryStatus.REQUESTED, DeliveryStatus.DISPATCHING} \<Longrightarrow> deliveryStep st DeliveryStatus.NO_DRIVERS_FOUND"
| pickup: "deliveryStep DeliveryStatus.ACCEPTED DeliveryStatus.PICKED_UP"
| delivered: "deliveryStep DeliveryStatus.PICKED_UP DeliveryStatus.COMPLETED"
| cancelled: "st \<in> set cancellableDeliveryStatuses \<Longrightarrow> deliveryStep st DeliveryStatus.CANCELLED"
| assigned: "st \<in> set assignableStatuses \<Longrightarrow> deliveryStep st DeliveryStatus.ACCEPTED"

inductive_cases deliveryStepE: "deliveryStep st st'"

lemmas delivery_moves = release dispatched accepted noCouriers pickup delivered cancelled assigned

lemma not_editable: "deliveryStep\<^sup>+\<^sup>+ st st' \<Longrightarrow> st \<notin> set editableStatuses \<Longrightarrow> st' \<notin> set editableStatuses"
proof (induction rule: tranclp_induct)
  case (base st') then show ?case by (auto simp: editableStatuses_def elim: deliveryStepE)
next
  case (step st' st'') then show ?case by (auto simp: editableStatuses_def elim: deliveryStepE)
qed

definition deliveryAdv :: "delivery \<Rightarrow> delivery \<Rightarrow> bool" where
  "deliveryAdv d d' \<longleftrightarrow> dv_id d' = dv_id d \<and> dv_senderId d' = dv_senderId d \<and> dv_businessId d' = dv_businessId d
     \<and> dv_paymentMethod d' = dv_paymentMethod d \<and> dv_receiverOtpHash d' = dv_receiverOtpHash d
     \<and> (dv_driverId d \<noteq> None \<longrightarrow> dv_driverId d' = dv_driverId d)
     \<and> (dv_podType d \<noteq> None \<longrightarrow> dv_podType d' \<noteq> None)
     \<and> (dv_status d \<notin> set editableStatuses \<longrightarrow> dv_estimatedFare d' = dv_estimatedFare d \<and> dv_taxAmount d' = dv_taxAmount d)
     \<and> (dv_status d = dv_status d' \<or> deliveryStep\<^sup>+\<^sup>+ (dv_status d) (dv_status d'))"

lemma deliveryAdv_trans:
  assumes "deliveryAdv d d'" and "deliveryAdv d' d''"
  shows "deliveryAdv d d''"
proof -
  have "dv_status d = dv_status d'' \<or> deliveryStep\<^sup>+\<^sup>+ (dv_status d) (dv_status d'')"
    using assms unfolding deliveryAdv_def by (elim conjE) (auto dest: tranclp_trans)
  moreover have "dv_status d \<notin> set editableStatuses \<longrightarrow> dv_status d' \<notin> set editableStatuses"
    using assms(1) not_editable unfolding deliveryAdv_def by auto
  ultimately show ?thesis using assms unfolding deliveryAdv_def by auto
qed

definition pricedAt :: "rat option \<Rightarrow> rat option \<Rightarrow> rat option \<Rightarrow> rat option \<Rightarrow> bool" where
  "pricedAt fare subtotal discount taxed \<longleftrightarrow> (\<exists>total sub disc tax. fare = Some total \<and> subtotal = Some sub \<and> discount = Some disc
     \<and> taxed = Some tax \<and> total = sub - disc + tax \<and> is_cents total \<and> is_cents tax)"

definition deliveryOk :: "delivery \<Rightarrow> bool" where
  "deliveryOk d \<longleftrightarrow>
     (dv_status d \<in> {DeliveryStatus.ACCEPTED, DeliveryStatus.PICKED_UP, DeliveryStatus.COMPLETED} \<longrightarrow> dv_driverId d \<noteq> None)
     \<and> (dv_status d \<in> {DeliveryStatus.SCHEDULED, DeliveryStatus.REQUESTED, DeliveryStatus.DISPATCHING, DeliveryStatus.NO_DRIVERS_FOUND}
          \<longrightarrow> dv_driverId d = None)
     \<and> (dv_status d \<in> {DeliveryStatus.PICKED_UP, DeliveryStatus.COMPLETED} \<longrightarrow> dv_pickedUpAt d \<noteq> None)
     \<and> (dv_podType d \<noteq> None \<longrightarrow> dv_status d \<in> {DeliveryStatus.PICKED_UP, DeliveryStatus.COMPLETED})
     \<and> (dv_status d = DeliveryStatus.COMPLETED \<longleftrightarrow> dv_completedAt d \<noteq> None)
     \<and> (dv_status d = DeliveryStatus.CANCELLED \<longleftrightarrow> dv_cancelledAt d \<noteq> None)
     \<and> (dv_status d = DeliveryStatus.COMPLETED \<longrightarrow> dv_podType d \<noteq> None \<and> dv_finalFare d = dv_estimatedFare d)
     \<and> pricedAt (dv_estimatedFare d) (dv_subtotalFare d) (dv_promoDiscount d) (dv_taxAmount d)"

abbreviation deliveryOnward :: "db \<Rightarrow> db \<Rightarrow> bool" where
  "deliveryOnward \<equiv> onward deliveries dv_id deliveryAdv deliveryOk"

lemma deliveryAdv_refl [simp]: "deliveryAdv d d"
  by (simp add: deliveryAdv_def)

lemma adv_ids: "deliveryAdv d d' \<Longrightarrow> dv_id d' = dv_id d" "advances r r' \<Longrightarrow> rd_id r' = rd_id r"
  by (simp_all add: deliveryAdv_def advances_def)

interpretation deliveryTable: row_table deliveries deliveries_update dv_id deliveryAdv deliveryOk
  by unfold_locales (auto dest: adv_ids intro: deliveryAdv_trans)

interpretation rideTable: row_table rides rides_update rd_id advances rideOk
  by unfold_locales (auto dest: adv_ids intro: advances_trans)

section \<open>Parts that leave the deliveries alone\<close>

lemma deliveries_apart [simp]: "apart deliveries"
  by (simp add: apart_def)

lemmas lv = leaves_intros leaves_freshId [OF deliveries_apart] leaves_push [OF deliveries_apart]

lemma deliveries_off [simp]: "offLedger deliveries" "offCaches deliveries"
  by (simp_all add: offLedger_def offCaches_def)

lemmas lv_other = leaves_ledger [OF deliveries_off(1)] leaves_payments [OF deliveries_off(1)]
  leaves_getConfig [OF deliveries_off(2)] leaves_pricing [OF deliveries_off(2)]

lemma lv_cash: "leaves deliveries (recordCashDeliveryCommission d x r md)"
  unfolding recordCashDeliveryCommission_def findTransactionByReference_def updateCashRideCount_def Let_def
  by (intro lv lv_other leaves_modify; simp)

lemma lv_promo: "leaves deliveries (validatePromo c svc x u)" "leaves deliveries (recordRedemption p u svc r x)"
  unfolding validatePromo_def recordRedemption_def by (intro lv leaves_modify; simp)+

lemma lv_createOffers: "leaves deliveries (createDeliveryOffers i t ds)"
  by (induction ds) (auto intro!: lv leaves_modify)

lemma lv_parts:
  "leaves deliveries (findDelivery i)" "leaves deliveries (updateDeliveryOffers P f)" "leaves deliveries (setAvailability d a)"
  "leaves deliveries (findNearbyCouriers g lat lng v n m x)" "leaves deliveries (getMaxUnsettledCashRides)"
  "leaves deliveries (voidPendingOffers i)" "leaves deliveries (acceptDeliveryChecks d i)" "leaves deliveries (acceptDeliveryLost p)"
  "leaves deliveries (acceptDeliveryWon d i p e)" "leaves deliveries (settleDelivery shown d e ff c tax)"
  "leaves deliveries (chargeDeliveryCancellation u e)" "leaves deliveries (completeStops i t)" "leaves deliveries (getDelivery u i)"
  "leaves deliveries (enqueueScheduledDispatch i t)" "leaves deliveries (assertSchedulable t)"
  "leaves deliveries (assertWithinCreditLimit b x)" "leaves deliveries (billing u dto bo)"
  unfolding findDelivery_def updateDeliveryOffers_def setAvailability_def findNearbyCouriers_def getMaxUnsettledCashRides_def
    voidPendingOffers_def acceptDeliveryChecks_def findDeliveryOffer_def acceptDeliveryLost_def acceptDeliveryWon_def
    settleDelivery_def createInvoice_def chargeDeliveryCancellation_def completeStops_def getDelivery_def
    findDeliveryForParticipant_def enqueueScheduledDispatch_def assertSchedulable_def assertWithinCreditLimit_def
    findBusinessOrThrow_def billing_def resolveSenderBusiness_def Let_def
  by (intro lv lv_other lv_cash lv_promo leaves_modify; simp)+

lemmas lv_all = lv lv_other lv_cash lv_promo lv_createOffers lv_parts

section \<open>Every operation keeps the deliveries moving forward\<close>

lemma keeps_wpI: "(\<And>t. I t \<Longrightarrow> wp m (\<lambda>_. I) (\<lambda>_. I) t) \<Longrightarrow> keeps I m"
  by (simp add: keeps_iff_wp)

lemma wp_keeps_then: "wp m (\<lambda>_. I) (\<lambda>_. I) t \<Longrightarrow> (\<And>x. keeps I (f x)) \<Longrightarrow> wp (bind m f) (\<lambda>_. I) (\<lambda>_. I) t"
  unfolding wp_bind by (erule wp_conseq) (simp_all add: keeps_iff_wp)

lemma keeps_apart: "leaves deliveries m \<Longrightarrow> keeps (deliveryOnward s0) m"
  by (rule deliveryTable.keeps_leaves)

lemmas delivery_keeps = keeps_return keeps_bind keeps_onlyIf keeps_if keeps_case_prod keeps_apart lv_all

lemma keeps_updateDeliveryMany:
  assumes "\<And>d. deliveryOk d \<Longrightarrow> P d \<Longrightarrow> deliveryAdv d (f d) \<and> deliveryOk (f d)"
  shows "keeps (deliveryOnward s0) (updateDeliveryMany P f)"
  unfolding updateDeliveryMany_def using deliveryTable.onward_update [of s0 _ P f] assms
  by (intro keeps_wpI) (simp add: wp_simps)

lemma keeps_updateDelivery:
  assumes "\<And>d. deliveryOk d \<Longrightarrow> deliveryAdv d (f d) \<and> deliveryOk (f d)"
  shows "keeps (deliveryOnward s0) (updateDelivery i f)"
  unfolding updateDelivery_def using deliveryTable.onward_update [of s0 _ "\<lambda>d. dv_id d = i" f] assms
  by (intro keeps_wpI) (simp add: wp_simps findDelivery_def split: option.split)

lemma wp_updateDelivery:
  assumes "deliveryOnward s0 t" and "List.find (\<lambda>d. dv_id d = i) (deliveries t) = Some d" and "still deliveries t u"
    and "deliveryOk d \<Longrightarrow> deliveryAdv d (f d) \<and> deliveryOk (f d)"
  shows "wp (updateDelivery i f) (\<lambda>_. deliveryOnward s0) (\<lambda>_. deliveryOnward s0) u"
  using deliveryTable.onward_write_found [of s0 t i d u f, OF assms] by (simp add: updateDelivery_def findDelivery_def wp_simps split: option.split)

lemma wp_atomic_keeps: "wp m (\<lambda>_. I) (\<lambda>_. I) t \<Longrightarrow> I t \<Longrightarrow> wp (atomic m) (\<lambda>_. I) (\<lambda>_. I) t"
  unfolding wp_atomic by (erule wp_conseq)

text \<open>A part that leaves the deliveries alone, followed by the rest; the rest knows what the part returned.\<close>

lemma wp_apart_then:
  assumes "leaves deliveries m" and t: "deliveryOnward s0 t" and u: "still deliveries t u"
    and "\<And>x v. still deliveries t v \<Longrightarrow> wp (f x) (\<lambda>_. deliveryOnward s0) (\<lambda>_. deliveryOnward s0) v"
  shows "wp (bind m f) (\<lambda>_. deliveryOnward s0) (\<lambda>_. deliveryOnward s0) u"
  by (rule wp_leaves_then [OF assms(1) u]) (use assms(4) deliveryTable.onward_still [OF t] in blast)+

lemma wp_apart_returns:
  assumes "leaves deliveries m" and "returns P m" and t: "deliveryOnward s0 t" and u: "still deliveries t u"
    and "\<And>x v. P x \<Longrightarrow> still deliveries t v \<Longrightarrow> wp (f x) (\<lambda>_. deliveryOnward s0) (\<lambda>_. deliveryOnward s0) v"
  shows "wp (bind m f) (\<lambda>_. deliveryOnward s0) (\<lambda>_. deliveryOnward s0) u"
  unfolding wp_bind
  by (rule wp_conseq [OF wp_conj [OF wp_returns [OF assms(2)] keeps_wp [OF leavesD [OF assms(1)] u]]])
     (use assms(5) deliveryTable.onward_still [OF t] in blast)+

lemma wp_findDelivery: "wp (f (List.find (\<lambda>d. dv_id d = i) (deliveries s))) Q E s \<Longrightarrow> wp (bind (findDelivery i) f) Q E s"
  by (simp add: findDelivery_def wp_simps)

lemma deliveryStep_plus: "deliveryStep st st' \<Longrightarrow> deliveryStep\<^sup>+\<^sup>+ st st'"
  by (rule tranclp.r_into_trancl)

lemma advance_to:
  assumes "deliveryStep (dv_status d) (dv_status d')" and "dv_id d' = dv_id d" "dv_senderId d' = dv_senderId d"
    "dv_businessId d' = dv_businessId d" "dv_paymentMethod d' = dv_paymentMethod d" "dv_receiverOtpHash d' = dv_receiverOtpHash d"
    "dv_driverId d \<noteq> None \<longrightarrow> dv_driverId d' = dv_driverId d" "dv_podType d' = dv_podType d"
    "dv_estimatedFare d' = dv_estimatedFare d" "dv_taxAmount d' = dv_taxAmount d"
  shows "deliveryAdv d d'"
  using assms deliveryStep_plus unfolding deliveryAdv_def by auto

subsection \<open>Dispatch\<close>

lemma ok_claim:
  "deliveryOk d \<Longrightarrow> dv_status d = DeliveryStatus.DISPATCHING \<Longrightarrow> dv_driverId d = None \<Longrightarrow>
   deliveryAdv d (d\<lparr>dv_status := DeliveryStatus.ACCEPTED, dv_driverId := Some i, dv_acceptedAt := Some t\<rparr>)
   \<and> deliveryOk (d\<lparr>dv_status := DeliveryStatus.ACCEPTED, dv_driverId := Some i, dv_acceptedAt := Some t\<rparr>)"
  by (intro conjI advance_to) (auto simp: deliveryOk_def intro: delivery_moves)

lemma ok_status:
  assumes "deliveryOk d" and "deliveryStep (dv_status d) st"
    and "st \<in> {DeliveryStatus.REQUESTED, DeliveryStatus.DISPATCHING, DeliveryStatus.NO_DRIVERS_FOUND}"
  shows "deliveryAdv d (d\<lparr>dv_status := st\<rparr>) \<and> deliveryOk (d\<lparr>dv_status := st\<rparr>)"
proof
  show "deliveryAdv d (d\<lparr>dv_status := st\<rparr>)" by (rule advance_to) (use assms(2) in simp_all)
  have "dv_status d \<in> {DeliveryStatus.SCHEDULED, DeliveryStatus.REQUESTED, DeliveryStatus.DISPATCHING}"
    using assms(2) by cases (use assms(3) in auto)
  then show "deliveryOk (d\<lparr>dv_status := st\<rparr>)"
    using assms(1,3) unfolding deliveryOk_def by (elim insertE emptyE; simp)
qed

lemma keeps_resolveNoCouriers: "keeps (deliveryOnward s0) (resolveNoCouriers i)"
  unfolding resolveNoCouriers_def
  by (intro delivery_keeps keeps_updateDeliveryMany ok_status) (auto intro: delivery_moves)

lemma keeps_claimDelivery: "keeps (deliveryOnward s0) (claimDelivery d i)"
  unfolding claimDelivery_def by (intro delivery_keeps keeps_updateDeliveryMany ok_claim) auto

lemma keeps_acceptDeliveryOffer: "keeps (deliveryOnward s0) (acceptDeliveryOffer d i)"
  unfolding acceptDeliveryOffer_def by (intro delivery_keeps keeps_claimDelivery)

lemma keeps_resolveIfAll: "keeps (deliveryOnward s0) (resolveNoCouriersIfAllResolved i)"
  unfolding resolveNoCouriersIfAllResolved_def
  by (intro keeps_case_option delivery_keeps keeps_resolveNoCouriers)

lemma keeps_declineDeliveryOffer: "keeps (deliveryOnward s0) (declineDeliveryOffer d i)"
  unfolding declineDeliveryOffer_def findDeliveryOffer_def by (intro delivery_keeps keeps_resolveIfAll)

lemma keeps_expireDeliveryRound: "keeps (deliveryOnward s0) (expireDeliveryRoundIfUnresolved i)"
  unfolding expireDeliveryRoundIfUnresolved_def
  by (intro keeps_case_option delivery_keeps keeps_resolveNoCouriers)

lemma keeps_startDeliveryDispatch: "keeps (deliveryOnward s0) (startDeliveryDispatch g i)"
  unfolding startDeliveryDispatch_def findDelivery_def
proof (intro keeps_wpI wp_read)
  fix t assume t: "deliveryOnward s0 t"
  have rest: "keeps (deliveryOnward s0) (bind getMaxUnsettledCashRides (\<lambda>m.
         bind (findNearbyCouriers g (dv_pickupLat d) (dv_pickupLng d) (dv_vehicleType d) MAX_CANDIDATES (dv_paymentMethod d) m) (\<lambda>cs.
         if cs = [] then resolveNoCouriers i else
         bind (gets (\<lambda>s. now s + DELIVERY_OFFER_TTL_MS)) (\<lambda>e.
         andThen (atomic (createDeliveryOffers i e cs))
         (andThen (forEach cs (\<lambda>c. push (EmitDeliveryOffer c i))) (push (ExpireDeliveryRoundAt e i)))))))" for d
    by (intro delivery_keeps keeps_resolveNoCouriers)
  show "wp (case List.find (\<lambda>d. dv_id d = i) (deliveries t) of None \<Rightarrow> return ()
     | Some d \<Rightarrow>
         if dv_status d \<noteq> DeliveryStatus.REQUESTED then return () else
         andThen (updateDelivery i (\<lambda>d. d\<lparr>dv_status := DeliveryStatus.DISPATCHING\<rparr>))
         (bind getMaxUnsettledCashRides (\<lambda>m.
         bind (findNearbyCouriers g (dv_pickupLat d) (dv_pickupLng d) (dv_vehicleType d) MAX_CANDIDATES (dv_paymentMethod d) m) (\<lambda>cs.
         if cs = [] then resolveNoCouriers i else
         bind (gets (\<lambda>s. now s + DELIVERY_OFFER_TTL_MS)) (\<lambda>e.
         andThen (atomic (createDeliveryOffers i e cs))
         (andThen (forEach cs (\<lambda>c. push (EmitDeliveryOffer c i))) (push (ExpireDeliveryRoundAt e i)))))))) 
       (\<lambda>_. deliveryOnward s0) (\<lambda>_. deliveryOnward s0) t"
  proof (cases "List.find (\<lambda>d. dv_id d = i) (deliveries t)")
    case (Some d)
    have "wp (updateDelivery i (\<lambda>d. d\<lparr>dv_status := DeliveryStatus.DISPATCHING\<rparr>)) (\<lambda>_. deliveryOnward s0) (\<lambda>_. deliveryOnward s0) t"
      if "dv_status d = DeliveryStatus.REQUESTED"
      by (rule wp_updateDelivery [OF t Some still_refl], rule ok_status) (use that in \<open>auto intro: delivery_moves\<close>)
    then show ?thesis unfolding Some option.case wp_if using t by (auto simp: wp_return intro: wp_keeps_then rest)
  qed (simp add: wp_return t)
qed

lemma keeps_releaseScheduledDelivery: "keeps (deliveryOnward s0) (releaseScheduledDelivery g i)"
  unfolding releaseScheduledDelivery_def
  by (intro delivery_keeps keeps_startDeliveryDispatch keeps_updateDeliveryMany ok_status) (auto intro: delivery_moves)

subsection \<open>The trip\<close>

lemma deliveryOk_times [simp]:
  "deliveryOk (d\<lparr>dv_arrivedAtPickupAt := t\<rparr>) = deliveryOk d" "deliveryOk (d\<lparr>dv_arrivedAtDropoffAt := t\<rparr>) = deliveryOk d"
  "deliveryOk (d\<lparr>dv_receiverOtpVerifiedAt := t\<rparr>) = deliveryOk d"
  by (simp_all add: deliveryOk_def)

lemma ok_milestone:
  "deliveryOk d \<Longrightarrow> deliveryAdv d (d\<lparr>dv_arrivedAtPickupAt := t\<rparr>) \<and> deliveryOk (d\<lparr>dv_arrivedAtPickupAt := t\<rparr>)"
  "deliveryOk d \<Longrightarrow> deliveryAdv d (d\<lparr>dv_arrivedAtDropoffAt := t\<rparr>) \<and> deliveryOk (d\<lparr>dv_arrivedAtDropoffAt := t\<rparr>)"
  "deliveryOk d \<Longrightarrow> deliveryAdv d (d\<lparr>dv_receiverOtpVerifiedAt := t\<rparr>) \<and> deliveryOk (d\<lparr>dv_receiverOtpVerifiedAt := t\<rparr>)"
  by (simp_all add: deliveryAdv_def)

lemma leaves_ownDelivery: "leaves deliveries (ownDelivery d i)"
  unfolding ownDelivery_def by (intro lv_all)

lemma keeps_milestones:
  "keeps (deliveryOnward s0) (markArrivedAtPickup d i)" "keeps (deliveryOnward s0) (markArrivedAtDropoff d i)"
  unfolding markArrivedAtPickup_def markArrivedAtDropoff_def recordMilestone_def
  by (intro delivery_keeps leaves_ownDelivery keeps_updateDelivery ok_milestone; assumption)+

lemma keeps_verifyReceiverOtp: "keeps (deliveryOnward s0) (verifyReceiverOtp h tok c)"
  unfolding verifyReceiverOtp_def findByTrackingToken_def
  by (intro delivery_keeps keeps_updateDelivery ok_milestone)

text \<open>The delivery an operation begins with.\<close>

lemma wp_ownDelivery:
  assumes "deliveryOnward s0 t" and "\<And>d. List.find (\<lambda>d. dv_id d = i) (deliveries t) = Some d \<Longrightarrow> dv_driverId d = Some who \<Longrightarrow>
     wp (f d) (\<lambda>_. deliveryOnward s0) (\<lambda>_. deliveryOnward s0) t"
  shows "wp (bind (ownDelivery who i) f) (\<lambda>_. deliveryOnward s0) (\<lambda>_. deliveryOnward s0) t"
  unfolding ownDelivery_def bind_assoc bind_return by (intro wp_findDelivery wp_present wp_guard assms)

lemma ok_pickup:
  assumes "deliveryOk d" and "dv_status d = DeliveryStatus.ACCEPTED"
  shows "deliveryAdv d (d\<lparr>dv_status := DeliveryStatus.PICKED_UP, dv_pickedUpAt := Some t\<rparr>)
    \<and> deliveryOk (d\<lparr>dv_status := DeliveryStatus.PICKED_UP, dv_pickedUpAt := Some t\<rparr>)"
  using assms by (intro conjI advance_to) (auto simp: deliveryOk_def intro: delivery_moves)

lemma keeps_confirmPickup: "keeps (deliveryOnward s0) (confirmPickup d i)"
  unfolding confirmPickup_def deliveryTransition_def
proof (intro keeps_wpI wp_read, rule wp_keeps_then)
  fix t assume t: "deliveryOnward s0 t"
  show "wp (bind (ownDelivery d i) (\<lambda>r. andThen (ensure (dv_status r = DeliveryStatus.ACCEPTED)
        (BadRequestException (''Cannot move to '' @ deliveryStatusName DeliveryStatus.PICKED_UP @ '' from status '' @ deliveryStatusName (dv_status r))))
      (updateDelivery i (\<lambda>r. r\<lparr>dv_status := DeliveryStatus.PICKED_UP, dv_pickedUpAt := Some (now t)\<rparr>))))
    (\<lambda>_. deliveryOnward s0) (\<lambda>_. deliveryOnward s0) t"
    by (intro wp_ownDelivery [OF t] wp_guard wp_updateDelivery [OF t _ still_refl] ok_pickup t)
qed (intro delivery_keeps)

lemma ok_pod:
  assumes "deliveryOk d" and "dv_status d = DeliveryStatus.PICKED_UP"
  shows "deliveryAdv d (d\<lparr>dv_podType := Some ty, dv_podSubmittedAt := t\<rparr>) \<and> deliveryOk (d\<lparr>dv_podType := Some ty, dv_podSubmittedAt := t\<rparr>)"
    "deliveryAdv d (d\<lparr>dv_podType := Some ty, dv_podFileKey := k, dv_podSubmittedAt := t\<rparr>)
       \<and> deliveryOk (d\<lparr>dv_podType := Some ty, dv_podFileKey := k, dv_podSubmittedAt := t\<rparr>)"
  using assms by (auto simp: deliveryOk_def deliveryAdv_def)

lemma keeps_submitProofOfDelivery: "keeps (deliveryOnward s0) (submitProofOfDelivery h up d i ty otp file)"
  unfolding submitProofOfDelivery_def
proof (intro keeps_wpI wp_ownDelivery wp_guard, goal_cases)
  case (1 t)
  then show ?case .
next
  case (2 t r)
  have upd: "wp (updateDelivery i (\<lambda>d. d\<lparr>dv_podType := Some ty, dv_podSubmittedAt := n\<rparr>)) (\<lambda>_. deliveryOnward s0) (\<lambda>_. deliveryOnward s0) t"
    "wp (updateDelivery i (\<lambda>d. d\<lparr>dv_podType := Some ty, dv_podFileKey := k, dv_podSubmittedAt := n\<rparr>)) (\<lambda>_. deliveryOnward s0) (\<lambda>_. deliveryOnward s0) t"
    for k n
    by (rule wp_updateDelivery [OF 2(1,2) still_refl], erule ok_pod [OF _ 2(4)])+
  show ?case
  proof (cases "ty = OTP")
    case True
    then show ?thesis unfolding if_P [OF True]
      by (intro wp_guard wp_read wp_keeps_then [OF upd(1)] delivery_keeps 2(1))
  next
    case False
    have "wp (andThen (case up k of Some e \<Rightarrow> throw e | None \<Rightarrow> return ())
        (bind (updateDelivery i (\<lambda>d. d\<lparr>dv_podType := Some ty, dv_podFileKey := Some k, dv_podSubmittedAt := Some n\<rparr>)) (\<lambda>x.
         andThen (push (EmitDeliveryStatus i ''DELIVERED'')) (return x))))
      (\<lambda>_. deliveryOnward s0) (\<lambda>_. deliveryOnward s0) t" for k n
      by (cases "up k") (auto simp: bind_return wp_bind [where m = "throw _"] wp_throw 2(1) intro!: wp_keeps_then [OF upd(2)] delivery_keeps)
    then show ?thesis unfolding if_not_P [OF False] Let_def by (intro wp_present wp_read 2(1))
  qed
qed simp_all

lemma ok_finish:
  assumes "deliveryOk d" and "dv_status d = DeliveryStatus.PICKED_UP" "dv_podType d \<noteq> None" "dv_estimatedFare d = Some fare"
  shows "deliveryAdv d (finishDelivery fare c t tid d) \<and> deliveryOk (finishDelivery fare c t tid d)"
proof -
  have "is_cents fare" using assms(1,4) by (auto simp: deliveryOk_def pricedAt_def)
  then have "scale2 fare = fare" by simp
  then show ?thesis using assms
    by (intro conjI advance_to) (auto simp: deliveryOk_def finishDelivery_def intro: delivery_moves)
qed

lemma keeps_completeDelivery: "keeps (deliveryOnward s0) (completeDelivery shown d i)"
  unfolding completeDelivery_def Let_def
proof (intro keeps_wpI wp_ownDelivery wp_guard, goal_cases)
  case (1 t)
  then show ?case .
next
  case (2 t r)
  note t = 2(1) and d = 2(2) and st = 2(4,5)
  show ?case
  proof (rule wp_apart_then [OF _ t still_refl], goal_cases)
    case (2 rule u)
    show ?case
    proof (rule wp_present, rule wp_apart_then [OF _ t 2], goal_cases)
      case 3
      show ?case by (rule deliveryTable.onward_still [OF t 2])
    next
      case (2 fare tid v)
      show ?case
      proof (rule wp_read, rule wp_keeps_then)
        show "wp (atomic (andThen (completeStops i (now v)) (updateDelivery i (finishDelivery fare
             (commissionOn fare (orElse (dv_taxAmount r) 0) (cr_rate rule)) (now v) tid))))
           (\<lambda>_. deliveryOnward s0) (\<lambda>_. deliveryOnward s0) v"
        proof (rule wp_atomic_keeps)
          show "deliveryOnward s0 v" using deliveryTable.onward_still [OF t 2(2)] .
          show "wp (andThen (completeStops i (now v)) (updateDelivery i (finishDelivery fare
               (commissionOn fare (orElse (dv_taxAmount r) 0) (cr_rate rule)) (now v) tid)))
             (\<lambda>_. deliveryOnward s0) (\<lambda>_. deliveryOnward s0) v"
            by (rule wp_apart_then [OF _ t 2(2)], intro lv_all, rule wp_updateDelivery [OF t d], assumption, erule ok_finish [OF _ st 2(1)])
        qed
      qed (intro delivery_keeps)
    qed (intro lv_all)
  qed (intro lv_all)
qed simp_all

subsection \<open>Booking, editing, cancelling\<close>

lemma ok_repriced:
  assumes "deliveryOk d" and "dv_status d \<in> set editableStatuses" and "goodBreakdown fare"
  shows "deliveryAdv d (repriced route fare d) \<and> deliveryOk (repriced route fare d)"
proof -
  have "is_cents (fb_total fare)" using assms(3) by (simp add: goodBreakdown_def is_cents_add is_cents_diff)
  then have "pricedAt (Some (scale2 (fb_total fare))) (Some (scale2 (fb_subtotal fare))) (Some (scale2 (fb_promoDiscount fare)))
      (Some (scale2 (fb_tax fare)))" using assms(3) by (simp add: goodBreakdown_def pricedAt_def)
  moreover have "dv_status d \<noteq> DeliveryStatus.COMPLETED" using assms(2) by (auto simp: editableStatuses_def)
  ultimately show ?thesis using assms(1,2) by (simp add: deliveryAdv_def deliveryOk_def repriced_def)
qed

lemma leaves_getDelivery: "leaves deliveries (getDelivery u i)"
  by (rule lv_parts)

lemma keeps_updateStops: "keeps (deliveryOnward s0) (updateStops matrix approximate u i stops)"
  unfolding updateStops_def findDeliveryForSender_def bind_assoc bind_return Let_def
proof (intro keeps_wpI wp_findDelivery wp_present wp_guard, goal_cases)
  case (1 t r)
  note t = 1(1) and d = 1(2) and st = 1(4)
  show ?case
  proof (rule wp_apart_then [OF _ t still_refl], goal_cases)
    case (2 tariff v)
    show ?case
    proof (rule wp_apart_returns [OF _ returns_buildFareBreakdown t 2], goal_cases)
      case (2 fare w)
      show ?case
      proof (rule wp_keeps_then)
        show "wp (atomic (andThen (modify (\<lambda>s. s\<lparr>deliveryStops := filter (\<lambda>p. st_deliveryId p \<noteq> i) (deliveryStops s) @ stopRows i stops\<rparr>))
            (updateDelivery i (repriced (getRouteDistance matrix approximate (dv_pickupLat r) (dv_pickupLng r) stops) fare))))
          (\<lambda>_. deliveryOnward s0) (\<lambda>_. deliveryOnward s0) w"
        proof (rule wp_atomic_keeps, rule wp_apart_then [OF _ t 2(2)])
          show "deliveryOnward s0 w" by (rule deliveryTable.onward_still [OF t 2(2)])
        next
          fix x v assume "still deliveries t v"
          then show "wp (updateDelivery i (repriced (getRouteDistance matrix approximate (dv_pickupLat r) (dv_pickupLng r) stops) fare))
              (\<lambda>_. deliveryOnward s0) (\<lambda>_. deliveryOnward s0) v"
            by (rule wp_updateDelivery [OF t d]) (erule ok_repriced [OF _ st 2(1)])
        qed (rule leaves_modify, simp)
      qed (intro delivery_keeps)
    qed (intro lv_all)
  qed (intro lv_all)
qed simp_all

lemma ok_cancelled:
  assumes "deliveryOk d" and "dv_status d \<in> set cancellableDeliveryStatuses"
  shows "deliveryAdv d (d\<lparr>dv_status := DeliveryStatus.CANCELLED, dv_cancelledById := u, dv_cancellationReason := x,
            dv_cancellationFee := f, dv_cancelledAt := Some t\<rparr>)
     \<and> deliveryOk (d\<lparr>dv_status := DeliveryStatus.CANCELLED, dv_cancelledById := u, dv_cancellationReason := x,
            dv_cancellationFee := f, dv_cancelledAt := Some t\<rparr>)"
proof
  show "deliveryAdv d (d\<lparr>dv_status := DeliveryStatus.CANCELLED, dv_cancelledById := u, dv_cancellationReason := x,
            dv_cancellationFee := f, dv_cancelledAt := Some t\<rparr>)"
    by (rule advance_to) (simp_all add: delivery_moves(7) assms(2))
  have "dv_status d \<notin> {DeliveryStatus.PICKED_UP, DeliveryStatus.COMPLETED}"
    using assms(2) by (auto simp: cancellableDeliveryStatuses_def)
  then show "deliveryOk (d\<lparr>dv_status := DeliveryStatus.CANCELLED, dv_cancelledById := u, dv_cancellationReason := x,
            dv_cancellationFee := f, dv_cancelledAt := Some t\<rparr>)"
    using assms(1) by (simp add: deliveryOk_def)
qed

lemma keeps_cancelDelivery: "keeps (deliveryOnward s0) (cancelDelivery u i reason)"
  unfolding cancelDelivery_def findDeliveryForParticipant_def bind_assoc bind_return
proof (intro keeps_wpI wp_findDelivery wp_present wp_guard, goal_cases)
  case (1 t r)
  note t = 1(1) and d = 1(2) and st = 1(4)
  have last: "wp (bind (gets now) (\<lambda>t.
       bind (updateDelivery i (\<lambda>d. d\<lparr>dv_status := DeliveryStatus.CANCELLED, dv_cancelledById := Some u,
          dv_cancellationReason := keptOr reason (dv_cancellationReason d), dv_cancellationFee := Some (scale2 fee), dv_cancelledAt := Some t\<rparr>)) (\<lambda>cancelled.
       return (toParticipantView cancelled)))) (\<lambda>_. deliveryOnward s0) (\<lambda>_. deliveryOnward s0) v"
    if "still deliveries t v" for fee v
    by (rule wp_read, rule wp_keeps_then, rule wp_updateDelivery [OF t d that], erule ok_cancelled [OF _ st], rule keeps_return)
  show ?case
    by (intro wp_apart_then [OF _ t] still_refl last lv_all leaves_modify; (assumption | simp))
qed simp_all

lemma ok_newDelivery:
  assumes "goodBreakdown fare"
  shows "deliveryOk (newDelivery i u b meth dto a route fare token h t)"
proof -
  have "is_cents (fb_total fare)" using assms by (simp add: goodBreakdown_def is_cents_add is_cents_diff)
  then show ?thesis using assms by (simp add: goodBreakdown_def deliveryOk_def pricedAt_def newDelivery_def)
qed

lemma wp_newDelivery:
  assumes t: "deliveryOnward s0 t" and fare: "goodBreakdown fare" and k: "\<And>i token t. keeps (deliveryOnward s0) (k token i t)"
  shows "wp (bind freshId (\<lambda>token. bind freshId (\<lambda>i. bind (gets now) (\<lambda>n.
      andThen (atomic (bind (gets (\<lambda>s. List.find (\<lambda>e. dv_trackingToken e = token) (deliveries s))) (\<lambda>clash.
           andThen (ensure (clash = None) UniqueViolation)
           (modify (\<lambda>s. s\<lparr>deliveries := deliveries s @ [newDelivery i u b meth dto a route fare token h n],
              deliveryStops := deliveryStops s @ stopRows i (dx_stops dto)\<rparr>)))))
      (k token i n))))) (\<lambda>_. deliveryOnward s0) (\<lambda>_. deliveryOnward s0) t"
proof -
  let ?t = "t\<lparr>uuidsUsed := Suc (uuidsUsed t)\<rparr>" and ?u = "t\<lparr>uuidsUsed := Suc (Suc (uuidsUsed t))\<rparr>"
  let ?token = "uuids t (uuidsUsed t)" and ?i = "uuids t (Suc (uuidsUsed t))"
  let ?d = "newDelivery ?i u b meth dto a route fare ?token h (now t)"
  let ?v = "?u\<lparr>deliveries := deliveries ?u @ [?d], deliveryStops := deliveryStops ?u @ stopRows ?i (dx_stops dto)\<rparr>"
  have t1: "deliveryOnward s0 ?t" by (rule deliveryTable.onward_still [OF t]) (simp add: still_def)
  have u1: "deliveryOnward s0 ?u" by (rule deliveryTable.onward_still [OF t]) (simp add: still_def)
  have "deliveryOnward s0 ?v"
    by (rule deliveryTable.onward_append [OF t1 ok_newDelivery [OF fare]]) (simp_all add: newDelivery_def)
  then show ?thesis using u1 keeps_wp [OF k [of ?token ?i "now t"]] by (simp add: wp_simps)
qed

text \<open>A part that leaves the deliveries alone is no concern of what follows it.\<close>

lemma keeps_bind_returns':
  assumes "leaves deliveries m" and "returns P m" and "\<And>x. P x \<Longrightarrow> keeps (deliveryOnward s0) (f x)"
  shows "keeps (deliveryOnward s0) (bind m f)"
  by (rule keeps_bind_returns [OF keeps_apart [OF assms(1)] assms(2,3)])

lemmas createDelivery_tail = keeps_wpI [OF wp_newDelivery]

lemma keeps_createDelivery: "keeps (deliveryOnward s0) (createDelivery matrix approximate h base showDate draw u dto caller)"
  unfolding createDelivery_def Let_def
  by (intro keeps_case_prod keeps_bind_returns' [OF _ returns_buildFareBreakdown] createDelivery_tail keeps_bind keeps_case_option keeps_return keeps_onlyIf
       keeps_if keeps_apart lv_all; assumption?)

subsection \<open>The back office\<close>

lemma leaves_admin:
  "leaves deliveries (upsertOnTrip c)" "leaves deliveries (audit a b e f)" "leaves deliveries (refund tx why)"
  unfolding upsertOnTrip_def audit_def refund_def
  by (intro lv_all leaves_modify; simp)+

lemma ok_assigned:
  assumes "deliveryOk d" and "dv_status d \<in> set assignableStatuses"
  shows "deliveryAdv d (d\<lparr>dv_driverId := Some c, dv_status := DeliveryStatus.ACCEPTED, dv_acceptedAt := Some t\<rparr>)
     \<and> deliveryOk (d\<lparr>dv_driverId := Some c, dv_status := DeliveryStatus.ACCEPTED, dv_acceptedAt := Some t\<rparr>)"
proof
  have other: "dv_status d \<notin> {DeliveryStatus.PICKED_UP, DeliveryStatus.COMPLETED, DeliveryStatus.CANCELLED}"
    using assms(2) by (auto simp: assignableStatuses_def)
  have pod: "dv_podType d = None" using assms(1) other unfolding deliveryOk_def by blast
  have free: "dv_driverId d = None" using assms by (auto simp: deliveryOk_def assignableStatuses_def)
  then show "deliveryAdv d (d\<lparr>dv_driverId := Some c, dv_status := DeliveryStatus.ACCEPTED, dv_acceptedAt := Some t\<rparr>)"
    by (intro advance_to) (simp_all add: delivery_moves(8) assms(2))
  show "deliveryOk (d\<lparr>dv_driverId := Some c, dv_status := DeliveryStatus.ACCEPTED, dv_acceptedAt := Some t\<rparr>)"
    using assms(1) other pod by (simp add: deliveryOk_def)
qed

lemma keeps_assignDriver: "keeps (deliveryOnward s0) (assignDriver i c)"
  unfolding assignDriver_def
proof (intro keeps_wpI wp_findDelivery wp_present wp_guard, goal_cases)
  case (1 t r)
  note t = 1(1) and d = 1(2) and st = 1(3)
  show ?case
    by (intro wp_apart_then [OF _ t] still_refl lv_all leaves_admin wp_updateDelivery [OF t d]; (assumption | (erule ok_assigned [OF _ st])))
qed simp_all

lemma ok_disputed:
  assumes "deliveryOk d"
  shows "deliveryAdv d (d\<lparr>dv_disputeReason := a, dv_disputeResolution := b, dv_disputeResolvedById := c, dv_disputeResolvedAt := e\<rparr>)
     \<and> deliveryOk (d\<lparr>dv_disputeReason := a, dv_disputeResolution := b, dv_disputeResolvedById := c, dv_disputeResolvedAt := e\<rparr>)"
proof
  show "deliveryAdv d (d\<lparr>dv_disputeReason := a, dv_disputeResolution := b, dv_disputeResolvedById := c, dv_disputeResolvedAt := e\<rparr>)"
    by (simp add: deliveryAdv_def)
  have "deliveryOk (d\<lparr>dv_disputeReason := a, dv_disputeResolution := b, dv_disputeResolvedById := c, dv_disputeResolvedAt := e\<rparr>) = deliveryOk d"
    by (simp add: deliveryOk_def)
  with assms show "deliveryOk (d\<lparr>dv_disputeReason := a, dv_disputeResolution := b, dv_disputeResolvedById := c, dv_disputeResolvedAt := e\<rparr>)"
    by simp
qed

lemma keeps_resolveDispute: "keeps (deliveryOnward s0) (resolveDispute i a x refunded)"
  unfolding resolveDispute_def
proof (intro keeps_wpI wp_findDelivery wp_present, goal_cases)
  case (1 t r)
  note t = 1(1) and d = 1(2)
  show ?case
    by (intro wp_apart_then [OF _ t] still_refl lv_all leaves_admin wp_keeps_then wp_updateDelivery [OF t d] keeps_bind keeps_return
       keeps_apart leaves_admin; (assumption | (erule ok_disputed)))
qed simp_all

section \<open>Every sequence of operations\<close>

record courierWorld =
  cw_geosearch :: geosearch
  cw_matrix :: distanceMatrix
  cw_approximate :: "leg \<Rightarrow> rat \<times> int"
  cw_hash :: "string \<Rightarrow> string"
  cw_upload :: "string \<Rightarrow> error option"
  cw_shown :: "rat \<Rightarrow> string"
  cw_trackBase :: "string option"
  cw_showDate :: "instant \<Rightarrow> string"

datatype deliveryEvent =
    Order nat string deliveryDto "string option"
  | Release string
  | SendOffers string
  | RoundOver string
  | TakeOffer string string
  | RefuseOffer string string
  | AtPickup string string
  | PickUp string string
  | AtDropoff string string
  | Prove string string ProofOfDeliveryType "string option" "string option"
  | Finish string string
  | CallOff string string "string option"
  | Reroute string string "stopInput list"
  | ReceiverCode string string
  | AssignCourier string string
  | SettleDispute string string string "bool option"
  | Elapse nat

fun runDeliveryEvent :: "courierWorld \<Rightarrow> deliveryEvent \<Rightarrow> unit op" where
  "runDeliveryEvent w (Order draw u dto b) = bind (createDelivery (cw_matrix w) (cw_approximate w) (cw_hash w) (cw_trackBase w)
     (cw_showDate w) draw u dto b) (\<lambda>_. return ())"
| "runDeliveryEvent w (Release i) = releaseScheduledDelivery (cw_geosearch w) i"
| "runDeliveryEvent w (SendOffers i) = startDeliveryDispatch (cw_geosearch w) i"
| "runDeliveryEvent w (RoundOver i) = expireDeliveryRoundIfUnresolved i"
| "runDeliveryEvent w (TakeOffer d i) = bind (acceptDeliveryOffer d i) (\<lambda>_. return ())"
| "runDeliveryEvent w (RefuseOffer d i) = bind (declineDeliveryOffer d i) (\<lambda>_. return ())"
| "runDeliveryEvent w (AtPickup d i) = bind (markArrivedAtPickup d i) (\<lambda>_. return ())"
| "runDeliveryEvent w (PickUp d i) = bind (confirmPickup d i) (\<lambda>_. return ())"
| "runDeliveryEvent w (AtDropoff d i) = bind (markArrivedAtDropoff d i) (\<lambda>_. return ())"
| "runDeliveryEvent w (Prove d i ty otp file) = bind (submitProofOfDelivery (cw_hash w) (cw_upload w) d i ty otp file) (\<lambda>_. return ())"
| "runDeliveryEvent w (Finish d i) = bind (completeDelivery (cw_shown w) d i) (\<lambda>_. return ())"
| "runDeliveryEvent w (CallOff u i reason) = bind (cancelDelivery u i reason) (\<lambda>_. return ())"
| "runDeliveryEvent w (Reroute u i stops) = bind (updateStops (cw_matrix w) (cw_approximate w) u i stops) (\<lambda>_. return ())"
| "runDeliveryEvent w (ReceiverCode tok c) = verifyReceiverOtp (cw_hash w) tok c"
| "runDeliveryEvent w (AssignCourier i c) = bind (assignDriver i c) (\<lambda>_. return ())"
| "runDeliveryEvent w (SettleDispute i a x refunded) = bind (resolveDispute i a x refunded) (\<lambda>_. return ())"
| "runDeliveryEvent w (Elapse n) = modify (\<lambda>s. s\<lparr>now := now s + int n\<rparr>)"

lemma keeps_runDeliveryEvent: "keeps (deliveryOnward s0) (runDeliveryEvent w e)"
  by (cases e)
     (auto intro!: keeps_bind [OF _ keeps_return] keeps_createDelivery keeps_releaseScheduledDelivery keeps_startDeliveryDispatch
        keeps_expireDeliveryRound keeps_acceptDeliveryOffer keeps_declineDeliveryOffer keeps_milestones keeps_confirmPickup
        keeps_submitProofOfDelivery keeps_completeDelivery keeps_cancelDelivery keeps_updateStops keeps_verifyReceiverOtp keeps_assignDriver keeps_resolveDispute
        keeps_apart [OF leaves_modify])

text \<open>Any interleaving of whole operations, from a database with no deliveries yet.\<close>

fun runDeliveryEvents :: "courierWorld \<Rightarrow> deliveryEvent list \<Rightarrow> db \<Rightarrow> db" where
  "runDeliveryEvents w [] s = s"
| "runDeliveryEvents w (e # es) s = runDeliveryEvents w es (snd (runDeliveryEvent w e s))"

lemma deliveries_onward: "deliveryOnward s0 s \<Longrightarrow> deliveryOnward s0 (runDeliveryEvents w es s)"
  by (induction es arbitrary: s) (simp_all add: keepsD [OF keeps_runDeliveryEvent])

end
