(* ===== verification/DeliveryProps.thy ===== *)
theory DeliveryProps
  imports DeliveryLife RaceProps
begin

text \<open>
  The properties of deliveries: the invariant and the state machine over every interleaving of
  operations, the competition of couriers, what completing a business delivery books, what a
  cancellation costs, the distance of a route, and who can learn what about a delivery.
\<close>

section \<open>A small world\<close>

definition courierNoMaps :: courierWorld where
  "courierNoMaps = \<lparr>cw_geosearch = (\<lambda>ps lat lng n. take n (map (\<lambda>(d, _). (d, 1)) ps)), cw_matrix = None,
     cw_approximate = (\<lambda>_. (3, 8)), cw_hash = rev, cw_upload = (\<lambda>_. None), cw_shown = (\<lambda>_. ''0''),
     cw_trackBase = None, cw_showDate = (\<lambda>_. ''soon'')\<rparr>"

definition parcelDb :: db where
  "parcelDb = cityDb\<lparr>tariffs := [carTariff\<lparr>tf_serviceType := Some TariffServiceType.PACKAGE\<rparr>],
     commissionRules := [\<lparr>cr_id = ''c1'', cr_serviceType = ''DELIVERY'', cr_vehicleType = None, cr_rate = 20 / 100, cr_isActive = True\<rparr>],
     driverStatuses := [(driverRow ''d1'')\<lparr>ds_serviceMode := LOGISTICS\<rparr>, (driverRow ''d2'')\<lparr>ds_serviceMode := LOGISTICS\<rparr>]\<rparr>"

definition parcelDto :: deliveryDto where
  "parcelDto = \<lparr>dx_pickupLat = 13 / 2, dx_pickupLng = 7 / 2, dx_pickupAddress = ''A'', dx_serviceType = None,
     dx_packageDescription = ''shoes'', dx_packageValue = None, dx_weightKg = None, dx_packageSize = None, dx_isFragile = None,
     dx_deliveryNotes = None, dx_receiverName = ''Bola'', dx_receiverPhone = ''0800'', dx_vehicleType = ''CAR'',
     dx_paymentMethod = None, dx_stops = [\<lparr>sp_lat = 13 / 2, sp_lng = 18 / 5, sp_address = ''B''\<rparr>], dx_promoCode = None, dx_scheduledFor = None\<rparr>"

definition orderedDb :: db where
  "orderedDb = runDeliveryEvents courierNoMaps [Order 42 ''rider'' parcelDto None] parcelDb"

definition orderedDelivery :: delivery where
  "orderedDelivery = newDelivery ''uuuuuu'' ''rider'' None WALLET parcelDto ''lekki'' (3, 8)
     (fareBreakdownAt (75 / 1000) 1100 0) ''uuuuu'' (rev (generateOtp 42)) 0"

lemma orderedDelivery_simps [simp]:
  "dv_id orderedDelivery = ''uuuuuu''" "dv_senderId orderedDelivery = ''rider''" "dv_driverId orderedDelivery = None"
  "dv_status orderedDelivery = DeliveryStatus.REQUESTED" "dv_podType orderedDelivery = None"
  by (simp_all add: orderedDelivery_def newDelivery_def parcelDto_def)

lemmas order_defs = createDelivery_def billing_def getRouteDistance_def orElse_def tariffServiceType.simps
  courierNoMaps_def parcelDb_def

lemma ordered: "deliveries orderedDb = [orderedDelivery]"
  by (simp add: orderedDb_def run_simps order_defs booking_defs city_defs parcelDto_def orderedDelivery_def cong: run_cong)

section \<open>The invariant and the state machine\<close>

lemma parcelDb_empty: "uuidsOk parcelDb" "deliveries parcelDb = []"
  using uuidsOk_emptyDb by (simp_all add: uuidsOk_def parcelDb_def cityDb_def pricedDb_def emptyDb_def)

lemma sound_start: "uuidsOk s \<Longrightarrow> deliveries s = [] \<Longrightarrow> deliveryOnward s (runDeliveryEvents w es s)"
  by (rule deliveries_onward [OF deliveryTable.onward_refl]) (simp add: tableOk_def)

lemma sound_rows: "uuidsOk s \<Longrightarrow> deliveries s = [] \<Longrightarrow> tableOk deliveries dv_id deliveryOk (runDeliveryEvents w es s)"
  using sound_start by (simp add: onward_def)

text \<open>C10: after any interleaving of whole operations that starts without deliveries, a delivery that is
  accepted, picked up or completed has a courier and an earlier one has none; a completed one was
  picked up, has a proof of delivery and cost what it was priced at; completion and cancellation times
  are there exactly when the status says so; no proof exists before the pickup; and the price is fare
  minus discount plus tax.\<close>

theorem deliveries_consistent:
  assumes "uuidsOk s" and "deliveries s = []" and "d \<in> set (deliveries (runDeliveryEvents w es s))"
  shows "(dv_status d \<in> {DeliveryStatus.ACCEPTED, DeliveryStatus.PICKED_UP, DeliveryStatus.COMPLETED} \<longrightarrow> dv_driverId d \<noteq> None)
    \<and> (dv_status d \<in> {DeliveryStatus.SCHEDULED, DeliveryStatus.REQUESTED, DeliveryStatus.DISPATCHING, DeliveryStatus.NO_DRIVERS_FOUND}
          \<longrightarrow> dv_driverId d = None)
    \<and> (dv_status d = DeliveryStatus.COMPLETED \<longrightarrow> dv_pickedUpAt d \<noteq> None \<and> dv_podType d \<noteq> None \<and> dv_finalFare d = dv_estimatedFare d)
    \<and> (dv_podType d \<noteq> None \<longrightarrow> dv_status d \<in> {DeliveryStatus.PICKED_UP, DeliveryStatus.COMPLETED})
    \<and> (dv_status d = DeliveryStatus.COMPLETED \<longleftrightarrow> dv_completedAt d \<noteq> None)
    \<and> (dv_status d = DeliveryStatus.CANCELLED \<longleftrightarrow> dv_cancelledAt d \<noteq> None)
    \<and> (\<exists>total sub disc tax. dv_estimatedFare d = Some total \<and> dv_subtotalFare d = Some sub
          \<and> dv_promoDiscount d = Some disc \<and> dv_taxAmount d = Some tax \<and> total = sub - disc + tax \<and> is_cents total)"
proof -
  have ok: "deliveryOk d" using sound_rows [OF assms(1,2)] assms(3) by (simp add: tableOk_def)
  then have "pricedAt (dv_estimatedFare d) (dv_subtotalFare d) (dv_promoDiscount d) (dv_taxAmount d)" by (simp add: deliveryOk_def)
  then have "\<exists>total sub disc tax. dv_estimatedFare d = Some total \<and> dv_subtotalFare d = Some sub
          \<and> dv_promoDiscount d = Some disc \<and> dv_taxAmount d = Some tax \<and> total = sub - disc + tax \<and> is_cents total"
    unfolding pricedAt_def by blast
  then show ?thesis using ok unfolding deliveryOk_def by (elim conjE, intro conjI) (assumption | simp)+
qed

lemma deliveries_consistent_witness:
  "dv_driverId orderedDelivery = None \<and> (\<exists>total. dv_estimatedFare orderedDelivery = Some total \<and> is_cents total)"
  using deliveries_consistent [OF parcelDb_empty, of orderedDelivery courierNoMaps "[Order 42 ''rider'' parcelDto None]"]
    ordered [unfolded orderedDb_def] by auto

text \<open>C9: whatever operations follow, and in whatever order, every delivery stays in the table and moves only
  along the state machine; its sender, payer and payment method never change, its courier never once
  assigned, a proof of delivery is never withdrawn, and its price is fixed once a courier has accepted
  (only a delivery still being matched can be re-priced by a change of stops).\<close>

theorem deliveries_follow_state_machine:
  assumes "uuidsOk s" and "deliveries s = []" and "d \<in> set (deliveries (runDeliveryEvents w es s))"
  shows "\<exists>d' \<in> set (deliveries (runDeliveryEvents w es' (runDeliveryEvents w es s))). dv_id d' = dv_id d
    \<and> (dv_status d' = dv_status d \<or> deliveryStep\<^sup>+\<^sup>+ (dv_status d) (dv_status d'))
    \<and> dv_senderId d' = dv_senderId d \<and> dv_businessId d' = dv_businessId d \<and> dv_paymentMethod d' = dv_paymentMethod d
    \<and> (dv_driverId d \<noteq> None \<longrightarrow> dv_driverId d' = dv_driverId d)
    \<and> (dv_podType d \<noteq> None \<longrightarrow> dv_podType d' \<noteq> None)
    \<and> (dv_status d \<notin> set editableStatuses \<longrightarrow> dv_estimatedFare d' = dv_estimatedFare d)"
proof -
  let ?s = "runDeliveryEvents w es s"
  have "deliveryOnward ?s (runDeliveryEvents w es' ?s)"
    by (rule deliveries_onward [OF deliveryTable.onward_refl [OF sound_rows [OF assms(1,2)]]])
  then obtain d' where "d' \<in> set (deliveries (runDeliveryEvents w es' ?s))" "deliveryAdv d d'"
    by (rule deliveryTable.onward_row [OF _ assms(3)])
  then show ?thesis unfolding deliveryAdv_def by (intro bexI [of _ d']) (elim conjE, intro conjI, simp_all, metis)
qed

lemma deliveries_follow_state_machine_witness:
  "\<exists>d' \<in> set (deliveries (runDeliveryEvents courierNoMaps [SendOffers ''uuuuuu'', CallOff ''rider'' ''uuuuuu'' None]
        (runDeliveryEvents courierNoMaps [Order 42 ''rider'' parcelDto None] parcelDb))).
     dv_id d' = ''uuuuuu'' \<and> dv_senderId d' = ''rider''"
  using deliveries_follow_state_machine [OF parcelDb_empty, of orderedDelivery courierNoMaps "[Order 42 ''rider'' parcelDto None]"
      "[SendOffers ''uuuuuu'', CallOff ''rider'' ''uuuuuu'' None]"] ordered [unfolded orderedDb_def]
  by (auto simp del: runDeliveryEvents.simps)

section \<open>Couriers\<close>

definition claimable :: "string \<Rightarrow> delivery \<Rightarrow> bool" where
  "claimable i d \<longleftrightarrow> dv_id d = i \<and> dv_status d = DeliveryStatus.DISPATCHING \<and> dv_driverId d = None"

definition claimed :: "string \<Rightarrow> instant \<Rightarrow> delivery \<Rightarrow> delivery" where
  "claimed c t d = d\<lparr>dv_status := DeliveryStatus.ACCEPTED, dv_driverId := Some c, dv_acceptedAt := Some t\<rparr>"

lemma claimDelivery_run:
  "claimDelivery c i s = (Inr (countWhere (claimable i) (deliveries s)),
     s\<lparr>deliveries := updateWhere (claimable i) (claimed c (now s)) (deliveries s)\<rparr>)"
  by (simp add: claimDelivery_def updateDeliveryMany_def action_defs claimable_def [abs_def] claimed_def [abs_def])

lemma claimed_simps [simp]: "dv_id (claimed c t d) = dv_id d" "dv_driverId (claimed c t d) = Some c"
  by (simp_all add: claimed_def)

lemma taken_delivery:
  assumes "acceptDeliveryOffer c i s = (Inr x, t)"
  obtains d where "d \<in> set (deliveries t)" "dv_id d = i" "dv_driverId d = Some c"
proof -
  obtain o' a n b where a: "acceptDeliveryChecks c i s = (Inr o', a)" and b: "claimDelivery c i a = (Inr n, b)"
    and won: "(if n = 0 then acceptDeliveryLost (fst o') else acceptDeliveryWon c i (fst o') (snd o')) b = (Inr x, t)"
    using assms unfolding acceptDeliveryOffer_def split_def by (elim bind_InrE)
  have "acceptDeliveryLost (fst o') b \<noteq> (Inr x, t)" by (simp add: acceptDeliveryLost_def updateDeliveryOffers_def action_defs)
  then have n: "n \<noteq> 0" using won by (cases "n = 0") simp_all
  with won have won': "acceptDeliveryWon c i (fst o') (snd o') b = (Inr x, t)" by simp
  have "fst (claimDelivery c i a) = Inr (countWhere (claimable i) (deliveries a))"
    "deliveries (snd (claimDelivery c i a)) = updateWhere (claimable i) (claimed c (now a)) (deliveries a)"
    by (simp_all add: claimDelivery_run)
  then have count: "n = countWhere (claimable i) (deliveries a)" and rows: "deliveries b = updateWhere (claimable i) (claimed c (now a)) (deliveries a)"
    unfolding b fst_conv snd_conv by (simp_all only: sum.inject)
  obtain r where r: "r \<in> set (deliveries a)" "claimable i r" using n unfolding count countWhere_zero by blast
  then have "claimed c (now a) r \<in> set (deliveries b)" unfolding rows set_updateWhere by (intro image_eqI [of _ _ r]) simp_all
  moreover have "deliveries t = deliveries b"
    using keepsD [OF leavesD [OF lv_parts(9) [of c i "fst o'" "snd o'"]] still_refl, of b] won' by (simp add: still_def)
  ultimately show thesis using r(2) by (intro that [of "claimed c (now a) r"]) (simp_all add: claimable_def)
qed

lemma claim_needs_no_courier:
  assumes "acceptDeliveryOffer c i s = (Inr x, t)" and "\<And>d. d \<in> set (deliveries s) \<Longrightarrow> dv_id d = i \<Longrightarrow> dv_driverId d \<noteq> None"
  shows False
proof -
  obtain o' a n b where a: "acceptDeliveryChecks c i s = (Inr o', a)" and b: "claimDelivery c i a = (Inr n, b)"
    and won: "(if n = 0 then acceptDeliveryLost (fst o') else acceptDeliveryWon c i (fst o') (snd o')) b = (Inr x, t)"
    using assms(1) unfolding acceptDeliveryOffer_def split_def by (elim bind_InrE)
  have "deliveries a = deliveries s"
    using keepsD [OF leavesD [OF lv_parts(7) [of c i]] still_refl, of s] a by (simp add: still_def)
  then have "n = 0" using b assms(2) by (auto simp: claimDelivery_run claimable_def countWhere_zero)
  then show False using won by (simp add: acceptDeliveryLost_def updateDeliveryOffers_def action_defs)
qed

text \<open>C8: a delivery is carried by one courier: once an acceptance has succeeded, whatever operations follow
  and in whatever order, the delivery keeps that courier and no acceptance of it ever succeeds again.\<close>

theorem one_courier_carries:
  assumes "uuidsOk s" and "deliveries s = []" and "acceptDeliveryOffer c i (runDeliveryEvents w es s) = (Inr x, t)"
  shows "\<not> succeeds (acceptDeliveryOffer c' i) (runDeliveryEvents w es' t)
    \<and> (\<exists>d \<in> set (deliveries (runDeliveryEvents w es' t)). dv_id d = i \<and> dv_driverId d = Some c)"
proof -
  let ?u = "runDeliveryEvents w es' t"
  have "deliveryOnward s t" using keepsD [OF keeps_acceptDeliveryOffer sound_start [OF assms(1,2)], of c i w es] assms(3) by simp
  then have t: "tableOk deliveries dv_id deliveryOk t" by (simp add: onward_def)
  have u: "deliveryOnward t ?u" by (rule deliveries_onward [OF deliveryTable.onward_refl [OF t]])
  obtain d where d: "d \<in> set (deliveries t)" "dv_id d = i" "dv_driverId d = Some c" by (rule taken_delivery [OF assms(3)])
  obtain d' where d': "d' \<in> set (deliveries ?u)" "deliveryAdv d d'" by (rule deliveryTable.onward_row [OF u d(1)])
  then have mine: "dv_id d' = i" "dv_driverId d' = Some c" using d by (simp_all add: deliveryAdv_def)
  have "distinct (map dv_id (deliveries ?u))" using u by (simp add: onward_def tableOk_def)
  then have "q = d'" if "q \<in> set (deliveries ?u)" "dv_id q = i" for q
    using that d'(1) mine(1) by (metis find_key option.inject)
  then have "\<not> succeeds (acceptDeliveryOffer c' i) ?u"
    using claim_needs_no_courier [of c' i ?u] succeeds_run [of "acceptDeliveryOffer c' i" ?u] mine(2) by blast
  then show ?thesis using d'(1) mine by blast
qed

lemmas send_defs = startDeliveryDispatch_def findDelivery_def updateDelivery_def getMaxUnsettledCashRides_def findNearbyCouriers_def
  MAX_CANDIDATES_def eligibleCourier_def DELIVERY_OFFER_TTL_MS_def

lemmas accept_defs = acceptDeliveryOffer_def acceptDeliveryChecks_def findDeliveryOffer_def claimDelivery_def updateDeliveryMany_def
  acceptDeliveryWon_def updateDeliveryOffers_def resolveDeliveryOffer_def setAvailability_def countWhere_def

lemma dispatched_order:
  "succeeds (acceptDeliveryOffer ''d1'' ''uuuuuu'') (runDeliveryEvents courierNoMaps [Order 42 ''rider'' parcelDto None, SendOffers ''uuuuuu''] parcelDb)"
  by (simp add: succeeds_def run_simps order_defs booking_defs city_defs parcelDto_def newDelivery_def send_defs accept_defs cong: run_cong)

lemma one_courier_carries_witness:
  "\<not> succeeds (acceptDeliveryOffer ''d2'' ''uuuuuu'') (runDeliveryEvents courierNoMaps [AtPickup ''d1'' ''uuuuuu'']
      (after (acceptDeliveryOffer ''d1'' ''uuuuuu'')
        (runDeliveryEvents courierNoMaps [Order 42 ''rider'' parcelDto None, SendOffers ''uuuuuu''] parcelDb)))"
  using one_courier_carries [OF parcelDb_empty succeeds_run [OF dispatched_order]] by blast

section \<open>Money\<close>

definition books :: "db \<Rightarrow> account list \<times> transaction list \<times> invoice list \<times> delivery list \<times> instant \<times> nat" where
  "books s = (accounts s, transactions s, invoices s, deliveries s, now s, uuidsUsed s)"

lemma books_offCaches [simp]: "offCaches books"
  by (simp add: offCaches_def books_def)

lemma books_same: "still books s t \<Longrightarrow> accounts t = accounts s \<and> transactions t = transactions s \<and> invoices t = invoices s
    \<and> deliveries t = deliveries s \<and> now t = now s \<and> uuids t = uuids s \<and> uuidsUsed t = uuidsUsed s"
  by (simp add: still_def books_def)

lemma leaves_books_cancel:
  "leaves books (voidPendingOffers i)" "leaves books (modify (\<lambda>s. s\<lparr>scheduleJobs := f s\<rparr>))"
  "leaves books (modify (\<lambda>s. s\<lparr>driverStatuses := g s\<rparr>))" "leaves books (setAvailability c a)"
  "leaves books (push e)"
  unfolding voidPendingOffers_def updateDeliveryOffers_def setAvailability_def push_def
  by (intro leaves_intros leaves_modify; simp add: books_def)+

text \<open>Calling a delivery off is free unless a courier is already on the way to the pickup at the sender's
  request: when a delivery that no courier has accepted is cancelled, or the courier cancels it, no
  balance changes, nothing is posted to the ledger, and the recorded fee is zero.\<close>

theorem free_cancellation:
  assumes "List.find (\<lambda>d. dv_id d = i) (deliveries s) = Some d" and "dv_status d \<noteq> DeliveryStatus.ACCEPTED \<or> u \<noteq> dv_senderId d"
    and "cancelDelivery u i reason s = (Inr x, t)"
  shows "accounts t = accounts s \<and> transactions t = transactions s \<and> dv_status x = DeliveryStatus.CANCELLED
    \<and> dv_cancellationFee x = Some 0 \<and> dv_cancelledById x = Some u"
proof -
  have free: "chargeDeliveryCancellation u d = return 0" using assms(2) by (auto simp: chargeDeliveryCancellation_def)
  have last: "wp (bind (gets now) (\<lambda>t.
       bind (updateDelivery i (\<lambda>d. d\<lparr>dv_status := DeliveryStatus.CANCELLED, dv_cancelledById := Some u,
          dv_cancellationReason := keptOr reason (dv_cancellationReason d), dv_cancellationFee := Some 0, dv_cancelledAt := Some t\<rparr>)) (\<lambda>cancelled.
       return (toParticipantView cancelled))))
     (\<lambda>x t. accounts t = accounts s \<and> transactions t = transactions s \<and> dv_status x = DeliveryStatus.CANCELLED
        \<and> dv_cancellationFee x = Some 0 \<and> dv_cancelledById x = Some u) (\<lambda>_ _. True) v" if "still books s v" for v
    using books_same [OF that] assms(1)
    by (simp add: updateDelivery_def findDelivery_def wp_simps find_updateWhere_key toParticipantView_def is_cents_def)
  have "wp (cancelDelivery u i reason) (\<lambda>x t. accounts t = accounts s \<and> transactions t = transactions s \<and> dv_status x = DeliveryStatus.CANCELLED
        \<and> dv_cancellationFee x = Some 0 \<and> dv_cancelledById x = Some u) (\<lambda>_ _. True) s"
    unfolding cancelDelivery_def findDeliveryForParticipant_def bind_assoc bind_return
  proof (intro wp_findDelivery wp_present wp_guard, goal_cases)
    case (1 d')
    then have d: "d' = d" using assms(1) by simp
    show ?case unfolding d free bind_return
    proof (rule wp_leaves_then [where rows = books, OF _ still_refl], goal_cases)
      case (2 _ v)
      then show ?case
      proof (rule wp_leaves_then [rotated], goal_cases)
        case (1 _ w)
        then show ?case
          by (rule wp_leaves_then [rotated]) (auto intro: leaves_intros leaves_books_cancel last)
      qed (auto intro: leaves_intros leaves_books_cancel)
    qed (auto intro: leaves_intros leaves_books_cancel)
  qed simp_all
  then show ?thesis using assms(3) by (rule wp_Inr)
qed

lemma leaves_complete:
  "leaves (\<lambda>s. (accounts s, transactions s, invoices s)) (completeStops i n)"
  "leaves (\<lambda>s. (accounts s, transactions s, invoices s)) (updateDelivery i f)"
  "leaves (\<lambda>s. (accounts s, transactions s, invoices s)) (setAvailability c a)"
  "leaves (\<lambda>s. (accounts s, transactions s, invoices s)) (push e)"
  unfolding completeStops_def updateDelivery_def findDelivery_def setAvailability_def push_def
  by (intro leaves_intros leaves_modify; simp)+

definition invoiced :: "string \<Rightarrow> string \<Rightarrow> rat \<Rightarrow> db \<Rightarrow> db \<Rightarrow> bool" where
  "invoiced i b fare s t \<longleftrightarrow>
     holding t (owned b BUSINESS_CREDIT_PAYABLE) = holding s (owned b BUSINESS_CREDIT_PAYABLE) + fare
     \<and> (\<forall>u ty. ty \<noteq> BUSINESS_CREDIT_PAYABLE \<longrightarrow> holding t (owned u ty) = holding s (owned u ty))
     \<and> (\<exists>v. invoices t = invoices s @ [v] \<and> iv_businessId v = b \<and> iv_deliveryId v = Some i \<and> iv_amount v = fare
          \<and> iv_status v = InvoiceStatus.PENDING \<and> iv_dueAt v = now s + INVOICE_DUE_MS)"

lemma invoiced_cong:
  assumes "accounts s' = accounts s" "invoices s' = invoices s" "now s' = now s" and "accounts t' = accounts t" "invoices t' = invoices t"
  shows "invoiced i b fare s' t' = invoiced i b fare s t"
  using assms by (simp add: invoiced_def holding_def accountFor_def)

lemma wp_chargeBusiness:
  assumes "ledgerOk s" and "\<not> hasReference s r" and "cents fare"
  shows "wp (chargeBusinessForDelivery b fare r None) (\<lambda>_ t. invoices t = invoices s \<and> now t = now s
     \<and> (\<forall>k. holding t k = holding s k + changeOn (transferMoves (platform PLATFORM_GATEWAY_CLEARING) (owned b BUSINESS_CREDIT_PAYABLE) fare) k))
     (\<lambda>_ _. True) s"
proof (rule wp_conseq [OF wp_conj [OF businessCharges.contract [of "(b, fare, r, None)" s, unfolded prod.case]
      keeps_wp [OF leavesD [OF leaves_payments(3) [of "\<lambda>s. (invoices s, now s)"]] still_refl]]])
  show "offLedger (\<lambda>s. (invoices s, now s))" by (simp add: offLedger_def apart_def)
qed (use assms in \<open>auto simp: outcome_def moved_def still_def hasReference_find\<close>)

lemma wp_settle_business:
  assumes "ledgerOk s" and "\<not> hasReference s (deliveryReference (dv_id d))" and "cents fare" and "dv_businessId d = Some b" "b \<noteq> []"
  shows "wp (settleDelivery shown courier d fare c tax) (\<lambda>_ t. invoiced (dv_id d) b fare s t) (\<lambda>_ _. True) s"
proof -
  have "is_cents fare" using assms(3) by (simp add: cents_def)
  then have inv: "wp (createInvoice b d fare c) (\<lambda>_ u. accounts u = accounts t \<and> (\<exists>v. invoices u = invoices t @ [v] \<and> iv_businessId v = b
      \<and> iv_deliveryId v = Some (dv_id d) \<and> iv_amount v = fare \<and> iv_status v = InvoiceStatus.PENDING \<and> iv_dueAt v = now t + INVOICE_DUE_MS))
      (\<lambda>_ _. True) t" for t
    by (simp add: createInvoice_def wp_simps)
  have "wp (chargeBusinessForDelivery b fare (deliveryReference (dv_id d)) None)
      (\<lambda>_. wp (andThen (createInvoice b d fare c) (return None)) (\<lambda>_ t. invoiced (dv_id d) b fare s t) (\<lambda>_ _. True)) (\<lambda>_ _. True) s"
    by (rule wp_conseq [OF wp_chargeBusiness [OF assms(1-3)]])
       (auto simp: wp_bind wp_return invoiced_def move_defs holding_def accountFor_def intro!: wp_conseq [OF inv])
  then show ?thesis using assms(4,5) by (simp add: settleDelivery_def Let_def truthy_def wp_bind)
qed

text \<open>C12: a business pays for its deliveries on account: when a courier completes a delivery billed to a
  business, what the business owes grows by exactly the price of the delivery, one invoice of that
  amount, due in fourteen days, is added to its pending invoices, and nobody's wallet is touched.\<close>

theorem business_delivery_is_invoiced:
  assumes "ledgerOk s" and "\<not> hasReference s (deliveryReference i)"
    and "List.find (\<lambda>d. dv_id d = i) (deliveries s) = Some d" and "dv_businessId d = Some b" and "b \<noteq> []"
    and "dv_estimatedFare d = Some fare" and "cents fare" and "completeDelivery shown courier i s = (Inr x, t)"
  shows "holding t (owned b BUSINESS_CREDIT_PAYABLE) = holding s (owned b BUSINESS_CREDIT_PAYABLE) + fare
    \<and> (\<forall>u ty. ty \<noteq> BUSINESS_CREDIT_PAYABLE \<longrightarrow> holding t (owned u ty) = holding s (owned u ty))
    \<and> (\<exists>v. invoices t = invoices s @ [v] \<and> iv_businessId v = b \<and> iv_deliveryId v = Some i \<and> iv_amount v = fare
         \<and> iv_status v = InvoiceStatus.PENDING \<and> iv_dueAt v = now s + INVOICE_DUE_MS)"
proof -
  let ?V = "\<lambda>s. (accounts s, transactions s, invoices s)"
  have d: "dv_id d = i" using find_SomeD [OF assms(3)] by simp
  have fin: "wp m (\<lambda>_. invoiced i b fare s) (\<lambda>_ _. True) u" if "invoiced i b fare s u" and "leaves ?V m" for m :: "delivery op" and u
  proof (rule wp_conseq [OF keeps_wp [OF leavesD [OF that(2)] still_refl]])
    fix w :: db assume "still ?V u w"
    then have "accounts w = accounts u" "invoices w = invoices u" by (simp_all add: still_def)
    then show "invoiced i b fare s w" using that(1) invoiced_cong [OF refl refl refl, of w u i b fare s] by blast
  qed simp
  have "wp (completeDelivery shown courier i) (\<lambda>_. invoiced i b fare s) (\<lambda>_ _. True) s"
    unfolding completeDelivery_def ownDelivery_def bind_assoc bind_return Let_def
  proof (intro wp_findDelivery wp_present wp_guard, goal_cases)
    case (1 d')
    have d': "d' = d" using 1(1) assms(3) by simp
    show ?case unfolding d'
    proof (rule wp_leaves_then [OF leaves_pricing(2) [OF books_offCaches] still_refl], goal_cases)
      case (1 rule s1)
      note same = books_same [OF 1]
      have ok: "ledgerOk s1" "\<not> hasReference s1 (deliveryReference (dv_id d))"
        using same ledgerOk_cong [of s1 s] assms(1,2) d by (simp_all add: hasReference_def)
      show ?case
      proof (rule wp_present, goal_cases)
        case (1 fare')
        then have f: "fare' = fare" using assms(6) by simp
        show ?case unfolding f wp_bind [where m = "settleDelivery _ _ _ _ _ _"]
        proof (rule wp_conseq [OF wp_settle_business [OF ok assms(7,4,5)]], goal_cases)
          case (1 tid u)
          then have "invoiced i b fare s u" using same d invoiced_cong [of s1 s u u] by simp
          then show ?case by (rule fin) (intro leaves_intros leaves_complete)
        qed simp
      qed simp
    qed simp
  qed simp_all
  then show ?thesis unfolding invoiced_def [symmetric] by (rule wp_Inr) (rule assms(8))
qed

definition deliveringDb :: db where
  "deliveringDb = parcelDb\<lparr>accounts := accounts seededDb, uuidsUsed := 4, deliveries := [orderedDelivery\<lparr>dv_status := DeliveryStatus.PICKED_UP, dv_driverId := Some ''d1'',
     dv_businessId := Some ''shop'', dv_podType := Some PHOTO\<rparr>]\<rparr>"

lemma business_delivery_is_invoiced_witness:
  "holding (after (completeDelivery (\<lambda>_. ''0'') ''d1'' ''uuuuuu'') deliveringDb) (owned ''shop'' BUSINESS_CREDIT_PAYABLE) = 2365 / 2"
proof -
  have run: "succeeds (completeDelivery (\<lambda>_. ''0'') ''d1'' ''uuuuuu'') deliveringDb" by code_simp
  have "ledgerOk deliveringDb"
  proof (subst ledgerOk_cong)
    show "accounts deliveringDb = accounts seededDb" "transactions deliveringDb = transactions seededDb"
      "uuids deliveringDb = uuids seededDb" "uuidsUsed deliveringDb = uuidsUsed seededDb"
      by (simp_all add: deliveringDb_def parcelDb_def cityDb_def pricedDb_def seededDb_def)
  qed simp
  moreover have "\<not> hasReference deliveringDb (deliveryReference ''uuuuuu'')" by code_simp
  moreover have "holding deliveringDb (owned ''shop'' BUSINESS_CREDIT_PAYABLE) = 0" "cents (2365 / 2)" by code_simp+
  moreover have "dv_estimatedFare orderedDelivery = Some (2365 / 2)" by code_simp
  moreover have "deliveries deliveringDb = [orderedDelivery\<lparr>dv_status := DeliveryStatus.PICKED_UP, dv_driverId := Some ''d1'',
     dv_businessId := Some ''shop'', dv_podType := Some PHOTO\<rparr>]" by (simp add: deliveringDb_def)
  ultimately show ?thesis
    using business_delivery_is_invoiced [OF _ _ _ _ _ _ _ succeeds_run [OF run], of _ "''shop''" "2365 / 2"] by simp
qed

section \<open>Routes\<close>

definition routePoints :: "rat \<Rightarrow> rat \<Rightarrow> stopInput list \<Rightarrow> (rat \<times> rat) list" where
  "routePoints lat lng stops = (lat, lng) # map (\<lambda>p. (sp_lat p, sp_lng p)) stops"

definition routeLegs :: "distanceMatrix \<Rightarrow> (leg \<Rightarrow> rat \<times> int) \<Rightarrow> (rat \<times> rat) list \<Rightarrow> (rat \<times> int) list" where
  "routeLegs matrix approximate ps = map (\<lambda>((a, b), (c, d)). getDistance matrix approximate (a, b, c, d)) (zip ps (tl ps))"

lemma routeLoop_adds:
  "routeLoop matrix approximate lat lng stops acc = (let legs = routeLegs matrix approximate (routePoints lat lng stops)
     in (fst acc + sum_list (map fst legs), snd acc + sum_list (map snd legs)))"
  by (induction stops arbitrary: lat lng acc) (simp_all add: routeLegs_def routePoints_def Let_def)

text \<open>The distance a delivery is priced by is that of its whole route: the sum of the distances of the
  legs between consecutive points from the pickup through the stops in order, and likewise the
  duration; a delivery without stops has distance and duration zero.\<close>

theorem route_is_the_sum_of_its_legs:
  "getRouteDistance matrix approximate lat lng stops = (let legs = routeLegs matrix approximate (routePoints lat lng stops)
     in (sum_list (map fst legs), sum_list (map snd legs)))
   \<and> length (routeLegs matrix approximate (routePoints lat lng stops)) = length stops"
  by (simp add: getRouteDistance_def routeLoop_adds Let_def) (simp add: routeLegs_def routePoints_def)

section \<open>What others may see\<close>

definition redacted :: "delivery \<Rightarrow> delivery" where
  "redacted d = d\<lparr>dv_receiverOtpHash := None, dv_podFileKey := None\<rparr>"

definition anonymous :: "delivery \<Rightarrow> delivery" where
  "anonymous d = (redacted d)\<lparr>dv_senderId := [], dv_packageValue := None, dv_packageDescription := [], dv_estimatedFare := None,
     dv_finalFare := None, dv_subtotalFare := None, dv_taxAmount := None, dv_promoDiscount := None, dv_commissionAmount := None,
     dv_receiverName := [], dv_receiverPhone := []\<rparr>"

lemma livePosition_view:
  "livePosition (s\<lparr>deliveries := x\<rparr>) d = livePosition s d" "stopsOf (s\<lparr>deliveries := x\<rparr>) i = stopsOf s i"
  by (simp_all add: livePosition_def stopsOf_def split: option.split)

lemma toParticipantView_simps [simp]:
  "dv_id (toParticipantView d) = dv_id d" "dv_senderId (toParticipantView d) = dv_senderId d" "dv_driverId (toParticipantView d) = dv_driverId d"
  "dv_status (toParticipantView d) = dv_status d" "toParticipantView (toParticipantView d) = toParticipantView d"
  "buildTimeline (toParticipantView d) = buildTimeline d" "livePosition s (toParticipantView d) = livePosition s d"
  by (simp_all add: toParticipantView_def buildTimeline_def livePosition_def split: option.split)

lemma anonymous_simps [simp]:
  "dv_id (anonymous d) = dv_id d" "dv_driverId (anonymous d) = dv_driverId d" "dv_status (anonymous d) = dv_status d"
  "dv_trackingToken (anonymous d) = dv_trackingToken d" "dv_vehicleType (anonymous d) = dv_vehicleType d"
  "dv_pickupAddress (anonymous d) = dv_pickupAddress d" "dv_scheduledFor (anonymous d) = dv_scheduledFor d"
  "dv_requestedAt (anonymous d) = dv_requestedAt d" "dv_completedAt (anonymous d) = dv_completedAt d"
  "buildTimeline (anonymous d) = buildTimeline d" "livePosition s (anonymous d) = livePosition s d"
  by (simp_all add: anonymous_def redacted_def buildTimeline_def livePosition_def split: option.split)

lemma getDelivery_view: "fst (getDelivery u i (s\<lparr>deliveries := map toParticipantView (deliveries s)\<rparr>)) = fst (getDelivery u i s)"
  by (cases "List.find (\<lambda>d. dv_id d = i) (deliveries s)")
     (simp_all add: getDelivery_def findDeliveryForParticipant_def findDelivery_def run_simps find_map_inv livePosition_view)

lemma listDeliveries_view:
  "fst (listDeliveries u asSender n k (s\<lparr>deliveries := map toParticipantView (deliveries s)\<rparr>)) = fst (listDeliveries u asSender n k s)"
  by (simp add: listDeliveries_def gets_def livePosition_view filter_map comp_def drop_map take_map rev_map)

lemma trackDelivery_view: "fst (trackDelivery token (s\<lparr>deliveries := map anonymous (deliveries s)\<rparr>)) = fst (trackDelivery token s)"
  by (cases "List.find (\<lambda>d. dv_trackingToken d = token) (deliveries s)")
     (simp_all add: trackDelivery_def findByTrackingToken_def run_simps find_map_inv livePosition_view)

text \<open>Who a delivery hides its secrets from: what a participant's view or list of deliveries answers does
  not depend on the hash of the receiver's code, the storage key of the proof or the tracking token of
  any delivery; and what the public tracking page answers does not depend on these, nor on the sender,
  the receiver, the package, its value, the fare or the commission.\<close>

theorem views_keep_secrets:
  "fst (getDelivery u i (s\<lparr>deliveries := map toParticipantView (deliveries s)\<rparr>)) = fst (getDelivery u i s)
   \<and> fst (listDeliveries u asSender n k (s\<lparr>deliveries := map toParticipantView (deliveries s)\<rparr>)) = fst (listDeliveries u asSender n k s)
   \<and> fst (trackDelivery token (s\<lparr>deliveries := map anonymous (deliveries s)\<rparr>)) = fst (trackDelivery token s)"
  by (intro conjI getDelivery_view listDeliveries_view trackDelivery_view)

text \<open>C13: a courier can make the proof of delivery up: the delivery that confirming the pickup answers to the
  courier carries the hash of the receiver's code, so trying the million codes against it finds one,
  and any code it finds is accepted as the receiver's proof of delivery, although the receiver never
  gave it (the participants' views of the other service drop this field for that reason).\<close>

theorem pickup_reveals_receiver_code:
  assumes "List.find (\<lambda>d. dv_id d = i) (deliveries s) = Some row" and "dv_receiverOtpHash row = Some (hash (generateOtp draw))"
    and "draw < 10 ^ 6" and "hash (generateOtp draw) \<noteq> []" and "confirmPickup courier i s = (Inr answer, t)"
  shows "(\<exists>n < 10 ^ 6. Some (hash (generateOtp n)) = dv_receiverOtpHash answer)
    \<and> (\<forall>n. Some (hash (generateOtp n)) = dv_receiverOtpHash answer
         \<longrightarrow> succeeds (submitProofOfDelivery hash upload courier i OTP (Some (generateOtp n)) None) t)"
proof -
  have w: "wp (confirmPickup courier i) (\<lambda>d t. List.find (\<lambda>d. dv_id d = i) (deliveries t) = Some d \<and> dv_status d = DeliveryStatus.PICKED_UP
      \<and> dv_driverId d = Some courier \<and> dv_receiverOtpHash d = dv_receiverOtpHash row) (\<lambda>_ _. True) s"
    using assms(1) by (simp add: confirmPickup_def deliveryTransition_def ownDelivery_def updateDelivery_def findDelivery_def push_def
        wp_simps find_updateWhere_key)
  have found: "List.find (\<lambda>d. dv_id d = i) (deliveries t) = Some answer" and st: "dv_status answer = DeliveryStatus.PICKED_UP"
    and mine: "dv_driverId answer = Some courier" and h: "dv_receiverOtpHash answer = Some (hash (generateOtp draw))"
    using wp_Inr [OF w assms(5)] assms(2) by simp_all
  have "succeeds (submitProofOfDelivery hash upload courier i OTP (Some (generateOtp n)) None) t"
    if "Some (hash (generateOtp n)) = dv_receiverOtpHash answer" for n
  proof -
    have "generateOtp n \<noteq> []" by (simp add: generateOtp_def padStart_def)
    then show ?thesis using found st mine h that assms(4)
      by (simp add: succeeds_def submitProofOfDelivery_def ownDelivery_def findDelivery_def updateDelivery_def push_def truthy_def
          run_simps find_updateWhere_key)
  qed
  then show ?thesis using assms(3) h by auto
qed

definition acceptedDb :: db where
  "acceptedDb = parcelDb\<lparr>deliveries := [orderedDelivery\<lparr>dv_status := DeliveryStatus.ACCEPTED, dv_driverId := Some ''d1''\<rparr>]\<rparr>"

lemma pickup_reveals_receiver_code_witness:
  "succeeds (submitProofOfDelivery rev (\<lambda>_. None) ''d1'' ''uuuuuu'' OTP (Some (generateOtp 42)) None)
     (after (confirmPickup ''d1'' ''uuuuuu'') acceptedDb)"
proof -
  have run: "succeeds (confirmPickup ''d1'' ''uuuuuu'') acceptedDb" by code_simp
  have h: "dv_receiverOtpHash (result (confirmPickup ''d1'' ''uuuuuu'') acceptedDb) = Some (rev (generateOtp 42))" by code_simp
  have row: "List.find (\<lambda>d. dv_id d = ''uuuuuu'') (deliveries acceptedDb)
      = Some (orderedDelivery\<lparr>dv_status := DeliveryStatus.ACCEPTED, dv_driverId := Some ''d1''\<rparr>)"
    by (simp add: acceptedDb_def)
  have "dv_receiverOtpHash orderedDelivery = Some (rev (generateOtp 42))" by (simp add: orderedDelivery_def newDelivery_def)
  then show ?thesis
    using pickup_reveals_receiver_code [OF row, of rev 42, OF _ _ _ succeeds_run [OF run]] h
    by (auto simp: generateOtp_def padStart_def)
qed

end
