(* ===== verification/Buckets.thy ===== *)
theory Buckets
  imports Text Money
begin

text \<open>
  The buckets of the dashboard charts, src/common/utils/time-bucket.util.ts, over the calendar of the
  language's \<open>Date\<close> in UTC: days are counted from the epoch, \<open>dayFromYear\<close> is the first day of a
  year, and \<open>utcMonth\<close> is \<open>Date.UTC(y, m, 1)\<close> with a month index that may leave the year.
  \<open>buckets_chain\<close> says that the buckets of a range follow each other without a gap.
\<close>

section \<open>The calendar\<close>

definition MS_PER_DAY :: int where "MS_PER_DAY = 86400000"

definition dayFromYear :: "int \<Rightarrow> int" where
  "dayFromYear y = 365 * (y - 1970) + (y - 1969) div 4 - (y - 1901) div 100 + (y - 1601) div 400"

text \<open>An estimate that is off by at most one year, corrected.\<close>

definition yearFromDay :: "int \<Rightarrow> int" where
  "yearFromDay d = (let y = 1970 + (400 * d) div 146097 in
     if dayFromYear (y + 1) \<le> d then y + 1 else if d < dayFromYear y then y - 1 else y)"

definition isLeap :: "int \<Rightarrow> bool" where
  "isLeap y \<longleftrightarrow> dayFromYear (y + 1) - dayFromYear y = 366"

text \<open>The first day of each month within its year.\<close>

definition monthOffsets :: "bool \<Rightarrow> int list" where
  "monthOffsets leap = (if leap then [0, 31, 60, 91, 121, 152, 182, 213, 244, 274, 305, 335]
     else [0, 31, 59, 90, 120, 151, 181, 212, 243, 273, 304, 334])"

definition utcMonthDay :: "int \<Rightarrow> int \<Rightarrow> int" where
  "utcMonthDay y m = (let y' = y + m div 12 in dayFromYear y' + monthOffsets (isLeap y') ! nat (m mod 12))"

definition monthFromDay :: "int \<Rightarrow> int" where
  "monthFromDay d = (let y = yearFromDay d in
     int (length (takeWhile (\<lambda>a. a \<le> d - dayFromYear y) (monthOffsets (isLeap y)))) - 1)"

definition dayOfMonth :: "int \<Rightarrow> int" where
  "dayOfMonth d = d - utcMonthDay (yearFromDay d) (monthFromDay d) + 1"

definition dayOf :: "int \<Rightarrow> int" where
  "dayOf t = t div MS_PER_DAY"

definition hourOf :: "int \<Rightarrow> int" where
  "hourOf t = t mod MS_PER_DAY div 3600000"

definition startOfUtcDay :: "int \<Rightarrow> int" where
  "startOfUtcDay t = dayOf t * MS_PER_DAY"

section \<open>Ranges and buckets\<close>

datatype AnalyticsRange = Day | Days7 | Month | Months6 | Year

datatype BucketUnit = HourUnit | DayUnit | MonthUnit

fun rangeMeta :: "AnalyticsRange \<Rightarrow> BucketUnit \<times> nat \<times> string" where
  "rangeMeta Day = (HourUnit, 24, ''Today (hourly)'')"
| "rangeMeta Days7 = (DayUnit, 7, ''Last 7 days'')"
| "rangeMeta Month = (DayUnit, 30, ''Last 30 days'')"
| "rangeMeta Months6 = (MonthUnit, 6, ''Last 6 months'')"
| "rangeMeta Year = (MonthUnit, 12, ''Last 12 months'')"

definition MONTHS :: "string list" where
  "MONTHS = [''Jan'', ''Feb'', ''Mar'', ''Apr'', ''May'', ''Jun'', ''Jul'', ''Aug'', ''Sep'', ''Oct'', ''Nov'', ''Dec'']"

definition pad2 :: "int \<Rightarrow> string" where
  "pad2 n = padStart 2 (CHR ''0'') (decimal (nat n))"

definition keyFor :: "BucketUnit \<Rightarrow> int \<Rightarrow> string" where
  "keyFor unit t = (let d = dayOf t; y = decimal (nat (yearFromDay d)); m = pad2 (monthFromDay d + 1) in
     case unit of
       MonthUnit \<Rightarrow> y @ ''-'' @ m
     | DayUnit \<Rightarrow> y @ ''-'' @ m @ ''-'' @ pad2 (dayOfMonth d)
     | HourUnit \<Rightarrow> y @ ''-'' @ m @ ''-'' @ pad2 (dayOfMonth d) @ ''T'' @ pad2 (hourOf t))"

definition labelFor :: "BucketUnit \<Rightarrow> int \<Rightarrow> bool \<Rightarrow> string" where
  "labelFor unit t includeYear = (let d = dayOf t; base = MONTHS ! nat (monthFromDay d) in
     case unit of
       HourUnit \<Rightarrow> pad2 (hourOf t) @ '':00''
     | DayUnit \<Rightarrow> pad2 (dayOfMonth d) @ '' '' @ base
     | MonthUnit \<Rightarrow> if includeYear then base @ '' '' @ drop 2 (decimal (nat (yearFromDay d))) else base)"

record bucket =
  bk_start :: int
  bk_end :: int
  bk_label :: string
  bk_key :: string

definition utcMonth :: "int \<Rightarrow> int \<Rightarrow> int" where
  "utcMonth y m = utcMonthDay y m * MS_PER_DAY"

definition monthBucket :: "bool \<Rightarrow> int \<Rightarrow> int \<Rightarrow> bucket" where
  "monthBucket includeYear startMonth i =
     (let start = utcMonth (yearFromDay (dayOf startMonth)) (monthFromDay (dayOf startMonth) + i);
          end = utcMonth (yearFromDay (dayOf start)) (monthFromDay (dayOf start) + 1) in
      \<lparr>bk_start = start, bk_end = end, bk_label = labelFor MonthUnit start includeYear, bk_key = keyFor MonthUnit start\<rparr>)"

definition stepBucket :: "BucketUnit \<Rightarrow> int \<Rightarrow> int \<Rightarrow> int \<Rightarrow> bucket" where
  "stepBucket unit anchor stepMs i =
     (let start = anchor + i * stepMs in
      \<lparr>bk_start = start, bk_end = anchor + (i + 1) * stepMs, bk_label = labelFor unit start False, bk_key = keyFor unit start\<rparr>)"

definition buildBuckets :: "AnalyticsRange \<Rightarrow> int \<Rightarrow> bucket list" where
  "buildBuckets rg t = (case rangeMeta rg of (unit, count, _) \<Rightarrow>
     if unit = MonthUnit then
       (let startMonth = utcMonth (yearFromDay (dayOf t)) (monthFromDay (dayOf t) - (int count - 1)) in
        map (\<lambda>i. monthBucket (rg = Year) startMonth (int i)) [0..<count])
     else
       (let stepMs = (if unit = HourUnit then 3600000 else MS_PER_DAY);
            anchor = (if unit = HourUnit then startOfUtcDay t else startOfUtcDay t - (int count - 1) * stepMs) in
        map (\<lambda>i. stepBucket unit anchor stepMs (int i)) [0..<count]))"

definition rangeWindow :: "AnalyticsRange \<Rightarrow> int \<Rightarrow> int \<times> int" where
  "rangeWindow rg t = (let bs = buildBuckets rg t in (bk_start (hd bs), bk_end (last bs)))"

text \<open>Grouped rows on the skeleton; the last row of a key wins, as in a \<open>Map\<close>.\<close>

definition valueOf :: "(string option \<times> rat) list \<Rightarrow> string \<Rightarrow> rat" where
  "valueOf rows key = (case List.find (\<lambda>r. fst r = Some key) (rev rows) of None \<Rightarrow> 0 | Some r \<Rightarrow> snd r)"

definition foldSeries :: "AnalyticsRange \<Rightarrow> (string option \<times> rat) list \<Rightarrow> int \<Rightarrow> (string \<times> int \<times> rat) list" where
  "foldSeries rg rows t = map (\<lambda>b. (bk_label b, bk_start b, valueOf rows (bk_key b))) (buildBuckets rg t)"

section \<open>Laws of the calendar\<close>

lemma div_bounds: "0 < n \<Longrightarrow> n * (x div n) \<le> x" "0 < n \<Longrightarrow> x < n * (x div n) + (n::int)"
  using minus_mod_eq_mult_div [of x n] pos_mod_bound [of n x] pos_mod_sign [of n x] by linarith+

lemma dayFromYear_bounds:
  shows "146097 * (y - 1970) - 700 \<le> 400 * dayFromYear y" and "400 * dayFromYear y \<le> 146097 * (y - 1970) + 700"
proof -
  define a b c where "a = (y - 1969) div 4" and "b = (y - 1901) div 100" and "c = (y - 1601) div 400"
  have a: "4 * a \<le> y - 1969" "y - 1969 < 4 * a + 4" unfolding a_def by (rule div_bounds; simp)+
  have b: "100 * b \<le> y - 1901" "y - 1901 < 100 * b + 100" unfolding b_def by (rule div_bounds; simp)+
  have c: "400 * c \<le> y - 1601" "y - 1601 < 400 * c + 400" unfolding c_def by (rule div_bounds; simp)+
  have y: "dayFromYear y = 365 * (y - 1970) + a - b + c" by (simp add: dayFromYear_def a_def b_def c_def)
  show "146097 * (y - 1970) - 700 \<le> 400 * dayFromYear y" "400 * dayFromYear y \<le> 146097 * (y - 1970) + 700"
    unfolding y right_diff_distrib distrib_left using a b c by linarith+
qed

lemma div_step: "0 < n \<Longrightarrow> (x + 1) div n = x div n + (if n dvd x + 1 then 1 else 0)" for n :: int
proof (cases "n dvd x + 1")
  case True
  assume "0 < n"
  from True obtain k where "x = n * (k - 1) + (n - 1)" by (auto simp: dvd_def algebra_simps)
  then have "x div n = k - 1" "(x + 1) div n = k" using \<open>0 < n\<close> by (simp_all add: int_div_pos_eq)
  then show ?thesis using True by simp
next
  case False
  assume n: "0 < n"
  then have r: "0 < (x + 1) mod n" using False pos_mod_sign [OF n, of "x + 1"] by (auto simp: dvd_eq_mod_eq_0 less_le)
  have "x = n * ((x + 1) div n) + ((x + 1) mod n - 1)" using mult_div_mod_eq [of n "x + 1"] by linarith
  then have "x div n = (x + 1) div n" by (rule int_div_pos_eq) (use r pos_mod_bound [OF n, of "x + 1"] in linarith)+
  then show ?thesis using False by simp
qed

lemma dayFromYear_step: "dayFromYear (y + 1) - dayFromYear y \<in> {365, 366}"
proof -
  have "dayFromYear (y + 1) - dayFromYear y = 365 + (if 4 dvd y then 1 else 0) - (if 100 dvd y then 1 else 0) + (if 400 dvd y then 1 else 0)"
  proof -
    have "(4 dvd (y - 1969) + 1) = (4 dvd y)" "(100 dvd (y - 1901) + 1) = (100 dvd y)" "(400 dvd (y - 1601) + 1) = (400 dvd y)"
      using dvd_add_left_iff [of 4 "- 1968" y] dvd_add_left_iff [of 100 "- 1900" y] dvd_add_left_iff [of 400 "- 1600" y]
      by simp_all
    then show ?thesis using div_step [of 4 "y - 1969"] div_step [of 100 "y - 1901"] div_step [of 400 "y - 1601"]
      by (simp add: dayFromYear_def algebra_simps)
  qed
  moreover have "100 dvd y \<longrightarrow> 4 dvd y" "400 dvd y \<longrightarrow> 100 dvd y"
    using dvd_trans [of 4 100 y] dvd_trans [of 100 400 y] by simp_all
  ultimately show ?thesis by (auto split: if_splits)
qed

lemma dayFromYear_grows: "y \<le> y' \<Longrightarrow> dayFromYear y + (y' - y) \<le> dayFromYear y'"
proof (induction rule: int_ge_induct)
  case (step y') then show ?case using dayFromYear_step [of y'] by auto
qed simp

lemma yearFromDay: "dayFromYear (yearFromDay d) \<le> d \<and> d < dayFromYear (yearFromDay d + 1)"
proof -
  define y where "y = 1970 + (400 * d) div 146097"
  have y: "146097 * (y - 1970) \<le> 400 * d" "400 * d < 146097 * (y - 1970) + 146097"
    unfolding y_def using div_bounds [of 146097 "400 * d"] by simp_all
  have "dayFromYear (y - 1) \<le> d" using y dayFromYear_bounds(2) [of "y - 1"] unfolding right_diff_distrib distrib_left by linarith
  moreover have "d < dayFromYear (y + 2)" using y dayFromYear_bounds(1) [of "y + 2"] unfolding right_diff_distrib distrib_left by linarith
  ultimately show ?thesis unfolding yearFromDay_def Let_def y_def [symmetric] by (auto simp: add.commute)
qed

lemma yearFromDay_unique: "dayFromYear y \<le> d \<Longrightarrow> d < dayFromYear (y + 1) \<Longrightarrow> yearFromDay d = y"
  using yearFromDay [of d] dayFromYear_grows [of "y + 1" "yearFromDay d"] dayFromYear_grows [of "yearFromDay d + 1" y]
  by (cases "yearFromDay d" y rule: linorder_cases) auto

definition yearLength :: "int \<Rightarrow> int" where
  "yearLength y = dayFromYear (y + 1) - dayFromYear y"

lemma yearLength: "yearLength y = (if isLeap y then 366 else 365)"
  using dayFromYear_step [of y] by (auto simp: yearLength_def isLeap_def)

definition offsetLaw :: "bool \<Rightarrow> nat \<Rightarrow> bool" where
  "offsetLaw b k \<longleftrightarrow> 0 \<le> monthOffsets b ! k \<and> monthOffsets b ! k < (if b then 366 else 365)
     \<and> (k < 11 \<longrightarrow> monthOffsets b ! k < monthOffsets b ! Suc k)
     \<and> length (takeWhile (\<lambda>a. a \<le> monthOffsets b ! k) (monthOffsets b)) = Suc k"

lemma offsets_table: "list_all (offsetLaw True) [0..<12]" "list_all (offsetLaw False) [0..<12]"
  by code_simp+

lemma offsetLaw: "k < 12 \<Longrightarrow> offsetLaw b k"
  using offsets_table unfolding list_all_iff set_upt by (cases b) auto

lemma offsets:
  assumes "k < 12"
  shows "0 \<le> monthOffsets b ! k" "monthOffsets b ! k < (if b then 366 else 365)"
    "k < 11 \<Longrightarrow> monthOffsets b ! k < monthOffsets b ! Suc k"
    "length (takeWhile (\<lambda>a. a \<le> monthOffsets b ! k) (monthOffsets b)) = Suc k"
  using offsetLaw [OF assms, of b] unfolding offsetLaw_def by blast+

lemma monthOffsets_length [simp]: "length (monthOffsets b) = 12" "monthOffsets b ! 0 = 0"
  by (simp_all add: monthOffsets_def)

lemma utcMonthDay_year: "yearFromDay (utcMonthDay y m) = y + m div 12"
proof -
  have k: "nat (m mod 12) < 12" by simp
  show ?thesis
    using offsets(1,2) [OF k, of "isLeap (y + m div 12)"] yearLength [of "y + m div 12"]
    by (intro yearFromDay_unique) (auto simp: utcMonthDay_def Let_def yearLength_def)
qed

lemma utcMonthDay_month: "monthFromDay (utcMonthDay y m) = m mod 12"
proof -
  have k: "nat (m mod 12) < 12" by simp
  show ?thesis using offsets(4) [OF k, of "isLeap (y + m div 12)"]
    by (simp add: monthFromDay_def utcMonthDay_year Let_def) (simp add: utcMonthDay_def Let_def)
qed

text \<open>The month index is what counts: a month of another year is a month of the next.\<close>

lemma utcMonthDay_shift: "utcMonthDay (y + m div 12) (m mod 12 + j) = utcMonthDay y (m + j)"
proof -
  have m: "m + j = 12 * (m div 12) + (m mod 12 + j)" using mult_div_mod_eq [of 12 m] by linarith
  have "(m + j) div 12 = m div 12 + (m mod 12 + j) div 12" by (subst m) (rule div_mult_self4, simp)
  moreover have "(m + j) mod 12 = (m mod 12 + j) mod 12" by (subst m) (rule mod_mult_self4)
  ultimately show ?thesis by (simp only: utcMonthDay_def Let_def add.assoc)
qed

lemma month_index: "k < 12 \<Longrightarrow> (12 * q + int k) div 12 = q" "k < 12 \<Longrightarrow> (12 * q + int k) mod 12 = int k"
  by (simp_all add: int_div_pos_eq int_mod_pos_eq)

lemma utcMonthDay_less: "utcMonthDay y m < utcMonthDay y (m + 1)"
proof -
  obtain q k where m: "m = 12 * q + int k" and k: "k < 12"
    by (rule that [of "m div 12" "nat (m mod 12)"]) simp_all
  have this_month: "utcMonthDay y m = dayFromYear (y + q) + monthOffsets (isLeap (y + q)) ! k"
    unfolding m utcMonthDay_def Let_def month_index [OF k] nat_int ..
  show ?thesis
  proof (cases "k = 11")
    case True
    then have "m + 1 = 12 * (q + 1) + int 0" by (simp add: m)
    then have "utcMonthDay y (m + 1) = dayFromYear (y + q + 1)"
      unfolding utcMonthDay_def Let_def using month_index [of 0 "q + 1"] by (simp add: ac_simps)
    moreover have "monthOffsets (isLeap (y + q)) ! 11 < 365" by (simp add: monthOffsets_def)
    ultimately show ?thesis using True this_month dayFromYear_step [of "y + q"] by auto
  next
    case False
    then have s: "Suc k < 12" "m + 1 = 12 * q + int (Suc k)" using k by (simp_all add: m)
    then have "utcMonthDay y (m + 1) = dayFromYear (y + q) + monthOffsets (isLeap (y + q)) ! Suc k"
      unfolding utcMonthDay_def Let_def s(2) month_index [OF s(1)] nat_int by simp
    then show ?thesis using this_month offsets(3) [OF k] s(1) by simp
  qed
qed

lemma month_contains: "utcMonthDay (yearFromDay d) (monthFromDay d) \<le> d \<and> d < utcMonthDay (yearFromDay d) (monthFromDay d + 1)"
proof -
  define y r xs where "y = yearFromDay d" and "r = d - dayFromYear y" and "xs = monthOffsets (isLeap y)"
  define n where "n = length (takeWhile (\<lambda>a. a \<le> r) xs)"
  have y: "dayFromYear y \<le> d" "d < dayFromYear (y + 1)" using yearFromDay [of d] by (simp_all add: y_def)
  have "takeWhile (\<lambda>a. a \<le> r) xs \<noteq> []" using y by (cases xs) (simp_all add: xs_def r_def monthOffsets_def split: if_splits)
  then have n: "0 < n" "n \<le> 12" unfolding n_def using length_takeWhile_le [of "\<lambda>a. a \<le> r" xs] by (simp_all add: xs_def)
  then have le: "xs ! (n - 1) \<le> r"
    using nth_mem [of "n - 1" "takeWhile (\<lambda>a. a \<le> r) xs"] by (auto simp: n_def takeWhile_nth dest!: set_takeWhileD)
  have m: "monthFromDay d = int n - 1" by (simp add: monthFromDay_def Let_def y_def r_def xs_def n_def)
  have first: "utcMonthDay y (int n - 1) = dayFromYear y + xs ! (n - 1)"
    using n by (simp add: utcMonthDay_def Let_def xs_def nat_diff_distrib)
  have "d < utcMonthDay y (int n)"
  proof (cases "n = 12")
    case True then show ?thesis using y(2) by (simp add: utcMonthDay_def Let_def)
  next
    case False
    then have "\<not> xs ! n \<le> r" using n nth_length_takeWhile [of "\<lambda>a. a \<le> r" xs] by (simp add: n_def xs_def)
    then show ?thesis using False n by (simp add: utcMonthDay_def Let_def xs_def r_def)
  qed
  then show ?thesis using le first unfolding m y_def [symmetric] by (simp add: r_def)
qed

section \<open>Buckets follow each other\<close>

lemma dayOf_utcMonth [simp]: "dayOf (utcMonth y m) = utcMonthDay y m"
  by (simp add: dayOf_def utcMonth_def MS_PER_DAY_def)

lemma utcMonth_shift: "utcMonth (y + m div 12) (m mod 12 + j) = utcMonth y (m + j)"
  by (simp add: utcMonth_def utcMonthDay_shift)

lemma monthBucket_bounds:
  "bk_start (monthBucket b (utcMonth y m) i) = utcMonth y (m + i)" "bk_end (monthBucket b (utcMonth y m) i) = utcMonth y (m + i + 1)"
proof -
  show s: "bk_start (monthBucket b (utcMonth y m) i) = utcMonth y (m + i)"
    by (simp add: monthBucket_def Let_def utcMonthDay_year utcMonthDay_month utcMonth_shift)
  then show "bk_end (monthBucket b (utcMonth y m) i) = utcMonth y (m + i + 1)"
    by (simp add: monthBucket_def Let_def utcMonthDay_year utcMonthDay_month utcMonth_shift)
qed

text \<open>A run of buckets without a gap: each starts where the one before it ends, after its own start.\<close>

fun chained :: "int \<Rightarrow> bucket list \<Rightarrow> int \<Rightarrow> bool" where
  "chained lo [] hi \<longleftrightarrow> lo = hi"
| "chained lo (b # bs) hi \<longleftrightarrow> bk_start b = lo \<and> lo < bk_end b \<and> chained (bk_end b) bs hi"

lemma chained_map:
  assumes "\<And>i. bk_start (f i) = g i" and "\<And>i. bk_end (f i) = g (Suc i)" and "\<And>i. g i < g (Suc i)"
  shows "chained (g k) (map f [k..<k + n]) (g (k + n))"
proof (induction n arbitrary: k)
  case (Suc n)
  have "[k..<k + Suc n] = k # [Suc k..<Suc k + n]" by (simp add: upt_conv_Cons)
  then show ?case using Suc.IH [of "Suc k"] assms by simp
qed simp

lemma chained_ends: "chained lo bs hi \<Longrightarrow> bs \<noteq> [] \<Longrightarrow> bk_start (hd bs) = lo \<and> bk_end (last bs) = hi"
  by (induction bs arbitrary: lo) (auto split: if_splits)

definition bucketBound :: "AnalyticsRange \<Rightarrow> int \<Rightarrow> nat \<Rightarrow> int" where
  "bucketBound rg t i =
     (case rg of
        Day \<Rightarrow> startOfUtcDay t + int i * 3600000
      | Days7 \<Rightarrow> startOfUtcDay t + (int i - 6) * MS_PER_DAY
      | Month \<Rightarrow> startOfUtcDay t + (int i - 29) * MS_PER_DAY
      | Months6 \<Rightarrow> utcMonth (yearFromDay (dayOf t)) (monthFromDay (dayOf t) - 5 + int i)
      | Year \<Rightarrow> utcMonth (yearFromDay (dayOf t)) (monthFromDay (dayOf t) - 11 + int i))"

lemma buckets_chain:
  "chained (bucketBound rg t 0) (buildBuckets rg t) (bucketBound rg t (fst (snd (rangeMeta rg))))"
proof -
  have up: "utcMonth y m < utcMonth y (1 + m)" for y m by (simp add: utcMonth_def MS_PER_DAY_def utcMonthDay_less add.commute [of 1])
  have mon: "chained (utcMonth y (m + int 0)) (map (\<lambda>i. monthBucket b (utcMonth y m) (int i)) [0..<0 + n]) (utcMonth y (m + int (0 + n)))" for y m b n
    by (rule chained_map [where g = "\<lambda>i. utcMonth y (m + int i)"]) (simp_all add: monthBucket_bounds ac_simps up)
  have st: "chained (a + int 0 * k) (map (\<lambda>i. stepBucket u a k (int i)) [0..<0 + n]) (a + int (0 + n) * k)" if "0 < k" for u a k n
    by (rule chained_map [where g = "\<lambda>i. a + int i * k"]) (use that in \<open>simp_all add: stepBucket_def Let_def algebra_simps\<close>)
  have pos: "0 < MS_PER_DAY" by (simp add: MS_PER_DAY_def)
  show ?thesis
    using st [of 3600000 "startOfUtcDay t" HourUnit 24] st [OF pos, of "startOfUtcDay t - 6 * MS_PER_DAY" DayUnit 7]
      st [OF pos, of "startOfUtcDay t - 29 * MS_PER_DAY" DayUnit 30]
      mon [of "yearFromDay (dayOf t)" "monthFromDay (dayOf t) - 5" False 6]
      mon [of "yearFromDay (dayOf t)" "monthFromDay (dayOf t) - 11" True 12]
    by (cases rg) (simp_all add: buildBuckets_def bucketBound_def Let_def algebra_simps del: upt_rec_numeral)
qed

end
