(* ===== verification/Finance.thy ===== *)
theory Finance
  imports Payments Delivery Paging Buckets
begin

text \<open>
  The read models of the dashboard: Wallet and Finance (src/wallet/admin-finance.service.ts) and the
  platform charts (src/admin-ops/analytics.service.ts).  An aggregate is a sum or a count over the
  filtered table; a grouped query over \<open>date_trunc\<close> gives one row per \<open>keyFor\<close> that occurs.  The
  exports are in BackOffice.  \<open>publicId\<close> is the identifier the database generates.
\<close>

section \<open>Stat cards\<close>

definition balancesOf :: "AccountType set \<Rightarrow> db \<Rightarrow> rat" where
  "balancesOf types s = sum_list (map acc_balance (filter (\<lambda>a. acc_type a \<in> types) (accounts s)))"

definition since :: "instant \<Rightarrow> instant option \<Rightarrow> bool" where
  "since t x \<longleftrightarrow> (case x of None \<Rightarrow> False | Some y \<Rightarrow> t \<le> y)"

definition inWindow :: "instant \<times> instant \<Rightarrow> instant option \<Rightarrow> bool" where
  "inWindow w x \<longleftrightarrow> (case x of None \<Rightarrow> False | Some y \<Rightarrow> fst w \<le> y \<and> y < snd w)"

definition rideCommission :: "(instant option \<Rightarrow> bool) \<Rightarrow> db \<Rightarrow> rat" where
  "rideCommission P s = sumOf rd_commissionAmount (filter (\<lambda>r. rd_status r = RideStatus.COMPLETED \<and> P (rd_completedAt r)) (rides s))"

definition deliveryCommission :: "(instant option \<Rightarrow> bool) \<Rightarrow> db \<Rightarrow> rat" where
  "deliveryCommission P s = sumOf dv_commissionAmount
     (filter (\<lambda>d. dv_status d = DeliveryStatus.COMPLETED \<and> P (dv_completedAt d)) (deliveries s))"

definition transactionVolume :: "(transaction \<Rightarrow> bool) \<Rightarrow> db \<Rightarrow> rat" where
  "transactionVolume P s = sum_list (map tx_amount (filter P (transactions s)))"

record FinanceStats =
  fs_walletPool :: rat
  fs_todayTopups :: rat
  fs_pendingCount :: nat
  fs_pendingAmount :: rat
  fs_platformCommissionToday :: rat
  fs_driversOutstanding :: rat
  fs_refundsThisWeek :: rat

definition financeStats :: "FinanceStats op" where
  "financeStats = gets (\<lambda>s.
     let today = startOfUtcDay (now s); weekAgo = now s - 7 * 86400000;
         pending = filter (\<lambda>w. wr_status w = TransactionStatus.PENDING) (withdrawalRequests s) in
     \<lparr>fs_walletPool = balancesOf {RIDER_WALLET, DRIVER_WALLET} s,
      fs_todayTopups = transactionVolume (\<lambda>t. tx_type t = WALLET_TOPUP \<and> tx_status t = TransactionStatus.COMPLETED
        \<and> since today (tx_completedAt t)) s,
      fs_pendingCount = length pending, fs_pendingAmount = sum_list (map wr_amount pending),
      fs_platformCommissionToday = rideCommission (since today) s + deliveryCommission (since today) s,
      fs_driversOutstanding = balancesOf {DRIVER_COMMISSION_PAYABLE} s,
      fs_refundsThisWeek = transactionVolume (\<lambda>t. tx_type t = REFUND \<and> weekAgo \<le> tx_createdAt t) s\<rparr>)"

section \<open>Lists and exports\<close>

definition withdrawalWhere :: "TransactionStatus option \<Rightarrow> withdrawalRequest \<Rightarrow> bool" where
  "withdrawalWhere status w \<longleftrightarrow> status = None \<or> status = Some (wr_status w)"

definition listWithdrawals :: "TransactionStatus option \<Rightarrow> int option \<Rightarrow> int option \<Rightarrow> (withdrawalRequest \<times> user option) paginated op" where
  "listWithdrawals status takeN skipN = gets (\<lambda>s.
     pageOf takeN skipN (map (\<lambda>w. (w, List.find (\<lambda>u. usr_id u = wr_driverId w) (users s)))
       (rev (filter (withdrawalWhere status) (withdrawalRequests s)))))"

record transactionQuery =
  xq_type :: "TransactionType option"
  xq_status :: "TransactionStatus option"
  xq_from :: "instant option"
  xq_to :: "instant option"
  xq_search :: "string option"

definition transactionWhere :: "(string \<Rightarrow> string) \<Rightarrow> transactionQuery \<Rightarrow> transaction \<Rightarrow> bool" where
  "transactionWhere publicId q t \<longleftrightarrow>
     (xq_type q = None \<or> xq_type q = Some (tx_type t)) \<and> (xq_status q = None \<or> xq_status q = Some (tx_status t))
     \<and> inRange (xq_from q) (xq_to q) (tx_createdAt t)
     \<and> (truthy (xq_search q) \<longrightarrow> containsInsensitive (the (xq_search q)) (publicId (tx_id t))
          \<or> containsInsensitive (the (xq_search q)) (tx_reference t))"

definition listTransactions :: "(string \<Rightarrow> string) \<Rightarrow> transactionQuery \<Rightarrow> int option \<Rightarrow> int option \<Rightarrow> transaction paginated op" where
  "listTransactions publicId q takeN skipN = gets (\<lambda>s.
     pageOf takeN skipN (rev (filter (transactionWhere publicId q) (transactions s))))"

section \<open>Charts\<close>

definition revenueByService :: "AnalyticsRange \<Rightarrow> (string \<times> rat) list op" where
  "revenueByService rg = gets (\<lambda>s. let w = rangeWindow rg (now s) in
     [(''RIDE'', rideCommission (inWindow w) s), (''DELIVERY'', deliveryCommission (inWindow w) s),
      (''KILOWATT'', transactionVolume (\<lambda>t. tx_type t = KILOWATT_PAYMENT \<and> tx_status t = TransactionStatus.COMPLETED
         \<and> inWindow w (tx_completedAt t)) s)])"

text \<open>\<open>SELECT key, SUM(value) ... GROUP BY 1\<close> over pairs of an instant and a value.\<close>

definition groupByBucket :: "BucketUnit \<Rightarrow> (instant \<times> rat) list \<Rightarrow> (string option \<times> rat) list" where
  "groupByBucket unit rows =
     map (\<lambda>k. (Some k, sum_list (map snd (filter (\<lambda>r. keyFor unit (fst r) = k) rows)))) (remdups (map (\<lambda>r. keyFor unit (fst r)) rows))"

text \<open>The rows whose instant lies in the window, with their value.\<close>

definition datedIn :: "instant \<times> instant \<Rightarrow> ('r \<Rightarrow> instant option) \<Rightarrow> ('r \<Rightarrow> rat) \<Rightarrow> 'r list \<Rightarrow> (instant \<times> rat) list" where
  "datedIn w date val rows = map (\<lambda>r. (the (date r), val r)) (filter (\<lambda>r. inWindow w (date r)) rows)"

definition topupTrend :: "AnalyticsRange \<Rightarrow> (string \<times> instant \<times> rat) list op" where
  "topupTrend rg = gets (\<lambda>s.
     foldSeries rg (groupByBucket (fst (rangeMeta rg)) (datedIn (rangeWindow rg (now s)) tx_completedAt tx_amount
       (filter (\<lambda>t. tx_type t = WALLET_TOPUP \<and> tx_status t = TransactionStatus.COMPLETED) (transactions s)))) (now s))"

definition countByBucket :: "BucketUnit \<Rightarrow> instant \<times> instant \<Rightarrow> ('r \<Rightarrow> instant option) \<Rightarrow> 'r list \<Rightarrow> (string option \<times> rat) list" where
  "countByBucket unit w date rows = groupByBucket unit (datedIn w date (\<lambda>_. 1) rows)"

definition sumByBucket :: "BucketUnit \<Rightarrow> instant \<times> instant \<Rightarrow> ('r \<Rightarrow> instant option) \<Rightarrow> ('r \<Rightarrow> rat option) \<Rightarrow> 'r list \<Rightarrow> (string option \<times> rat) list" where
  "sumByBucket unit w date val rows = groupByBucket unit (datedIn w date (\<lambda>r. orElse (val r) 0) rows)"

record seriesBucket =
  sb_label :: string
  sb_start :: instant
  sb_rides :: rat
  sb_deliveries :: rat

definition pairSeries :: "bucket list \<Rightarrow> (string option \<times> rat) list \<Rightarrow> (string option \<times> rat) list \<Rightarrow> seriesBucket list" where
  "pairSeries skeleton a b = map (\<lambda>k. \<lparr>sb_label = bk_label k, sb_start = bk_start k, sb_rides = valueOf a (bk_key k),
     sb_deliveries = valueOf b (bk_key k)\<rparr>) skeleton"

record growthBucket =
  gb_label :: string
  gb_start :: instant
  gb_drivers :: rat
  gb_riders :: rat

text \<open>The running totals over the skeleton.\<close>

fun growthLoop :: "(string option \<times> rat) list \<Rightarrow> (string option \<times> rat) list \<Rightarrow> rat \<Rightarrow> rat \<Rightarrow> bucket list \<Rightarrow> growthBucket list" where
  "growthLoop newDrivers newRiders drivers riders [] = []"
| "growthLoop newDrivers newRiders drivers riders (b # bs) =
     (let d = drivers + valueOf newDrivers (bk_key b); r = riders + valueOf newRiders (bk_key b) in
      \<lparr>gb_label = bk_label b, gb_start = bk_start b, gb_drivers = d, gb_riders = r\<rparr> # growthLoop newDrivers newRiders d r bs)"

definition userGrowth :: "AnalyticsRange \<Rightarrow> db \<Rightarrow> growthBucket list" where
  "userGrowth rg s =
     (let w = rangeWindow rg (now s); unit = fst (rangeMeta rg);
          ofRole = (\<lambda>r. filter (\<lambda>u. usr_role u = r) (users s));
          before = (\<lambda>r. of_nat (countWhere (\<lambda>u. usr_createdAt u < fst w) (ofRole r)));
          joined = (\<lambda>r. countByBucket unit w (\<lambda>u. Some (usr_createdAt u)) (ofRole r)) in
      growthLoop (joined DRIVER) (joined RIDER) (before DRIVER) (before RIDER) (buildBuckets rg (now s)))"

record PlatformAnalytics =
  pa_periodLabel :: string
  pa_trips :: "seriesBucket list"
  pa_revenue :: "seriesBucket list"
  pa_growth :: "growthBucket list"

definition platformAnalytics :: "AnalyticsRange \<Rightarrow> PlatformAnalytics op" where
  "platformAnalytics rg = gets (\<lambda>s.
     let w = rangeWindow rg (now s); unit = fst (rangeMeta rg); skeleton = buildBuckets rg (now s) in
     \<lparr>pa_periodLabel = snd (snd (rangeMeta rg)),
      pa_trips = pairSeries skeleton (countByBucket unit w (\<lambda>r. Some (rd_requestedAt r)) (rides s))
        (countByBucket unit w (\<lambda>d. Some (dv_requestedAt d)) (deliveries s)),
      pa_revenue = pairSeries skeleton
        (sumByBucket unit w rd_completedAt rd_commissionAmount (filter (\<lambda>r. rd_status r = RideStatus.COMPLETED) (rides s)))
        (sumByBucket unit w dv_completedAt dv_commissionAmount (filter (\<lambda>d. dv_status d = DeliveryStatus.COMPLETED) (deliveries s))),
      pa_growth = userGrowth rg s\<rparr>)"

end
