(* ===== verification/Clients.thy ===== *)
theory Clients
  imports Staff
begin

text \<open>
  The clients of outside services that the back office uses: push messages
  (integrations/fcm/fcm.service.ts), object storage (integrations/r2/r2.service.ts) and identity
  checks (integrations/smile-identity/smile-identity.service.ts).  What the other side answers is a
  field of the record \<open>clients\<close>; a field that is \<open>None\<close> is a client that is not configured.
\<close>

record jobAnswer =
  ja_ok :: bool
  ja_error :: "string option"
  ja_statusText :: string
  ja_jobId :: "string option"
  ja_smileJobId :: "string option"
  ja_raw :: string

record clients =
  cl_multicast :: "(string list \<Rightarrow> string \<Rightarrow> string \<Rightarrow> error + string option list) option"
  cl_putObject :: "(string \<Rightarrow> error option) option"
  cl_signUrl :: "string \<Rightarrow> int \<Rightarrow> error + string"
  cl_identity :: "(string \<Rightarrow> string \<Rightarrow> (string \<times> string) list \<Rightarrow> error + jobAnswer) option"

text \<open>An answer that may be a rejection.\<close>

definition answer :: "error + 'a \<Rightarrow> 'a op" where
  "answer r = (case r of Inl e \<Rightarrow> throw e | Inr x \<Rightarrow> return x)"

lemma wp_answer [wp_simps]: "wp (answer r) Q E s = (case r of Inl e \<Rightarrow> E e s | Inr x \<Rightarrow> Q x s)"
  by (simp add: answer_def wp_simps split: sum.split)

lemma run_answer [run_simps]:
  "answer r s = (r, s)" "bind (answer r) f s = (case r of Inl e \<Rightarrow> (Inl e, s) | Inr x \<Rightarrow> f x s)"
  by (simp_all add: answer_def action_defs split: sum.split)

lemma keeps_answer [keeps_intros]: "keeps I (answer r)"
  by (simp add: answer_def keeps_return keeps_throw split: sum.split)

section \<open>Push messages\<close>

record pushSendResult =
  ps_successTokens :: "string list"
  ps_invalidTokens :: "string list"

definition deadToken :: "string option \<Rightarrow> bool" where
  "deadToken code \<longleftrightarrow> code = Some ''messaging/registration-token-not-registered''
     \<or> code = Some ''messaging/invalid-registration-token''"

definition sendToTokens :: "clients \<Rightarrow> string list \<Rightarrow> string \<Rightarrow> string \<Rightarrow> pushSendResult op" where
  "sendToTokens cl tokens title body =
     (case cl_multicast cl of
        None \<Rightarrow> return \<lparr>ps_successTokens = [], ps_invalidTokens = []\<rparr>
      | Some multicast \<Rightarrow>
          if tokens = [] then return \<lparr>ps_successTokens = [], ps_invalidTokens = []\<rparr> else
          andThen (push (PushToDevices tokens title body))
          (bind (answer (multicast tokens title body)) (\<lambda>responses.
           return \<lparr>ps_successTokens = map fst (filter (\<lambda>(t, c). c = None) (zip tokens responses)),
                   ps_invalidTokens = map fst (filter (\<lambda>(t, c). deadToken c) (zip tokens responses))\<rparr>)))"

section \<open>Object storage\<close>

definition DEFAULT_SIGNED_URL_TTL_SECONDS :: int where "DEFAULT_SIGNED_URL_TTL_SECONDS = 300"

definition uploadObject :: "clients \<Rightarrow> string \<Rightarrow> unit op" where
  "uploadObject cl key =
     (case cl_putObject cl of
        None \<Rightarrow> throw (ServiceUnavailableException ''Object storage is not configured'')
      | Some put \<Rightarrow> (case put key of Some e \<Rightarrow> throw e | None \<Rightarrow> push (UploadObject key)))"

definition getSignedReadUrl :: "clients \<Rightarrow> string \<Rightarrow> int \<Rightarrow> string op" where
  "getSignedReadUrl cl key expiresInSeconds =
     (case cl_putObject cl of
        None \<Rightarrow> throw (ServiceUnavailableException ''Object storage is not configured'')
      | Some put \<Rightarrow> answer (cl_signUrl cl key expiresInSeconds))"

section \<open>Identity checks\<close>

definition submitJob :: "clients \<Rightarrow> string \<Rightarrow> string \<Rightarrow> (string \<times> string) list \<Rightarrow> (string \<times> string) op" where
  "submitJob cl jobType driverId payload =
     (case cl_identity cl of
        None \<Rightarrow> throw (ServiceUnavailableException ''Identity verification is not configured'')
      | Some post \<Rightarrow>
          bind (answer (post jobType driverId payload)) (\<lambda>json.
          andThen (ensure (ja_ok json)
             (BadGatewayException (''Smile Identity request failed: '' @ orElse (ja_error json) (ja_statusText json))))
          (return (orElse (ja_jobId json) (orElse (ja_smileJobId json) []), ja_raw json))))"

definition submitFacialVerification :: "clients \<Rightarrow> string \<Rightarrow> string \<Rightarrow> (string \<times> string) op" where
  "submitFacialVerification cl driverId selfie = submitJob cl ''facial'' driverId [(''selfie_image'', selfie)]"

definition submitGovernmentIdVerification :: "clients \<Rightarrow> string \<Rightarrow> string \<Rightarrow> string \<Rightarrow> (string \<times> string) op" where
  "submitGovernmentIdVerification cl driverId idType idNumber =
     submitJob cl ''government_id'' driverId [(''id_type'', idType), (''id_number'', idNumber)]"

end
