(* ===== verification/Notify.thy ===== *)
theory Notify
  imports Clients Paging
begin

text \<open>
  Notifications, src/notifications: the in-app rows, the preferences (a pair without a row is
  enabled), the devices and the push to them (notifications.service.ts), and the campaigns with their
  fan-out job (notifications.processor.ts).  A segment is the pair of its role and its user ids; the
  queue's delayed job is the outbox message \<open>FanOutCampaignAt\<close> with the instant it runs at.
\<close>

section \<open>Sending\<close>

definition isChannelEnabled :: "string \<Rightarrow> string \<Rightarrow> NotificationChannel \<Rightarrow> bool op" where
  "isChannelEnabled userId category channel =
     gets (\<lambda>s. case List.find (\<lambda>p. np_userId p = userId \<and> np_category p = category \<and> np_channel p = channel)
       (notificationPreferences s) of None \<Rightarrow> True | Some p \<Rightarrow> np_enabled p)"

definition createNotification :: "string \<Rightarrow> string \<Rightarrow> string \<Rightarrow> string \<Rightarrow> string option \<Rightarrow> notification op" where
  "createNotification userId category title body campaignId =
     bind freshId (\<lambda>i.
      let n = \<lparr>nt_id = i, nt_userId = userId, nt_category = category, nt_title = title, nt_body = body,
               nt_readAt = None, nt_campaignId = campaignId\<rparr> in
      andThen (modify (\<lambda>s. s\<lparr>notifications := notifications s @ [n]\<rparr>)) (return n))"

definition pushToUser :: "clients \<Rightarrow> string \<Rightarrow> string \<Rightarrow> string \<Rightarrow> unit op" where
  "pushToUser cl userId title body =
     bind (gets (\<lambda>s. filter (\<lambda>t. dt_userId t = userId) (deviceTokens s))) (\<lambda>tokens.
     onlyIf (tokens \<noteq> [])
       (bind (sendToTokens cl (map dt_token tokens) title body) (\<lambda>sent.
        onlyIf (ps_invalidTokens sent \<noteq> [])
          (modify (\<lambda>s. s\<lparr>deviceTokens := filter (\<lambda>t. dt_token t \<notin> set (ps_invalidTokens sent)) (deviceTokens s)\<rparr>)))))"

definition sendNotification :: "clients \<Rightarrow> string \<Rightarrow> string \<Rightarrow> string \<Rightarrow> string \<Rightarrow> string option \<Rightarrow> notification op" where
  "sendNotification cl userId category title body campaignId =
     bind (createNotification userId category title body campaignId) (\<lambda>n.
     bind (isChannelEnabled userId category PUSH) (\<lambda>pushEnabled.
     andThen (onlyIf pushEnabled (pushToUser cl userId title body))
     (return n)))"

text \<open>\<open>notify\<close> logs a failure instead of throwing it.\<close>

definition notify :: "clients \<Rightarrow> string \<Rightarrow> string \<Rightarrow> string \<Rightarrow> string \<Rightarrow> unit op" where
  "notify cl userId category title body =
     tryCatch (bind (sendNotification cl userId category title body None) (\<lambda>_. return ())) (\<lambda>_. return ())"

section \<open>The inbox\<close>

definition listNotifications :: "string \<Rightarrow> int \<Rightarrow> int \<Rightarrow> notification list op" where
  "listNotifications userId limit skip =
     gets (\<lambda>s. take (nat limit) (drop (nat skip) (rev (filter (\<lambda>n. nt_userId n = userId) (notifications s)))))"

definition unreadCount :: "string \<Rightarrow> nat op" where
  "unreadCount userId = gets (\<lambda>s. countWhere (\<lambda>n. nt_userId n = userId \<and> nt_readAt n = None) (notifications s))"

definition deleteNotification :: "string \<Rightarrow> string \<Rightarrow> bool op" where
  "deleteNotification userId notificationId =
     bind (gets (\<lambda>s. countWhere (\<lambda>n. nt_id n = notificationId \<and> nt_userId n = userId) (notifications s))) (\<lambda>count.
     andThen (modify (\<lambda>s. s\<lparr>notifications := filter (\<lambda>n. \<not> (nt_id n = notificationId \<and> nt_userId n = userId)) (notifications s)\<rparr>))
     (return (0 < count)))"

definition readWhere :: "(notification \<Rightarrow> bool) \<Rightarrow> nat op" where
  "readWhere P =
     bind (gets (\<lambda>s. countWhere P (notifications s))) (\<lambda>count.
     bind (gets now) (\<lambda>t.
     andThen (modify (\<lambda>s. s\<lparr>notifications := updateWhere P (\<lambda>n. n\<lparr>nt_readAt := Some t\<rparr>) (notifications s)\<rparr>))
     (return count)))"

definition markRead :: "string \<Rightarrow> string \<Rightarrow> bool op" where
  "markRead userId notificationId =
     bind (readWhere (\<lambda>n. nt_id n = notificationId \<and> nt_userId n = userId)) (\<lambda>count. return (0 < count))"

definition markAllRead :: "string \<Rightarrow> nat op" where
  "markAllRead userId = readWhere (\<lambda>n. nt_userId n = userId \<and> nt_readAt n = None)"

section \<open>Preferences and devices\<close>

definition getPreferences :: "string \<Rightarrow> notificationPreference list op" where
  "getPreferences userId = gets (\<lambda>s. filter (\<lambda>p. np_userId p = userId) (notificationPreferences s))"

definition upsertPreference :: "string \<Rightarrow> string \<times> NotificationChannel \<times> bool \<Rightarrow> unit op" where
  "upsertPreference userId u = (case u of (category, channel, enabled) \<Rightarrow>
     (let same = (\<lambda>p. np_userId p = userId \<and> np_category p = category \<and> np_channel p = channel) in
      modify (\<lambda>s. if \<exists>p \<in> set (notificationPreferences s). same p
        then s\<lparr>notificationPreferences := updateWhere same (\<lambda>p. p\<lparr>np_enabled := enabled\<rparr>) (notificationPreferences s)\<rparr>
        else s\<lparr>notificationPreferences := notificationPreferences s @
          [\<lparr>np_userId = userId, np_category = category, np_channel = channel, np_enabled = enabled\<rparr>]\<rparr>)))"

definition updatePreferences :: "string \<Rightarrow> (string \<times> NotificationChannel \<times> bool) list \<Rightarrow> notificationPreference list op" where
  "updatePreferences userId updates =
     andThen (atomic (forEach updates (upsertPreference userId))) (getPreferences userId)"

definition registerDevice :: "string \<Rightarrow> string \<Rightarrow> string \<Rightarrow> unit op" where
  "registerDevice userId token platform =
     modify (\<lambda>s. if \<exists>t \<in> set (deviceTokens s). dt_token t = token
       then s\<lparr>deviceTokens := updateWhere (\<lambda>t. dt_token t = token) (\<lambda>t. t\<lparr>dt_userId := userId, dt_platform := platform\<rparr>) (deviceTokens s)\<rparr>
       else s\<lparr>deviceTokens := deviceTokens s @ [\<lparr>dt_userId = userId, dt_token = token, dt_platform = platform\<rparr>]\<rparr>)"

definition unregisterDevice :: "string \<Rightarrow> string \<Rightarrow> unit op" where
  "unregisterDevice userId token =
     modify (\<lambda>s. s\<lparr>deviceTokens := filter (\<lambda>t. \<not> (dt_token t = token \<and> dt_userId t = userId)) (deviceTokens s)\<rparr>)"

section \<open>Campaigns\<close>

type_synonym segment = "UserRole option \<times> string list"

definition createCampaign :: "string \<Rightarrow> string \<Rightarrow> string \<Rightarrow> string \<Rightarrow> segment \<Rightarrow> instant option \<Rightarrow> notificationCampaign op" where
  "createCampaign createdById title body category segment scheduledFor =
     bind freshId (\<lambda>i. bind (gets now) (\<lambda>t.
      let c = \<lparr>nc_id = i, nc_title = title, nc_body = body, nc_category = category, nc_role = fst segment,
               nc_userIds = snd segment, nc_scheduledFor = scheduledFor, nc_createdById = createdById, nc_sentAt = None,
               nc_createdAt = t\<rparr>;
          delay = (case scheduledFor of None \<Rightarrow> 0 | Some due \<Rightarrow> max 0 (due - t)) in
      andThen (modify (\<lambda>s. s\<lparr>campaigns := campaigns s @ [c]\<rparr>))
      (andThen (push (FanOutCampaignAt (t + delay) i))
      (return c))))"

definition broadcast :: "string \<Rightarrow> string \<Rightarrow> string \<Rightarrow> string \<Rightarrow> notificationCampaign op" where
  "broadcast createdById title body category = createCampaign createdById title body category (None, []) None"

definition targeted :: "string \<Rightarrow> string \<Rightarrow> string \<Rightarrow> string \<Rightarrow> segment \<Rightarrow> notificationCampaign op" where
  "targeted createdById title body category segment = createCampaign createdById title body category segment None"

definition schedule :: "string \<Rightarrow> string \<Rightarrow> string \<Rightarrow> string \<Rightarrow> segment \<Rightarrow> instant \<Rightarrow> notificationCampaign op" where
  "schedule createdById title body category segment due = createCampaign createdById title body category segment (Some due)"

record historyQuery =
  hq_category :: "string option"
  hq_campaignId :: "string option"
  hq_from :: "instant option"
  hq_to :: "instant option"
  hq_take :: "int option"
  hq_skip :: "int option"

definition history :: "historyQuery \<Rightarrow> (notificationCampaign \<times> nat) paginated op" where
  "history q = gets (\<lambda>s.
     pageOf (hq_take q) (hq_skip q)
       (map (\<lambda>c. (c, countWhere (\<lambda>n. nt_campaignId n = Some (nc_id c)) (notifications s)))
         (rev (filter (\<lambda>c. (truthy (hq_category q) \<longrightarrow> Some (nc_category c) = hq_category q)
            \<and> (truthy (hq_campaignId q) \<longrightarrow> Some (nc_id c) = hq_campaignId q)
            \<and> inRange (hq_from q) (hq_to q) (nc_createdAt c)) (campaigns s)))))"

definition recipients :: "notificationCampaign \<Rightarrow> db \<Rightarrow> string list" where
  "recipients c s = map usr_id (filter (\<lambda>u.
     if nc_userIds c \<noteq> [] then usr_id u \<in> set (nc_userIds c)
     else (case nc_role c of Some r \<Rightarrow> usr_role u = r | None \<Rightarrow> True)) (users s))"

text \<open>The job of the queue; the campaign's own columns are read once, at its start.\<close>

definition processCampaign :: "clients \<Rightarrow> string \<Rightarrow> unit op" where
  "processCampaign cl campaignId =
     bind (gets (\<lambda>s. List.find (\<lambda>c. nc_id c = campaignId) (campaigns s))) (\<lambda>found.
     bind (orThrow found RecordNotFound) (\<lambda>c.
     bind (gets (recipients c)) (\<lambda>ids.
     andThen (forEach ids (\<lambda>i. bind (sendNotification cl i (nc_category c) (nc_title c) (nc_body c) (Some (nc_id c))) (\<lambda>_. return ())))
     (bind (gets now) (\<lambda>t.
      modify (\<lambda>s. s\<lparr>campaigns := updateWhere (\<lambda>c. nc_id c = campaignId) (\<lambda>c. c\<lparr>nc_sentAt := Some t\<rparr>) (campaigns s)\<rparr>))))))"

end
