(* ===== verification/Kyc.thy ===== *)
theory Kyc
  imports Notify
begin

text \<open>
  Driver checks, src/kyc: documents and automated verifications (kyc.service.ts), and the guarantor
  with the public form (guarantor.service.ts).  Rows are oldest first, so the latest of a type is the
  first of the reversed table.  A file is its original name.
\<close>

section \<open>Documents\<close>

definition REQUIRED_DOCUMENT_TYPES :: "KycDocumentType list" where
  "REQUIRED_DOCUMENT_TYPES = [LICENSE, VEHICLE_REGISTRATION, ROADWORTHINESS, HACKNEY_PERMIT]"

fun documentTypeName :: "KycDocumentType \<Rightarrow> string" where
  "documentTypeName LICENSE = ''LICENSE''"
| "documentTypeName VEHICLE_REGISTRATION = ''VEHICLE_REGISTRATION''"
| "documentTypeName ROADWORTHINESS = ''ROADWORTHINESS''"
| "documentTypeName HACKNEY_PERMIT = ''HACKNEY_PERMIT''"

definition uploadDocument :: "clients \<Rightarrow> string \<Rightarrow> KycDocumentType \<Rightarrow> string \<Rightarrow> kycDocument op" where
  "uploadDocument cl driverId type file =
     bind freshId (\<lambda>key.
     let fileKey = ''kyc/'' @ driverId @ ''/'' @ documentTypeName type @ ''/'' @ key @ ''-'' @ file in
     andThen (uploadObject cl fileKey)
     (bind freshId (\<lambda>i. bind (gets now) (\<lambda>t.
      let d = \<lparr>kd_id = i, kd_driverId = driverId, kd_type = type, kd_fileKey = fileKey, kd_status = KycStatus.PENDING,
               kd_rejectionReason = None, kd_reviewedById = None, kd_reviewedAt = None, kd_createdAt = t\<rparr> in
      andThen (modify (\<lambda>s. s\<lparr>kycDocuments := kycDocuments s @ [d]\<rparr>)) (return d)))))"

definition storeVerification :: "string \<Rightarrow> KycVerificationType \<Rightarrow> string \<times> string \<Rightarrow> kycVerification op" where
  "storeVerification driverId type res =
     bind freshId (\<lambda>i.
      let v = \<lparr>kv_id = i, kv_driverId = driverId, kv_type = type, kv_providerReference = Some (fst res),
               kv_status = KycStatus.PENDING, kv_rawResult = Some (snd res)\<rparr> in
      andThen (modify (\<lambda>s. s\<lparr>kycVerifications := kycVerifications s @ [v]\<rparr>)) (return v))"

definition submitFacial :: "clients \<Rightarrow> string \<Rightarrow> string \<Rightarrow> kycVerification op" where
  "submitFacial cl driverId selfie =
     bind (submitFacialVerification cl driverId selfie) (storeVerification driverId FACIAL)"

definition submitGovernmentId :: "clients \<Rightarrow> string \<Rightarrow> string \<Rightarrow> string \<Rightarrow> kycVerification op" where
  "submitGovernmentId cl driverId idType idNumber =
     bind (submitGovernmentIdVerification cl driverId idType idNumber) (storeVerification driverId GOVERNMENT_ID)"

text \<open>The first row of each type in a list, newest first: the \<open>Map\<close> filled in one pass.\<close>

fun latestPer :: "('r \<Rightarrow> 'k) \<Rightarrow> 'k list \<Rightarrow> 'r list \<Rightarrow> 'r list" where
  "latestPer key seen [] = []"
| "latestPer key seen (r # rs) =
     (if key r \<in> set seen then latestPer key seen rs else r # latestPer key (key r # seen) rs)"

definition statusOfType :: "('r \<Rightarrow> 'k) \<Rightarrow> ('r \<Rightarrow> KycStatus) \<Rightarrow> 'r list \<Rightarrow> 'k \<Rightarrow> KycStatus option" where
  "statusOfType key status rows k = map_option status (List.find (\<lambda>r. key r = k) rows)"

record kycStatusView =
  kw_overall :: KycStatus
  kw_documents :: "kycDocument list"
  kw_verifications :: "kycVerification list"

definition overallOf :: "KycStatus option list \<Rightarrow> KycStatus" where
  "overallOf requiredStatuses =
     (if Some KycStatus.REJECTED \<in> set requiredStatuses then KycStatus.REJECTED
      else if \<forall>x \<in> set requiredStatuses. x = Some KycStatus.APPROVED then KycStatus.APPROVED
      else KycStatus.PENDING)"

definition kycStatusOf :: "db \<Rightarrow> string \<Rightarrow> kycStatusView" where
  "kycStatusOf s driverId =
     (let docs = latestPer kd_type [] (rev (filter (\<lambda>d. kd_driverId d = driverId) (kycDocuments s)));
          vers = latestPer kv_type [] (rev (filter (\<lambda>v. kv_driverId v = driverId) (kycVerifications s))) in
      \<lparr>kw_overall = overallOf (map (statusOfType kd_type kd_status docs) REQUIRED_DOCUMENT_TYPES
          @ [statusOfType kv_type kv_status vers FACIAL, statusOfType kv_type kv_status vers GOVERNMENT_ID]),
       kw_documents = docs, kw_verifications = vers\<rparr>)"

definition getKycStatus :: "string \<Rightarrow> kycStatusView op" where
  "getKycStatus driverId = gets (\<lambda>s. kycStatusOf s driverId)"

text \<open>\<open>updateMany\<close> over the driver's pending documents; returns their number.\<close>

definition reviewPending :: "string \<Rightarrow> (instant \<Rightarrow> kycDocument \<Rightarrow> kycDocument) \<Rightarrow> nat op" where
  "reviewPending driverId f =
     (let waiting = (\<lambda>d. kd_driverId d = driverId \<and> kd_status d = KycStatus.PENDING) in
      bind (gets (\<lambda>s. countWhere waiting (kycDocuments s))) (\<lambda>count.
      bind (gets now) (\<lambda>t.
      andThen (modify (\<lambda>s. s\<lparr>kycDocuments := updateWhere waiting (f t) (kycDocuments s)\<rparr>)) (return count))))"

definition approveKyc :: "string \<Rightarrow> string \<Rightarrow> nat op" where
  "approveKyc driverId reviewerId =
     bind (reviewPending driverId (\<lambda>t d. d\<lparr>kd_status := KycStatus.APPROVED, kd_reviewedById := Some reviewerId, kd_reviewedAt := Some t\<rparr>)) (\<lambda>count.
     andThen (audit (Some reviewerId) ''kyc.approve'' ''User'' (Some driverId)) (return count))"

definition rejectKyc :: "string \<Rightarrow> string \<Rightarrow> string \<Rightarrow> nat op" where
  "rejectKyc driverId reviewerId reason =
     bind (reviewPending driverId (\<lambda>t d. d\<lparr>kd_status := KycStatus.REJECTED, kd_rejectionReason := Some reason,
        kd_reviewedById := Some reviewerId, kd_reviewedAt := Some t\<rparr>)) (\<lambda>count.
     andThen (audit (Some reviewerId) ''kyc.reject'' ''User'' (Some driverId)) (return count))"

record pendingRow =
  pw_user :: user
  pw_pendingDocuments :: nat
  pw_submittedAt :: instant

text \<open>The review queue: one group per driver, oldest pending document first; the page is cut before the users are joined.\<close>

definition pendingGroups :: "db \<Rightarrow> (string \<times> nat \<times> instant) list" where
  "pendingGroups s =
     (let pending = filter (\<lambda>d. kd_status d = KycStatus.PENDING) (kycDocuments s) in
      sort_key (\<lambda>(i, n, t). t) (map (\<lambda>i. (i, countWhere (\<lambda>d. kd_driverId d = i) pending,
        Min (set (map kd_createdAt (filter (\<lambda>d. kd_driverId d = i) pending))))) (remdups (map kd_driverId pending))))"

definition listPendingKyc :: "int \<Rightarrow> int \<Rightarrow> (pendingRow paginated \<times> nat \<times> nat) op" where
  "listPendingKyc limit skip = gets (\<lambda>s.
     (toPaginated (List.map_filter (\<lambda>(i, n, t). map_option (\<lambda>u. \<lparr>pw_user = u, pw_pendingDocuments = n, pw_submittedAt = t\<rparr>)
          (List.find (\<lambda>u. usr_id u = i) (users s))) (take (nat limit) (drop (nat skip) (pendingGroups s))))
        (int (length (pendingGroups s))) (Some limit) (Some skip),
      length (pendingGroups s), countWhere (\<lambda>d. kd_status d = KycStatus.PENDING) (kycDocuments s)))"

definition getSignedDocumentUrl :: "clients \<Rightarrow> string \<Rightarrow> string op" where
  "getSignedDocumentUrl cl documentId =
     bind (gets (\<lambda>s. List.find (\<lambda>d. kd_id d = documentId) (kycDocuments s))) (\<lambda>found.
     bind (orThrow found (NotFoundException ''Document not found'')) (\<lambda>d.
     getSignedReadUrl cl (kd_fileKey d) DEFAULT_SIGNED_URL_TTL_SECONDS))"

section \<open>Guarantors\<close>

definition GUARANTOR_INVITE_TTL_MS :: int where "GUARANTOR_INVITE_TTL_MS = 14 * 24 * 60 * 60 * 1000"

definition latestGuarantor :: "string \<Rightarrow> guarantor option op" where
  "latestGuarantor driverId = gets (\<lambda>s. List.find (\<lambda>g. gu_driverId g = driverId) (rev (guarantors s)))"

definition updateGuarantor :: "string \<Rightarrow> (guarantor \<Rightarrow> guarantor) \<Rightarrow> guarantor op" where
  "updateGuarantor i f =
     andThen (modify (\<lambda>s. s\<lparr>guarantors := updateWhere (\<lambda>g. gu_id g = i) f (guarantors s)\<rparr>))
     (bind (gets (\<lambda>s. List.find (\<lambda>g. gu_id g = i) (guarantors s))) (\<lambda>found. orThrow found RecordNotFound))"

definition personName :: "user \<Rightarrow> string" where
  "personName u = usr_firstName u @ '' '' @ usr_lastName u"

record inviteDto =
  in_fullName :: string
  in_email :: "string option"
  in_phone :: "string option"

definition insertGuarantor :: "(string \<Rightarrow> string) \<Rightarrow> string \<Rightarrow> inviteDto \<Rightarrow> string \<Rightarrow> instant \<Rightarrow> guarantor op" where
  "insertGuarantor hashToken driverId dto rawToken t =
     bind freshId (\<lambda>i.
      let g = \<lparr>gu_id = i, gu_driverId = driverId, gu_fullName = Some (in_fullName dto), gu_email = in_email dto,
               gu_phone = in_phone dto, gu_relationship = None, gu_address = None, gu_occupation = None, gu_idType = None,
               gu_idNumber = None, gu_idDocumentKey = None, gu_proofOfAddressKey = None, gu_status = INVITED,
               gu_tokenHash = hashToken rawToken, gu_expiresAt = t + GUARANTOR_INVITE_TTL_MS, gu_submittedAt = None,
               gu_reviewedById = None, gu_reviewedAt = None, gu_rejectionReason = None\<rparr> in
      andThen (modify (\<lambda>s. s\<lparr>guarantors := guarantors s @ [g]\<rparr>)) (return g))"

text \<open>An absent e-mail or phone of the form is \<open>undefined\<close>, which \<open>update\<close> leaves as it was.\<close>

definition saveInvite :: "(string \<Rightarrow> string) \<Rightarrow> string \<Rightarrow> inviteDto \<Rightarrow> string \<Rightarrow> guarantor option \<Rightarrow> guarantor op" where
  "saveInvite hashToken driverId dto rawToken existing =
     bind (gets now) (\<lambda>t.
     bind (gets (\<lambda>s. List.find (\<lambda>g. gu_tokenHash g = hashToken rawToken) (guarantors s))) (\<lambda>clash.
     andThen (ensure (clash = None) UniqueViolation)
     (case existing of
        None \<Rightarrow> insertGuarantor hashToken driverId dto rawToken t
      | Some old \<Rightarrow>
          if gu_status old = INVITED
          then updateGuarantor (gu_id old) (\<lambda>g. g\<lparr>gu_fullName := Some (in_fullName dto), gu_email := keptOr (in_email dto) (gu_email g),
             gu_phone := keptOr (in_phone dto) (gu_phone g), gu_tokenHash := hashToken rawToken,
             gu_expiresAt := t + GUARANTOR_INVITE_TTL_MS, gu_status := INVITED\<rparr>)
          else insertGuarantor hashToken driverId dto rawToken t)))"

definition guarantorUrl :: "string option \<Rightarrow> string \<Rightarrow> string" where
  "guarantorUrl appUrl rawToken = orElse appUrl ''http://localhost:5176'' @ ''/guarantor/'' @ rawToken"

text \<open>\<open>.catch(log)\<close>: a rejected message does not fail the invitation.\<close>

definition sendQuietly :: "authEnv \<Rightarrow> effect \<Rightarrow> unit op" where
  "sendQuietly env e = tryCatch (send env e) (\<lambda>_. return ())"

definition inviteGuarantor :: "authEnv \<Rightarrow> string option \<Rightarrow> string \<Rightarrow> inviteDto \<Rightarrow> guarantor op" where
  "inviteGuarantor env appUrl driverId dto =
     andThen (ensure (truthy (in_email dto) \<or> truthy (in_phone dto)) (BadRequestException ''At least one of email or phone is required''))
     (bind (latestGuarantor driverId) (\<lambda>existing.
      andThen (ensure (map_option gu_status existing \<noteq> Some SUBMITTED) (ConflictException ''A guarantor submission is already awaiting review''))
      (andThen (ensure (map_option gu_status existing \<noteq> Some VERIFIED) (ConflictException ''Your guarantor has already been verified''))
      (bind freshId (\<lambda>rawToken.
       bind (saveInvite (ae_hashToken env) driverId dto rawToken existing) (\<lambda>g.
       bind (findUser (\<lambda>u. usr_id u = driverId)) (\<lambda>found.
       bind (orThrow found RecordNotFound) (\<lambda>driver.
       andThen (onlyIf (truthy (in_email dto))
         (sendQuietly env (EmailGuarantorInvite (the (in_email dto)) (personName driver) (guarantorUrl appUrl rawToken))))
       (andThen (onlyIf (truthy (in_phone dto))
         (sendQuietly env (SmsMessage (the (in_phone dto)) (personName driver
            @ '' has listed you as a guarantor on Kilo. Complete the form: '' @ guarantorUrl appUrl rawToken))))
       (return g))))))))))"

text \<open>\<open>None\<close> is the answer \<open>NOT_INVITED\<close>.\<close>

definition getGuarantorStatus :: "string \<Rightarrow> guarantor option op" where
  "getGuarantorStatus driverId = latestGuarantor driverId"

definition findByTokenOrThrow :: "(string \<Rightarrow> string) \<Rightarrow> string \<Rightarrow> guarantor op" where
  "findByTokenOrThrow hashToken token =
     bind (gets (\<lambda>s. List.find (\<lambda>g. gu_tokenHash g = hashToken token) (guarantors s))) (\<lambda>found.
     orThrow found (NotFoundException ''Invalid guarantor link''))"

definition findGuarantorOrThrow :: "string \<Rightarrow> guarantor op" where
  "findGuarantorOrThrow i =
     bind (gets (\<lambda>s. List.find (\<lambda>g. gu_id g = i) (guarantors s))) (\<lambda>found.
     orThrow found (NotFoundException ''Guarantor not found''))"

definition getPublicContext :: "(string \<Rightarrow> string) \<Rightarrow> string \<Rightarrow> (string \<times> GuarantorStatus \<times> bool) op" where
  "getPublicContext hashToken token =
     bind (findByTokenOrThrow hashToken token) (\<lambda>g.
     bind (findUser (\<lambda>u. usr_id u = gu_driverId g)) (\<lambda>found.
     bind (orThrow found RecordNotFound) (\<lambda>driver.
     gets (\<lambda>s. (personName driver, gu_status g, gu_status g = INVITED \<and> now s < gu_expiresAt g)))))"

record submitDto =
  sm_fullName :: string
  sm_relationship :: string
  sm_address :: string
  sm_occupation :: string
  sm_idType :: string
  sm_idNumber :: string

text \<open>\<open>shown\<close> is the decimal text of \<open>Date.now()\<close> in the key of a file.\<close>

definition guarantorKey :: "(instant \<Rightarrow> string) \<Rightarrow> string \<Rightarrow> string \<Rightarrow> instant \<Rightarrow> string \<Rightarrow> string" where
  "guarantorKey shown i folder t file = ''guarantor/'' @ i @ ''/'' @ folder @ ''/'' @ shown t @ ''-'' @ file"

definition submitGuarantor :: "clients \<Rightarrow> (string \<Rightarrow> string) \<Rightarrow> (instant \<Rightarrow> string) \<Rightarrow> string \<Rightarrow> submitDto
    \<Rightarrow> string option \<Rightarrow> string option \<Rightarrow> guarantor op" where
  "submitGuarantor cl hashToken shown token dto idDocument proofOfAddress =
     bind (findByTokenOrThrow hashToken token) (\<lambda>g.
     andThen (ensure (gu_status g = INVITED) (ConflictException ''This guarantor form has already been submitted''))
     (bind (gets now) (\<lambda>t.
      andThen (ensure (\<not> gu_expiresAt g < t) (BadRequestException ''This link has expired - ask the driver to resend the invite''))
      (bind (orThrow idDocument (BadRequestException ''An identification document is required'')) (\<lambda>file.
       let idKey = guarantorKey shown (gu_id g) ''id'' t file;
           addressKey = map_option (guarantorKey shown (gu_id g) ''address'' t) proofOfAddress in
       andThen (uploadObject cl idKey)
       (andThen (case addressKey of None \<Rightarrow> return () | Some k \<Rightarrow> uploadObject cl k)
       (bind (updateGuarantor (gu_id g) (\<lambda>g. g\<lparr>gu_fullName := Some (sm_fullName dto), gu_relationship := Some (sm_relationship dto),
           gu_address := Some (sm_address dto), gu_occupation := Some (sm_occupation dto), gu_idType := Some (sm_idType dto),
           gu_idNumber := Some (sm_idNumber dto), gu_idDocumentKey := Some idKey,
           gu_proofOfAddressKey := keptOr addressKey (gu_proofOfAddressKey g), gu_status := SUBMITTED, gu_submittedAt := Some t\<rparr>)) (\<lambda>updated.
        bind (sendNotification cl (gu_driverId g) ''KYC'' ''Your guarantor submitted their details''
          ''Their submission is now awaiting review.'' None) (\<lambda>_.
        return updated)))))))))"

definition reviewGuarantor :: "clients \<Rightarrow> string \<Rightarrow> string \<Rightarrow> string \<Rightarrow> string \<Rightarrow> (instant \<Rightarrow> guarantor \<Rightarrow> guarantor)
    \<Rightarrow> string \<Rightarrow> string \<Rightarrow> guarantor op" where
  "reviewGuarantor cl i reviewerId refused action f title body =
     bind (findGuarantorOrThrow i) (\<lambda>g.
     andThen (ensure (gu_status g = SUBMITTED) (ConflictException refused))
     (bind (gets now) (\<lambda>t.
      bind (updateGuarantor i (f t)) (\<lambda>updated.
      andThen (audit (Some reviewerId) action ''User'' (Some (gu_driverId g)))
      (bind (sendNotification cl (gu_driverId g) ''KYC'' title body None) (\<lambda>_. return updated))))))"

definition approveGuarantor :: "clients \<Rightarrow> string \<Rightarrow> string \<Rightarrow> guarantor op" where
  "approveGuarantor cl i reviewerId = reviewGuarantor cl i reviewerId ''Only a submitted guarantor can be verified'' ''guarantor.approve''
     (\<lambda>t g. g\<lparr>gu_status := VERIFIED, gu_reviewedById := Some reviewerId, gu_reviewedAt := Some t\<rparr>)
     ''Your guarantor has been verified'' ''Your guarantor verification is complete.''"

definition rejectGuarantor :: "clients \<Rightarrow> string \<Rightarrow> string \<Rightarrow> string \<Rightarrow> guarantor op" where
  "rejectGuarantor cl i reviewerId reason = reviewGuarantor cl i reviewerId ''Only a submitted guarantor can be rejected'' ''guarantor.reject''
     (\<lambda>t g. g\<lparr>gu_status := GuarantorStatus.REJECTED, gu_rejectionReason := Some reason, gu_reviewedById := Some reviewerId,
        gu_reviewedAt := Some t\<rparr>)
     ''Your guarantor submission was rejected'' reason"

record guarantorCounts =
  gc_total :: nat
  gc_invited :: nat
  gc_submitted :: nat
  gc_verified :: nat
  gc_rejected :: nat

definition listGuarantors :: "GuarantorStatus option \<Rightarrow> int \<Rightarrow> int \<Rightarrow> (guarantor paginated \<times> guarantorCounts) op" where
  "listGuarantors status limit skip = gets (\<lambda>s.
     let count = (\<lambda>st. countWhere (\<lambda>g. gu_status g = st) (guarantors s)) in
     (pageOf (Some limit) (Some skip) (rev (filter (\<lambda>g. gu_status g = orElse status SUBMITTED) (guarantors s))),
      \<lparr>gc_total = length (guarantors s), gc_invited = count INVITED, gc_submitted = count SUBMITTED,
       gc_verified = count VERIFIED, gc_rejected = count GuarantorStatus.REJECTED\<rparr>))"

definition getGuarantorDocumentUrl :: "clients \<Rightarrow> string \<Rightarrow> string \<Rightarrow> string op" where
  "getGuarantorDocumentUrl cl i field =
     bind (findGuarantorOrThrow i) (\<lambda>g.
     let key = (if field = ''idDocument'' then gu_idDocumentKey g else gu_proofOfAddressKey g) in
     andThen (ensure (truthy key) (NotFoundException (''No '' @ field @ '' on file for this guarantor'')))
     (getSignedReadUrl cl (the key) DEFAULT_SIGNED_URL_TTL_SECONDS))"

end
