(* ===== verification/Numbers.thy ===== *)
theory Numbers
  imports Text Money
begin

text \<open>
  Text and numbers as the run time converts them: \<open>Number(text)\<close> with its three results (not a number,
  an infinity, a number), \<open>split\<close> on a character, and the \<open>en-US\<close> decimal text with at most two
  fraction digits of src/common/export/export-theme.ts, without the grouping commas that the CSV writer
  removes again.  A double is taken to be an exact rational.
\<close>

section \<open>Splitting\<close>

fun splitOn :: "char \<Rightarrow> string \<Rightarrow> string list" where
  "splitOn c [] = [[]]"
| "splitOn c (x # xs) =
     (if x = c then [] # splitOn c xs
      else (case splitOn c xs of [] \<Rightarrow> [[x]] | y # ys \<Rightarrow> (x # y) # ys))"

lemma splitOn_nonempty [simp]: "splitOn c s \<noteq> []"
  by (induction s) (auto split: list.splits)

text \<open>The pieces joined again give the text.\<close>

lemma join_cons: "ys \<noteq> [] \<Longrightarrow> join sep (x # ys) = x @ sep @ join sep ys"
  by (cases ys) simp_all

lemma join_splitOn: "join [c] (splitOn c s) = s"
proof (induction s)
  case (Cons x s)
  obtain y ys where sp: "splitOn c s = y # ys" by (cases "splitOn c s") auto
  show ?case using Cons sp by (cases ys) (auto simp: join_cons)
qed simp

section \<open>Number(text)\<close>

datatype jsNumber = NaN | Infinite bool | Finite rat

text \<open>An unsigned decimal literal: digits with an optional fraction, then an optional exponent.\<close>

definition signOf :: "string \<Rightarrow> bool \<times> string" where
  "signOf s = (case s of [] \<Rightarrow> (False, []) | c # r \<Rightarrow>
     if c = CHR ''-'' then (True, r) else if c = CHR ''+'' then (False, r) else (False, s))"

definition power10 :: "bool \<Rightarrow> nat \<Rightarrow> rat" where
  "power10 negative n = (if negative then 1 / 10 ^ n else 10 ^ n)"

definition exponentOf :: "string \<Rightarrow> rat option" where
  "exponentOf r = (case r of [] \<Rightarrow> Some 1 | c # x \<Rightarrow>
     if c = CHR ''e'' \<or> c = CHR ''E'' then
       (case signOf x of (negative, ds) \<Rightarrow> if ds \<noteq> [] \<and> list_all isDigit ds then Some (power10 negative (readDecimal ds)) else None)
     else None)"

definition fractionOf :: "string \<Rightarrow> string \<times> string" where
  "fractionOf r = (case r of [] \<Rightarrow> ([], []) | c # x \<Rightarrow>
     if c = CHR ''.'' then (takeWhile isDigit x, dropWhile isDigit x) else ([], r))"

definition unsignedDecimal :: "string \<Rightarrow> rat option" where
  "unsignedDecimal s =
     (let a = takeWhile isDigit s in case fractionOf (dropWhile isDigit s) of (b, rest) \<Rightarrow>
      if a = [] \<and> b = [] then None
      else map_option (\<lambda>e. of_nat (readDecimal (a @ b)) / 10 ^ length b * e) (exponentOf rest))"

text \<open>Literals with a radix, \<open>0x\<close>, \<open>0o\<close> and \<open>0b\<close>.\<close>

definition hexValue :: "char \<Rightarrow> nat option" where
  "hexValue c = (let n = (of_char c :: nat) in
     if 48 \<le> n \<and> n \<le> 57 then Some (n - 48) else if 97 \<le> n \<and> n \<le> 102 then Some (n - 87)
     else if 65 \<le> n \<and> n \<le> 70 then Some (n - 55) else None)"

fun readRadix :: "nat \<Rightarrow> nat \<Rightarrow> string \<Rightarrow> nat option" where
  "readRadix r acc [] = Some acc"
| "readRadix r acc (c # s) = (case hexValue c of None \<Rightarrow> None
     | Some d \<Rightarrow> if d < r then readRadix r (r * acc + d) s else None)"

definition radixOf :: "string \<Rightarrow> nat option" where
  "radixOf s = map_of [(''0x'', 16), (''0X'', 16), (''0o'', 8), (''0O'', 8), (''0b'', 2), (''0B'', 2)] (take 2 s)"

definition numberOf :: "string \<Rightarrow> jsNumber" where
  "numberOf s = (let t = trim s in
     if t = [] then Finite 0
     else case radixOf t of
       Some r \<Rightarrow> (if drop 2 t = [] then NaN else case readRadix r 0 (drop 2 t) of None \<Rightarrow> NaN | Some n \<Rightarrow> Finite (of_nat n))
     | None \<Rightarrow> (case signOf t of (negative, u) \<Rightarrow>
         if u = ''Infinity'' then Infinite negative
         else case unsignedDecimal u of None \<Rightarrow> NaN | Some x \<Rightarrow> Finite (if negative then - x else x)))"

text \<open>\<open>x >= n\<close> and \<open>x <= n\<close> for a number \<open>x\<close> and the value of a text.\<close>

fun atLeast_js :: "rat \<Rightarrow> jsNumber \<Rightarrow> bool" where
  "atLeast_js x NaN = False"
| "atLeast_js x (Infinite negative) = negative"
| "atLeast_js x (Finite a) = (a \<le> x)"

fun atMost_js :: "rat \<Rightarrow> jsNumber \<Rightarrow> bool" where
  "atMost_js x NaN = False"
| "atMost_js x (Infinite negative) = (\<not> negative)"
| "atMost_js x (Finite a) = (x \<le> a)"

section \<open>Decimal text\<close>

text \<open>\<open>centsText n\<close> is the text of \<open>n\<close> hundredths with the trailing zeros of the fraction dropped.\<close>

definition centsText :: "nat \<Rightarrow> string" where
  "centsText n =
     (decimal (n div 100) @
      (if n mod 100 = 0 then [] else ''.'' @ digitChar (n mod 100 div 10) #
        (if n mod 10 = 0 then [] else [digitChar (n mod 10)])))"

text \<open>\<open>NumberFormat\<close> rounds half away from zero and prints minus zero with its sign.\<close>

definition numberText :: "rat \<Rightarrow> string" where
  "numberText x = (let n = nat \<lfloor>\<bar>x\<bar> * 100 + 1 / 2\<rfloor> in (if x < 0 then ''-'' else []) @ centsText n)"

lemma takeWhile_all: "list_all P xs \<Longrightarrow> takeWhile P (xs @ y # ys) = (if P y then xs @ y # takeWhile P ys else xs)"
  by (induction xs) auto

lemma dropWhile_all: "list_all P xs \<Longrightarrow> \<not> P y \<Longrightarrow> dropWhile P (xs @ y # ys) = y # ys"
  by (induction xs) auto

lemma dot_not_digit [simp]: "\<not> isDigit (CHR ''.'')"
  by (simp add: isDigit_def)

lemma readDecimal_app: "readDecimal (s @ [c]) = 10 * readDecimal s + digitValue c"
  by (simp add: readDecimal_def)

lemma whole_decimal: "unsignedDecimal (decimal n) = Some (of_nat n)"
proof -
  have all: "list_all isDigit (decimal n)" by (rule digits_decimal)
  then have tw: "takeWhile isDigit (decimal n) = decimal n" and dw: "dropWhile isDigit (decimal n) = []"
    by (simp_all add: list_all_iff)
  show ?thesis unfolding unsignedDecimal_def tw dw by (simp add: fractionOf_def exponentOf_def readDecimal_decimal)
qed

lemma unsignedDecimal_point:
  assumes "list_all isDigit b" "b \<noteq> []"
  shows "unsignedDecimal (decimal n @ CHR ''.'' # b) = Some (of_nat (readDecimal (decimal n @ b)) / 10 ^ length b)"
proof -
  have d: "list_all isDigit (decimal n)" by (rule digits_decimal)
  have b: "takeWhile isDigit b = b" "dropWhile isDigit b = []" using assms(1) by (simp_all add: list_all_iff)
  show ?thesis
    using assms(2) by (simp add: unsignedDecimal_def takeWhile_all [OF d] dropWhile_all [OF d] fractionOf_def b exponentOf_def)
qed

text \<open>The text of an amount of cents reads back as that amount.\<close>

lemma unsigned_cents: "unsignedDecimal (centsText n) = Some (of_nat n / 100)"
proof -
  have n: "n = 100 * (n div 100) + n mod 100" by simp
  show ?thesis
  proof (cases "n mod 100 = 0")
    case True
    then have "of_nat n = (100 :: rat) * of_nat (n div 100)"
      by (metis n add.right_neutral of_nat_mult of_nat_numeral)
    then show ?thesis using True by (simp add: centsText_def whole_decimal)
  next
    case False
    define p where "p = n mod 100 div 10"
    define q where "q = n mod 10"
    have pq: "p < 10" "q < 10" unfolding p_def q_def by simp_all
    have "n mod 100 mod 10 = q" unfolding q_def by (rule mod_mod_cancel) simp
    then have "n mod 100 = 10 * p + q" unfolding p_def using mult_div_mod_eq [of 10 "n mod 100"] by simp
    then have "n = 100 * (n div 100) + (10 * p + q)" using n by metis
    then have val: "n = 10 * (10 * (n div 100) + p) + q" by (simp only: distrib_left mult.assoc [symmetric] add.assoc)
    show ?thesis
    proof (cases "q = 0")
      case True
      have t: "centsText n = decimal (n div 100) @ CHR ''.'' # [digitChar p]"
        using False True by (simp add: centsText_def flip: p_def q_def)
      have "of_nat n = (10 :: rat) * of_nat (10 * (n div 100) + p)" using val True by (metis add.right_neutral of_nat_mult of_nat_numeral)
      then show ?thesis
        unfolding t by (subst unsignedDecimal_point) (simp_all add: pq readDecimal_app readDecimal_decimal)
    next
      case nz: False
      have t: "centsText n = decimal (n div 100) @ CHR ''.'' # [digitChar p, digitChar q]"
        using False nz by (simp add: centsText_def flip: p_def q_def)
      have r: "readDecimal (decimal (n div 100) @ [digitChar p, digitChar q]) = n"
        using readDecimal_app [of "decimal (n div 100) @ [digitChar p]" "digitChar q"] readDecimal_app [of "decimal (n div 100)" "digitChar p"] val pq
        by (simp add: readDecimal_decimal digit_of)
      show ?thesis
        unfolding t by (subst unsignedDecimal_point) (simp_all add: pq r)
    qed
  qed
qed

end
