(* ===== verification/Csv.thy ===== *)
theory Csv
  imports Numbers Buckets Schema
begin

text \<open>
  The CSV writer, src/common/utils/csv.util.ts, and a reader of the format (RFC 4180) to compare it with.
  A value of a report row is a \<open>cell\<close>; a row is an association list, its keys in insertion order.
  The shortest text of a double is the run time's: it is the parameter \<open>show\<close>.
\<close>

section \<open>Cells\<close>

datatype cell = Missing | Txt string | Num rat | Date instant

type_synonym row = "(string \<times> cell) list"

text \<open>\<open>toISOString\<close>, for the years 0 to 9999.\<close>

definition isoDay :: "instant \<Rightarrow> string" where
  "isoDay t = (let d = dayOf t in
     padStart 4 (CHR ''0'') (decimal (nat (yearFromDay d))) @ ''-'' @ pad2 (monthFromDay d + 1) @ ''-'' @ pad2 (dayOfMonth d))"

definition isoText :: "instant \<Rightarrow> string" where
  "isoText t = isoDay t @ ''T'' @ pad2 (hourOf t) @ '':'' @ pad2 (t mod 3600000 div 60000) @ '':''
     @ pad2 (t mod 60000 div 1000) @ ''.'' @ padStart 3 (CHR ''0'') (decimal (nat (t mod 1000))) @ ''Z''"

fun cellText :: "(rat \<Rightarrow> string) \<Rightarrow> cell \<Rightarrow> string" where
  "cellText show Missing = []"
| "cellText show (Txt s) = s"
| "cellText show (Num x) = show x"
| "cellText show (Date t) = isoText t"

section \<open>The writer\<close>

definition formulaStart :: "string \<Rightarrow> bool" where
  "formulaStart s \<longleftrightarrow> s \<noteq> [] \<and> hd s \<in> {CHR ''='', CHR ''+'', CHR ''-'', CHR ''@'', CHR 0x09, CHR 0x0D}"

text \<open>The text of a cell with formulas neutralised: what a reader of the file gets back.\<close>

definition plainText :: "(rat \<Rightarrow> string) \<Rightarrow> cell \<Rightarrow> string" where
  "plainText show c = (case c of
     Txt s \<Rightarrow> if formulaStart s \<and> numberOf s = NaN then CHR 0x27 # s else s
   | _ \<Rightarrow> cellText show c)"

definition mustQuote :: "string \<Rightarrow> bool" where
  "mustQuote s \<longleftrightarrow> (\<exists>c \<in> set s. c \<in> {CHR 0x22, CHR '','', CHR 0x0D, CHR 0x0A})"

fun doubleQuotes :: "string \<Rightarrow> string" where
  "doubleQuotes [] = []"
| "doubleQuotes (c # s) = (if c = CHR 0x22 then CHR 0x22 # CHR 0x22 # doubleQuotes s else c # doubleQuotes s)"

definition quoted :: "string \<Rightarrow> string" where
  "quoted s = (if mustQuote s then CHR 0x22 # doubleQuotes s @ [CHR 0x22] else s)"

definition escapeCsvCell :: "(rat \<Rightarrow> string) \<Rightarrow> cell \<Rightarrow> string" where
  "escapeCsvCell show c = (if c = Missing then [] else quoted (plainText show c))"

text \<open>\<open>row[h]\<close>: a key that the row does not have is \<open>undefined\<close>.\<close>

definition cellAt :: "row \<Rightarrow> string \<Rightarrow> cell" where
  "cellAt r h = (case map_of r h of None \<Rightarrow> Missing | Some c \<Rightarrow> c)"

definition CRLF :: string where "CRLF = [CHR 0x0D, CHR 0x0A]"

definition toCsv :: "(rat \<Rightarrow> string) \<Rightarrow> row list \<Rightarrow> string" where
  "toCsv show rows = (case rows of [] \<Rightarrow> [] | first # _ \<Rightarrow>
     (let headers = map fst first in
      join CRLF (join '','' (map (\<lambda>h. escapeCsvCell show (Txt h)) headers)
        # map (\<lambda>r. join '','' (map (\<lambda>h. escapeCsvCell show (cellAt r h)) headers)) rows)))"

section \<open>A reader\<close>

text \<open>
  The records of a file: fields separated by commas, records by CRLF or LF, a quoted field with its
  quotes doubled.  \<open>f\<close> is the field read so far.
\<close>

datatype mode = AtStart | Plain | Quoted | Closing

fun consField :: "string \<Rightarrow> string list list \<Rightarrow> string list list" where
  "consField f [] = [[f]]"
| "consField f (r # rs) = (f # r) # rs"

fun readCsv :: "mode \<Rightarrow> string \<Rightarrow> string \<Rightarrow> string list list" where
  "readCsv m f [] = [[f]]"
| "readCsv m f (c # s) =
     (if m = Quoted then
        (if c = CHR 0x22 then readCsv Closing f s else readCsv Quoted (f @ [c]) s)
      else if c = CHR 0x22 \<and> m \<noteq> Plain then readCsv Quoted (if m = Closing then f @ [c] else f) s
      else if c = CHR '','' then consField f (readCsv AtStart [] s)
      else if c = CHR 0x0A then [f] # readCsv AtStart [] s
      else if c = CHR 0x0D \<and> s \<noteq> [] \<and> hd s = CHR 0x0A then [f] # readCsv AtStart [] (tl s)
      else readCsv Plain (f @ [c]) s)"

definition fieldEnds :: "string \<Rightarrow> bool" where
  "fieldEnds rest \<longleftrightarrow> rest = [] \<or> hd rest = CHR '','' \<or> take 2 rest = CRLF"

lemma read_end: "fieldEnds rest \<Longrightarrow> m \<noteq> Quoted \<Longrightarrow> readCsv m f rest = readCsv Plain f rest"
  by (cases rest; cases "tl rest") (auto simp: fieldEnds_def CRLF_def)

lemma read_plain:
  "\<not> mustQuote s \<Longrightarrow> fieldEnds rest \<Longrightarrow> m = AtStart \<or> m = Plain \<Longrightarrow> readCsv m f (s @ rest) = readCsv Plain (f @ s) rest"
proof (induction s arbitrary: f m)
  case (Cons c s)
  have "c \<noteq> CHR 0x22" "c \<noteq> CHR '',''" "c \<noteq> CHR 0x0A" "c \<noteq> CHR 0x0D" "\<not> mustQuote s"
    using Cons.prems(1) by (auto simp: mustQuote_def)
  then show ?case using Cons.IH [of Plain "f @ [c]"] Cons.prems by auto
next
  case Nil
  then show ?case using read_end [of rest AtStart f] by auto
qed

lemma read_quoted:
  "fieldEnds rest \<Longrightarrow> readCsv Quoted f (doubleQuotes s @ CHR 0x22 # rest) = readCsv Plain (f @ s) rest"
proof (induction s arbitrary: f)
  case Nil
  then show ?case using read_end [of rest Closing f] by simp
next
  case (Cons c s)
  then show ?case using Cons.IH [of "f @ [c]"] by simp
qed

lemma read_cell: "fieldEnds rest \<Longrightarrow> readCsv AtStart [] (quoted s @ rest) = readCsv Plain s rest"
  using read_quoted [of rest "[]" s] read_plain [of s rest AtStart "[]"] by (simp add: quoted_def)

text \<open>One record, then the rest of the file.\<close>

lemma consField_readCsv: "readCsv Plain s (CHR '','' # rest) = consField s (readCsv AtStart [] rest)"
  by simp

lemma read_record:
  "xs \<noteq> [] \<Longrightarrow> rest = [] \<or> take 2 rest = CRLF \<Longrightarrow>
   readCsv AtStart [] (join '','' (map quoted xs) @ rest) = xs # (if rest = [] then [] else readCsv AtStart [] (drop 2 rest))"
proof (induction xs rule: induct_list012)
  case (2 x)
  have e: "fieldEnds rest" using 2 by (auto simp: fieldEnds_def)
  have "readCsv Plain x rest = [x] # (if rest = [] then [] else readCsv AtStart [] (drop 2 rest))"
    using 2(2) by (cases rest; cases "tl rest") (auto simp: CRLF_def)
  then show ?case using read_cell [OF e] by simp
next
  case (3 x y zs)
  have "fieldEnds (CHR '','' # join '','' (map quoted (y # zs)) @ rest)" by (simp add: fieldEnds_def)
  from read_cell [OF this, of x] show ?case using 3 by (simp add: join_cons)
qed simp

lemma read_records:
  "\<forall>xs \<in> set rows. xs \<noteq> [] \<Longrightarrow> rows \<noteq> [] \<Longrightarrow>
   readCsv AtStart [] (join CRLF (map (\<lambda>xs. join '','' (map quoted xs)) rows)) = rows"
proof (induction rows rule: induct_list012)
  case (2 x)
  then show ?case using read_record [of x "[]"] by simp
next
  case (3 x y zs)
  let ?rest = "CRLF @ join CRLF (map (\<lambda>xs. join '','' (map quoted xs)) (y # zs))"
  have t: "take 2 ?rest = CRLF" "drop 2 ?rest = join CRLF (map (\<lambda>xs. join '','' (map quoted xs)) (y # zs))" "?rest \<noteq> []"
    by (simp_all add: CRLF_def)
  have "readCsv AtStart [] (join '','' (map quoted x) @ ?rest) = x # readCsv AtStart [] (drop 2 ?rest)"
    using read_record [of x ?rest] t 3(3) by auto
  then show ?case using 3 t by (simp add: join_cons)
qed simp

lemma quoted_plain: "escapeCsvCell show c = quoted (plainText show c)"
  by (cases c) (simp_all add: escapeCsvCell_def plainText_def quoted_def mustQuote_def)

lemma csv_reads_back:
  assumes "rows \<noteq> []" "hd rows \<noteq> []"
  shows "readCsv AtStart [] (toCsv show rows) =
       (let headers = map fst (hd rows) in
        map (\<lambda>h. plainText show (Txt h)) headers # map (\<lambda>r. map (\<lambda>h. plainText show (cellAt r h)) headers) rows)"
proof -
  obtain first rest where rows: "rows = first # rest" using assms(1) by (cases rows) auto
  let ?hs = "map fst first"
  let ?records = "map (\<lambda>h. plainText show (Txt h)) ?hs # map (\<lambda>r. map (\<lambda>h. plainText show (cellAt r h)) ?hs) rows"
  have ne: "\<forall>xs \<in> set ?records. xs \<noteq> []" using assms(2) rows by auto
  have "toCsv show rows = join CRLF (map (\<lambda>xs. join '','' (map quoted xs)) ?records)"
    by (simp add: toCsv_def rows quoted_plain o_def)
  then show ?thesis using read_records [OF ne] by (simp add: rows)
qed

end
