(* ===== verification/Exports.thy ===== *)
theory Exports
  imports Csv Accounts Promo
begin

text \<open>
  Export documents: their shape (src/common/export/export.types.ts), the display text of a value
  (export-theme.ts), the helpers of the services that build them (export-helpers.ts) and the CSV
  rendering (export.util.ts).  Text is the sequence of its UTF-8 bytes; the PDF and Excel
  renderers are in PdfLayout and Sheets; colours, column widths and totals are left out here.  \<open>parseDate\<close> is \<open>new Date(text)\<close>.
\<close>

section \<open>Documents\<close>

record exportColumn =
  ec_key :: string
  ec_header :: string
  ec_format :: "string option"
  ec_formatBy :: "string option"

record exportMetric =
  em_label :: string
  em_value :: cell
  em_format :: "string option"
  em_note :: "string option"

record exportSection =
  es_name :: string
  es_columns :: "exportColumn list"
  es_rows :: "row list"
  es_truncatedFrom :: "int option"

record exportDocument =
  ed_title :: string
  ed_generatedBy :: string
  ed_period :: "(instant option \<times> instant option) option"
  ed_filters :: "(string \<times> string) list option"
  ed_summary :: "exportMetric list"
  ed_sections :: "exportSection list"
  ed_csvSection :: "exportSection option"

definition EXPORT_MAX_ROWS :: int where "EXPORT_MAX_ROWS = 10000"

definition column :: "string \<Rightarrow> string \<Rightarrow> string option \<Rightarrow> exportColumn" where
  "column key header format = \<lparr>ec_key = key, ec_header = header, ec_format = format, ec_formatBy = None\<rparr>"

definition metric :: "string \<Rightarrow> cell \<Rightarrow> string \<Rightarrow> string \<Rightarrow> exportMetric" where
  "metric label value format note = \<lparr>em_label = label, em_value = value, em_format = Some format, em_note = Some note\<rparr>"

section \<open>Display text\<close>

definition capitalise :: "string \<Rightarrow> string" where
  "capitalise s = (case s of [] \<Rightarrow> [] | c # r \<Rightarrow> toUpper c # r)"

definition prettifyStatus :: "string \<Rightarrow> string" where
  "prettifyStatus s = capitalise (toLowerCase (trim (map (\<lambda>c. if c = CHR ''_'' then CHR '' '' else c) s)))"

definition toNumber :: "cell \<Rightarrow> rat option" where
  "toNumber c = (case c of
     Missing \<Rightarrow> None
   | Num x \<Rightarrow> Some x
   | Date t \<Rightarrow> Some (of_int t)
   | Txt s \<Rightarrow> if s = [] then None else (case numberOf s of Finite x \<Rightarrow> Some x | _ \<Rightarrow> None))"

definition toDate :: "(string \<Rightarrow> instant option) \<Rightarrow> (rat \<Rightarrow> string) \<Rightarrow> cell \<Rightarrow> instant option" where
  "toDate parseDate show c = (case c of
     Missing \<Rightarrow> None
   | Date t \<Rightarrow> Some t
   | Txt s \<Rightarrow> if s = [] then None else parseDate s
   | Num x \<Rightarrow> parseDate (show x))"

definition formatDate :: "instant \<Rightarrow> string" where
  "formatDate t = (let d = dayOf t in
     pad2 (dayOfMonth d) @ '' '' @ MONTHS ! nat (monthFromDay d) @ '' '' @ decimal (nat (yearFromDay d)))"

definition formatDateTime :: "instant \<Rightarrow> string" where
  "formatDateTime t = formatDate t @ '' '' @ pad2 (hourOf t) @ '':'' @ pad2 (t mod 3600000 div 60000) @ '' UTC''"

text \<open>Groups of three digits; \<open>en-US\<close> numbers with at most, or exactly, two fraction digits.\<close>

fun grouped :: "nat \<Rightarrow> string" where
  "grouped n = (if n < 1000 then decimal n else grouped (n div 1000) @ '','' @ padStart 3 (CHR ''0'') (decimal (n mod 1000)))"

declare grouped.simps [simp del]

definition hundredths :: "rat \<Rightarrow> nat" where
  "hundredths x = nat \<lfloor>\<bar>x\<bar> * 100 + 1 / 2\<rfloor>"

definition minusOf :: "rat \<Rightarrow> string" where
  "minusOf x = (if x < 0 then ''-'' else [])"

definition numberFormat :: "rat \<Rightarrow> string" where
  "numberFormat x = (let n = hundredths x in minusOf x @ grouped (n div 100) @
     (if n mod 100 = 0 then [] else ''.'' @ digitChar (n mod 100 div 10) # (if n mod 10 = 0 then [] else [digitChar (n mod 10)])))"

definition moneyFormat :: "rat \<Rightarrow> string" where
  "moneyFormat x = (let n = hundredths x in minusOf x @ grouped (n div 100) @ ''.'' @
     [digitChar (n mod 100 div 10), digitChar (n mod 10)])"

text \<open>\<open>toFixed(2)\<close> of a decimal.\<close>

definition fixed2 :: "rat \<Rightarrow> string" where
  "fixed2 x = (let n = hundredths x in minusOf x @ decimal (n div 100) @ ''.'' @ [digitChar (n mod 100 div 10), digitChar (n mod 10)])"

definition tenthText :: "rat \<Rightarrow> string" where
  "tenthText x = (let n = nat \<lfloor>\<bar>x\<bar> * 10 + 1 / 2\<rfloor> in minusOf x @ decimal (n div 10) @ ''.'' @ [digitChar (n mod 10)])"

definition formatNumber :: "string \<Rightarrow> rat \<Rightarrow> string" where
  "formatNumber format x =
     (if format = ''integer'' then numberFormat (of_int \<lfloor>x + 1 / 2\<rfloor>)
      else if format = ''currency'' then ''NGN '' @ moneyFormat x
      else if format = ''percent'' then tenthText (x * 100) @ ''%''
      else numberFormat x)"

definition formatValue :: "(string \<Rightarrow> instant option) \<Rightarrow> (rat \<Rightarrow> string) \<Rightarrow> cell \<Rightarrow> string \<Rightarrow> string" where
  "formatValue parseDate show c format =
     (if c = Missing \<or> c = Txt [] then []
      else if format \<in> {''integer'', ''number'', ''currency'', ''percent''} then
        (case toNumber c of None \<Rightarrow> cellText show c | Some x \<Rightarrow> formatNumber format x)
      else if format = ''date'' then (case toDate parseDate show c of None \<Rightarrow> [] | Some t \<Rightarrow> formatDate t)
      else if format = ''datetime'' then (case toDate parseDate show c of None \<Rightarrow> [] | Some t \<Rightarrow> formatDateTime t)
      else if format = ''status'' then prettifyStatus (cellText show c)
      else cellText show c)"

datatype Tone = neutral | good | warn | bad | info

definition GOOD :: "string list" where
  "GOOD = [''ACTIVE'', ''APPROVED'', ''COMPLETED'', ''PAID'', ''RESOLVED'', ''SUCCESS'', ''SUCCESSFUL'', ''VERIFIED'',
     ''ONLINE'', ''DELIVERED'', ''CLOSED'']"

definition WARN :: "string list" where
  "WARN = [''PENDING'', ''PENDING_VERIFICATION'', ''IN_REVIEW'', ''OPEN'', ''PROCESSING'', ''DISPATCHING'', ''ACCEPTED'',
     ''ARRIVED'', ''IN_PROGRESS'', ''PICKED_UP'', ''ON_TRIP'', ''ASSIGNED'', ''REQUESTED'', ''ON_CREDIT'', ''SENT'',
     ''ISSUED'', ''NOT_SUBMITTED'']"

definition BAD :: "string list" where
  "BAD = [''SUSPENDED'', ''REJECTED'', ''CANCELLED'', ''FAILED'', ''DISPUTED'', ''OVERDUE'', ''ESCALATED'', ''DECLINED'',
     ''NO_DRIVERS_FOUND'', ''EXPIRED'', ''REVERSED'']"

text \<open>\<open>replace(/P+/g, c)\<close>: every run of characters that satisfy \<open>P\<close> becomes one \<open>c\<close>.\<close>

fun squeeze :: "(char \<Rightarrow> bool) \<Rightarrow> char \<Rightarrow> bool \<Rightarrow> string \<Rightarrow> string" where
  "squeeze P c run [] = []"
| "squeeze P c run (x # s) = (if P x then (if run then squeeze P c True s else c # squeeze P c True s) else x # squeeze P c False s)"

definition statusTone :: "string \<Rightarrow> Tone" where
  "statusTone s = (let key = squeeze (\<lambda>c. isSpace c \<or> c = CHR ''-'') (CHR ''_'') False (toUpperCase (trim s)) in
     if key \<in> set GOOD then good else if key \<in> set WARN then warn else if key \<in> set BAD then bad else neutral)"

section \<open>Helpers of the services\<close>

definition nameOf :: "user \<Rightarrow> string" where
  "nameOf u = trim (usr_firstName u @ '' '' @ usr_lastName u)"

definition resolveActorName :: "string option \<Rightarrow> string op" where
  "resolveActorName actorId =
     (if \<not> truthy actorId then return ''Kilo Admin''
      else bind (findUser (\<lambda>u. usr_id u = the actorId)) (\<lambda>found.
        return (case found of None \<Rightarrow> ''Kilo Admin''
          | Some u \<Rightarrow> if nameOf u \<noteq> [] then nameOf u else if truthy (usr_email u) then the (usr_email u) else ''Kilo Admin'')))"

definition enumStyle :: "string \<Rightarrow> bool" where
  "enumStyle s \<longleftrightarrow> 2 \<le> length s \<and> hd s \<noteq> CHR ''_''
     \<and> (\<forall>c \<in> set s. c = CHR ''_'' \<or> (let n = (of_char c :: nat) in 65 \<le> n \<and> n \<le> 90))"

definition describeFilters :: "(string \<times> string option) list \<Rightarrow> (string \<times> string) list option" where
  "describeFilters filters =
     (let out = List.map_filter (\<lambda>(label, value). case value of None \<Rightarrow> None
            | Some v \<Rightarrow> let t = trim v in if t = [] then None
                else Some (label, if enumStyle t then prettifyStatus t else t)) filters in
      if out = [] then None else Some out)"

definition periodOf :: "instant option \<Rightarrow> instant option \<Rightarrow> (instant option \<times> instant option) option" where
  "periodOf a b = (if a = None \<and> b = None then None else Some (a, b))"

section \<open>CSV rendering\<close>

definition cellFormat :: "exportColumn \<Rightarrow> row \<Rightarrow> string" where
  "cellFormat col r =
     (case ec_formatBy col of None \<Rightarrow> orElse (ec_format col) ''text''
      | Some key \<Rightarrow> (case cellAt r key of Txt f \<Rightarrow> f | Missing \<Rightarrow> orElse (ec_format col) ''text'' | _ \<Rightarrow> []))"

definition csvCell :: "(string \<Rightarrow> instant option) \<Rightarrow> (rat \<Rightarrow> string) \<Rightarrow> exportColumn \<Rightarrow> row \<Rightarrow> cell" where
  "csvCell parseDate show col r =
     (let raw = cellAt r (ec_key col); format = cellFormat col r in
      if format = ''date'' \<or> format = ''datetime'' then
        Txt (case toDate parseDate show raw of None \<Rightarrow> [] | Some t \<Rightarrow> isoText t)
      else if format = ''status'' then Txt (if raw = Missing then [] else prettifyStatus (cellText show raw))
      else if format \<in> {''currency'', ''integer'', ''number''} then
        Txt (if raw = Missing then [] else filter (\<lambda>c. c \<noteq> CHR '','') (formatValue parseDate show raw ''number''))
      else (if raw = Missing then Txt [] else raw))"

definition metricColumns :: "exportColumn list" where
  "metricColumns = [column ''label'' ''Metric'' None,
     \<lparr>ec_key = ''value'', ec_header = ''Value'', ec_format = None, ec_formatBy = Some ''format''\<rparr>,
     column ''note'' ''Definition'' None]"

definition metricRow :: "exportMetric \<Rightarrow> row" where
  "metricRow m = [(''label'', Txt (em_label m)), (''value'', em_value m), (''format'', Txt (orElse (em_format m) ''text'')),
     (''note'', Txt (orElse (em_note m) []))]"

definition metricSection :: "exportMetric list \<Rightarrow> exportSection" where
  "metricSection ms = \<lparr>es_name = ''Metrics'', es_columns = metricColumns, es_rows = map metricRow ms, es_truncatedFrom = None\<rparr>"

definition metricsAsSection :: "exportDocument \<Rightarrow> exportSection option" where
  "metricsAsSection doc = (if ed_summary doc = [] then None else Some (metricSection (ed_summary doc)))"

definition csvSectionOf :: "exportDocument \<Rightarrow> exportSection option" where
  "csvSectionOf doc = (case ed_csvSection doc of Some x \<Rightarrow> Some x
     | None \<Rightarrow> (case ed_sections doc of x # _ \<Rightarrow> Some x | [] \<Rightarrow> metricsAsSection doc))"

text \<open>The properties of the record of a row, in the order of the columns; a repeated header keeps its first place.\<close>

definition csvRow :: "(string \<Rightarrow> instant option) \<Rightarrow> (rat \<Rightarrow> string) \<Rightarrow> exportColumn list \<Rightarrow> row \<Rightarrow> row" where
  "csvRow parseDate show cols r = fold (\<lambda>col. AList.update (ec_header col) (csvCell parseDate show col r)) cols []"

definition BOM :: string where "BOM = [CHR 0xEF, CHR 0xBB, CHR 0xBF]"

definition renderCsv :: "(string \<Rightarrow> instant option) \<Rightarrow> (rat \<Rightarrow> string) \<Rightarrow> exportDocument \<Rightarrow> string" where
  "renderCsv parseDate show doc =
     (let cols = (case csvSectionOf doc of None \<Rightarrow> [] | Some x \<Rightarrow> es_columns x);
          rows = (case csvSectionOf doc of None \<Rightarrow> [] | Some x \<Rightarrow> map (csvRow parseDate show cols) (es_rows x)) in
      BOM @ (if rows \<noteq> [] then toCsv show rows
        else join '','' (map (\<lambda>c. CHR 0x22 # doubleQuotes (ec_header c) @ [CHR 0x22]) cols)))"

definition slugChar :: "char \<Rightarrow> bool" where
  "slugChar c \<longleftrightarrow> (let n = (of_char c :: nat) in 97 \<le> n \<and> n \<le> 122 \<or> 48 \<le> n \<and> n \<le> 57)"

definition dropDash :: "string \<Rightarrow> string" where
  "dropDash s = (if s \<noteq> [] \<and> hd s = CHR ''-'' then tl s else s)"

definition exportFilename :: "string \<Rightarrow> string \<Rightarrow> instant \<Rightarrow> string" where
  "exportFilename base extension t =
     ''kilo-'' @ rev (dropDash (rev (dropDash (squeeze (\<lambda>c. \<not> slugChar c) (CHR ''-'') False (toLowerCase base)))))
       @ ''-'' @ isoDay t @ ''.'' @ extension"

end
