(* ===== verification/AdminOps.thy ===== *)
theory AdminOps
  imports Finance Kyc AdminLogistics Exports
begin

text \<open>
  The operations console, src/admin-ops/admin-ops.service.ts, first part: the dashboard, the list of
  backlogs, the two maps, the lists of riders and drivers with their stat cards and exports, and the
  account switches.  A grouped count is a count per value that occurs; the rows of a list are ordered by
  their time of creation, newest first.  \<open>publicId\<close> is the identifier the database generates for a row.
  Ride and delivery sums over an empty set are zero, and money is shown with two decimals.
\<close>

definition ACTIVE_RIDE_STATUSES :: "RideStatus list" where
  "ACTIVE_RIDE_STATUSES = [RideStatus.DISPATCHING, RideStatus.ACCEPTED, RideStatus.ARRIVED, RideStatus.IN_PROGRESS]"

definition decimalToFixed :: "rat option \<Rightarrow> string" where
  "decimalToFixed x = fixed2 (orElse x 0)"

text \<open>src/common/utils/tally.util.ts: the count of each status, 0 where none occurs, and the total.\<close>

definition tallyByStatus :: "('k \<times> nat) list \<Rightarrow> ('k \<Rightarrow> nat) \<times> nat" where
  "tallyByStatus rows = (\<lambda>k. orElse (map_of rows k) 0, sum_list (map snd rows))"

section \<open>Dashboard\<close>

definition pendingKycDrivers :: "db \<Rightarrow> string list" where
  "pendingKycDrivers s = remdups (map kd_driverId (filter (\<lambda>d. kd_status d = KycStatus.PENDING) (kycDocuments s)))"

definition pendingWithdrawals :: "db \<Rightarrow> withdrawalRequest list" where
  "pendingWithdrawals s = filter (\<lambda>w. wr_status w = TransactionStatus.PENDING) (withdrawalRequests s)"

definition activeRides :: "db \<Rightarrow> ride list" where
  "activeRides s = filter (\<lambda>r. rd_status r \<in> set ACTIVE_RIDE_STATUSES) (rides s)"

definition activeDeliveries :: "db \<Rightarrow> delivery list" where
  "activeDeliveries s = filter (\<lambda>d. dv_status d \<in> set ACTIVE_DELIVERY_STATUSES) (deliveries s)"

record dashboardSummary =
  sm_riders :: nat
  sm_drivers :: nat
  sm_onlineDrivers :: nat
  sm_ridesTotal :: nat
  sm_ridesCompleted :: nat
  sm_ridesCancelled :: nat
  sm_activeTrips :: nat
  sm_activeDeliveries :: nat
  sm_pendingKyc :: nat
  sm_disputedDeliveries :: nat
  sm_pendingWithdrawals :: "nat \<times> rat"
  sm_todayRevenue :: rat
  sm_walletPool :: rat
  sm_totalRevenue :: rat

definition getDashboardSummary :: "dashboardSummary op" where
  "getDashboardSummary =
     bind (getPlatformAccount PLATFORM_REVENUE) (\<lambda>revenue.
     gets (\<lambda>s. let today = startOfUtcDay (now s) in
       \<lparr>sm_riders = countWhere (\<lambda>u. usr_role u = UserRole.RIDER) (users s),
        sm_drivers = countWhere (\<lambda>u. usr_role u = UserRole.DRIVER) (users s),
        sm_onlineDrivers = countWhere (\<lambda>d. ds_availability d \<noteq> DriverAvailability.OFFLINE) (driverStatuses s),
        sm_ridesTotal = length (rides s),
        sm_ridesCompleted = countWhere (\<lambda>r. rd_status r = RideStatus.COMPLETED) (rides s),
        sm_ridesCancelled = countWhere (\<lambda>r. rd_status r = RideStatus.CANCELLED) (rides s),
        sm_activeTrips = length (activeRides s), sm_activeDeliveries = length (activeDeliveries s),
        sm_pendingKyc = length (pendingKycDrivers s), sm_disputedDeliveries = countWhere disputed (deliveries s),
        sm_pendingWithdrawals = (length (pendingWithdrawals s), sum_list (map wr_amount (pendingWithdrawals s))),
        sm_todayRevenue = rideCommission (since today) s + deliveryCommission (since today) s,
        sm_walletPool = balancesOf {RIDER_WALLET, DRIVER_WALLET} s, sm_totalRevenue = acc_balance revenue\<rparr>))"

record attentionItem =
  at_type :: string
  at_severity :: string
  at_count :: nat
  at_message :: string
  at_href :: string

definition attention :: "string \<Rightarrow> string \<Rightarrow> nat \<Rightarrow> string \<Rightarrow> string \<Rightarrow> attentionItem" where
  "attention type severity count message href = \<lparr>at_type = type, at_severity = severity, at_count = count,
     at_message = decimal count @ message, at_href = href\<rparr>"

definition needsAttention :: "db \<Rightarrow> attentionItem list" where
  "needsAttention s = filter (\<lambda>i. 0 < at_count i)
     [attention ''kyc'' ''warning'' (length (pendingKycDrivers s)) '' KYC submission(s) pending review'' ''/dashboard/driver-management'',
      attention ''withdrawals'' ''warning'' (length (pendingWithdrawals s)) '' withdrawal request(s) awaiting approval'' ''/dashboard/finance'',
      attention ''disputes'' ''alert'' (countWhere disputed (deliveries s)) '' disputed delivery(ies) need investigation'' ''/dashboard/rides'',
      attention ''tickets'' ''alert'' (countWhere (\<lambda>t. sk_status t = TicketStatus.ESCALATED) (supportTickets s))
        '' escalated support ticket(s)'' ''/dashboard/notifications'',
      attention ''stations'' ''warning'' (countWhere (\<lambda>c. cs_status c = ChargingStationStatus.OFFLINE) (chargingStations s))
        '' charging station(s) offline'' ''/dashboard/kilowatt'']"

definition getNeedsAttention :: "attentionItem list op" where
  "getNeedsAttention = gets needsAttention"

section \<open>Maps\<close>

definition onlineDrivers :: "db \<Rightarrow> (string \<times> rat \<times> rat) list" where
  "onlineDrivers s = filter (\<lambda>(i, p). \<exists>d \<in> set (driverStatuses s). ds_userId d = i \<and> ds_availability d = DriverAvailability.ONLINE) (driversGeo s)"

definition getLiveMap :: "((string \<times> rat \<times> rat) list \<times> ride list) op" where
  "getLiveMap = gets (\<lambda>s. (onlineDrivers s, activeRides s))"

definition parseBounds :: "string option \<Rightarrow> jsNumber list option" where
  "parseBounds raw = (if \<not> truthy raw then None
     else let parts = map (\<lambda>n. numberOf (trim n)) (splitOn (CHR '','') (the raw)) in
       if length parts \<noteq> 4 \<or> NaN \<in> set parts then None else Some parts)"

definition inBox :: "jsNumber list option \<Rightarrow> rat \<times> rat \<Rightarrow> bool" where
  "inBox box p = (case box of None \<Rightarrow> True | Some b \<Rightarrow>
     atLeast_js (fst p) (b ! 0) \<and> atMost_js (fst p) (b ! 2) \<and> atLeast_js (snd p) (b ! 1) \<and> atMost_js (snd p) (b ! 3))"

record mapDriver =
  mp_id :: string
  mp_name :: "string option"
  mp_phone :: "string option"
  mp_status :: DriverAvailability
  mp_activity :: DriverServiceMode
  mp_position :: "(rat \<times> rat) option"
  mp_vehicle :: "string option"

record mapTrip =
  mt_id :: string
  mt_driverId :: "string option"
  mt_driverName :: "string option"
  mt_riderId :: string
  mt_status :: RideStatus
  mt_fare :: string
  mt_pickup :: "rat \<times> rat \<times> string"
  mt_destination :: "rat \<times> rat \<times> string"
  mt_currentLocation :: "(rat \<times> rat) option"

record mapDelivery =
  mv_id :: string
  mv_driverId :: "string option"
  mv_driverName :: "string option"
  mv_status :: DeliveryStatus
  mv_packageType :: string
  mv_currentLocation :: "(rat \<times> rat) option"

definition nameOfId :: "db \<Rightarrow> string option \<Rightarrow> string option" where
  "nameOfId s i = (if truthy i then map_option nameOf (userRow s (the i)) else None)"

definition positionOf :: "db \<Rightarrow> string option \<Rightarrow> (rat \<times> rat) option" where
  "positionOf s i = (if truthy i then map_of (driversGeo s) (the i) else None)"

definition mapDriverOf :: "db \<Rightarrow> driverStatus \<Rightarrow> mapDriver" where
  "mapDriverOf s d = \<lparr>mp_id = ds_userId d, mp_name = map_option nameOf (userRow s (ds_userId d)),
     mp_phone = map_option usr_phone (userRow s (ds_userId d)), mp_status = ds_availability d, mp_activity = ds_serviceMode d,
     mp_position = map_of (driversGeo s) (ds_userId d), mp_vehicle = (if truthy (ds_vehicleType d) then ds_vehicleType d else None)\<rparr>"

definition mapTripOf :: "db \<Rightarrow> ride \<Rightarrow> mapTrip" where
  "mapTripOf s r = \<lparr>mt_id = rd_id r, mt_driverId = rd_driverId r, mt_driverName = nameOfId s (rd_driverId r), mt_riderId = rd_riderId r,
     mt_status = rd_status r, mt_fare = decimalToFixed (keptOr (rd_finalFare r) (rd_estimatedFare r)),
     mt_pickup = (rd_pickupLat r, rd_pickupLng r, rd_pickupAddress r),
     mt_destination = (rd_dropoffLat r, rd_dropoffLng r, rd_dropoffAddress r), mt_currentLocation = positionOf s (rd_driverId r)\<rparr>"

definition mapDeliveryOf :: "db \<Rightarrow> delivery \<Rightarrow> mapDelivery" where
  "mapDeliveryOf s d = \<lparr>mv_id = dv_id d, mv_driverId = dv_driverId d, mv_driverName = nameOfId s (dv_driverId d),
     mv_status = dv_status d, mv_packageType = dv_packageDescription d, mv_currentLocation = positionOf s (dv_driverId d)\<rparr>"

record fleetMap =
  fm_timestamp :: instant
  fm_onlineDrivers :: nat
  fm_onTripRides :: nat
  fm_onDeliveries :: nat
  fm_activeChargingHubs :: nat
  fm_offlineDrivers :: nat
  fm_drivers :: "mapDriver list"
  fm_trips :: "mapTrip list"
  fm_deliveries :: "mapDelivery list"
  fm_stations :: "chargingStation list"

definition hubStatuses :: "ChargingStationStatus list" where
  "hubStatuses = [ChargingStationStatus.AVAILABLE, BUSY, OPERATIONAL]"

definition getFleetMap :: "string option \<Rightarrow> fleetMap op" where
  "getFleetMap bounds = gets (\<lambda>s.
     let box = parseBounds bounds;
         stations = filter (\<lambda>c. inBox box (cs_lat c, cs_lng c)) (filter cs_isActive (chargingStations s)) in
     \<lparr>fm_timestamp = now s,
      fm_onlineDrivers = countWhere (\<lambda>d. ds_availability d = DriverAvailability.ONLINE) (driverStatuses s),
      fm_onTripRides = length (activeRides s), fm_onDeliveries = length (activeDeliveries s),
      fm_activeChargingHubs = countWhere (\<lambda>c. cs_status c \<in> set hubStatuses) stations,
      fm_offlineDrivers = countWhere (\<lambda>d. ds_availability d = DriverAvailability.OFFLINE) (driverStatuses s),
      fm_drivers = filter (\<lambda>d. case mp_position d of None \<Rightarrow> True | Some p \<Rightarrow> inBox box p)
        (map (mapDriverOf s) (filter (\<lambda>d. ds_availability d \<noteq> DriverAvailability.OFFLINE) (driverStatuses s))),
      fm_trips = map (mapTripOf s) (filter (\<lambda>r. inBox box (rd_pickupLat r, rd_pickupLng r)) (activeRides s)),
      fm_deliveries = map (mapDeliveryOf s) (filter (\<lambda>d. inBox box (dv_pickupLat d, dv_pickupLng d)) (activeDeliveries s)),
      fm_stations = stations\<rparr>)"

section \<open>Lists of riders and drivers\<close>

record userQuery =
  uq_search :: "string option"
  uq_status :: "UserStatus option"
  uq_from :: "instant option"
  uq_to :: "instant option"

definition userListWhere :: "UserRole \<Rightarrow> userQuery \<Rightarrow> user \<Rightarrow> bool" where
  "userListWhere role q u \<longleftrightarrow>
     usr_role u = role \<and> (uq_status q = None \<or> uq_status q = Some (usr_status u)) \<and> inRange (uq_from q) (uq_to q) (usr_createdAt u)
     \<and> (truthy (uq_search q) \<longrightarrow> (\<exists>x \<in> {usr_publicId u, usr_firstName u, usr_lastName u, usr_phone u}. containsInsensitive (the (uq_search q)) x)
          \<or> (case usr_email u of None \<Rightarrow> False | Some e \<Rightarrow> containsInsensitive (the (uq_search q)) e))"

definition DAY_MS :: int where "DAY_MS = 24 * 60 * 60 * 1000"

definition usersSince :: "UserRole \<Rightarrow> int \<Rightarrow> db \<Rightarrow> nat" where
  "usersSince role days s = countWhere (\<lambda>u. usr_role u = role \<and> now s - days * DAY_MS \<le> usr_createdAt u) (users s)"

definition statusTally :: "UserRole \<Rightarrow> db \<Rightarrow> (UserStatus \<Rightarrow> nat) \<times> nat" where
  "statusTally role s = tallyByStatus (groupCount usr_status (filter (\<lambda>u. usr_role u = role) (users s)))"

record riderTotals =
  rm_total :: nat
  rm_active :: nat
  rm_suspended :: nat
  rm_pendingVerification :: nat
  rm_newLast7Days :: nat
  rm_newLast30Days :: nat
  rm_totalWalletBalance :: string

definition riderSummary :: "db \<Rightarrow> riderTotals" where
  "riderSummary s = (let t = statusTally UserRole.RIDER s in
     \<lparr>rm_total = snd t, rm_active = fst t UserStatus.ACTIVE, rm_suspended = fst t UserStatus.SUSPENDED,
      rm_pendingVerification = fst t PENDING_VERIFICATION, rm_newLast7Days = usersSince UserRole.RIDER 7 s,
      rm_newLast30Days = usersSince UserRole.RIDER 30 s, rm_totalWalletBalance = decimalToFixed (Some (balancesOf {RIDER_WALLET} s))\<rparr>)"

text \<open>The review state of a driver from the latest document of each type; drivers without documents have no entry.\<close>

definition reviewState :: "KycStatus list \<Rightarrow> KycStatus" where
  "reviewState latest = (if KycStatus.PENDING \<in> set latest then KycStatus.PENDING
     else if KycStatus.REJECTED \<in> set latest then KycStatus.REJECTED else KycStatus.APPROVED)"

definition driverKycStates :: "db \<Rightarrow> (string \<times> KycStatus) list" where
  "driverKycStates s = map (\<lambda>i. (i, reviewState (map kd_status (latestPer kd_type [] (rev (filter (\<lambda>d. kd_driverId d = i) (kycDocuments s)))))))
     (remdups (map kd_driverId (kycDocuments s)))"

record driverTotals =
  dm_total :: nat
  dm_online :: nat
  dm_available :: nat
  dm_onTrip :: nat
  dm_offline :: nat
  dm_pendingKyc :: nat
  dm_approvedKyc :: nat
  dm_rejectedKyc :: nat
  dm_kycNotSubmitted :: nat
  dm_active :: nat
  dm_suspended :: nat
  dm_pendingVerification :: nat
  dm_newLast30Days :: nat

definition availabilityTally :: "db \<Rightarrow> (DriverAvailability \<Rightarrow> nat) \<times> nat" where
  "availabilityTally s = tallyByStatus (groupCount ds_availability
     (filter (\<lambda>d. case userRow s (ds_userId d) of None \<Rightarrow> False | Some u \<Rightarrow> usr_role u = UserRole.DRIVER) (driverStatuses s)))"

text \<open>Subtraction of naturals stops at zero, as \<open>Math.max(0, ...)\<close> does.\<close>

definition driverSummary :: "db \<Rightarrow> driverTotals" where
  "driverSummary s =
     (let t = statusTally UserRole.DRIVER s; a = fst (availabilityTally s); states = map snd (driverKycStates s);
          available = a DriverAvailability.ONLINE; onTrip = a ON_TRIP in
      \<lparr>dm_total = snd t, dm_online = available + onTrip, dm_available = available, dm_onTrip = onTrip,
       dm_offline = snd t - available - onTrip, dm_pendingKyc = countWhere (\<lambda>k. k = KycStatus.PENDING) states,
       dm_approvedKyc = countWhere (\<lambda>k. k \<noteq> KycStatus.PENDING \<and> k \<noteq> KycStatus.REJECTED) states,
       dm_rejectedKyc = countWhere (\<lambda>k. k = KycStatus.REJECTED) states, dm_kycNotSubmitted = snd t - length (driverKycStates s),
       dm_active = fst t UserStatus.ACTIVE, dm_suspended = fst t UserStatus.SUSPENDED,
       dm_pendingVerification = fst t PENDING_VERIFICATION, dm_newLast30Days = usersSince UserRole.DRIVER 30 s\<rparr>)"

record riderRow =
  ri_user :: user
  ri_walletBalance :: string
  ri_totalTrips :: nat
  ri_totalDeliveries :: nat

definition accountOf :: "db \<Rightarrow> string \<Rightarrow> AccountType \<Rightarrow> account option" where
  "accountOf s owner type = List.find (\<lambda>a. acc_ownerId a = Some owner \<and> acc_type a = type) (accounts s)"

definition riderRowOf :: "db \<Rightarrow> user \<Rightarrow> riderRow" where
  "riderRowOf s u = \<lparr>ri_user = u, ri_walletBalance = decimalToFixed (map_option acc_balance (accountOf s (usr_id u) RIDER_WALLET)),
     ri_totalTrips = countWhere (\<lambda>r. rd_riderId r = usr_id u \<and> rd_status r = RideStatus.COMPLETED) (rides s),
     ri_totalDeliveries = countWhere (\<lambda>d. dv_senderId d = usr_id u \<and> dv_status d = DeliveryStatus.COMPLETED) (deliveries s)\<rparr>"

record driverListRow =
  dr_user :: user
  dr_availability :: DriverAvailability
  dr_vehicleType :: "string option"
  dr_serviceMode :: "DriverServiceMode option"
  dr_kycStatus :: "KycStatus option"
  dr_totalTrips :: nat
  dr_totalEarnings :: string
  dr_totalCommission :: string

definition driverRowOf :: "db \<Rightarrow> user \<Rightarrow> driverListRow" where
  "driverRowOf s u =
     (let rs = filter (\<lambda>r. rd_driverId r = Some (usr_id u) \<and> rd_status r = RideStatus.COMPLETED) (rides s);
          ds = filter (\<lambda>d. dv_driverId d = Some (usr_id u) \<and> dv_status d = DeliveryStatus.COMPLETED) (deliveries s);
          gross = sumOf rd_finalFare rs + sumOf dv_finalFare ds;
          commission = sumOf rd_commissionAmount rs + sumOf dv_commissionAmount ds;
          st = List.find (\<lambda>d. ds_userId d = usr_id u) (driverStatuses s) in
      \<lparr>dr_user = u, dr_availability = orElse (map_option ds_availability st) DriverAvailability.OFFLINE,
       dr_vehicleType = Option.bind st ds_vehicleType, dr_serviceMode = map_option ds_serviceMode st,
       dr_kycStatus = map_of (driverKycStates s) (usr_id u), dr_totalTrips = length rs + length ds,
       dr_totalEarnings = decimalToFixed (Some (gross - commission)), dr_totalCommission = decimalToFixed (Some commission)\<rparr>)"

datatype KycFilter = NotSubmitted | Reviewed KycStatus

record driverQuery =
  vq_users :: userQuery
  vq_availability :: "DriverAvailability option"
  vq_kyc :: "KycFilter option"

definition driverListWhere :: "db \<Rightarrow> driverQuery \<Rightarrow> user \<Rightarrow> bool" where
  "driverListWhere s q u \<longleftrightarrow> userListWhere UserRole.DRIVER (vq_users q) u
     \<and> (case vq_availability q of None \<Rightarrow> True
        | Some a \<Rightarrow> (case List.find (\<lambda>d. ds_userId d = usr_id u) (driverStatuses s) of
            None \<Rightarrow> a = DriverAvailability.OFFLINE | Some d \<Rightarrow> ds_availability d = a))
     \<and> (case vq_kyc q of None \<Rightarrow> True
        | Some NotSubmitted \<Rightarrow> (\<forall>d \<in> set (kycDocuments s). kd_driverId d \<noteq> usr_id u)
        | Some (Reviewed k) \<Rightarrow> (usr_id u, k) \<in> set (driverKycStates s))"

definition listRiders :: "userQuery \<Rightarrow> int option \<Rightarrow> int option \<Rightarrow> (riderRow paginated \<times> riderTotals) op" where
  "listRiders q takeN skipN = gets (\<lambda>s.
     (pageOf takeN skipN (map (riderRowOf s) (rev (filter (userListWhere UserRole.RIDER q) (users s)))), riderSummary s))"

definition listDrivers :: "driverQuery \<Rightarrow> int option \<Rightarrow> int option \<Rightarrow> (driverListRow paginated \<times> driverTotals) op" where
  "listDrivers q takeN skipN = gets (\<lambda>s.
     (pageOf takeN skipN (map (driverRowOf s) (rev (filter (driverListWhere s q) (users s)))), driverSummary s))"

section \<open>Account switches\<close>

definition setUserStatus :: "string \<Rightarrow> UserStatus \<Rightarrow> user op" where
  "setUserStatus i status =
     (let mine = (\<lambda>u. usr_id u = i \<and> usr_role u \<in> {UserRole.RIDER, UserRole.DRIVER}) in
      bind (gets (\<lambda>s. countWhere mine (users s))) (\<lambda>count.
      andThen (modify (\<lambda>s. s\<lparr>users := updateWhere mine (\<lambda>u. u\<lparr>usr_status := status\<rparr>) (users s)\<rparr>))
      (andThen (ensure (count \<noteq> 0) (NotFoundException ''User not found''))
      (bind (findUser (\<lambda>u. usr_id u = i)) (\<lambda>found. orThrow found RecordNotFound)))))"

definition suspendUser :: "string \<Rightarrow> string \<Rightarrow> user op" where
  "suspendUser i actorId =
     bind (setUserStatus i UserStatus.SUSPENDED) (\<lambda>u. andThen (audit (Some actorId) ''user.suspend'' ''User'' (Some i)) (return u))"

definition activateUser :: "string \<Rightarrow> string \<Rightarrow> user op" where
  "activateUser i actorId =
     bind (setUserStatus i UserStatus.ACTIVE) (\<lambda>u. andThen (audit (Some actorId) ''user.activate'' ''User'' (Some i)) (return u))"

text \<open>src/platform-config/platform-config.service.ts \<open>getAll\<close>, and the settings screen.\<close>

definition getAllConfig :: "(string \<times> rat) list op" where
  "getAllConfig = gets platformConfig"

definition updateConfig :: "(string \<times> rat) list \<Rightarrow> string \<Rightarrow> (string \<times> rat) list op" where
  "updateConfig updates actorId =
     andThen (forEach updates (\<lambda>(key, value). setConfig key value))
     (andThen (audit (Some actorId) ''config.update'' ''PlatformConfig'' None) getAllConfig)"

section \<open>Audit log\<close>

record auditFilters =
  af_action :: "string option"
  af_targetType :: "string option"
  af_actorId :: "string option"
  af_from :: "instant option"
  af_to :: "instant option"

definition auditWhere :: "auditFilters \<Rightarrow> auditLog \<Rightarrow> bool" where
  "auditWhere f l \<longleftrightarrow> (truthy (af_action f) \<longrightarrow> al_action l = the (af_action f))
     \<and> (truthy (af_targetType f) \<longrightarrow> al_targetType l = the (af_targetType f))
     \<and> (truthy (af_actorId f) \<longrightarrow> al_actorId l = af_actorId f) \<and> inRange (af_from f) (af_to f) (al_createdAt l)"

definition auditList :: "auditFilters \<Rightarrow> int \<Rightarrow> int \<Rightarrow> (auditLog list \<times> nat) op" where
  "auditList f n skip = gets (\<lambda>s. let rows = rev (filter (auditWhere f) (auditLogs s)) in (take (nat n) (drop (nat skip) rows), length rows))"

definition getAuditLogs :: "auditFilters \<Rightarrow> int option \<Rightarrow> int option \<Rightarrow> auditLog paginated op" where
  "getAuditLogs f takeN skipN =
     bind (auditList f (orElse takeN 50) (orElse skipN 0)) (\<lambda>(rows, count). return (toPaginated rows (int count) takeN skipN))"

end
