(* ===== verification/SuspensionProps.thy ===== *)
theory SuspensionProps
  imports AdminOps AuthProps
begin

text \<open>
  Suspending a rider or driver (src/admin-ops/admin-ops.service.ts) and the sessions of
  src/accounts/auth.service.ts: the two meet only in the user row, whose status \<open>refresh\<close> does not read.
\<close>

lemma suspendUser_run:
  assumes "suspendUser i admin s = (Inr v, t)" and "distinct (map usr_id (users s))"
  shows "usr_status v = UserStatus.SUSPENDED" "refreshTokens t = refreshTokens s" "now t = now s" "uuids t = uuids s"
    "uuidsUsed t = uuidsUsed s" "List.find (\<lambda>u. usr_id u = i) (users t) = Some v"
proof -
  let ?mine = "\<lambda>u. usr_id u = i \<and> usr_role u \<in> {UserRole.RIDER, UserRole.DRIVER}"
  note run = assms(1) [unfolded suspendUser_def setUserStatus_def audit_def findUser_def Let_def, simplified run_simps]
  show t: "refreshTokens t = refreshTokens s" "now t = now s" "uuids t = uuids s" "uuidsUsed t = uuidsUsed s"
    "List.find (\<lambda>u. usr_id u = i) (users t) = Some v"
    using run by (auto simp: run_simps split: option.splits if_splits)
  have "users t = updateWhere ?mine (\<lambda>u. u\<lparr>usr_status := UserStatus.SUSPENDED\<rparr>) (users s)" "countWhere ?mine (users s) \<noteq> 0"
    using run by (auto simp: run_simps split: option.splits if_splits)
  moreover from this(2) obtain u where "u \<in> set (users s)" "?mine u" unfolding countWhere_zero by blast
  ultimately have "u\<lparr>usr_status := UserStatus.SUSPENDED\<rparr> \<in> set (users t)" "map usr_id (users t) = map usr_id (users s)"
    by (auto simp: set_updateWhere map_updateWhere_same intro!: image_eqI [where x = u])
  then have "List.find (\<lambda>x. usr_id x = usr_id u) (users t) = Some (u\<lparr>usr_status := UserStatus.SUSPENDED\<rparr>)"
    using find_key [of usr_id "users t" "u\<lparr>usr_status := UserStatus.SUSPENDED\<rparr>"] assms(2) by simp
  then have "List.find (\<lambda>u. usr_id u = i) (users t) = Some (u\<lparr>usr_status := UserStatus.SUSPENDED\<rparr>)"
    using \<open>?mine u\<close> by simp
  then show "usr_status v = UserStatus.SUSPENDED" using t(5) by simp
qed



end
