(* ===== verification/Business.thy ===== *)
theory Business
  imports Logistics Staff Paging Exports
begin

text \<open>
  Company accounts, src/business/business.service.ts and src/business/business-invoices.service.ts:
  the members of a business and their invitations, its credit, its deliveries on account and the
  payment of their invoices, and the credit figures of the admin screens.  The export is in
  BackOffice.
\<close>

definition TEAM_INVITE_TTL_MS :: int where
  "TEAM_INVITE_TTL_MS = 7 * 24 * 60 * 60 * 1000"

section \<open>Members\<close>

definition memberById :: "string \<Rightarrow> user op" where
  "memberById i = bind (findUser (\<lambda>u. usr_id u = i)) (\<lambda>found. orThrow found RecordNotFound)"

definition assertMember :: "string \<Rightarrow> string \<Rightarrow> user op" where
  "assertMember userId businessId =
     bind (memberById userId) (\<lambda>u.
     andThen (ensure (usr_businessId u = Some businessId) (ForbiddenException ''You are not a member of this business''))
     (return u))"

definition assertAdmin :: "string \<Rightarrow> string \<Rightarrow> user op" where
  "assertAdmin userId businessId =
     bind (assertMember userId businessId) (\<lambda>u.
     andThen (ensure (usr_role u = BUSINESS_ADMIN) (ForbiddenException ''Only a business admin can perform this action''))
     (return u))"

record businessDto =
  bd_name :: string
  bd_registrationNumber :: "string option"
  bd_contactEmail :: "string option"
  bd_contactPhone :: "string option"

definition createBusiness :: "string \<Rightarrow> businessDto \<Rightarrow> business op" where
  "createBusiness userId dto =
     bind (memberById userId) (\<lambda>u.
     andThen (ensure (usr_role u = RIDER) (ForbiddenException ''Only a rider account can create a business account''))
     (andThen (ensure (\<not> truthy (usr_businessId u)) (ConflictException ''You already belong to a business''))
     (atomic
       (bind freshId (\<lambda>i. bind freshId (\<lambda>p.
        let b = \<lparr>bz_id = i, bz_publicId = ''BIZ-'' @ p, bz_name = bd_name dto, bz_registrationNumber = bd_registrationNumber dto,
                 bz_contactEmail = bd_contactEmail dto, bz_contactPhone = bd_contactPhone dto,
                 bz_status = BusinessStatus.ACTIVE, bz_creditLimit = 0\<rparr> in
        andThen (modify (\<lambda>s. s\<lparr>businesses := businesses s @ [b]\<rparr>))
        (andThen (setUser userId (\<lambda>u. u\<lparr>usr_role := BUSINESS_ADMIN, usr_businessId := Some i\<rparr>))
        (return b))))))))"

definition getBusiness :: "string \<Rightarrow> string \<Rightarrow> business op" where
  "getBusiness userId businessId = bind (assertMember userId businessId) (\<lambda>_. findBusinessOrThrow businessId)"

definition listTeamMembers :: "string \<Rightarrow> string \<Rightarrow> user list op" where
  "listTeamMembers userId businessId =
     bind (assertMember userId businessId) (\<lambda>_.
     gets (\<lambda>s. filter (\<lambda>u. usr_businessId u = Some businessId) (users s)))"

definition removeTeamMember :: "string \<Rightarrow> string \<Rightarrow> string \<Rightarrow> unit op" where
  "removeTeamMember actorId businessId targetUserId =
     bind (assertAdmin actorId businessId) (\<lambda>_.
     bind (findUser (\<lambda>u. usr_id u = targetUserId)) (\<lambda>found.
     andThen (ensure (case found of None \<Rightarrow> False | Some u \<Rightarrow> usr_businessId u = Some businessId) (NotFoundException ''Team member not found''))
     (setUser targetUserId (\<lambda>u. u\<lparr>usr_businessId := None, usr_role := RIDER\<rparr>))))"

section \<open>Invitations\<close>

definition findTeamInvite :: "(businessTeamInvite \<Rightarrow> bool) \<Rightarrow> businessTeamInvite option op" where
  "findTeamInvite P = gets (\<lambda>s. List.find P (businessInvites s))"

definition teamInviteUrl :: "authEnv \<Rightarrow> string \<Rightarrow> string" where
  "teamInviteUrl env token = orElse (ae_businessAppUrl env) ''http://localhost:5175'' @ ''/invite/accept?token='' @ token"

definition inviteTeamMember :: "authEnv \<Rightarrow> string \<Rightarrow> string \<Rightarrow> string \<Rightarrow> UserRole \<Rightarrow> businessTeamInvite op" where
  "inviteTeamMember env inviterId businessId email role =
     bind (assertAdmin inviterId businessId) (\<lambda>_.
     bind (findUser (\<lambda>u. usr_email u = Some email)) (\<lambda>existingUser.
     andThen (ensure (existingUser = None) (ConflictException ''An account with this email already exists''))
     (bind (gets now) (\<lambda>t.
      bind (findTeamInvite (\<lambda>v. bi_businessId v = businessId \<and> bi_email v = email \<and> bi_status v = InviteStatus.PENDING
              \<and> t < bi_expiresAt v)) (\<lambda>pendingInvite.
      andThen (ensure (pendingInvite = None) (ConflictException ''An invite is already pending for this email - revoke it first''))
      (bind (findBusinessOrThrow businessId) (\<lambda>b.
       bind freshId (\<lambda>rawToken.
       bind (findTeamInvite (\<lambda>v. bi_tokenHash v = ae_hashToken env rawToken)) (\<lambda>clash.
       andThen (ensure (clash = None) UniqueViolation)
       (bind freshId (\<lambda>i.
        let v = \<lparr>bi_id = i, bi_email = email, bi_businessId = businessId, bi_role = role, bi_tokenHash = ae_hashToken env rawToken,
                 bi_status = InviteStatus.PENDING, bi_expiresAt = t + TEAM_INVITE_TTL_MS, bi_acceptedAt = None,
                 bi_invitedById = inviterId, bi_acceptedUserId = None\<rparr> in
        andThen (modify (\<lambda>s. s\<lparr>businessInvites := businessInvites s @ [v]\<rparr>))
        (andThen (send env (EmailTeamInvite email (bz_name b) (teamInviteUrl env rawToken)))
        (return v)))))))))))))"

definition acceptTeamInvite :: "authEnv \<Rightarrow> acceptDto \<Rightarrow> tokenPair op" where
  "acceptTeamInvite env dto =
     bind (findTeamInvite (\<lambda>v. bi_tokenHash v = ae_hashToken env (ac_token dto))) (\<lambda>found.
     bind (orThrow found (BadRequestException ''Invalid invite'')) (\<lambda>invite.
     bind (gets now) (\<lambda>t.
     andThen (ensure (bi_status invite = InviteStatus.PENDING \<and> \<not> bi_expiresAt invite < t) (BadRequestException ''This invite is no longer valid''))
     (bind (findUser (\<lambda>u. usr_phone u = ac_phone dto)) (\<lambda>phoneTaken.
      andThen (ensure (phoneTaken = None) (ConflictException ''An account with this phone number already exists''))
      (bind (hashPassword env (ac_password dto)) (\<lambda>h.
       bind (atomic
         (bind (insertUser (blankUser\<lparr>usr_firstName := ac_firstName dto, usr_lastName := ac_lastName dto, usr_phone := ac_phone dto,
            usr_email := Some (bi_email invite), usr_emailVerifiedAt := Some t, usr_passwordHash := Some h,
            usr_role := bi_role invite, usr_status := UserStatus.ACTIVE, usr_businessId := Some (bi_businessId invite)\<rparr>)) (\<lambda>u.
          andThen (modify (\<lambda>s. s\<lparr>businessInvites := updateWhere (\<lambda>v. bi_id v = bi_id invite)
             (\<lambda>v. v\<lparr>bi_status := InviteStatus.ACCEPTED, bi_acceptedAt := Some t, bi_acceptedUserId := Some (usr_id u)\<rparr>) (businessInvites s)\<rparr>))
          (return u)))) (\<lambda>u.
       issueTokenPair env (usr_id u) (usr_role u) (usr_phone u) (None, None)))))))))"

section \<open>Credit\<close>

definition getCredit :: "string \<Rightarrow> string \<Rightarrow> (rat \<times> rat) op" where
  "getCredit userId businessId =
     bind (assertMember userId businessId) (\<lambda>_.
     bind (both (findBusinessOrThrow businessId) (getOrCreateUserAccount businessId BUSINESS_CREDIT_PAYABLE)) (\<lambda>(b, payable).
     return (bz_creditLimit b, acc_balance payable)))"

definition updateBusiness :: "string \<Rightarrow> (business \<Rightarrow> business) \<Rightarrow> business op" where
  "updateBusiness businessId f =
     andThen (modify (\<lambda>s. s\<lparr>businesses := updateWhere (\<lambda>b. bz_id b = businessId) f (businesses s)\<rparr>)) (findBusinessOrThrow businessId)"

definition setCreditLimit :: "string \<Rightarrow> rat \<Rightarrow> business op" where
  "setCreditLimit businessId creditLimit =
     bind (findBusinessOrThrow businessId) (\<lambda>_. updateBusiness businessId (\<lambda>b. b\<lparr>bz_creditLimit := scale2 creditLimit\<rparr>))"

definition setStatus :: "string \<Rightarrow> BusinessStatus \<Rightarrow> string \<Rightarrow> business op" where
  "setStatus businessId status actorId =
     bind (findBusinessOrThrow businessId) (\<lambda>_.
     bind (updateBusiness businessId (\<lambda>b. b\<lparr>bz_status := status\<rparr>)) (\<lambda>updated.
     andThen (audit (Some actorId) ''business.status.update'' ''Business'' (Some businessId)) (return updated)))"

section \<open>Deliveries on account\<close>

definition quotedFare :: "deliveryQuote \<Rightarrow> rat option" where
  "quotedFare q = (case dq_quotes q of [] \<Rightarrow> None | v # _ \<Rightarrow> Some (vq_estimatedFare v))"

definition scheduleDelivery :: "distanceMatrix \<Rightarrow> (leg \<Rightarrow> rat \<times> int) \<Rightarrow> (string \<Rightarrow> string) \<Rightarrow> string option \<Rightarrow> (instant \<Rightarrow> string)
    \<Rightarrow> string \<Rightarrow> string \<Rightarrow> nat \<times> deliveryDto \<Rightarrow> (delivery \<times> string) op" where
  "scheduleDelivery matrix approximate hashToken trackBase showDate userId businessId item =
     bind (quoteDelivery matrix approximate (dx_pickupLat (snd item)) (dx_pickupLng (snd item)) (dx_stops (snd item))
             (Some (dx_vehicleType (snd item))) (dx_serviceType (snd item)) None None) (\<lambda>quote.
     bind (orThrow (quotedFare quote) (BadRequestException (''No active tariff for vehicle type '' @ dx_vehicleType (snd item)))) (\<lambda>fare.
     andThen (assertWithinCreditLimit businessId fare)
     (createDelivery matrix approximate hashToken trackBase showDate (fst item) userId (snd item) (Some businessId))))"

text \<open>The items one after the other; a failure keeps the deliveries made before it.\<close>

fun scheduleAll :: "('a \<Rightarrow> 'b op) \<Rightarrow> 'a list \<Rightarrow> 'b list op" where
  "scheduleAll f [] = return []"
| "scheduleAll f (x # xs) = bind (f x) (\<lambda>y. bind (scheduleAll f xs) (\<lambda>ys. return (y # ys)))"

definition scheduleDeliveries :: "distanceMatrix \<Rightarrow> (leg \<Rightarrow> rat \<times> int) \<Rightarrow> (string \<Rightarrow> string) \<Rightarrow> string option \<Rightarrow> (instant \<Rightarrow> string)
    \<Rightarrow> string \<Rightarrow> string \<Rightarrow> (nat \<times> deliveryDto) list \<Rightarrow> (delivery \<times> string) list op" where
  "scheduleDeliveries matrix approximate hashToken trackBase showDate userId businessId items =
     bind (assertMember userId businessId) (\<lambda>_.
     scheduleAll (scheduleDelivery matrix approximate hashToken trackBase showDate userId businessId) items)"

section \<open>Invoices\<close>

definition listInvoices :: "string \<Rightarrow> string \<Rightarrow> nat \<Rightarrow> nat \<Rightarrow> invoice list op" where
  "listInvoices userId businessId n skip =
     bind (assertMember userId businessId) (\<lambda>_.
     gets (\<lambda>s. take n (drop skip (rev (filter (\<lambda>v. iv_businessId v = businessId) (invoices s))))))"

definition findInvoiceOrThrow :: "string \<Rightarrow> string \<Rightarrow> invoice op" where
  "findInvoiceOrThrow businessId invoiceId =
     bind (gets (\<lambda>s. List.find (\<lambda>v. iv_id v = invoiceId) (invoices s))) (\<lambda>found.
     bind (orThrow found (NotFoundException ''Invoice not found'')) (\<lambda>v.
     andThen (ensure (iv_businessId v = businessId) (NotFoundException ''Invoice not found'')) (return v)))"

definition getInvoice :: "string \<Rightarrow> string \<Rightarrow> string \<Rightarrow> invoice op" where
  "getInvoice userId businessId invoiceId = bind (assertMember userId businessId) (\<lambda>_. findInvoiceOrThrow businessId invoiceId)"

fun invoiceStatusName :: "InvoiceStatus \<Rightarrow> string" where
  "invoiceStatusName InvoiceStatus.PENDING = ''pending''"
| "invoiceStatusName InvoiceStatus.PAID = ''paid''"
| "invoiceStatusName OVERDUE = ''overdue''"

definition invoiceReference :: "string \<Rightarrow> string" where
  "invoiceReference invoiceId = ''invoice:'' @ invoiceId"

definition payBusinessInvoice :: "string \<Rightarrow> string \<Rightarrow> string \<Rightarrow> invoice op" where
  "payBusinessInvoice userId businessId invoiceId =
     bind (assertAdmin userId businessId) (\<lambda>_.
     bind (findInvoiceOrThrow businessId invoiceId) (\<lambda>v.
     andThen (ensure (iv_status v = InvoiceStatus.PENDING)
        (BadRequestException (''Invoice is already '' @ invoiceStatusName (iv_status v))))
     (andThen (ensure (truthy (iv_deliveryId v)) (BadRequestException ''This invoice has no linked delivery to pay a driver for''))
     (bind (findDelivery (the (iv_deliveryId v))) (\<lambda>found.
      bind (orThrow found RecordNotFound) (\<lambda>d.
      andThen (ensure (truthy (dv_driverId d)) (BadRequestException ''This delivery has no assigned driver to pay''))
      (bind (payInvoice businessId (the (dv_driverId d)) (iv_amount v) (iv_commissionAmount v) (invoiceReference invoiceId) None
               (orElse (dv_taxAmount d) 0)) (\<lambda>tx.
       bind (gets now) (\<lambda>t.
       andThen (modify (\<lambda>s. s\<lparr>invoices := updateWhere (\<lambda>v. iv_id v = invoiceId)
          (\<lambda>v. v\<lparr>iv_status := InvoiceStatus.PAID, iv_paidAt := Some t, iv_transactionId := Some (tx_id tx)\<rparr>) (invoices s)\<rparr>))
       (bind (gets (\<lambda>s. List.find (\<lambda>v. iv_id v = invoiceId) (invoices s))) (\<lambda>u. orThrow u RecordNotFound)))))))))))"

section \<open>Credit figures\<close>

datatype CreditStatus = OVERDUE_CREDIT | ON_CREDIT | NO_CREDIT

definition outstandingOf :: "db \<Rightarrow> string \<Rightarrow> rat" where
  "outstandingOf s businessId =
     (case List.find (\<lambda>a. acc_type a = BUSINESS_CREDIT_PAYABLE \<and> acc_ownerId a = Some businessId) (accounts s) of
        None \<Rightarrow> 0 | Some a \<Rightarrow> acc_balance a)"

definition creditStatusOf :: "db \<Rightarrow> string \<Rightarrow> CreditStatus" where
  "creditStatusOf s businessId =
     (if \<exists>v \<in> set (invoices s). iv_businessId v = businessId \<and> iv_status v = OVERDUE then OVERDUE_CREDIT
      else if 0 < outstandingOf s businessId then ON_CREDIT else NO_CREDIT)"

definition annotateCredit :: "db \<Rightarrow> business list \<Rightarrow> (business \<times> rat \<times> CreditStatus) list" where
  "annotateCredit s rows = map (\<lambda>b. (b, outstandingOf s (bz_id b), creditStatusOf s (bz_id b))) rows"

record businessQuery =
  bq_status :: "BusinessStatus option"
  bq_search :: "string option"
  bq_creditStatus :: "CreditStatus option"
  bq_take :: "int option"
  bq_skip :: "int option"

definition businessMatches :: "businessQuery \<Rightarrow> business \<Rightarrow> bool" where
  "businessMatches q b \<longleftrightarrow>
     (bq_status q = None \<or> bq_status q = Some (bz_status b))
     \<and> (truthy (bq_search q) \<longrightarrow> containsInsensitive (the (bq_search q)) (bz_publicId b)
          \<or> containsInsensitive (the (bq_search q)) (bz_name b)
          \<or> (case bz_contactEmail b of None \<Rightarrow> False | Some e \<Rightarrow> containsInsensitive (the (bq_search q)) e))"

definition listAllBusinesses :: "businessQuery \<Rightarrow> (business \<times> rat \<times> CreditStatus) paginated op" where
  "listAllBusinesses q = gets (\<lambda>s.
     let matching = rev (filter (businessMatches q) (businesses s)) in
     case bq_creditStatus q of
       Some c \<Rightarrow>
         let annotated = filter (\<lambda>(b, x, st). st = c) (annotateCredit s matching) in
         toPaginated (take (nat (orElse (bq_take q) 50)) (drop (nat (orElse (bq_skip q) 0)) annotated)) (int (length annotated))
           (bq_take q) (bq_skip q)
     | None \<Rightarrow>
         toPaginated (annotateCredit s (take (nat (orElse (bq_take q) 50)) (drop (nat (orElse (bq_skip q) 0)) matching)))
           (int (length matching)) (bq_take q) (bq_skip q))"

definition businessStats :: "(nat \<times> nat \<times> nat \<times> rat) op" where
  "businessStats = gets (\<lambda>s.
     (length (businesses s),
      countWhere (\<lambda>b. \<exists>u \<in> set (users s). usr_businessId u = Some (bz_id b)) (businesses s),
      countWhere (\<lambda>b. 0 < bz_creditLimit b) (businesses s),
      sum_list (map acc_balance (filter (\<lambda>a. acc_type a = BUSINESS_CREDIT_PAYABLE) (accounts s)))))"

record businessDetail =
  bt_business :: business
  bt_members :: nat
  bt_deliveries :: nat
  bt_outstanding :: rat
  bt_invoices :: "(InvoiceStatus \<times> nat \<times> rat) list"
  bt_recent :: "delivery list"

text \<open>\<open>groupBy status\<close>: one line for every status that occurs.\<close>

definition invoiceSummary :: "db \<Rightarrow> string \<Rightarrow> (InvoiceStatus \<times> nat \<times> rat) list" where
  "invoiceSummary s businessId =
     (let own = filter (\<lambda>v. iv_businessId v = businessId) (invoices s) in
      map (\<lambda>st. (st, countWhere (\<lambda>v. iv_status v = st) own, sum_list (map iv_amount (filter (\<lambda>v. iv_status v = st) own))))
        (remdups (map iv_status own)))"

definition getBusinessDetail :: "string \<Rightarrow> businessDetail op" where
  "getBusinessDetail i =
     bind (gets (\<lambda>s. List.find (\<lambda>b. bz_id b = i) (businesses s))) (\<lambda>found.
     bind (orThrow found (NotFoundException ''Business not found'')) (\<lambda>b.
     bind (getOrCreateUserAccount i BUSINESS_CREDIT_PAYABLE) (\<lambda>payable.
     gets (\<lambda>s. \<lparr>bt_business = b, bt_members = countWhere (\<lambda>u. usr_businessId u = Some i) (users s),
        bt_deliveries = countWhere (\<lambda>d. dv_businessId d = Some i) (deliveries s), bt_outstanding = acc_balance payable,
        bt_invoices = invoiceSummary s i,
        bt_recent = take 10 (rev (sort_key dv_requestedAt (filter (\<lambda>d. dv_businessId d = Some i) (deliveries s))))\<rparr>))))"

end
