(* ===== verification/Support.thy ===== *)
theory Support
  imports Notify
begin

text \<open>
  Support tickets, src/support/support.service.ts: opening a ticket, the thread of replies, and the
  staff's operations (assign, prioritise, escalate, resolve).  The export is in
  BackOffice.
\<close>

definition STAFF_SUPPORT :: "UserRole list" where "STAFF_SUPPORT = [ADMIN, SUPER_ADMIN, SUPPORT_AGENT]"

definition UNRESOLVED :: "TicketStatus list" where "UNRESOLVED = [OPEN, TicketStatus.IN_PROGRESS, ESCALATED]"

record ticketFilters =
  tq_status :: "TicketStatus option"
  tq_priority :: "TicketPriority option"
  tq_assignedToId :: "string option"
  tq_from :: "instant option"
  tq_to :: "instant option"

definition ticketMatches :: "ticketFilters \<Rightarrow> supportTicket \<Rightarrow> bool" where
  "ticketMatches q t \<longleftrightarrow> (tq_status q = None \<or> tq_status q = Some (sk_status t))
     \<and> (tq_priority q = None \<or> tq_priority q = Some (sk_priority t))
     \<and> (truthy (tq_assignedToId q) \<longrightarrow> sk_assignedToId t = tq_assignedToId q)
     \<and> inRange (tq_from q) (tq_to q) (sk_createdAt t)"

section \<open>Opening and reading\<close>

definition addMessage :: "string \<Rightarrow> string \<Rightarrow> string \<Rightarrow> ticketMessage op" where
  "addMessage ticketId authorId body =
     bind freshId (\<lambda>i.
      let m = \<lparr>tm_id = i, tm_ticketId = ticketId, tm_authorId = authorId, tm_body = body\<rparr> in
      andThen (modify (\<lambda>s. s\<lparr>ticketMessages := ticketMessages s @ [m]\<rparr>)) (return m))"

definition createTicket :: "string \<Rightarrow> string \<Rightarrow> string \<Rightarrow> string \<Rightarrow> TicketPriority option \<Rightarrow> supportTicket op" where
  "createTicket userId subject category body priority =
     bind freshId (\<lambda>i. bind (gets now) (\<lambda>t.
      let k = \<lparr>sk_id = i, sk_userId = userId, sk_subject = subject, sk_category = category, sk_status = OPEN,
               sk_priority = orElse priority TicketPriority.MEDIUM, sk_assignedToId = None, sk_escalatedAt = None,
               sk_resolvedAt = None, sk_resolvedById = None, sk_createdAt = t\<rparr> in
      andThen (modify (\<lambda>s. s\<lparr>supportTickets := supportTickets s @ [k]\<rparr>))
      (bind (addMessage i userId body) (\<lambda>_. return k))))"

definition listMyTickets :: "string \<Rightarrow> int \<Rightarrow> int \<Rightarrow> supportTicket list op" where
  "listMyTickets userId limit skip =
     gets (\<lambda>s. take (nat limit) (drop (nat skip) (rev (filter (\<lambda>t. sk_userId t = userId) (supportTickets s)))))"

definition assertCanView :: "string \<Rightarrow> UserRole \<Rightarrow> string \<Rightarrow> unit op" where
  "assertCanView userId userRole ownerId =
     ensure (userId = ownerId \<or> userRole \<in> set STAFF_SUPPORT) (ForbiddenException ''You are not a participant on this ticket'')"

definition findTicketOrThrow :: "string \<Rightarrow> supportTicket op" where
  "findTicketOrThrow ticketId =
     bind (gets (\<lambda>s. List.find (\<lambda>t. sk_id t = ticketId) (supportTickets s))) (\<lambda>found.
     orThrow found (NotFoundException ''Ticket not found''))"

definition updateTicket :: "string \<Rightarrow> (supportTicket \<Rightarrow> supportTicket) \<Rightarrow> supportTicket op" where
  "updateTicket ticketId f =
     andThen (modify (\<lambda>s. s\<lparr>supportTickets := updateWhere (\<lambda>t. sk_id t = ticketId) f (supportTickets s)\<rparr>))
     (bind (gets (\<lambda>s. List.find (\<lambda>t. sk_id t = ticketId) (supportTickets s))) (\<lambda>found. orThrow found RecordNotFound))"

definition getTicket :: "string \<Rightarrow> UserRole \<Rightarrow> string \<Rightarrow> (supportTicket \<times> ticketMessage list) op" where
  "getTicket userId userRole ticketId =
     bind (findTicketOrThrow ticketId) (\<lambda>t.
     andThen (assertCanView userId userRole (sk_userId t))
     (gets (\<lambda>s. (t, filter (\<lambda>m. tm_ticketId m = ticketId) (ticketMessages s)))))"

text \<open>The preview of a long reply; the ellipsis is written in UTF-8.\<close>

definition preview :: "string \<Rightarrow> string" where
  "preview body = (if 140 < length body then take 140 body @ [CHR 0xE2, CHR 0x80, CHR 0xA6] else body)"

definition reply :: "clients \<Rightarrow> string \<Rightarrow> UserRole \<Rightarrow> string \<Rightarrow> string \<Rightarrow> ticketMessage op" where
  "reply cl userId userRole ticketId body =
     bind (findTicketOrThrow ticketId) (\<lambda>t.
     andThen (assertCanView userId userRole (sk_userId t))
     (andThen (ensure (sk_status t \<noteq> RESOLVED \<and> sk_status t \<noteq> TicketStatus.CLOSED) (ForbiddenException ''This ticket is already resolved''))
     (let isStaffReply = (userRole \<in> set STAFF_SUPPORT \<and> userId \<noteq> sk_userId t) in
      bind (atomic
        (bind (addMessage ticketId userId body) (\<lambda>m.
         bind (updateTicket ticketId (\<lambda>k. k\<lparr>sk_status := if isStaffReply then TicketStatus.IN_PROGRESS else sk_status t\<rparr>)) (\<lambda>_.
         return m)))) (\<lambda>m.
      andThen (onlyIf isStaffReply
        (bind (sendNotification cl (sk_userId t) ''SUPPORT'' ''New reply on your support ticket'' (preview body) None) (\<lambda>_. return ())))
      (return m)))))"

section \<open>The queue\<close>

record ticketCounts =
  tc_total :: nat
  tc_open :: nat
  tc_inProgress :: nat
  tc_escalated :: nat
  tc_resolved :: nat
  tc_closed :: nat
  tc_urgentOpen :: nat
  tc_unassigned :: nat

definition ticketSummaryOf :: "supportTicket list \<Rightarrow> ticketCounts" where
  "ticketSummaryOf tickets =
     (let count = (\<lambda>st. countWhere (\<lambda>t. sk_status t = st) tickets) in
      \<lparr>tc_total = length tickets, tc_open = count OPEN, tc_inProgress = count TicketStatus.IN_PROGRESS, tc_escalated = count ESCALATED,
       tc_resolved = count RESOLVED, tc_closed = count TicketStatus.CLOSED,
       tc_urgentOpen = countWhere (\<lambda>t. sk_priority t = URGENT \<and> sk_status t \<in> set UNRESOLVED) tickets,
       tc_unassigned = countWhere (\<lambda>t. sk_assignedToId t = None \<and> sk_status t \<in> set UNRESOLVED) tickets\<rparr>)"

definition ticketSummary :: "ticketCounts op" where
  "ticketSummary = gets (\<lambda>s. ticketSummaryOf (supportTickets s))"

definition listAllTickets :: "ticketFilters \<Rightarrow> int \<Rightarrow> int \<Rightarrow> (supportTicket paginated \<times> ticketCounts) op" where
  "listAllTickets q limit skip = gets (\<lambda>s.
     (pageOf (Some limit) (Some skip) (rev (filter (ticketMatches q) (supportTickets s))), ticketSummaryOf (supportTickets s)))"

definition resolutionHours :: "supportTicket \<Rightarrow> rat option" where
  "resolutionHours t = map_option (\<lambda>r. of_int (r - sk_createdAt t) / 3600000) (sk_resolvedAt t)"

definition meanOf :: "rat list \<Rightarrow> rat option" where
  "meanOf xs = (if xs = [] then None else Some (sum_list xs / of_nat (length xs)))"

section \<open>Staff operations\<close>

definition assertAssignee :: "string \<Rightarrow> unit op" where
  "assertAssignee userId =
     bind (findUser (\<lambda>u. usr_id u = userId)) (\<lambda>found.
     ensure (case found of None \<Rightarrow> False | Some u \<Rightarrow> usr_role u \<in> set STAFF_SUPPORT)
       (NotFoundException ''assignedToId is not a support/admin user''))"

definition assign :: "string \<Rightarrow> string \<Rightarrow> supportTicket op" where
  "assign ticketId assignedToId =
     bind (findTicketOrThrow ticketId) (\<lambda>_.
     updateTicket ticketId (\<lambda>t. t\<lparr>sk_assignedToId := Some assignedToId, sk_status := TicketStatus.IN_PROGRESS\<rparr>))"

definition escalate :: "clients \<Rightarrow> string \<Rightarrow> string \<Rightarrow> string option \<Rightarrow> supportTicket op" where
  "escalate cl ticketId actorId reason =
     bind (findTicketOrThrow ticketId) (\<lambda>ticket.
     bind (atomic
       (andThen (onlyIf (truthy reason) (bind (addMessage ticketId actorId (''Escalated: '' @ the reason)) (\<lambda>_. return ())))
       (bind (gets now) (\<lambda>t.
        updateTicket ticketId (\<lambda>k. k\<lparr>sk_status := ESCALATED, sk_priority := URGENT, sk_escalatedAt := Some t\<rparr>))))) (\<lambda>updated.
     bind (sendNotification cl (sk_userId ticket) ''SUPPORT'' ''Your support ticket has been escalated''
       ''Your ticket is now being handled with higher priority.'' None) (\<lambda>_.
     return updated)))"

definition resolve :: "clients \<Rightarrow> string \<Rightarrow> string \<Rightarrow> string option \<Rightarrow> string option \<Rightarrow> supportTicket op" where
  "resolve cl ticketId actorId resolutionNote resolvedById =
     bind (findTicketOrThrow ticketId) (\<lambda>ticket.
     bind (atomic
       (andThen (onlyIf (truthy resolutionNote) (bind (addMessage ticketId actorId (''Resolved: '' @ the resolutionNote)) (\<lambda>_. return ())))
       (bind (gets now) (\<lambda>t.
        updateTicket ticketId (\<lambda>k. k\<lparr>sk_status := RESOLVED, sk_resolvedAt := Some t,
          sk_resolvedById := Some (orElse resolvedById actorId)\<rparr>))))) (\<lambda>updated.
     bind (sendNotification cl (sk_userId ticket) ''SUPPORT'' ''Your support ticket has been resolved''
       (orElse resolutionNote ''Your ticket has been marked as resolved.'') None) (\<lambda>_.
     return updated)))"

record ticketPatch =
  tp_status :: "TicketStatus option"
  tp_priority :: "TicketPriority option"
  tp_assignedToId :: "string option"
  tp_resolutionNote :: "string option"
  tp_resolvedById :: "string option"

definition patchStatus :: "clients \<Rightarrow> string \<Rightarrow> string \<Rightarrow> ticketPatch \<Rightarrow> supportTicket op" where
  "patchStatus cl ticketId actorId dto =
     (case tp_status dto of
        None \<Rightarrow> bind (gets (\<lambda>s. List.find (\<lambda>t. sk_id t = ticketId) (supportTickets s))) (\<lambda>found. orThrow found RecordNotFound)
      | Some st \<Rightarrow>
          if st = RESOLVED \<or> st = TicketStatus.CLOSED then resolve cl ticketId actorId (tp_resolutionNote dto) (tp_resolvedById dto)
          else if st = ESCALATED then escalate cl ticketId actorId (tp_resolutionNote dto)
          else updateTicket ticketId (\<lambda>t. t\<lparr>sk_status := st\<rparr>))"

definition adminUpdate :: "clients \<Rightarrow> string \<Rightarrow> string \<Rightarrow> ticketPatch \<Rightarrow> supportTicket op" where
  "adminUpdate cl ticketId actorId dto =
     bind (findTicketOrThrow ticketId) (\<lambda>_.
     andThen (onlyIf (truthy (tp_assignedToId dto))
       (andThen (assertAssignee (the (tp_assignedToId dto)))
       (bind (updateTicket ticketId (\<lambda>t. t\<lparr>sk_assignedToId := tp_assignedToId dto\<rparr>)) (\<lambda>_. return ()))))
     (andThen (case tp_priority dto of None \<Rightarrow> return ()
         | Some p \<Rightarrow> bind (updateTicket ticketId (\<lambda>t. t\<lparr>sk_priority := p\<rparr>)) (\<lambda>_. return ()))
     (patchStatus cl ticketId actorId dto)))"

end
