(* ===== verification/Partners.thy ===== *)
theory Partners
  imports Staff Ledger Promo Paging
begin

text \<open>
  Partnerships, src/partnerships: referral codes, redemptions and payouts (referrals.service.ts),
  fleet partners and their drivers (fleet-partners.service.ts), and partner offers
  (partner-offers.service.ts).  The draws of \<open>randomInt\<close> are an argument of the operation that makes
  a code, one list of eight per attempt.
\<close>

section \<open>Referral codes\<close>

definition CODE_CHARS :: string where "CODE_CHARS = ''ABCDEFGHJKLMNPQRSTUVWXYZ23456789''"

definition CODE_LENGTH :: nat where "CODE_LENGTH = 8"

text \<open>\<open>draws\<close> holds the eight values of \<open>randomInt(0, CODE_CHARS.length)\<close>.\<close>

definition generateRandomCode :: "nat list \<Rightarrow> string" where
  "generateRandomCode draws = map (\<lambda>n. CODE_CHARS ! (n mod length CODE_CHARS)) (take CODE_LENGTH draws)"

definition insertCode :: "string \<Rightarrow> string \<Rightarrow> referralCode op" where
  "insertCode userId code =
     bind (gets (\<lambda>s. List.find (\<lambda>c. rc_userId c = userId \<or> rc_code c = code) (referralCodes s))) (\<lambda>clash.
     andThen (ensure (clash = None) UniqueViolation)
     (bind freshId (\<lambda>i.
      let c = \<lparr>rc_id = i, rc_userId = userId, rc_code = code\<rparr> in
      andThen (modify (\<lambda>s. s\<lparr>referralCodes := referralCodes s @ [c]\<rparr>)) (return c))))"

text \<open>The loop of at most five attempts: the error of the last one is thrown.\<close>

fun tryCodes :: "string \<Rightarrow> nat \<Rightarrow> (nat \<Rightarrow> nat list) \<Rightarrow> nat \<Rightarrow> referralCode op" where
  "tryCodes userId attempt draws 0 = throw (InternalError ''Failed to generate a unique referral code'')"
| "tryCodes userId attempt draws (Suc left) =
     tryCatch (insertCode userId (generateRandomCode (draws attempt)))
       (\<lambda>err. if attempt = 4 then throw err else tryCodes userId (Suc attempt) draws left)"

definition generateCode :: "(nat \<Rightarrow> nat list) \<Rightarrow> string \<Rightarrow> referralCode op" where
  "generateCode draws userId =
     bind (gets (\<lambda>s. List.find (\<lambda>c. rc_userId c = userId) (referralCodes s))) (\<lambda>existing.
     case existing of Some c \<Rightarrow> return c | None \<Rightarrow> tryCodes userId 0 draws 5)"

record referralStats =
  rs_code :: "string option"
  rs_invites :: nat
  rs_conversions :: nat
  rs_totalEarnings :: rat

definition codeRedemptions :: "db \<Rightarrow> string \<Rightarrow> referralRedemption list" where
  "codeRedemptions s codeId = filter (\<lambda>r. rf_referralCodeId r = codeId) (referralRedemptions s)"

definition myStats :: "string \<Rightarrow> referralStats op" where
  "myStats userId = gets (\<lambda>s.
     case List.find (\<lambda>c. rc_userId c = userId) (referralCodes s) of
       None \<Rightarrow> \<lparr>rs_code = None, rs_invites = 0, rs_conversions = 0, rs_totalEarnings = 0\<rparr>
     | Some c \<Rightarrow> \<lparr>rs_code = Some (rc_code c), rs_invites = length (codeRedemptions s (rc_id c)),
         rs_conversions = countWhere (\<lambda>r. rf_status r \<noteq> ReferralRedemptionStatus.PENDING) (codeRedemptions s (rc_id c)),
         rs_totalEarnings = sum_list (map rf_earningsAmount (codeRedemptions s (rc_id c)))\<rparr>)"

section \<open>Redemptions\<close>

definition DEFAULT_REFERRAL_BONUS :: rat where "DEFAULT_REFERRAL_BONUS = 500"

definition accrualReference :: "string \<Rightarrow> string" where
  "accrualReference i = ''referral-accrual:'' @ i"

definition payoutReference :: "string \<Rightarrow> string" where
  "payoutReference i = ''referral-payout:'' @ i"

definition insertRedemption :: "referralCode \<Rightarrow> string \<Rightarrow> rat \<Rightarrow> referralRedemption op" where
  "insertRedemption c referredUserId bonus =
     bind (gets (\<lambda>s. List.find (\<lambda>r. rf_referredUserId r = referredUserId) (referralRedemptions s))) (\<lambda>clash.
     andThen (ensure (clash = None) UniqueViolation)
     (bind freshId (\<lambda>i.
      let r = \<lparr>rf_id = i, rf_referralCodeId = rc_id c, rf_referrerId = rc_userId c, rf_referredUserId = referredUserId,
               rf_status = QUALIFIED, rf_earningsAmount = scale2 bonus, rf_paidAt = None, rf_transactionId = None\<rparr> in
      andThen (modify (\<lambda>s. s\<lparr>referralRedemptions := referralRedemptions s @ [r]\<rparr>)) (return r))))"

definition redeem :: "string \<Rightarrow> string \<Rightarrow> referralRedemption op" where
  "redeem referredUserId code =
     bind (gets (\<lambda>s. List.find (\<lambda>c. rc_code c = toUpperCase code) (referralCodes s))) (\<lambda>found.
     bind (orThrow found (NotFoundException ''Referral code not found'')) (\<lambda>c.
     andThen (ensure (rc_userId c \<noteq> referredUserId) (BadRequestException ''You cannot redeem your own referral code''))
     (bind (gets (\<lambda>s. List.find (\<lambda>r. rf_referredUserId r = referredUserId) (referralRedemptions s))) (\<lambda>existing.
      andThen (ensure (existing = None) (ConflictException ''You have already redeemed a referral code''))
      (bind (getConfig ''referralBonusAmount'' DEFAULT_REFERRAL_BONUS) (\<lambda>bonus.
       bind (insertRedemption c referredUserId bonus) (\<lambda>r.
       bind (recordReferralAccrual (rf_earningsAmount r) (accrualReference (rf_id r)) None) (\<lambda>_.
       return r))))))))"

record redemptionCounts =
  rn_total :: nat
  rn_pending :: nat
  rn_qualified :: nat
  rn_paid :: nat

definition redemptionsMatching :: "ReferralRedemptionStatus option \<Rightarrow> db \<Rightarrow> referralRedemption list" where
  "redemptionsMatching status s = rev (filter (\<lambda>r. status = None \<or> status = Some (rf_status r)) (referralRedemptions s))"

definition countRedemptions :: "db \<Rightarrow> redemptionCounts" where
  "countRedemptions s =
     (let count = (\<lambda>st. countWhere (\<lambda>r. rf_status r = st) (referralRedemptions s)) in
      \<lparr>rn_total = length (referralRedemptions s), rn_pending = count ReferralRedemptionStatus.PENDING, rn_qualified = count QUALIFIED,
       rn_paid = count ReferralRedemptionStatus.PAID\<rparr>)"

definition listAllRedemptions :: "ReferralRedemptionStatus option \<Rightarrow> int \<Rightarrow> int \<Rightarrow> (referralRedemption paginated \<times> redemptionCounts) op" where
  "listAllRedemptions status limit skip = gets (\<lambda>s.
     (pageOf (Some limit) (Some skip) (redemptionsMatching status s), countRedemptions s))"

section \<open>Payouts\<close>

definition payoutAccount :: "db \<Rightarrow> string \<Rightarrow> AccountType" where
  "payoutAccount s referrerId =
     (if \<exists>u \<in> set (users s). usr_id u = referrerId \<and> usr_role u = UserRole.DRIVER then DRIVER_WALLET else RIDER_WALLET)"

text \<open>The wallet of each referrer is chosen when the redemptions are read, before the first payment.\<close>

definition payRedemption :: "referralRedemption \<times> AccountType \<Rightarrow> unit op" where
  "payRedemption p =
     (let r = fst p in
      bind (payReferralPayout (rf_referrerId r) (snd p) (rf_earningsAmount r) (payoutReference (rf_id r)) None) (\<lambda>tx.
      bind (gets now) (\<lambda>t.
      modify (\<lambda>s. s\<lparr>referralRedemptions := updateWhere (\<lambda>q. rf_id q = rf_id r)
        (\<lambda>q. q\<lparr>rf_status := ReferralRedemptionStatus.PAID, rf_paidAt := Some t, rf_transactionId := Some (tx_id tx)\<rparr>)
        (referralRedemptions s)\<rparr>))))"

definition qualifiedRows :: "db \<Rightarrow> (referralRedemption \<times> AccountType) list" where
  "qualifiedRows s = map (\<lambda>r. (r, payoutAccount s (rf_referrerId r)))
     (filter (\<lambda>r. rf_status r = QUALIFIED) (referralRedemptions s))"

definition processPayouts :: "nat op" where
  "processPayouts =
     bind (gets qualifiedRows) (\<lambda>rows.
     andThen (forEach rows payRedemption) (return (length rows)))"

section \<open>Fleet partners\<close>

definition createFleetPartner :: "string \<Rightarrow> string option \<Rightarrow> string option \<Rightarrow> fleetPartner op" where
  "createFleetPartner name contactEmail contactPhone =
     bind freshId (\<lambda>i.
      let p = \<lparr>fp_id = i, fp_name = name, fp_contactEmail = contactEmail, fp_contactPhone = contactPhone\<rparr> in
      andThen (modify (\<lambda>s. s\<lparr>fleetPartners := fleetPartners s @ [p]\<rparr>)) (return p))"

definition listFleetPartners :: "fleetPartner list op" where
  "listFleetPartners = gets (\<lambda>s. rev (fleetPartners s))"

definition getFleetPartner :: "string \<Rightarrow> fleetPartner op" where
  "getFleetPartner i =
     bind (gets (\<lambda>s. List.find (\<lambda>p. fp_id p = i) (fleetPartners s))) (\<lambda>found.
     orThrow found (NotFoundException ''Fleet partner not found''))"

text \<open>\<open>fleetDrivers\<close> holds the pairs of a partner and a driver; a driver occurs once.\<close>

definition attachDriver :: "string \<Rightarrow> string \<Rightarrow> unit op" where
  "attachDriver fleetPartnerId driverId =
     bind (getFleetPartner fleetPartnerId) (\<lambda>_.
     bind (findUser (\<lambda>u. usr_id u = driverId)) (\<lambda>found.
     andThen (ensure (map_option usr_role found = Some UserRole.DRIVER) (BadRequestException ''driverId must belong to an existing driver account''))
     (bind (gets (\<lambda>s. List.find (\<lambda>p. snd p = driverId) (fleetDrivers s))) (\<lambda>existing.
      andThen (ensure (existing = None) (ConflictException ''This driver is already attached to a fleet partner''))
      (modify (\<lambda>s. s\<lparr>fleetDrivers := fleetDrivers s @ [(fleetPartnerId, driverId)]\<rparr>))))))"

definition driversOf :: "db \<Rightarrow> string \<Rightarrow> string list" where
  "driversOf s fleetPartnerId = map snd (filter (\<lambda>p. fst p = fleetPartnerId) (fleetDrivers s))"

definition listFleetDrivers :: "string \<Rightarrow> (string \<times> user option) list op" where
  "listFleetDrivers fleetPartnerId =
     bind (getFleetPartner fleetPartnerId) (\<lambda>_.
     gets (\<lambda>s. map (\<lambda>d. (d, List.find (\<lambda>u. usr_id u = d) (users s))) (driversOf s fleetPartnerId)))"

text \<open>The credits of the drivers' wallets in a closed period; an entry's time is its transaction's.\<close>

definition creditsOn :: "string list \<Rightarrow> instant \<Rightarrow> instant \<Rightarrow> db \<Rightarrow> rat" where
  "creditsOn accountIds lo hi s =
     sum_list (map le_amount (concat (map (\<lambda>t.
       if lo \<le> tx_createdAt t \<and> tx_createdAt t \<le> hi
       then filter (\<lambda>e. le_accountId e \<in> set accountIds \<and> le_direction e = CREDIT) (tx_entries t) else []) (transactions s))))"

definition getFleetEarnings :: "string \<Rightarrow> instant \<Rightarrow> instant \<Rightarrow> (nat \<times> rat) op" where
  "getFleetEarnings fleetPartnerId lo hi =
     bind (getFleetPartner fleetPartnerId) (\<lambda>_.
     gets (\<lambda>s. let ids = driversOf s fleetPartnerId in
       if ids = [] then (0, 0) else
       (length ids, creditsOn (map acc_id (filter (\<lambda>a. acc_type a = DRIVER_WALLET
          \<and> (case acc_ownerId a of None \<Rightarrow> False | Some d \<Rightarrow> d \<in> set ids)) (accounts s))) lo hi s)))"

section \<open>Partner offers\<close>

definition audienceForRole :: "UserRole \<Rightarrow> PartnerOfferAudience list" where
  "audienceForRole role = [if role = UserRole.DRIVER then PartnerOfferAudience.DRIVER else PartnerOfferAudience.RIDER, BOTH]"

definition listOffers :: "UserRole \<Rightarrow> partnerOffer list op" where
  "listOffers role = gets (\<lambda>s. rev (filter (\<lambda>o'. po_isActive o' \<and> po_audience o' \<in> set (audienceForRole role)
     \<and> (case po_validFrom o' of None \<Rightarrow> True | Some t \<Rightarrow> t \<le> now s)
     \<and> (case po_validUntil o' of None \<Rightarrow> True | Some t \<Rightarrow> now s \<le> t)) (partnerOffers s)))"

definition getOffer :: "string \<Rightarrow> partnerOffer op" where
  "getOffer i =
     bind (gets (\<lambda>s. List.find (\<lambda>o'. po_id o' = i) (partnerOffers s))) (\<lambda>found.
     orThrow found (NotFoundException ''Partner offer not found''))"

definition claimOffer :: "string \<Rightarrow> string \<Rightarrow> unit op" where
  "claimOffer offerId userId =
     bind (getOffer offerId) (\<lambda>_.
     bind (gets (\<lambda>s. (offerId, userId) \<in> set (offerClaims s))) (\<lambda>existing.
     andThen (ensure (\<not> existing) (ConflictException ''You have already claimed this offer''))
     (modify (\<lambda>s. s\<lparr>offerClaims := offerClaims s @ [(offerId, userId)]\<rparr>))))"

record offerDto =
  od_title :: "string option"
  od_description :: "string option"
  od_partnerName :: "string option"
  od_audience :: "PartnerOfferAudience option"
  od_isActive :: "bool option"
  od_validFrom :: "instant option"
  od_validUntil :: "instant option"

definition createOffer :: "string \<Rightarrow> string \<Rightarrow> string \<Rightarrow> PartnerOfferAudience option \<Rightarrow> instant option \<Rightarrow> instant option \<Rightarrow> partnerOffer op" where
  "createOffer title description partnerName audience validFrom validUntil =
     bind freshId (\<lambda>i.
      let o' = \<lparr>po_id = i, po_title = title, po_description = description, po_partnerName = partnerName,
                po_audience = orElse audience BOTH, po_isActive = True, po_validFrom = validFrom, po_validUntil = validUntil\<rparr> in
      andThen (modify (\<lambda>s. s\<lparr>partnerOffers := partnerOffers s @ [o']\<rparr>)) (return o'))"

definition patchOffer :: "offerDto \<Rightarrow> partnerOffer \<Rightarrow> partnerOffer" where
  "patchOffer dto p = p\<lparr>po_title := orElse (od_title dto) (po_title p), po_description := orElse (od_description dto) (po_description p),
     po_partnerName := orElse (od_partnerName dto) (po_partnerName p), po_audience := orElse (od_audience dto) (po_audience p),
     po_isActive := orElse (od_isActive dto) (po_isActive p), po_validFrom := keptOr (od_validFrom dto) (po_validFrom p),
     po_validUntil := keptOr (od_validUntil dto) (po_validUntil p)\<rparr>"

definition updateOffer :: "string \<Rightarrow> offerDto \<Rightarrow> partnerOffer op" where
  "updateOffer i dto =
     bind (getOffer i) (\<lambda>_.
     andThen (modify (\<lambda>s. s\<lparr>partnerOffers := updateWhere (\<lambda>p. po_id p = i) (patchOffer dto) (partnerOffers s)\<rparr>))
     (getOffer i))"

definition getClaims :: "string \<Rightarrow> (nat \<times> string list) op" where
  "getClaims i =
     bind (getOffer i) (\<lambda>_.
     gets (\<lambda>s. let claims = filter (\<lambda>c. fst c = i) (offerClaims s) in (length claims, map snd (rev claims))))"

end
