(* ===== verification/AdminDetail.thy ===== *)
theory AdminDetail
  imports AdminOps Partners
begin

text \<open>
  The operations console, src/admin-ops/admin-ops.service.ts, second part: the export documents, the
  pages of one rider and one driver, and their histories with totals over the whole history.  Left out:
  the subtitle, the colours and the widths of an export, the metadata column of the audit export (the
  model keeps no metadata), and the registration times of devices and fleet attachments.
\<close>

section \<open>Exports\<close>

fun userStatusName :: "UserStatus \<Rightarrow> string" where
  "userStatusName PENDING_VERIFICATION = ''PENDING_VERIFICATION''"
| "userStatusName UserStatus.ACTIVE = ''ACTIVE''"
| "userStatusName UserStatus.SUSPENDED = ''SUSPENDED''"

fun availabilityName :: "DriverAvailability \<Rightarrow> string" where
  "availabilityName DriverAvailability.OFFLINE = ''OFFLINE''"
| "availabilityName DriverAvailability.ONLINE = ''ONLINE''"
| "availabilityName ON_TRIP = ''ON_TRIP''"

fun kycName :: "KycStatus option \<Rightarrow> string" where
  "kycName None = ''NOT_SUBMITTED''"
| "kycName (Some KycStatus.PENDING) = ''PENDING''"
| "kycName (Some KycStatus.APPROVED) = ''APPROVED''"
| "kycName (Some KycStatus.REJECTED) = ''REJECTED''"

fun kycFilterName :: "KycFilter \<Rightarrow> string" where
  "kycFilterName NotSubmitted = ''NOT_SUBMITTED''"
| "kycFilterName (Reviewed k) = kycName (Some k)"

definition count :: "nat \<Rightarrow> cell" where "count n = Num (of_nat n)"

definition optional :: "string option \<Rightarrow> cell" where
  "optional x = (case x of None \<Rightarrow> Missing | Some s \<Rightarrow> Txt s)"

definition truncatedFrom :: "nat \<Rightarrow> 'a list \<Rightarrow> int option" where
  "truncatedFrom hits rows = (if length rows < hits then Some (int hits) else None)"

definition riderCells :: "riderRow \<Rightarrow> row" where
  "riderCells r = [(''name'', Txt (nameOf (ri_user r))), (''email'', optional (usr_email (ri_user r))),
     (''phone'', Txt (usr_phone (ri_user r))), (''status'', Txt (userStatusName (usr_status (ri_user r)))),
     (''totalTrips'', count (ri_totalTrips r)), (''totalDeliveries'', count (ri_totalDeliveries r)),
     (''walletBalance'', Txt (ri_walletBalance r)), (''createdAt'', Date (usr_createdAt (ri_user r)))]"

definition riderColumns :: "exportColumn list" where
  "riderColumns = [column ''name'' ''Name'' None, column ''email'' ''Email'' None, column ''phone'' ''Phone'' None,
     column ''status'' ''Account status'' (Some ''status''), column ''totalTrips'' ''Completed rides'' (Some ''integer''),
     column ''totalDeliveries'' ''Completed deliveries'' (Some ''integer''), column ''walletBalance'' ''Wallet balance'' (Some ''currency''),
     column ''createdAt'' ''Registered'' (Some ''date'')]"

definition riderMetrics :: "riderTotals \<Rightarrow> nat \<Rightarrow> exportMetric list" where
  "riderMetrics t hits =
     [metric ''Total riders'' (count (rm_total t)) ''integer'' ''Every user with the rider role.'',
      metric ''Active'' (count (rm_active t)) ''integer'' ''Account status ACTIVE.'',
      metric ''Pending verification'' (count (rm_pendingVerification t)) ''integer'' ''Signed up but have not completed verification.'',
      metric ''Suspended'' (count (rm_suspended t)) ''integer'' ''Account status SUSPENDED.'',
      metric ''New in last 7 days'' (count (rm_newLast7Days t)) ''integer'' ''Riders registered in the trailing 7 days.'',
      metric ''New in last 30 days'' (count (rm_newLast30Days t)) ''integer'' ''Riders registered in the trailing 30 days.'',
      metric ''Total wallet balance'' (Txt (rm_totalWalletBalance t)) ''currency'' ''Sum of every rider wallet balance.'',
      metric ''Records in this export'' (count hits) ''integer'' ''Riders matching the filters above (the cards above are platform-wide).'']"

definition exportRiders :: "userQuery \<Rightarrow> string \<Rightarrow> exportDocument op" where
  "exportRiders q actorId =
     bind (resolveActorName (Some actorId)) (\<lambda>generatedBy.
     gets (\<lambda>s. let matching = rev (filter (userListWhere UserRole.RIDER q) (users s)); rows = take (nat EXPORT_MAX_ROWS) matching in
       \<lparr>ed_title = ''Riders Report'', ed_generatedBy = generatedBy, ed_period = periodOf (uq_from q) (uq_to q),
        ed_filters = describeFilters [(''Search'', uq_search q), (''Account status'', map_option userStatusName (uq_status q))],
        ed_summary = riderMetrics (riderSummary s) (length matching),
        ed_sections = [\<lparr>es_name = ''Riders'', es_columns = riderColumns, es_rows = map (\<lambda>u. riderCells (riderRowOf s u)) rows,
          es_truncatedFrom = truncatedFrom (length matching) rows\<rparr>],
        ed_csvSection = None\<rparr>))"

definition driverCells :: "driverListRow \<Rightarrow> row" where
  "driverCells r = [(''name'', Txt (nameOf (dr_user r))), (''phone'', Txt (usr_phone (dr_user r))),
     (''email'', optional (usr_email (dr_user r))), (''status'', Txt (userStatusName (usr_status (dr_user r)))),
     (''kycStatus'', Txt (kycName (dr_kycStatus r))), (''availability'', Txt (availabilityName (dr_availability r))),
     (''vehicleType'', optional (dr_vehicleType r)), (''totalTrips'', count (dr_totalTrips r)),
     (''totalEarnings'', Txt (dr_totalEarnings r)), (''totalCommission'', Txt (dr_totalCommission r)),
     (''createdAt'', Date (usr_createdAt (dr_user r)))]"

definition driverColumns :: "exportColumn list" where
  "driverColumns = [column ''name'' ''Name'' None, column ''phone'' ''Phone'' None, column ''email'' ''Email'' None,
     column ''status'' ''Account status'' (Some ''status''), column ''kycStatus'' ''KYC'' (Some ''status''),
     column ''availability'' ''Availability'' (Some ''status''), column ''vehicleType'' ''Vehicle'' None,
     column ''totalTrips'' ''Completed trips'' (Some ''integer''), column ''totalEarnings'' ''Net earnings'' (Some ''currency''),
     column ''totalCommission'' ''Commission'' (Some ''currency''), column ''createdAt'' ''Registered'' (Some ''date'')]"

definition driverMetrics :: "driverTotals \<Rightarrow> nat \<Rightarrow> exportMetric list" where
  "driverMetrics t hits =
     [metric ''Total drivers'' (count (dm_total t)) ''integer'' ''Every user with the driver role.'',
      metric ''Online now'' (count (dm_online t)) ''integer'' ''Availability is ONLINE (waiting for a job) or ON_TRIP.'',
      metric ''Pending KYC'' (count (dm_pendingKyc t)) ''integer'' ''Drivers with at least one document awaiting admin review.'',
      metric ''KYC approved'' (count (dm_approvedKyc t)) ''integer'' ''Latest document of every type approved.'',
      metric ''KYC rejected'' (count (dm_rejectedKyc t)) ''integer'' ''Nothing pending, at least one document rejected.'',
      metric ''KYC not submitted'' (count (dm_kycNotSubmitted t)) ''integer'' ''No documents uploaded yet.'',
      metric ''On a trip'' (count (dm_onTrip t)) ''integer'' ''Currently on a ride or delivery.'',
      metric ''Suspended'' (count (dm_suspended t)) ''integer'' ''Account status SUSPENDED.'',
      metric ''New in last 30 days'' (count (dm_newLast30Days t)) ''integer'' ''Drivers registered in the trailing 30 days.'',
      metric ''Records in this export'' (count hits) ''integer'' ''Drivers matching the filters above (the cards above are platform-wide).'']"

definition exportDrivers :: "driverQuery \<Rightarrow> string \<Rightarrow> exportDocument op" where
  "exportDrivers q actorId =
     bind (resolveActorName (Some actorId)) (\<lambda>generatedBy.
     gets (\<lambda>s. let matching = rev (filter (driverListWhere s q) (users s)); rows = take (nat EXPORT_MAX_ROWS) matching; p = vq_users q in
       \<lparr>ed_title = ''Drivers Report'', ed_generatedBy = generatedBy, ed_period = periodOf (uq_from p) (uq_to p),
        ed_filters = describeFilters [(''Search'', uq_search p), (''Account status'', map_option userStatusName (uq_status p)),
          (''Availability'', map_option availabilityName (vq_availability q)), (''KYC status'', map_option kycFilterName (vq_kyc q))],
        ed_summary = driverMetrics (driverSummary s) (length matching),
        ed_sections = [\<lparr>es_name = ''Drivers'', es_columns = driverColumns, es_rows = map (\<lambda>u. driverCells (driverRowOf s u)) rows,
          es_truncatedFrom = truncatedFrom (length matching) rows\<rparr>],
        ed_csvSection = None\<rparr>))"

text \<open>The name of the actor of an event: the full name, else the e-mail, else the id.\<close>

definition actorName :: "db \<Rightarrow> string list \<Rightarrow> string \<Rightarrow> string" where
  "actorName s actorIds i = (case (if i \<in> set actorIds then userRow s i else None) of None \<Rightarrow> i
     | Some u \<Rightarrow> if nameOf u \<noteq> [] then nameOf u else if truthy (usr_email u) then the (usr_email u) else usr_id u)"

definition auditCells :: "db \<Rightarrow> string list \<Rightarrow> auditLog \<Rightarrow> row" where
  "auditCells s actorIds l = [(''createdAt'', Date (al_createdAt l)),
     (''actor'', Txt (if truthy (al_actorId l) then actorName s actorIds (the (al_actorId l)) else ''System'')),
     (''action'', Txt (al_action l)), (''targetType'', Txt (al_targetType l)), (''targetId'', optional (al_targetId l))]"

definition auditColumns :: "exportColumn list" where
  "auditColumns = [column ''createdAt'' ''When'' (Some ''datetime''), column ''actor'' ''Actor'' None, column ''action'' ''Action'' None,
     column ''targetType'' ''Target type'' None, column ''targetId'' ''Target ID'' None]"

definition exportAuditLogs :: "auditFilters \<Rightarrow> string \<Rightarrow> exportDocument op" where
  "exportAuditLogs f exportedById =
     bind (both (auditList f EXPORT_MAX_ROWS 0) (resolveActorName (Some exportedById))) (\<lambda>((rows, hits), generatedBy).
     gets (\<lambda>s. let actorIds = remdups (filter (\<lambda>i. i \<noteq> []) (List.map_filter al_actorId rows)) in
       \<lparr>ed_title = ''Audit Log'', ed_generatedBy = generatedBy, ed_period = periodOf (af_from f) (af_to f),
        ed_filters = describeFilters [(''Action'', af_action f), (''Target type'', af_targetType f),
          (''Actor'', if truthy (af_actorId f) then Some (actorName s actorIds (the (af_actorId f))) else None)],
        ed_summary = [metric ''Events'' (count hits) ''integer'' ''Audit events matching the filters.'',
          metric ''Distinct actors'' (count (length actorIds)) ''integer'' ''Different people who performed those actions.'',
          metric ''Distinct actions'' (count (length (remdups (map al_action rows)))) ''integer'' ''Different action types in the result.''],
        ed_sections = [\<lparr>es_name = ''Audit log'', es_columns = auditColumns, es_rows = map (auditCells s actorIds) rows,
          es_truncatedFrom = truncatedFrom hits rows\<rparr>],
        ed_csvSection = None\<rparr>))"

section \<open>The page of a rider and of a driver\<close>

definition roleLabel :: "UserRole \<Rightarrow> string" where
  "roleLabel role = (if role = UserRole.RIDER then ''Rider'' else ''Driver'')"

definition getUserOrThrow :: "string \<Rightarrow> UserRole \<Rightarrow> user op" where
  "getUserOrThrow i role =
     bind (findUser (\<lambda>u. usr_id u = i \<and> usr_role u = role)) (\<lambda>found. orThrow found (NotFoundException (roleLabel role @ '' not found'')))"

definition assertRole :: "string \<Rightarrow> UserRole \<Rightarrow> unit op" where
  "assertRole i role =
     bind (findUser (\<lambda>u. usr_id u = i \<and> usr_role u = role)) (\<lambda>found. ensure (found \<noteq> None) (NotFoundException (roleLabel role @ '' not found'')))"

definition walletOf :: "db \<Rightarrow> string \<Rightarrow> AccountType \<Rightarrow> rat \<times> string" where
  "walletOf s i type = (orElse (map_option acc_balance (accountOf s i type)) 0, orElse (map_option acc_currency (accountOf s i type)) ''NGN'')"

record referralSummary =
  re_code :: string
  re_successful :: nat
  re_totalEarnings :: rat

record riderDetail =
  ra_user :: user
  ra_wallet :: "rat \<times> string"
  ra_activeRide :: "ride option"
  ra_rides :: "(RideStatus \<Rightarrow> nat) \<times> nat"
  ra_deliveriesSent :: "(DeliveryStatus \<Rightarrow> nat) \<times> nat"
  ra_promo :: "nat \<times> rat"
  ra_referral :: "referralSummary option"
  ra_devices :: nat
  ra_supportTickets :: "(TicketStatus \<Rightarrow> nat) \<times> nat"

definition ticketTally :: "db \<Rightarrow> string \<Rightarrow> (TicketStatus \<Rightarrow> nat) \<times> nat" where
  "ticketTally s i = tallyByStatus (groupCount sk_status (filter (\<lambda>t. sk_userId t = i) (supportTickets s)))"

definition deviceCount :: "db \<Rightarrow> string \<Rightarrow> nat" where
  "deviceCount s i = countWhere (\<lambda>t. dt_userId t = i) (deviceTokens s)"

definition referralOf :: "db \<Rightarrow> string \<Rightarrow> referralSummary option" where
  "referralOf s i = map_option (\<lambda>c. \<lparr>re_code = rc_code c,
       re_successful = countWhere (\<lambda>r. rf_status r \<noteq> ReferralRedemptionStatus.PENDING) (codeRedemptions s (rc_id c)),
       re_totalEarnings = sum_list (map rf_earningsAmount (codeRedemptions s (rc_id c)))\<rparr>)
     (List.find (\<lambda>c. rc_userId c = i) (referralCodes s))"

definition getRiderDetail :: "string \<Rightarrow> riderDetail op" where
  "getRiderDetail i =
     bind (getUserOrThrow i UserRole.RIDER) (\<lambda>u.
     gets (\<lambda>s. let own = filter (\<lambda>r. rd_riderId r = i) (rides s); redeemed = filter (\<lambda>r. pr_userId r = i) (promoRedemptions s) in
       \<lparr>ra_user = u, ra_wallet = walletOf s i RIDER_WALLET,
        ra_activeRide = List.find (\<lambda>r. rd_status r \<in> set ACTIVE_RIDE_STATUSES) own,
        ra_rides = tallyByStatus (groupCount rd_status own),
        ra_deliveriesSent = tallyByStatus (groupCount dv_status (filter (\<lambda>d. dv_senderId d = i) (deliveries s))),
        ra_promo = (length redeemed, sum_list (map pr_discountAmount redeemed)), ra_referral = referralOf s i,
        ra_devices = deviceCount s i, ra_supportTickets = ticketTally s i\<rparr>))"

record driverDetail =
  da_user :: user
  da_status :: "DriverAvailability \<times> DriverServiceMode option \<times> string option \<times> nat"
  da_liveLocation :: "(rat \<times> rat) option"
  da_activeRide :: "ride option"
  da_activeDelivery :: "delivery option"
  da_wallet :: "rat \<times> string"
  da_outstandingCommission :: rat
  da_rating :: "rat option \<times> nat"
  da_rides :: "(RideStatus \<Rightarrow> nat) \<times> nat"
  da_deliveries :: "(DeliveryStatus \<Rightarrow> nat) \<times> nat"
  da_withdrawals :: "(TransactionStatus \<times> nat \<times> rat) list"
  da_documents :: "kycDocument list"
  da_verifications :: "kycVerification list"
  da_guarantor :: "guarantor option"
  da_fleetPartner :: "fleetPartner option"
  da_devices :: nat
  da_supportTickets :: "(TicketStatus \<Rightarrow> nat) \<times> nat"

definition driverStatusOf :: "driverStatus option \<Rightarrow> DriverAvailability \<times> DriverServiceMode option \<times> string option \<times> nat" where
  "driverStatusOf st = (case st of None \<Rightarrow> (DriverAvailability.OFFLINE, None, None, 0)
     | Some d \<Rightarrow> (ds_availability d, Some (ds_serviceMode d), ds_vehicleType d, ds_unsettledCashRideCount d))"

definition ratingOf :: "db \<Rightarrow> string \<Rightarrow> rat option \<times> nat" where
  "ratingOf s i =
     (let marks = map rr_rating (filter (\<lambda>m. \<exists>r \<in> set (rides s). rd_id r = rr_rideId m \<and> rd_driverId r = Some i) (rideRatings s)) in
      (if marks = [] then None else Some (of_int (sum_list marks) / of_nat (length marks)), length marks))"

definition withdrawalGroups :: "withdrawalRequest list \<Rightarrow> (TransactionStatus \<times> nat \<times> rat) list" where
  "withdrawalGroups ws = map (\<lambda>st. (st, countWhere (\<lambda>w. wr_status w = st) ws, sum_list (map wr_amount (filter (\<lambda>w. wr_status w = st) ws))))
     (remdups (map wr_status ws))"

definition getLiveLocation :: "string \<Rightarrow> (rat \<times> rat) option op" where
  "getLiveLocation driverId = gets (\<lambda>s. map_of (driversGeo s) driverId)"

definition getDriverDetail :: "string \<Rightarrow> driverDetail op" where
  "getDriverDetail i =
     bind (getUserOrThrow i UserRole.DRIVER) (\<lambda>u.
     bind (getLiveLocation i) (\<lambda>liveLocation.
     gets (\<lambda>s. let rs = filter (\<lambda>r. rd_driverId r = Some i) (rides s); ds = filter (\<lambda>d. dv_driverId d = Some i) (deliveries s) in
       \<lparr>da_user = u, da_status = driverStatusOf (List.find (\<lambda>d. ds_userId d = i) (driverStatuses s)), da_liveLocation = liveLocation,
        da_activeRide = List.find (\<lambda>r. rd_status r \<in> set ACTIVE_RIDE_STATUSES) rs,
        da_activeDelivery = List.find (\<lambda>d. dv_status d \<in> set ACTIVE_DELIVERY_STATUSES) ds,
        da_wallet = walletOf s i DRIVER_WALLET, da_outstandingCommission = fst (walletOf s i DRIVER_COMMISSION_PAYABLE),
        da_rating = ratingOf s i, da_rides = tallyByStatus (groupCount rd_status rs), da_deliveries = tallyByStatus (groupCount dv_status ds),
        da_withdrawals = withdrawalGroups (filter (\<lambda>w. wr_driverId w = i) (withdrawalRequests s)),
        da_documents = rev (filter (\<lambda>d. kd_driverId d = i) (kycDocuments s)),
        da_verifications = rev (filter (\<lambda>v. kv_driverId v = i) (kycVerifications s)),
        da_guarantor = List.find (\<lambda>g. gu_driverId g = i) (rev (guarantors s)),
        da_fleetPartner = Option.bind (map_of (map (\<lambda>(p, d). (d, p)) (fleetDrivers s)) i) (\<lambda>p. List.find (\<lambda>f. fp_id f = p) (fleetPartners s)),
        da_devices = deviceCount s i, da_supportTickets = ticketTally s i\<rparr>)))"

section \<open>Histories\<close>

datatype Party = RiderParty | DriverParty

record historyTotals =
  hs_total :: nat
  hs_completed :: nat
  hs_cancelled :: nat
  hs_byStatus :: "(string \<times> nat) list"
  hs_totalSpent :: "string option"
  hs_totalEarnings :: "string option"
  hs_totalCommission :: "string option"

definition historySummary :: "Party \<Rightarrow> nat \<Rightarrow> (string \<times> nat) list \<Rightarrow> rat option \<Rightarrow> rat option \<Rightarrow> historyTotals" where
  "historySummary party hits byStatus finalFare commissionAmount =
     (let counts = fst (tallyByStatus byStatus); gross = orElse finalFare 0; commission = orElse commissionAmount 0 in
      \<lparr>hs_total = hits, hs_completed = counts ''COMPLETED'', hs_cancelled = counts ''CANCELLED'', hs_byStatus = byStatus,
       hs_totalSpent = (if party = RiderParty then Some (decimalToFixed (Some gross)) else None),
       hs_totalEarnings = (if party = RiderParty then None else Some (decimalToFixed (Some (gross - commission)))),
       hs_totalCommission = (if party = RiderParty then None else Some (decimalToFixed (Some commission)))\<rparr>)"

definition rideHistory :: "(ride \<Rightarrow> bool) \<Rightarrow> Party \<Rightarrow> int \<Rightarrow> int \<Rightarrow> db \<Rightarrow> ride paginated \<times> historyTotals" where
  "rideHistory P party n skip s =
     (let rows = filter P (rides s); settled = filter (\<lambda>r. rd_status r = RideStatus.COMPLETED) rows in
      (pageOf (Some n) (Some skip) (rev (sort_key rd_requestedAt rows)),
       historySummary party (length rows) (groupCount (\<lambda>r. statusName (rd_status r)) rows)
         (Some (sumOf rd_finalFare settled)) (Some (sumOf rd_commissionAmount settled))))"

definition deliveryHistory :: "(delivery \<Rightarrow> bool) \<Rightarrow> Party \<Rightarrow> int \<Rightarrow> int \<Rightarrow> db \<Rightarrow> delivery paginated \<times> historyTotals" where
  "deliveryHistory P party n skip s =
     (let rows = filter P (deliveries s); settled = filter (\<lambda>d. dv_status d = DeliveryStatus.COMPLETED) rows in
      (pageOf (Some n) (Some skip) (rev (sort_key dv_requestedAt rows)),
       historySummary party (length rows) (groupCount (\<lambda>d. deliveryStatusName (dv_status d)) rows)
         (Some (sumOf dv_finalFare settled)) (Some (sumOf dv_commissionAmount settled))))"

definition getRiderRides :: "string \<Rightarrow> int \<Rightarrow> int \<Rightarrow> (ride paginated \<times> historyTotals) op" where
  "getRiderRides i n skip = andThen (assertRole i UserRole.RIDER) (gets (rideHistory (\<lambda>r. rd_riderId r = i) RiderParty n skip))"

definition getRiderDeliveries :: "string \<Rightarrow> int \<Rightarrow> int \<Rightarrow> (delivery paginated \<times> historyTotals) op" where
  "getRiderDeliveries i n skip = andThen (assertRole i UserRole.RIDER) (gets (deliveryHistory (\<lambda>d. dv_senderId d = i) RiderParty n skip))"

definition getDriverRides :: "string \<Rightarrow> int \<Rightarrow> int \<Rightarrow> (ride paginated \<times> historyTotals) op" where
  "getDriverRides i n skip = andThen (assertRole i UserRole.DRIVER) (gets (rideHistory (\<lambda>r. rd_driverId r = Some i) DriverParty n skip))"

definition getDriverDeliveries :: "string \<Rightarrow> int \<Rightarrow> int \<Rightarrow> (delivery paginated \<times> historyTotals) op" where
  "getDriverDeliveries i n skip = andThen (assertRole i UserRole.DRIVER) (gets (deliveryHistory (\<lambda>d. dv_driverId d = Some i) DriverParty n skip))"

record withdrawalTotals =
  wt_total :: nat
  wt_pending :: nat
  wt_completed :: nat
  wt_failed :: nat
  wt_totalWithdrawn :: string
  wt_pendingAmount :: string
  wt_commissionSettled :: string

definition withdrawalTotalsOf :: "withdrawalRequest list \<Rightarrow> withdrawalTotals" where
  "withdrawalTotalsOf ws =
     (let byStatus = withdrawalGroups ws;
          amountOf = (\<lambda>st. map_option snd (map_of byStatus st)); countOf = (\<lambda>st. orElse (map_option fst (map_of byStatus st)) 0) in
      \<lparr>wt_total = length ws, wt_pending = countOf TransactionStatus.PENDING, wt_completed = countOf TransactionStatus.COMPLETED,
       wt_failed = countOf TransactionStatus.FAILED, wt_totalWithdrawn = decimalToFixed (amountOf TransactionStatus.COMPLETED),
       wt_pendingAmount = decimalToFixed (amountOf TransactionStatus.PENDING),
       wt_commissionSettled = decimalToFixed (Some (sum_list (map wr_settledCommission (filter (\<lambda>w. wr_status w = TransactionStatus.COMPLETED) ws))))\<rparr>)"

definition getDriverWithdrawals :: "string \<Rightarrow> int \<Rightarrow> int \<Rightarrow> (withdrawalRequest paginated \<times> withdrawalTotals) op" where
  "getDriverWithdrawals i n skip =
     andThen (assertRole i UserRole.DRIVER)
     (gets (\<lambda>s. let ws = filter (\<lambda>w. wr_driverId w = i) (withdrawalRequests s) in (pageOf (Some n) (Some skip) (rev ws), withdrawalTotalsOf ws)))"

text \<open>Every transaction that touched an account of the user, with the entries on those accounts; counts by status.\<close>

definition userTransactions :: "db \<Rightarrow> string \<Rightarrow> transaction list" where
  "userTransactions s i =
     (let own = map acc_id (filter (\<lambda>a. acc_ownerId a = Some i) (accounts s)) in
      map (\<lambda>t. t\<lparr>tx_entries := filter (\<lambda>e. le_accountId e \<in> set own) (tx_entries t)\<rparr>)
        (filter (\<lambda>t. \<exists>e \<in> set (tx_entries t). le_accountId e \<in> set own) (transactions s)))"

definition getUserTransactions :: "string \<Rightarrow> int \<Rightarrow> int \<Rightarrow> (transaction paginated \<times> nat \<times> nat \<times> nat \<times> nat) op" where
  "getUserTransactions i n skip = gets (\<lambda>s.
     let rows = userTransactions s i; counts = fst (tallyByStatus (groupCount tx_status rows)) in
     (pageOf (Some n) (Some skip) (rev rows), length rows, counts TransactionStatus.COMPLETED, counts TransactionStatus.PENDING,
      counts TransactionStatus.FAILED))"

end
