(* ===== verification/AdminRides.thy ===== *)
theory AdminRides
  imports AdminDetail Rides
begin

text \<open>
  Ride management, src/rides/admin-rides.service.ts: the list with its search, the export document, the
  page of one ride with its timeline, and the figures of the day.  \<open>driverEarnings\<close> of theory Rides is the
  payout it shows.  \<open>publicId\<close> is the identifier the database generates.
\<close>

section \<open>List and export\<close>

record rideQuery =
  rq_status :: "RideStatus option"
  rq_search :: "string option"
  rq_from :: "instant option"
  rq_to :: "instant option"

definition rideWhere :: "(string \<Rightarrow> string) \<Rightarrow> db \<Rightarrow> rideQuery \<Rightarrow> ride \<Rightarrow> bool" where
  "rideWhere publicId s q r \<longleftrightarrow>
     (rq_status q = None \<or> rq_status q = Some (rd_status r)) \<and> inRange (rq_from q) (rq_to q) (rd_requestedAt r)
     \<and> (let search = map_option trim (rq_search q); needle = the search in
        truthy search \<longrightarrow> startsWith needle (rd_id r) \<or> containsInsensitive needle (publicId (rd_id r))
          \<or> userNamed s needle (rd_riderId r) \<or> (case rd_driverId r of None \<Rightarrow> False | Some d \<Rightarrow> userNamed s needle d))"

record rideRow =
  rw_ride :: ride
  rw_rider :: "user option"
  rw_driver :: "user option"

definition rideRowOf :: "db \<Rightarrow> ride \<Rightarrow> rideRow" where
  "rideRowOf s r = \<lparr>rw_ride = r, rw_rider = userRow s (rd_riderId r), rw_driver = Option.bind (rd_driverId r) (userRow s)\<rparr>"

definition matchingRides :: "(string \<Rightarrow> string) \<Rightarrow> rideQuery \<Rightarrow> db \<Rightarrow> ride list" where
  "matchingRides publicId q s = rev (sort_key rd_requestedAt (filter (rideWhere publicId s q) (rides s)))"

definition listAdminRides :: "(string \<Rightarrow> string) \<Rightarrow> rideQuery \<Rightarrow> int option \<Rightarrow> int option \<Rightarrow> rideRow paginated op" where
  "listAdminRides publicId q takeN skipN = gets (\<lambda>s. pageOf takeN skipN (map (rideRowOf s) (matchingRides publicId q s)))"

fun paymentMethodName :: "RidePaymentMethod \<Rightarrow> string" where
  "paymentMethodName WALLET = ''WALLET''"
| "paymentMethodName CASH = ''CASH''"
| "paymentMethodName BUSINESS_INVOICE = ''BUSINESS_INVOICE''"

definition number :: "rat option \<Rightarrow> cell" where
  "number x = (case x of None \<Rightarrow> Missing | Some y \<Rightarrow> Num y)"

definition nameOr :: "user option \<Rightarrow> string \<Rightarrow> string" where
  "nameOr u d = (case u of None \<Rightarrow> d | Some v \<Rightarrow> if nameOf v = [] then d else nameOf v)"

definition rideCells :: "rideRow \<Rightarrow> row" where
  "rideCells w = (let r = rw_ride w in
     [(''ref'', Txt (take 8 (rd_id r))), (''requestedAt'', Date (rd_requestedAt r)), (''status'', Txt (statusName (rd_status r))),
      (''rider'', Txt (nameOr (rw_rider w) [CHR 0xE2, CHR 0x80, CHR 0x94])), (''driver'', Txt (nameOr (rw_driver w) ''Unassigned'')),
      (''vehicleType'', Txt (rd_vehicleType r)), (''paymentMethod'', Txt (paymentMethodName (rd_paymentMethod r))),
      (''pickupAddress'', Txt (rd_pickupAddress r)), (''dropoffAddress'', Txt (rd_dropoffAddress r)),
      (''distanceKm'', number (rd_distanceKm r)), (''finalFare'', number (rd_finalFare r)),
      (''commissionAmount'', number (rd_commissionAmount r)), (''cancellationFee'', number (rd_cancellationFee r))])"

definition rideColumns :: "exportColumn list" where
  "rideColumns = [column ''ref'' ''Ride ID'' None, column ''requestedAt'' ''Requested'' (Some ''datetime''),
     column ''status'' ''Status'' (Some ''status''), column ''rider'' ''Rider'' None, column ''driver'' ''Driver'' None,
     column ''vehicleType'' ''Vehicle'' None, column ''paymentMethod'' ''Payment'' (Some ''status''),
     column ''pickupAddress'' ''Pickup'' None, column ''dropoffAddress'' ''Drop-off'' None,
     column ''distanceKm'' ''Distance (km)'' (Some ''number''), column ''finalFare'' ''Fare'' (Some ''currency''),
     column ''commissionAmount'' ''Commission'' (Some ''currency''), column ''cancellationFee'' ''Cancellation fee'' (Some ''currency'')]"

text \<open>The division sign of the notes, in UTF-8.\<close>

definition dividedBy :: string where "dividedBy = [CHR 0x20, CHR 0xC3, CHR 0xB7, CHR 0x20]"

definition rideMetrics :: "ride list \<Rightarrow> exportMetric list" where
  "rideMetrics rs =
     (let counts = tallyByStatus (groupCount rd_status rs); completed = fst counts RideStatus.COMPLETED; cancelled = fst counts RideStatus.CANCELLED;
          settled = filter (\<lambda>r. rd_status r = RideStatus.COMPLETED) rs; fareVolume = sumOf rd_finalFare settled in
      [metric ''Total rides'' (count (snd counts)) ''integer'' ''Rides matching the filters.'',
       metric ''Completed'' (count completed) ''integer'' ''Status COMPLETED.'',
       metric ''Cancelled'' (count cancelled) ''integer'' ''Status CANCELLED.'',
       metric ''In progress / other'' (count (snd counts - completed - cancelled)) ''integer''
         ''Requested, dispatching, accepted, arrived, in progress or no drivers found.'',
       metric ''Completion rate'' (if 0 < snd counts then Num (of_nat completed / of_nat (snd counts)) else Missing) ''percent''
         (''Completed'' @ dividedBy @ ''total rides.''),
       metric ''Fare volume'' (Num fareVolume) ''currency'' ''Sum of final fares on completed rides (gross, before driver payout).'',
       metric ''Platform revenue'' (Num (sumOf rd_commissionAmount settled)) ''currency'' ''Commission earned on completed rides.'',
       metric ''Average fare'' (if 0 < completed then Num (fareVolume / of_nat completed) else Missing) ''currency''
         (''Fare volume'' @ dividedBy @ ''completed rides.'')])"

definition exportRides :: "(string \<Rightarrow> string) \<Rightarrow> rideQuery \<Rightarrow> string \<Rightarrow> exportDocument op" where
  "exportRides publicId q actorId =
     bind (both (listAdminRides publicId q (Some EXPORT_MAX_ROWS) (Some 0)) (resolveActorName (Some actorId))) (\<lambda>(page, generatedBy).
     gets (\<lambda>s.
       \<lparr>ed_title = ''Rides Report'', ed_generatedBy = generatedBy, ed_period = periodOf (rq_from q) (rq_to q),
        ed_filters = describeFilters [(''Search'', rq_search q), (''Status'', map_option statusName (rq_status q))],
        ed_summary = rideMetrics (filter (rideWhere publicId s q) (rides s)),
        ed_sections = [\<lparr>es_name = ''Rides'', es_columns = rideColumns, es_rows = map rideCells (pg_data page),
          es_truncatedFrom = (if int (length (pg_data page)) < pg_total page then Some (pg_total page) else None)\<rparr>],
        ed_csvSection = None\<rparr>))"

section \<open>One ride\<close>

definition rideSteps :: "ride \<Rightarrow> (string \<times> instant option) list" where
  "rideSteps r = [(''Requested'', Some (rd_requestedAt r)), (''Driver accepted'', rd_acceptedAt r), (''Driver arrived'', rd_arrivedAt r),
     (''Trip started'', rd_startedAt r), (''Completed'', rd_completedAt r), (''Cancelled'', rd_cancelledAt r)]"

definition timeline :: "ride \<Rightarrow> (string \<times> instant) list" where
  "timeline r = List.map_filter (\<lambda>(event, moment). map_option (Pair event) moment) (rideSteps r)"

record rideDetail =
  rt_row :: rideRow
  rt_rating :: "rideRating option"
  rt_serviceArea :: "serviceArea option"
  rt_transaction :: "transaction option"
  rt_driverRating :: "rat option \<times> nat"
  rt_driverEarnings :: "rat option"
  rt_timeline :: "(string \<times> instant) list"

definition rideDetailOf :: "string \<Rightarrow> rideDetail op" where
  "rideDetailOf i =
     bind (gets (\<lambda>s. List.find (\<lambda>r. rd_id r = i) (rides s))) (\<lambda>found.
     bind (orThrow found (NotFoundException ''Ride not found'')) (\<lambda>r.
     gets (\<lambda>s. \<lparr>rt_row = rideRowOf s r, rt_rating = List.find (\<lambda>q. rr_rideId q = i) (rideRatings s),
        rt_serviceArea = Option.bind (rd_serviceAreaId r) (\<lambda>a. List.find (\<lambda>x. sa_id x = a) (serviceAreas s)),
        rt_transaction = (if truthy (rd_transactionId r) then List.find (\<lambda>t. tx_id t = the (rd_transactionId r)) (transactions s) else None),
        rt_driverRating = (if truthy (rd_driverId r) then ratingOf s (the (rd_driverId r)) else (None, 0)),
        rt_driverEarnings = driverEarnings r, rt_timeline = timeline r\<rparr>)))"

section \<open>Figures of the day\<close>

record rideStats =
  ry_totalToday :: nat
  ry_activeNow :: nat
  ry_completedToday :: nat
  ry_cancelledToday :: nat
  ry_revenueToday :: rat
  ry_disputedDeliveries :: nat

definition adminRideStats :: "rideStats op" where
  "adminRideStats = gets (\<lambda>s. let today = startOfUtcDay (now s) in
     \<lparr>ry_totalToday = countWhere (\<lambda>r. today \<le> rd_requestedAt r) (rides s), ry_activeNow = length (activeRides s),
      ry_completedToday = countWhere (\<lambda>r. rd_status r = RideStatus.COMPLETED \<and> since today (rd_completedAt r)) (rides s),
      ry_cancelledToday = countWhere (\<lambda>r. rd_status r = RideStatus.CANCELLED \<and> since today (rd_cancelledAt r)) (rides s),
      ry_revenueToday = rideCommission (since today) s, ry_disputedDeliveries = countWhere disputed (deliveries s)\<rparr>)"

end
