(* ===== verification/Reports.thy ===== *)
theory Reports
  imports Exports Finance Kyc Trip
begin

text \<open>
  Reports, src/reports: the rows of the eight reports and their schedule (reports.service.ts), the export
  document of a report (report-documents.ts) and the scheduled mail (reports.processor.ts).  A row is an
  association list of cells.  \<open>show\<close> is the text of a number, \<open>parseDate\<close> is \<open>new Date(text)\<close>, and
  \<open>pdf\<close> and \<open>excel\<close> are the two renderers of src/common/export.  Subtitles, descriptions and colours of
  a document are left out.
\<close>

section \<open>Names\<close>

fun reportTypeName :: "ReportType \<Rightarrow> string" where
  "reportTypeName RIDERS = ''RIDERS''"
| "reportTypeName DRIVERS = ''DRIVERS''"
| "reportTypeName ReportType.RIDES = ''RIDES''"
| "reportTypeName ReportType.LOGISTICS = ''LOGISTICS''"
| "reportTypeName BUSINESS = ''BUSINESS''"
| "reportTypeName ReportType.KILOWATT = ''KILOWATT''"
| "reportTypeName FINANCE = ''FINANCE''"
| "reportTypeName SUPPORT = ''SUPPORT''"

fun ticketStatusName :: "TicketStatus \<Rightarrow> string" where
  "ticketStatusName OPEN = ''OPEN''"
| "ticketStatusName TicketStatus.IN_PROGRESS = ''IN_PROGRESS''"
| "ticketStatusName ESCALATED = ''ESCALATED''"
| "ticketStatusName RESOLVED = ''RESOLVED''"
| "ticketStatusName TicketStatus.CLOSED = ''CLOSED''"

fun leadStatusName :: "SolarLeadStatus \<Rightarrow> string" where
  "leadStatusName NEW = ''NEW''"
| "leadStatusName CONTACTED = ''CONTACTED''"
| "leadStatusName SolarLeadStatus.QUALIFIED = ''QUALIFIED''"
| "leadStatusName SITE_VISIT = ''SITE_VISIT''"
| "leadStatusName CONVERTED = ''CONVERTED''"
| "leadStatusName SolarLeadStatus.CLOSED = ''CLOSED''"
| "leadStatusName SolarLeadStatus.AVAILABLE = ''AVAILABLE''"

fun transactionTypeName :: "TransactionType \<Rightarrow> string" where
  "transactionTypeName WALLET_TOPUP = ''WALLET_TOPUP''"
| "transactionTypeName WALLET_WITHDRAWAL = ''WALLET_WITHDRAWAL''"
| "transactionTypeName RIDE_PAYMENT_WALLET = ''RIDE_PAYMENT_WALLET''"
| "transactionTypeName RIDE_PAYMENT_CASH = ''RIDE_PAYMENT_CASH''"
| "transactionTypeName DELIVERY_PAYMENT_WALLET = ''DELIVERY_PAYMENT_WALLET''"
| "transactionTypeName DELIVERY_PAYMENT_CASH = ''DELIVERY_PAYMENT_CASH''"
| "transactionTypeName BUSINESS_DELIVERY_ACCRUAL = ''BUSINESS_DELIVERY_ACCRUAL''"
| "transactionTypeName COMMISSION_SETTLEMENT = ''COMMISSION_SETTLEMENT''"
| "transactionTypeName BUSINESS_INVOICE_PAYMENT = ''BUSINESS_INVOICE_PAYMENT''"
| "transactionTypeName REFUND = ''REFUND''"
| "transactionTypeName PROMO_REDEMPTION = ''PROMO_REDEMPTION''"
| "transactionTypeName REFERRAL_PAYOUT = ''REFERRAL_PAYOUT''"
| "transactionTypeName KILOWATT_PAYMENT = ''KILOWATT_PAYMENT''"
| "transactionTypeName MANUAL_ADJUSTMENT = ''MANUAL_ADJUSTMENT''"

section \<open>Scheduling\<close>

type_synonym reportPeriod = "instant \<times> instant"

fun frequencyCron :: "ScheduleFrequency \<Rightarrow> string" where
  "frequencyCron DAILY = ''0 6 * * *''"
| "frequencyCron WEEKLY = ''0 6 * * 1''"
| "frequencyCron MONTHLY = ''0 6 1 * *''"

definition scheduleReport :: "string \<Rightarrow> ReportType \<Rightarrow> ReportFormat \<Rightarrow> ScheduleFrequency \<Rightarrow> string \<Rightarrow> scheduledReport op" where
  "scheduleReport createdById type format frequency recipientEmail =
     bind freshId (\<lambda>i.
      let r = \<lparr>sq_id = i, sq_type = type, sq_format = format, sq_frequency = frequency, sq_recipientEmail = recipientEmail,
               sq_createdById = createdById, sq_isActive = True, sq_lastRunAt = None\<rparr> in
      andThen (modify (\<lambda>s. s\<lparr>scheduledReports := scheduledReports s @ [r]\<rparr>))
      (andThen (push (RepeatReport i (frequencyCron frequency))) (return r)))"

definition LOOKBACK_MS :: int where "LOOKBACK_MS = 30 * 24 * 60 * 60 * 1000"

definition resolvePeriod :: "(string \<Rightarrow> instant option) \<Rightarrow> string option \<Rightarrow> string option \<Rightarrow> reportPeriod op" where
  "resolvePeriod parseDate a b =
     bind (gets now) (\<lambda>t.
     let toDate = (if truthy b then parseDate (the b) else Some t);
         fromDate = (if truthy a then parseDate (the a) else map_option (\<lambda>x. x - LOOKBACK_MS) toDate) in
     (case (fromDate, toDate) of (Some x, Some y) \<Rightarrow> return (x, y) | _ \<Rightarrow> throw (BadRequestException ''Invalid from/to date'')))"

section \<open>Figures\<close>

definition inPeriod :: "reportPeriod \<Rightarrow> instant \<Rightarrow> bool" where
  "inPeriod p t \<longleftrightarrow> fst p \<le> t \<and> t \<le> snd p"

definition doneIn :: "reportPeriod \<Rightarrow> instant option \<Rightarrow> bool" where
  "doneIn p x \<longleftrightarrow> (case x of None \<Rightarrow> False | Some t \<Rightarrow> inPeriod p t)"

definition tally :: "nat \<Rightarrow> cell" where "tally n = Num (of_nat n)"

definition share :: "nat \<Rightarrow> nat \<Rightarrow> cell" where
  "share part whole = (if 0 < whole then Num (of_nat part / of_nat whole) else Missing)"

definition periodCells :: "reportPeriod \<Rightarrow> row" where
  "periodCells p = [(''periodFrom'', Date (fst p)), (''periodTo'', Date (snd p))]"

definition spread :: "string \<Rightarrow> (string \<times> nat) list \<Rightarrow> row" where
  "spread prefix groups = map (\<lambda>(k, n). (prefix @ k, tally n)) groups"

definition ridersReport :: "reportPeriod \<Rightarrow> row list op" where
  "ridersReport p = gets (\<lambda>s.
     [[(''totalRiders'', tally (countWhere (\<lambda>u. usr_role u = UserRole.RIDER) (users s))),
       (''newRidersInPeriod'', tally (countWhere (\<lambda>u. usr_role u = UserRole.RIDER \<and> inPeriod p (usr_createdAt u)) (users s))),
       (''activeRidersInPeriod'', tally (length (remdups (map rd_riderId (filter (\<lambda>r. inPeriod p (rd_requestedAt r)) (rides s))))))]
      @ periodCells p])"

definition driversReport :: "reportPeriod \<Rightarrow> row list op" where
  "driversReport p = gets (\<lambda>s. let offers = filter (\<lambda>o'. inPeriod p (ro_createdAt o')) (rideOffers s) in
     [[(''totalDrivers'', tally (countWhere (\<lambda>u. usr_role u = UserRole.DRIVER) (users s))),
       (''onlineDrivers'', tally (countWhere (\<lambda>d. ds_availability d \<noteq> DriverAvailability.OFFLINE) (driverStatuses s))),
       (''completedRidesInPeriod'', tally (countWhere (\<lambda>r. rd_status r = RideStatus.COMPLETED \<and> doneIn p (rd_completedAt r)) (rides s))),
       (''offerAcceptanceRate'', share (countWhere (\<lambda>o'. ro_status o' = RideOfferStatus.ACCEPTED) offers) (length offers))]
      @ periodCells p])"

text \<open>\<open>_sum\<close> is null when no row has a value.\<close>

definition sumOrNull :: "('r \<Rightarrow> rat option) \<Rightarrow> 'r list \<Rightarrow> rat option" where
  "sumOrNull f rows = (if List.map_filter f rows = [] then None else Some (sum_list (List.map_filter f rows)))"

definition ridesReport :: "reportPeriod \<Rightarrow> row list op" where
  "ridesReport p = gets (\<lambda>s.
     let requested = filter (\<lambda>r. inPeriod p (rd_requestedAt r)) (rides s);
         completed = countWhere (\<lambda>r. rd_status r = RideStatus.COMPLETED) requested;
         settled = filter (\<lambda>r. rd_status r = RideStatus.COMPLETED \<and> doneIn p (rd_completedAt r)) (rides s);
         revenue = sumOrNull rd_commissionAmount settled in
     [[(''totalRides'', tally (length requested)), (''completedRides'', tally completed),
       (''completionRate'', share completed (length requested)),
       (''totalRevenue'', Num (orElse revenue 0)), (''totalFareVolume'', Num (orElse (sumOrNull rd_finalFare settled) 0)),
       (''revenuePerCompletedRide'', (if 0 < completed \<and> revenue \<noteq> None then Num (the revenue / of_nat completed) else Missing))]
      @ periodCells p @ spread ''status_'' (groupCount (\<lambda>r. statusName (rd_status r)) requested)])"

definition logisticsReport :: "reportPeriod \<Rightarrow> row list op" where
  "logisticsReport p = gets (\<lambda>s.
     let requested = filter (\<lambda>d. inPeriod p (dv_requestedAt d)) (deliveries s) in
     map (\<lambda>v. let rows = filter (\<lambda>d. dv_vehicleType d = v) requested;
                  completed = countWhere (\<lambda>d. dv_status d = DeliveryStatus.COMPLETED) rows in
        [(''vehicleType'', Txt v), (''totalDeliveries'', tally (length rows)), (''completedDeliveries'', tally completed),
         (''successRate'', share completed (length rows))] @ periodCells p)
       (remdups (map dv_vehicleType requested)))"

definition businessReport :: "reportPeriod \<Rightarrow> row list op" where
  "businessReport p = gets (\<lambda>s.
     let issued = filter (\<lambda>v. inPeriod p (iv_createdAt v)) (invoices s); paid = filter (\<lambda>v. iv_status v = InvoiceStatus.PAID) issued in
     [[(''totalBusinesses'', tally (length (businesses s))), (''invoicesInPeriod'', tally (length issued)),
       (''paidInvoices'', tally (length paid)), (''totalInvoicedAmount'', Num (sum_list (map iv_amount issued))),
       (''totalPaidAmount'', Num (sum_list (map iv_amount paid)))] @ periodCells p])"

definition kilowattReport :: "reportPeriod \<Rightarrow> row list op" where
  "kilowattReport p = gets (\<lambda>s. let leads = filter (\<lambda>l. inPeriod p (sl_createdAt l)) (solarAssessments s) in
     [[(''activeChargingStations'', tally (countWhere cs_isActive (chargingStations s))),
       (''swapReservationsInPeriod'', tally (countWhere (\<lambda>r. inPeriod p (br_createdAt r)) (swapReservations s))),
       (''solarLeadsInPeriod'', tally (length leads))]
      @ periodCells p @ spread ''solarLeads_'' (groupCount (\<lambda>l. leadStatusName (sl_status l)) leads)])"

definition financeReport :: "(rat \<Rightarrow> string) \<Rightarrow> reportPeriod \<Rightarrow> row list op" where
  "financeReport show p =
     bind (getPlatformAccount PLATFORM_REVENUE) (\<lambda>revenue.
     gets (\<lambda>s. let txs = filter (\<lambda>t. inPeriod p (tx_createdAt t)) (transactions s); types = remdups (map tx_type txs);
         volume = (\<lambda>ty. sum_list (map tx_amount (filter (\<lambda>t. tx_type t = ty) txs))) in
       [[(''totalRecognizedRevenue'', Num (acc_balance revenue)), (''transactionVolumeInPeriod'', tally (length txs)),
         (''totalWithdrawalsInPeriod'', Num (volume WALLET_WITHDRAWAL))]
        @ periodCells p @ map (\<lambda>ty. (''amount_'' @ transactionTypeName ty, Txt (show (volume ty)))) types
        @ spread ''count_'' (map (\<lambda>ty. (transactionTypeName ty, countWhere (\<lambda>t. tx_type t = ty) txs)) types)]))"

definition supportReport :: "reportPeriod \<Rightarrow> row list op" where
  "supportReport p = gets (\<lambda>s.
     let opened = filter (\<lambda>t. inPeriod p (sk_createdAt t)) (supportTickets s);
         resolved = filter (\<lambda>t. sk_status t = RESOLVED \<and> doneIn p (sk_resolvedAt t)) (supportTickets s);
         times = map (\<lambda>t. the (sk_resolvedAt t) - sk_createdAt t) resolved in
     [[(''totalTicketsInPeriod'', tally (length opened)), (''resolvedInPeriod'', tally (length resolved)),
       (''avgResolutionHours'', (if times = [] then Missing else Num (of_int (sum_list times) / of_nat (length times) / 3600000)))]
      @ periodCells p @ spread ''status_'' (groupCount (\<lambda>t. ticketStatusName (sk_status t)) opened)])"

fun generate :: "(rat \<Rightarrow> string) \<Rightarrow> ReportType \<Rightarrow> reportPeriod \<Rightarrow> row list op" where
  "generate show RIDERS p = ridersReport p"
| "generate show DRIVERS p = driversReport p"
| "generate show ReportType.RIDES p = ridesReport p"
| "generate show ReportType.LOGISTICS p = logisticsReport p"
| "generate show BUSINESS p = businessReport p"
| "generate show ReportType.KILOWATT p = kilowattReport p"
| "generate show FINANCE p = financeReport show p"
| "generate show SUPPORT p = supportReport p"

section \<open>Documents\<close>

text \<open>The division sign and the dash of the labels, in UTF-8.\<close>

definition per :: string where "per = [CHR 0x20, CHR 0xC3, CHR 0xB7, CHR 0x20]"

definition dash :: string where "dash = [CHR 0x20, CHR 0xE2, CHR 0x80, CHR 0x94, CHR 0x20]"

definition numberAt :: "row \<Rightarrow> string \<Rightarrow> rat" where
  "numberAt r key = orElse (toNumber (cellAt r key)) 0"

definition nullableAt :: "row \<Rightarrow> string \<Rightarrow> cell" where
  "nullableAt r key = (case toNumber (cellAt r key) of None \<Rightarrow> Missing | Some x \<Rightarrow> Num x)"

definition ratio :: "rat \<Rightarrow> rat \<Rightarrow> cell" where
  "ratio part whole = (if 0 < whole then Num (part / whole) else Missing)"

definition entriesWithPrefix :: "row \<Rightarrow> string \<Rightarrow> (string \<times> rat) list" where
  "entriesWithPrefix r prefix =
     sort_key (\<lambda>e. - snd e) (map (\<lambda>(k, v). (drop (length prefix) k, orElse (toNumber v) 0)) (filter (\<lambda>(k, v). startsWith prefix k) r))"

definition distribution :: "string \<Rightarrow> (string \<times> rat) list \<Rightarrow> string \<Rightarrow> string \<Rightarrow> exportSection list" where
  "distribution name entries labelHeader labelFormat =
     (if entries = [] then []
      else let whole = sum_list (map snd entries) in
        [\<lparr>es_name = name,
          es_columns = [column ''label'' labelHeader (Some labelFormat), column ''count'' ''Count'' (Some ''integer''),
            column ''share'' ''Share'' (Some ''percent'')],
          es_rows = map (\<lambda>(k, v). [(''label'', Txt k), (''count'', Num v), (''share'', ratio v whole)]) entries,
          es_truncatedFrom = None\<rparr>])"

record reportBody =
  rb_summary :: "exportMetric list"
  rb_sections :: "exportSection list"
  rb_csvExtra :: "(string \<times> rat \<times> string) list"

definition figures :: "exportMetric list \<Rightarrow> reportBody" where
  "figures ms = \<lparr>rb_summary = ms, rb_sections = [], rb_csvExtra = []\<rparr>"

definition firstRow :: "row list \<Rightarrow> row" where
  "firstRow rows = (case rows of [] \<Rightarrow> [] | r # _ \<Rightarrow> r)"

definition integerAt :: "string \<Rightarrow> row \<Rightarrow> string \<Rightarrow> string \<Rightarrow> exportMetric" where
  "integerAt label r key note = metric label (Num (numberAt r key)) ''integer'' note"

definition currencyAt :: "string \<Rightarrow> row \<Rightarrow> string \<Rightarrow> string \<Rightarrow> exportMetric" where
  "currencyAt label r key note = metric label (Num (numberAt r key)) ''currency'' note"

definition ridersBody :: "row \<Rightarrow> reportBody" where
  "ridersBody r = figures
     [integerAt ''Total riders'' r ''totalRiders'' ''All accounts with the rider role, all-time.'',
      integerAt ''New riders'' r ''newRidersInPeriod'' ''Riders who registered inside the report period.'',
      integerAt ''Active riders'' r ''activeRidersInPeriod'' ''Distinct riders who requested at least one ride inside the period.'',
      metric ''Activity rate'' (ratio (numberAt r ''activeRidersInPeriod'') (numberAt r ''totalRiders'')) ''percent''
        (''Active riders'' @ per @ ''total riders.'')]"

definition driversBody :: "row \<Rightarrow> reportBody" where
  "driversBody r = figures
     [integerAt ''Total drivers'' r ''totalDrivers'' ''All accounts with the driver role, all-time.'',
      integerAt ''Online now'' r ''onlineDrivers''
        ''Live snapshot: drivers whose availability is not OFFLINE right now (not limited to the period).'',
      integerAt ''Completed rides'' r ''completedRidesInPeriod'' ''Rides completed inside the report period.'',
      metric ''Offer acceptance rate'' (nullableAt r ''offerAcceptanceRate'') ''percent''
        (''Accepted ride offers'' @ per @ ''all ride offers created in the period.'')]"

definition extraOf :: "string \<Rightarrow> (string \<times> rat) list \<Rightarrow> (string \<times> rat \<times> string) list" where
  "extraOf label entries = map (\<lambda>(k, v). (label @ dash @ prettifyStatus k, v, ''integer'')) entries"

definition ridesBody :: "row \<Rightarrow> reportBody" where
  "ridesBody r = (let statuses = entriesWithPrefix r ''status_'' in
     \<lparr>rb_summary =
       [integerAt ''Total rides'' r ''totalRides'' ''Rides requested inside the period, any outcome.'',
        integerAt ''Completed rides'' r ''completedRides'' ''Rides with status COMPLETED.'',
        metric ''Completion rate'' (nullableAt r ''completionRate'') ''percent'' (''Completed rides'' @ per @ ''total rides.''),
        currencyAt ''Platform revenue'' r ''totalRevenue'' ''Commission earned on rides completed in the period.'',
        currencyAt ''Total fare volume'' r ''totalFareVolume''
          ''Sum of final fares on rides completed in the period (gross, before driver payout).'',
        metric ''Revenue per completed ride'' (nullableAt r ''revenuePerCompletedRide'') ''currency''
          (''Platform revenue'' @ per @ ''completed rides.'')],
      rb_sections = distribution ''Rides by status'' statuses ''Status'' ''status'', rb_csvExtra = extraOf ''Rides'' statuses\<rparr>)"

definition sumAt :: "row list \<Rightarrow> string \<Rightarrow> rat" where
  "sumAt rows key = sum_list (map (\<lambda>r. numberAt r key) rows)"

definition logisticsBody :: "row list \<Rightarrow> reportBody" where
  "logisticsBody rows =
     \<lparr>rb_summary =
       [metric ''Total deliveries'' (Num (sumAt rows ''totalDeliveries'')) ''integer'' ''Deliveries requested inside the period, any outcome.'',
        metric ''Completed deliveries'' (Num (sumAt rows ''completedDeliveries'')) ''integer'' ''Deliveries with status COMPLETED.'',
        metric ''Success rate'' (ratio (sumAt rows ''completedDeliveries'') (sumAt rows ''totalDeliveries'')) ''percent''
          (''Completed deliveries'' @ per @ ''total deliveries.''),
        metric ''Vehicle types used'' (tally (length rows)) ''integer'' ''Distinct vehicle types with at least one delivery.''],
      rb_sections = [\<lparr>es_name = ''By vehicle type'',
        es_columns = [column ''vehicleType'' ''Vehicle type'' None, column ''totalDeliveries'' ''Total deliveries'' (Some ''integer''),
          column ''completedDeliveries'' ''Completed'' (Some ''integer''), column ''successRate'' ''Success rate'' (Some ''percent'')],
        es_rows = rows, es_truncatedFrom = None\<rparr>],
      rb_csvExtra = []\<rparr>"

definition businessBody :: "row \<Rightarrow> reportBody" where
  "businessBody r = figures
     [integerAt ''Total businesses'' r ''totalBusinesses'' ''Every registered business account, all-time.'',
      integerAt ''Invoices issued'' r ''invoicesInPeriod'' ''Invoices created inside the period.'',
      integerAt ''Invoices paid'' r ''paidInvoices'' ''Of those, invoices with status PAID.'',
      currencyAt ''Total invoiced'' r ''totalInvoicedAmount'' ''Sum of all invoices created in the period.'',
      currencyAt ''Total collected'' r ''totalPaidAmount'' ''Sum of PAID invoices created in the period.'',
      metric ''Collection rate'' (ratio (numberAt r ''totalPaidAmount'') (numberAt r ''totalInvoicedAmount'')) ''percent''
        (''Collected amount'' @ per @ ''invoiced amount.'')]"

definition kilowattBody :: "row \<Rightarrow> reportBody" where
  "kilowattBody r = (let leads = entriesWithPrefix r ''solarLeads_'' in
     \<lparr>rb_summary =
       [integerAt ''Active charging stations'' r ''activeChargingStations'' ''Charging stations currently marked active (live snapshot).'',
        integerAt ''Battery swap reservations'' r ''swapReservationsInPeriod'' ''Swap reservations created inside the period.'',
        integerAt ''Solar leads'' r ''solarLeadsInPeriod'' ''Solar assessment requests created inside the period.''],
      rb_sections = distribution ''Solar leads by status'' leads ''Status'' ''status'', rb_csvExtra = extraOf ''Solar leads'' leads\<rparr>)"

text \<open>The \<open>amount_TYPE\<close> and \<open>count_TYPE\<close> keys: type, count, amount.\<close>

definition pairOf :: "string \<Rightarrow> (string \<times> rat \<times> rat) list \<Rightarrow> rat \<times> rat" where
  "pairOf type types = orElse (map_of types type) (0, 0)"

definition addTypeEntry :: "string \<times> cell \<Rightarrow> (string \<times> rat \<times> rat) list \<Rightarrow> (string \<times> rat \<times> rat) list" where
  "addTypeEntry e types = (case e of (k, v) \<Rightarrow> let x = orElse (toNumber v) 0 in
     if startsWith ''amount_'' k \<and> length k > 7 then AList.update (drop 7 k) (fst (pairOf (drop 7 k) types), x) types
     else if startsWith ''count_'' k \<and> length k > 6 then AList.update (drop 6 k) (x, snd (pairOf (drop 6 k) types)) types
     else types)"

definition financeTypes :: "row \<Rightarrow> (string \<times> rat \<times> rat) list" where
  "financeTypes r = sort_key (\<lambda>t. - snd (snd t)) (fold addTypeEntry r [])"

definition financeBody :: "row \<Rightarrow> reportBody" where
  "financeBody r = (let byType = financeTypes r in
     \<lparr>rb_summary =
       [currencyAt ''Recognised revenue'' r ''totalRecognizedRevenue''
          (''Current balance of the platform revenue account'' @ dash @ ''all-time, not limited to the period.''),
        integerAt ''Transactions'' r ''transactionVolumeInPeriod'' ''Ledger transactions created inside the period.'',
        currencyAt ''Withdrawals'' r ''totalWithdrawalsInPeriod'' ''Total value of wallet withdrawals in the period.''],
      rb_sections = (if byType = [] then [] else [\<lparr>es_name = ''By transaction type'',
        es_columns = [column ''type'' ''Transaction type'' (Some ''status''), column ''count'' ''Transactions'' (Some ''integer''),
          column ''amount'' ''Total amount'' (Some ''currency'')],
        es_rows = map (\<lambda>(ty, n, x). [(''type'', Txt ty), (''count'', Num n), (''amount'', Num x)]) byType,
        es_truncatedFrom = None\<rparr>]),
      rb_csvExtra = concat (map (\<lambda>(ty, n, x). [(prettifyStatus ty @ dash @ ''count'', n, ''integer''),
        (prettifyStatus ty @ dash @ ''amount'', x, ''currency'')]) byType)\<rparr>)"

definition supportBody :: "row \<Rightarrow> reportBody" where
  "supportBody r = (let statuses = entriesWithPrefix r ''status_'' in
     \<lparr>rb_summary =
       [integerAt ''Tickets opened'' r ''totalTicketsInPeriod'' ''Tickets created inside the period.'',
        integerAt ''Tickets resolved'' r ''resolvedInPeriod'' ''Tickets resolved inside the period (may have been opened earlier).'',
        metric ''Avg. resolution time (hours)'' (nullableAt r ''avgResolutionHours'') ''number''
          ''Mean time from creation to resolution, for tickets resolved in the period.''],
      rb_sections = distribution ''Tickets by status'' statuses ''Status'' ''status'', rb_csvExtra = extraOf ''Tickets'' statuses\<rparr>)"

fun bodyOf :: "ReportType \<Rightarrow> row list \<Rightarrow> reportBody" where
  "bodyOf RIDERS rows = ridersBody (firstRow rows)"
| "bodyOf DRIVERS rows = driversBody (firstRow rows)"
| "bodyOf ReportType.RIDES rows = ridesBody (firstRow rows)"
| "bodyOf ReportType.LOGISTICS rows = logisticsBody rows"
| "bodyOf BUSINESS rows = businessBody (firstRow rows)"
| "bodyOf ReportType.KILOWATT rows = kilowattBody (firstRow rows)"
| "bodyOf FINANCE rows = financeBody (firstRow rows)"
| "bodyOf SUPPORT rows = supportBody (firstRow rows)"

fun reportTitle :: "ReportType \<Rightarrow> string" where
  "reportTitle RIDERS = ''Riders Report''"
| "reportTitle DRIVERS = ''Drivers Report''"
| "reportTitle ReportType.RIDES = ''Rides Report''"
| "reportTitle ReportType.LOGISTICS = ''Logistics Report''"
| "reportTitle BUSINESS = ''Business Accounts Report''"
| "reportTitle ReportType.KILOWATT = ''Kilowatt (Energy) Report''"
| "reportTitle FINANCE = ''Finance Report''"
| "reportTitle SUPPORT = ''Support Report''"

definition extraRow :: "string \<times> rat \<times> string \<Rightarrow> row" where
  "extraRow e = (case e of (label, value, format) \<Rightarrow>
     [(''label'', Txt label), (''value'', Num value), (''format'', Txt format), (''note'', Txt [])])"

definition csvMetrics :: "reportBody \<Rightarrow> exportSection" where
  "csvMetrics b = \<lparr>es_name = ''Metrics'', es_columns = metricColumns,
     es_rows = map metricRow (rb_summary b) @ map extraRow (rb_csvExtra b), es_truncatedFrom = None\<rparr>"

definition buildReportDocument :: "ReportType \<Rightarrow> row list \<Rightarrow> reportPeriod \<Rightarrow> string \<Rightarrow> exportDocument" where
  "buildReportDocument type rows p generatedBy =
     (let b = bodyOf type rows in
      \<lparr>ed_title = reportTitle type, ed_generatedBy = generatedBy, ed_period = Some (Some (fst p), Some (snd p)), ed_filters = None,
       ed_summary = rb_summary b, ed_sections = rb_sections b,
       ed_csvSection = (if type = ReportType.LOGISTICS then None else Some (csvMetrics b))\<rparr>)"

definition buildExportDocument :: "(rat \<Rightarrow> string) \<Rightarrow> ReportType \<Rightarrow> reportPeriod \<Rightarrow> string \<Rightarrow> exportDocument op" where
  "buildExportDocument show type p generatedBy =
     bind (generate show type p) (\<lambda>rows. return (buildReportDocument type rows p generatedBy))"

section \<open>The scheduled mail\<close>

definition renderExport :: "(string \<Rightarrow> instant option) \<Rightarrow> (rat \<Rightarrow> string) \<Rightarrow> (exportDocument \<Rightarrow> string) \<Rightarrow> (exportDocument \<Rightarrow> string)
    \<Rightarrow> exportDocument \<Rightarrow> ReportFormat \<Rightarrow> string \<times> string" where
  "renderExport parseDate show pdf excel doc format = (case format of
     PDF \<Rightarrow> (pdf doc, ''pdf'') | CSV \<Rightarrow> (renderCsv parseDate show doc, ''csv'') | XLSX \<Rightarrow> (excel doc, ''xlsx''))"

definition findSchedule :: "string \<Rightarrow> scheduledReport option op" where
  "findSchedule i = gets (\<lambda>s. List.find (\<lambda>r. sq_id r = i) (scheduledReports s))"

definition processReport :: "(string \<Rightarrow> instant option) \<Rightarrow> (rat \<Rightarrow> string) \<Rightarrow> (exportDocument \<Rightarrow> string) \<Rightarrow> (exportDocument \<Rightarrow> string)
    \<Rightarrow> string \<Rightarrow> unit op" where
  "processReport parseDate show pdf excel scheduledReportId =
     bind (findSchedule scheduledReportId) (\<lambda>found.
     case found of None \<Rightarrow> return () | Some r \<Rightarrow>
       onlyIf (sq_isActive r)
         (bind (gets now) (\<lambda>t.
          bind (buildExportDocument show (sq_type r) (t - LOOKBACK_MS, t) ''Scheduled report'') (\<lambda>doc.
          let rendered = renderExport parseDate show pdf excel doc (sq_format r) in
          andThen (push (EmailDocument (sq_recipientEmail r)
             (''Kilo '' @ toLowerCase (reportTypeName (sq_type r)) @ '' report'' @ dash @ isoDay t)
             (exportFilename (reportTypeName (sq_type r) @ ''-report'') (snd rendered) t) (fst rendered)))
          (modify (\<lambda>s. s\<lparr>scheduledReports := updateWhere (\<lambda>x. sq_id x = sq_id r) (\<lambda>x. x\<lparr>sq_lastRunAt := Some (now s)\<rparr>)
             (scheduledReports s)\<rparr>))))))"

end
