(* ===== verification/BackOffice.thy ===== *)
theory BackOffice
  imports Business Support AdminRides Reports
begin

text \<open>
  The export documents of the other services: businesses (src/business/business.service.ts), deliveries
  (src/logistics/admin-logistics.service.ts), transactions and withdrawals
  (src/wallet/admin-finance.service.ts) and tickets (src/support/support.service.ts).  As in AdminDetail,
  the subtitle, the colours and the widths are left out, and so are the creation dates of a business and of
  a withdrawal, columns the model does not keep.
\<close>

section \<open>Texts shared by the documents\<close>

definition noName :: string where "noName = [CHR 0xE2, CHR 0x80, CHR 0x94]"

definition dated :: "instant option \<Rightarrow> cell" where
  "dated t = (case t of None \<Rightarrow> Missing | Some x \<Rightarrow> Date x)"

definition amount :: "rat \<Rightarrow> cell" where "amount x = Num x"

definition rateOf :: "nat \<Rightarrow> nat \<Rightarrow> cell" where
  "rateOf a b = (if 0 < b then Num (of_nat a / of_nat b) else Missing)"

text \<open>A document with one section.\<close>

definition oneSection :: "string \<Rightarrow> string \<Rightarrow> (instant option \<times> instant option) option \<Rightarrow> (string \<times> string) list option
  \<Rightarrow> exportMetric list \<Rightarrow> string \<Rightarrow> exportColumn list \<Rightarrow> row list \<Rightarrow> int \<Rightarrow> exportDocument" where
  "oneSection title generatedBy period filters summary name columns rows hits =
     \<lparr>ed_title = title, ed_generatedBy = generatedBy, ed_period = period, ed_filters = filters, ed_summary = summary,
      ed_sections = [\<lparr>es_name = name, es_columns = columns, es_rows = rows,
        es_truncatedFrom = (if int (length rows) < hits then Some hits else None)\<rparr>], ed_csvSection = None\<rparr>"

section \<open>Businesses\<close>

fun businessStatusName :: "BusinessStatus \<Rightarrow> string" where
  "businessStatusName BusinessStatus.ACTIVE = ''ACTIVE''"
| "businessStatusName BusinessStatus.SUSPENDED = ''SUSPENDED''"
| "businessStatusName INACTIVE = ''INACTIVE''"

fun creditStatusName :: "CreditStatus \<Rightarrow> string" where
  "creditStatusName OVERDUE_CREDIT = ''OVERDUE''"
| "creditStatusName ON_CREDIT = ''ON_CREDIT''"
| "creditStatusName NO_CREDIT = ''NO_CREDIT''"

type_synonym creditRow = "business \<times> rat \<times> CreditStatus"

definition businessMetrics :: "creditRow list \<Rightarrow> int \<Rightarrow> exportMetric list" where
  "businessMetrics rows hits =
     [metric ''Total businesses'' (Num (of_int hits)) ''integer'' ''Businesses matching the filters.'',
      metric ''Active'' (count (countWhere (\<lambda>(b, x, c). bz_status b = BusinessStatus.ACTIVE) rows)) ''integer'' ''Account status ACTIVE.'',
      metric ''Suspended'' (count (countWhere (\<lambda>(b, x, c). bz_status b = BusinessStatus.SUSPENDED) rows)) ''integer'' ''Account status SUSPENDED.'',
      metric ''Overdue'' (count (countWhere (\<lambda>(b, x, c). c = OVERDUE_CREDIT) rows)) ''integer'' ''At least one invoice is past due.'',
      metric ''On credit'' (count (countWhere (\<lambda>(b, x, c). c = ON_CREDIT) rows)) ''integer'' ''Carrying an outstanding balance, nothing overdue.'',
      metric ''Credit extended'' (amount (sum_list (map (\<lambda>(b, x, c). bz_creditLimit b) rows))) ''currency'' ''Sum of credit limits.'',
      metric ''Outstanding balance'' (amount (sum_list (map (\<lambda>(b, x, c). x) rows))) ''currency'' ''Sum of what businesses currently owe on credit.'']"

definition businessColumns :: "exportColumn list" where
  "businessColumns = [column ''name'' ''Business'' None, column ''registrationNumber'' ''Reg. no.'' None,
     column ''contactEmail'' ''Contact email'' None, column ''contactPhone'' ''Contact phone'' None,
     column ''status'' ''Status'' (Some ''status''), column ''creditStatus'' ''Credit status'' (Some ''status''),
     column ''creditLimit'' ''Credit limit'' (Some ''currency''), column ''outstanding'' ''Outstanding'' (Some ''currency''),
     column ''members'' ''Team members'' (Some ''integer''), column ''deliveries'' ''Deliveries'' (Some ''integer''),
     column ''invoices'' ''Invoices'' (Some ''integer'')]"

definition businessCells :: "db \<Rightarrow> creditRow \<Rightarrow> row" where
  "businessCells s r = (case r of (b, owed, standing) \<Rightarrow>
     [(''name'', Txt (bz_name b)), (''registrationNumber'', optional (bz_registrationNumber b)),
      (''contactEmail'', optional (bz_contactEmail b)), (''contactPhone'', optional (bz_contactPhone b)),
      (''status'', Txt (businessStatusName (bz_status b))), (''creditStatus'', Txt (creditStatusName standing)),
      (''creditLimit'', amount (bz_creditLimit b)), (''outstanding'', amount owed),
      (''members'', count (countWhere (\<lambda>u. usr_businessId u = Some (bz_id b)) (users s))),
      (''deliveries'', count (countWhere (\<lambda>d. dv_businessId d = Some (bz_id b)) (deliveries s))),
      (''invoices'', count (countWhere (\<lambda>v. iv_businessId v = bz_id b) (invoices s)))])"

definition exportBusinesses :: "businessQuery \<Rightarrow> string \<Rightarrow> exportDocument op" where
  "exportBusinesses q actorId =
     bind (both (listAllBusinesses (q\<lparr>bq_take := Some EXPORT_MAX_ROWS, bq_skip := Some 0\<rparr>)) (resolveActorName (Some actorId)))
       (\<lambda>(page, generatedBy).
     gets (\<lambda>s. oneSection ''Business Accounts Report'' generatedBy None
       (describeFilters [(''Search'', bq_search q), (''Account status'', map_option businessStatusName (bq_status q)),
          (''Credit status'', map_option creditStatusName (bq_creditStatus q))])
       (businessMetrics (pg_data page) (pg_total page)) ''Businesses'' businessColumns
       (map (businessCells s) (pg_data page)) (pg_total page)))"

section \<open>Deliveries\<close>

definition deliveryMetrics :: "delivery list \<Rightarrow> exportMetric list" where
  "deliveryMetrics ds =
     (let t = tallyByStatus (groupCount dv_status ds); completed = fst t DeliveryStatus.COMPLETED;
          settled = filter (\<lambda>d. dv_status d = DeliveryStatus.COMPLETED) ds in
      [metric ''Total deliveries'' (count (snd t)) ''integer'' ''Deliveries matching the filters.'',
       metric ''Completed'' (count completed) ''integer'' ''Status COMPLETED.'',
       metric ''In progress'' (count (sum_list (map (fst t) ACTIVE_DELIVERY_STATUSES))) ''integer'' ''Dispatching, accepted or picked up.'',
       metric ''Cancelled'' (count (fst t DeliveryStatus.CANCELLED)) ''integer'' ''Status CANCELLED.'',
       metric ''No driver found'' (count (fst t DeliveryStatus.NO_DRIVERS_FOUND)) ''integer'' ''Dispatch exhausted every candidate.'',
       metric ''Success rate'' (rateOf completed (snd t)) ''percent'' (''Completed'' @ dividedBy @ ''total deliveries.''),
       metric ''Fare volume'' (amount (sumOf dv_finalFare settled)) ''currency'' ''Sum of final fares on completed deliveries.'',
       metric ''Platform revenue'' (amount (sumOf dv_commissionAmount settled)) ''currency'' ''Commission earned on completed deliveries.''])"

definition deliveryColumns :: "exportColumn list" where
  "deliveryColumns = [column ''ref'' ''Delivery'' None, column ''requestedAt'' ''Requested'' (Some ''datetime''),
     column ''status'' ''Status'' (Some ''status''), column ''sender'' ''Sender'' None, column ''business'' ''Business'' None,
     column ''driver'' ''Driver'' None, column ''vehicleType'' ''Vehicle'' None, column ''paymentMethod'' ''Payment'' (Some ''status''),
     column ''pickupAddress'' ''Pickup'' None, column ''packageDescription'' ''Package'' None, column ''receiverName'' ''Receiver'' None,
     column ''distanceKm'' ''Distance (km)'' (Some ''number''), column ''finalFare'' ''Fare'' (Some ''currency''),
     column ''commissionAmount'' ''Commission'' (Some ''currency''), column ''dispute'' ''Dispute'' (Some ''status'')]"

definition disputeText :: "delivery \<Rightarrow> string" where
  "disputeText d = (if truthy (dv_disputeReason d) then (if dv_disputeResolvedAt d \<noteq> None then ''RESOLVED'' else ''DISPUTED'') else [])"

definition deliveryCells :: "deliveryRow \<Rightarrow> row" where
  "deliveryCells w = (let d = dw_delivery w in
     [(''ref'', Txt (take 8 (dv_id d))), (''requestedAt'', Date (dv_requestedAt d)),
      (''status'', Txt (deliveryStatusName (dv_status d))), (''sender'', Txt (nameOr (dw_sender w) noName)),
      (''business'', Txt (case dw_business w of None \<Rightarrow> [] | Some b \<Rightarrow> bz_name b)),
      (''driver'', Txt (nameOr (dw_driver w) ''Unassigned'')), (''vehicleType'', Txt (dv_vehicleType d)),
      (''paymentMethod'', Txt (paymentMethodName (dv_paymentMethod d))), (''pickupAddress'', Txt (dv_pickupAddress d)),
      (''packageDescription'', Txt (dv_packageDescription d)), (''receiverName'', Txt (dv_receiverName d)),
      (''distanceKm'', number (dv_distanceKm d)), (''finalFare'', number (dv_finalFare d)),
      (''commissionAmount'', number (dv_commissionAmount d)), (''dispute'', Txt (disputeText d))])"

definition exportDeliveries :: "(string \<Rightarrow> string) \<Rightarrow> deliveryQuery \<Rightarrow> string \<Rightarrow> exportDocument op" where
  "exportDeliveries publicId q actorId =
     bind (resolveActorName (Some actorId)) (\<lambda>generatedBy.
     gets (\<lambda>s. let matching = filter (deliveryWhere publicId s q) (deliveries s);
                   rows = take (nat EXPORT_MAX_ROWS) (rev (sort_key dv_requestedAt matching)) in
       oneSection ''Deliveries Report'' generatedBy (periodOf (dy_from q) (dy_to q))
         (describeFilters [(''Search'', dy_search q), (''Status'', map_option deliveryStatusName (dy_status q))])
         (deliveryMetrics matching) ''Deliveries'' deliveryColumns (map (deliveryCells \<circ> deliveryRowOf s) rows) (int (length matching))))"

section \<open>Transactions and withdrawals\<close>

fun transactionStatusName :: "TransactionStatus \<Rightarrow> string" where
  "transactionStatusName TransactionStatus.PENDING = ''PENDING''"
| "transactionStatusName TransactionStatus.COMPLETED = ''COMPLETED''"
| "transactionStatusName TransactionStatus.FAILED = ''FAILED''"
| "transactionStatusName REVERSED = ''REVERSED''"

definition transactionMetrics :: "transaction list \<Rightarrow> exportMetric list" where
  "transactionMetrics ts =
     (let counts = tallyByStatus (groupCount tx_status ts);
          completed = filter (\<lambda>t. tx_status t = TransactionStatus.COMPLETED) ts in
      [metric ''Total transactions'' (count (snd counts)) ''integer'' ''Transactions matching the filters.'',
       metric ''Completed'' (count (fst counts TransactionStatus.COMPLETED)) ''integer'' ''Ledger entries posted, balances updated.'',
       metric ''Pending'' (count (fst counts TransactionStatus.PENDING)) ''integer'' ''Awaiting external confirmation (e.g. gateway webhook).'',
       metric ''Failed'' (count (fst counts TransactionStatus.FAILED)) ''integer'' ''Did not complete; no ledger entries posted.'',
       metric ''Reversed'' (count (fst counts REVERSED)) ''integer'' ''Completed, then reversed by a refund or adjustment.'',
       metric ''Completed value'' (amount (sum_list (map tx_amount completed))) ''currency''
         ''Gross value of completed transactions, all types combined (top-ups and payouts both count).''])"

definition transactionColumns :: "exportColumn list" where
  "transactionColumns = [column ''createdAt'' ''Created'' (Some ''datetime''), column ''reference'' ''Reference'' None,
     column ''type'' ''Type'' (Some ''status''), column ''status'' ''Status'' (Some ''status''),
     column ''amount'' ''Amount'' (Some ''currency''), column ''completedAt'' ''Completed'' (Some ''datetime'')]"

definition transactionCells :: "transaction \<Rightarrow> row" where
  "transactionCells t = [(''createdAt'', Date (tx_createdAt t)), (''reference'', Txt (tx_reference t)),
     (''type'', Txt (transactionTypeName (tx_type t))), (''status'', Txt (transactionStatusName (tx_status t))),
     (''amount'', amount (tx_amount t)), (''completedAt'', dated (tx_completedAt t))]"

definition exportTransactions :: "(string \<Rightarrow> string) \<Rightarrow> transactionQuery \<Rightarrow> string \<Rightarrow> exportDocument op" where
  "exportTransactions publicId q actorId =
     bind (resolveActorName (Some actorId)) (\<lambda>generatedBy.
     gets (\<lambda>s. let matching = filter (transactionWhere publicId q) (transactions s); rows = take (nat EXPORT_MAX_ROWS) (rev matching) in
       oneSection ''Transactions Report'' generatedBy (periodOf (xq_from q) (xq_to q))
         (describeFilters [(''Type'', map_option transactionTypeName (xq_type q)),
            (''Status'', map_option transactionStatusName (xq_status q)), (''Search'', xq_search q)])
         (transactionMetrics matching) ''Transactions'' transactionColumns (map transactionCells rows) (int (length matching))))"

definition withdrawalMetrics :: "withdrawalRequest list \<Rightarrow> exportMetric list" where
  "withdrawalMetrics ws =
     (let counts = tallyByStatus (groupCount wr_status ws);
          value = (\<lambda>st. sum_list (map wr_amount (filter (\<lambda>w. wr_status w = st) ws))) in
      [metric ''Total requests'' (count (snd counts)) ''integer'' ''Withdrawal requests matching the filters.'',
       metric ''Pending requests'' (count (fst counts TransactionStatus.PENDING)) ''integer'' ''The approval queue.'',
       metric ''Pending amount'' (amount (value TransactionStatus.PENDING)) ''currency'' ''Total value waiting to be paid out.'',
       metric ''Paid out'' (amount (value TransactionStatus.COMPLETED)) ''currency'' ''Requested amount on completed withdrawals.'',
       metric ''Failed requests'' (count (fst counts TransactionStatus.FAILED)) ''integer'' ''Payouts that did not complete.'',
       metric ''Commission auto-settled'' (amount (sum_list (map wr_settledCommission ws))) ''currency''
         ''Outstanding cash-ride commission deducted from withdrawals before payout.''])"

definition withdrawalColumns :: "exportColumn list" where
  "withdrawalColumns = [column ''driverName'' ''Driver'' None,
     column ''driverPhone'' ''Phone'' None, column ''amount'' ''Amount requested'' (Some ''currency''),
     column ''settledCommission'' ''Commission settled'' (Some ''currency''), column ''netPayout'' ''Net payout'' (Some ''currency''),
     column ''status'' ''Status'' (Some ''status''), column ''completedAt'' ''Completed'' (Some ''datetime''),
     column ''gatewayReference'' ''Gateway reference'' None]"

definition withdrawalCells :: "withdrawalRequest \<times> user option \<Rightarrow> row" where
  "withdrawalCells r = (case r of (w, driver) \<Rightarrow>
     [(''driverName'', Txt (nameOr driver noName)),
      (''driverPhone'', Txt (case driver of None \<Rightarrow> [] | Some u \<Rightarrow> usr_phone u)), (''amount'', amount (wr_amount w)),
      (''settledCommission'', amount (wr_settledCommission w)), (''netPayout'', amount (wr_amount w - wr_settledCommission w)),
      (''status'', Txt (transactionStatusName (wr_status w))), (''completedAt'', dated (wr_completedAt w)),
      (''gatewayReference'', optional (wr_gatewayReference w))])"

definition exportWithdrawals :: "TransactionStatus option \<Rightarrow> string \<Rightarrow> exportDocument op" where
  "exportWithdrawals status actorId =
     bind (both (listWithdrawals status (Some EXPORT_MAX_ROWS) (Some 0)) (resolveActorName (Some actorId))) (\<lambda>(page, generatedBy).
     gets (\<lambda>s. oneSection ''Driver Withdrawals Report'' generatedBy None
       (describeFilters [(''Status'', map_option transactionStatusName status)])
       (withdrawalMetrics (filter (withdrawalWhere status) (withdrawalRequests s))) ''Withdrawals'' withdrawalColumns
       (map withdrawalCells (pg_data page)) (pg_total page)))"

section \<open>Tickets\<close>

fun priorityName :: "TicketPriority \<Rightarrow> string" where
  "priorityName TicketPriority.LOW = ''LOW''"
| "priorityName TicketPriority.MEDIUM = ''MEDIUM''"
| "priorityName TicketPriority.HIGH = ''HIGH''"
| "priorityName URGENT = ''URGENT''"

definition ticketMetrics :: "supportTicket list \<Rightarrow> supportTicket list \<Rightarrow> exportMetric list" where
  "ticketMetrics matching rows =
     (let t = tallyByStatus (groupCount sk_status matching) in
      [metric ''Total tickets'' (count (snd t)) ''integer'' ''Tickets matching the filters.'',
       metric ''Open'' (count (fst t OPEN)) ''integer'' ''Waiting for a first response.'',
       metric ''In progress'' (count (fst t TicketStatus.IN_PROGRESS)) ''integer'' ''Being worked on.'',
       metric ''Escalated'' (count (fst t ESCALATED)) ''integer'' ''Escalated to a senior admin.'',
       metric ''Resolved / closed'' (count (fst t RESOLVED + fst t TicketStatus.CLOSED)) ''integer'' ''Finished tickets.'',
       metric ''Urgent & unresolved'' (count (countWhere (\<lambda>k. sk_priority k = URGENT \<and> sk_status k \<in> set UNRESOLVED) matching)) ''integer''
         ''Priority URGENT and not yet resolved.'',
       metric ''Avg. resolution time (hours)'' (number (meanOf (List.map_filter resolutionHours rows))) ''number''
         ''Mean time from creation to resolution, over resolved tickets in this export.''])"

definition ticketColumns :: "exportColumn list" where
  "ticketColumns = [column ''ref'' ''Ticket'' None, column ''createdAt'' ''Opened'' (Some ''datetime''), column ''subject'' ''Subject'' None,
     column ''category'' ''Category'' None, column ''status'' ''Status'' (Some ''status''), column ''priority'' ''Priority'' (Some ''status''),
     column ''requester'' ''Requester'' None, column ''assignee'' ''Assigned to'' None,
     column ''escalatedAt'' ''Escalated'' (Some ''datetime''), column ''resolvedAt'' ''Resolved'' (Some ''datetime''),
     column ''resolutionHours'' ''Hours to resolve'' (Some ''number'')]"

definition ticketCells :: "db \<Rightarrow> supportTicket \<Rightarrow> row" where
  "ticketCells s t = [(''ref'', Txt (take 8 (sk_id t))), (''createdAt'', Date (sk_createdAt t)), (''subject'', Txt (sk_subject t)),
     (''category'', Txt (sk_category t)), (''status'', Txt (ticketStatusName (sk_status t))), (''priority'', Txt (priorityName (sk_priority t))),
     (''requester'', Txt (nameOr (userRow s (sk_userId t)) noName)),
     (''assignee'', Txt (nameOr (Option.bind (sk_assignedToId t) (userRow s)) ''Unassigned'')),
     (''escalatedAt'', dated (sk_escalatedAt t)), (''resolvedAt'', dated (sk_resolvedAt t)),
     (''resolutionHours'', number (resolutionHours t))]"

definition exportTickets :: "ticketFilters \<Rightarrow> string \<Rightarrow> exportDocument op" where
  "exportTickets q actorId =
     bind (resolveActorName (Some actorId)) (\<lambda>generatedBy.
     gets (\<lambda>s. let matching = filter (ticketMatches q) (supportTickets s); rows = take (nat EXPORT_MAX_ROWS) (rev matching) in
       oneSection ''Support Tickets Report'' generatedBy (periodOf (tq_from q) (tq_to q))
         (describeFilters [(''Status'', map_option ticketStatusName (tq_status q)),
            (''Priority'', map_option priorityName (tq_priority q)), (''Assigned to'', tq_assignedToId q)])
         (ticketMetrics matching rows) ''Tickets'' ticketColumns (map (ticketCells s) rows) (int (length matching))))"

end
