(* ===== verification/Kilowatt.thy ===== *)
theory Kilowatt
  imports Staff Paging Ledger
begin

text \<open>
  Kilowatt, src/kilowatt: battery-swap stations and paid reservations (battery-swap.service.ts),
  charging stations (charging-stations.service.ts) and solar leads (solar-assessments.service.ts).
  The distance between two points, a floating-point haversine, is the parameter \<open>distanceKm\<close>; the
  renamed fields of the dashboard views are the columns themselves.
\<close>

section \<open>Battery swap\<close>

definition OCCUPIED_WAIT_MINUTES :: int where "OCCUPIED_WAIT_MINUTES = 15"

type_synonym distanceKm = "rat \<times> rat \<Rightarrow> rat \<times> rat \<Rightarrow> rat"

text \<open>The rows of a list within a radius, nearest first, with their distance.\<close>

definition nearby :: "distanceKm \<Rightarrow> ('r \<Rightarrow> rat \<times> rat) \<Rightarrow> rat \<times> rat \<Rightarrow> rat \<Rightarrow> 'r list \<Rightarrow> ('r \<times> rat) list" where
  "nearby km place p radiusKm rows =
     sort_key snd (filter (\<lambda>(r, d). d \<le> radiusKm) (map (\<lambda>r. (r, km p (place r))) rows))"

definition searchSwapStations :: "distanceKm \<Rightarrow> rat \<times> rat \<Rightarrow> rat \<Rightarrow> (batterySwapStation \<times> rat \<times> int) list op" where
  "searchSwapStations km p radiusKm = gets (\<lambda>s.
     map (\<lambda>(st, d). (st, d, if 0 < bs_availableBatteries st then 0 else OCCUPIED_WAIT_MINUTES))
       (nearby km (\<lambda>st. (bs_lat st, bs_lng st)) p radiusKm (filter bs_isActive (swapStations s))))"

definition updateStations :: "(batterySwapStation \<Rightarrow> bool) \<Rightarrow> (batterySwapStation \<Rightarrow> batterySwapStation) \<Rightarrow> unit op" where
  "updateStations P f = modify (\<lambda>s. s\<lparr>swapStations := updateWhere P f (swapStations s)\<rparr>)"

definition findStation :: "string \<Rightarrow> batterySwapStation option op" where
  "findStation i = gets (\<lambda>s. List.find (\<lambda>st. bs_id st = i) (swapStations s))"

text \<open>\<open>updateMany where availableBatteries > 0\<close>: the number of rows it took a battery from.\<close>

definition claimBattery :: "string \<Rightarrow> nat op" where
  "claimBattery stationId =
     (let free = (\<lambda>st. bs_id st = stationId \<and> 0 < bs_availableBatteries st) in
      bind (gets (\<lambda>s. countWhere free (swapStations s))) (\<lambda>count.
      andThen (updateStations free (\<lambda>st. st\<lparr>bs_availableBatteries := bs_availableBatteries st - 1\<rparr>))
      (return count)))"

definition releaseBattery :: "string \<Rightarrow> unit op" where
  "releaseBattery stationId =
     updateStations (\<lambda>st. bs_id st = stationId) (\<lambda>st. st\<lparr>bs_availableBatteries := bs_availableBatteries st + 1\<rparr>)"

definition swapReference :: "(instant \<Rightarrow> string) \<Rightarrow> string \<Rightarrow> string \<Rightarrow> instant \<Rightarrow> string" where
  "swapReference shown userId stationId t = ''battery-swap:'' @ userId @ '':'' @ stationId @ '':'' @ shown t"

definition createReservation :: "string \<Rightarrow> string \<Rightarrow> rat \<Rightarrow> string \<Rightarrow> batterySwapReservation op" where
  "createReservation userId stationId amount transactionId =
     bind (gets (\<lambda>s. List.find (\<lambda>r. br_transactionId r = Some transactionId) (swapReservations s))) (\<lambda>clash.
     andThen (ensure (clash = None) UniqueViolation)
     (bind freshId (\<lambda>i. bind (gets now) (\<lambda>t.
      let r = \<lparr>br_id = i, br_userId = userId, br_stationId = stationId, br_status = CONFIRMED, br_amount = scale2 amount,
               br_transactionId = Some transactionId, br_createdAt = t\<rparr> in
      andThen (modify (\<lambda>s. s\<lparr>swapReservations := swapReservations s @ [r]\<rparr>)) (return r)))))"

definition reserve :: "(instant \<Rightarrow> string) \<Rightarrow> string \<Rightarrow> string \<Rightarrow> batterySwapReservation op" where
  "reserve shown userId stationId =
     bind (findStation stationId) (\<lambda>found.
     bind (orThrow (case found of None \<Rightarrow> None | Some st \<Rightarrow> if bs_isActive st then Some st else None)
        (NotFoundException ''Battery swap station not found'')) (\<lambda>station.
     bind (claimBattery stationId) (\<lambda>count.
     andThen (ensure (count \<noteq> 0) (ConflictException ''No batteries currently available at this station''))
     (bind (gets now) (\<lambda>t.
      tryCatch
        (bind (payForKilowattService userId (bs_pricePerSwap station) (swapReference shown userId stationId t) None) (\<lambda>tx.
         createReservation userId stationId (bs_pricePerSwap station) (tx_id tx)))
        (\<lambda>err. andThen (releaseBattery stationId) (throw err)))))))"

definition getReservation :: "string \<Rightarrow> string \<Rightarrow> batterySwapReservation op" where
  "getReservation userId i =
     bind (gets (\<lambda>s. List.find (\<lambda>r. br_id r = i) (swapReservations s))) (\<lambda>found.
     bind (orThrow found (NotFoundException ''Reservation not found'')) (\<lambda>r.
     andThen (ensure (br_userId r = userId) (ForbiddenException ''You are not a participant on this reservation''))
     (return r)))"

definition listAllReservations :: "int \<Rightarrow> int \<Rightarrow> batterySwapReservation paginated op" where
  "listAllReservations limit skip = gets (\<lambda>s. pageOf (Some limit) (Some skip) (rev (swapReservations s)))"

definition listAllSwapStations :: "batterySwapStation list op" where
  "listAllSwapStations = gets (\<lambda>s. rev (swapStations s))"

record swapStationDto =
  sd_name :: "string option"
  sd_location :: "string option"
  sd_latitude :: "rat option"
  sd_longitude :: "rat option"
  sd_totalBays :: "int option"
  sd_availableBays :: "int option"
  sd_status :: "BatterySwapStationStatus option"
  sd_pricePerSwap :: "rat option"
  sd_isActive :: "bool option"

definition createSwapStation :: "string \<Rightarrow> string \<Rightarrow> rat \<Rightarrow> rat \<Rightarrow> int \<Rightarrow> int \<Rightarrow> rat option \<Rightarrow> BatterySwapStationStatus option
    \<Rightarrow> batterySwapStation op" where
  "createSwapStation name location latitude longitude totalBays availableBays pricePerSwap status =
     bind freshId (\<lambda>i.
      let st = \<lparr>bs_id = i, bs_name = name, bs_address = location, bs_lat = latitude, bs_lng = longitude, bs_totalSlots = totalBays,
                bs_availableBatteries = availableBays, bs_pricePerSwap = scale2 (orElse pricePerSwap 0),
                bs_status = orElse status BatterySwapStationStatus.AVAILABLE, bs_isActive = True\<rparr> in
      andThen (modify (\<lambda>s. s\<lparr>swapStations := swapStations s @ [st]\<rparr>)) (return st))"

definition patchSwapStation :: "swapStationDto \<Rightarrow> batterySwapStation \<Rightarrow> batterySwapStation" where
  "patchSwapStation dto st = st\<lparr>bs_name := orElse (sd_name dto) (bs_name st), bs_address := orElse (sd_location dto) (bs_address st),
     bs_lat := orElse (sd_latitude dto) (bs_lat st), bs_lng := orElse (sd_longitude dto) (bs_lng st),
     bs_totalSlots := orElse (sd_totalBays dto) (bs_totalSlots st),
     bs_availableBatteries := orElse (sd_availableBays dto) (bs_availableBatteries st),
     bs_pricePerSwap := orElse (map_option scale2 (sd_pricePerSwap dto)) (bs_pricePerSwap st),
     bs_status := orElse (sd_status dto) (bs_status st), bs_isActive := orElse (sd_isActive dto) (bs_isActive st)\<rparr>"

definition updateSwapStation :: "string \<Rightarrow> swapStationDto \<Rightarrow> batterySwapStation op" where
  "updateSwapStation i dto =
     bind (findStation i) (\<lambda>found.
     andThen (ensure (found \<noteq> None) (NotFoundException ''Battery swap station not found''))
     (andThen (updateStations (\<lambda>st. bs_id st = i) (patchSwapStation dto))
     (bind (findStation i) (\<lambda>u. orThrow u RecordNotFound))))"

definition deleteSwapStation :: "string \<Rightarrow> unit op" where
  "deleteSwapStation i =
     bind (findStation i) (\<lambda>found.
     andThen (ensure (found \<noteq> None) (NotFoundException ''Battery swap station not found''))
     (updateStations (\<lambda>st. bs_id st = i) (\<lambda>st. st\<lparr>bs_isActive := False\<rparr>)))"

section \<open>Charging stations\<close>

definition searchChargingStations :: "distanceKm \<Rightarrow> rat \<times> rat \<Rightarrow> rat \<Rightarrow> string option \<Rightarrow> rat option \<Rightarrow> (chargingStation \<times> rat) list op" where
  "searchChargingStations km p radiusKm chargerType minSpeedKw = gets (\<lambda>s.
     nearby km (\<lambda>c. (cs_lat c, cs_lng c)) p radiusKm
       (filter (\<lambda>c. cs_isActive c \<and> (truthy chargerType \<longrightarrow> the chargerType \<in> set (cs_chargerTypes c))
          \<and> (case minSpeedKw of None \<Rightarrow> True | Some v \<Rightarrow> v \<noteq> 0 \<longrightarrow> v \<le> cs_speedKw c)) (chargingStations s)))"

definition getChargingStation :: "string \<Rightarrow> chargingStation op" where
  "getChargingStation i =
     bind (gets (\<lambda>s. List.find (\<lambda>c. cs_id c = i) (chargingStations s))) (\<lambda>found.
     orThrow found (NotFoundException ''Charging station not found''))"

definition listAllChargingStations :: "chargingStation list op" where
  "listAllChargingStations = gets (\<lambda>s. rev (chargingStations s))"

record chargingStationDto =
  cd_name :: "string option"
  cd_location :: "string option"
  cd_latitude :: "rat option"
  cd_longitude :: "rat option"
  cd_totalBays :: "int option"
  cd_availableBays :: "int option"
  cd_status :: "ChargingStationStatus option"
  cd_chargerTypes :: "string list option"
  cd_speedKw :: "rat option"
  cd_pricePerKwh :: "rat option"
  cd_isActive :: "bool option"

definition createChargingStation :: "string \<Rightarrow> string \<Rightarrow> rat \<Rightarrow> rat \<Rightarrow> int \<Rightarrow> chargingStationDto \<Rightarrow> chargingStation op" where
  "createChargingStation name location latitude longitude totalBays dto =
     bind freshId (\<lambda>i.
      let c = \<lparr>cs_id = i, cs_name = name, cs_address = location, cs_lat = latitude, cs_lng = longitude,
               cs_chargerTypes = orElse (cd_chargerTypes dto) [], cs_connectorCount = totalBays,
               cs_availableBays = Some (orElse (cd_availableBays dto) totalBays), cs_speedKw = scale2 (orElse (cd_speedKw dto) 0),
               cs_pricePerKwh = scale2 (orElse (cd_pricePerKwh dto) 0),
               cs_status = orElse (cd_status dto) ChargingStationStatus.AVAILABLE, cs_isActive = True\<rparr> in
      andThen (modify (\<lambda>s. s\<lparr>chargingStations := chargingStations s @ [c]\<rparr>)) (return c))"

definition patchChargingStation :: "chargingStationDto \<Rightarrow> chargingStation \<Rightarrow> chargingStation" where
  "patchChargingStation dto c = c\<lparr>cs_name := orElse (cd_name dto) (cs_name c), cs_address := orElse (cd_location dto) (cs_address c),
     cs_lat := orElse (cd_latitude dto) (cs_lat c), cs_lng := orElse (cd_longitude dto) (cs_lng c),
     cs_connectorCount := orElse (cd_totalBays dto) (cs_connectorCount c),
     cs_availableBays := keptOr (cd_availableBays dto) (cs_availableBays c),
     cs_chargerTypes := orElse (cd_chargerTypes dto) (cs_chargerTypes c),
     cs_speedKw := orElse (map_option scale2 (cd_speedKw dto)) (cs_speedKw c),
     cs_pricePerKwh := orElse (map_option scale2 (cd_pricePerKwh dto)) (cs_pricePerKwh c),
     cs_status := orElse (cd_status dto) (cs_status c), cs_isActive := orElse (cd_isActive dto) (cs_isActive c)\<rparr>"

definition updateChargingStation :: "string \<Rightarrow> chargingStationDto \<Rightarrow> chargingStation op" where
  "updateChargingStation i dto =
     bind (getChargingStation i) (\<lambda>_.
     andThen (modify (\<lambda>s. s\<lparr>chargingStations := updateWhere (\<lambda>c. cs_id c = i) (patchChargingStation dto) (chargingStations s)\<rparr>))
     (getChargingStation i))"

definition deleteChargingStation :: "string \<Rightarrow> unit op" where
  "deleteChargingStation i =
     bind (getChargingStation i) (\<lambda>_.
     modify (\<lambda>s. s\<lparr>chargingStations := updateWhere (\<lambda>c. cs_id c = i) (\<lambda>c. c\<lparr>cs_isActive := False\<rparr>) (chargingStations s)\<rparr>))"

section \<open>Solar leads\<close>

record solarDto =
  sq_address :: string
  sq_lat :: "rat option"
  sq_lng :: "rat option"
  sq_monthlyBillEstimate :: "rat option"
  sq_propertyType :: "string option"
  sq_notes :: "string option"

definition insertLead :: "(string \<Rightarrow> instant \<Rightarrow> solarAssessment) \<Rightarrow> solarAssessment op" where
  "insertLead mk =
     bind freshId (\<lambda>i. bind (gets now) (\<lambda>t.
      andThen (modify (\<lambda>s. s\<lparr>solarAssessments := solarAssessments s @ [mk i t]\<rparr>)) (return (mk i t))))"

definition submitAssessment :: "string \<Rightarrow> solarDto \<Rightarrow> solarAssessment op" where
  "submitAssessment userId dto = insertLead (\<lambda>i t.
     \<lparr>sl_id = i, sl_userId = Some userId, sl_address = sq_address dto, sl_lat = sq_lat dto, sl_lng = sq_lng dto,
      sl_monthlyBillEstimate = map_option scale2 (sq_monthlyBillEstimate dto), sl_propertyType = sq_propertyType dto,
      sl_notes = sq_notes dto, sl_contactName = None, sl_contactPhone = None, sl_contactEmail = None, sl_systemSizeKw = None,
      sl_energyNeed = None, sl_status = NEW, sl_assignedRepId = None, sl_createdAt = t\<rparr>)"

definition listLeads :: "SolarLeadStatus option \<Rightarrow> int \<Rightarrow> int \<Rightarrow> (solarAssessment paginated \<times> nat \<times> (SolarLeadStatus \<times> nat) list) op" where
  "listLeads status limit skip = gets (\<lambda>s.
     (pageOf (Some limit) (Some skip) (rev (filter (\<lambda>l. status = None \<or> status = Some (sl_status l)) (solarAssessments s))),
      length (solarAssessments s), groupCount sl_status (solarAssessments s)))"

definition assertStaff :: "string \<Rightarrow> unit op" where
  "assertStaff userId =
     bind (findUser (\<lambda>u. usr_id u = userId)) (\<lambda>found.
     ensure (found \<noteq> None) (BadRequestException ''assignedToId does not match any user''))"

record leadDto =
  ld_name :: "string option"
  ld_phone :: "string option"
  ld_email :: "string option"
  ld_location :: "string option"
  ld_propertyType :: "string option"
  ld_systemSize :: "rat option"
  ld_energyNeed :: "string option"
  ld_status :: "SolarLeadStatus option"
  ld_assignedToId :: "string option"

definition createLead :: "string \<Rightarrow> string \<Rightarrow> string \<Rightarrow> leadDto \<Rightarrow> solarAssessment op" where
  "createLead name phone location dto =
     andThen (onlyIf (truthy (ld_assignedToId dto)) (assertStaff (the (ld_assignedToId dto))))
     (insertLead (\<lambda>i t.
       \<lparr>sl_id = i, sl_userId = None, sl_address = location, sl_lat = None, sl_lng = None, sl_monthlyBillEstimate = None,
        sl_propertyType = ld_propertyType dto, sl_notes = None, sl_contactName = Some name, sl_contactPhone = Some phone,
        sl_contactEmail = ld_email dto, sl_systemSizeKw = map_option scale2 (ld_systemSize dto), sl_energyNeed = ld_energyNeed dto,
        sl_status = orElse (ld_status dto) NEW, sl_assignedRepId = ld_assignedToId dto, sl_createdAt = t\<rparr>))"

definition patchLead :: "leadDto \<Rightarrow> solarAssessment \<Rightarrow> solarAssessment" where
  "patchLead dto l = l\<lparr>sl_contactName := keptOr (ld_name dto) (sl_contactName l), sl_contactPhone := keptOr (ld_phone dto) (sl_contactPhone l),
     sl_contactEmail := keptOr (ld_email dto) (sl_contactEmail l), sl_address := orElse (ld_location dto) (sl_address l),
     sl_propertyType := keptOr (ld_propertyType dto) (sl_propertyType l),
     sl_systemSizeKw := keptOr (map_option scale2 (ld_systemSize dto)) (sl_systemSizeKw l),
     sl_energyNeed := keptOr (ld_energyNeed dto) (sl_energyNeed l), sl_status := orElse (ld_status dto) (sl_status l),
     sl_assignedRepId := keptOr (ld_assignedToId dto) (sl_assignedRepId l)\<rparr>"

definition findLeadOrThrow :: "string \<Rightarrow> solarAssessment op" where
  "findLeadOrThrow i =
     bind (gets (\<lambda>s. List.find (\<lambda>l. sl_id l = i) (solarAssessments s))) (\<lambda>found.
     orThrow found (NotFoundException ''Solar lead not found''))"

definition updateLead :: "string \<Rightarrow> leadDto \<Rightarrow> solarAssessment op" where
  "updateLead i dto =
     bind (findLeadOrThrow i) (\<lambda>_.
     andThen (onlyIf (truthy (ld_assignedToId dto)) (assertStaff (the (ld_assignedToId dto))))
     (andThen (modify (\<lambda>s. s\<lparr>solarAssessments := updateWhere (\<lambda>l. sl_id l = i) (patchLead dto) (solarAssessments s)\<rparr>))
     (findLeadOrThrow i)))"

definition deleteLead :: "string \<Rightarrow> unit op" where
  "deleteLead i =
     bind (findLeadOrThrow i) (\<lambda>_. modify (\<lambda>s. s\<lparr>solarAssessments := filter (\<lambda>l. sl_id l \<noteq> i) (solarAssessments s)\<rparr>))"

end
