(* ===== verification/Places.thy ===== *)
theory Places
  imports Clients Rides Delivery
begin

text \<open>
  What the rider and driver apps keep about a person: saved and recent places
  (src/saved-places/saved-places.service.ts), the driver's vehicle and the card a rider sees
  (src/drivers/driver-profiles.service.ts), and the profile (the first half of
  src/accounts/users.service.ts).  Phone normalisation is a third-party parser, the parameter \<open>toE164\<close>.
\<close>

section \<open>Saved places\<close>

definition RECENT_PLACES_LIMIT :: nat where "RECENT_PLACES_LIMIT = 10"
definition RECENT_SCAN_DEPTH :: nat where "RECENT_SCAN_DEPTH = 40"

definition SINGLETON_LABELS :: "SavedPlaceLabel list" where "SINGLETON_LABELS = [HOME, WORK]"

fun labelRank :: "SavedPlaceLabel \<Rightarrow> nat" where
  "labelRank HOME = 0" | "labelRank WORK = 1" | "labelRank OTHER = 2"

definition listPlaces :: "string \<Rightarrow> savedPlace list op" where
  "listPlaces userId = gets (\<lambda>s. sort_key (\<lambda>p. labelRank (pl_label p)) (rev (filter (\<lambda>p. pl_userId p = userId) (savedPlaces s))))"

definition assertNamed :: "SavedPlaceLabel \<Rightarrow> string option \<Rightarrow> unit op" where
  "assertNamed label name =
     ensure (\<not> (label = OTHER \<and> \<not> truthy (map_option trim name))) (BadRequestException ''A name is required for OTHER places'')"

definition updatePlaces :: "(savedPlace \<Rightarrow> bool) \<Rightarrow> (savedPlace \<Rightarrow> savedPlace) \<Rightarrow> unit op" where
  "updatePlaces P f = modify (\<lambda>s. s\<lparr>savedPlaces := updateWhere P f (savedPlaces s)\<rparr>)"

definition deletePlaces :: "(savedPlace \<Rightarrow> bool) \<Rightarrow> unit op" where
  "deletePlaces P = modify (\<lambda>s. s\<lparr>savedPlaces := filter (\<lambda>p. \<not> P p) (savedPlaces s)\<rparr>)"

definition insertPlace :: "string \<Rightarrow> (savedPlace \<Rightarrow> savedPlace) \<Rightarrow> string op" where
  "insertPlace userId f =
     bind freshId (\<lambda>i.
      andThen (modify (\<lambda>s. s\<lparr>savedPlaces := savedPlaces s @
        [f \<lparr>pl_id = i, pl_userId = userId, pl_label = OTHER, pl_name = None, pl_address = [], pl_lat = 0, pl_lng = 0\<rparr>]\<rparr>))
      (return i))"

record placeDto =
  pd_label :: SavedPlaceLabel
  pd_name :: "string option"
  pd_address :: string
  pd_lat :: rat
  pd_lng :: rat

definition placeName :: "SavedPlaceLabel \<Rightarrow> string option \<Rightarrow> string option" where
  "placeName label name = (if label = OTHER then map_option trim name else None)"

definition placeData :: "placeDto \<Rightarrow> savedPlace \<Rightarrow> savedPlace" where
  "placeData dto p = p\<lparr>pl_label := pd_label dto, pl_name := placeName (pd_label dto) (pd_name dto),
     pl_address := trim (pd_address dto), pl_lat := pd_lat dto, pl_lng := pd_lng dto\<rparr>"

text \<open>Both return the identifier of the place.\<close>

definition createPlace :: "string \<Rightarrow> placeDto \<Rightarrow> string op" where
  "createPlace userId dto =
     andThen (assertNamed (pd_label dto) (pd_name dto))
     (bind (if pd_label dto \<in> set SINGLETON_LABELS
            then gets (\<lambda>s. List.find (\<lambda>p. pl_userId p = userId \<and> pl_label p = pd_label dto) (savedPlaces s))
            else return None) (\<lambda>existing.
      case existing of
        Some p \<Rightarrow> andThen (updatePlaces (\<lambda>q. pl_id q = pl_id p) (placeData dto)) (return (pl_id p))
      | None \<Rightarrow> insertPlace userId (placeData dto)))"

definition findOwned :: "string \<Rightarrow> string \<Rightarrow> savedPlace op" where
  "findOwned userId i =
     bind (gets (\<lambda>s. List.find (\<lambda>p. pl_id p = i) (savedPlaces s))) (\<lambda>found.
     bind (orThrow found (NotFoundException ''Saved place not found'')) (\<lambda>p.
     andThen (ensure (pl_userId p = userId) (NotFoundException ''Saved place not found'')) (return p)))"

record placePatch =
  pp_label :: "SavedPlaceLabel option"
  pp_name :: "string option"
  pp_address :: "string option"
  pp_lat :: "rat option"
  pp_lng :: "rat option"

definition updatePlace :: "string \<Rightarrow> string \<Rightarrow> placePatch \<Rightarrow> string op" where
  "updatePlace userId i dto =
     bind (findOwned userId i) (\<lambda>place.
     let label = orElse (pp_label dto) (pl_label place);
         name = keptOr (pp_name dto) (pl_name place) in
     andThen (assertNamed label name)
     (andThen (onlyIf (label \<noteq> pl_label place \<and> label \<in> set SINGLETON_LABELS)
        (deletePlaces (\<lambda>q. pl_userId q = userId \<and> pl_label q = label \<and> pl_id q \<noteq> i)))
     (andThen (updatePlaces (\<lambda>q. pl_id q = i) (\<lambda>q. q\<lparr>pl_label := label, pl_name := placeName label name,
        pl_address := orElse (map_option trim (pp_address dto)) (pl_address q),
        pl_lat := orElse (pp_lat dto) (pl_lat q), pl_lng := orElse (pp_lng dto) (pl_lng q)\<rparr>))
     (return i))))"

definition removePlace :: "string \<Rightarrow> string \<Rightarrow> unit op" where
  "removePlace userId i = bind (findOwned userId i) (\<lambda>_. deletePlaces (\<lambda>q. pl_id q = i))"

section \<open>Recent places\<close>

record recentPlace =
  re_address :: string
  re_lat :: rat
  re_lng :: rat
  re_lastUsedAt :: instant

definition recentRides :: "string \<Rightarrow> db \<Rightarrow> recentPlace list" where
  "recentRides userId s = map (\<lambda>r. \<lparr>re_address = rd_dropoffAddress r, re_lat = rd_dropoffLat r, re_lng = rd_dropoffLng r,
       re_lastUsedAt = rd_requestedAt r\<rparr>)
     (take RECENT_SCAN_DEPTH (rev (sort_key rd_requestedAt (filter (\<lambda>r. rd_riderId r = userId) (rides s)))))"

definition recentStops :: "string \<Rightarrow> db \<Rightarrow> recentPlace list" where
  "recentStops userId s = take RECENT_SCAN_DEPTH (concat (map (\<lambda>d.
       map (\<lambda>st. \<lparr>re_address = st_address st, re_lat = st_lat st, re_lng = st_lng st, re_lastUsedAt = dv_requestedAt d\<rparr>)
         (filter (\<lambda>st. st_deliveryId st = dv_id d) (deliveryStops s)))
     (rev (sort_key dv_requestedAt (filter (\<lambda>d. dv_senderId d = userId) (deliveries s))))))"

definition placeKey :: "recentPlace \<Rightarrow> string" where
  "placeKey p = toLowerCase (trim (re_address p))"

text \<open>The loop: the first place of every key, at most ten.\<close>

fun pickRecent :: "string list \<Rightarrow> nat \<Rightarrow> recentPlace list \<Rightarrow> recentPlace list" where
  "pickRecent seen left [] = []"
| "pickRecent seen left (p # ps) =
     (if placeKey p \<in> set seen then pickRecent seen left ps
      else if left \<le> 1 then [p] else p # pickRecent (placeKey p # seen) (left - 1) ps)"

definition recentPlaces :: "string \<Rightarrow> recentPlace list op" where
  "recentPlaces userId = gets (\<lambda>s.
     pickRecent [] RECENT_PLACES_LIMIT (sort_key (\<lambda>p. - re_lastUsedAt p) (recentRides userId s @ recentStops userId s)))"

section \<open>Vehicles\<close>

record vehicleDto =
  vd_make :: string
  vd_model :: string
  vd_color :: string
  vd_plateNumber :: string
  vd_year :: "int option"
  vd_photoUrl :: "string option"

definition getVehicle :: "string \<Rightarrow> driverVehicle option op" where
  "getVehicle driverId = gets (\<lambda>s. List.find (\<lambda>v. vh_driverId v = driverId) (driverVehicles s))"

definition vehicleData :: "vehicleDto \<Rightarrow> driverVehicle \<Rightarrow> driverVehicle" where
  "vehicleData dto v = v\<lparr>vh_make := trim (vd_make dto), vh_model := trim (vd_model dto), vh_color := trim (vd_color dto),
     vh_plateNumber := vd_plateNumber dto, vh_year := vd_year dto, vh_photoUrl := vd_photoUrl dto\<rparr>"

definition upsertVehicle :: "string \<Rightarrow> vehicleDto \<Rightarrow> unit op" where
  "upsertVehicle driverId dto =
     bind (gets (\<lambda>s. List.find (\<lambda>v. vh_plateNumber v = vd_plateNumber dto) (driverVehicles s))) (\<lambda>plateOwner.
     andThen (ensure (case plateOwner of None \<Rightarrow> True | Some v \<Rightarrow> vh_driverId v = driverId)
        (ConflictException ''This plate number is registered to another driver''))
     (bind (getVehicle driverId) (\<lambda>existing.
      if existing \<noteq> None
      then modify (\<lambda>s. s\<lparr>driverVehicles := updateWhere (\<lambda>v. vh_driverId v = driverId) (vehicleData dto) (driverVehicles s)\<rparr>)
      else bind freshId (\<lambda>i. modify (\<lambda>s. s\<lparr>driverVehicles := driverVehicles s @
        [vehicleData dto \<lparr>vh_id = i, vh_driverId = driverId, vh_make = [], vh_model = [], vh_color = [], vh_plateNumber = [],
           vh_year = None, vh_photoUrl = None\<rparr>]\<rparr>)))))"

section \<open>Driver cards\<close>

record driverCard =
  dc_id :: string
  dc_firstName :: string
  dc_lastName :: string
  dc_phone :: string
  dc_profilePhotoUrl :: "string option"
  dc_rating :: "rat option"
  dc_ratingCount :: nat
  dc_tripCount :: nat
  dc_vehicle :: "driverVehicle option"

definition ratingsOf :: "db \<Rightarrow> string \<Rightarrow> int list" where
  "ratingsOf s driverId = map rr_rating (filter (\<lambda>q. \<exists>r \<in> set (rides s). rd_id r = rr_rideId q \<and> rd_driverId r = Some driverId)
     (rideRatings s))"

text \<open>\<open>Math.round(avg * 10) / 10\<close>.\<close>

definition oneDecimal :: "rat \<Rightarrow> rat" where
  "oneDecimal x = of_int \<lfloor>x * 10 + 1 / 2\<rfloor> / 10"

definition driverCardOf :: "db \<Rightarrow> user \<Rightarrow> driverCard" where
  "driverCardOf s u = (let rs = ratingsOf s (usr_id u) in
     \<lparr>dc_id = usr_id u, dc_firstName = usr_firstName u, dc_lastName = usr_lastName u, dc_phone = usr_phone u,
      dc_profilePhotoUrl = usr_profilePhotoUrl u,
      dc_rating = (if rs = [] then None else Some (oneDecimal (of_int (sum_list rs) / of_nat (length rs)))),
      dc_ratingCount = length rs,
      dc_tripCount = countWhere (\<lambda>r. rd_driverId r = Some (usr_id u) \<and> rd_status r = RideStatus.COMPLETED) (rides s)
        + countWhere (\<lambda>d. dv_driverId d = Some (usr_id u) \<and> dv_status d = DeliveryStatus.COMPLETED) (deliveries s),
      dc_vehicle = List.find (\<lambda>v. vh_driverId v = usr_id u) (driverVehicles s)\<rparr>)"

definition getDriverCards :: "string list \<Rightarrow> driverCard list op" where
  "getDriverCards driverIds = gets (\<lambda>s. map (driverCardOf s) (filter (\<lambda>u. usr_id u \<in> set driverIds) (users s)))"

definition getDriverCard :: "string \<Rightarrow> driverCard op" where
  "getDriverCard driverId =
     bind (getDriverCards [driverId]) (\<lambda>cards.
     orThrow (List.find (\<lambda>c. dc_id c = driverId) cards) (NotFoundException ''Driver not found''))"

section \<open>Profiles\<close>

definition getProfile :: "string \<Rightarrow> user op" where
  "getProfile userId = bind (findUser (\<lambda>u. usr_id u = userId)) (\<lambda>found. orThrow found (NotFoundException ''User not found''))"

definition changeUser :: "string \<Rightarrow> (user \<Rightarrow> user) \<Rightarrow> user op" where
  "changeUser userId f = andThen (setUser userId f) (bind (findUser (\<lambda>u. usr_id u = userId)) (\<lambda>found. orThrow found RecordNotFound))"

definition updateProfile :: "string \<Rightarrow> string option \<Rightarrow> string option \<Rightarrow> string option \<Rightarrow> PreferredLanguage option \<Rightarrow> user op" where
  "updateProfile userId firstName lastName photoUrl lang =
     changeUser userId (\<lambda>u. u\<lparr>usr_firstName := orElse firstName (usr_firstName u), usr_lastName := orElse lastName (usr_lastName u),
       usr_profilePhotoUrl := keptOr photoUrl (usr_profilePhotoUrl u), usr_preferredLanguage := orElse lang (usr_preferredLanguage u)\<rparr>)"

definition setNextOfKin :: "(string \<Rightarrow> string option) \<Rightarrow> string \<Rightarrow> string \<Rightarrow> string \<Rightarrow> user op" where
  "setNextOfKin toE164 userId fullName phone =
     bind (orThrow (toE164 phone) (InternalError ''ParseError'')) (\<lambda>e164.
     changeUser userId (\<lambda>u. u\<lparr>usr_nextOfKinName := Some (trim fullName), usr_nextOfKinPhone := Some e164\<rparr>))"

definition clearNextOfKin :: "string \<Rightarrow> user op" where
  "clearNextOfKin userId = changeUser userId (\<lambda>u. u\<lparr>usr_nextOfKinName := None, usr_nextOfKinPhone := None\<rparr>)"

text \<open>\<open>publicBase.replace(/\/$/, '')\<close> drops one trailing slash.\<close>

definition dropTrailingSlash :: "string \<Rightarrow> string" where
  "dropTrailingSlash b = (if b \<noteq> [] \<and> last b = CHR ''/'' then butlast b else b)"

definition setAvatar :: "clients \<Rightarrow> string option \<Rightarrow> string \<Rightarrow> string \<Rightarrow> string op" where
  "setAvatar cl publicBase userId file =
     bind freshId (\<lambda>r.
     let key = ''avatars/'' @ userId @ ''/'' @ r @ ''-'' @ file in
     andThen (uploadObject cl key)
     (bind (if truthy publicBase then return (dropTrailingSlash (the publicBase) @ ''/'' @ key)
            else getSignedReadUrl cl key (7 * 24 * 60 * 60)) (\<lambda>url.
      andThen (setUser userId (\<lambda>u. u\<lparr>usr_profilePhotoUrl := Some url\<rparr>)) (return url))))"

end
