(* ===== verification/PartnerProps.thy ===== *)
theory PartnerProps
  imports Partners
begin

text \<open>
  The loop of \<open>generateCode\<close> in src/partnerships/referrals.service.ts: it ends after at most five draws, with
  the first unused code or with the error of the database.
\<close>

section \<open>Codes\<close>

definition codeFree :: "db \<Rightarrow> string \<Rightarrow> bool" where
  "codeFree s code \<longleftrightarrow> code \<notin> rc_code ` set (referralCodes s)"

text \<open>The first of the five attempts that draws an unused code.\<close>

definition firstFree :: "(nat \<Rightarrow> nat list) \<Rightarrow> db \<Rightarrow> nat option" where
  "firstFree draws s = List.find (\<lambda>j. codeFree s (generateRandomCode (draws j))) [0..<5]"

definition codeRow :: "db \<Rightarrow> string \<Rightarrow> string \<Rightarrow> referralCode" where
  "codeRow s userId code = \<lparr>rc_id = uuids s (uuidsUsed s), rc_userId = userId, rc_code = code\<rparr>"

lemma insertCode_run:
  assumes "userId \<notin> rc_userId ` set (referralCodes s)"
  shows "insertCode userId code s = (if codeFree s code
    then (Inr (codeRow s userId code), s\<lparr>uuidsUsed := Suc (uuidsUsed s), referralCodes := referralCodes s @ [codeRow s userId code]\<rparr>)
    else (Inl UniqueViolation, s))"
proof -
  have "(List.find (\<lambda>c. rc_userId c = userId \<or> rc_code c = code) (referralCodes s) = None) = codeFree s code"
    using assms by (auto simp: find_None_iff codeFree_def)
  then show ?thesis by (simp add: insertCode_def codeRow_def run_simps Let_def bind_def freshId_def modify_def return_def)
qed

lemma generateRandomCode_chars: "set (generateRandomCode xs) \<subseteq> set CODE_CHARS"
proof -
  have "CODE_CHARS ! (n mod length CODE_CHARS) \<in> set CODE_CHARS" for n
    by (intro nth_mem mod_less_divisor) (simp add: CODE_CHARS_def)
  then show ?thesis by (auto simp: generateRandomCode_def)
qed

lemma generateRandomCode_length: "8 \<le> length xs \<Longrightarrow> length (generateRandomCode xs) = 8"
  by (simp add: generateRandomCode_def CODE_LENGTH_def)

text \<open>C37: making a referral code ends: for a user without one, after at most five draws, the first drawn
  code that nobody has is stored for the user and returned, with eight characters of the unambiguous
  alphabet; when all five are taken the database's unique violation is thrown and nothing is stored.\<close>

theorem referral_code_found:
  assumes "userId \<notin> rc_userId ` set (referralCodes s)" and "\<forall>j. 8 \<le> length (draws j)"
  shows "case firstFree draws s of
      None \<Rightarrow> generateCode draws userId s = (Inl UniqueViolation, s)
    | Some j \<Rightarrow> (let c = codeRow s userId (generateRandomCode (draws j)) in
        generateCode draws userId s = (Inr c, s\<lparr>uuidsUsed := Suc (uuidsUsed s), referralCodes := referralCodes s @ [c]\<rparr>)
        \<and> codeFree s (rc_code c) \<and> length (rc_code c) = 8 \<and> set (rc_code c) \<subseteq> set CODE_CHARS)"
proof -
  have "List.find (\<lambda>c. rc_userId c = userId) (referralCodes s) = None" using assms(1) by (auto simp: find_None_iff)
  then have run: "generateCode draws userId s = tryCodes userId 0 draws 5 s" by (simp add: generateCode_def run_simps)
  have five: "[0..<5] = [0, 1, 2, 3, 4]" by code_simp
  note steps = tryCatch_def insertCode_run [OF assms(1)] throw_def numeral_eq_Suc
  show ?thesis
    using assms(2) generateRandomCode_length
    by (simp add: run firstFree_def five steps codeRow_def generateRandomCode_chars Let_def)
qed

lemma referral_code_found_witness:
  "fst (generateCode (\<lambda>j. replicate 8 j) ''u2'' (snd (generateCode (\<lambda>j. replicate 8 j) ''u1'' emptyDb)))
     = Inr \<lparr>rc_id = ''u'', rc_userId = ''u2'', rc_code = ''BBBBBBBB''\<rparr>"
proof -
  let ?s = "snd (generateCode (\<lambda>j. replicate 8 j) ''u1'' emptyDb)"
  have c: "''u2'' \<notin> rc_userId ` set (referralCodes ?s)" "firstFree (\<lambda>j. replicate 8 j) ?s = Some 1"
    "codeRow ?s ''u2'' (generateRandomCode (replicate 8 1)) = \<lparr>rc_id = ''u'', rc_userId = ''u2'', rc_code = ''BBBBBBBB''\<rparr>"
    by code_simp+
  have "fst (generateCode (\<lambda>j. replicate 8 j) ''u2'' ?s) = Inr (codeRow ?s ''u2'' (generateRandomCode (replicate 8 1)))"
    using referral_code_found [OF c(1), of "\<lambda>j. replicate 8 j"] unfolding c(2) Let_def by simp
  then show ?thesis unfolding c(3) .
qed

end
