(* ===== verification/ExportProps.thy ===== *)
theory ExportProps
  imports Exports
begin

text \<open>
  The CSV file of an export document (src/common/export/export.util.ts, src/common/utils/csv.util.ts),
  read back by the reader of \<open>Csv\<close>.
\<close>

section \<open>The rows of the file\<close>

lemma update_new: "k \<notin> fst ` set al \<Longrightarrow> AList.update k v al = al @ [(k, v)]"
  by (induction al) auto

lemma fold_update_new:
  "distinct (map h cols) \<Longrightarrow> h ` set cols \<inter> fst ` set al = {} \<Longrightarrow>
   fold (\<lambda>c. AList.update (h c) (g c)) cols al = al @ map (\<lambda>c. (h c, g c)) cols"
proof (induction cols arbitrary: al)
  case (Cons c cols)
  then show ?case using Cons.IH [of "al @ [(h c, g c)]"] by (auto simp: update_new)
qed simp

lemma csvRow_distinct:
  "distinct (map ec_header cols) \<Longrightarrow> csvRow parseDate show cols r = map (\<lambda>c. (ec_header c, csvCell parseDate show c r)) cols"
  unfolding csvRow_def by (subst fold_update_new) simp_all

lemma cellAt_csvRow:
  "distinct (map ec_header cols) \<Longrightarrow> c \<in> set cols \<Longrightarrow>
   cellAt (csvRow parseDate show cols r) (ec_header c) = csvCell parseDate show c r"
proof -
  assume d: "distinct (map ec_header cols)" and c: "c \<in> set cols"
  have "map_of (map (\<lambda>c. (ec_header c, csvCell parseDate show c r)) cols) (ec_header c) = Some (csvCell parseDate show c r)"
    using d c by (intro map_of_is_SomeI) (auto simp: o_def)
  then show ?thesis by (simp add: csvRow_distinct [OF d] cellAt_def)
qed

text \<open>A cell never starts a formula in a spreadsheet unless it is a number.\<close>

lemma plainText_safe: "formulaStart (plainText show (Txt x)) \<Longrightarrow> numberOf x \<noteq> NaN \<and> plainText show (Txt x) = x"
  by (auto simp: plainText_def formulaStart_def split: if_splits)

text \<open>C34: an exported CSV file says exactly what the report holds: reading the file (after its byte order mark) by
  the rules of the format gives the headers and then, for each row and in order, the value of each
  column, whatever commas, quotes and line breaks the values contain, and no text value that is not a
  number starts a spreadsheet formula.\<close>

theorem csv_export_reads_back:
  assumes "csvSectionOf doc = Some x" and "es_rows x \<noteq> []" and "es_columns x \<noteq> []"
    and "distinct (map ec_header (es_columns x))"
  shows "take 3 (renderCsv parseDate show doc) = BOM
    \<and> readCsv AtStart [] (drop 3 (renderCsv parseDate show doc)) =
        map (\<lambda>c. plainText show (Txt (ec_header c))) (es_columns x)
        # map (\<lambda>r. map (\<lambda>c. plainText show (csvCell parseDate show c r)) (es_columns x)) (es_rows x)
    \<and> (\<forall>text. formulaStart (plainText show (Txt text)) \<longrightarrow> numberOf text \<noteq> NaN)"
proof -
  let ?cols = "es_columns x" and ?row = "csvRow parseDate show (es_columns x)"
  have first: "hd (map ?row (es_rows x)) \<noteq> []" "map fst (hd (map ?row (es_rows x))) = map ec_header ?cols"
    using assms(2-4) by (cases "es_rows x"; simp add: csvRow_distinct)+
  have bom: "length BOM = 3" by (simp add: BOM_def)
  have "renderCsv parseDate show doc = BOM @ toCsv show (map ?row (es_rows x))"
    using assms(1,2) by (simp add: renderCsv_def)
  moreover have "readCsv AtStart [] (toCsv show (map ?row (es_rows x))) =
        map (\<lambda>c. plainText show (Txt (ec_header c))) ?cols
        # map (\<lambda>r. map (\<lambda>c. plainText show (csvCell parseDate show c r)) ?cols) (es_rows x)"
    using csv_reads_back [of "map ?row (es_rows x)" "show"] first assms(2,4) by (simp add: cellAt_csvRow o_def)
  ultimately show ?thesis using bom plainText_safe by auto
qed

definition exampleSection :: exportSection where
  "exampleSection = \<lparr>es_name = ''Riders'', es_columns = [column ''name'' ''Name'' None, column ''state'' ''State, now'' (Some ''status'')],
     es_rows = [[(''name'', Txt ''=Ada, \"A\"''), (''state'', Txt ''ON_TRIP'')], [(''name'', Missing), (''state'', Missing)]], es_truncatedFrom = None\<rparr>"

definition exampleDocument :: exportDocument where
  "exampleDocument = \<lparr>ed_title = ''Riders'', ed_generatedBy = ''Kilo Admin'', ed_period = None, ed_filters = None, ed_summary = [],
     ed_sections = [exampleSection], ed_csvSection = None\<rparr>"

lemma csv_export_reads_back_witness:
  "readCsv AtStart [] (drop 3 (renderCsv (\<lambda>_. None) (\<lambda>_. []) exampleDocument))
     = [[''Name'', ''State, now''], [CHR 0x27 # ''=Ada, \"A\"'', ''On trip''], [[], []]]"
proof -
  have c: "csvSectionOf exampleDocument = Some exampleSection" "es_rows exampleSection \<noteq> []" "es_columns exampleSection \<noteq> []"
    "distinct (map ec_header (es_columns exampleSection))" by code_simp+
  have "map (\<lambda>c. plainText (\<lambda>_. []) (Txt (ec_header c))) (es_columns exampleSection)
      # map (\<lambda>r. map (\<lambda>c. plainText (\<lambda>_. []) (csvCell (\<lambda>_. None) (\<lambda>_. []) c r)) (es_columns exampleSection)) (es_rows exampleSection)
      = [[''Name'', ''State, now''], [CHR 0x27 # ''=Ada, \"A\"'', ''On trip''], [[], []]]" by code_simp
  then show ?thesis using csv_export_reads_back [OF c, of "\<lambda>_. None" "\<lambda>_. []"] by simp
qed

end
