(* ===== verification/Merge.thy ===== *)
theory Merge
  imports Main
begin

text \<open>
  Merging sorted lists by a stable sort: the first \<open>w\<close> elements of the merge come from the first \<open>w\<close>
  elements of each list.  This is what a page over several tables relies on.
\<close>

lemma sorted_parts:
  fixes f :: "'a \<Rightarrow> 'k::linorder"
  shows "sorted (map f ys) \<Longrightarrow> ys = filter (\<lambda>x. f x < k) ys @ filter (\<lambda>x. f x = k) ys @ filter (\<lambda>x. k < f x) ys"
proof (induction ys)
  case (Cons y ys)
  have low: "\<forall>x \<in> set ys. f y \<le> f x" and tail: "ys = filter (\<lambda>x. f x < k) ys @ filter (\<lambda>x. f x = k) ys @ filter (\<lambda>x. k < f x) ys"
    using Cons by auto
  show ?case
  proof (cases "f y" k rule: linorder_cases)
    case less
    then have "f y \<noteq> k" "\<not> k < f y" by auto
    then show ?thesis using tail less by simp
  next
    case equal
    then have "filter (\<lambda>x. f x < k) ys = []" using low by (auto simp: filter_empty_conv)
    then show ?thesis using tail equal by simp
  next
    case greater
    then have k: "f y \<noteq> k" "\<not> f y < k" by auto
    have "filter (\<lambda>x. f x < k) ys = []" "filter (\<lambda>x. f x = k) ys = []" using low greater by (auto simp: filter_empty_conv)
    then show ?thesis using tail k greater by simp
  qed
qed simp

lemma sort_key_parts:
  fixes f :: "'a \<Rightarrow> 'k::linorder"
  shows "sort_key f xs = sort_key f (filter (\<lambda>x. f x < k) xs) @ filter (\<lambda>x. f x = k) xs @ sort_key f (filter (\<lambda>x. k < f x) xs)"
  using sorted_parts [OF sorted_sort_key [of f xs], of k] unfolding sort_key_stable by (simp add: filter_sort)

text \<open>An element with at least \<open>w\<close> elements before it that are not larger is not among the first \<open>w\<close>.\<close>

lemma sort_drop_one:
  fixes f :: "'a \<Rightarrow> 'k::linorder"
  assumes "w \<le> length (filter (\<lambda>x. f x \<le> f y) as)"
  shows "take w (sort_key f (as @ y # bs)) = take w (sort_key f (as @ bs))"
proof -
  let ?low = "sort_key f (filter (\<lambda>x. f x < f y) (as @ bs)) @ filter (\<lambda>x. f x = f y) as"
  have "length (filter (\<lambda>x. f x \<le> f y) as) = length (filter (\<lambda>x. f x < f y) as) + length (filter (\<lambda>x. f x = f y) as)"
    by (induction as) (auto simp: le_less)
  then have "w \<le> length ?low" using assms by simp
  moreover have "sort_key f (as @ y # bs) = ?low @ y # filter (\<lambda>x. f x = f y) bs @ sort_key f (filter (\<lambda>x. f y < f x) (as @ bs))"
    by (subst sort_key_parts [of _ _ "f y"]) simp
  moreover have "sort_key f (as @ bs) = ?low @ filter (\<lambda>x. f x = f y) bs @ sort_key f (filter (\<lambda>x. f y < f x) (as @ bs))"
    by (subst sort_key_parts [of _ _ "f y"]) simp
  ultimately show ?thesis by simp
qed

lemma sort_take_one:
  fixes f :: "'a \<Rightarrow> 'k::linorder"
  shows "sorted (map f ys) \<Longrightarrow> take w (sort_key f (as @ take w ys @ bs)) = take w (sort_key f (as @ ys @ bs))"
proof (induction ys rule: rev_induct)
  case (snoc y ys)
  have s: "sorted (map f ys)" and le: "\<forall>x \<in> set ys. f x \<le> f y" using snoc.prems by (auto simp: sorted_append)
  show ?case
  proof (cases "length ys < w")
    case False
    have "filter (\<lambda>x. f x \<le> f y) ys = ys" using le by (simp add: filter_id_conv)
    then have "take w (sort_key f ((as @ ys) @ y # bs)) = take w (sort_key f ((as @ ys) @ bs))"
      using False by (intro sort_drop_one) simp
    then show ?thesis using snoc.IH [OF s] False by simp
  qed simp
qed simp

theorem merge_window:
  fixes f :: "'a \<Rightarrow> 'k::linorder"
  assumes "\<forall>xs \<in> set tables. sorted (map f xs)"
  shows "take w (sort_key f (as @ concat (map (take w) tables))) = take w (sort_key f (as @ concat tables))"
  using assms
proof (induction tables arbitrary: as)
  case (Cons xs tables)
  have "take w (sort_key f (as @ take w xs @ concat (map (take w) tables))) = take w (sort_key f (as @ take w xs @ concat tables))"
    using Cons.IH [of "as @ take w xs"] Cons.prems by simp
  also have "\<dots> = take w (sort_key f (as @ xs @ concat tables))" using Cons.prems by (intro sort_take_one) simp
  finally show ?case by simp
qed simp

end
