(* ===== verification/History.thy ===== *)
theory History
  imports Places Numbers Payments Merge Paging
begin

text \<open>
  What a user sees of the past: the Activity tab, src/activity/activity.service.ts, which merges rides,
  deliveries and battery swaps page by page; WalletHistory has the wallet screen.  \<open>merge_window\<close> of Merge is the reason why the first skip + take rows of each table are enough for a page.
  \<open>publicId\<close> is the identifier the database generates.
\<close>

text \<open>The first part of an address; both services have this function.\<close>

definition shortAddress :: "string \<Rightarrow> string" where
  "shortAddress address = trim (hd (splitOn (CHR '','') address))"

section \<open>Activity\<close>

datatype ActivityKind = RideItem | DeliveryItem | SwapItem

datatype ActivityFilter = All | Rides | Deliveries | Kilowatts

fun want :: "ActivityFilter \<Rightarrow> ActivityKind \<Rightarrow> bool" where
  "want All k = True"
| "want Rides k = (k = RideItem)"
| "want Deliveries k = (k = DeliveryItem)"
| "want Kilowatts k = (k = SwapItem)"

definition ONGOING_RIDE :: "RideStatus list" where
  "ONGOING_RIDE = [RideStatus.REQUESTED, RideStatus.DISPATCHING, RideStatus.ACCEPTED, RideStatus.ARRIVED, RideStatus.IN_PROGRESS]"

definition ONGOING_DELIVERY :: "DeliveryStatus list" where
  "ONGOING_DELIVERY = [DeliveryStatus.SCHEDULED, DeliveryStatus.REQUESTED, DeliveryStatus.DISPATCHING, DeliveryStatus.ACCEPTED,
     DeliveryStatus.PICKED_UP]"

definition ONGOING_SWAP :: "BatterySwapReservationStatus list" where
  "ONGOING_SWAP = [CONFIRMED]"

datatype activityStatus = OfRide RideStatus | OfDelivery DeliveryStatus | OfSwap BatterySwapReservationStatus

record activityItem =
  ai_kind :: ActivityKind
  ai_id :: string
  ai_publicId :: string
  ai_title :: string
  ai_status :: activityStatus
  ai_amount :: "rat option"
  ai_paymentMethod :: RidePaymentMethod
  ai_createdAt :: instant
  ai_completedAt :: "instant option"
  ai_estimatedArrivalAt :: "instant option"
  ai_scheduledFor :: "instant option"
  ai_driverId :: "string option"
  ai_driver :: "driverCard option"

text \<open>\<open>started && minutes\<close>: zero minutes give no estimate.\<close>

definition arrivalAt :: "instant option \<Rightarrow> int option \<Rightarrow> instant option" where
  "arrivalAt started minutes = (case (started, minutes) of
     (Some t, Some m) \<Rightarrow> if m = 0 then None else Some (t + m * 60000) | _ \<Rightarrow> None)"

definition rideItem :: "(string \<Rightarrow> string) \<Rightarrow> ride \<Rightarrow> activityItem" where
  "rideItem publicId r = \<lparr>ai_kind = RideItem, ai_id = rd_id r, ai_publicId = publicId (rd_id r),
     ai_title = ''Ride to '' @ shortAddress (rd_dropoffAddress r), ai_status = OfRide (rd_status r),
     ai_amount = keptOr (rd_finalFare r) (rd_estimatedFare r), ai_paymentMethod = rd_paymentMethod r, ai_createdAt = rd_requestedAt r,
     ai_completedAt = rd_completedAt r, ai_estimatedArrivalAt = arrivalAt (rd_startedAt r) (rd_durationMinutes r),
     ai_scheduledFor = None, ai_driverId = rd_driverId r, ai_driver = None\<rparr>"

definition deliveryItem :: "(string \<Rightarrow> string) \<Rightarrow> delivery \<Rightarrow> activityItem" where
  "deliveryItem publicId d = \<lparr>ai_kind = DeliveryItem, ai_id = dv_id d, ai_publicId = publicId (dv_id d),
     ai_title = (if dv_serviceType d = DeliveryServiceType.FREIGHT then ''Freight'' else ''Package'') @ '' to '' @ dv_receiverName d,
     ai_status = OfDelivery (dv_status d), ai_amount = keptOr (dv_finalFare d) (dv_estimatedFare d),
     ai_paymentMethod = dv_paymentMethod d, ai_createdAt = dv_requestedAt d, ai_completedAt = dv_completedAt d,
     ai_estimatedArrivalAt = arrivalAt (dv_pickedUpAt d) (dv_durationMinutes d), ai_scheduledFor = dv_scheduledFor d,
     ai_driverId = dv_driverId d, ai_driver = None\<rparr>"

definition stationName :: "db \<Rightarrow> string \<Rightarrow> string" where
  "stationName s i = (case List.find (\<lambda>x. bs_id x = i) (swapStations s) of None \<Rightarrow> [] | Some x \<Rightarrow> bs_name x)"

definition swapItem :: "(string \<Rightarrow> string) \<Rightarrow> db \<Rightarrow> batterySwapReservation \<Rightarrow> activityItem" where
  "swapItem publicId s r = \<lparr>ai_kind = SwapItem, ai_id = br_id r, ai_publicId = publicId (br_id r),
     ai_title = ''Battery swap at '' @ stationName s (br_stationId r), ai_status = OfSwap (br_status r), ai_amount = Some (br_amount r),
     ai_paymentMethod = WALLET, ai_createdAt = br_createdAt r, ai_completedAt = None, ai_estimatedArrivalAt = None,
     ai_scheduledFor = None, ai_driverId = None, ai_driver = None\<rparr>"

text \<open>One table of the tab, newest first, at most \<open>limit\<close> rows.\<close>

definition newest :: "nat option \<Rightarrow> activityItem list \<Rightarrow> activityItem list" where
  "newest limit rows = (let ordered = rev (sort_key ai_createdAt rows) in case limit of None \<Rightarrow> ordered | Some n \<Rightarrow> take n ordered)"

definition phaseRides :: "(string \<Rightarrow> string) \<Rightarrow> string \<Rightarrow> bool \<Rightarrow> db \<Rightarrow> activityItem list" where
  "phaseRides publicId userId ongoing s =
     map (rideItem publicId) (filter (\<lambda>r. rd_riderId r = userId \<and> (rd_status r \<in> set ONGOING_RIDE) = ongoing) (rides s))"

definition phaseDeliveries :: "(string \<Rightarrow> string) \<Rightarrow> string \<Rightarrow> bool \<Rightarrow> db \<Rightarrow> activityItem list" where
  "phaseDeliveries publicId userId ongoing s =
     map (deliveryItem publicId) (filter (\<lambda>d. dv_senderId d = userId \<and> (dv_status d \<in> set ONGOING_DELIVERY) = ongoing) (deliveries s))"

definition phaseSwaps :: "(string \<Rightarrow> string) \<Rightarrow> string \<Rightarrow> bool \<Rightarrow> db \<Rightarrow> activityItem list" where
  "phaseSwaps publicId userId ongoing s =
     map (swapItem publicId s) (filter (\<lambda>r. br_userId r = userId \<and> (br_status r \<in> set ONGOING_SWAP) = ongoing) (swapReservations s))"

definition fetch :: "(string \<Rightarrow> string) \<Rightarrow> string \<Rightarrow> ActivityFilter \<Rightarrow> bool \<Rightarrow> nat option \<Rightarrow> db \<Rightarrow> activityItem list" where
  "fetch publicId userId f ongoing limit s =
     (if want f RideItem then newest limit (phaseRides publicId userId ongoing s) else [])
     @ (if want f DeliveryItem then newest limit (phaseDeliveries publicId userId ongoing s) else [])
     @ (if want f SwapItem then newest limit (phaseSwaps publicId userId ongoing s) else [])"

definition countPast :: "string \<Rightarrow> ActivityFilter \<Rightarrow> db \<Rightarrow> nat" where
  "countPast userId f s =
     (if want f RideItem then countWhere (\<lambda>r. rd_riderId r = userId \<and> rd_status r \<notin> set ONGOING_RIDE) (rides s) else 0)
     + (if want f DeliveryItem then countWhere (\<lambda>d. dv_senderId d = userId \<and> dv_status d \<notin> set ONGOING_DELIVERY) (deliveries s) else 0)
     + (if want f SwapItem then countWhere (\<lambda>r. br_userId r = userId \<and> br_status r \<notin> set ONGOING_SWAP) (swapReservations s) else 0)"

definition attachCard :: "driverCard list \<Rightarrow> activityItem \<Rightarrow> activityItem" where
  "attachCard cards i =
     i\<lparr>ai_driver := (if truthy (ai_driverId i) then List.find (\<lambda>c. dc_id c = the (ai_driverId i)) cards else None)\<rparr>"

definition attachDrivers :: "activityItem list \<Rightarrow> activityItem list op" where
  "attachDrivers items =
     bind (getDriverCards (filter (\<lambda>i. i \<noteq> []) (List.map_filter ai_driverId items))) (\<lambda>cards.
     return (map (attachCard cards) items))"

record activityPage =
  ap_ongoing :: "activityItem list"
  ap_items :: "activityItem list"
  ap_total :: nat
  ap_take :: nat
  ap_skip :: nat

definition pastWindow :: "nat \<Rightarrow> nat \<Rightarrow> activityItem list \<Rightarrow> activityItem list" where
  "pastWindow n skip past = take n (drop skip (sort_key (\<lambda>i. - ai_createdAt i) past))"

definition listActivity :: "(string \<Rightarrow> string) \<Rightarrow> string \<Rightarrow> ActivityFilter \<Rightarrow> nat \<Rightarrow> nat \<Rightarrow> activityPage op" where
  "listActivity publicId userId f n skip =
     bind (gets (\<lambda>s. (fetch publicId userId f True None s, fetch publicId userId f False (Some (skip + n)) s, countPast userId f s)))
       (\<lambda>(ongoing, past, found).
     bind (attachDrivers (ongoing @ pastWindow n skip past)) (\<lambda>withDrivers.
     return \<lparr>ap_ongoing = take (length ongoing) withDrivers, ap_items = drop (length ongoing) withDrivers, ap_total = found,
        ap_take = n, ap_skip = skip\<rparr>))"

section \<open>A window of each table is enough\<close>

definition wanted :: "(string \<Rightarrow> string) \<Rightarrow> string \<Rightarrow> ActivityFilter \<Rightarrow> db \<Rightarrow> activityItem list list" where
  "wanted publicId userId f s =
     (if want f RideItem then [newest None (phaseRides publicId userId False s)] else [])
     @ (if want f DeliveryItem then [newest None (phaseDeliveries publicId userId False s)] else [])
     @ (if want f SwapItem then [newest None (phaseSwaps publicId userId False s)] else [])"

lemma fetch_wanted:
  "fetch publicId userId f False (Some w) s = concat (map (take w) (wanted publicId userId f s))"
  "fetch publicId userId f False None s = concat (wanted publicId userId f s)"
  by (simp_all add: fetch_def wanted_def newest_def)

lemma newest_sorted: "sorted (map (\<lambda>i. - ai_createdAt i) (newest None rows))"
proof -
  have "sorted_wrt (\<ge>) (rev (map ai_createdAt (sort_key ai_createdAt rows)))"
    using sorted_sort_key [of ai_createdAt rows] by (simp add: sorted_wrt_rev)
  then show ?thesis by (simp add: newest_def rev_map sorted_wrt_map)
qed

lemma activity_window:
  "pastWindow n skip (fetch publicId userId f False (Some (skip + n)) s)
     = take n (drop skip (sort_key (\<lambda>i. - ai_createdAt i) (fetch publicId userId f False None s)))"
proof -
  have "\<forall>xs \<in> set (wanted publicId userId f s). sorted (map (\<lambda>i. - ai_createdAt i) xs)"
    by (auto simp: wanted_def newest_sorted)
  from merge_window [OF this, of "skip + n" "[]"]
  show ?thesis by (simp add: pastWindow_def fetch_wanted take_drop add.commute)
qed

lemma length_past: "length (fetch publicId userId f False None s) = countPast userId f s"
  by (simp add: fetch_def countPast_def newest_def phaseRides_def phaseDeliveries_def phaseSwaps_def countWhere_def)

end
