(* ===== verification/WalletHistory.thy ===== *)
theory WalletHistory
  imports History LedgerLaws Promo
begin

text \<open>
  The wallet screen, src/wallet/wallet-history.service.ts: the transactions that touched an account, each
  with its net effect on the account, a title and the booking it belongs to.  Text is the sequence of
  its UTF-8 bytes; \<open>publicId\<close> is the identifier the database generates.
\<close>

section \<open>Titles\<close>

datatype TransactionCategory = TOPUP | RIDE | DELIVERY | KILOWATT | REFERRAL | REFUND | WITHDRAWAL | COMMISSION | OTHER

text \<open>Two bullets, U+2022, in UTF-8.\<close>

definition bullets :: string where
  "bullets = [CHR 0xE2, CHR 0x80, CHR 0xA2, CHR 0xE2, CHR 0x80, CHR 0xA2]"

definition upperFirst :: "string \<Rightarrow> string" where
  "upperFirst s = (case s of [] \<Rightarrow> [] | c # r \<Rightarrow> toUpper c # r)"

definition paymentLabel :: "TopUpMethod \<Rightarrow> string option \<Rightarrow> string option \<Rightarrow> string" where
  "paymentLabel how last4 brand =
     (if how = BANK_TRANSFER then ''Bank transfer''
      else if \<not> truthy last4 then ''Debit card''
      else (if truthy brand then upperFirst (the brand) else ''Card'') @ '' '' @ bullets @ '' '' @ the last4)"

definition dropSuffix :: "string \<Rightarrow> string \<Rightarrow> string option" where
  "dropSuffix suffix s = (if suffix = drop (length s - length suffix) s then Some (take (length s - length suffix) s) else None)"

text \<open>The reference of the request behind a top-up transaction.\<close>

definition topupReference :: "string \<Rightarrow> string" where
  "topupReference r = (case dropSuffix '':credit'' r of Some x \<Rightarrow> x
     | None \<Rightarrow> (case dropSuffix '':settle'' r of Some x \<Rightarrow> x | None \<Rightarrow> r))"

definition uuidChar :: "char \<Rightarrow> bool" where
  "uuidChar c \<longleftrightarrow> (let n = (of_char c :: nat) in 48 \<le> n \<and> n \<le> 57 \<or> 97 \<le> n \<and> n \<le> 102 \<or> n = 45)"

text \<open>\<open>/^kind:([0-9a-f-]{36}):cancellation$/\<close>.\<close>

definition cancelledId :: "string \<Rightarrow> string \<Rightarrow> string option" where
  "cancelledId kind r =
     (let p = kind @ '':'' in
      if take (length p) r \<noteq> p then None
      else case dropSuffix '':cancellation'' (drop (length p) r) of
        Some i \<Rightarrow> if length i = 36 \<and> list_all uuidChar i then Some i else None
      | None \<Rightarrow> None)"

datatype related = TopupRef string | RideRef string string | DeliveryRef string string | SwapRef string string | TransactionRef string

record statementLine =
  wl_id :: string
  wl_publicId :: string
  wl_type :: TransactionType
  wl_status :: TransactionStatus
  wl_reference :: string
  wl_amount :: rat
  wl_direction :: LedgerDirection
  wl_signedAmount :: rat
  wl_currency :: string
  wl_createdAt :: instant
  wl_completedAt :: "instant option"
  wl_category :: TransactionCategory
  wl_title :: string
  wl_subtitle :: "string option"
  wl_related :: "related option"

fun typeTitle :: "TransactionType \<Rightarrow> string" where
  "typeTitle BUSINESS_DELIVERY_ACCRUAL = ''Business delivery accrual''"
| "typeTitle BUSINESS_INVOICE_PAYMENT = ''Business invoice payment''"
| "typeTitle TransactionType.PROMO_REDEMPTION = ''Promo redemption''"
| "typeTitle MANUAL_ADJUSTMENT = ''Manual adjustment''"
| "typeTitle _ = []"

section \<open>Lines\<close>

text \<open>Credits add, debits subtract.\<close>

definition netOf :: "ledgerEntry list \<Rightarrow> rat" where
  "netOf entries = fold (\<lambda>e x. if le_direction e = CREDIT then x + le_amount e else x - le_amount e) entries 0"

definition rideOf :: "db \<Rightarrow> transaction \<Rightarrow> ride option" where
  "rideOf s t = List.find (\<lambda>r. rd_transactionId r = Some (tx_id t)) (rev (rides s))"

definition deliveryOf :: "db \<Rightarrow> transaction \<Rightarrow> delivery option" where
  "deliveryOf s t = List.find (\<lambda>d. dv_transactionId d = Some (tx_id t)) (rev (deliveries s))"

definition swapOf :: "db \<Rightarrow> transaction \<Rightarrow> batterySwapReservation option" where
  "swapOf s t = List.find (\<lambda>r. br_transactionId r = Some (tx_id t)) (rev (swapReservations s))"

definition topupOf :: "db \<Rightarrow> transaction \<Rightarrow> topUpRequest option" where
  "topupOf s t = List.find (\<lambda>q. tu_reference q = topupReference (tx_reference t)) (topUpRequests s)"

definition cancelledRide :: "db \<Rightarrow> transaction \<Rightarrow> string option" where
  "cancelledRide s t = Option.bind (cancelledId ''ride'' (tx_reference t)) (\<lambda>i. map_option rd_id (List.find (\<lambda>r. rd_id r = i) (rides s)))"

definition cancelledDelivery :: "db \<Rightarrow> transaction \<Rightarrow> string option" where
  "cancelledDelivery s t = Option.bind (cancelledId ''delivery'' (tx_reference t)) (\<lambda>i. map_option dv_id (List.find (\<lambda>d. dv_id d = i) (deliveries s)))"

definition wording :: "(string \<Rightarrow> string) \<Rightarrow> db \<Rightarrow> transaction \<Rightarrow> TransactionCategory \<times> string \<times> string option \<times> related option" where
  "wording publicId s t =
     (case tx_type t of
        WALLET_TOPUP \<Rightarrow> (TOPUP, ''Wallet top-up'',
          map_option (\<lambda>q. paymentLabel (tu_method q) (tu_cardLast4 q) (tu_cardBrand q)) (topupOf s t),
          map_option (\<lambda>q. TopupRef (tu_reference q)) (topupOf s t))
      | KILOWATT_PAYMENT \<Rightarrow> (TransactionCategory.KILOWATT,
          (case swapOf s t of None \<Rightarrow> ''Kilowatt payment'' | Some r \<Rightarrow> ''Battery swap at '' @ stationName s (br_stationId r)),
          Some ''Wallet'', map_option (\<lambda>r. SwapRef (br_id r) (publicId (br_id r))) (swapOf s t))
      | REFERRAL_PAYOUT \<Rightarrow> (REFERRAL, ''Referral bonus'', None, None)
      | TransactionType.REFUND \<Rightarrow> (TransactionCategory.REFUND, ''Refund'', None,
          (if truthy (tx_reversesTransactionId t) then Some (TransactionRef (the (tx_reversesTransactionId t))) else None))
      | WALLET_WITHDRAWAL \<Rightarrow> (WITHDRAWAL, ''Withdrawal'', Some ''Bank transfer'', None)
      | COMMISSION_SETTLEMENT \<Rightarrow> (COMMISSION, ''Commission settlement'', None, None)
      | _ \<Rightarrow>
        (if tx_type t \<in> {RIDE_PAYMENT_WALLET, RIDE_PAYMENT_CASH} then
           (TransactionCategory.RIDE,
            (case rideOf s t of Some r \<Rightarrow> ''Ride to '' @ shortAddress (rd_dropoffAddress r)
             | None \<Rightarrow> if cancelledRide s t \<noteq> None then ''Ride cancellation fee'' else ''Ride payment''),
            Some ''Wallet'',
            (case rideOf s t of Some r \<Rightarrow> Some (RideRef (rd_id r) (publicId (rd_id r)))
             | None \<Rightarrow> map_option (\<lambda>i. RideRef i (publicId i)) (cancelledRide s t)))
         else if tx_type t \<in> {DELIVERY_PAYMENT_WALLET, DELIVERY_PAYMENT_CASH} then
           (TransactionCategory.DELIVERY,
            (case deliveryOf s t of Some d \<Rightarrow> ''Package delivery to '' @ dv_receiverName d
             | None \<Rightarrow> if cancelledDelivery s t \<noteq> None then ''Delivery cancellation fee'' else ''Delivery payment''),
            Some ''Wallet'',
            (case deliveryOf s t of Some d \<Rightarrow> Some (DeliveryRef (dv_id d) (publicId (dv_id d)))
             | None \<Rightarrow> map_option (\<lambda>i. DeliveryRef i (publicId i)) (cancelledDelivery s t)))
         else (TransactionCategory.OTHER, typeTitle (tx_type t), None, None)))"

definition describe :: "(string \<Rightarrow> string) \<Rightarrow> db \<Rightarrow> transaction \<Rightarrow> statementLine" where
  "describe publicId s t =
     (let net = netOf (tx_entries t) in case wording publicId s t of (category, title, subtitle, rel) \<Rightarrow>
      \<lparr>wl_id = tx_id t, wl_publicId = publicId (tx_id t), wl_type = tx_type t, wl_status = tx_status t, wl_reference = tx_reference t,
       wl_amount = \<bar>net\<bar>, wl_direction = (if net < 0 then DEBIT else CREDIT), wl_signedAmount = net, wl_currency = tx_currency t,
       wl_createdAt = tx_createdAt t, wl_completedAt = tx_completedAt t, wl_category = category, wl_title = title,
       wl_subtitle = subtitle, wl_related = rel\<rparr>)"

section \<open>Queries\<close>

text \<open>The transactions with an entry on the account, each with those entries only.\<close>

definition accountTransactions :: "db \<Rightarrow> string \<Rightarrow> transaction list" where
  "accountTransactions s accountId =
     map (\<lambda>t. t\<lparr>tx_entries := filter (\<lambda>e. le_accountId e = accountId) (tx_entries t)\<rparr>)
       (filter (\<lambda>t. \<exists>e \<in> set (tx_entries t). le_accountId e = accountId) (transactions s))"

definition listForAccount :: "(string \<Rightarrow> string) \<Rightarrow> string \<Rightarrow> nat \<Rightarrow> nat \<Rightarrow> statementLine list op" where
  "listForAccount publicId accountId n skip =
     gets (\<lambda>s. map (describe publicId s) (take n (drop skip (rev (accountTransactions s accountId)))))"

definition getForAccount :: "(string \<Rightarrow> string) \<Rightarrow> string \<Rightarrow> string \<Rightarrow> statementLine op" where
  "getForAccount publicId accountId transactionId =
     bind (gets (\<lambda>s. List.find (\<lambda>t. tx_id t = transactionId) (accountTransactions s accountId))) (\<lambda>found.
     bind (orThrow found (NotFoundException ''Transaction not found'')) (\<lambda>t. gets (\<lambda>s. describe publicId s t)))"

section \<open>The lines of an account add up\<close>

lemma netOf_lineNet: "netOf (filter (\<lambda>e. le_accountId e = i) es) = lineNet es i"
proof -
  have "fold (\<lambda>e x. if le_direction e = CREDIT then x + le_amount e else x - le_amount e) (filter (\<lambda>e. le_accountId e = i) es) y
      = y + lineNet es i" for y
    proof (induction es arbitrary: y)
    case (Cons e es)
    then show ?case by (cases "le_direction e") (auto simp: lineNet_def)
  qed (simp add: lineNet_def)
  then show ?thesis by (simp add: netOf_def)
qed

end
