(* ===== verification/HistoryProps.thy ===== *)
theory HistoryProps
  imports WalletHistory WalletProps
begin

text \<open>
  What a user sees of the past is all of it: the pages of the Activity tab are the merged tables, cut, and the
  lines of the wallet screen add up to the balance shown above them.
\<close>

section \<open>Activity\<close>

definition activityItems :: "(string \<Rightarrow> string) \<Rightarrow> string \<Rightarrow> ActivityFilter \<Rightarrow> nat \<Rightarrow> nat \<Rightarrow> db \<Rightarrow> activityItem list" where
  "activityItems publicId userId f n skip s =
     (case fst (listActivity publicId userId f n skip s) of Inl _ \<Rightarrow> [] | Inr p \<Rightarrow> ap_items p)"

definition bare :: "activityItem \<Rightarrow> activityItem" where
  "bare i = i\<lparr>ai_driver := None\<rparr>"

lemma bare_attach: "bare (attachCard cards i) = bare i"
  by (simp add: bare_def attachCard_def)

lemma bare_fetch: "i \<in> set (fetch publicId userId f ongoing None s) \<Longrightarrow> bare i = i"
  by (auto simp: fetch_def newest_def phaseRides_def phaseDeliveries_def phaseSwaps_def rideItem_def deliveryItem_def
      swapItem_def bare_def split: if_splits)

lemma listActivity_run:
  "\<exists>cards. listActivity publicId userId f n skip s =
     (let ongoing = fetch publicId userId f True None s;
          past = take n (drop skip (sort_key (\<lambda>i. - ai_createdAt i) (fetch publicId userId f False None s))) in
      (Inr \<lparr>ap_ongoing = map (attachCard cards) ongoing, ap_items = map (attachCard cards) past, ap_total = countPast userId f s,
            ap_take = n, ap_skip = skip\<rparr>, s))"
  by (auto simp: listActivity_def attachDrivers_def getDriverCards_def run_simps Let_def activity_window)

lemma activityItems_bare:
  "map bare (activityItems publicId userId f n skip s)
     = take n (drop skip (sort_key (\<lambda>i. - ai_createdAt i) (fetch publicId userId f False None s)))"
proof -
  let ?past = "sort_key (\<lambda>i. - ai_createdAt i) (fetch publicId userId f False None s)"
  have "\<exists>cards. activityItems publicId userId f n skip s = map (attachCard cards) (take n (drop skip ?past))"
    using listActivity_run [of publicId userId f n skip s] by (elim exE, intro exI) (simp only: activityItems_def Let_def fst_conv sum.case activityPage.simps)
  then obtain cards where "activityItems publicId userId f n skip s = map (attachCard cards) (take n (drop skip ?past))" ..
  moreover have "bare i = i" if "i \<in> set (take n (drop skip ?past))" for i
    using bare_fetch [of i] that by (auto dest!: in_set_takeD in_set_dropD)
  ultimately show ?thesis by (simp add: bare_attach o_def map_idI)
qed

text \<open>C32: the pages of the Activity tab show the whole past exactly once: although each page reads only the first
  rows of each table, the pages of any size, put together, are all past rides, deliveries and battery
  swaps that the filter wants, newest first, and the number each page announces is how many there are.\<close>

theorem activity_pages:
  assumes "0 < n" and "countPast userId f s \<le> k * n"
  shows "concat (map (\<lambda>j. map bare (activityItems publicId userId f n (j * n) s)) [0..<k])
      = sort_key (\<lambda>i. - ai_createdAt i) (fetch publicId userId f False None s)
    \<and> (\<exists>p. listActivity publicId userId f n skip s = (Inr p, s) \<and> ap_total p = length (fetch publicId userId f False None s)
         \<and> map bare (ap_ongoing p) = fetch publicId userId f True None s)"
proof -
  obtain cards where run: "listActivity publicId userId f n skip s =
     (let ongoing = fetch publicId userId f True None s;
          past = take n (drop skip (sort_key (\<lambda>i. - ai_createdAt i) (fetch publicId userId f False None s))) in
      (Inr \<lparr>ap_ongoing = map (attachCard cards) ongoing, ap_items = map (attachCard cards) past, ap_total = countPast userId f s,
            ap_take = n, ap_skip = skip\<rparr>, s))"
    using listActivity_run [of publicId userId f n skip s] by (elim exE)
  have "map bare (map (attachCard cards) (fetch publicId userId f True None s)) = fetch publicId userId f True None s"
    using bare_fetch by (simp add: bare_attach o_def map_idI)
  then show ?thesis
  using concat_chunks [OF assms(1), of "sort_key (\<lambda>i. - ai_createdAt i) (fetch publicId userId f False None s)" k] assms(2)
  by (simp add: activityItems_bare length_past run Let_def)
qed

section \<open>The wallet screen\<close>

definition statementPage :: "(string \<Rightarrow> string) \<Rightarrow> string \<Rightarrow> nat \<Rightarrow> nat \<Rightarrow> db \<Rightarrow> statementLine list" where
  "statementPage publicId accountId n skip s =
     (case fst (listForAccount publicId accountId n skip s) of Inl _ \<Rightarrow> [] | Inr ls \<Rightarrow> ls)"

lemma statementPage_chunk:
  "statementPage publicId accountId n skip s
     = take n (drop skip (map (describe publicId s) (rev (accountTransactions s accountId))))"
  by (simp add: statementPage_def listForAccount_def gets_def take_map drop_map)

lemma describe_amounts:
  "wl_signedAmount (describe publicId s t) = netOf (tx_entries t)"
  "wl_amount (describe publicId s t) = \<bar>netOf (tx_entries t)\<bar>"
  "wl_direction (describe publicId s t) = (if netOf (tx_entries t) < 0 then DEBIT else CREDIT)"
  by (simp_all add: describe_def Let_def split: prod.split)

lemma posted_touching:
  "sum_list (map (\<lambda>t. netOf (tx_entries t)) (rev (accountTransactions s i))) = postedOn (transactions s) i"
proof -
  have none: "lineNet es i = 0" if "\<not> (\<exists>e \<in> set es. le_accountId e = i)" for es
    using that by (induction es) (auto simp: lineNet_def)
  have "sum_list (map (\<lambda>t. lineNet (tx_entries t) i) (filter (\<lambda>t. \<exists>e \<in> set (tx_entries t). le_accountId e = i) ts))
      = postedOn ts i" for ts
    by (induction ts) (auto simp: postedOn_def none)
  then show ?thesis by (simp add: accountTransactions_def netOf_lineNet o_def rev_map [symmetric] sum_list_rev)
qed

text \<open>C31: the wallet screen explains the balance: on a sound ledger the signed amounts of all lines of all its pages
  sum to the balance of the account, and each line's unsigned amount and direction give its signed amount.\<close>

theorem statement_explains_balance:
  assumes "ledgerOk s" and "a \<in> set (accounts s)" and "0 < n"
    and "length (accountTransactions s (acc_id a)) \<le> k * n"
    and "ls = concat (map (\<lambda>j. statementPage publicId (acc_id a) n (j * n) s) [0..<k])"
  shows "sum_list (map wl_signedAmount ls) = acc_balance a
    \<and> (\<forall>l \<in> set ls. 0 \<le> wl_amount l \<and> wl_signedAmount l = (if wl_direction l = CREDIT then wl_amount l else - wl_amount l))"
proof -
  have "ls = map (describe publicId s) (rev (accountTransactions s (acc_id a)))"
    unfolding assms(5) statementPage_chunk by (rule concat_chunks [OF assms(3)]) (use assms(4) in simp)
  then show ?thesis using assms(1,2) by (auto simp: describe_amounts o_def posted_touching ledgerOk_def reconciled_def)
qed

lemma statement_explains_balance_witness:
  "\<exists>a \<in> set (accounts (runHistory exampleHistory seededDb)). acc_balance a = 40
     \<and> sum_list (map wl_signedAmount (concat (map (\<lambda>j. statementPage id (acc_id a) 1 (j * 1) (runHistory exampleHistory seededDb)) [0..<2]))) = 40"
proof -
  let ?s = "runHistory exampleHistory seededDb"
  let ?a = "hd (filter (\<lambda>a. acc_ownerId a = Some ''r'') (accounts ?s))"
  have c: "?a \<in> set (accounts ?s)" "length (accountTransactions ?s (acc_id ?a)) \<le> 2 * 1" "acc_balance ?a = 40" by code_simp+
  have "ledgerOk ?s" by (rule ledgerOk_runHistory [OF ledgerOk_seededDb exampleHistory_valid])
  from statement_explains_balance [OF this c(1) zero_less_one c(2) refl] show ?thesis using c(1,3) by auto
qed

definition pastDb :: db where
  "pastDb = emptyDb\<lparr>swapReservations := map (\<lambda>i. \<lparr>br_id = i, br_userId = ''r'', br_stationId = ''st'', br_status = BatterySwapReservationStatus.COMPLETED, br_amount = 100, br_transactionId = None, br_createdAt = int (length i)\<rparr>) [''a'', ''bcd'', ''ef'']\<rparr>"

lemma activity_pages_witness:
  "map ai_id (concat (map (\<lambda>j. map bare (activityItems id ''r'' All 2 (j * 2) pastDb)) [0..<2])) = [''bcd'', ''ef'', ''a'']"
proof -
  have "countPast ''r'' All pastDb \<le> 2 * 2" by code_simp
  moreover have "map ai_id (sort_key (\<lambda>i. - ai_createdAt i) (fetch id ''r'' All False None pastDb)) = [''bcd'', ''ef'', ''a'']" by code_simp
  ultimately show ?thesis using activity_pages [of 2 "''r''" All pastDb 2 id] by simp
qed

end
