(* ===== verification/Idempotency.thy ===== *)
theory Idempotency
  imports Schema
begin

text \<open>
  The interceptor of the payment endpoints, src/common/interceptors/idempotency.interceptor.ts.  The
  handler it wraps is the argument \<open>handler\<close>, an operation that returns the response body as JSON text;
  \<open>hashToken\<close> is SHA-256.  The write of the key after a success is best effort: \<open>stored\<close> says whether
  it went through.
\<close>

definition IDEMPOTENCY_KEY_TTL_MS :: int where "IDEMPOTENCY_KEY_TTL_MS = 24 * 60 * 60 * 1000"

definition findKey :: "string \<Rightarrow> idempotencyKey option op" where
  "findKey key = gets (\<lambda>s. List.find (\<lambda>k. ik_key k = key) (idempotencyKeys s))"

definition upsertKey :: "string \<Rightarrow> string \<Rightarrow> string \<Rightarrow> unit op" where
  "upsertKey key requestHash responseBody =
     bind (findKey key) (\<lambda>found.
     modify (\<lambda>s. let k = \<lparr>ik_key = key, ik_requestHash = requestHash, ik_responseBody = responseBody,
                          ik_expiresAt = now s + IDEMPOTENCY_KEY_TTL_MS\<rparr> in
       if found = None then s\<lparr>idempotencyKeys := idempotencyKeys s @ [k]\<rparr>
       else s\<lparr>idempotencyKeys := updateWhere (\<lambda>r. ik_key r = key) (\<lambda>_. k) (idempotencyKeys s)\<rparr>))"

definition intercept :: "(string \<Rightarrow> string) \<Rightarrow> bool \<Rightarrow> string option \<Rightarrow> string \<Rightarrow> string op \<Rightarrow> string op" where
  "intercept hashToken stored header body handler =
     andThen (ensure (truthy header) (BadRequestException ''Idempotency-Key header is required''))
     (let key = the header; requestHash = hashToken body in
      bind (findKey key) (\<lambda>existing.
      bind (gets now) (\<lambda>t.
      if (case existing of None \<Rightarrow> False | Some k \<Rightarrow> t < ik_expiresAt k)
      then andThen (ensure (ik_requestHash (the existing) = requestHash)
             (ConflictException ''Idempotency-Key was already used with a different request body''))
           (return (ik_responseBody (the existing)))
      else bind handler (\<lambda>response. andThen (onlyIf stored (upsertKey key requestHash response)) (return response)))))"

end
