(* ===== verification/Routes.thy ===== *)
theory Routes
  imports Staff Numbers
begin

text \<open>
  What NestJS does with the decorators of a controller, as far as the source relies on it: an endpoint
  has a verb, a path pattern, guards that run in order (src/common/guards), roles and permission keys
  that the guards read, checks at the top of its handler, and the service method it calls with where
  each argument comes from.  \<open>jwt\<close> is the check of a bearer token by the JWT strategy
  (src/accounts/strategies/jwt.strategy.ts): its claims, or \<open>None\<close>.
\<close>

section \<open>Endpoints\<close>

record jwtPayload =
  jp_sub :: string
  jp_role :: UserRole
  jp_phone :: string
  jp_sid :: "string option"

datatype verb = GET | POST | PUT | PATCH | DELETE

datatype guard = JwtAuthGuard | OptionalJwtAuthGuard | RolesGuard | PermissionsGuard

text \<open>
  Where an argument of the service call comes from: the claims of the caller, a path parameter, the
  body, the query, an uploaded file, the connection, or a constant.  \<open>CallerSide\<close> is the side of a trip
  that the role of the caller stands for, \<open>CallerWallet\<close> the wallet account of the caller.
\<close>

datatype source = CallerId | CallerIdIfAny | CallerRole | CallerSession | CallerSide | CallerWallet
  | PathParam string | WholeBody | Field string | FieldOr string nat | WholeQuery | QueryField string | QueryOr string nat
  | Uploaded | ClientInfo | Fixed string

datatype check = RoleIs UserRole string | CallerIsPath string string | DriverIsPath string string | SignedBody

record endpoint =
  hn_verb :: verb
  hn_path :: string
  hn_name :: string
  hn_calls :: string
  hn_args :: "source list"
  hn_guards :: "guard list"
  hn_roles :: "UserRole list option"
  hn_permissions :: "string list option"
  hn_limit :: "nat option"
  hn_idempotent :: bool
  hn_uploading :: bool
  hn_status :: nat
  hn_checks :: "check list"
  hn_export :: "string option"

record controller =
  ct_prefix :: string
  ct_guards :: "guard list"
  ct_roles :: "UserRole list"
  ct_permissions :: "string list"
  ct_endpoints :: "endpoint list"

text \<open>The default rate limit is 100 requests a minute (src/app.module.ts); \<open>hn_limit = None\<close> skips the throttler.\<close>

definition DEFAULT_LIMIT :: nat where "DEFAULT_LIMIT = 100"

definition handler :: "verb \<Rightarrow> string \<Rightarrow> string \<Rightarrow> string \<Rightarrow> source list \<Rightarrow> endpoint" where
  "handler v path name service args =
     \<lparr>hn_verb = v, hn_path = path, hn_name = name, hn_calls = service, hn_args = args, hn_guards = [], hn_roles = None,
      hn_permissions = None, hn_limit = Some DEFAULT_LIMIT, hn_idempotent = False, hn_uploading = False,
      hn_status = (if v = POST then 201 else 200), hn_checks = [], hn_export = None\<rparr>"

definition guarded :: "guard list \<Rightarrow> endpoint \<Rightarrow> endpoint" where "guarded gs h = h\<lparr>hn_guards := gs\<rparr>"
definition forRoles :: "UserRole list \<Rightarrow> endpoint \<Rightarrow> endpoint" where "forRoles rs h = h\<lparr>hn_roles := Some rs\<rparr>"
definition requiring :: "string list \<Rightarrow> endpoint \<Rightarrow> endpoint" where "requiring ks h = h\<lparr>hn_permissions := Some ks\<rparr>"
definition throttled :: "nat \<Rightarrow> endpoint \<Rightarrow> endpoint" where "throttled n h = h\<lparr>hn_limit := Some n\<rparr>"
definition unthrottled :: "endpoint \<Rightarrow> endpoint" where "unthrottled h = h\<lparr>hn_limit := None\<rparr>"
definition idempotent :: "endpoint \<Rightarrow> endpoint" where "idempotent h = h\<lparr>hn_idempotent := True\<rparr>"
definition uploading :: "endpoint \<Rightarrow> endpoint" where "uploading h = h\<lparr>hn_uploading := True\<rparr>"
definition answering :: "nat \<Rightarrow> endpoint \<Rightarrow> endpoint" where "answering n h = h\<lparr>hn_status := n\<rparr>"
definition afterChecks :: "check list \<Rightarrow> endpoint \<Rightarrow> endpoint" where "afterChecks cs h = h\<lparr>hn_checks := cs\<rparr>"
definition exporting :: "string \<Rightarrow> endpoint \<Rightarrow> endpoint" where "exporting base h = h\<lparr>hn_export := Some base\<rparr>"

definition controllerAt :: "string \<Rightarrow> guard list \<Rightarrow> UserRole list \<Rightarrow> string list \<Rightarrow> endpoint list \<Rightarrow> controller" where
  "controllerAt prefix gs rs ks hs =
     \<lparr>ct_prefix = prefix, ct_guards = gs, ct_roles = rs, ct_permissions = ks, ct_endpoints = hs\<rparr>"

section \<open>Paths\<close>

definition segments :: "string \<Rightarrow> string list" where
  "segments path = filter (\<lambda>x. x \<noteq> []) (splitOn (CHR ''/'') path)"

definition isParam :: "string \<Rightarrow> bool" where
  "isParam seg \<longleftrightarrow> seg \<noteq> [] \<and> hd seg = CHR '':''"

text \<open>The global prefix of src/main.ts and the routes it leaves alone.\<close>

definition unprefixed :: "string list list" where
  "unprefixed = [[''health''], [''track'', '':trackingToken''], [''track'', '':trackingToken'', ''otp'', ''verify''],
     [''track'', ''ride'', '':shareToken'']]"

definition prefixed :: "string list \<Rightarrow> string list" where
  "prefixed p = (if p \<in> set unprefixed then p else [''api'', ''v1''] @ p)"

text \<open>
  Matching a path to a pattern and binding its parameters is the router's work: the functions \<open>matcher\<close> and
  \<open>binder\<close> below.  For patterns without wildcards, the only ones in the source, its documentation says:
  segment by segment, literals without regard to case, a parameter any segment.
\<close>

fun matches :: "string list \<Rightarrow> string list \<Rightarrow> bool" where
  "matches [] [] = True"
| "matches (a # p) (x # path) = ((isParam a \<or> toLowerCase a = toLowerCase x) \<and> matches p path)"
| "matches _ _ = False"

fun pathParams :: "string list \<Rightarrow> string list \<Rightarrow> (string \<times> string) list" where
  "pathParams (a # p) (x # path) = (if isParam a then (tl a, x) # pathParams p path else pathParams p path)"
| "pathParams _ _ = []"

text \<open>
  An endpoint with the decorators of its class: \<open>reflector.getAllAndOverride\<close> takes those of the handler,
  else those of the class; the guards of the class run first.
\<close>

record route =
  rt_pattern :: "string list"
  rt_guards :: "guard list"
  rt_roles :: "UserRole list"
  rt_permissions :: "string list"
  rt_endpoint :: endpoint

definition routeFor :: "controller \<Rightarrow> endpoint \<Rightarrow> route" where
  "routeFor c h =
     \<lparr>rt_pattern = segments (ct_prefix c) @ segments (hn_path h), rt_guards = ct_guards c @ hn_guards h,
      rt_roles = orElse (hn_roles h) (ct_roles c), rt_permissions = orElse (hn_permissions h) (ct_permissions c),
      rt_endpoint = h\<rparr>"

definition routesOf :: "controller \<Rightarrow> route list" where
  "routesOf c = map (routeFor c) (ct_endpoints c)"

text \<open>The first registered route of the verb whose pattern fits the path handles the request.\<close>

definition resolve :: "(string list \<Rightarrow> string list \<Rightarrow> bool) \<Rightarrow> route list \<Rightarrow> verb \<Rightarrow> string list \<Rightarrow> route option" where
  "resolve matcher rs v path = List.find (\<lambda>r. hn_verb (rt_endpoint r) = v \<and> matcher (prefixed (rt_pattern r)) path) rs"

section \<open>Guards\<close>

record httpRequest =
  rq_verb :: verb
  rq_path :: "string list"
  rq_token :: "string option"
  rq_signed :: bool

text \<open>The guards in order; the result is \<open>request.user\<close>.\<close>

fun runGuards :: "(string \<Rightarrow> jwtPayload option) \<Rightarrow> UserRole list \<Rightarrow> string list \<Rightarrow> string option \<Rightarrow> guard list
    \<Rightarrow> jwtPayload option \<Rightarrow> jwtPayload option op" where
  "runGuards jwt roles keys token [] user = return user"
| "runGuards jwt roles keys token (JwtAuthGuard # gs) user =
     bind (orThrow (Option.bind token jwt) (UnauthorizedException ''Unauthorized'')) (\<lambda>p.
     runGuards jwt roles keys token gs (Some p))"
| "runGuards jwt roles keys token (OptionalJwtAuthGuard # gs) user =
     runGuards jwt roles keys token gs (Option.bind token jwt)"
| "runGuards jwt roles keys token (RolesGuard # gs) user =
     bind (rolesGuard roles (map_option jp_role user)) (\<lambda>_. runGuards jwt roles keys token gs user)"
| "runGuards jwt roles keys token (PermissionsGuard # gs) user =
     bind (permissionsGuard keys (map_option (\<lambda>p. (jp_sub p, jp_role p)) user)) (\<lambda>_. runGuards jwt roles keys token gs user)"

fun runCheck :: "jwtPayload option \<Rightarrow> (string \<times> string) list \<Rightarrow> bool \<Rightarrow> check \<Rightarrow> unit op" where
  "runCheck user ps signed (RoleIs r m) = ensure (map_option jp_role user = Some r) (ForbiddenException m)"
| "runCheck user ps signed (CallerIsPath n m) = ensure (user \<noteq> None \<and> map_option jp_sub user = map_of ps n) (ForbiddenException m)"
| "runCheck user ps signed (DriverIsPath n m) =
     ensure (map_option jp_role user = Some UserRole.DRIVER \<and> map_option jp_sub user = map_of ps n) (ForbiddenException m)"
| "runCheck user ps signed SignedBody = ensure signed (UnauthorizedException ''Invalid Paystack signature'')"

text \<open>A request up to the service call: the user it runs for and its path parameters.\<close>

definition enter :: "(string \<Rightarrow> jwtPayload option) \<Rightarrow> (string list \<Rightarrow> string list \<Rightarrow> (string \<times> string) list) \<Rightarrow> route \<Rightarrow> httpRequest
    \<Rightarrow> (jwtPayload option \<times> (string \<times> string) list) op" where
  "enter jwt binder r rq =
     bind (runGuards jwt (rt_roles r) (rt_permissions r) (rq_token rq) (rt_guards r) None) (\<lambda>user.
     let ps = binder (prefixed (rt_pattern r)) (rq_path rq) in
     andThen (forEach (hn_checks (rt_endpoint r)) (runCheck user ps (rq_signed rq)))
     (return (user, ps)))"

section \<open>Laws\<close>

text \<open>Guards read; what they leave behind is the user they admit.\<close>

lemma rolesGuard_run: "rolesGuard required role s = (Inr b, t) \<Longrightarrow> t = s \<and> (required = [] \<or> (\<exists>r. role = Some r \<and> r \<in> set required))"
  by (auto simp: rolesGuard_def run_simps split: if_splits option.splits)

lemma permissionsGuard_run:
  "permissionsGuard required claimed s = (Inr b, t) \<Longrightarrow> t = s \<and> (required = [] \<or>
     (\<exists>u r. claimed = Some (u, r) \<and> (r = SUPER_ADMIN \<or> set required \<subseteq> set (permissionsOf s u))))"
  by (auto simp: permissionsGuard_def run_simps filter_empty_conv split: if_splits option.splits)

text \<open>What a guard of the list guarantees once all have run, when the token is read before the roles.\<close>

definition granted :: "(string \<Rightarrow> jwtPayload option) \<Rightarrow> UserRole list \<Rightarrow> string list \<Rightarrow> string option \<Rightarrow> db \<Rightarrow> jwtPayload option \<Rightarrow> guard \<Rightarrow> bool" where
  "granted jwt roles keys token s user g \<longleftrightarrow> (case g of
     JwtAuthGuard \<Rightarrow> user \<noteq> None \<and> user = Option.bind token jwt
   | OptionalJwtAuthGuard \<Rightarrow> True
   | RolesGuard \<Rightarrow> roles = [] \<or> (\<exists>p. user = Some p \<and> jp_role p \<in> set roles)
   | PermissionsGuard \<Rightarrow> keys = [] \<or> (\<exists>p. user = Some p \<and> (jp_role p = SUPER_ADMIN \<or> set keys \<subseteq> set (permissionsOf s (jp_sub p)))))"

lemma runGuards_without_token:
  "runGuards jwt roles keys token gs user s = (Inr u, t) \<Longrightarrow> set gs \<subseteq> {RolesGuard, PermissionsGuard} \<Longrightarrow>
   t = s \<and> u = user \<and> (\<forall>g \<in> set gs. granted jwt roles keys token s u g)"
proof (induction gs arbitrary: user)
  case (Cons g gs)
  show ?case
  proof (cases g)
    case RolesGuard
    then obtain b s' where step: "rolesGuard roles (map_option jp_role user) s = (Inr b, s')"
      "runGuards jwt roles keys token gs user s' = (Inr u, t)"
      using Cons.prems(1) by (auto simp: bind_def split: prod.splits sum.splits)
    then show ?thesis using rolesGuard_run [OF step(1)] Cons RolesGuard by (auto simp: granted_def)
  next
    case PermissionsGuard
    then obtain b s' where step: "permissionsGuard keys (map_option (\<lambda>p. (jp_sub p, jp_role p)) user) s = (Inr b, s')"
      "runGuards jwt roles keys token gs user s' = (Inr u, t)"
      using Cons.prems(1) by (auto simp: bind_def split: prod.splits sum.splits)
    then show ?thesis using permissionsGuard_run [OF step(1)] Cons PermissionsGuard by (auto simp: granted_def)
  qed (use Cons.prems(2) in auto)
qed (simp add: return_def)

lemma runGuards_after_token:
  assumes "runGuards jwt roles keys token (JwtAuthGuard # gs) user s = (Inr u, t)" and "set gs \<subseteq> {RolesGuard, PermissionsGuard}"
  shows "t = s \<and> (\<exists>i p. token = Some i \<and> jwt i = Some p \<and> u = Some p) \<and> (\<forall>g \<in> set gs. granted jwt roles keys token s u g)"
proof -
  obtain p where p: "Option.bind token jwt = Some p" "runGuards jwt roles keys token gs (Some p) s = (Inr u, t)"
    using assms(1) by (auto simp: run_simps split: option.splits)
  then show ?thesis using runGuards_without_token [OF p(2) assms(2)] by (auto simp: bind_eq_Some_conv)
qed

end
