(* ===== verification/Gateways.thy ===== *)
theory Gateways
  imports RideProps Routes
begin

text \<open>
  The two socket gateways, src/rides/gateways: drivers, who are told of offers
  (driver-offers.gateway.ts), and participants, who follow a ride or a delivery
  (ride-tracking.gateway.ts).  A gateway is the list of its connected sockets with the identity the
  server gave each and the rooms it joined; \<open>jwt\<close> is \<open>JwtService.jwt\<close>, \<open>None\<close> when it throws.
\<close>

section \<open>Sockets\<close>

record handshake =
  hs_token :: "string option"
  hs_authorization :: "string option"

record socket =
  so_id :: nat
  so_userId :: "string option"
  so_rooms :: "string list"

record gateways =
  gw_drivers :: "socket list"
  gw_tracking :: "socket list"

definition noSockets :: gateways where
  "noSockets = \<lparr>gw_drivers = [], gw_tracking = []\<rparr>"

definition stripBearer :: "string \<Rightarrow> string" where
  "stripBearer h = (if take 7 h = ''Bearer '' then drop 7 h else h)"

definition authenticateSocket :: "(string \<Rightarrow> jwtPayload option) \<Rightarrow> handshake \<Rightarrow> jwtPayload option" where
  "authenticateSocket jwt h =
     (let token = keptOr (hs_token h) (map_option stripBearer (hs_authorization h)) in
      if \<not> truthy token then None else jwt (the token))"

definition driverRoom :: "string \<Rightarrow> string" where "driverRoom driverId = ''driver:'' @ driverId"
definition rideRoom :: "string \<Rightarrow> string" where "rideRoom rideId = ''ride:'' @ rideId"
definition deliveryRoom :: "string \<Rightarrow> string" where "deliveryRoom deliveryId = ''delivery:'' @ deliveryId"

section \<open>Connecting and subscribing\<close>

text \<open>A socket that is disconnected leaves the list with its rooms.\<close>

definition connectDriver :: "(string \<Rightarrow> jwtPayload option) \<Rightarrow> nat \<Rightarrow> handshake \<Rightarrow> gateways \<Rightarrow> gateways" where
  "connectDriver jwt i h g =
     (case authenticateSocket jwt h of
        None \<Rightarrow> g
      | Some payload \<Rightarrow>
          if jp_role payload \<noteq> UserRole.DRIVER then g
          else g\<lparr>gw_drivers := gw_drivers g @ [\<lparr>so_id = i, so_userId = Some (jp_sub payload), so_rooms = [driverRoom (jp_sub payload)]\<rparr>]\<rparr>)"

definition connectTracking :: "(string \<Rightarrow> jwtPayload option) \<Rightarrow> nat \<Rightarrow> handshake \<Rightarrow> gateways \<Rightarrow> gateways" where
  "connectTracking jwt i h g =
     (case authenticateSocket jwt h of
        None \<Rightarrow> g
      | Some payload \<Rightarrow> g\<lparr>gw_tracking := gw_tracking g @ [\<lparr>so_id = i, so_userId = Some (jp_sub payload), so_rooms = []\<rparr>]\<rparr>)"

definition disconnect :: "nat \<Rightarrow> gateways \<Rightarrow> gateways" where
  "disconnect i g = g\<lparr>gw_drivers := filter (\<lambda>c. so_id c \<noteq> i) (gw_drivers g), gw_tracking := filter (\<lambda>c. so_id c \<noteq> i) (gw_tracking g)\<rparr>"

definition join_room :: "nat \<Rightarrow> string \<Rightarrow> gateways \<Rightarrow> gateways" where
  "join_room i room g = g\<lparr>gw_tracking := updateWhere (\<lambda>c. so_id c = i) (\<lambda>c. c\<lparr>so_rooms := so_rooms c @ [room]\<rparr>) (gw_tracking g)\<rparr>"

text \<open>The answer is an error text or the subscribed id; \<open>client\<close> is the socket the message came on.\<close>

definition handleSubscribe :: "db \<Rightarrow> socket \<Rightarrow> string option \<Rightarrow> gateways \<Rightarrow> (string + string) \<times> gateways" where
  "handleSubscribe s client rideId g =
     (if \<not> truthy (so_userId client) \<or> \<not> truthy rideId then (Inl ''Not authenticated or missing rideId'', g)
      else case List.find (\<lambda>r. rd_id r = the rideId) (rides s) of
        None \<Rightarrow> (Inl ''Not a participant on this ride'', g)
      | Some r \<Rightarrow>
          if rd_riderId r \<noteq> the (so_userId client) \<and> rd_driverId r \<noteq> so_userId client
          then (Inl ''Not a participant on this ride'', g)
          else (Inr (the rideId), join_room (so_id client) (rideRoom (the rideId)) g))"

definition handleSubscribeDelivery :: "db \<Rightarrow> socket \<Rightarrow> string option \<Rightarrow> gateways \<Rightarrow> (string + string) \<times> gateways" where
  "handleSubscribeDelivery s client deliveryId g =
     (if \<not> truthy (so_userId client) \<or> \<not> truthy deliveryId then (Inl ''Not authenticated or missing deliveryId'', g)
      else case List.find (\<lambda>d. dv_id d = the deliveryId) (deliveries s) of
        None \<Rightarrow> (Inl ''Not a participant on this delivery'', g)
      | Some d \<Rightarrow>
          if dv_senderId d \<noteq> the (so_userId client) \<and> dv_driverId d \<noteq> so_userId client
          then (Inl ''Not a participant on this delivery'', g)
          else (Inr (the deliveryId), join_room (so_id client) (deliveryRoom (the deliveryId)) g))"

section \<open>Emitting\<close>

text \<open>The namespace, room and event name of what the services emit.\<close>

fun driverEvent :: "effect \<Rightarrow> (string \<times> string) option" where
  "driverEvent (EmitOffer d i) = Some (driverRoom d, ''ride:offer'')"
| "driverEvent (EmitOfferTaken d i) = Some (driverRoom d, ''ride:offer:taken'')"
| "driverEvent (EmitOfferCancelled d i) = Some (driverRoom d, ''ride:offer:cancelled'')"
| "driverEvent (EmitDeliveryOffer d i) = Some (driverRoom d, ''delivery:offer'')"
| "driverEvent (EmitDeliveryOfferTaken d i) = Some (driverRoom d, ''delivery:offer:taken'')"
| "driverEvent (EmitDeliveryOfferCancelled d i) = Some (driverRoom d, ''delivery:offer:cancelled'')"
| "driverEvent _ = None"

fun trackingEvent :: "effect \<Rightarrow> (string \<times> string) option" where
  "trackingEvent (EmitRideLocation i lat lng) = Some (rideRoom i, ''location'')"
| "trackingEvent (EmitRideStatus i st) = Some (rideRoom i, ''status'')"
| "trackingEvent (EmitDeliveryLocation i lat lng) = Some (deliveryRoom i, ''delivery:location'')"
| "trackingEvent (EmitDeliveryStatus i st) = Some (deliveryRoom i, ''delivery:status'')"
| "trackingEvent _ = None"

definition inRoom :: "(string \<times> string) option \<Rightarrow> socket list \<Rightarrow> socket list" where
  "inRoom e cs = (case e of None \<Rightarrow> [] | Some (room, name) \<Rightarrow> filter (\<lambda>c. room \<in> set (so_rooms c)) cs)"

definition receivers :: "effect \<Rightarrow> gateways \<Rightarrow> socket list" where
  "receivers e g = inRoom (driverEvent e) (gw_drivers g) @ inRoom (trackingEvent e) (gw_tracking g)"

section \<open>Sockets and rides together\<close>

datatype socketEvent = ConnectDriver nat handshake | ConnectTracking nat handshake | Subscribe nat "string option"
  | SubscribeDelivery nat "string option" | Disconnect nat

datatype liveEvent = OnRide rideEvent | OnSocket socketEvent

fun socketStep :: "(string \<Rightarrow> jwtPayload option) \<Rightarrow> db \<Rightarrow> socketEvent \<Rightarrow> gateways \<Rightarrow> gateways" where
  "socketStep jwt s (ConnectDriver i h) g = connectDriver jwt i h g"
| "socketStep jwt s (ConnectTracking i h) g =
     (if \<exists>c \<in> set (gw_tracking g). so_id c = i then g else connectTracking jwt i h g)"
| "socketStep jwt s (Subscribe i rideId) g =
     (case List.find (\<lambda>c. so_id c = i) (gw_tracking g) of None \<Rightarrow> g | Some c \<Rightarrow> snd (handleSubscribe s c rideId g))"
| "socketStep jwt s (SubscribeDelivery i deliveryId) g =
     (case List.find (\<lambda>c. so_id c = i) (gw_tracking g) of None \<Rightarrow> g | Some c \<Rightarrow> snd (handleSubscribeDelivery s c deliveryId g))"
| "socketStep jwt s (Disconnect i) g = disconnect i g"

fun liveStep :: "world \<Rightarrow> (string \<Rightarrow> jwtPayload option) \<Rightarrow> liveEvent \<Rightarrow> db \<times> gateways \<Rightarrow> db \<times> gateways" where
  "liveStep w jwt (OnRide e) (s, g) = (snd (runRideEvent w e s), g)"
| "liveStep w jwt (OnSocket e) (s, g) = (s, socketStep jwt s e g)"

definition runLive :: "world \<Rightarrow> (string \<Rightarrow> jwtPayload option) \<Rightarrow> liveEvent list \<Rightarrow> db \<Rightarrow> db \<times> gateways" where
  "runLive w jwt es s = fold (liveStep w jwt) es (s, noSockets)"

section \<open>Who is in a room\<close>

definition isParticipant :: "db \<Rightarrow> string \<Rightarrow> string \<Rightarrow> bool" where
  "isParticipant s u i \<longleftrightarrow> (\<exists>r \<in> set (rides s). rd_id r = i \<and> (rd_riderId r = u \<or> rd_driverId r = Some u))"

definition knownDriver :: "(string \<Rightarrow> jwtPayload option) \<Rightarrow> string \<Rightarrow> bool" where
  "knownDriver jwt u \<longleftrightarrow> (\<exists>token p. jwt token = Some p \<and> jp_sub p = u \<and> jp_role p = UserRole.DRIVER)"

text \<open>The socket of a tracker is in the room of a ride only if its user takes part in it.\<close>

definition trackerOk :: "db \<Rightarrow> socket \<Rightarrow> bool" where
  "trackerOk s c \<longleftrightarrow> (\<forall>i. rideRoom i \<in> set (so_rooms c) \<longrightarrow> (\<exists>u. so_userId c = Some u \<and> isParticipant s u i))"

definition driverOk :: "(string \<Rightarrow> jwtPayload option) \<Rightarrow> socket \<Rightarrow> bool" where
  "driverOk jwt c \<longleftrightarrow> (\<exists>u. so_userId c = Some u \<and> so_rooms c = [driverRoom u] \<and> knownDriver jwt u)"

definition gatewaysOk :: "(string \<Rightarrow> jwtPayload option) \<Rightarrow> db \<Rightarrow> gateways \<Rightarrow> bool" where
  "gatewaysOk jwt s g \<longleftrightarrow> distinct (map so_id (gw_tracking g)) \<and> list_all (trackerOk s) (gw_tracking g)
     \<and> list_all (driverOk jwt) (gw_drivers g)"

lemma rooms_apart [simp]:
  "rideRoom i = rideRoom j \<longleftrightarrow> i = j" "driverRoom d = driverRoom e \<longleftrightarrow> d = e" "rideRoom i \<noteq> deliveryRoom k" "deliveryRoom k \<noteq> rideRoom i"
  by (simp_all add: rideRoom_def driverRoom_def deliveryRoom_def)

lemma isParticipant_advance:
  assumes "ridesAdvance s t" and "isParticipant s u i"
  shows "isParticipant t u i"
proof -
  obtain r where r: "r \<in> set (rides s)" "rd_id r = i" "rd_riderId r = u \<or> rd_driverId r = Some u"
    using assms(2) by (auto simp: isParticipant_def)
  obtain q where "q \<in> set (rides t)" "advances r q" using ridesAdvance_member [OF assms(1) r(1)] by blast
  then show ?thesis using r unfolding isParticipant_def advances_def by (intro bexI [of _ q]) auto
qed

lemma gatewaysOk_advance: "ridesAdvance s t \<Longrightarrow> gatewaysOk jwt s g \<Longrightarrow> gatewaysOk jwt t g"
  unfolding gatewaysOk_def trackerOk_def list_all_iff by (meson isParticipant_advance)

lemma gatewaysOk_join:
  assumes "gatewaysOk jwt s g" and "\<And>c. c \<in> set (gw_tracking g) \<Longrightarrow> so_id c = i \<Longrightarrow> trackerOk s (c\<lparr>so_rooms := so_rooms c @ [room]\<rparr>)"
  shows "gatewaysOk jwt s (join_room i room g)"
  using assms unfolding gatewaysOk_def join_room_def list_all_iff
  by (auto simp: map_updateWhere_same set_updateWhere split: if_splits)

lemma find_only: "distinct (map so_id cs) \<Longrightarrow> List.find (\<lambda>c. so_id c = i) cs = Some c \<Longrightarrow> d \<in> set cs \<Longrightarrow> so_id d = i \<Longrightarrow> d = c"
  by (metis find_key option.inject find_SomeD)

lemma handleSubscribe_joins:
  "snd (handleSubscribe s c rideId g) = g
   \<or> (\<exists>u j. so_userId c = Some u \<and> isParticipant s u j \<and> snd (handleSubscribe s c rideId g) = join_room (so_id c) (rideRoom j) g)"
proof (cases "truthy (so_userId c) \<and> truthy rideId")
  case True
  then obtain u j where uj: "so_userId c = Some u" "rideId = Some j" "u \<noteq> []" "j \<noteq> []" by (cases "so_userId c"; cases rideId) (auto simp: truthy_def)
  show ?thesis
  proof (cases "List.find (\<lambda>r. rd_id r = j) (rides s)")
    case (Some r)
    then have "r \<in> set (rides s)" "rd_id r = j" by (auto dest: find_SomeD)
    then show ?thesis using uj Some by (auto simp: handleSubscribe_def isParticipant_def)
  qed (use uj in \<open>simp add: handleSubscribe_def\<close>)
qed (auto simp: handleSubscribe_def)

lemma handleSubscribeDelivery_joins:
  "snd (handleSubscribeDelivery s c i g) = g \<or> (\<exists>j. snd (handleSubscribeDelivery s c i g) = join_room (so_id c) (deliveryRoom j) g)"
  by (auto simp: handleSubscribeDelivery_def split: option.split)

lemma socketStep_ok:
  assumes ok: "gatewaysOk jwt s g"
  shows "gatewaysOk jwt s (socketStep jwt s e g)"
proof (cases e)
  case (ConnectDriver i h)
  then show ?thesis using ok
    by (auto simp: connectDriver_def authenticateSocket_def gatewaysOk_def driverOk_def knownDriver_def Let_def split: option.splits if_splits)
next
  case (ConnectTracking i h)
  then show ?thesis using ok
    by (auto simp: connectTracking_def gatewaysOk_def trackerOk_def split: option.splits)
next
  case (Subscribe i rideId)
  show ?thesis
  proof (cases "List.find (\<lambda>c. so_id c = i) (gw_tracking g)")
    case (Some c)
    have c: "so_id c = i" "c \<in> set (gw_tracking g)" using find_SomeD [OF Some] by auto
    have "trackerOk s (c\<lparr>so_rooms := so_rooms c @ [rideRoom j]\<rparr>)"
      if "so_userId c = Some u" "isParticipant s u j" for u j
      using ok c(2) that by (auto simp: gatewaysOk_def list_all_iff trackerOk_def)
    moreover have "d = c" if "d \<in> set (gw_tracking g)" "so_id d = i" for d
      using find_only [OF _ Some that] ok by (simp add: gatewaysOk_def)
    ultimately have "gatewaysOk jwt s (join_room i (rideRoom j) g)" if "so_userId c = Some u" "isParticipant s u j" for u j
      using that by (intro gatewaysOk_join [OF ok]) blast
    then show ?thesis using handleSubscribe_joins [of s c rideId g] Some Subscribe ok c(1) by auto
  qed (simp add: Subscribe ok)
next
  case (SubscribeDelivery i deliveryId)
  show ?thesis
  proof (cases "List.find (\<lambda>c. so_id c = i) (gw_tracking g)")
    case (Some c)
    have "trackerOk s (d\<lparr>so_rooms := so_rooms d @ [deliveryRoom j]\<rparr>)" if "d \<in> set (gw_tracking g)" for d j
      using ok that by (auto simp: gatewaysOk_def list_all_iff trackerOk_def)
    then have "gatewaysOk jwt s (join_room (so_id c) (deliveryRoom j) g)" for j
      by (intro gatewaysOk_join [OF ok]) blast
    then show ?thesis using handleSubscribeDelivery_joins [of s c deliveryId g] Some SubscribeDelivery ok by auto
  qed (simp add: SubscribeDelivery ok)
next
  case (Disconnect i)
  then show ?thesis using ok by (auto simp: disconnect_def gatewaysOk_def list_all_iff distinct_map_filter)
qed

lemma runLive_ok:
  assumes "reachable w s"
  shows "gatewaysOk jwt (fst (runLive w jwt es s)) (snd (runLive w jwt es s))"
proof -
  have "ridesOk (fst (fold (liveStep w jwt) es (s, g))) \<and> gatewaysOk jwt (fst (fold (liveStep w jwt) es (s, g))) (snd (fold (liveStep w jwt) es (s, g)))"
    if "ridesOk s" "gatewaysOk jwt s g" for s g
    using that
  proof (induction es arbitrary: s g)
    case (Cons e es)
    show ?case
    proof (cases e)
      case (OnRide x)
      have step: "ridesOk (snd (runRideEvent w x s))" "ridesAdvance s (snd (runRideEvent w x s))"
        using event_progress [OF Cons.prems(1), of w x] by blast+
      show ?thesis using Cons.IH [OF step(1) gatewaysOk_advance [OF step(2) Cons.prems(2)]] OnRide by (simp del: runRideEvent.simps)
    next
      case (OnSocket x)
      then show ?thesis using Cons socketStep_ok by simp
    qed
  qed simp
  then show ?thesis using reachable_ridesOk [OF assms] by (simp add: runLive_def noSockets_def gatewaysOk_def)
qed

text \<open>C11: live tracking is private: whatever sockets connect, with whatever tokens, and subscribe, in
  whatever order with the operations on rides, the position and status of a ride reach only sockets
  authenticated as its rider or its driver, and an offer to a driver reaches only sockets
  authenticated as that driver.\<close>

theorem tracking_reaches_participants:
  assumes "reachable w s" and "runLive w jwt es s = (t, g)" and "c \<in> set (receivers e g)"
  shows "(\<forall>i lat lng st. e = EmitRideLocation i lat lng \<or> e = EmitRideStatus i st \<longrightarrow>
        (\<exists>u r. so_userId c = Some u \<and> r \<in> set (rides t) \<and> rd_id r = i \<and> (rd_riderId r = u \<or> rd_driverId r = Some u)))
    \<and> (\<forall>d i. e = EmitOffer d i \<or> e = EmitDeliveryOffer d i \<longrightarrow>
        so_userId c = Some d \<and> (\<exists>token p. jwt token = Some p \<and> jp_sub p = d \<and> jp_role p = UserRole.DRIVER))"
proof -
  have ok: "gatewaysOk jwt t g" using runLive_ok [OF assms(1), of jwt es] assms(2) by simp
  have "\<exists>u r. so_userId c = Some u \<and> r \<in> set (rides t) \<and> rd_id r = i \<and> (rd_riderId r = u \<or> rd_driverId r = Some u)" if "c \<in> set (gw_tracking g)" "rideRoom i \<in> set (so_rooms c)" for i
    using ok that unfolding gatewaysOk_def list_all_iff trackerOk_def isParticipant_def by blast
  moreover have "so_userId c = Some d \<and> knownDriver jwt d" if "c \<in> set (gw_drivers g)" "driverRoom d \<in> set (so_rooms c)" for d
    using ok that unfolding gatewaysOk_def list_all_iff driverOk_def by fastforce
  ultimately show ?thesis using assms(3)
    by (auto simp: receivers_def inRoom_def knownDriver_def)
qed

definition riderToken :: "string \<Rightarrow> jwtPayload option" where
  "riderToken token = (if token = ''t'' then Some \<lparr>jp_sub = ''rider'', jp_role = UserRole.RIDER, jp_phone = ''080'', jp_sid = None\<rparr> else None)"

definition followEvents :: "liveEvent list" where
  "followEvents = [OnSocket (ConnectTracking 0 \<lparr>hs_token = None, hs_authorization = Some ''Bearer t''\<rparr>),
     OnSocket (ConnectTracking 1 \<lparr>hs_token = Some ''x'', hs_authorization = None\<rparr>), OnSocket (Subscribe 0 (Some ''uuuuu''))]"

lemma tracking_reaches_participants_witness:
  "\<exists>c. receivers (EmitRideStatus ''uuuuu'' RideStatus.ACCEPTED) (snd (runLive noMaps riderToken followEvents bookedDb)) = [c]
     \<and> so_userId c = Some ''rider'' \<and> (\<exists>r \<in> set (rides bookedDb). rd_id r = ''uuuuu'' \<and> (rd_riderId r = ''rider'' \<or> rd_driverId r = Some ''rider''))"
proof -
  let ?c = "\<lparr>so_id = 0, so_userId = Some ''rider'', so_rooms = [rideRoom ''uuuuu'']\<rparr>"
  have run: "runLive noMaps riderToken followEvents bookedDb = (bookedDb, \<lparr>gw_drivers = [], gw_tracking = [?c]\<rparr>)"
    by (simp add: runLive_def followEvents_def noSockets_def connectTracking_def authenticateSocket_def stripBearer_def riderToken_def
        truthy_def keptOr_def Let_def handleSubscribe_def booked_rides join_room_def updateWhere_def)
  have c: "receivers (EmitRideStatus ''uuuuu'' RideStatus.ACCEPTED) \<lparr>gw_drivers = [], gw_tracking = [?c]\<rparr> = [?c]"
    by (simp add: receivers_def inRoom_def)
  from tracking_reaches_participants [OF booked_reachable(1) run, of ?c "EmitRideStatus ''uuuuu'' RideStatus.ACCEPTED"] c
  show ?thesis by (auto simp: run)
qed

end
