(* ===== verification/Integrations.thy ===== *)
theory Integrations
  imports Clients Payments Rides Numbers
begin

text \<open>
  The clients of outside services under src/integrations that Clients leaves: the Google maps calls
  (google-maps.service.ts), Paystack (paystack.service.ts), the Termii SMS client (sms.service.ts),
  the mail client (email/email.service.tsx) with the lines of a trip receipt (rides/trip.service.ts), and the verifiers of Google and Apple identity tokens with the sign-in that rests on them
  (accounts/social-auth.service.ts).  \<open>fetch\<close> is the network: the answer to a request, or the error
  it rejects with.  Parsed JSON is a record of the fields the code reads; an absent field is \<open>None\<close>.
\<close>

section \<open>Google maps\<close>

record matrixElement =
  me_status :: string
  me_distance :: rat
  me_duration :: rat

record matrixAnswer =
  ma_status :: string
  ma_rows :: "matrixElement list list"

definition firstElement :: "matrixAnswer \<Rightarrow> matrixElement option" where
  "firstElement json = (case ma_rows json of (e # _) # _ \<Rightarrow> Some e | _ \<Rightarrow> None)"

text \<open>Metres and seconds become kilometres and whole minutes, rounded up.\<close>

definition distanceMatrixCall :: "string option \<Rightarrow> (leg \<Rightarrow> error + matrixAnswer) \<Rightarrow> leg \<Rightarrow> error + rat \<times> int" where
  "distanceMatrixCall apiKey fetch l =
     (if \<not> truthy apiKey then Inl (ServiceUnavailableException ''Distance Matrix is not configured'')
      else case fetch l of Inl e \<Rightarrow> Inl e | Inr json \<Rightarrow>
        (case firstElement json of
           None \<Rightarrow> Inl (BadGatewayException (''Google Distance Matrix request failed: '' @ ma_status json))
         | Some e \<Rightarrow>
             if ma_status json \<noteq> ''OK'' \<or> me_status e \<noteq> ''OK''
             then Inl (BadGatewayException (''Google Distance Matrix request failed: '' @ me_status e))
             else Inr (me_distance e / 1000, \<lceil>me_duration e / 60\<rceil>)))"

text \<open>What \<open>getDistance\<close> of Rides is given: \<open>isConfigured\<close> decides.\<close>

definition matrixOf :: "string option \<Rightarrow> (leg \<Rightarrow> error + matrixAnswer) \<Rightarrow> distanceMatrix" where
  "matrixOf apiKey fetch = (if truthy apiKey then Some (distanceMatrixCall apiKey fetch) else None)"

text \<open>\<open>approximateRoadDistance\<close> of common/utils/haversine.util.ts over the great-circle distance \<open>haversine\<close>.\<close>

definition ROAD_DISTANCE_FACTOR :: rat where "ROAD_DISTANCE_FACTOR = 13 / 10"

definition ASSUMED_AVERAGE_SPEED_KMH :: rat where "ASSUMED_AVERAGE_SPEED_KMH = 30"

definition approximateRoadDistance :: "(leg \<Rightarrow> rat) \<Rightarrow> leg \<Rightarrow> rat \<times> int" where
  "approximateRoadDistance haversine l =
     (let km = haversine l * ROAD_DISTANCE_FACTOR in (km, \<lceil>km / ASSUMED_AVERAGE_SPEED_KMH * 60\<rceil>))"

record place =
  pa_placeId :: string
  pa_address :: string
  pa_lat :: rat
  pa_lng :: rat

record suggestion =
  su_description :: string
  su_placeId :: string

definition autocomplete :: "string option \<Rightarrow> (string \<Rightarrow> (rat \<times> rat) option \<Rightarrow> error + string \<times> suggestion list option)
    \<Rightarrow> string \<Rightarrow> (rat \<times> rat) option \<Rightarrow> error + suggestion list" where
  "autocomplete apiKey fetch query near =
     (if \<not> truthy apiKey then Inl (ServiceUnavailableException ''Address autocomplete is not configured'')
      else case fetch query near of Inl e \<Rightarrow> Inl e | Inr (status, predictions) \<Rightarrow>
        if status \<noteq> ''OK'' \<and> status \<noteq> ''ZERO_RESULTS''
        then Inl (BadGatewayException (''Google Places request failed: '' @ status))
        else Inr (orElse predictions []))"

text \<open>\<open>result\<close> is present with its geometry, or the call fails.\<close>

definition placeDetails :: "string option \<Rightarrow> (string \<Rightarrow> error + string \<times> place option) \<Rightarrow> string \<Rightarrow> error + place" where
  "placeDetails apiKey fetch placeId =
     (if \<not> truthy apiKey then Inl (ServiceUnavailableException ''Place lookup is not configured'')
      else case fetch placeId of Inl e \<Rightarrow> Inl e | Inr (status, found) \<Rightarrow>
        (case found of
           Some p \<Rightarrow> if status \<noteq> ''OK'' then Inl (BadGatewayException (''Google Place Details request failed: '' @ status)) else Inr p
         | None \<Rightarrow> Inl (BadGatewayException (''Google Place Details request failed: '' @ status))))"

definition reverseGeocode :: "string option \<Rightarrow> (rat \<Rightarrow> rat \<Rightarrow> error + string \<times> (string \<times> string) list option) \<Rightarrow> rat \<Rightarrow> rat
    \<Rightarrow> error + place option" where
  "reverseGeocode apiKey fetch lat lng =
     (if \<not> truthy apiKey then Inl (ServiceUnavailableException ''Reverse geocoding is not configured'')
      else case fetch lat lng of Inl e \<Rightarrow> Inl e | Inr (status, results) \<Rightarrow>
        if status = ''ZERO_RESULTS'' then Inr None
        else case orElse results [] of
          (i, a) # _ \<Rightarrow> if status \<noteq> ''OK'' then Inl (BadGatewayException (''Google Geocoding request failed: '' @ status))
              else Inr (Some \<lparr>pa_placeId = i, pa_address = a, pa_lat = lat, pa_lng = lng\<rparr>)
        | [] \<Rightarrow> Inl (BadGatewayException (''Google Geocoding request failed: '' @ status)))"

section \<open>Paystack\<close>

record 'a paystackResponse =
  pkr_ok :: bool
  pkr_statusText :: string
  pkr_status :: "bool option"
  pkr_message :: "string option"
  pkr_data :: 'a

definition request :: "string option \<Rightarrow> (error + 'a paystackResponse) \<Rightarrow> error + 'a" where
  "request secretKey fetched =
     (if \<not> truthy secretKey then Inl (ServiceUnavailableException ''Paystack is not configured'')
      else case fetched of Inl e \<Rightarrow> Inl e | Inr json \<Rightarrow>
        if \<not> pkr_ok json \<or> pkr_status json = Some False
        then Inl (BadGatewayException (''Paystack request failed: '' @ orElse (pkr_message json) (pkr_statusText json)))
        else Inr (pkr_data json))"

text \<open>\<open>hmac key body\<close> is the hexadecimal HMAC-SHA-512; \<open>timingSafeEqual\<close> of buffers of one length is equality.\<close>

definition verifyWebhookSignature :: "string option \<Rightarrow> (string \<Rightarrow> string \<Rightarrow> string) \<Rightarrow> string \<Rightarrow> string option \<Rightarrow> bool" where
  "verifyWebhookSignature secretKey hmac rawBody signature =
     (if \<not> truthy secretKey \<or> \<not> truthy signature then False
      else let expected = hmac (the secretKey) rawBody; given = the signature in
        if length expected \<noteq> length given then False else expected = given)"

record paystackBody =
  pb_email :: string
  pb_amount :: int
  pb_reference :: string
  pb_authorizationCode :: "string option"
  pb_accountExpiresAt :: "instant option"

text \<open>The requests of the record \<open>paystack\<close> of Payments, each the client's \<open>request\<close> over the network.\<close>

record paystackNet =
  pn_initialize :: "paystackBody \<Rightarrow> error + (string \<times> string) paystackResponse"
  pn_chargeAuthorization :: "paystackBody \<Rightarrow> error + (string \<times> string option) paystackResponse"
  pn_charge :: "paystackBody \<Rightarrow> error + bankCharge paystackResponse"
  pn_verify :: "string \<Rightarrow> error + verifiedTx paystackResponse"
  pn_resolve :: "string \<Rightarrow> string \<Rightarrow> error + string paystackResponse"
  pn_recipient :: "string \<Rightarrow> string \<Rightarrow> string \<Rightarrow> error + string paystackResponse"
  pn_transfer :: "int \<Rightarrow> string \<Rightarrow> string \<Rightarrow> error + string paystackResponse"

definition paystackClient :: "string option \<Rightarrow> paystackNet \<Rightarrow> string \<Rightarrow> paystack" where
  "paystackClient key net domain =
     \<lparr>pk_initializeTransaction = (\<lambda>email kobo reference. request key (pn_initialize net
        \<lparr>pb_email = email, pb_amount = kobo, pb_reference = reference, pb_authorizationCode = None, pb_accountExpiresAt = None\<rparr>)),
      pk_chargeAuthorization = (\<lambda>email kobo code reference. request key (pn_chargeAuthorization net
        \<lparr>pb_email = email, pb_amount = kobo, pb_reference = reference, pb_authorizationCode = Some code, pb_accountExpiresAt = None\<rparr>)),
      pk_chargeBankTransfer = (\<lambda>email kobo reference expiresAt. request key (pn_charge net
        \<lparr>pb_email = email, pb_amount = kobo, pb_reference = reference, pb_authorizationCode = None, pb_accountExpiresAt = Some expiresAt\<rparr>)),
      pk_verifyTransaction = (\<lambda>reference. request key (pn_verify net reference)),
      pk_resolveAccountNumber = (\<lambda>number bank. request key (pn_resolve net number bank)),
      pk_createTransferRecipient = (\<lambda>name number bank. request key (pn_recipient net name number bank)),
      pk_initiateTransfer = (\<lambda>kobo recipient reference. request key (pn_transfer net kobo recipient reference)),
      pk_fallbackDomain = domain\<rparr>"

section \<open>SMS\<close>

text \<open>Without an API key the message is only logged.\<close>

definition sendMessage :: "string option \<Rightarrow> (string \<Rightarrow> string \<Rightarrow> error + bool) \<Rightarrow> string \<Rightarrow> string \<Rightarrow> unit op" where
  "sendMessage apiKey fetch phone message =
     (if \<not> truthy apiKey then return ()
      else bind (answer (fetch phone message)) (\<lambda>ok.
        if ok then push (SmsMessage phone message) else throw (InternalError ''Failed to send SMS'')))"

definition sendOtpSms :: "string option \<Rightarrow> (string \<Rightarrow> string \<Rightarrow> error + bool) \<Rightarrow> string \<Rightarrow> string \<Rightarrow> unit op" where
  "sendOtpSms apiKey fetch phone code =
     sendMessage apiKey fetch phone (''Your Kilo verification code is '' @ code @ ''. It expires in 10 minutes.'')"

section \<open>E-mail\<close>

text \<open>The templates with their properties; \<open>render\<close> makes the HTML, \<open>attachments\<close> pairs a file name with its base64 content.\<close>

record receiptLine =
  rl_label :: string
  rl_value :: string
  rl_emphasis :: bool

record tripReceipt =
  tr_riderFirstName :: string
  tr_reference :: string
  tr_pickupAddress :: string
  tr_dropoffAddress :: string
  tr_completedAt :: string
  tr_lines :: "receiptLine list"

datatype template = VerificationCodeEmail string nat | PasswordResetLinkEmail string nat | StaffInviteEmail "string list" string nat
  | BusinessTeamInviteEmail string string nat | GuarantorInviteEmail string string nat | TripReceiptEmail tripReceipt

record mail =
  ml_from :: string
  ml_to :: string
  ml_subject :: string
  ml_html :: string
  ml_attachments :: "(string \<times> string) list option"

datatype sender = ForVerification | ForPasswordReset | ForInvite | ForGuarantor | ForReports | ForReceipts

fun FROM :: "sender \<Rightarrow> string" where
  "FROM ForVerification = ''Kilo <hello@mail.kilo.ng>''"
| "FROM ForPasswordReset = ''Kilo Security <security@mail.kilo.ng>''"
| "FROM ForInvite = ''Kilo Team <invites@mail.kilo.ng>''"
| "FROM ForGuarantor = ''Kilo <noreply@mail.kilo.ng>''"
| "FROM ForReports = ''Kilo Reports <reports@mail.kilo.ng>''"
| "FROM ForReceipts = ''Kilo Receipts <receipts@mail.kilo.ng>''"

record mailEnv =
  mv_apiKey :: "string option"
  mv_fromOverride :: "string option"
  mv_fetch :: "mail \<Rightarrow> error + bool"
  mv_render :: "template \<Rightarrow> string"

text \<open>\<open>None\<close>: without an API key the mail is only logged; else the mail that was sent.\<close>

definition dispatchMail :: "mailEnv \<Rightarrow> sender \<Rightarrow> string \<Rightarrow> string \<Rightarrow> string \<Rightarrow> (string \<times> string) list option \<Rightarrow> error + mail option" where
  "dispatchMail env purpose recipient subject html attachments =
     (if \<not> truthy (mv_apiKey env) then Inr None
      else let m = \<lparr>ml_from = orElse (if truthy (mv_fromOverride env) then mv_fromOverride env else None) (FROM purpose), ml_to = recipient,
                    ml_subject = subject, ml_html = html, ml_attachments = attachments\<rparr> in
        case mv_fetch env m of Inl e \<Rightarrow> Inl e
        | Inr ok \<Rightarrow> if ok then Inr (Some m) else Inl (InternalError ''Failed to send email''))"

definition sendVerificationCode :: "mailEnv \<Rightarrow> string \<Rightarrow> string \<Rightarrow> error + mail option" where
  "sendVerificationCode env recipient code =
     dispatchMail env ForVerification recipient ''Verify your Kilo email'' (mv_render env (VerificationCodeEmail code 10)) None"

definition sendPasswordResetLink :: "mailEnv \<Rightarrow> string \<Rightarrow> string \<Rightarrow> error + mail option" where
  "sendPasswordResetLink env recipient link =
     dispatchMail env ForPasswordReset recipient ''Reset your Kilo password'' (mv_render env (PasswordResetLinkEmail link 30)) None"

definition sendStaffInvite :: "mailEnv \<Rightarrow> string \<Rightarrow> string list \<Rightarrow> string \<Rightarrow> nat \<Rightarrow> error + mail option" where
  "sendStaffInvite env recipient roles acceptUrl expiresInDays = dispatchMail env ForInvite recipient
     (''You'' @ [CHR 0x27] @ ''ve been invited to join Kilo'') (mv_render env (StaffInviteEmail roles acceptUrl expiresInDays)) None"

definition sendBusinessTeamInvite :: "mailEnv \<Rightarrow> string \<Rightarrow> string \<Rightarrow> string \<Rightarrow> nat \<Rightarrow> error + mail option" where
  "sendBusinessTeamInvite env recipient businessName acceptUrl expiresInDays = dispatchMail env ForInvite recipient
     (''You'' @ [CHR 0x27] @ ''ve been invited to join '' @ businessName) (mv_render env (BusinessTeamInviteEmail businessName acceptUrl expiresInDays)) None"

definition sendGuarantorInvite :: "mailEnv \<Rightarrow> string \<Rightarrow> string \<Rightarrow> string \<Rightarrow> nat \<Rightarrow> error + mail option" where
  "sendGuarantorInvite env recipient driverName submitUrl expiresInDays = dispatchMail env ForGuarantor recipient
     (driverName @ '' has listed you as a guarantor'') (mv_render env (GuarantorInviteEmail driverName submitUrl expiresInDays)) None"

definition sendTripReceipt :: "mailEnv \<Rightarrow> string \<Rightarrow> tripReceipt \<Rightarrow> error + mail option" where
  "sendTripReceipt env recipient r = dispatchMail env ForReceipts recipient
     (''Your Kilo trip receipt '' @ [CHR 0xE2, CHR 0x80, CHR 0x94] @ '' '' @ tr_reference r) (mv_render env (TripReceiptEmail r)) None"

text \<open>\<open>base64\<close> encodes the bytes of the attachment.\<close>

definition sendWithAttachment :: "mailEnv \<Rightarrow> (string \<Rightarrow> string) \<Rightarrow> string \<Rightarrow> string \<Rightarrow> string \<Rightarrow> string \<times> string \<Rightarrow> error + mail option" where
  "sendWithAttachment env base64 recipient subject html attachment =
     dispatchMail env ForReports recipient subject html (Some [(fst attachment, base64 (snd attachment))])"

text \<open>The lines of a receipt; \<open>naira\<close> and \<open>showKm\<close> are the display of an amount and of a distance.\<close>

definition receiptLines :: "(rat \<Rightarrow> string) \<Rightarrow> (rat \<Rightarrow> string) \<Rightarrow> ride \<Rightarrow> receiptLine list" where
  "receiptLines naira showKm r =
     (let line = (\<lambda>label value. \<lparr>rl_label = label, rl_value = value, rl_emphasis = False\<rparr>) in
      (case rd_subtotalFare r of Some x \<Rightarrow> [line ''Fare'' (naira x)] | None \<Rightarrow> [])
      @ (case rd_promoDiscount r of Some x \<Rightarrow> if 0 < x then [line ''Promo discount'' (''-'' @ naira x)] else [] | None \<Rightarrow> [])
      @ (case rd_taxAmount r of Some x \<Rightarrow> if 0 < x then [line ''Tax'' (naira x)] else [] | None \<Rightarrow> [])
      @ [line ''Distance'' (showKm (orElse (rd_distanceKm r) 0) @ '' km''),
         line ''Payment method'' (if rd_paymentMethod r = RidePaymentMethod.CASH then ''Cash'' else ''Wallet''),
         \<lparr>rl_label = ''Total paid'', rl_value = naira (the (rd_finalFare r)), rl_emphasis = True\<rparr>])"

section \<open>Identity tokens\<close>

record googlePayload =
  gp_sub :: "string option"
  gp_email :: "string option"
  gp_emailVerified :: "bool option"
  gp_givenName :: "string option"
  gp_familyName :: "string option"

definition googleAudiences :: "string option \<Rightarrow> string list" where
  "googleAudiences ids = filter (\<lambda>s. s \<noteq> []) (map trim (splitOn (CHR '','') (orElse ids [])))"

text \<open>\<open>check\<close> is \<open>verifyIdToken\<close>: it rejects, or gives a payload or nothing.\<close>

definition verifyGoogle :: "string option \<Rightarrow> (string \<Rightarrow> string list \<Rightarrow> error + googlePayload option) \<Rightarrow> string \<Rightarrow> error + socialProfile" where
  "verifyGoogle ids check idToken =
     (if googleAudiences ids = [] then Inl (ServiceUnavailableException ''Google sign-in is not configured'')
      else case check idToken (googleAudiences ids) of
        Inr (Some p) \<Rightarrow>
          if \<not> truthy (gp_sub p) then Inl (UnauthorizedException ''Invalid Google ID token'')
          else Inr \<lparr>sp_providerUserId = the (gp_sub p), sp_email = gp_email p, sp_emailVerified = orElse (gp_emailVerified p) False,
                 sp_firstName = gp_givenName p, sp_lastName = gp_familyName p\<rparr>
      | _ \<Rightarrow> Inl (UnauthorizedException ''Invalid Google ID token''))"

datatype flag = Bool bool | Text string

record applePayload =
  ap_sub :: "string option"
  ap_email :: "string option"
  ap_emailVerified :: "flag option"

definition verifyApple :: "string option \<Rightarrow> (string \<Rightarrow> string \<Rightarrow> error + applePayload option) \<Rightarrow> string \<Rightarrow> error + socialProfile" where
  "verifyApple audience check idToken =
     (if \<not> truthy audience then Inl (ServiceUnavailableException ''Apple sign-in is not configured'')
      else case check idToken (the audience) of
        Inr (Some p) \<Rightarrow>
          if \<not> truthy (ap_sub p) then Inl (UnauthorizedException ''Invalid Apple ID token'')
          else Inr \<lparr>sp_providerUserId = the (ap_sub p), sp_email = ap_email p,
                 sp_emailVerified = (ap_emailVerified p = Some (Bool True) \<or> ap_emailVerified p = Some (Text ''true'')),
                 sp_firstName = None, sp_lastName = None\<rparr>
      | _ \<Rightarrow> Inl (UnauthorizedException ''Invalid Apple ID token''))"

text \<open>\<open>verified\<close> is the answer of the verifier to the token.\<close>

definition authenticateGoogle :: "authEnv \<Rightarrow> (error + socialProfile) \<Rightarrow> socialAuthResult op" where
  "authenticateGoogle env verified = bind (answer verified) (authenticate env GOOGLE)"

definition authenticateApple :: "authEnv \<Rightarrow> (error + socialProfile) \<Rightarrow> socialAuthResult op" where
  "authenticateApple env verified = bind (answer verified) (authenticate env APPLE)"

definition completeGoogleSignup :: "authEnv \<Rightarrow> nat \<Rightarrow> (error + socialProfile) \<Rightarrow> string \<Rightarrow> string option \<Rightarrow> string option \<Rightarrow> (tokenPair + string) op" where
  "completeGoogleSignup env draw verified phone firstName lastName =
     bind (answer verified) (\<lambda>profile. completeSignup env draw GOOGLE profile phone firstName lastName)"

definition completeAppleSignup :: "authEnv \<Rightarrow> nat \<Rightarrow> (error + socialProfile) \<Rightarrow> string \<Rightarrow> string \<Rightarrow> string \<Rightarrow> (tokenPair + string) op" where
  "completeAppleSignup env draw verified phone firstName lastName =
     bind (answer verified) (\<lambda>profile. completeSignup env draw APPLE profile phone (Some firstName) (Some lastName))"

section \<open>Laws\<close>

text \<open>No key, no charge: every call of an unconfigured Paystack client is refused before the network.\<close>

lemma unconfigured_paystack:
  "\<not> truthy key \<Longrightarrow> pk_verifyTransaction (paystackClient key net domain) i = Inl (ServiceUnavailableException ''Paystack is not configured'')
    \<and> pk_initiateTransfer (paystackClient key net domain) n r j = Inl (ServiceUnavailableException ''Paystack is not configured'')
    \<and> pk_chargeAuthorization (paystackClient key net domain) e n c j = Inl (ServiceUnavailableException ''Paystack is not configured'')"
  by (simp add: paystackClient_def request_def)

lemma webhook_signature_iff: "verifyWebhookSignature key hmac body signature
    \<longleftrightarrow> truthy key \<and> truthy signature \<and> signature = Some (hmac (the key) body)"
  by (cases signature) (auto simp: verifyWebhookSignature_def Let_def truthy_def)

text \<open>The fare never fails for want of maps: a distance comes from Google or from the estimate.\<close>

lemma getDistance_matrixOf:
  "getDistance (matrixOf key fetch) approximate l =
     (case distanceMatrixCall key fetch l of Inr d \<Rightarrow> d | Inl _ \<Rightarrow> approximate l)"
  by (simp add: getDistance_def matrixOf_def distanceMatrixCall_def)

lemma verified_identity: "verifyGoogle ids check token = Inr p \<Longrightarrow> sp_providerUserId p \<noteq> []"
  "verifyApple audience check' token = Inr p \<Longrightarrow> sp_providerUserId p \<noteq> []"
  by (auto simp: verifyGoogle_def verifyApple_def truthy_def split: if_splits sum.splits option.splits)

end
