(* ===== verification/Listings.thy ===== *)
theory Listings
  imports Places Staff Rides
begin

text \<open>
  The remaining reads and edits of modelled services: the page of a ride and a rider's reviews
  (src/rides/rides.service.ts), promo edits and listings (src/promo/promo.service.ts), invitations and
  permissions (src/accounts/invites.service.ts, roles.service.ts), and the admin listings of tariffs,
  commission rules and service areas.  \<open>rank\<close> is the place of a text in the database's collation.
  Titles, subtitles and images of promos are left out, as in \<open>promo\<close>.
\<close>

section \<open>Rides\<close>

definition LIVE_RIDE_STATUSES :: "RideStatus list" where
  "LIVE_RIDE_STATUSES = [RideStatus.ACCEPTED, RideStatus.ARRIVED, RideStatus.IN_PROGRESS]"

record ridePage =
  rg_ride :: ride
  rg_driver :: "driverCard option"
  rg_driverPosition :: "(rat \<times> rat) option"
  rg_rating :: "rideRating option"

definition getRide :: "string \<Rightarrow> string \<Rightarrow> ridePage op" where
  "getRide userId rideId =
     bind (findRideForParticipant userId rideId) (\<lambda>r.
     bind (if truthy (rd_driverId r) then bind (getDriverCard (the (rd_driverId r))) (\<lambda>c. return (Some c)) else return None) (\<lambda>driver.
     bind (if truthy (rd_driverId r) \<and> rd_status r \<in> set LIVE_RIDE_STATUSES then getDriverPosition (the (rd_driverId r)) else return None)
       (\<lambda>position.
     bind (gets (\<lambda>s. List.find (\<lambda>q. rr_rideId q = rideId) (rideRatings s))) (\<lambda>rating.
     return \<lparr>rg_ride = r, rg_driver = driver, rg_driverPosition = position, rg_rating = rating\<rparr>))))"

text \<open>A review shows the driver without the phone number.\<close>

record reviewedDriver =
  rwd_id :: string
  rwd_firstName :: string
  rwd_lastName :: string
  rwd_profilePhotoUrl :: "string option"
  rwd_vehicle :: "driverVehicle option"

record review =
  rv_rideId :: string
  rv_ridePublicId :: string
  rv_dropoffAddress :: string
  rv_completedAt :: "instant option"
  rv_rating :: int
  rv_comment :: "string option"
  rv_driver :: "reviewedDriver option"

definition withoutPhone :: "driverCard \<Rightarrow> reviewedDriver" where
  "withoutPhone c = \<lparr>rwd_id = dc_id c, rwd_firstName = dc_firstName c, rwd_lastName = dc_lastName c,
     rwd_profilePhotoUrl = dc_profilePhotoUrl c, rwd_vehicle = dc_vehicle c\<rparr>"

text \<open>The ratings of the user's rides with their rides, newest first.\<close>

definition ratedRides :: "db \<Rightarrow> string \<Rightarrow> (rideRating \<times> ride) list" where
  "ratedRides s riderId = List.map_filter (\<lambda>q. map_option (Pair q)
     (List.find (\<lambda>r. rd_id r = rr_rideId q \<and> rd_riderId r = riderId) (rides s))) (rev (rideRatings s))"

definition reviewOf :: "(string \<Rightarrow> string) \<Rightarrow> driverCard list \<Rightarrow> rideRating \<Rightarrow> ride \<Rightarrow> review" where
  "reviewOf publicId cards q r =
     \<lparr>rv_rideId = rd_id r, rv_ridePublicId = publicId (rd_id r), rv_dropoffAddress = rd_dropoffAddress r,
      rv_completedAt = rd_completedAt r, rv_rating = rr_rating q, rv_comment = rr_comment q,
      rv_driver = (if truthy (rd_driverId r)
        then map_option withoutPhone (List.find (\<lambda>c. dc_id c = the (rd_driverId r)) cards) else None)\<rparr>"

definition listMyReviews :: "(string \<Rightarrow> string) \<Rightarrow> string \<Rightarrow> nat \<Rightarrow> nat \<Rightarrow> review list op" where
  "listMyReviews publicId riderId n skip =
     bind (gets (\<lambda>s. take n (drop skip (ratedRides s riderId)))) (\<lambda>ratings.
     bind (getDriverCards (filter (\<lambda>i. i \<noteq> []) (List.map_filter (\<lambda>(q, r). rd_driverId r) ratings))) (\<lambda>cards.
     return (map (\<lambda>(q, r). reviewOf publicId cards q r) ratings)))"

section \<open>Promos\<close>

record promoEdit =
  pe_value :: "rat option"
  pe_maxDiscount :: "rat option"
  pe_usageLimitTotal :: "nat option"
  pe_usageLimitPerUser :: "nat option"
  pe_validFrom :: "instant option"
  pe_validUntil :: "instant option"
  pe_applicableServices :: "PromoApplicableService list option"
  pe_isActive :: "bool option"
  pe_isFeatured :: "bool option"

definition editPromo :: "promoEdit \<Rightarrow> promo \<Rightarrow> promo" where
  "editPromo dto p = p\<lparr>
     pm_value := (case pe_value dto of Some x \<Rightarrow> scale2 x | None \<Rightarrow> pm_value p),
     pm_maxDiscount := keptOr (map_option scale2 (pe_maxDiscount dto)) (pm_maxDiscount p),
     pm_usageLimitTotal := keptOr (pe_usageLimitTotal dto) (pm_usageLimitTotal p),
     pm_usageLimitPerUser := keptOr (pe_usageLimitPerUser dto) (pm_usageLimitPerUser p),
     pm_validFrom := orElse (pe_validFrom dto) (pm_validFrom p),
     pm_validUntil := orElse (pe_validUntil dto) (pm_validUntil p),
     pm_applicableServices := orElse (pe_applicableServices dto) (pm_applicableServices p),
     pm_isActive := orElse (pe_isActive dto) (pm_isActive p),
     pm_isFeatured := orElse (pe_isFeatured dto) (pm_isFeatured p)\<rparr>"

definition updatePromo :: "string \<Rightarrow> promoEdit \<Rightarrow> promo op" where
  "updatePromo i dto =
     bind (findPromoOrThrow i) (\<lambda>p.
     andThen (modify (\<lambda>s. s\<lparr>promos := updateWhere (\<lambda>p. pm_id p = i) (editPromo dto) (promos s)\<rparr>))
     (return (editPromo dto p)))"

definition listPromos :: "promo list op" where
  "listPromos = gets (\<lambda>s. rev (promos s))"

definition myRedemptions :: "string \<Rightarrow> nat \<Rightarrow> nat \<Rightarrow> (promoRedemption \<times> (string \<times> PromoType) option) list op" where
  "myRedemptions userId n skip = gets (\<lambda>s.
     map (\<lambda>r. (r, map_option (\<lambda>p. (pm_code p, pm_type p)) (List.find (\<lambda>p. pm_id p = pr_promoId r) (promos s))))
       (take n (drop skip (rev (filter (\<lambda>r. pr_userId r = userId) (promoRedemptions s))))))"

section \<open>Staff\<close>

record inviteRow =
  iw_id :: string
  iw_email :: string
  iw_status :: InviteStatus
  iw_expiresAt :: instant
  iw_revokedAt :: "instant option"
  iw_acceptedAt :: "instant option"
  iw_roles :: "(string \<times> string) list"
  iw_invitedBy :: "(string \<times> string \<times> string \<times> string) option"

definition inviteRowOf :: "db \<Rightarrow> staffInvite \<Rightarrow> inviteRow" where
  "inviteRowOf s v =
     \<lparr>iw_id = si_id v, iw_email = si_email v, iw_status = si_status v, iw_expiresAt = si_expiresAt v,
      iw_revokedAt = si_revokedAt v, iw_acceptedAt = si_acceptedAt v,
      iw_roles = map (\<lambda>r. (sr_id r, sr_name r)) (filter (\<lambda>r. sr_id r \<in> set (si_roles v)) (staffRoles s)),
      iw_invitedBy = map_option (\<lambda>u. (usr_id u, usr_publicId u, usr_firstName u, usr_lastName u))
        (List.find (\<lambda>u. usr_id u = si_invitedById v) (users s))\<rparr>"

definition listInvites :: "inviteRow list op" where
  "listInvites = gets (\<lambda>s. map (inviteRowOf s) (rev (staffInvites s)))"

definition listPermissions :: "(string \<Rightarrow> nat) \<Rightarrow> string list op" where
  "listPermissions rank = gets (\<lambda>s. sort_key rank (permissionKeys s))"

section \<open>Prices and areas\<close>

definition listTariffs :: "(string \<Rightarrow> nat) \<Rightarrow> tariff list op" where
  "listTariffs rank = gets (\<lambda>s. sort_key (rank \<circ> tf_vehicleType) (rev (tariffs s)))"

definition listCommissionRules :: "(string \<Rightarrow> nat) \<Rightarrow> commissionRule list op" where
  "listCommissionRules rank = gets (\<lambda>s. sort_key (rank \<circ> cr_serviceType) (rev (commissionRules s)))"

definition listAreas :: "(string \<Rightarrow> nat) \<Rightarrow> serviceArea list op" where
  "listAreas rank = gets (\<lambda>s. sort_key (rank \<circ> sa_name) (serviceAreas s))"

section \<open>Laws\<close>

text \<open>Only the rider and the driver of a ride get its page, and a review names no phone number of anyone.\<close>

lemma getRide_participant:
  assumes "getRide userId rideId s = (Inr p, t)"
  shows "t = s \<and> rd_id (rg_ride p) = rideId \<and> (rd_riderId (rg_ride p) = userId \<or> rd_driverId (rg_ride p) = Some userId)"
  using assms unfolding getRide_def findRideForParticipant_def findRide_def getDriverCard_def getDriverCards_def getDriverPosition_def
  by (auto simp: run_simps split: option.splits if_splits dest!: find_SomeD)

lemma ratedRides_mine: "(q, r) \<in> set (ratedRides s riderId) \<Longrightarrow> r \<in> set (rides s) \<and> rd_riderId r = riderId"
  by (auto simp: ratedRides_def List.map_filter_def dest: find_SomeD)

lemma listMyReviews_mine:
  assumes "listMyReviews publicId riderId n skip s = (Inr vs, t)" and "v \<in> set vs"
  shows "\<exists>r \<in> set (rides s). rd_id r = rv_rideId v \<and> rd_riderId r = riderId"
proof -
  obtain q r cards where "(q, r) \<in> set (take n (drop skip (ratedRides s riderId)))" "v = reviewOf publicId cards q r"
    using assms unfolding listMyReviews_def getDriverCards_def by (auto simp: run_simps)
  then show ?thesis using ratedRides_mine [of q r s riderId] by (auto simp: reviewOf_def dest!: in_set_takeD in_set_dropD)
qed

lemma updatePromo_keeps_code: "updatePromo i dto s = (Inr p, t) \<Longrightarrow>
   \<exists>old. List.find (\<lambda>p. pm_id p = i) (promos s) = Some old \<and> pm_code p = pm_code old \<and> pm_type p = pm_type old
     \<and> map pm_code (promos t) = map pm_code (promos s)"
  unfolding updatePromo_def findPromoOrThrow_def
  by (auto simp: run_simps editPromo_def map_updateWhere_same split: option.splits if_splits)

end
