(* ===== verification/Endpoints.thy ===== *)
theory Endpoints
  imports Routes
begin

text \<open>
  The endpoints of the backend: one \<open>controller\<close> per controller class of src, in the order of the files,
  each handler with its decorators in the order of the class.  \<open>hn_calls\<close> is the service method the handler
  calls and \<open>hn_args\<close> where its arguments come from, a default of the handler included; a handler that
  answers an export document names the base of its file.  Swagger decorators are left out.
\<close>

section \<open>Controllers\<close>

definition adminInvitesController :: controller where
  "adminInvitesController = controllerAt ''admin/staff/invites'' [JwtAuthGuard, RolesGuard, PermissionsGuard] [UserRole.ADMIN,
    UserRole.SUPER_ADMIN] [] [
      requiring [''staff.invite''] (handler POST '''' ''createInvite'' ''invitesService.createInvite'' [CallerId, WholeBody]),
      requiring [''staff.manage''] (handler GET '''' ''listInvites'' ''invitesService.listInvites'' []),
      requiring [''staff.manage''] (handler POST '':id/revoke'' ''revokeInvite'' ''invitesService.revokeInvite'' [PathParam ''id'']),
      requiring [''staff.invite''] (answering 200 (handler POST '':id/resend'' ''resendInvite'' ''invitesService.resendInvite'' [PathParam ''id'']))]"

definition adminProfileController :: controller where
  "adminProfileController = controllerAt ''admin/profile'' [JwtAuthGuard, RolesGuard] [UserRole.ADMIN, UserRole.SUPER_ADMIN,
    UserRole.SUPPORT_AGENT] [] [
      uploading (handler POST ''avatar'' ''setAvatar'' ''usersService.setAvatar'' [CallerId, Uploaded]),
      answering 200 (handler POST ''change-password'' ''changePassword'' ''authService.changePassword'' [CallerId, WholeBody, CallerSession]),
      handler GET ''sessions'' ''listSessions'' ''sessions.list'' [CallerId, CallerSession],
      answering 200 (handler DELETE ''sessions/all-other'' ''revokeOtherSessions'' ''sessions.revokeAllOthers'' [CallerId, CallerSession]),
      answering 200 (handler DELETE ''sessions/:id'' ''revokeSession'' ''sessions.revoke'' [CallerId, PathParam ''id''])]"

definition adminRolesController :: controller where
  "adminRolesController = controllerAt ''admin/roles'' [JwtAuthGuard, RolesGuard] [UserRole.ADMIN, UserRole.SUPER_ADMIN] [] [
      handler GET '''' ''listRoles'' ''rolesService.listRoles'' [],
      forRoles [UserRole.SUPER_ADMIN] (handler POST '''' ''createRole'' ''rolesService.createRole'' [WholeBody])]"

definition adminPermissionsController :: controller where
  "adminPermissionsController = controllerAt ''admin/permissions'' [JwtAuthGuard, RolesGuard] [UserRole.ADMIN, UserRole.SUPER_ADMIN] [] [
      handler GET '''' ''listPermissions'' ''rolesService.listPermissions'' []]"

definition adminStaffController :: controller where
  "adminStaffController = controllerAt ''admin/staff'' [JwtAuthGuard, RolesGuard, PermissionsGuard] [UserRole.ADMIN, UserRole.SUPER_ADMIN] [] [
      handler GET '''' ''listStaff'' ''usersService.listStaff'' [QueryField ''status''],
      requiring [''staff.manage''] (handler PATCH '':id'' ''updateStaff'' ''usersService.updateStaff'' [PathParam ''id'', WholeBody, CallerId]),
      requiring [''staff.manage''] (answering 200 (handler DELETE '':id'' ''deprovisionStaff'' ''usersService.deprovisionStaff'' [PathParam
        ''id'', CallerId]))]"

definition authController :: controller where
  "authController = controllerAt ''auth'' [] [] [] [
      handler POST ''riders/register'' ''registerRider'' ''authService.registerRider'' [WholeBody],
      handler POST ''drivers/register'' ''registerDriver'' ''authService.registerDriver'' [WholeBody],
      throttled 5 (handler POST ''otp/send'' ''sendOtp'' ''authService.sendOtp'' [Field ''phone'', Field ''purpose'']),
      throttled 5 (handler POST ''otp/verify'' ''verifyOtp'' ''authService.verifyOtp'' [Field ''phone'', Field ''code'', Field ''purpose'',
        ClientInfo]),
      throttled 5 (answering 200 (handler POST ''login'' ''login'' ''authService.login'' [Field ''identifier'', Field ''password'', ClientInfo])),
      throttled 5 (answering 200 (handler POST ''password/forgot'' ''forgotPassword'' ''authService.forgotPassword'' [Field ''identifier''])),
      throttled 5 (answering 200 (handler POST ''password/reset'' ''resetPassword'' ''authService.resetPassword'' [WholeBody])),
      answering 200 (handler POST ''token/refresh'' ''refresh'' ''authService.refresh'' [Field ''refreshToken'', ClientInfo]),
      answering 200 (handler POST ''logout'' ''logout'' ''authService.logout'' [Field ''refreshToken'']),
      throttled 5 (answering 200 (handler POST ''invites/accept'' ''acceptInvite'' ''invitesService.acceptInvite'' [WholeBody]))]"

definition socialAuthController :: controller where
  "socialAuthController = controllerAt ''auth/social'' [] [] [] [
      throttled 10 (answering 200 (handler POST ''google'' ''authenticateGoogle'' ''socialAuth.authenticateGoogle'' [Field ''idToken''])),
      throttled 10 (answering 200 (handler POST ''google/complete'' ''completeGoogleSignup'' ''socialAuth.completeGoogleSignup'' [Field
        ''idToken'', Field ''phone'', Field ''firstName'', Field ''lastName''])),
      throttled 10 (answering 200 (handler POST ''apple'' ''authenticateApple'' ''socialAuth.authenticateApple'' [Field ''idToken''])),
      throttled 10 (answering 200 (handler POST ''apple/complete'' ''completeAppleSignup'' ''socialAuth.completeAppleSignup'' [Field
        ''idToken'', Field ''phone'', Field ''firstName'', Field ''lastName'']))]"

definition usersController :: controller where
  "usersController = controllerAt ''users'' [JwtAuthGuard] [] [] [
      handler GET ''me'' ''getMe'' ''usersService.getProfile'' [CallerId],
      handler PATCH ''me'' ''updateMe'' ''usersService.updateProfile'' [CallerId, WholeBody],
      handler PUT ''me/next-of-kin'' ''setNextOfKin'' ''usersService.setNextOfKin'' [CallerId, Field ''fullName'', Field ''phone''],
      answering 200 (handler DELETE ''me/next-of-kin'' ''clearNextOfKin'' ''usersService.clearNextOfKin'' [CallerId]),
      uploading (handler POST ''me/avatar'' ''setAvatar'' ''usersService.setAvatar'' [CallerId, Uploaded]),
      throttled 5 (answering 200 (handler POST ''me/password'' ''changePassword'' ''authService.changePassword'' [CallerId, WholeBody,
        CallerSession])),
      handler GET ''me/sessions'' ''listSessions'' ''sessions.list'' [CallerId, CallerSession],
      answering 200 (handler DELETE ''me/sessions/all-other'' ''revokeOtherSessions'' ''sessions.revokeAllOthers'' [CallerId, CallerSession]),
      answering 200 (handler DELETE ''me/sessions/:id'' ''revokeSession'' ''sessions.revoke'' [CallerId, PathParam ''id'']),
      throttled 5 (answering 200 (handler POST ''me/email'' ''changeEmail'' ''emailVerification.requestChange'' [CallerId, Field ''email''])),
      throttled 5 (answering 200 (handler POST ''me/email/verify'' ''verifyEmail'' ''emailVerification.confirm'' [CallerId, Field ''code'']))]"

definition activityController :: controller where
  "activityController = controllerAt ''activity'' [JwtAuthGuard] [] [] [
      handler GET '''' ''list'' ''activity.list'' [CallerId, QueryField ''type'', QueryField ''take'', QueryField ''skip'']]"

definition adminOpsController :: controller where
  "adminOpsController = controllerAt ''admin'' [JwtAuthGuard, RolesGuard, PermissionsGuard] [UserRole.ADMIN, UserRole.SUPER_ADMIN] [] [
      requiring [''admin.dashboard.view''] (handler GET ''dashboard/summary'' ''getDashboardSummary'' ''adminOps.getDashboardSummary'' []),
      requiring [''admin.dashboard.view''] (handler GET ''dashboard/analytics'' ''getAnalytics'' ''analytics.platformAnalytics'' [QueryField
        ''range'']),
      requiring [''admin.dashboard.view''] (handler GET ''dashboard/needs-attention'' ''getNeedsAttention'' ''adminOps.getNeedsAttention'' []),
      requiring [''admin.dashboard.view''] (handler GET ''dashboard/live-map'' ''getLiveMap'' ''adminOps.getLiveMap'' []),
      requiring [''admin.dashboard.view''] (handler GET ''live-map/fleet'' ''getFleetMap'' ''adminOps.getFleetMap'' [WholeQuery]),
      requiring [''admin.users.manage''] (handler GET ''riders'' ''listRiders'' ''adminOps.listRiders'' [WholeQuery]),
      requiring [''admin.users.manage''] (exporting ''riders'' (handler GET ''riders/export'' ''exportRiders'' ''adminOps.exportRiders''
        [WholeQuery, CallerId])),
      requiring [''admin.users.manage''] (handler GET ''riders/:id'' ''getRiderDetail'' ''adminOps.getRiderDetail'' [PathParam ''id'']),
      requiring [''admin.users.manage''] (handler GET ''riders/:id/rides'' ''getRiderRides'' ''adminOps.getRiderRides'' [PathParam ''id'',
        QueryOr ''take'' 50, QueryOr ''skip'' 0]),
      requiring [''admin.users.manage''] (handler GET ''riders/:id/deliveries'' ''getRiderDeliveries'' ''adminOps.getRiderDeliveries''
        [PathParam ''id'', QueryOr ''take'' 50, QueryOr ''skip'' 0]),
      requiring [''admin.users.manage''] (handler GET ''riders/:id/transactions'' ''getRiderTransactions'' ''adminOps.getUserTransactions''
        [PathParam ''id'', QueryOr ''take'' 50, QueryOr ''skip'' 0]),
      requiring [''admin.users.manage''] (answering 200 (handler POST ''riders/:id/suspend'' ''suspendRider'' ''adminOps.suspendUser''
        [PathParam ''id'', CallerId, Field ''reason''])),
      requiring [''admin.users.manage''] (answering 200 (handler POST ''riders/:id/activate'' ''activateRider'' ''adminOps.activateUser''
        [PathParam ''id'', CallerId])),
      requiring [''admin.users.manage''] (handler GET ''drivers'' ''listDrivers'' ''adminOps.listDrivers'' [WholeQuery]),
      requiring [''admin.users.manage''] (exporting ''drivers'' (handler GET ''drivers/export'' ''exportDrivers'' ''adminOps.exportDrivers''
        [WholeQuery, CallerId])),
      requiring [''admin.users.manage''] (handler GET ''drivers/:id'' ''getDriverDetail'' ''adminOps.getDriverDetail'' [PathParam ''id'']),
      requiring [''admin.users.manage''] (handler GET ''drivers/:id/rides'' ''getDriverRides'' ''adminOps.getDriverRides'' [PathParam
        ''id'', QueryOr ''take'' 50, QueryOr ''skip'' 0]),
      requiring [''admin.users.manage''] (handler GET ''drivers/:id/deliveries'' ''getDriverDeliveries'' ''adminOps.getDriverDeliveries''
        [PathParam ''id'', QueryOr ''take'' 50, QueryOr ''skip'' 0]),
      requiring [''admin.users.manage''] (handler GET ''drivers/:id/transactions'' ''getDriverTransactions''
        ''adminOps.getUserTransactions'' [PathParam ''id'', QueryOr ''take'' 50, QueryOr ''skip'' 0]),
      requiring [''admin.users.manage''] (handler GET ''drivers/:id/withdrawals'' ''getDriverWithdrawals'' ''adminOps.getDriverWithdrawals''
        [PathParam ''id'', QueryOr ''take'' 50, QueryOr ''skip'' 0]),
      requiring [''admin.users.manage''] (answering 200 (handler POST ''drivers/:id/suspend'' ''suspendDriver'' ''adminOps.suspendUser''
        [PathParam ''id'', CallerId, Field ''reason''])),
      requiring [''admin.users.manage''] (answering 200 (handler POST ''drivers/:id/activate'' ''activateDriver'' ''adminOps.activateUser''
        [PathParam ''id'', CallerId])),
      requiring [''admin.config.edit''] (handler GET ''config'' ''getConfig'' ''adminOps.getConfig'' []),
      requiring [''admin.config.edit''] (handler PATCH ''config'' ''updateConfig'' ''adminOps.updateConfig'' [WholeBody, CallerId]),
      requiring [''admin.audit.view''] (exporting ''audit-log'' (handler GET ''audit-logs/export'' ''exportAuditLogs''
        ''adminOps.exportAuditLogs'' [WholeQuery, CallerId])),
      requiring [''admin.audit.view''] (handler GET ''audit-logs'' ''getAuditLogs'' ''adminOps.getAuditLogs'' [WholeQuery])]"

definition adminBusinessController :: controller where
  "adminBusinessController = controllerAt ''admin/business'' [JwtAuthGuard, RolesGuard, PermissionsGuard] [UserRole.ADMIN,
    UserRole.SUPER_ADMIN] [''business.manage''] [
      handler GET '''' ''listAll'' ''business.listAllBusinesses'' [WholeQuery],
      exporting ''businesses'' (handler GET ''export'' ''export'' ''business.exportBusinesses'' [WholeQuery, CallerId]),
      handler GET ''stats'' ''stats'' ''business.businessStats'' [],
      handler GET '':id'' ''detail'' ''business.getBusinessDetail'' [PathParam ''id''],
      answering 200 (handler POST '':id/credit-limit'' ''setCreditLimit'' ''business.setCreditLimit'' [PathParam ''id'', Field ''creditLimit'']),
      handler PATCH '':id'' ''setStatus'' ''business.setStatus'' [PathParam ''id'', Field ''status'', CallerId]]"

definition businessInvitesController :: controller where
  "businessInvitesController = controllerAt ''business/invites'' [] [] [] [
      throttled 5 (answering 200 (handler POST ''accept'' ''acceptInvite'' ''business.acceptInvite'' [WholeBody]))]"

definition businessController :: controller where
  "businessController = controllerAt ''business'' [JwtAuthGuard] [] [] [
      handler POST '''' ''createBusiness'' ''business.createBusiness'' [CallerId, WholeBody],
      handler GET '':id'' ''getBusiness'' ''business.getBusiness'' [CallerId, PathParam ''id''],
      handler POST '':id/team-members'' ''inviteTeamMember'' ''business.inviteTeamMember'' [CallerId, PathParam ''id'', WholeBody],
      handler GET '':id/team-members'' ''listTeamMembers'' ''business.listTeamMembers'' [CallerId, PathParam ''id''],
      handler DELETE '':id/team-members/:userId'' ''removeTeamMember'' ''business.removeTeamMember'' [CallerId, PathParam ''id'', PathParam
        ''userId''],
      answering 200 (handler POST '':id/deliveries/schedule'' ''scheduleDeliveries'' ''invoices.scheduleDeliveries'' [CallerId, PathParam
        ''id'', Field ''deliveries'']),
      handler GET '':id/invoices'' ''listInvoices'' ''invoices.listInvoices'' [CallerId, PathParam ''id'', QueryField ''take'', QueryField ''skip''],
      handler GET '':id/invoices/:invoiceId'' ''getInvoice'' ''invoices.getInvoice'' [CallerId, PathParam ''id'', PathParam ''invoiceId''],
      idempotent (answering 200 (handler POST '':id/invoices/:invoiceId/pay'' ''payInvoice'' ''invoices.payInvoice'' [CallerId, PathParam
        ''id'', PathParam ''invoiceId''])),
      handler GET '':id/credit'' ''getCredit'' ''business.getCredit'' [CallerId, PathParam ''id'']]"

definition driversController :: controller where
  "driversController = controllerAt ''drivers/me'' [JwtAuthGuard, RolesGuard] [UserRole.DRIVER] [] [
      handler GET ''vehicle'' ''getVehicle'' ''profiles.getVehicle'' [CallerId],
      handler PUT ''vehicle'' ''upsertVehicle'' ''profiles.upsertVehicle'' [CallerId, WholeBody]]"

definition healthController :: controller where
  "healthController = controllerAt ''health'' [] [] [] [
      handler GET '''' ''check'' ''prisma.queryRaw'' [Fixed ''SELECT 1'']]"

definition adminKilowattController :: controller where
  "adminKilowattController = controllerAt ''admin'' [JwtAuthGuard, RolesGuard, PermissionsGuard] [UserRole.ADMIN, UserRole.SUPER_ADMIN]
    [''kilowatt.manage''] [
      handler GET ''charging-stations'' ''listStations'' ''chargingStations.listAll'' [],
      handler POST ''charging-stations'' ''createStation'' ''chargingStations.createStation'' [WholeBody],
      handler PATCH ''charging-stations/:id'' ''updateStation'' ''chargingStations.updateStation'' [PathParam ''id'', WholeBody],
      answering 200 (handler DELETE ''charging-stations/:id'' ''deleteStation'' ''chargingStations.deleteStation'' [PathParam ''id'']),
      handler GET ''battery-swap/stations'' ''listSwapStations'' ''batterySwap.listAllStations'' [],
      handler POST ''battery-swap/stations'' ''createSwapStation'' ''batterySwap.createStation'' [WholeBody],
      handler PATCH ''battery-swap/stations/:id'' ''updateSwapStation'' ''batterySwap.updateStation'' [PathParam ''id'', WholeBody],
      answering 200 (handler DELETE ''battery-swap/stations/:id'' ''deleteSwapStation'' ''batterySwap.deleteStation'' [PathParam ''id'']),
      handler GET ''battery-swap/reservations'' ''listReservations'' ''batterySwap.listAllReservations'' [QueryField ''take'', QueryField ''skip''],
      handler GET ''solar-leads'' ''listSolarLeads'' ''solarAssessments.listLeads'' [QueryField ''status'', QueryField ''take'', QueryField ''skip''],
      handler POST ''solar-leads'' ''createSolarLead'' ''solarAssessments.createLead'' [WholeBody],
      answering 200 (handler PATCH ''solar-leads/:id'' ''updateSolarLead'' ''solarAssessments.updateLead'' [PathParam ''id'', WholeBody]),
      answering 200 (handler DELETE ''solar-leads/:id'' ''deleteSolarLead'' ''solarAssessments.deleteLead'' [PathParam ''id''])]"

definition kilowattController :: controller where
  "kilowattController = controllerAt '''' [] [] [] [
      handler GET ''charging-stations'' ''searchChargingStations'' ''chargingStations.searchNearby'' [QueryField ''lat'', QueryField
        ''lng'', QueryOr ''radiusKm'' 10, QueryField ''chargerType'', QueryField ''minSpeedKw''],
      handler GET ''charging-stations/:id'' ''getChargingStation'' ''chargingStations.getStation'' [PathParam ''id''],
      answering 200 (handler POST ''battery-swap/stations'' ''searchSwapStations'' ''batterySwap.searchNearby'' [Field ''lat'', Field
        ''lng'', FieldOr ''radiusKm'' 10]),
      guarded [JwtAuthGuard] (handler POST ''battery-swap/reservations'' ''reserveSwap'' ''batterySwap.reserve'' [CallerId, Field ''stationId'']),
      guarded [JwtAuthGuard] (handler GET ''battery-swap/reservations/:id'' ''getReservation'' ''batterySwap.getReservation'' [CallerId,
        PathParam ''id'']),
      guarded [JwtAuthGuard] (handler POST ''solar-assessments'' ''submitSolarAssessment'' ''solarAssessments.submit'' [CallerId, WholeBody])]"

definition adminGuarantorController :: controller where
  "adminGuarantorController = controllerAt ''admin/guarantors'' [JwtAuthGuard, RolesGuard, PermissionsGuard] [UserRole.ADMIN,
    UserRole.SUPER_ADMIN] [] [
      requiring [''kyc.approve''] (handler GET '''' ''list'' ''guarantor.listPending'' [QueryField ''status'', QueryField ''take'',
        QueryField ''skip'']),
      requiring [''kyc.approve''] (answering 200 (handler POST '':id/approve'' ''approve'' ''guarantor.approve'' [PathParam ''id'', CallerId])),
      requiring [''kyc.reject''] (answering 200 (handler POST '':id/reject'' ''reject'' ''guarantor.reject'' [PathParam ''id'', CallerId,
        Field ''reason''])),
      requiring [''kyc.approve''] (handler GET '':id/id-document/url'' ''getIdDocumentUrl'' ''guarantor.getSignedDocumentUrl'' [PathParam
        ''id'', Fixed ''idDocument'']),
      requiring [''kyc.approve''] (handler GET '':id/proof-of-address/url'' ''getProofOfAddressUrl'' ''guarantor.getSignedDocumentUrl''
        [PathParam ''id'', Fixed ''proofOfAddress''])]"

definition adminKycController :: controller where
  "adminKycController = controllerAt ''admin/kyc'' [JwtAuthGuard, RolesGuard, PermissionsGuard] [UserRole.ADMIN, UserRole.SUPER_ADMIN] [] [
      requiring [''kyc.approve''] (handler GET ''pending'' ''listPending'' ''kyc.listPending'' [QueryField ''take'', QueryField ''skip'']),
      requiring [''kyc.approve''] (answering 200 (handler POST '':driverId/approve'' ''approve'' ''kyc.approve'' [PathParam ''driverId'', CallerId])),
      requiring [''kyc.reject''] (answering 200 (handler POST '':driverId/reject'' ''reject'' ''kyc.reject'' [PathParam ''driverId'',
        CallerId, Field ''reason''])),
      requiring [''kyc.approve''] (handler GET ''documents/:documentId/url'' ''getDocumentUrl'' ''kyc.getSignedDocumentUrl'' [PathParam
        ''documentId''])]"

definition kycController :: controller where
  "kycController = controllerAt ''drivers'' [JwtAuthGuard] [] [] [
      uploading (afterChecks [CallerIsPath ''id'' ''You can only manage your own KYC submissions''] (handler POST '':id/kyc/documents''
        ''uploadDocument'' ''kyc.uploadDocument'' [CallerId, Field ''type'', Uploaded])),
      afterChecks [CallerIsPath ''id'' ''You can only manage your own KYC submissions''] (handler POST '':id/kyc/facial-verification''
        ''submitFacialVerification'' ''kyc.submitFacialVerification'' [CallerId, Field ''selfieImageBase64'']),
      afterChecks [CallerIsPath ''id'' ''You can only manage your own KYC submissions''] (handler POST '':id/kyc/government-id''
        ''submitGovernmentId'' ''kyc.submitGovernmentId'' [CallerId, Field ''idType'', Field ''idNumber'']),
      afterChecks [CallerIsPath ''id'' ''You can only manage your own KYC submissions''] (handler GET '':id/kyc/status'' ''getStatus''
        ''kyc.getStatus'' [CallerId]),
      afterChecks [CallerIsPath ''id'' ''You can only manage your own KYC submissions''] (handler POST '':id/guarantor/invite''
        ''inviteGuarantor'' ''guarantor.invite'' [CallerId, WholeBody]),
      afterChecks [CallerIsPath ''id'' ''You can only manage your own KYC submissions''] (handler GET '':id/guarantor''
        ''getGuarantorStatus'' ''guarantor.getStatus'' [CallerId])]"

definition publicGuarantorController :: controller where
  "publicGuarantorController = controllerAt ''guarantor'' [] [] [] [
      handler GET '':token'' ''getContext'' ''guarantor.getPublicContext'' [PathParam ''token''],
      uploading (answering 200 (handler POST '':token/submit'' ''submit'' ''guarantor.submit'' [PathParam ''token'', WholeBody, Uploaded,
        Uploaded]))]"

definition adminLogisticsController :: controller where
  "adminLogisticsController = controllerAt ''admin/deliveries'' [JwtAuthGuard, RolesGuard, PermissionsGuard] [UserRole.ADMIN,
    UserRole.SUPER_ADMIN] [''logistics.manage''] [
      handler GET '''' ''listDeliveries'' ''adminLogistics.listDeliveries'' [WholeQuery],
      exporting ''deliveries'' (handler GET ''export'' ''exportDeliveries'' ''adminLogistics.exportDeliveries'' [WholeQuery, CallerId]),
      answering 200 (handler POST '':id/assign'' ''assignDriver'' ''adminLogistics.assignDriver'' [PathParam ''id'', Field ''driverId'']),
      answering 200 (handler POST '':id/dispute'' ''resolveDispute'' ''adminLogistics.resolveDispute'' [PathParam ''id'', CallerId, Field
        ''resolution'', Field ''refund'']),
      handler GET '':id/pod-url'' ''getPodUrl'' ''adminLogistics.getSignedPodUrl'' [PathParam ''id'']]"

definition logisticsController :: controller where
  "logisticsController = controllerAt '''' [] [] [] [
      guarded [OptionalJwtAuthGuard] (answering 200 (handler POST ''deliveries/quote'' ''quote'' ''logistics.quote'' [WholeBody, CallerIdIfAny])),
      guarded [JwtAuthGuard] (handler POST ''deliveries'' ''createDelivery'' ''logistics.createDelivery'' [CallerId, WholeBody]),
      guarded [JwtAuthGuard] (answering 200 (handler POST ''deliveries/:id/stops'' ''updateStops'' ''logistics.updateStops'' [CallerId,
        PathParam ''id'', Field ''stops''])),
      guarded [JwtAuthGuard] (handler GET ''deliveries'' ''listDeliveries'' ''logistics.listDeliveries'' [CallerId, CallerSide, QueryField
        ''take'', QueryField ''skip'']),
      guarded [JwtAuthGuard] (handler GET ''deliveries/:id'' ''getDelivery'' ''logistics.getDelivery'' [CallerId, PathParam ''id'']),
      guarded [JwtAuthGuard] (answering 200 (afterChecks [RoleIs UserRole.DRIVER ''Only drivers can perform this action''] (handler POST
        ''deliveries/:id/accept'' ''acceptDelivery'' ''dispatch.acceptOffer'' [CallerId, PathParam ''id'']))),
      guarded [JwtAuthGuard] (answering 200 (afterChecks [RoleIs UserRole.DRIVER ''Only drivers can perform this action''] (handler POST
        ''deliveries/:id/decline'' ''declineDelivery'' ''dispatch.declineOffer'' [CallerId, PathParam ''id'']))),
      guarded [JwtAuthGuard] (handler GET ''deliveries/:id/proof-of-delivery'' ''getProofOfDelivery'' ''logistics.getProofOfDelivery''
        [CallerId, PathParam ''id'']),
      guarded [JwtAuthGuard] (answering 200 (afterChecks [RoleIs UserRole.DRIVER ''Only drivers can perform this action''] (handler POST
        ''deliveries/:id/arrived-pickup'' ''arrivedAtPickup'' ''trip.markArrivedAtPickup'' [CallerId, PathParam ''id'']))),
      guarded [JwtAuthGuard] (answering 200 (afterChecks [RoleIs UserRole.DRIVER ''Only drivers can perform this action''] (handler POST
        ''deliveries/:id/arrived-dropoff'' ''arrivedAtDropoff'' ''trip.markArrivedAtDropoff'' [CallerId, PathParam ''id'']))),
      guarded [JwtAuthGuard] (answering 200 (afterChecks [RoleIs UserRole.DRIVER ''Only drivers can perform this action''] (handler POST
        ''deliveries/:id/pickup-confirm'' ''confirmPickup'' ''trip.confirmPickup'' [CallerId, PathParam ''id'']))),
      guarded [JwtAuthGuard] (uploading (answering 200 (afterChecks [RoleIs UserRole.DRIVER ''Only drivers can perform this action'']
        (handler POST ''deliveries/:id/proof-of-delivery'' ''submitProofOfDelivery'' ''trip.submitProofOfDelivery'' [CallerId, PathParam
        ''id'', Field ''type'', Field ''otpCode'', Uploaded])))),
      guarded [JwtAuthGuard] (answering 200 (afterChecks [RoleIs UserRole.DRIVER ''Only drivers can perform this action''] (handler POST
        ''deliveries/:id/complete'' ''completeDelivery'' ''trip.completeDelivery'' [CallerId, PathParam ''id'']))),
      guarded [JwtAuthGuard] (answering 200 (handler POST ''deliveries/:id/cancel'' ''cancelDelivery'' ''logistics.cancelDelivery''
        [CallerId, PathParam ''id'', Field ''reason'']))]"

definition publicTrackingController :: controller where
  "publicTrackingController = controllerAt ''track'' [] [] [] [
      handler GET '':trackingToken'' ''track'' ''logistics.trackDelivery'' [PathParam ''trackingToken''],
      answering 200 (handler POST '':trackingToken/otp/verify'' ''verifyOtp'' ''logistics.verifyReceiverOtp'' [PathParam ''trackingToken'',
        Field ''code''])]"

definition adminNotificationsController :: controller where
  "adminNotificationsController = controllerAt ''admin/notifications'' [JwtAuthGuard, RolesGuard, PermissionsGuard] [UserRole.ADMIN,
    UserRole.SUPER_ADMIN] [''notifications.send''] [
      answering 200 (handler POST ''broadcast'' ''broadcast'' ''notifications.broadcast'' [CallerId, Field ''title'', Field ''body'', Field
        ''category'']),
      answering 200 (handler POST ''targeted'' ''targeted'' ''notifications.targeted'' [CallerId, Field ''title'', Field ''body'', Field
        ''category'', Field ''segment'']),
      answering 200 (handler POST ''schedule'' ''schedule'' ''notifications.schedule'' [CallerId, Field ''title'', Field ''body'', Field
        ''category'', Field ''segment'', Field ''scheduledFor'']),
      handler GET ''history'' ''history'' ''notifications.history'' [WholeQuery]]"

definition notificationsController :: controller where
  "notificationsController = controllerAt '''' [JwtAuthGuard] [] [] [
      handler GET ''notifications'' ''list'' ''notifications.listNotifications'' [CallerId, QueryField ''take'', QueryField ''skip''],
      handler GET ''notifications/unread-count'' ''unreadCount'' ''notifications.unreadCount'' [CallerId],
      answering 200 (handler DELETE ''notifications/:id'' ''remove'' ''notifications.deleteNotification'' [CallerId, PathParam ''id'']),
      answering 200 (handler POST ''notifications/:id/read'' ''markRead'' ''notifications.markRead'' [CallerId, PathParam ''id'']),
      answering 200 (handler POST ''notifications/read-all'' ''markAllRead'' ''notifications.markAllRead'' [CallerId]),
      handler GET ''notifications/preferences'' ''getPreferences'' ''notifications.getPreferences'' [CallerId],
      handler PATCH ''notifications/preferences'' ''updatePreferences'' ''notifications.updatePreferences'' [CallerId, Field ''preferences''],
      answering 200 (handler POST ''devices/register'' ''registerDevice'' ''notifications.registerDevice'' [CallerId, Field ''token'', Field
        ''platform'']),
      handler DELETE ''devices/:token'' ''unregisterDevice'' ''notifications.unregisterDevice'' [CallerId, PathParam ''token'']]"

definition adminPartnershipsController :: controller where
  "adminPartnershipsController = controllerAt ''admin'' [JwtAuthGuard, RolesGuard, PermissionsGuard] [UserRole.ADMIN, UserRole.SUPER_ADMIN] [] [
      requiring [''referrals.manage''] (handler GET ''referrals'' ''listReferrals'' ''referrals.listAll'' [QueryField ''status'', QueryField
        ''take'', QueryField ''skip'']),
      requiring [''referrals.manage''] (answering 200 (handler POST ''referrals/payouts'' ''processReferralPayouts''
        ''referrals.processPayouts'' [])),
      requiring [''fleet-partners.manage''] (handler POST ''fleet-partners'' ''createFleetPartner'' ''fleetPartners.create'' [WholeBody]),
      requiring [''fleet-partners.manage''] (handler GET ''fleet-partners'' ''listFleetPartners'' ''fleetPartners.list'' []),
      requiring [''fleet-partners.manage''] (handler GET ''fleet-partners/:id'' ''getFleetPartner'' ''fleetPartners.getDetail'' [PathParam ''id'']),
      requiring [''fleet-partners.manage''] (handler POST ''fleet-partners/:id/drivers'' ''attachDriver'' ''fleetPartners.attachDriver''
        [PathParam ''id'', Field ''driverId'']),
      requiring [''fleet-partners.manage''] (handler GET ''fleet-partners/:id/drivers'' ''listFleetDrivers'' ''fleetPartners.listDrivers''
        [PathParam ''id'']),
      requiring [''fleet-partners.manage''] (handler GET ''fleet-partners/:id/earnings'' ''getFleetEarnings'' ''fleetPartners.getEarnings''
        [PathParam ''id'', QueryField ''from'', QueryField ''to'']),
      requiring [''partner-offers.manage''] (handler POST ''partner-offers'' ''createPartnerOffer'' ''partnerOffers.create'' [WholeBody]),
      requiring [''partner-offers.manage''] (handler PATCH ''partner-offers/:id'' ''updatePartnerOffer'' ''partnerOffers.update'' [PathParam
        ''id'', WholeBody]),
      requiring [''partner-offers.manage''] (handler GET ''partner-offers/:id/claims'' ''getPartnerOfferClaims'' ''partnerOffers.getClaims''
        [PathParam ''id''])]"

definition partnershipsController :: controller where
  "partnershipsController = controllerAt '''' [JwtAuthGuard] [] [] [
      handler POST ''referrals/generate'' ''generateReferralCode'' ''referrals.generateCode'' [CallerId],
      handler GET ''referrals/me'' ''myReferralStats'' ''referrals.myStats'' [CallerId],
      answering 200 (handler POST ''referrals/redeem'' ''redeemReferral'' ''referrals.redeem'' [CallerId, Field ''code'']),
      handler GET ''partner-offers'' ''listPartnerOffers'' ''partnerOffers.list'' [CallerRole],
      handler GET ''partner-offers/:id'' ''getPartnerOffer'' ''partnerOffers.getDetail'' [PathParam ''id''],
      answering 200 (handler POST ''partner-offers/:id/claim'' ''claimPartnerOffer'' ''partnerOffers.claim'' [PathParam ''id'', CallerId])]"

definition adminPricingController :: controller where
  "adminPricingController = controllerAt ''admin/pricing'' [JwtAuthGuard, RolesGuard, PermissionsGuard] [UserRole.ADMIN,
    UserRole.SUPER_ADMIN] [''wallet.commission.edit''] [
      handler GET ''tariffs'' ''listTariffs'' ''pricing.listTariffs'' [],
      handler POST ''tariffs'' ''createTariff'' ''pricing.createTariff'' [WholeBody],
      handler PATCH ''tariffs/:id'' ''updateTariff'' ''pricing.updateTariff'' [PathParam ''id'', WholeBody],
      handler DELETE ''tariffs/:id'' ''deactivateTariff'' ''pricing.deactivateTariff'' [PathParam ''id''],
      handler GET ''commissions'' ''listCommissionRules'' ''pricing.listCommissionRules'' [],
      handler POST ''commissions'' ''createCommissionRule'' ''pricing.createCommissionRule'' [WholeBody],
      handler PATCH ''commissions/:id'' ''updateCommissionRule'' ''pricing.updateCommissionRule'' [PathParam ''id'', WholeBody]]"

definition pricingController :: controller where
  "pricingController = controllerAt ''pricing'' [] [] [] [
      handler GET ''tariffs/active'' ''getActiveTariff'' ''pricing.getActiveTariff'' [QueryField ''vehicleType'', QueryField
        ''serviceAreaId'', QueryField ''serviceType'']]"

definition adminPromoController :: controller where
  "adminPromoController = controllerAt ''admin/promos'' [JwtAuthGuard, RolesGuard, PermissionsGuard] [UserRole.ADMIN, UserRole.SUPER_ADMIN]
    [''promos.manage''] [
      handler POST '''' ''create'' ''promo.createPromo'' [WholeBody],
      handler GET '''' ''list'' ''promo.listPromos'' [],
      handler PATCH '':id'' ''update'' ''promo.updatePromo'' [PathParam ''id'', WholeBody],
      answering 200 (handler DELETE '':id'' ''remove'' ''promo.deletePromo'' [PathParam ''id'']),
      handler GET '':id/redemptions'' ''redemptions'' ''promo.getRedemptionStats'' [PathParam ''id'']]"

definition promoController :: controller where
  "promoController = controllerAt '''' [JwtAuthGuard] [] [] [
      answering 200 (handler POST ''promos/validate'' ''validate'' ''promo.validate'' [Field ''code'', Field ''service'', Field
        ''fareAmount'', CallerId]),
      handler GET ''promos/featured'' ''featured'' ''promo.listFeatured'' [],
      handler GET ''users/me/promos/redemptions'' ''myRedemptions'' ''promo.myRedemptions'' [CallerId, QueryField ''take'', QueryField ''skip'']]"

definition reportsController :: controller where
  "reportsController = controllerAt ''admin/reports'' [JwtAuthGuard, RolesGuard, PermissionsGuard] [UserRole.ADMIN, UserRole.SUPER_ADMIN]
    [''reports.view''] [
      handler GET ''riders'' ''riders'' ''reports.ridersReport'' [QueryField ''from'', QueryField ''to''],
      handler GET ''drivers'' ''drivers'' ''reports.driversReport'' [QueryField ''from'', QueryField ''to''],
      handler GET ''rides'' ''rides'' ''reports.ridesReport'' [QueryField ''from'', QueryField ''to''],
      handler GET ''logistics'' ''logistics'' ''reports.logisticsReport'' [QueryField ''from'', QueryField ''to''],
      handler GET ''business'' ''business'' ''reports.businessReport'' [QueryField ''from'', QueryField ''to''],
      handler GET ''kilowatt'' ''kilowatt'' ''reports.kilowattReport'' [QueryField ''from'', QueryField ''to''],
      handler GET ''finance'' ''finance'' ''reports.financeReport'' [QueryField ''from'', QueryField ''to''],
      handler GET ''support'' ''support'' ''reports.supportReport'' [QueryField ''from'', QueryField ''to''],
      answering 200 (exporting ''report'' (handler POST ''export'' ''export'' ''reports.buildExportDocument'' [Field ''type'', Field
        ''from'', Field ''to'', CallerId])),
      answering 200 (handler POST ''schedule'' ''scheduleReport'' ''reports.scheduleReport'' [CallerId, WholeBody])]"

definition adminRidesController :: controller where
  "adminRidesController = controllerAt ''admin/rides'' [JwtAuthGuard, RolesGuard, PermissionsGuard] [UserRole.ADMIN, UserRole.SUPER_ADMIN]
    [''rides.view''] [
      handler GET '''' ''list'' ''adminRides.list'' [WholeQuery],
      exporting ''rides'' (handler GET ''export'' ''export'' ''adminRides.exportRides'' [WholeQuery, CallerId]),
      handler GET ''stats'' ''stats'' ''adminRides.stats'' [],
      handler GET ''cancellations'' ''listCancellations'' ''cancellation.listCancellations'' [QueryField ''take'', QueryField ''skip''],
      handler GET '':id'' ''detail'' ''adminRides.detail'' [PathParam ''id'']]"

definition dispatchController :: controller where
  "dispatchController = controllerAt '''' [JwtAuthGuard] [] [] [
      answering 200 (afterChecks [DriverIsPath ''id'' ''You can only act as yourself''] (handler POST ''drivers/:id/status'' ''setStatus''
        ''dispatch.setDriverStatus'' [CallerId, Field ''availability'', Field ''vehicleType'', Field ''serviceMode''])),
      answering 200 (afterChecks [DriverIsPath ''id'' ''You can only act as yourself''] (handler POST ''drivers/:id/location''
        ''pushLocation'' ''dispatch.pushLocation'' [CallerId, Field ''lat'', Field ''lng''])),
      answering 200 (handler POST ''dispatch/:rideId/start'' ''startDispatch'' ''dispatch.startDispatch'' [PathParam ''rideId'']),
      answering 200 (afterChecks [DriverIsPath ''driverId'' ''You can only act as yourself''] (handler POST
        ''dispatch/:rideId/offers/:driverId/accept'' ''acceptOffer'' ''dispatch.acceptOffer'' [CallerId, PathParam ''rideId''])),
      answering 200 (afterChecks [DriverIsPath ''driverId'' ''You can only act as yourself''] (handler POST
        ''dispatch/:rideId/offers/:driverId/decline'' ''declineOffer'' ''dispatch.declineOffer'' [CallerId, PathParam ''rideId'']))]"

definition placesController :: controller where
  "placesController = controllerAt ''places'' [] [] [] [
      handler GET ''autocomplete'' ''autocomplete'' ''maps.autocomplete'' [QueryField ''query'', QueryField ''lat'', QueryField ''lng''],
      handler GET ''details'' ''details'' ''maps.placeDetails'' [QueryField ''placeId''],
      handler GET ''reverse-geocode'' ''reverseGeocode'' ''maps.reverseGeocode'' [QueryField ''lat'', QueryField ''lng'']]"

definition publicRideTrackingController :: controller where
  "publicRideTrackingController = controllerAt ''track/ride'' [] [] [] [
      handler GET '':shareToken'' ''track'' ''rides.getSharedRide'' [PathParam ''shareToken'']]"

definition ridesController :: controller where
  "ridesController = controllerAt ''rides'' [] [] [] [
      guarded [OptionalJwtAuthGuard] (answering 200 (handler POST ''fare-estimate'' ''fareEstimate'' ''rides.estimateFare'' [WholeBody,
        CallerIdIfAny])),
      guarded [JwtAuthGuard] (afterChecks [RoleIs UserRole.RIDER ''Only riders can book rides''] (handler POST '''' ''createRide''
        ''rides.createRide'' [CallerId, WholeBody])),
      guarded [JwtAuthGuard] (handler GET '''' ''listRides'' ''rides.listRides'' [CallerId, CallerSide, QueryField ''take'', QueryField ''skip'']),
      guarded [JwtAuthGuard] (handler GET ''reviews'' ''listMyReviews'' ''rides.listMyReviews'' [CallerId, QueryField ''take'', QueryField ''skip'']),
      guarded [JwtAuthGuard] (handler GET '':id'' ''getRide'' ''rides.getRide'' [CallerId, PathParam ''id'']),
      guarded [JwtAuthGuard] (answering 200 (handler POST '':id/rate'' ''rateRide'' ''rides.rateRide'' [CallerId, PathParam ''id'', Field
        ''rating'', Field ''comment''])),
      guarded [JwtAuthGuard] (answering 200 (handler POST '':id/share'' ''share'' ''rides.shareRide'' [CallerId, PathParam ''id''])),
      guarded [JwtAuthGuard] (answering 200 (handler POST '':id/arrived'' ''arrived'' ''trip.markArrived'' [CallerId, PathParam ''id''])),
      guarded [JwtAuthGuard] (answering 200 (handler POST '':id/start'' ''start'' ''trip.startTrip'' [CallerId, PathParam ''id''])),
      guarded [JwtAuthGuard] (answering 200 (handler POST '':id/complete'' ''complete'' ''trip.completeTrip'' [CallerId, PathParam ''id''])),
      guarded [JwtAuthGuard] (handler GET '':id/receipt'' ''receipt'' ''trip.getReceipt'' [CallerId, PathParam ''id'']),
      guarded [JwtAuthGuard] (answering 200 (handler POST '':id/cancel'' ''cancel'' ''cancellation.cancel'' [CallerId, PathParam ''id'',
        Field ''reason'']))]"

definition savedPlacesController :: controller where
  "savedPlacesController = controllerAt ''users/me/places'' [JwtAuthGuard] [] [] [
      handler GET '''' ''list'' ''places.list'' [CallerId],
      handler GET ''recent'' ''recent'' ''places.recent'' [CallerId],
      handler POST '''' ''create'' ''places.create'' [CallerId, WholeBody],
      handler PATCH '':id'' ''update'' ''places.update'' [CallerId, PathParam ''id'', WholeBody],
      answering 200 (handler DELETE '':id'' ''remove'' ''places.remove'' [CallerId, PathParam ''id''])]"

definition adminServiceAreasController :: controller where
  "adminServiceAreasController = controllerAt ''admin/service-areas'' [JwtAuthGuard, RolesGuard, PermissionsGuard] [UserRole.ADMIN,
    UserRole.SUPER_ADMIN] [''service-areas.manage''] [
      handler POST '''' ''create'' ''serviceAreasService.create'' [WholeBody],
      handler PATCH '':id'' ''update'' ''serviceAreasService.update'' [PathParam ''id'', WholeBody],
      handler DELETE '':id'' ''remove'' ''serviceAreasService.remove'' [PathParam ''id'']]"

definition serviceAreasController :: controller where
  "serviceAreasController = controllerAt ''service-areas'' [] [] [] [
      answering 200 (handler POST ''validate'' ''validate'' ''serviceAreasService.validateLocation'' [Field ''lat'', Field ''lng'']),
      handler GET '''' ''list'' ''serviceAreasService.list'' []]"

definition adminSupportController :: controller where
  "adminSupportController = controllerAt ''admin/support/tickets'' [JwtAuthGuard, RolesGuard, PermissionsGuard] [UserRole.ADMIN,
    UserRole.SUPER_ADMIN, UserRole.SUPPORT_AGENT] [''support.tickets.manage''] [
      handler GET '''' ''listAll'' ''support.listAllTickets'' [QueryField ''status'', QueryField ''priority'', QueryField ''assignedToId'',
        QueryField ''from'', QueryField ''to'', QueryField ''take'', QueryField ''skip''],
      exporting ''support-tickets'' (handler GET ''export'' ''export'' ''support.exportTickets'' [WholeQuery, CallerId]),
      handler PATCH '':id'' ''update'' ''support.adminUpdate'' [PathParam ''id'', CallerId, WholeBody],
      answering 200 (handler POST '':id/assign'' ''assign'' ''support.assign'' [PathParam ''id'', Field ''assignedToId'']),
      answering 200 (handler POST '':id/escalate'' ''escalate'' ''support.escalate'' [PathParam ''id'', CallerId, Field ''reason'']),
      answering 200 (handler POST '':id/resolve'' ''resolve'' ''support.resolve'' [PathParam ''id'', CallerId, Field ''resolutionNote''])]"

definition supportController :: controller where
  "supportController = controllerAt ''support/tickets'' [JwtAuthGuard] [] [] [
      handler POST '''' ''createTicket'' ''support.createTicket'' [CallerId, WholeBody],
      handler GET '''' ''listMyTickets'' ''support.listMyTickets'' [CallerId, QueryField ''take'', QueryField ''skip''],
      handler GET '':id'' ''getTicket'' ''support.getTicket'' [CallerId, CallerRole, PathParam ''id''],
      answering 200 (handler POST '':id/reply'' ''reply'' ''support.reply'' [CallerId, CallerRole, PathParam ''id'', Field ''body''])]"

definition adminWalletController :: controller where
  "adminWalletController = controllerAt ''admin'' [JwtAuthGuard, RolesGuard, PermissionsGuard] [UserRole.ADMIN, UserRole.SUPER_ADMIN]
    [''finance.transactions.view''] [
      handler GET ''finance/stats'' ''financeStats'' ''finance.stats'' [],
      handler GET ''finance/revenue-by-service'' ''revenueByService'' ''finance.revenueByService'' [QueryField ''range''],
      handler GET ''finance/topup-trend'' ''topupTrend'' ''finance.topupTrend'' [QueryField ''range''],
      handler GET ''finance/transactions'' ''listTransactions'' ''finance.listTransactions'' [WholeQuery],
      exporting ''transactions'' (handler GET ''finance/transactions/export'' ''exportTransactions'' ''finance.exportTransactions''
        [WholeQuery, CallerId]),
      exporting ''withdrawals'' (handler GET ''withdrawals/export'' ''exportWithdrawals'' ''finance.exportWithdrawals'' [WholeQuery, CallerId]),
      handler GET ''withdrawals'' ''listWithdrawals'' ''finance.listWithdrawals'' [WholeQuery],
      handler GET ''wallets/:userId'' ''getWallets'' ''prisma.account.findMany'' [PathParam ''userId'']]"

definition walletWebhooksController :: controller where
  "walletWebhooksController = controllerAt ''wallet/webhooks'' [] [] [] [
      answering 200 (unthrottled (afterChecks [SignedBody] (handler POST ''paystack'' ''handlePaystackWebhook'' ''payments.processWebhook''
        [WholeBody])))]"

definition walletController :: controller where
  "walletController = controllerAt ''wallet'' [JwtAuthGuard] [] [] [
      handler GET '''' ''getWallet'' ''wallet.getOrCreateUserAccount'' [CallerId, CallerWallet],
      handler GET ''transactions'' ''getTransactions'' ''history.listForAccount'' [CallerWallet, QueryField ''take'', QueryField ''skip''],
      handler GET ''transactions/:id'' ''getTransaction'' ''history.getForAccount'' [CallerWallet, PathParam ''id''],
      afterChecks [RoleIs UserRole.DRIVER ''Only drivers accrue commission''] (handler GET ''commission/outstanding''
        ''getOutstandingCommission'' ''wallet.getOrCreateUserAccount'' [CallerId, Fixed ''DRIVER_COMMISSION_PAYABLE'']),
      idempotent (answering 200 (handler POST ''topup'' ''topUp'' ''payments.initiateTopUp'' [CallerId, WholeBody])),
      handler GET ''topup/:reference'' ''topUpStatus'' ''payments.getTopUpStatus'' [CallerId, PathParam ''reference''],
      handler GET ''cards'' ''listCards'' ''payments.listCards'' [CallerId],
      idempotent (answering 200 (handler POST ''cards'' ''addCard'' ''payments.initiateCardSetup'' [CallerId])),
      handler PATCH ''cards/:id/default'' ''setDefaultCard'' ''payments.setDefaultCard'' [CallerId, PathParam ''id''],
      answering 200 (handler DELETE ''cards/:id'' ''removeCard'' ''payments.removeCard'' [CallerId, PathParam ''id'']),
      idempotent (answering 200 (afterChecks [RoleIs UserRole.DRIVER ''Only drivers can request withdrawals''] (handler POST ''withdraw''
        ''withdraw'' ''payments.initiateWithdrawal'' [CallerId, Field ''amount'', Field ''accountNumber'', Field ''bankCode''])))]"

section \<open>All of them\<close>

definition controllers :: "controller list" where
  "controllers = [adminInvitesController, adminProfileController, adminRolesController, adminPermissionsController, adminStaffController,
    authController, socialAuthController, usersController, activityController, adminOpsController, adminBusinessController,
    businessInvitesController, businessController, driversController, healthController, adminKilowattController, kilowattController,
    adminGuarantorController, adminKycController, kycController, publicGuarantorController, adminLogisticsController, logisticsController,
    publicTrackingController, adminNotificationsController, notificationsController, adminPartnershipsController, partnershipsController,
    adminPricingController, pricingController, adminPromoController, promoController, reportsController, adminRidesController,
    dispatchController, placesController, publicRideTrackingController, ridesController, savedPlacesController, adminServiceAreasController,
    serviceAreasController, adminSupportController, supportController, adminWalletController, walletWebhooksController, walletController]"

lemmas controller_defs = adminInvitesController_def adminProfileController_def adminRolesController_def adminPermissionsController_def
    adminStaffController_def authController_def socialAuthController_def usersController_def activityController_def adminOpsController_def
    adminBusinessController_def businessInvitesController_def businessController_def driversController_def healthController_def
    adminKilowattController_def kilowattController_def adminGuarantorController_def adminKycController_def kycController_def
    publicGuarantorController_def adminLogisticsController_def logisticsController_def publicTrackingController_def
    adminNotificationsController_def notificationsController_def adminPartnershipsController_def partnershipsController_def
    adminPricingController_def pricingController_def adminPromoController_def promoController_def reportsController_def
    adminRidesController_def dispatchController_def placesController_def publicRideTrackingController_def ridesController_def
    savedPlacesController_def adminServiceAreasController_def serviceAreasController_def adminSupportController_def supportController_def
    adminWalletController_def walletWebhooksController_def walletController_def

lemmas endpoint_defs = handler_def guarded_def forRoles_def requiring_def throttled_def unthrottled_def idempotent_def
  uploading_def answering_def afterChecks_def exporting_def controllerAt_def

end
