(* ===== verification/EndpointProps.thy ===== *)
theory EndpointProps
  imports Endpoints
begin

text \<open>
  Who may call what, and which handler answers: every admin endpoint asks for a staff role and, but for a
  short list, for a permission that the caller was granted; no endpoint is hidden behind an earlier one of
  its controller; and the endpoints that need a token but do not use the identity of the caller are listed.
\<close>

definition allRoutes :: "route list" where
  "allRoutes = concat (map routesOf controllers)"

section \<open>Admin endpoints\<close>

text \<open>What any staff member may do without a permission: their own profile, and reading roles, permissions and staff.\<close>

definition staffOwn :: "route \<Rightarrow> bool" where
  "staffOwn r \<longleftrightarrow> take 2 (rt_pattern r) = [''admin'', ''profile'']
     \<or> (hn_verb (rt_endpoint r) = GET \<and> rt_pattern r \<in> {[''admin'', ''roles''], [''admin'', ''permissions''], [''admin'', ''staff'']})
     \<or> (rt_pattern r = [''admin'', ''roles''] \<and> rt_roles r = [UserRole.SUPER_ADMIN])"

definition supportDesk :: "route \<Rightarrow> bool" where
  "supportDesk r \<longleftrightarrow> take 2 (rt_pattern r) = [''admin'', ''profile''] \<or> take 3 (rt_pattern r) = [''admin'', ''support'', ''tickets'']"

fun staffGuards :: "guard list \<Rightarrow> bool" where
  "staffGuards (JwtAuthGuard # gs) = (list_all (\<lambda>g. g = RolesGuard \<or> g = PermissionsGuard) gs \<and> RolesGuard \<in> set gs)"
| "staffGuards _ = False"

definition guardedAdmin :: "route \<Rightarrow> bool" where
  "guardedAdmin r \<longleftrightarrow> (case rt_pattern r of [] \<Rightarrow> True | a # _ \<Rightarrow> a = ''admin'' \<longrightarrow>
     staffGuards (rt_guards r) \<and> rt_roles r \<noteq> []
     \<and> list_all (\<lambda>x. x = UserRole.ADMIN \<or> x = UserRole.SUPER_ADMIN \<or> (x = UserRole.SUPPORT_AGENT \<and> supportDesk r)) (rt_roles r)
     \<and> (staffOwn r \<or> (PermissionsGuard \<in> set (rt_guards r) \<and> rt_permissions r \<noteq> [])))"

text \<open>\<open>hides p q\<close>: every path of \<open>q\<close> that names no reserved word is a path of \<open>p\<close>.\<close>

fun hides :: "string list \<Rightarrow> string list \<Rightarrow> bool" where
  "hides [] [] = True"
| "hides (a # p) (b # q) = ((isParam a \<or> a = b) \<and> hides p q)"
| "hides _ _ = False"

fun clear :: "(verb \<times> string list) list \<Rightarrow> bool" where
  "clear [] = True"
| "clear ((v, p) # rs) = (list_all (\<lambda>(w, q). w \<noteq> v \<or> \<not> hides p q) rs \<and> clear rs)"

definition inOrder :: "route list \<Rightarrow> bool" where
  "inOrder rs = clear (map (\<lambda>r. (hn_verb (rt_endpoint r), prefixed (rt_pattern r))) rs)"

lemma inOrder_Cons: "inOrder (r # rs) \<longleftrightarrow> list_all (\<lambda>q. hn_verb (rt_endpoint q) \<noteq> hn_verb (rt_endpoint r)
       \<or> \<not> hides (prefixed (rt_pattern r)) (prefixed (rt_pattern q))) rs \<and> inOrder rs"
  by (auto simp: inOrder_def list_all_iff)

text \<open>Every literal segment of the source is in lower case.\<close>

fun lowerChar :: "char \<Rightarrow> bool" where
  "lowerChar (Char b0 b1 b2 b3 b4 b5 b6 b7) = (b6 \<longrightarrow> b5)"

definition lowerCase :: "route \<Rightarrow> bool" where
  "lowerCase r \<longleftrightarrow> list_all (\<lambda>a. isParam a \<or> list_all lowerChar a) (prefixed (rt_pattern r))"

text \<open>The endpoints outside admin/ that need a token but use neither the identity of the caller nor a check of it.\<close>

definition bindsCaller :: "route \<Rightarrow> bool" where
  "bindsCaller r \<longleftrightarrow> list_ex (\<lambda>a. a = CallerId \<or> a = CallerWallet \<or> a = CallerRole) (hn_args (rt_endpoint r))"

definition doorOk :: "route \<Rightarrow> bool" where
  "doorOk r \<longleftrightarrow> (case rt_pattern r of [] \<Rightarrow> True | a # _ \<Rightarrow>
     a = ''admin'' \<or> JwtAuthGuard \<notin> set (rt_guards r) \<or> bindsCaller r
     \<or> hn_calls (rt_endpoint r) \<in> {''partnerOffers.getDetail'', ''promo.listFeatured'', ''dispatch.startDispatch''})"

section \<open>What holds of every controller\<close>

definition soundRoute :: "route \<Rightarrow> bool" where
  "soundRoute r \<longleftrightarrow> guardedAdmin r \<and> lowerCase r \<and> doorOk r"

definition soundRoutes :: "route list \<Rightarrow> bool" where
  "soundRoutes rs \<longleftrightarrow> list_all soundRoute rs \<and> inOrder rs"

text \<open>Checked by evaluation, once, over all controllers.\<close>

lemma all_sound: "list_all (\<lambda>c. soundRoutes (routesOf c)) controllers"
  by code_simp

lemma sound_controller: "c \<in> set controllers \<Longrightarrow> inOrder (routesOf c)"
  "c \<in> set controllers \<Longrightarrow> r \<in> set (routesOf c) \<Longrightarrow> guardedAdmin r \<and> lowerCase r \<and> doorOk r"
  using all_sound by (auto simp: list_all_iff soundRoutes_def soundRoute_def)

lemma guarded_route: "r \<in> set allRoutes \<Longrightarrow> guardedAdmin r"
  using sound_controller(2) by (auto simp: allRoutes_def)

section \<open>Getting in\<close>

lemma enter_guards:
  assumes "enter jwt binder r rq s = (Inr (user, ps), t)" and "staffGuards (rt_guards r)"
  shows "(\<exists>i p. rq_token rq = Some i \<and> jwt i = Some p \<and> user = Some p)
    \<and> (\<forall>g \<in> set (rt_guards r). granted jwt (rt_roles r) (rt_permissions r) (rq_token rq) s user g)"
proof -
  obtain gs where gs: "rt_guards r = JwtAuthGuard # gs" "set gs \<subseteq> {RolesGuard, PermissionsGuard}"
    using assms(2) by (cases "rt_guards r" rule: staffGuards.cases) (auto simp: list_all_iff)
  obtain u where "runGuards jwt (rt_roles r) (rt_permissions r) (rq_token rq) (JwtAuthGuard # gs) None s = (Inr u, snd (runGuards jwt (rt_roles r) (rt_permissions r) (rq_token rq) (JwtAuthGuard # gs) None s))" "u = user"
    using assms(1) unfolding enter_def gs(1) Let_def
    by (auto simp: bind_def return_def simp del: runGuards.simps split: prod.splits sum.splits)
  from runGuards_after_token [OF this(1) gs(2)] this(2) show ?thesis by (auto simp: gs(1) granted_def)
qed

text \<open>C28: the admin side is staff only: whoever gets through the guards of an endpoint under admin/ presented a
  valid token of an ADMIN, a SUPER_ADMIN or, at the support desk and the own profile alone, a SUPPORT_AGENT, and
  unless the endpoint is one of the few open to all staff the caller is a SUPER_ADMIN or was granted every
  permission the endpoint names, of which there is at least one.\<close>

theorem admin_side_is_staff_only:
  assumes "r \<in> set allRoutes" and "hd (rt_pattern r) = ''admin''" and "rt_pattern r \<noteq> []" and "enter jwt binder r rq s = (Inr (user, ps), t)"
  shows "\<exists>token p. rq_token rq = Some token \<and> jwt token = Some p \<and> user = Some p
    \<and> (jp_role p \<in> {UserRole.ADMIN, UserRole.SUPER_ADMIN} \<or> jp_role p = UserRole.SUPPORT_AGENT \<and> supportDesk r)
    \<and> (staffOwn r \<or> rt_permissions r \<noteq> [] \<and> (jp_role p = UserRole.SUPER_ADMIN \<or> set (rt_permissions r) \<subseteq> set (permissionsOf s (jp_sub p))))"
proof -
  have ok: "staffGuards (rt_guards r)" "rt_roles r \<noteq> []"
    "list_all (\<lambda>x. x = UserRole.ADMIN \<or> x = UserRole.SUPER_ADMIN \<or> (x = UserRole.SUPPORT_AGENT \<and> supportDesk r)) (rt_roles r)"
    "staffOwn r \<or> (PermissionsGuard \<in> set (rt_guards r) \<and> rt_permissions r \<noteq> [])"
    using guarded_route [OF assms(1)] assms(2,3) by (auto simp: guardedAdmin_def split: list.splits)
  note run = enter_guards [OF assms(4) ok(1)]
  obtain token p where p: "rq_token rq = Some token" "jwt token = Some p" "user = Some p" using run by blast
  have "RolesGuard \<in> set (rt_guards r)" using ok(1) by (cases "rt_guards r" rule: staffGuards.cases) auto
  then have "jp_role p \<in> set (rt_roles r)" using run p ok(2) by (auto simp: granted_def)
  moreover have "jp_role p = UserRole.SUPER_ADMIN \<or> set (rt_permissions r) \<subseteq> set (permissionsOf s (jp_sub p))" if "\<not> staffOwn r"
    using run p ok(4) that by (fastforce simp: granted_def)
  ultimately show ?thesis using ok(3,4) p by (auto simp: list_all_iff)
qed

text \<open>A super admin asks for the invitations.\<close>

definition superClaims :: jwtPayload where
  "superClaims = \<lparr>jp_sub = ''root'', jp_role = UserRole.SUPER_ADMIN, jp_phone = ''080'', jp_sid = None\<rparr>"

definition superToken :: "string \<Rightarrow> jwtPayload option" where
  "superToken token = (if token = ''t'' then Some superClaims else None)"

definition inviteListing :: route where
  "inviteListing = routeFor adminInvitesController
     (requiring [''staff.manage''] (handler GET '''' ''listInvites'' ''invitesService.listInvites'' []))"

definition inviteRequest :: httpRequest where
  "inviteRequest = \<lparr>rq_verb = GET, rq_path = [''api'', ''v1'', ''admin'', ''staff'', ''invites''], rq_token = Some ''t'', rq_signed = False\<rparr>"

lemma inviteListing_declared: "inviteListing \<in> set allRoutes"
  by (auto simp: allRoutes_def controllers_def routesOf_def inviteListing_def adminInvitesController_def controllerAt_def)

lemma inviteListing_params: "pathParams (prefixed (rt_pattern inviteListing)) (rq_path inviteRequest) = []"
  by code_simp

lemma invitations_entered: "enter superToken pathParams inviteListing inviteRequest s = (Inr (Some superClaims, []), s)"
proof -
  have "rt_guards inviteListing = [JwtAuthGuard, RolesGuard, PermissionsGuard]" "rt_roles inviteListing = [UserRole.ADMIN, UserRole.SUPER_ADMIN]"
    "hn_checks (rt_endpoint inviteListing) = []" "rq_token inviteRequest = Some ''t''"
    by code_simp+
  then show ?thesis
    by (simp add: enter_def inviteListing_params superToken_def superClaims_def rolesGuard_def permissionsGuard_def run_simps)
qed

theorem admin_side_is_staff_only_witness:
  "\<exists>token p. rq_token inviteRequest = Some token \<and> superToken token = Some p \<and> Some superClaims = Some p
    \<and> (jp_role p \<in> {UserRole.ADMIN, UserRole.SUPER_ADMIN} \<or> jp_role p = UserRole.SUPPORT_AGENT \<and> supportDesk inviteListing)
    \<and> (staffOwn inviteListing \<or> rt_permissions inviteListing \<noteq> [] \<and> (jp_role p = UserRole.SUPER_ADMIN
        \<or> set (rt_permissions inviteListing) \<subseteq> set (permissionsOf emptyDb (jp_sub p))))"
proof (rule admin_side_is_staff_only [OF inviteListing_declared _ _ invitations_entered])
  show "hd (rt_pattern inviteListing) = ''admin''" by code_simp
  show "rt_pattern inviteListing \<noteq> []" by code_simp
qed

section \<open>Which handler answers\<close>

text \<open>The literal segments of the routes of a controller, and a path that uses none of them as a parameter.\<close>

definition reserved :: "route list \<Rightarrow> string set" where
  "reserved rs = {a. \<not> isParam a \<and> (\<exists>r \<in> set rs. a \<in> set (prefixed (rt_pattern r)))}"

fun fits :: "string set \<Rightarrow> string list \<Rightarrow> string list \<Rightarrow> bool" where
  "fits W [] [] = True"
| "fits W (a # p) (x # path) = ((if isParam a then toLowerCase x \<notin> W else a = toLowerCase x) \<and> fits W p path)"
| "fits W _ _ = False"

lemma lowerChar_toLower: "lowerChar c \<Longrightarrow> toLower c = c"
  by (cases c) (auto simp: toLower_def of_char_Char Let_def split: if_splits bool.splits)

lemma lowerCase_literal: "lowerCase r \<Longrightarrow> a \<in> set (prefixed (rt_pattern r)) \<Longrightarrow> \<not> isParam a \<Longrightarrow> toLowerCase a = a"
  unfolding lowerCase_def toLowerCase_def list_all_iff by (auto intro!: map_idI lowerChar_toLower)

lemma fits_matches: "fits W p path \<Longrightarrow> \<forall>a \<in> set p. isParam a \<or> toLowerCase a = a \<Longrightarrow> matches p path"
  by (induction W p path rule: fits.induct) (auto split: if_splits)

lemma other_match_hides:
  "fits W q path \<Longrightarrow> matches p path \<Longrightarrow> \<forall>a \<in> set p. isParam a \<or> a \<in> W \<and> toLowerCase a = a \<Longrightarrow> hides p q"
proof (induction p q arbitrary: path rule: hides.induct)
  case (2 a p b q)
  then obtain x path' where path: "path = x # path'" by (cases path) auto
  then show ?case using 2 by (auto split: if_splits)
qed (auto elim: fits.elims matches.elims)

text \<open>C33: within a controller the static paths come first: a request whose path fits the pattern of an endpoint, with
  no parameter equal to a literal segment of the controller, is answered by that endpoint and by no other one
  declared before it, for a router that matches segment by segment and ignores the case of literals.\<close>

theorem requests_reach_their_handler:
  assumes "c \<in> set controllers" and "r \<in> set (routesOf c)"
    and "fits (reserved (routesOf c)) (prefixed (rt_pattern r)) path"
    and router: "\<And>p x. matcher p x = matches p x"
  shows "resolve matcher (routesOf c) (hn_verb (rt_endpoint r)) path = Some r"
proof -
  have lower: "lowerCase q" if "q \<in> set (routesOf c)" for q
    using sound_controller(2) [OF assms(1) that] by blast
  have "resolve matcher rs (hn_verb (rt_endpoint r)) path = Some r"
    if "inOrder rs" "r \<in> set rs" "set rs \<subseteq> set (routesOf c)" for rs
    using that
  proof (induction rs)
    case (Cons q rs)
    have words: "\<forall>a \<in> set (prefixed (rt_pattern q)). isParam a \<or> a \<in> reserved (routesOf c) \<and> toLowerCase a = a"
      using Cons.prems(3) lowerCase_literal [OF lower [of q]] by (auto simp: reserved_def)
    show ?case
    proof (cases "q = r")
      case False
      then have r: "r \<in> set rs" using Cons.prems(2) by simp
      have "\<not> (hn_verb (rt_endpoint q) = hn_verb (rt_endpoint r) \<and> matches (prefixed (rt_pattern q)) path)"
        using other_match_hides [OF assms(3) _ words] Cons.prems(1) r by (auto simp: inOrder_Cons list_all_iff)
      then show ?thesis using Cons.IH Cons.prems(1,3) r router by (auto simp: resolve_def inOrder_Cons)
    next
      case True
      then show ?thesis using fits_matches [OF assms(3)] words router by (auto simp: resolve_def)
    qed
  qed simp
  then show ?thesis using sound_controller(1) [OF assms(1)] assms(2) by blast
qed

text \<open>The export of the riders is not taken for the rider called export.\<close>

definition ridersExport :: route where
  "ridersExport = routeFor adminOpsController
     (requiring [''admin.users.manage''] (exporting ''riders'' (handler GET ''riders/export'' ''exportRiders'' ''adminOps.exportRiders'' [WholeQuery, CallerId])))"

theorem requests_reach_their_handler_witness:
  "resolve matches (routesOf adminOpsController) GET [''api'', ''v1'', ''admin'', ''riders'', ''export''] = Some ridersExport"
proof -
  have "adminOpsController \<in> set controllers" by (simp add: controllers_def)
  moreover have "ridersExport \<in> set (routesOf adminOpsController)"
    by (simp add: routesOf_def adminOpsController_def controllerAt_def ridersExport_def)
  moreover have "prefixed (rt_pattern ridersExport) = [''api'', ''v1'', ''admin'', ''riders'', ''export'']" by code_simp
  moreover have "fits W [''api'', ''v1'', ''admin'', ''riders'', ''export''] [''api'', ''v1'', ''admin'', ''riders'', ''export'']" for W
    by (simp add: isParam_def toLowerCase_def toLower_def)
  moreover have "hn_verb (rt_endpoint ridersExport) = GET" by code_simp
  ultimately show ?thesis
    using requests_reach_their_handler [of adminOpsController ridersExport "[''api'', ''v1'', ''admin'', ''riders'', ''export'']" matches] by simp
qed

end
