(* ===== verification/Sheets.thy ===== *)
theory Sheets
  imports Exports
begin

text \<open>
  The workbook of an export document, src/common/export/excel.renderer.ts, as the values and number formats
  it writes into cells: fonts, fills, borders and row heights are left out.  A sheet is the list of its writes
  in order; \<open>letter\<close> is the library's name of a column.  Text is ASCII but for the signs written here, so a
  character is one element of a string, as in JavaScript.
\<close>

section \<open>What is rendered\<close>

record renderColumn = exportColumn +
  rc_width :: "nat option"
  rc_total :: bool

record renderMetric = exportMetric +
  rm_tone :: "Tone option"

record renderSection =
  rs_name :: string
  rs_title :: "string option"
  rs_description :: "string option"
  rs_columns :: "renderColumn list"
  rs_rows :: "row list"
  rs_truncatedFrom :: "nat option"

record renderDocument =
  rn_title :: string
  rn_subtitle :: "string option"
  rn_generatedBy :: "string option"
  rn_period :: "(instant option \<times> instant option) option"
  rn_filters :: "(string \<times> string) list"
  rn_summary :: "renderMetric list"
  rn_sections :: "renderSection list"

definition formatOf :: "renderColumn \<Rightarrow> row \<Rightarrow> string" where
  "formatOf col r = cellFormat (exportColumn.truncate col) r"

text \<open>The signs \<open>U+20A6\<close>, \<open>U+2013\<close>, \<open>U+2014\<close> and \<open>U+00B7\<close>.\<close>

definition NAIRA :: string where "NAIRA = [CHR 0xE2, CHR 0x82, CHR 0xA6]"
definition EN_DASH :: string where "EN_DASH = [CHR 0xE2, CHR 0x80, CHR 0x93]"
definition EM_DASH :: string where "EM_DASH = [CHR 0xE2, CHR 0x80, CHR 0x94]"
definition MIDDLE_DOT :: string where "MIDDLE_DOT = [CHR 0xC2, CHR 0xB7]"

definition recordsNote :: "nat \<Rightarrow> nat \<Rightarrow> string" where
  "recordsNote shown full = ''first '' @ grouped shown @ '' of '' @ grouped full"

definition periodText :: "instant option \<times> instant option \<Rightarrow> string" where
  "periodText p = (case fst p of Some t \<Rightarrow> formatDate t | None \<Rightarrow> ''Beginning'') @ '' '' @ EN_DASH @ '' ''
     @ (case snd p of Some t \<Rightarrow> formatDate t | None \<Rightarrow> ''Now'')"

definition hasPeriod :: "renderDocument \<Rightarrow> bool" where
  "hasPeriod doc \<longleftrightarrow> (case rn_period doc of None \<Rightarrow> False | Some (a, b) \<Rightarrow> a \<noteq> None \<or> b \<noteq> None)"

section \<open>Sheet names\<close>

text \<open>\<open>s.slice(0, k)\<close>: a negative \<open>k\<close> counts from the end.\<close>

definition sliceTo :: "string \<Rightarrow> int \<Rightarrow> string" where
  "sliceTo s k = (if 0 \<le> k then take (nat k) s else take (nat (int (length s) + k)) s)"

definition suffixOf :: "nat \<Rightarrow> string" where
  "suffixOf i = '' ('' @ decimal i @ '')''"

definition suffixed :: "string \<Rightarrow> nat \<Rightarrow> string" where
  "suffixed base i = sliceTo base (31 - int (length (suffixOf i))) @ suffixOf i"

definition forbiddenInNames :: "char set" where
  "forbiddenInNames = {CHR 0x5C, CHR ''/'', CHR ''?'', CHR ''*'', CHR ''['', CHR '']'', CHR '':''}"

definition sheetBase :: "string \<Rightarrow> string" where
  "sheetBase name = (let t = trim (map (\<lambda>c. if c \<in> forbiddenInNames then CHR ''-'' else c) name) in
     take 31 (if t = [] then ''Data'' else t))"

lemma decimal_inj: "decimal i = decimal j \<Longrightarrow> i = j"
  by (metis readDecimal_decimal)

lemma lower_digit: "isDigit c \<Longrightarrow> toLower c = c"
  by (auto simp: isDigit_def toLower_def Let_def)

lemma lower_suffixOf: "toLowerCase (suffixOf i) = suffixOf i"
proof -
  have "map toLower (decimal i) = decimal i"
    using digits_decimal [of i] by (auto simp: list_all_iff intro!: map_idI lower_digit)
  then show ?thesis by (simp add: toLowerCase_def suffixOf_def) (simp add: toLower_def Let_def)
qed

text \<open>The number can be read off a suffixed name.\<close>

lemma suffixed_inj: "toLowerCase (suffixed base i) = toLowerCase (suffixed base j) \<Longrightarrow> i = j"
proof -
  assume eq: "toLowerCase (suffixed base i) = toLowerCase (suffixed base j)"
  have tail: "takeWhile (\<lambda>c. c \<noteq> CHR ''('') (rev (toLowerCase (suffixed base n))) = CHR '')'' # rev (decimal n)" for n
  proof -
    have "\<forall>c \<in> set (rev (decimal n)). c \<noteq> CHR ''(''" using digits_decimal [of n] by (auto simp: list_all_iff isDigit_def)
    then have "takeWhile (\<lambda>c. c \<noteq> CHR ''('') (rev (decimal n) @ CHR ''('' # ys) = rev (decimal n)" for ys
      by (subst takeWhile_append2) auto
    moreover have "toLowerCase (suffixed base n) = toLowerCase (sliceTo base (31 - int (length (suffixOf n)))) @ suffixOf n"
      using lower_suffixOf [of n] by (simp add: suffixed_def toLowerCase_def)
    ultimately show ?thesis by (simp add: suffixOf_def)
  qed
  from tail [of i] tail [of j] eq show "i = j" by (auto dest: decimal_inj)
qed

text \<open>The suffixes from \<open>i\<close> on that are taken: finitely many, so the search for a free one ends.\<close>

definition takenFrom :: "string list \<Rightarrow> string \<Rightarrow> nat \<Rightarrow> nat set" where
  "takenFrom taken base i = {j. i \<le> j \<and> toLowerCase (suffixed base j) \<in> set taken}"

lemma takenFrom_small: "finite (takenFrom taken base i)" "card (takenFrom taken base i) \<le> length taken"
proof -
  have inj: "inj_on (\<lambda>j. toLowerCase (suffixed base j)) (takenFrom taken base i)"
    by (rule inj_onI) (rule suffixed_inj)
  have sub: "(\<lambda>j. toLowerCase (suffixed base j)) ` takenFrom taken base i \<subseteq> set taken"
    by (auto simp: takenFrom_def)
  show "finite (takenFrom taken base i)" using inj sub by (meson finite_imageD finite_set finite_subset)
  show "card (takenFrom taken base i) \<le> length taken"
    using card_mono [OF _ sub] card_image [OF inj] card_length [of taken] by simp
qed

lemma takenFrom_step: "takenFrom taken base i = (if toLowerCase (suffixed base i) \<in> set taken then {i} else {}) \<union> takenFrom taken base (Suc i)"
  by (auto simp: takenFrom_def Suc_le_eq le_less)

lemma card_takenFrom: "card (takenFrom taken base i) = (if toLowerCase (suffixed base i) \<in> set taken then 1 else 0) + card (takenFrom taken base (Suc i))"
proof -
  have "i \<notin> takenFrom taken base (Suc i)" by (simp add: takenFrom_def)
  then show ?thesis by (subst takenFrom_step) (simp add: takenFrom_small)
qed

function freeName :: "string list \<Rightarrow> string \<Rightarrow> nat \<Rightarrow> string \<Rightarrow> string" where
  "freeName taken base i name =
     (if toLowerCase name \<in> set taken then freeName taken base (Suc i) (suffixed base i) else name)"
  by pat_completeness auto

termination
proof (relation "measure (\<lambda>(taken, base, i, name). card (takenFrom taken base i) + (if toLowerCase name \<in> set taken then 1 else 0))", goal_cases)
  case (2 taken base i name)
  then show ?case using card_takenFrom [of taken base i] by simp
qed simp

declare freeName.simps [simp del]

fun sheetNames :: "string list \<Rightarrow> string list \<Rightarrow> string list" where
  "sheetNames taken [] = []"
| "sheetNames taken (s # ss) = (let name = freeName taken (sheetBase s) 2 (sheetBase s) in
     name # sheetNames (toLowerCase name # taken) ss)"

definition uniqueSheetNames :: "renderSection list \<Rightarrow> string list" where
  "uniqueSheetNames sections = sheetNames [''summary''] (map rs_name sections)"

lemma freeName_free: "toLowerCase (freeName taken base i name) \<notin> set taken"
  by (induction taken base i name rule: freeName.induct) (subst freeName.simps, simp)

lemma freeName_number: "freeName taken base i name = name
    \<or> (\<exists>j. freeName taken base i name = suffixed base j \<and> i \<le> j \<and> j \<le> i + card (takenFrom taken base i))"
proof (induction taken base i name rule: freeName.induct)
  case (1 taken base i name)
  show ?case
  proof (cases "toLowerCase name \<in> set taken")
    case True
    have step: "freeName taken base i name = freeName taken base (Suc i) (suffixed base i)"
      using True by (subst freeName.simps) simp
    show ?thesis
    proof (cases "toLowerCase (suffixed base i) \<in> set taken")
      case taken: True
      then have "freeName taken base (Suc i) (suffixed base i) \<noteq> suffixed base i"
        by (metis freeName_free)
      then show ?thesis using 1(1) [OF True] step taken card_takenFrom [of taken base i] by (auto intro: Suc_leD)
    next
      case False
      then have "freeName taken base (Suc i) (suffixed base i) = suffixed base i" by (subst freeName.simps) simp
      then show ?thesis using step by auto
    qed
  qed (subst freeName.simps, simp)
qed

text \<open>Lower case keeps the length, and no name loses more than its tail.\<close>

lemma length_lower [simp]: "length (toLowerCase s) = length s"
  by (simp add: toLowerCase_def)

lemma set_sliceTo: "set (sliceTo s k) \<subseteq> set s"
  by (auto simp: sliceTo_def dest: in_set_takeD)

lemma length_suffixOf: "length (suffixOf i) = length (decimal i) + 3"
  by (simp add: suffixOf_def)

lemma length_suffixed: "length (suffixOf i) \<le> 31 \<Longrightarrow> length (suffixed base i) \<le> 31"
  by (simp add: suffixed_def sliceTo_def)

lemma suffixed_chars: "set (suffixed base i) \<subseteq> set base \<union> set (suffixOf i)"
  using set_sliceTo [of base] by (auto simp: suffixed_def)

lemma suffix_chars: "set (suffixOf i) \<inter> forbiddenInNames = {}"
  using digits_decimal [of i] by (auto simp: suffixOf_def forbiddenInNames_def list_all_iff isDigit_def)

lemma sheetBase_ok: "sheetBase s \<noteq> []" "length (sheetBase s) \<le> 31" "set (sheetBase s) \<inter> forbiddenInNames = {}"
proof -
  have trimmed: "set (trim t) \<subseteq> set t" for t
    by (auto simp: trim_def dest!: set_dropWhileD set_takeWhileD)
  show "sheetBase s \<noteq> []" "length (sheetBase s) \<le> 31" by (auto simp: sheetBase_def Let_def)
  have "set (trim (map (\<lambda>c. if c \<in> forbiddenInNames then CHR ''-'' else c) s)) \<inter> forbiddenInNames = {}"
    using trimmed [of "map (\<lambda>c. if c \<in> forbiddenInNames then CHR ''-'' else c) s"]
    by (auto simp: forbiddenInNames_def split: if_splits)
  then show "set (sheetBase s) \<inter> forbiddenInNames = {}"
    by (auto simp: sheetBase_def Let_def forbiddenInNames_def split: if_splits dest!: in_set_takeD)
qed

definition sheetName :: "string \<Rightarrow> bool" where
  "sheetName n \<longleftrightarrow> n \<noteq> [] \<and> length n \<le> 31 \<and> set n \<inter> forbiddenInNames = {}"

lemma freeName_sheetName:
  assumes "length taken < 10 ^ 20"
  shows "sheetName (freeName taken (sheetBase s) 2 (sheetBase s))"
proof -
  consider "freeName taken (sheetBase s) 2 (sheetBase s) = sheetBase s"
    | j where "freeName taken (sheetBase s) 2 (sheetBase s) = suffixed (sheetBase s) j" "j \<le> 2 + length taken"
    using freeName_number [of taken "sheetBase s" 2 "sheetBase s"] takenFrom_small(2) [of taken "sheetBase s" 2] by fastforce
  then show ?thesis
  proof cases
    case 1
    then show ?thesis using sheetBase_ok [of s] by (simp add: sheetName_def)
  next
    case (2 j)
    have "length (decimal j) \<le> 21" using 2(2) assms by (intro length_decimal) auto
    then have "length (suffixed (sheetBase s) j) \<le> 31" by (intro length_suffixed) (simp add: length_suffixOf)
    moreover have "suffixed (sheetBase s) j \<noteq> []" by (simp add: suffixed_def suffixOf_def)
    moreover have "set (suffixed (sheetBase s) j) \<inter> forbiddenInNames = {}"
      using suffixed_chars [of "sheetBase s" j] suffix_chars [of j] sheetBase_ok(3) [of s] by blast
    ultimately show ?thesis using 2(1) by (simp add: sheetName_def)
  qed
qed

lemma sheetNames_ok:
  "length taken + length ss < 10 ^ 20 \<Longrightarrow> length (sheetNames taken ss) = length ss \<and> distinct (map toLowerCase (sheetNames taken ss))
    \<and> set (map toLowerCase (sheetNames taken ss)) \<inter> set taken = {} \<and> list_all sheetName (sheetNames taken ss)"
proof (induction ss arbitrary: taken)
  case (Cons s ss)
  let ?n = "freeName taken (sheetBase s) 2 (sheetBase s)"
  have "length (toLowerCase ?n # taken) + length ss < 10 ^ 20" using Cons.prems by simp
  from Cons.IH [OF this] show ?case
    using freeName_free [of taken "sheetBase s" 2 "sheetBase s"] freeName_sheetName [of taken s] Cons.prems by (auto simp: Let_def)
qed simp

text \<open>C35: the workbook can always be written: the search for a free sheet name ends, and the names of the sections are
  as many as the sections, not empty, at most 31 characters, free of the characters Excel forbids, and
  different from each other and from Summary, whatever the case.\<close>

theorem sheet_names_distinct:
  assumes "length sections < 10 ^ 19"
  shows "length (uniqueSheetNames sections) = length sections
    \<and> distinct (''summary'' # map toLowerCase (uniqueSheetNames sections))
    \<and> list_all (\<lambda>n. n \<noteq> [] \<and> length n \<le> 31 \<and> set n \<inter> forbiddenInNames = {}) (uniqueSheetNames sections)"
  using sheetNames_ok [of "[''summary'']" "map rs_name sections"] assms
  by (auto simp: uniqueSheetNames_def sheetName_def list_all_iff)

definition namedSection :: "string \<Rightarrow> renderSection" where
  "namedSection name = \<lparr>rs_name = name, rs_title = None, rs_description = None, rs_columns = [], rs_rows = [], rs_truncatedFrom = None\<rparr>"

theorem sheet_names_distinct_witness:
  "length (uniqueSheetNames [namedSection ''Rides'', namedSection ''rides'', namedSection ''Summary'']) = 3
    \<and> distinct (''summary'' # map toLowerCase (uniqueSheetNames [namedSection ''Rides'', namedSection ''rides'', namedSection ''Summary'']))"
  using sheet_names_distinct [of "[namedSection ''Rides'', namedSection ''rides'', namedSection ''Summary'']"] by simp

section \<open>Cells\<close>

datatype xvalue = Blank | Words string | Number rat | Moment instant | Formula string rat | Link string string

record xcell =
  xc_value :: xvalue
  xc_numFmt :: "string option"

type_synonym writes = "((nat \<times> nat) \<times> xcell) list"

definition plainCell :: "xvalue \<Rightarrow> xcell" where
  "plainCell v = \<lparr>xc_value = v, xc_numFmt = None\<rparr>"

definition wordsAt :: "nat \<Rightarrow> nat \<Rightarrow> string \<Rightarrow> writes" where
  "wordsAt r c s = [((r, c), plainCell (Words s))]"

definition NUM_FMT :: "string \<Rightarrow> string option" where
  "NUM_FMT format =
     (if format = ''integer'' then Some ''#,##0''
      else if format = ''number'' then Some ''#,##0.00''
      else if format = ''currency'' then Some ([CHR 0x22] @ NAIRA @ [CHR 0x22] @ ''#,##0.00;[Red]-'' @ [CHR 0x22] @ NAIRA @ [CHR 0x22] @ ''#,##0.00'')
      else if format = ''percent'' then Some ''0.0%''
      else if format = ''date'' then Some ''dd mmm yyyy''
      else if format = ''datetime'' then Some ''dd mmm yyyy hh:mm''
      else None)"

text \<open>A number or date is written as such, so that the reader can sort and sum it.\<close>

definition typedValue :: "(string \<Rightarrow> instant option) \<Rightarrow> (rat \<Rightarrow> string) \<Rightarrow> cell \<Rightarrow> string \<Rightarrow> xcell" where
  "typedValue parseDate show raw format =
     (if format \<in> {''integer'', ''number'', ''currency'', ''percent''} then
        (case toNumber raw of
           None \<Rightarrow> plainCell (if raw = Missing then Blank else Words (cellText show raw))
         | Some n \<Rightarrow> \<lparr>xc_value = Number n, xc_numFmt = NUM_FMT format\<rparr>)
      else if format = ''date'' \<or> format = ''datetime'' then
        (case toDate parseDate show raw of
           None \<Rightarrow> plainCell Blank
         | Some t \<Rightarrow> \<lparr>xc_value = Moment t, xc_numFmt = NUM_FMT format\<rparr>)
      else if format = ''status'' then
        plainCell (if raw = Missing \<or> raw = Txt [] then Blank else Words (prettifyStatus (cellText show raw)))
      else plainCell (if raw = Missing then Blank else Words (cellText show raw)))"

definition sumOf :: "row list \<Rightarrow> renderColumn \<Rightarrow> rat" where
  "sumOf rows col = (\<Sum>r\<leftarrow>rows. orElse (toNumber (cellAt r (ec_key col))) 0)"

definition MAX_TABLE_ROW_SAMPLE :: nat where "MAX_TABLE_ROW_SAMPLE = 300"

definition longestText :: "(string \<Rightarrow> instant option) \<Rightarrow> (rat \<Rightarrow> string) \<Rightarrow> renderColumn \<Rightarrow> row list \<Rightarrow> nat" where
  "longestText parseDate show col rows = fold (\<lambda>r m. max m (length (formatValue parseDate show (cellAt r (ec_key col)) (orElse (ec_format col) ''text''))))
     (take MAX_TABLE_ROW_SAMPLE rows) (length (ec_header col))"

definition columnWidth :: "(string \<Rightarrow> instant option) \<Rightarrow> (rat \<Rightarrow> string) \<Rightarrow> renderColumn \<Rightarrow> row list \<Rightarrow> nat" where
  "columnWidth parseDate show col rows =
     (case rc_width col of
        Some (Suc w) \<Rightarrow> Suc w
      | _ \<Rightarrow>
          (let m = longestText parseDate show col rows;
               longest = (if rc_total col
                 then max m (length (formatValue parseDate show (Num (sumOf rows col)) (orElse (ec_format col) ''number'')) + 2) else m)
           in min 48 (max 11 (longest + 3))))"

definition escapeFooter :: "string \<Rightarrow> string" where
  "escapeFooter s = concat (map (\<lambda>c. if c = CHR ''&'' then ''&&'' else [c]) s)"

definition footerOf :: "renderDocument \<Rightarrow> string" where
  "footerOf doc = ''&L&8Kilo '' @ EM_DASH @ '' '' @ escapeFooter (rn_title doc) @ ''&R&8Page &P of &N''"

section \<open>A data sheet\<close>

record sheet =
  sh_name :: string
  sh_cells :: writes
  sh_widths :: "nat list"
  sh_filtered :: bool
  sh_landscape :: bool
  sh_footer :: string

definition HEADER_ROW :: nat where "HEADER_ROW = 4"

definition tableHeader :: "nat \<Rightarrow> string list \<Rightarrow> writes" where
  "tableHeader rowNo headers = map (\<lambda>(i, h). ((rowNo, i + 1), plainCell (Words h))) (List.enumerate 0 headers)"

text \<open>The band of a title and its subtitle, and the next free row.\<close>

definition banner :: "nat \<Rightarrow> string \<Rightarrow> string option \<Rightarrow> writes \<times> nat" where
  "banner rowNo title subtitle =
     (if truthy subtitle then (wordsAt rowNo 1 title @ wordsAt (rowNo + 1) 1 (the subtitle), rowNo + 2)
      else (wordsAt rowNo 1 title, rowNo + 1))"

definition subline :: "renderDocument \<Rightarrow> renderSection \<Rightarrow> string" where
  "subline doc sec = rn_title doc @ '' '' @ MIDDLE_DOT @ '' '' @
     (case rs_truncatedFrom sec of
        Some (Suc n) \<Rightarrow> recordsNote (length (rs_rows sec)) (Suc n) @ '' records''
      | _ \<Rightarrow> grouped (length (rs_rows sec)) @ '' record'' @ (if length (rs_rows sec) = 1 then [] else ''s''))"

definition rowCells :: "(string \<Rightarrow> instant option) \<Rightarrow> (rat \<Rightarrow> string) \<Rightarrow> renderColumn list \<Rightarrow> nat \<Rightarrow> row \<Rightarrow> writes" where
  "rowCells parseDate show cols rowNo data =
     map (\<lambda>(c, col). ((rowNo, c + 1), typedValue parseDate show (cellAt data (ec_key col)) (formatOf col data))) (List.enumerate 0 cols)"

definition dataCells :: "(string \<Rightarrow> instant option) \<Rightarrow> (rat \<Rightarrow> string) \<Rightarrow> renderSection \<Rightarrow> writes" where
  "dataCells parseDate show sec =
     concat (map (\<lambda>(i, data). rowCells parseDate show (rs_columns sec) (HEADER_ROW + 1 + i) data) (List.enumerate 0 (rs_rows sec)))"

text \<open>The formula ignores rows the reader filtered out; its stored result is the sum of all.\<close>

definition totalCell :: "(nat \<Rightarrow> string) \<Rightarrow> renderSection \<Rightarrow> nat \<Rightarrow> renderColumn \<Rightarrow> xcell" where
  "totalCell letter sec c col = \<lparr>xc_value = Formula (''SUBTOTAL(109,'' @ letter (c + 1) @ decimal (HEADER_ROW + 1) @ '':''
       @ letter (c + 1) @ decimal (HEADER_ROW + length (rs_rows sec)) @ '')'') (sumOf (rs_rows sec) col),
     xc_numFmt = Some (orElse (NUM_FMT (orElse (ec_format col) ''number'')) ''#,##0.00'')\<rparr>"

definition totalCells :: "(nat \<Rightarrow> string) \<Rightarrow> renderSection \<Rightarrow> writes" where
  "totalCells letter sec = concat (map (\<lambda>(c, col).
       (if c = 0 then wordsAt (HEADER_ROW + length (rs_rows sec) + 1) 1 ''Total'' else []) @
       (if rc_total col then [((HEADER_ROW + length (rs_rows sec) + 1, c + 1), totalCell letter sec c col)] else []))
     (List.enumerate 0 (rs_columns sec)))"

definition dataSheet :: "(string \<Rightarrow> instant option) \<Rightarrow> (rat \<Rightarrow> string) \<Rightarrow> (nat \<Rightarrow> string) \<Rightarrow> renderDocument \<Rightarrow> string \<Rightarrow> renderSection \<Rightarrow> sheet" where
  "dataSheet parseDate show letter doc name sec =
     \<lparr>sh_name = name,
      sh_cells = fst (banner 1 (orElse (rs_title sec) (rs_name sec)) None)
        @ wordsAt 2 1 (subline doc sec)
        @ tableHeader HEADER_ROW (map ec_header (rs_columns sec))
        @ dataCells parseDate show sec
        @ (if rs_rows sec \<noteq> [] \<and> list_ex rc_total (rs_columns sec) then totalCells letter sec else [])
        @ (if rs_rows sec = [] then wordsAt (HEADER_ROW + 1) 1 ''No records match the selected filters.'' else []),
      sh_widths = map (\<lambda>c. columnWidth parseDate show c (rs_rows sec)) (rs_columns sec),
      sh_filtered = (rs_rows sec \<noteq> []),
      sh_landscape = (6 < length (rs_columns sec)),
      sh_footer = footerOf doc\<rparr>"

section \<open>The summary sheet\<close>

definition detailsOf :: "instant \<Rightarrow> renderDocument \<Rightarrow> (string \<times> string) list" where
  "detailsOf t doc =
     [(''Generated'', formatDateTime t), (''Generated by'', orElse (rn_generatedBy doc) ''Kilo Admin'')]
     @ (if hasPeriod doc then [(''Period'', periodText (the (rn_period doc)))] else [])
     @ map (\<lambda>(k, v). (''Filter: '' @ k, v)) (rn_filters doc)
     @ List.map_filter (\<lambda>sec. case rs_truncatedFrom sec of
         Some (Suc n) \<Rightarrow> Some (''Note'', [CHR 0x22] @ rs_name sec @ [CHR 0x22] @ '' lists the '' @ recordsNote (length (rs_rows sec)) (Suc n)
           @ '' matching records '' @ EM_DASH @ '' narrow the filters to export the rest.'')
       | _ \<Rightarrow> None) (rn_sections doc)"

definition detailCells :: "nat \<Rightarrow> (string \<times> string) list \<Rightarrow> writes" where
  "detailCells rowNo details = concat (map (\<lambda>(i, l, v). wordsAt (rowNo + i) 1 l @ wordsAt (rowNo + i) 2 v) (List.enumerate 0 details))"

definition metricCells :: "(string \<Rightarrow> instant option) \<Rightarrow> (rat \<Rightarrow> string) \<Rightarrow> nat \<Rightarrow> renderMetric list \<Rightarrow> writes" where
  "metricCells parseDate show rowNo ms = concat (map (\<lambda>(i, m).
      wordsAt (rowNo + i) 1 (em_label m)
      @ [((rowNo + i, 2), typedValue parseDate show (em_value m) (orElse (em_format m) ''text''))]
      @ wordsAt (rowNo + i) 3 (orElse (em_note m) [])) (List.enumerate 0 ms))"

definition contentCells :: "nat \<Rightarrow> renderSection list \<Rightarrow> string list \<Rightarrow> writes" where
  "contentCells rowNo secs names = concat (map (\<lambda>(i, sec, name).
      [((rowNo + i, 1), plainCell (Link name (''#'' @ [CHR 0x27] @ name @ [CHR 0x27] @ ''!A1''))),
       ((rowNo + i, 2), \<lparr>xc_value = Number (of_nat (length (rs_rows sec))), xc_numFmt = Some ''#,##0''\<rparr>)]
      @ wordsAt (rowNo + i) 3 (orElse (rs_description sec) (orElse (rs_title sec) (rs_name sec)))) (List.enumerate 0 (zip secs names)))"

text \<open>Details, metrics when there are any, and the list of sheets, one below the other.\<close>

definition summarySheet :: "(string \<Rightarrow> instant option) \<Rightarrow> (rat \<Rightarrow> string) \<Rightarrow> instant \<Rightarrow> renderDocument \<Rightarrow> string list \<Rightarrow> sheet" where
  "summarySheet parseDate show t doc names =
     (let (top, r0) = banner 1 (rn_title doc) (rn_subtitle doc);
          r1 = r0 + 1; details = detailsOf t doc;
          r2 = r1 + 1 + length details + 1;
          ms = rn_summary doc;
          r3 = (if ms = [] then r2 else r2 + 2 + length ms + 1) in
      \<lparr>sh_name = ''Summary'',
       sh_cells = top @ wordsAt r1 1 ''REPORT DETAILS'' @ detailCells (r1 + 1) details
         @ (if ms = [] then [] else wordsAt r2 1 ''KEY METRICS'' @ tableHeader (r2 + 1) [''Metric'', ''Value'', ''How it is calculated'']
             @ metricCells parseDate show (r2 + 2) ms)
         @ wordsAt r3 1 ''CONTENTS'' @ tableHeader (r3 + 1) [''Sheet'', ''Records'', ''Description'']
         @ contentCells (r3 + 2) (rn_sections doc) names,
       sh_widths = [36, 26, 70], sh_filtered = False, sh_landscape = False, sh_footer = footerOf doc\<rparr>)"

definition renderExcel :: "(string \<Rightarrow> instant option) \<Rightarrow> (rat \<Rightarrow> string) \<Rightarrow> (nat \<Rightarrow> string) \<Rightarrow> instant \<Rightarrow> renderDocument \<Rightarrow> sheet list" where
  "renderExcel parseDate show letter t doc =
     (let names = uniqueSheetNames (rn_sections doc) in
      summarySheet parseDate show t doc names # map2 (dataSheet parseDate show letter doc) names (rn_sections doc))"


section \<open>What the reader finds\<close>

definition cellIn :: "sheet \<Rightarrow> nat \<times> nat \<Rightarrow> xcell option" where
  "cellIn sh pos = map_of (rev (sh_cells sh)) pos"

lemma cellIn_only: "(pos, v) \<in> set (sh_cells sh) \<Longrightarrow> (\<And>w. (pos, w) \<in> set (sh_cells sh) \<Longrightarrow> w = v) \<Longrightarrow> cellIn sh pos = Some v"
  unfolding cellIn_def by (metis map_of_SomeD set_rev weak_map_of_SomeI)

lemma in_enumerate: "(i, x) \<in> set (List.enumerate 0 xs) \<longleftrightarrow> i < length xs \<and> x = xs ! i"
  by (auto simp: in_set_enumerate_eq)

lemma ex_enumerate: "(\<exists>x \<in> set (List.enumerate 0 xs). P x) \<longleftrightarrow> (\<exists>i. i < length xs \<and> P (i, xs ! i))"
  by (force simp: in_enumerate)

lemma in_concat_map: "w \<in> set (concat (map f xs)) \<longleftrightarrow> (\<exists>x \<in> set xs. w \<in> set (f x))"
  by simp

lemma rowCells_at: "((r, k), v) \<in> set (rowCells parseDate show cols rowNo data) \<longleftrightarrow>
   r = rowNo \<and> (\<exists>c. k = c + 1 \<and> c < length cols \<and> v = typedValue parseDate show (cellAt data (ec_key (cols ! c))) (formatOf (cols ! c) data))"
  unfolding rowCells_def set_map image_iff ex_enumerate by auto

lemma dataCells_at: "((r, k), v) \<in> set (dataCells parseDate show sec) \<longleftrightarrow>
   (\<exists>i c. r = 5 + i \<and> k = c + 1 \<and> i < length (rs_rows sec) \<and> c < length (rs_columns sec)
     \<and> v = typedValue parseDate show (cellAt (rs_rows sec ! i) (ec_key (rs_columns sec ! c))) (formatOf (rs_columns sec ! c) (rs_rows sec ! i)))"
  unfolding dataCells_def in_concat_map ex_enumerate by (auto simp: rowCells_at HEADER_ROW_def)

lemma totalCells_at: "((r, k), v) \<in> set (totalCells letter sec) \<longleftrightarrow> r = 5 + length (rs_rows sec) \<and>
   (k = 1 \<and> rs_columns sec \<noteq> [] \<and> v = plainCell (Words ''Total'')
    \<or> (\<exists>c. k = c + 1 \<and> c < length (rs_columns sec) \<and> rc_total (rs_columns sec ! c) \<and> v = totalCell letter sec c (rs_columns sec ! c)))"
  unfolding totalCells_def in_concat_map ex_enumerate by (auto simp: wordsAt_def HEADER_ROW_def split: if_splits)

lemma headerRows: "((r, k), v) \<in> set (fst (banner 1 t None) @ wordsAt 2 1 u @ tableHeader HEADER_ROW hs) \<Longrightarrow> r \<le> 4"
  by (auto simp: banner_def wordsAt_def tableHeader_def HEADER_ROW_def truthy_def)

text \<open>The workbook holds the document: under its header a sheet has one row per record with every value in its
  own type, and below them, in each column that is summed, a formula over exactly those rows that
  stores their sum.\<close>

theorem workbook_holds_the_rows:
  assumes "c < length (rs_columns sec)"
  shows "i < length (rs_rows sec) \<Longrightarrow> cellIn (dataSheet parseDate show letter doc name sec) (5 + i, c + 1)
      = Some (typedValue parseDate show (cellAt (rs_rows sec ! i) (ec_key (rs_columns sec ! c))) (formatOf (rs_columns sec ! c) (rs_rows sec ! i)))"
    and "rs_rows sec \<noteq> [] \<Longrightarrow> rc_total (rs_columns sec ! c) \<Longrightarrow> 0 < c \<Longrightarrow> \<exists>formula format.
      cellIn (dataSheet parseDate show letter doc name sec) (5 + length (rs_rows sec), c + 1)
        = Some \<lparr>xc_value = Formula formula (sumOf (rs_rows sec) (rs_columns sec ! c)), xc_numFmt = format\<rparr>
      \<and> formula = ''SUBTOTAL(109,'' @ letter (c + 1) @ ''5:'' @ letter (c + 1) @ decimal (4 + length (rs_rows sec)) @ '')''"
proof -
  let ?sh = "dataSheet parseDate show letter doc name sec"
  let ?v = "\<lambda>i. typedValue parseDate show (cellAt (rs_rows sec ! i) (ec_key (rs_columns sec ! c))) (formatOf (rs_columns sec ! c) (rs_rows sec ! i))"
  note at = dataCells_at totalCells_at
  have low: "((r, k), v) \<in> set (sh_cells ?sh) \<longleftrightarrow> ((r, k), v) \<in> set (dataCells parseDate show sec) \<or>
      rs_rows sec \<noteq> [] \<and> list_ex rc_total (rs_columns sec) \<and> ((r, k), v) \<in> set (totalCells letter sec)"
    if "5 \<le> r" "rs_rows sec \<noteq> []" for r k v
    using headerRows [of r k v] that by (auto simp: dataSheet_def)
  show "cellIn ?sh (5 + i, c + 1) = Some (?v i)" if i: "i < length (rs_rows sec)"
  proof (rule cellIn_only)
    have ne: "rs_rows sec \<noteq> []" using i by auto
    show "((5 + i, c + 1), ?v i) \<in> set (sh_cells ?sh)" using low [of "5 + i"] ne i assms by (auto simp: at)
    show "w = ?v i" if "((5 + i, c + 1), w) \<in> set (sh_cells ?sh)" for w using that low [of "5 + i"] ne i by (auto simp: at)
  qed
  have five: "decimal 5 = ''5''" by code_simp
  show "\<exists>formula format. cellIn ?sh (5 + length (rs_rows sec), c + 1)
        = Some \<lparr>xc_value = Formula formula (sumOf (rs_rows sec) (rs_columns sec ! c)), xc_numFmt = format\<rparr>
      \<and> formula = ''SUBTOTAL(109,'' @ letter (c + 1) @ ''5:'' @ letter (c + 1) @ decimal (4 + length (rs_rows sec)) @ '')''"
    if ne: "rs_rows sec \<noteq> []" and t: "rc_total (rs_columns sec ! c)" "0 < c"
  proof -
    have some: "list_ex rc_total (rs_columns sec)" using t(1) assms by (auto simp: list_ex_iff)
    have "cellIn ?sh (5 + length (rs_rows sec), c + 1) = Some (totalCell letter sec c (rs_columns sec ! c))"
      by (rule cellIn_only) (use low [of "5 + length (rs_rows sec)"] ne t assms some in \<open>auto simp: at\<close>)
    then show ?thesis by (simp add: totalCell_def HEADER_ROW_def five)
  qed
qed

lemma columnWidth_bounds: "rc_width col = None \<Longrightarrow> 11 \<le> columnWidth parseDate show col rows \<and> columnWidth parseDate show col rows \<le> 48"
  by (simp add: columnWidth_def Let_def)

end
