(* ===== verification/PdfLayout.thy ===== *)
theory PdfLayout
  imports Sheets
begin

text \<open>
  The pages of an export document, src/common/export/pdf.renderer.ts: the boxes and lines of text it puts on
  them, in points from the top left corner of the page.  Colours and thin rules are left out.  The width of
  a text in a font is the library's (\<open>px_ruler\<close>); so is the size of a page.  The text a built-in font can
  show is \<open>pdfSafe\<close>, over code points; in the layout it is \<open>px_safe\<close>.
\<close>

section \<open>Text the fonts can show\<close>

definition WIN_ANSI_EXTRAS :: "nat list" where
  "WIN_ANSI_EXTRAS = [0x20AC, 0x201A, 0x0192, 0x201E, 0x2026, 0x2020, 0x2021, 0x02C6, 0x2030, 0x0160, 0x2039, 0x0152, 0x017D,
     0x2018, 0x2019, 0x201C, 0x201D, 0x2022, 0x2013, 0x2014, 0x02DC, 0x2122, 0x0161, 0x203A, 0x0153, 0x017E, 0x0178]"

text \<open>\<open>nfc\<close> and \<open>nfd\<close> are the Unicode normal forms; combining marks are \<open>U+0300\<close> to \<open>U+036F\<close>.\<close>

definition safePoint :: "(nat list \<Rightarrow> nat list) \<Rightarrow> nat \<Rightarrow> nat list" where
  "safePoint nfd cp =
     (if cp \<le> 0xff \<or> cp \<in> set WIN_ANSI_EXTRAS then [if cp < 0x20 \<and> cp \<noteq> 9 then 0x20 else cp]
      else let base = filter (\<lambda>c. \<not> (0x0300 \<le> c \<and> c \<le> 0x036F)) (nfd [cp]) in
        if list_all (\<lambda>c. c \<le> 0xff) base then base else [0x3F])"

definition pdfSafe :: "(nat list \<Rightarrow> nat list) \<Rightarrow> (nat list \<Rightarrow> nat list) \<Rightarrow> nat list \<Rightarrow> nat list" where
  "pdfSafe nfc nfd t = concat (map (safePoint nfd) (nfc t))"

lemma pdfSafe_shows: "c \<in> set (pdfSafe nfc nfd t) \<Longrightarrow> c \<le> 0xff \<or> c \<in> set WIN_ANSI_EXTRAS"
  by (auto simp: pdfSafe_def safePoint_def Let_def list_all_iff split: if_splits)

section \<open>Pages\<close>

datatype pdfFont = FONT | FONT_BOLD | FONT_ITALIC

datatype align = AtLeft | AtRight | Centred

record pdfEnv =
  px_width :: rat
  px_height :: rat
  px_landscape :: bool
  px_ruler :: "pdfFont \<Rightarrow> rat \<Rightarrow> string \<Rightarrow> rat"
  px_safe :: "string \<Rightarrow> string"
  px_parse :: "string \<Rightarrow> instant option"
  px_show :: "rat \<Rightarrow> string"

datatype mark = Box nat rat rat rat rat | Glyphs nat rat rat "rat option" align string

record canvas =
  cv_page :: nat
  cv_y :: rat
  cv_marks :: "mark list"

definition MARGIN :: rat where "MARGIN = 36"
definition FOOTER_RESERVE :: rat where "FOOTER_RESERVE = 26"
definition ROW_H :: rat where "ROW_H = 18"
definition HEAD_H :: rat where "HEAD_H = 22"
definition CELL_PAD :: rat where "CELL_PAD = 6"

text \<open>The width between the margins, and the line above the footer.\<close>

definition innerWidth :: "pdfEnv \<Rightarrow> rat" where "innerWidth env = px_width env - MARGIN * 2"
definition bottomOf :: "pdfEnv \<Rightarrow> rat" where "bottomOf env = px_height env - MARGIN - FOOTER_RESERVE"

definition down :: "rat \<Rightarrow> canvas \<Rightarrow> canvas" where "down h cv = cv\<lparr>cv_y := cv_y cv + h\<rparr>"

definition addPage :: "canvas \<Rightarrow> canvas" where "addPage cv = cv\<lparr>cv_page := cv_page cv + 1, cv_y := MARGIN\<rparr>"

definition ensureRoom :: "pdfEnv \<Rightarrow> rat \<Rightarrow> canvas \<Rightarrow> canvas" where
  "ensureRoom env h cv = (if bottomOf env < cv_y cv + h then addPage cv else cv)"

definition box :: "rat \<Rightarrow> rat \<Rightarrow> rat \<Rightarrow> rat \<Rightarrow> canvas \<Rightarrow> canvas" where
  "box x y w h cv = cv\<lparr>cv_marks := cv_marks cv @ [Box (cv_page cv) x y w h]\<rparr>"

text \<open>\<open>cutBack\<close> is the loop that shortens a text, from its end, until it fits with an ellipsis.\<close>

fun cutBack :: "(string \<Rightarrow> rat) \<Rightarrow> string \<Rightarrow> rat \<Rightarrow> nat \<Rightarrow> nat" where
  "cutBack w t maxW 0 = 0"
| "cutBack w t maxW (Suc n) = (if 0 < n \<and> maxW < w (take (Suc n) t @ ''...'') then cutBack w t maxW n else Suc n)"

definition fit :: "(string \<Rightarrow> rat) \<Rightarrow> string \<Rightarrow> rat \<Rightarrow> string" where
  "fit w t maxW = (if w t \<le> maxW then t else take (cutBack w t maxW (length t)) t @ ''...'')"

definition plainText_pdf :: "pdfEnv \<Rightarrow> string \<Rightarrow> rat \<Rightarrow> rat \<Rightarrow> rat \<Rightarrow> align \<Rightarrow> canvas \<Rightarrow> canvas" where
  "plainText_pdf env raw x y width al cv = cv\<lparr>cv_marks := cv_marks cv @ [Glyphs (cv_page cv) x y (Some width) al (px_safe env raw)]\<rparr>"

definition clippedText :: "pdfEnv \<Rightarrow> pdfFont \<Rightarrow> rat \<Rightarrow> string \<Rightarrow> rat \<Rightarrow> rat \<Rightarrow> rat \<Rightarrow> canvas \<Rightarrow> canvas" where
  "clippedText env f pts raw x y width cv = cv\<lparr>cv_marks := cv_marks cv
     @ [Glyphs (cv_page cv) x y (Some width) AtLeft (fit (px_ruler env f pts) (px_safe env raw) width)]\<rparr>"

definition cellText_pdf :: "pdfEnv \<Rightarrow> pdfFont \<Rightarrow> rat \<Rightarrow> string \<Rightarrow> rat \<Rightarrow> rat \<Rightarrow> rat \<Rightarrow> align \<Rightarrow> canvas \<Rightarrow> canvas" where
  "cellText_pdf env f pts raw x y colW al cv =
     (let t = fit (px_ruler env f pts) (px_safe env raw) (colW - CELL_PAD * 2);
          textW = px_ruler env f pts t;
          tx = (case al of AtRight \<Rightarrow> x + colW - CELL_PAD - textW | Centred \<Rightarrow> x + (colW - textW) / 2 | AtLeft \<Rightarrow> x + CELL_PAD) in
      cv\<lparr>cv_marks := cv_marks cv @ [Glyphs (cv_page cv) tx y None AtLeft t]\<rparr>)"

definition alignOf :: "string \<Rightarrow> align" where
  "alignOf format =
     (if format \<in> {''integer'', ''number'', ''currency'', ''percent''} then AtRight
      else if format \<in> {''date'', ''datetime'', ''status''} then Centred else AtLeft)"

definition formatTotal :: "pdfEnv \<Rightarrow> row list \<Rightarrow> renderColumn \<Rightarrow> string" where
  "formatTotal env rows col = formatValue (px_parse env) (px_show env) (Num (sumOf rows col)) (orElse (ec_format col) ''number'')"

section \<open>Column widths\<close>

definition widestText :: "pdfEnv \<Rightarrow> renderSection \<Rightarrow> renderColumn \<Rightarrow> rat" where
  "widestText env sec col =
     (let format = orElse (ec_format col) ''text'';
          pts = (if format = ''status'' then 7 else 8);
          header = px_ruler env FONT_BOLD 8 (px_safe env (ec_header col));
          widest = fold (\<lambda>r m. max m (px_ruler env FONT pts (px_safe env (formatValue (px_parse env) (px_show env) (cellAt r (ec_key col)) format))))
            (take 200 (rs_rows sec)) header in
      if rc_total col then max widest (px_ruler env FONT_BOLD 8 (px_safe env (formatTotal env (rs_rows sec) col))) else widest)"

definition desiredWidth :: "pdfEnv \<Rightarrow> renderSection \<Rightarrow> renderColumn \<Rightarrow> rat" where
  "desiredWidth env sec col =
     (let need = widestText env sec col + CELL_PAD * 2 + (if orElse (ec_format col) ''text'' = ''status'' then 14 else 0);
          cap = (case rc_width col of Some (Suc w) \<Rightarrow> of_nat (Suc w) * (44 / 10) + CELL_PAD * 2 | _ \<Rightarrow> 210) in
      max 38 (min need cap))"

text \<open>Columns that fit an equal share of the room keep what they need; the loop shares the rest among the others.\<close>

function shareRoom :: "rat list \<Rightarrow> nat list \<Rightarrow> rat \<Rightarrow> rat list \<Rightarrow> rat list" where
  "shareRoom desired pending room widths =
     (let share = room / of_nat (length pending);
          fits = filter (\<lambda>i. desired ! i \<le> share) pending in
      if fits = [] then fold (\<lambda>i ws. ws[i := share]) pending widths
      else let widths' = fold (\<lambda>i ws. ws[i := desired ! i]) fits widths;
               room' = room - (\<Sum>i\<leftarrow>fits. desired ! i);
               pending' = filter (\<lambda>i. i \<notin> set fits) pending in
        if pending' = [] then widths' else shareRoom desired pending' room' widths')"
  by pat_completeness auto

termination
proof (relation "measure (\<lambda>(desired, pending, room, widths). length pending)", goal_cases)
  case (2 desired pending room widths share fits)
  have "hd fits \<in> set fits" by (rule hd_in_set) (rule 2(3))
  moreover have "set fits \<subseteq> set pending" using 2(2) by auto
  ultimately have "hd fits \<in> set pending" "hd fits \<in> set fits" by blast+
  then have "length (filter (\<lambda>i. i \<notin> set fits) pending) < length pending" by (intro length_filter_less) auto
  then show ?case using 2 by simp
qed simp

declare shareRoom.simps [simp del]

definition columnWidths :: "pdfEnv \<Rightarrow> renderSection \<Rightarrow> rat list" where
  "columnWidths env sec =
     (let desired = map (desiredWidth env sec) (rs_columns sec); s = sum_list desired in
      if s \<le> innerWidth env then map (\<lambda>w. w * (innerWidth env / s)) desired
      else shareRoom desired [0..<length desired] (innerWidth env) (replicate (length desired) 0))"

section \<open>Drawing\<close>

definition sectionHeading :: "pdfEnv \<Rightarrow> string \<Rightarrow> canvas \<Rightarrow> canvas" where
  "sectionHeading env label cv = down 26 (plainText_pdf env label MARGIN (cv_y cv) (innerWidth env) AtLeft cv)"

definition drawHeader :: "pdfEnv \<Rightarrow> instant \<Rightarrow> renderDocument \<Rightarrow> canvas \<Rightarrow> canvas" where
  "drawHeader env t doc cv =
     (let w = innerWidth env;
          cv1 = box 0 74 (px_width env) 3 (box 0 0 (px_width env) 74 cv);
          cv2 = plainText_pdf env (rn_title doc) MARGIN 18 (w - 140) AtLeft cv1;
          cv3 = (if truthy (rn_subtitle doc) then plainText_pdf env (the (rn_subtitle doc)) MARGIN 46 (w - 140) AtLeft cv2 else cv2);
          cv4 = plainText_pdf env ''KILO'' MARGIN 18 w AtRight cv3;
          cv5 = plainText_pdf env (formatDateTime t) MARGIN 42 w AtRight cv4 in
      cv5\<lparr>cv_y := 92\<rparr>)"

definition metaLines :: "renderDocument \<Rightarrow> string list" where
  "metaLines doc =
     (if hasPeriod doc then [''Period: '' @ periodText (the (rn_period doc))] else [])
     @ (if rn_filters doc \<noteq> [] then [''Filters: '' @ join (''  '' @ MIDDLE_DOT @ ''  '') (map (\<lambda>(k, v). k @ '': '' @ v) (rn_filters doc))] else [])
     @ [''Generated by: '' @ orElse (rn_generatedBy doc) ''Kilo Admin'']"

definition drawMeta :: "pdfEnv \<Rightarrow> renderDocument \<Rightarrow> canvas \<Rightarrow> canvas" where
  "drawMeta env doc cv =
     down 8 (fold (\<lambda>line cv. down 13 (plainText_pdf env line MARGIN (cv_y cv) (innerWidth env) AtLeft cv)) (metaLines doc) cv)"

text \<open>The figure of a card is set in the largest size from 17 down to 9 that fits.\<close>

fun figureSize :: "(rat \<Rightarrow> rat) \<Rightarrow> rat \<Rightarrow> nat \<Rightarrow> nat" where
  "figureSize w room 0 = 0"
| "figureSize w room (Suc n) = (if 9 \<le> n \<and> room < w (of_nat (Suc n)) then figureSize w room n else Suc n)"

definition drawCard :: "pdfEnv \<Rightarrow> renderMetric \<Rightarrow> rat \<Rightarrow> rat \<Rightarrow> rat \<Rightarrow> rat \<Rightarrow> canvas \<Rightarrow> canvas" where
  "drawCard env m x y w h cv =
     (let shown = formatValue (px_parse env) (px_show env) (em_value m) (orElse (em_format m) ''text'');
          figure = (if shown = [] then EM_DASH else shown);
          pts = figureSize (\<lambda>s. px_ruler env FONT_BOLD s (px_safe env figure)) (w - 22) 17 in
      clippedText env FONT_BOLD (of_nat pts) figure (x + 12) (y + 26) (w - 20)
      (clippedText env FONT_BOLD (75 / 10) (toUpperCase (em_label m)) (x + 12) (y + 9) (w - 20)
      (box x (y + 6) (35 / 10) (h - 12) (box x y w h cv))))"

definition CARD_GAP :: rat where "CARD_GAP = 10"
definition CARD_H :: rat where "CARD_H = 54"

definition drawSummary :: "pdfEnv \<Rightarrow> renderMetric list \<Rightarrow> canvas \<Rightarrow> canvas" where
  "drawSummary env ms cv =
     (if ms = [] then cv
      else let cols = min (if px_landscape env then 4 else 3) (length ms);
               cardW = (innerWidth env - CARD_GAP * (of_nat cols - 1)) / of_nat cols in
        down (CARD_H + 18) (fold (\<lambda>(i, m) cv.
          let col = i mod cols;
              cv' = (if col = 0 then (let e = ensureRoom env (CARD_H + CARD_GAP) cv in if 0 < i then down (CARD_H + CARD_GAP) e else e) else cv) in
          drawCard env m (MARGIN + of_nat col * (cardW + CARD_GAP)) (cv_y cv') cardW CARD_H cv')
        (List.enumerate 0 ms) (sectionHeading env ''Summary'' cv)))"

text \<open>The cells of a line of a table, from left to right.\<close>

fun drawCells :: "(rat \<Rightarrow> rat \<Rightarrow> 'c \<Rightarrow> canvas \<Rightarrow> canvas) \<Rightarrow> rat \<Rightarrow> ('c \<times> rat) list \<Rightarrow> canvas \<Rightarrow> canvas" where
  "drawCells draw x [] cv = cv"
| "drawCells draw x ((c, w) # rest) cv = drawCells draw (x + w) rest (draw x w c cv)"

definition drawTableHeader :: "pdfEnv \<Rightarrow> renderColumn list \<Rightarrow> rat list \<Rightarrow> canvas \<Rightarrow> canvas" where
  "drawTableHeader env cols widths cv =
     down HEAD_H (drawCells (\<lambda>x w col cv. cellText_pdf env FONT_BOLD 8 (ec_header col) x (cv_y cv + 7) w (alignOf (orElse (ec_format col) [])) cv)
       MARGIN (zip cols widths) (box MARGIN (cv_y cv) (innerWidth env) HEAD_H cv))"

definition drawPill :: "pdfEnv \<Rightarrow> string \<Rightarrow> rat \<Rightarrow> rat \<Rightarrow> rat \<Rightarrow> canvas \<Rightarrow> canvas" where
  "drawPill env t x y w cv =
     (let textW = min (px_ruler env FONT_BOLD 7 (px_safe env t)) (w - CELL_PAD * 2 - 8); pillW = textW + 12; px = x + (w - pillW) / 2 in
      clippedText env FONT_BOLD 7 t (px + 6) (y + 62 / 10) (textW + 1) (box px (y + 3) pillW (ROW_H - 6) cv))"

definition drawCell :: "pdfEnv \<Rightarrow> row \<Rightarrow> rat \<Rightarrow> rat \<Rightarrow> renderColumn \<Rightarrow> canvas \<Rightarrow> canvas" where
  "drawCell env r x w col cv =
     (let format = formatOf col r; t = formatValue (px_parse env) (px_show env) (cellAt r (ec_key col)) format in
      if format = ''status'' \<and> t \<noteq> [] then drawPill env t x (cv_y cv) w cv
      else cellText_pdf env FONT 8 t x (cv_y cv + 55 / 10) w (alignOf format) cv)"

definition drawRow :: "pdfEnv \<Rightarrow> renderColumn list \<Rightarrow> rat list \<Rightarrow> row \<Rightarrow> bool \<Rightarrow> canvas \<Rightarrow> canvas" where
  "drawRow env cols widths r banded cv =
     down ROW_H (drawCells (drawCell env r) MARGIN (zip cols widths) (if banded then box MARGIN (cv_y cv) (innerWidth env) ROW_H cv else cv))"

definition drawRows :: "pdfEnv \<Rightarrow> renderColumn list \<Rightarrow> rat list \<Rightarrow> row list \<Rightarrow> canvas \<Rightarrow> canvas" where
  "drawRows env cols widths rows cv = fold (\<lambda>(i, r) cv.
     drawRow env cols widths r (i mod 2 = 1)
       (if bottomOf env < cv_y cv + ROW_H then drawTableHeader env cols widths (addPage cv) else cv)) (List.enumerate 0 rows) cv"

definition drawTotals :: "pdfEnv \<Rightarrow> renderSection \<Rightarrow> rat list \<Rightarrow> canvas \<Rightarrow> canvas" where
  "drawTotals env sec widths cv =
     down (ROW_H + 2) (drawCells (\<lambda>x w (i, col) cv.
         (let t = (if rc_total col then formatTotal env (rs_rows sec) col else if i = 0 then ''Total'' else []) in
          if t \<noteq> [] then cellText_pdf env FONT_BOLD 8 t x (cv_y cv + 6) w (alignOf (orElse (ec_format col) [])) cv else cv))
       MARGIN (zip (List.enumerate (0::nat) (rs_columns sec)) widths) (box MARGIN (cv_y cv) (innerWidth env) (ROW_H + 2) cv))"

definition noteLine :: "pdfEnv \<Rightarrow> string \<Rightarrow> canvas \<Rightarrow> canvas" where
  "noteLine env t cv = down 12 (plainText_pdf env t MARGIN (cv_y cv - 4) (innerWidth env) AtLeft cv)"

definition sectionIntro :: "pdfEnv \<Rightarrow> renderSection \<Rightarrow> canvas \<Rightarrow> canvas" where
  "sectionIntro env sec cv =
     (let cv1 = sectionHeading env (orElse (rs_title sec) (rs_name sec)) (ensureRoom env (HEAD_H + ROW_H * 3 + 40) cv);
          cv2 = (if truthy (rs_description sec) then noteLine env (the (rs_description sec)) cv1 else cv1) in
      case rs_truncatedFrom sec of
        Some (Suc n) \<Rightarrow> noteLine env (''Showing the '' @ recordsNote (length (rs_rows sec)) (Suc n) @ '' matching records '' @ EM_DASH
          @ '' narrow the filters to export the rest.'') cv2
      | _ \<Rightarrow> cv2)"

definition drawBody :: "pdfEnv \<Rightarrow> renderSection \<Rightarrow> rat list \<Rightarrow> canvas \<Rightarrow> canvas" where
  "drawBody env sec widths cv =
     (if rs_rows sec = [] then
        down 34 (plainText_pdf env ''No records match the selected filters.'' MARGIN (cv_y cv + 8) (innerWidth env) Centred cv)
      else let cv1 = drawRows env (rs_columns sec) widths (rs_rows sec) cv in
        down 20 (if list_ex rc_total (rs_columns sec) then
          drawTotals env sec widths (if bottomOf env < cv_y cv1 + ROW_H then addPage cv1 else cv1) else cv1))"

definition drawSection :: "pdfEnv \<Rightarrow> renderSection \<Rightarrow> canvas \<Rightarrow> canvas" where
  "drawSection env sec cv =
     (let widths = columnWidths env sec in
      drawBody env sec widths (drawTableHeader env (rs_columns sec) widths (sectionIntro env sec cv)))"

text \<open>The footers, on every page, when all is drawn.\<close>

definition drawFooters :: "pdfEnv \<Rightarrow> renderDocument \<Rightarrow> canvas \<Rightarrow> canvas" where
  "drawFooters env doc cv = fold (\<lambda>i cv.
     (let y = px_height env - MARGIN - 6 in
      cv\<lparr>cv_marks := cv_marks cv @
        [Glyphs i MARGIN y (Some (innerWidth env / 2)) AtLeft (px_safe env (''Kilo '' @ MIDDLE_DOT @ '' '' @ rn_title doc)),
         Glyphs i MARGIN y (Some (innerWidth env)) AtRight (px_safe env (''Page '' @ decimal (i + 1) @ '' of '' @ decimal (cv_page cv + 1)))]\<rparr>))
     [0..<cv_page cv + 1] cv"

text \<open>\<open>paper\<close> gives width and height of an A4 page, upright or landscape.\<close>

definition renderPdf :: "(bool \<Rightarrow> rat \<times> rat) \<Rightarrow> pdfEnv \<Rightarrow> instant \<Rightarrow> renderDocument \<Rightarrow> canvas" where
  "renderPdf paper env0 t doc =
     (let landscape = (5 < Max (set (0 # map (\<lambda>x. length (rs_columns x)) (rn_sections doc))));
          env = env0\<lparr>px_width := fst (paper landscape), px_height := snd (paper landscape), px_landscape := landscape\<rparr> in
      drawFooters env doc (fold (drawSection env) (rn_sections doc)
        (drawSummary env (rn_summary doc) (drawMeta env doc (drawHeader env t doc \<lparr>cv_page = 0, cv_y = 0, cv_marks = []\<rparr>)))))"

section \<open>Sharing the width\<close>

lemma length_updates [simp]: "length (fold (\<lambda>i ws. ws[i := f i]) is ws) = length ws"
  by (induction "is" arbitrary: ws) auto

lemma nth_updates: "j < length ws \<Longrightarrow> fold (\<lambda>i ws. ws[i := f i]) is ws ! j = (if j \<in> set is then f j else ws ! j)"
  by (induction "is" arbitrary: ws) (auto simp: nth_list_update)

lemma sum_list_parts: "(\<Sum>i\<leftarrow>xs. f i) = (\<Sum>i\<leftarrow>filter P xs. f i) + (\<Sum>i\<leftarrow>filter (\<lambda>i. \<not> P i) xs. (f i :: rat))"
  by (induction xs) auto

lemma sum_list_bound: "\<forall>i \<in> set xs. f i \<le> (b::rat) \<Longrightarrow> (\<Sum>i\<leftarrow>xs. f i) \<le> of_nat (length xs) * b"
  by (induction xs) (auto simp: algebra_simps intro: add_mono)

text \<open>Whoever is served got what it desired, which is at most a share of the room left.\<close>

definition served :: "rat list \<Rightarrow> rat \<Rightarrow> nat list \<Rightarrow> rat \<Rightarrow> rat list \<Rightarrow> bool" where
  "served desired width pending room widths \<longleftrightarrow>
     length widths = length desired \<and> distinct pending \<and> set pending \<subseteq> {..<length desired} \<and> pending \<noteq> []
     \<and> room < (\<Sum>i\<leftarrow>pending. desired ! i)
     \<and> room + (\<Sum>i \<in> {..<length desired} - set pending. desired ! i) = width
     \<and> (\<forall>i < length desired. i \<notin> set pending \<longrightarrow> widths ! i = desired ! i \<and> desired ! i \<le> room / of_nat (length pending))"

lemma shareRoom_fair:
  "served desired width pending room widths \<Longrightarrow>
   \<exists>share. shareRoom desired pending room widths = map (min share) desired \<and> sum_list (map (min share) desired) = width"
proof (induction desired pending room widths rule: shareRoom.induct)
  case (1 desired pending room widths)
  define share where "share = room / of_nat (length pending)"
  define fits where "fits = filter (\<lambda>i. desired ! i \<le> share) pending"
  define rest where "rest = filter (\<lambda>i. i \<notin> set fits) pending"
  have n: "0 < length pending" and len: "length widths = length desired" using 1(2) by (auto simp: served_def)
  show ?case
  proof (cases "fits = []")
    case True
    then have more: "share < desired ! i" if "i \<in> set pending" for i
      using that by (auto simp: fits_def filter_empty_conv not_le)
    have nth: "fold (\<lambda>i ws. ws[i := share]) pending widths ! i = min share (desired ! i)" if "i < length desired" for i
      using that 1(2) more [of i] by (auto simp: nth_updates served_def share_def)
    have eq: "fold (\<lambda>i ws. ws[i := share]) pending widths = map (min share) desired"
      by (rule nth_equalityI) (auto simp: len nth)
    have "sum_list (map (min share) desired) = (\<Sum>i<length desired. min share (desired ! i))"
      by (simp add: sum_list_sum_nth atLeast0LessThan)
    also have "\<dots> = (\<Sum>i \<in> {..<length desired} - set pending. min share (desired ! i)) + (\<Sum>i \<in> set pending. min share (desired ! i))"
      using 1(2) by (intro sum.subset_diff) (auto simp: served_def)
    also have "(\<Sum>i \<in> set pending. min share (desired ! i)) = (\<Sum>i \<in> set pending. share)"
      using more by (intro sum.cong) auto
    also have "\<dots> = room" using 1(2) n by (simp add: share_def distinct_card served_def)
    also have "(\<Sum>i \<in> {..<length desired} - set pending. min share (desired ! i)) = (\<Sum>i \<in> {..<length desired} - set pending. desired ! i)"
      using 1(2) by (intro sum.cong) (auto simp: served_def share_def)
    finally have "sum_list (map (min share) desired) = width" using 1(2) by (simp add: served_def)
    then show ?thesis using True eq by (subst shareRoom.simps) (auto simp: Let_def share_def fits_def)
  next
    case False
    let ?given = "\<Sum>i\<leftarrow>fits. desired ! i"
    have rest: "rest = filter (\<lambda>i. \<not> desired ! i \<le> share) pending" by (auto simp: rest_def fits_def intro: filter_cong)
    have parts: "(\<Sum>i\<leftarrow>pending. desired ! i) = ?given + (\<Sum>i\<leftarrow>rest. desired ! i)"
      unfolding fits_def rest by (rule sum_list_parts)
    have lens: "length pending = length fits + length rest"
      unfolding fits_def rest by (rule sum_length_filter_compl [symmetric])
    have given: "?given \<le> of_nat (length fits) * share" by (rule sum_list_bound) (auto simp: fits_def)
    have room: "room = of_nat (length fits) * share + of_nat (length rest) * share"
    proof -
      have "room = of_nat (length pending) * share" using n by (simp add: share_def)
      then show ?thesis by (simp add: lens distrib_right)
    qed
    have less: "room - ?given < (\<Sum>i\<leftarrow>rest. desired ! i)" using 1(2) parts by (simp add: served_def)
    have ne: "rest \<noteq> []" using less given room by (cases rest) auto
    have share': "share \<le> (room - ?given) / of_nat (length rest)" using ne given room by (simp add: field_simps)
    have sub: "set fits \<subseteq> set pending" "set rest = set pending - set fits" by (auto simp: fits_def rest_def)
    have dist: "distinct fits" "distinct rest" "set pending \<subseteq> {..<length desired}"
      using 1(2) by (auto simp: fits_def rest_def served_def)
    have "{..<length desired} - set rest = ({..<length desired} - set pending) \<union> set fits" using sub dist by auto
    then have "(\<Sum>i \<in> {..<length desired} - set rest. desired ! i)
        = (\<Sum>i \<in> {..<length desired} - set pending. desired ! i) + ?given"
      using sub dist by (simp add: sum.union_disjoint sum_list_distinct_conv_sum_set Diff_Int_distrib2 subset_iff disjoint_iff)
    then have total: "room - ?given + (\<Sum>i \<in> {..<length desired} - set rest. desired ! i) = width" using 1(2) by (simp add: served_def)
    have finished: "fold (\<lambda>i ws. ws[i := desired ! i]) fits widths ! i = desired ! i \<and> desired ! i \<le> (room - ?given) / of_nat (length rest)"
      if i: "i < length desired" "i \<notin> set rest" for i
    proof (cases "i \<in> set fits")
      case True
      then have "desired ! i \<le> share" by (simp add: fits_def)
      then show ?thesis using True i(1) len share' by (simp add: nth_updates)
    next
      case False
      then have "i \<notin> set pending" using i sub by auto
      then have "widths ! i = desired ! i" "desired ! i \<le> share" using 1(2) i(1) by (auto simp: served_def share_def)
      then show ?thesis using False i(1) len share' by (simp add: nth_updates)
    qed
    have "served desired width rest (room - ?given) (fold (\<lambda>i ws. ws[i := desired ! i]) fits widths)"
      using len dist sub ne less total finished by (auto simp: served_def)
    note IH = 1(1) [OF share_def fits_def False refl refl rest_def ne this]
    have "shareRoom desired pending room widths = shareRoom desired rest (room - ?given) (fold (\<lambda>i ws. ws[i := desired ! i]) fits widths)"
      using False ne by (subst shareRoom.simps) (simp add: Let_def share_def [symmetric] fits_def [symmetric] rest_def [symmetric])
    then show ?thesis using IH by simp
  qed
qed

lemma desiredWidth_pos: "38 \<le> desiredWidth env sec col"
  by (simp add: desiredWidth_def Let_def)

lemma desired_pos: "cols \<noteq> [] \<Longrightarrow> 0 < sum_list (map (desiredWidth env sec) cols)"
proof (induction cols)
  case (Cons col cols)
  have "0 \<le> desiredWidth env sec c" for c using desiredWidth_pos [of env sec c] by linarith
  then have "0 \<le> sum_list (map (desiredWidth env sec) cols)" by (intro sum_list_nonneg) auto
  then show ?case using desiredWidth_pos [of env sec col] by simp
qed simp

lemma sum_list_nonpos: "share \<le> 0 \<Longrightarrow> sum_list (map (\<lambda>c. min share (f c)) cols) \<le> (0::rat)"
  by (induction cols) (auto simp: min_def)

lemma wide_table:
  assumes "innerWidth env < sum_list (map (desiredWidth env sec) (rs_columns sec))" and "rs_columns sec \<noteq> []"
  shows "\<exists>share. columnWidths env sec = map (\<lambda>col. min share (desiredWidth env sec col)) (rs_columns sec)
    \<and> sum_list (columnWidths env sec) = innerWidth env"
proof -
  let ?d = "map (desiredWidth env sec) (rs_columns sec)"
  have "served ?d (innerWidth env) [0..<length ?d] (innerWidth env) (replicate (length ?d) 0)"
    using assms by (auto simp: served_def interv_sum_list_conv_sum_set_nat sum_list_sum_nth atLeast0LessThan)
  from shareRoom_fair [OF this] show ?thesis using assms(1) by (auto simp: columnWidths_def Let_def comp_def)
qed

text \<open>C36: the columns of a printed table fill the page exactly: when they all fit, each gets what it needs times one
  factor of at least one; when they do not, each gets the smaller of what it needs and one common share, so only the
  longest columns are clipped.\<close>

theorem columns_fill_the_page:
  assumes "rs_columns sec \<noteq> []" and "0 < innerWidth env"
  shows "length (columnWidths env sec) = length (rs_columns sec) \<and> sum_list (columnWidths env sec) = innerWidth env
    \<and> ((\<exists>k \<ge> 1. columnWidths env sec = map (\<lambda>col. desiredWidth env sec col * k) (rs_columns sec))
      \<or> (\<exists>share > 0. columnWidths env sec = map (\<lambda>col. min share (desiredWidth env sec col)) (rs_columns sec)))"
proof (cases "innerWidth env < sum_list (map (desiredWidth env sec) (rs_columns sec))")
  case True
  obtain share where share: "columnWidths env sec = map (\<lambda>col. min share (desiredWidth env sec col)) (rs_columns sec)"
    "sum_list (columnWidths env sec) = innerWidth env" using wide_table [OF True assms(1)] by blast
  then have "0 < share" using sum_list_nonpos [of share "desiredWidth env sec" "rs_columns sec"] assms(2) by (force simp: not_less)
  then show ?thesis using share by auto
next
  case False
  let ?s = "sum_list (map (desiredWidth env sec) (rs_columns sec))"
  have pos: "0 < ?s" by (rule desired_pos [OF assms(1)])
  have eq: "columnWidths env sec = map (\<lambda>col. desiredWidth env sec col * (innerWidth env / ?s)) (rs_columns sec)"
    using False by (simp add: columnWidths_def Let_def comp_def)
  moreover have "sum_list (columnWidths env sec) = ?s * (innerWidth env / ?s)"
    unfolding eq by (rule sum_list_mult_const)
  then have "sum_list (columnWidths env sec) = innerWidth env" using pos by simp
  moreover have "1 \<le> innerWidth env / ?s" using False pos by (simp add: field_simps)
  ultimately show ?thesis by auto
qed

text \<open>Drawing: where a mark is, and what a step leaves as it was.\<close>

fun inPage :: "pdfEnv \<Rightarrow> mark \<Rightarrow> bool" where
  "inPage env (Box p x y w h) = (MARGIN \<le> y \<and> y + h \<le> bottomOf env + 2)"
| "inPage env (Glyphs p x y w al t) = (MARGIN \<le> y \<and> y + 11 \<le> bottomOf env + 2)"

definition drawnOn :: "pdfEnv \<Rightarrow> mark list \<Rightarrow> canvas \<Rightarrow> bool" where
  "drawnOn env old cv \<longleftrightarrow> MARGIN \<le> cv_y cv \<and> (\<exists>new. cv_marks cv = old @ new \<and> list_all (inPage env) new)"

lemma drawnOn_mark: "drawnOn env old cv \<Longrightarrow> inPage env m \<Longrightarrow> drawnOn env old (cv\<lparr>cv_marks := cv_marks cv @ [m]\<rparr>)"
  by (auto simp: drawnOn_def)

lemma drawnOn_down: "drawnOn env old cv \<Longrightarrow> 0 \<le> h \<Longrightarrow> drawnOn env old (down h cv)"
  by (auto simp: drawnOn_def down_def)

lemma drawnOn_page: "drawnOn env old cv \<Longrightarrow> drawnOn env old (addPage cv)"
  by (auto simp: drawnOn_def addPage_def)

lemma y_simps [simp]: "cv_y (down h cv) = cv_y cv + h" "cv_y (addPage cv) = MARGIN" "cv_y (box x y w h cv) = cv_y cv"
  "cv_y (plainText_pdf env t x y w al cv) = cv_y cv" "cv_y (clippedText env f z t x y w cv) = cv_y cv"
  "cv_y (cellText_pdf env f z t x y w al cv) = cv_y cv"
  by (simp_all add: down_def addPage_def box_def plainText_pdf_def clippedText_def cellText_pdf_def Let_def)

lemma drawnOn_marks:
  "drawnOn env old cv \<Longrightarrow> MARGIN \<le> y \<Longrightarrow> y + h \<le> bottomOf env + 2 \<Longrightarrow> drawnOn env old (box x y w h cv)"
  "drawnOn env old cv \<Longrightarrow> MARGIN \<le> y \<Longrightarrow> y + 11 \<le> bottomOf env + 2 \<Longrightarrow> drawnOn env old (plainText_pdf env t x y w al cv)"
  "drawnOn env old cv \<Longrightarrow> MARGIN \<le> y \<Longrightarrow> y + 11 \<le> bottomOf env + 2 \<Longrightarrow> drawnOn env old (clippedText env f z t x y w cv)"
  "drawnOn env old cv \<Longrightarrow> MARGIN \<le> y \<Longrightarrow> y + 11 \<le> bottomOf env + 2 \<Longrightarrow> drawnOn env old (cellText_pdf env f z t x y w al cv)"
  by (simp_all add: box_def plainText_pdf_def clippedText_def cellText_pdf_def Let_def drawnOn_mark)

lemma drawCells_keep:
  assumes "\<And>x w c cv. cv_y cv = y \<Longrightarrow> drawnOn env old cv \<Longrightarrow> cv_y (draw x w c cv) = y \<and> drawnOn env old (draw x w c cv)"
  shows "cv_y cv = y \<Longrightarrow> drawnOn env old cv \<Longrightarrow> cv_y (drawCells draw x cs cv) = y \<and> drawnOn env old (drawCells draw x cs cv)"
  using assms by (induction draw x cs cv rule: drawCells.induct) auto

lemma drawTableHeader_ok:
  assumes "drawnOn env old cv" and "cv_y cv + HEAD_H \<le> bottomOf env"
  shows "cv_y (drawTableHeader env cols widths cv) = cv_y cv + HEAD_H \<and> drawnOn env old (drawTableHeader env cols widths cv)"
proof -
  let ?draw = "\<lambda>x w col cv. cellText_pdf env FONT_BOLD 8 (ec_header col) x (cv_y cv + 7) w (alignOf (orElse (ec_format col) [])) cv"
  let ?b = "box MARGIN (cv_y cv) (innerWidth env) HEAD_H cv"
  have y: "MARGIN \<le> cv_y cv" using assms(1) by (simp add: drawnOn_def)
  have start: "drawnOn env old ?b" using assms y by (intro drawnOn_marks) auto
  have step: "cv_y (?draw x w c cv') = cv_y cv \<and> drawnOn env old (?draw x w c cv')" if "cv_y cv' = cv_y cv" "drawnOn env old cv'" for x w c cv'
    using that y assms(2) by (auto simp: HEAD_H_def intro!: drawnOn_marks)
  have "cv_y (drawCells ?draw MARGIN (zip cols widths) ?b) = cv_y cv \<and> drawnOn env old (drawCells ?draw MARGIN (zip cols widths) ?b)"
    by (rule drawCells_keep [OF step _ start]) auto
  then show ?thesis by (auto simp: drawTableHeader_def HEAD_H_def intro!: drawnOn_down)
qed

lemma drawCell_ok:
  assumes "drawnOn env old cv" and "cv_y cv + ROW_H \<le> bottomOf env"
  shows "cv_y (drawCell env r x w col cv) = cv_y cv \<and> drawnOn env old (drawCell env r x w col cv)"
  using assms by (auto simp: drawCell_def drawPill_def Let_def ROW_H_def drawnOn_def [of _ _ cv] intro!: drawnOn_marks)

lemma drawRow_ok:
  assumes "drawnOn env old cv" and "cv_y cv + ROW_H \<le> bottomOf env"
  shows "drawnOn env old (drawRow env cols widths r banded cv)"
proof -
  have "drawnOn env old (if banded then box MARGIN (cv_y cv) (innerWidth env) ROW_H cv else cv)"
    using assms by (auto simp: drawnOn_def [of _ _ cv] intro!: drawnOn_marks)
  from drawCells_keep [of "cv_y cv" env old "drawCell env r", OF _ _ this] show ?thesis
    using assms(2) drawCell_ok unfolding drawRow_def by (auto simp: ROW_H_def intro!: drawnOn_down)
qed

lemma drawRows_ok:
  assumes "drawnOn env old cv" and "MARGIN + 116 \<le> bottomOf env"
  shows "drawnOn env old (drawRows env cols widths rows cv)"
proof -
  let ?step = "\<lambda>(i, r) cv. drawRow env cols widths r (i mod 2 = 1)
    (if bottomOf env < cv_y cv + ROW_H then drawTableHeader env cols widths (addPage cv) else cv)"
  have step: "drawnOn env old (?step ir cv)" if "drawnOn env old cv" for ir :: "nat \<times> row" and cv
  proof -
    let ?c = "if bottomOf env < cv_y cv + ROW_H then drawTableHeader env cols widths (addPage cv) else cv"
    have "drawnOn env old ?c \<and> cv_y ?c + ROW_H \<le> bottomOf env"
      using that assms(2) drawTableHeader_ok [OF drawnOn_page [OF that]] by (auto simp: HEAD_H_def ROW_H_def)
    then show ?thesis by (cases ir) (auto intro!: drawRow_ok)
  qed
  have "drawnOn env old (fold ?step irs cv)" for irs :: "(nat \<times> row) list"
    by (rule fold_invariant [where Q = "\<lambda>_. True"]) (use assms(1) step in blast)+
  then show ?thesis by (simp add: drawRows_def)
qed

lemma drawTotals_ok:
  assumes "drawnOn env old cv" and "cv_y cv + ROW_H \<le> bottomOf env"
  shows "drawnOn env old (drawTotals env sec widths cv)"
proof -
  let ?draw = "\<lambda>x w (i, col) cv.
         (let t = (if rc_total col then formatTotal env (rs_rows sec) col else if i = (0::nat) then ''Total'' else []) in
          if t \<noteq> [] then cellText_pdf env FONT_BOLD 8 t x (cv_y cv + 6) w (alignOf (orElse (ec_format col) [])) cv else cv)"
  let ?b = "box MARGIN (cv_y cv) (innerWidth env) (ROW_H + 2) cv"
  have y: "MARGIN \<le> cv_y cv" using assms(1) by (simp add: drawnOn_def)
  have start: "drawnOn env old ?b" using assms y by (intro drawnOn_marks) auto
  have step: "cv_y (?draw x w c cv') = cv_y cv \<and> drawnOn env old (?draw x w c cv')" if "cv_y cv' = cv_y cv" "drawnOn env old cv'" for x w c cv'
    using that y assms(2) by (auto simp: ROW_H_def Let_def split: prod.split intro!: drawnOn_marks)
  have "drawnOn env old (drawCells ?draw MARGIN (zip (List.enumerate 0 (rs_columns sec)) widths) ?b)"
    by (rule conjunct2, rule drawCells_keep [OF step _ start]) auto
  then show ?thesis by (auto simp: drawTotals_def ROW_H_def intro!: drawnOn_down)
qed

lemma noteLine_ok:
  assumes "drawnOn env old cv" and "MARGIN + 4 \<le> cv_y cv" and "cv_y cv + 12 \<le> bottomOf env"
  shows "drawnOn env old (noteLine env t cv) \<and> cv_y (noteLine env t cv) = cv_y cv + 12"
  using assms by (auto simp: noteLine_def intro!: drawnOn_down drawnOn_marks)

lemma sectionIntro_ok:
  assumes "drawnOn env old cv" and room: "MARGIN + 116 \<le> bottomOf env"
  shows "drawnOn env old (sectionIntro env sec cv) \<and> cv_y (sectionIntro env sec cv) + 66 \<le> bottomOf env"
proof -
  let ?e = "ensureRoom env (HEAD_H + ROW_H * 3 + 40) cv"
  have e: "drawnOn env old ?e" "cv_y ?e + 116 \<le> bottomOf env" "MARGIN \<le> cv_y ?e"
    using assms drawnOn_page [OF assms(1)] by (auto simp: ensureRoom_def HEAD_H_def ROW_H_def drawnOn_def [of _ _ cv])
  define cv1 where "cv1 = sectionHeading env (orElse (rs_title sec) (rs_name sec)) ?e"
  have cv1: "drawnOn env old cv1" "cv_y cv1 = cv_y ?e + 26"
    using e by (auto simp: cv1_def sectionHeading_def intro!: drawnOn_down drawnOn_marks)
  define cv2 where "cv2 = (if truthy (rs_description sec) then noteLine env (the (rs_description sec)) cv1 else cv1)"
  have cv2: "drawnOn env old cv2" "cv_y cv2 \<le> cv_y ?e + 38" "MARGIN + 4 \<le> cv_y cv2"
    using cv1 e noteLine_ok [OF cv1(1)] by (auto simp: cv2_def)
  have "cv_y cv2 + 12 \<le> bottomOf env" using cv2(2) e(2) by linarith
  note note_ok = noteLine_ok [OF cv2(1,3) this]
  have "sectionIntro env sec cv = (case rs_truncatedFrom sec of
      Some (Suc n) \<Rightarrow> noteLine env (''Showing the '' @ recordsNote (length (rs_rows sec)) (Suc n) @ '' matching records '' @ EM_DASH
        @ '' narrow the filters to export the rest.'') cv2
    | _ \<Rightarrow> cv2)"
    unfolding sectionIntro_def Let_def cv1_def cv2_def by (rule refl)
  then show ?thesis using note_ok cv2(1,2) e(2) by (auto split: option.split nat.split)
qed

lemma drawBody_ok:
  assumes "drawnOn env old cv" and "cv_y cv + 44 \<le> bottomOf env" and room: "MARGIN + 116 \<le> bottomOf env"
  shows "drawnOn env old (drawBody env sec widths cv)"
proof -
  define cv1 where "cv1 = drawRows env (rs_columns sec) widths (rs_rows sec) cv"
  have cv1: "drawnOn env old cv1" unfolding cv1_def by (rule drawRows_ok [OF assms(1) room])
  have totals: "drawnOn env old (drawTotals env sec widths (if bottomOf env < cv_y cv1 + ROW_H then addPage cv1 else cv1))"
    using cv1 drawnOn_page [OF cv1] room by (intro drawTotals_ok) (auto simp: ROW_H_def)
  have "MARGIN \<le> cv_y cv" using assms(1) by (simp add: drawnOn_def)
  then have empty: "drawnOn env old (plainText_pdf env ''No records match the selected filters.'' MARGIN (cv_y cv + 8) (innerWidth env) Centred cv)"
    using assms(1,2) by (intro drawnOn_marks) auto
  show ?thesis unfolding drawBody_def cv1_def [symmetric] Let_def
    using cv1 totals empty by (auto intro: drawnOn_down)
qed

lemma drawSection_ok:
  assumes "drawnOn env old cv" and room: "MARGIN + 116 \<le> bottomOf env"
  shows "drawnOn env old (drawSection env sec cv)"
proof -
  have intro: "drawnOn env old (sectionIntro env sec cv)" "cv_y (sectionIntro env sec cv) + 66 \<le> bottomOf env"
    using sectionIntro_ok [OF assms] by blast+
  have "cv_y (sectionIntro env sec cv) + HEAD_H \<le> bottomOf env" using intro(2) by (simp add: HEAD_H_def)
  note header = drawTableHeader_ok [OF intro(1) this, of "rs_columns sec" "columnWidths env sec"]
  show ?thesis unfolding drawSection_def Let_def
    by (rule drawBody_ok [OF conjunct2 [OF header] _ room]) (use header intro(2) in \<open>simp add: HEAD_H_def\<close>)
qed

text \<open>The tables of a printed document stay on their pages: wherever the drawing of the sections starts, every box
  and every line of text that it adds lies between the top margin and the strip that is kept for the footer (which
  the bar of the totals may enter by two points), whatever the number of rows and whatever the texts.\<close>

theorem tables_stay_on_their_pages:
  assumes "MARGIN + 116 \<le> bottomOf env" and "MARGIN \<le> cv_y cv"
  shows "\<exists>new. cv_marks (fold (drawSection env) secs cv) = cv_marks cv @ new \<and> list_all (inPage env) new"
proof -
  have "drawnOn env old (fold (drawSection env) secs c)" if "drawnOn env old c" for old c
    using that by (induction secs arbitrary: c) (auto intro: drawSection_ok [OF _ assms(1)])
  moreover have "drawnOn env (cv_marks cv) cv" using assms(2) by (simp add: drawnOn_def)
  ultimately show ?thesis by (auto simp: drawnOn_def)
qed

section \<open>Examples\<close>

definition uprightA4 :: pdfEnv where
  "uprightA4 = \<lparr>px_width = 595, px_height = 842, px_landscape = False, px_ruler = (\<lambda>f s t. 4 * of_nat (length t)), px_safe = (\<lambda>t. t),
     px_parse = (\<lambda>t. None), px_show = (\<lambda>x. [])\<rparr>"

definition fleetSection :: renderSection where
  "fleetSection = \<lparr>rs_name = ''Fleet'', rs_title = None, rs_description = None,
     rs_columns = [\<lparr>ec_key = ''name'', ec_header = ''Driver'', ec_format = None, ec_formatBy = None, rc_width = None, rc_total = False\<rparr>,
       \<lparr>ec_key = ''trips'', ec_header = ''Trips'', ec_format = Some ''integer'', ec_formatBy = None, rc_width = None, rc_total = True\<rparr>],
     rs_rows = [[(''name'', Txt ''Ada''), (''trips'', Num 3)]], rs_truncatedFrom = None\<rparr>"

theorem columns_fill_the_page_witness:
  "sum_list (columnWidths uprightA4 fleetSection) = 523"
  using columns_fill_the_page [of fleetSection uprightA4] by (simp add: fleetSection_def uprightA4_def innerWidth_def MARGIN_def)

theorem tables_stay_on_their_pages_witness:
  "\<exists>new. cv_marks (fold (drawSection uprightA4) [fleetSection, fleetSection] \<lparr>cv_page = 0, cv_y = 200, cv_marks = []\<rparr>) = new
    \<and> list_all (inPage uprightA4) new"
  using tables_stay_on_their_pages [of uprightA4 "\<lparr>cv_page = 0, cv_y = 200, cv_marks = []\<rparr>" "[fleetSection, fleetSection]"]
  by (simp add: uprightA4_def bottomOf_def MARGIN_def FOOTER_RESERVE_def)

end
