(* ===== verification/Spec2Isabelle.thy ===== *)
theory Spec2Isabelle
  imports RaceProps DispatchProps PaymentProps StaffProps DeliveryProps SuspensionProps BackOffice Kilowatt Places PartnerProps ExportProps HistoryProps Idempotency Gateways Integrations Listings EndpointProps PdfLayout
begin

text \<open>
  A verification of the Kilo backend (src/src, NestJS services over PostgreSQL and Redis): rides,
  their prices, the money that moves when they end, and the accounts that take part.

  How a service is modelled.  A service method is an action, a function from the database to a
  thrown error or a returned value and the next database (Prelude).  The database is the record
  \<open>db\<close> of Schema: one list of rows per table of src/prisma/schema.prisma, the Redis cache entries,
  the clock, the supply of random identifiers, and an outbox of everything the services send.
  \<open>prisma.$transaction\<close> is \<open>atomic\<close>; outside it a throw keeps what was already written.
  Money is an exact rational; a write to a \<open>Decimal(18, 2)\<close> column rounds it (Money).  Names follow
  the source; the columns carry the initials of their table.

  Components.
  Money: the roundings of pricing.service.ts, payments.service.ts and of the money columns.
  Schema: enums, rows, errors, messages, the database.
  Ledger: wallet/wallet.service.ts, every method.  LedgerLaws: the invariant \<open>ledgerOk\<close> (balanced
  transactions, every balance is the sum of its entries, unique references, no negative user
  balance) and that posting keeps it.  LedgerMoves: the locale \<open>ledger_movement\<close>, the contract every
  wallet movement shares (keeps the invariant, is idempotent by reference, moves exactly its
  amounts), interpreted for each movement.  WalletProps: conservation, replay, refunds, shares.
  Pricing: pricing/pricing.service.ts, platform-config and service-areas.  Promo: promo codes.
  Quote: pricing/quote.service.ts.  Caches: the locale \<open>cache_aside\<close> and its extension
  \<open>invalidating_cache\<close>, interpreted for the four Redis caches.  PricingProps: tariff choice, current
  reads, fares and quotes.
  Dispatch: rides/dispatch.service.ts.  Trip: trip.service.ts and cancellation.service.ts.  Rides:
  rides.service.ts.  RideLife: the state machine of a ride as the inductive \<open>rideStep\<close>, every
  operation as an event, the databases that interleavings of whole operations reach, and that every
  operation advances every ride along the machine.  RideProps and RaceProps: the properties of rides
  and of drivers competing for one.
  Payments: wallet/payments.service.ts and the Paystack webhook; PaymentProps: a payment is credited
  once.
  Text: strings, numerals, durations.  Accounts: accounts/otp.service.ts, sessions.service.ts and
  refresh-token rotation.  Auth: the rest of auth.service.ts and email-verification.service.ts.
  Staff: roles, invitations, staff administration, social sign-in, and the guards of common/guards.
  Delivery and DeliveryTrip: logistics-dispatch.service.ts and logistics-trip.service.ts; Logistics:
  logistics.service.ts.  Tables: the locale \<open>row_table\<close>, the contract of a table whose rows have a life,
  interpreted for deliveries and rides in DeliveryLife, which shows that every operation keeps it;
  Frames: what payments and prices leave alone.  DeliveryProps: the properties of deliveries.
  AuthProps and StaffProps: reset links, refresh tokens, guesses, revoked sessions, permissions.
  DispatchProps: a round of offers ends.  SuspensionProps: what suspending an account leaves alone.

  Business: business.service.ts and business-invoices.service.ts.  AdminLogistics:
  admin-logistics.service.ts.  Kilowatt: src/kilowatt.  Partners: src/partnerships; PartnerProps: the
  search for a free referral code ends.  Places: saved places, driver profiles, user profiles.
  Kyc: src/kyc.  Support: src/support.  Notify: src/notifications.  Listings: the plain reads and edits
  of rides, promos, invitations, prices and areas.

  Finance: wallet/admin-finance.service.ts and admin-ops/analytics.service.ts.  AdminOps, AdminDetail:
  admin-ops.service.ts (dashboard, lists, switches; exports, pages, histories).  AdminRides:
  admin-rides.service.ts.  BackOffice: the export documents of the other services.  Reports:
  src/reports.  Numbers, Csv, Exports, Buckets, Paging: numerals, the CSV writer and a reader of the
  format, export documents, the buckets of the charts over the UTC calendar, page envelopes; ExportProps:
  an exported file reads back.  Sheets and PdfLayout: excel.renderer.ts and pdf.renderer.ts, the cells of
  the workbook and the boxes and texts of the pages.  History: the Activity tab; WalletHistory: the wallet screen; Merge: the
  windows of merged sorted lists; HistoryProps: pages are the whole past, lines add up to the balance.
  Idempotency: the interceptor of the payment endpoints.

  Clients and Integrations: the clients under src/integrations around their calls.  Gateways: the two
  socket gateways, and that live tracking reaches only participants.  Routes: decorators, guards, paths
  and the choice of a handler; Endpoints: all 46 controllers; EndpointProps: the admin side is staff only,
  and every request reaches the handler its path is meant for.

  How the parts meet.  A booking (Rides) prices a route (Quote, Pricing, Promo), Dispatch offers it,
  Trip ends it and pays through Ledger; Delivery and Logistics do the same with Business as a second
  payer; Payments feeds and drains Ledger.  Auth and Staff issue the tokens and permissions that Routes
  checks before any of them runs, and the outbox of every service is what Gateways delivers.

  Parameters.  Redis GEOSEARCH (\<open>geosearch\<close>), the distance matrix, the haversine estimate
  (floating-point trigonometry), Paystack (\<open>paystack\<close>), push, files and identity checks
  (\<open>clients\<close>), SHA-256, argon2, JWT and the mail and SMS clients (\<open>authEnv\<close>, \<open>jwt\<close>, \<open>hmac\<close>), a call to
  a service over the network (\<open>fetch\<close>), the short identifier the database generates (\<open>publicId\<close>), the
  widths of texts in a font and the normal forms of Unicode, the parsing and display of dates and phone numbers, and the collation of names (\<open>rank\<close>) are arguments of
  the definitions that use them; nothing is assumed of them, except where a property names the law it
  uses.

  Bounds.  All loops of the modelled code are over lists or, for the draws of a referral code, counted,
  so recursion is structural and no fuel is needed.

  Not modelled.  Modules, dependency injection and the bootstrap (declarations for NestJS); the DTO
  classes (the services are modelled on values that pass the validation); rate limiting, beyond the
  limit of each endpoint; colours, borders and cell fonts of the PDF and Excel files and the HTML of the
  mail templates (presentation, through third-party libraries); subtitles, column widths and totals in the
  export documents of the services, and metadata columns; the seed scripts.  The database is modelled per statement:
  isolation below whole statements is not; coordinates are exact rationals instead of doubles.
  Interleaving is modelled between whole operations and, where two requests may race, between the
  named halves of an operation (\<open>claimRide\<close>, \<open>transitionCheck\<close>).
\<close>

end
